(* ===== verification/Rust_Prelude.thy ===== *)
theory Rust_Prelude
  imports Main "HOL-Library.Word"
begin

text \<open>
  What the Rust standard library gives the program, as far as the modelled code uses it:
  results, byte slices, big-endian integers, Unicode text with its UTF-8 encoding, and the
  \<open>str\<close> methods (trimming, splitting, prefixes, ASCII case, number parsing). Text is the list of
  its Unicode scalar values, so \<open>chars().count()\<close> is \<open>length\<close> and \<open>len()\<close> is the length of
  the UTF-8 encoding. Byte and wire integers are words of their width; a \<open>usize\<close> position in a
  slice is a \<open>nat\<close>, because a slice is shorter than the address space and every checked addition
  on positions is followed by a bounds check that reports the same error.
\<close>

section \<open>Types\<close>

type_synonym u8 = "8 word"
type_synonym u16 = "16 word"
type_synonym u32 = "32 word"
type_synonym bytes = "u8 list"
type_synonym uchar = nat
type_synonym ustr = "uchar list"

named_theorems result_simps "rules that push results through their continuations"
named_theorems ustr_simps "length and membership rules of the text functions"

abbreviation lit :: "string \<Rightarrow> ustr" where
  "lit s \<equiv> map of_char s"

section \<open>Results and options\<close>

fun and_then :: "'e + 'a \<Rightarrow> ('a \<Rightarrow> 'e + 'b) \<Rightarrow> 'e + 'b" where
  "and_then (Inl e) f = Inl e"
| "and_then (Inr x) f = f x"

definition ok_or :: "'a option \<Rightarrow> 'e \<Rightarrow> 'e + 'a" where
  "ok_or r e = (case r of None \<Rightarrow> Inl e | Some x \<Rightarrow> Inr x)"

definition map_err :: "('e \<Rightarrow> 'f) \<Rightarrow> 'e + 'a \<Rightarrow> 'f + 'a" where
  "map_err f r = (case r of Inl e \<Rightarrow> Inl (f e) | Inr x \<Rightarrow> Inr x)"

definition ok :: "'e + 'a \<Rightarrow> 'a option" where
  "ok r = (case r of Inl _ \<Rightarrow> None | Inr x \<Rightarrow> Some x)"

fun is_ok :: "'e + 'a \<Rightarrow> bool" where
  "is_ok (Inl _) = False"
| "is_ok (Inr _) = True"

lemma and_then_Inr_iff [result_simps]:
  "and_then m f = Inr y \<longleftrightarrow> (\<exists>x. m = Inr x \<and> f x = Inr y)"
  by (cases m) auto

lemma and_then_Inl_iff [result_simps]:
  "and_then m f = Inl e \<longleftrightarrow> m = Inl e \<or> (\<exists>x. m = Inr x \<and> f x = Inl e)"
  by (cases m) auto

lemma ok_or_simps [simp]: "ok_or None e = Inl e" "ok_or (Some x) e = Inr x"
  by (simp_all add: ok_or_def)

lemma ok_or_Inr_iff [result_simps]: "ok_or r e = Inr x \<longleftrightarrow> r = Some x"
  by (cases r) auto

lemma ok_or_Inl_iff [result_simps]: "ok_or r e = Inl e' \<longleftrightarrow> r = None \<and> e' = e"
  by (cases r) auto

lemma map_err_simps [simp]: "map_err f (Inl e) = Inl (f e)" "map_err f (Inr x) = Inr x"
  by (simp_all add: map_err_def)

lemma map_err_Inr_iff [result_simps]: "map_err f r = Inr x \<longleftrightarrow> r = Inr x"
  by (cases r) auto

lemma ok_simps [simp]: "ok (Inl e) = None" "ok (Inr x) = Some x"
  by (simp_all add: ok_def)

lemma ok_Some_iff [result_simps]: "ok r = Some x \<longleftrightarrow> r = Inr x"
  by (cases r) auto

lemma ok_None_iff [result_simps]: "ok r = None \<longleftrightarrow> (\<exists>e. r = Inl e)"
  by (cases r) auto

lemma is_ok_iff: "is_ok r \<longleftrightarrow> (\<exists>x. r = Inr x)"
  by (cases r) auto

lemma and_then_cong [fundef_cong]:
  "m = m' \<Longrightarrow> (\<And>x. m' = Inr x \<Longrightarrow> f x = g x) \<Longrightarrow> and_then m f = and_then m' g"
  by (cases m') auto

section \<open>Slices\<close>

definition slice_at :: "'a list \<Rightarrow> nat \<Rightarrow> 'a option" where
  "slice_at xs i = (if i < length xs then Some (xs ! i) else None)"

definition slice_get :: "'a list \<Rightarrow> nat \<Rightarrow> nat \<Rightarrow> 'a list option" where
  "slice_get xs a b =
     (if a \<le> b \<and> b \<le> length xs then Some (take (b - a) (drop a xs)) else None)"

lemma slice_at_Some_iff: "slice_at xs i = Some x \<longleftrightarrow> i < length xs \<and> xs ! i = x"
  by (auto simp: slice_at_def)

lemma slice_get_Some_iff:
  "slice_get xs a b = Some ys \<longleftrightarrow> a \<le> b \<and> b \<le> length xs \<and> ys = take (b - a) (drop a xs)"
  by (auto simp: slice_get_def)

lemma slice_at_append [simp]:
  "slice_at (xs @ y # ys) (length xs) = Some y"
  by (simp add: slice_at_def)

lemma slice_get_append [simp]:
  "slice_get (xs @ ys @ zs) (length xs) (length xs + length ys) = Some ys"
  by (simp add: slice_get_def)

section \<open>Big-endian integers\<close>

definition to_be16 :: "u16 \<Rightarrow> bytes" where
  "to_be16 w = [ucast (drop_bit 8 w), ucast w]"

definition from_be16 :: "u8 \<Rightarrow> u8 \<Rightarrow> u16" where
  "from_be16 a b = push_bit 8 (ucast a) + ucast b"

definition to_be32 :: "u32 \<Rightarrow> bytes" where
  "to_be32 w = [ucast (drop_bit 24 w), ucast (drop_bit 16 w), ucast (drop_bit 8 w), ucast w]"

definition from_be32 :: "u8 \<Rightarrow> u8 \<Rightarrow> u8 \<Rightarrow> u8 \<Rightarrow> u32" where
  "from_be32 a b c d =
     of_nat (unat a * 16777216 + unat b * 65536 + unat c * 256 + unat d)"

lemma length_to_be16 [simp]: "length (to_be16 w) = 2"
  by (simp add: to_be16_def)

lemma length_to_be32 [simp]: "length (to_be32 w) = 4"
  by (simp add: to_be32_def)

lemma unat_u8_less: "unat (a :: u8) < 256"
  using unsigned_less [of a, where ?'a = nat] by simp

lemma unat_u16_less: "unat (a :: u16) < 65536"
  using unsigned_less [of a, where ?'a = nat] by simp

lemma unat_u32_less: "unat (a :: u32) < 4294967296"
  using unsigned_less [of a, where ?'a = nat] by simp

lemma unat_ucast_byte: "unat (ucast (w :: 'a::len word) :: u8) = unat w mod 256"
  by (simp add: unsigned_ucast_eq take_bit_eq_mod)

lemma unat_drop: "unat (drop_bit n (w :: 'a::len word)) = unat w div 2 ^ n"
  unfolding unat_drop_bit_eq by (rule drop_bit_eq_div)

lemma unat_to_be16: "map unat (to_be16 w) = [unat w div 256, unat w mod 256]"
  using unat_u16_less [of w]
  by (simp add: to_be16_def unat_ucast_byte unat_drop)

lemma unat_from_be16: "unat (from_be16 a b) = unat a * 256 + unat b"
proof -
  have "unat (ucast a :: u16) = unat a" "unat (ucast b :: u16) = unat b"
    using unat_u8_less [of a] unat_u8_less [of b]
    by (simp_all add: unsigned_ucast_eq take_bit_eq_mod)
  with unat_u8_less [of a] unat_u8_less [of b] show ?thesis
    by (simp add: from_be16_def push_bit_eq_mult unat_word_ariths)
qed

lemma from_to_be16: "from_be16 (to_be16 w ! 0) (to_be16 w ! 1) = w"
proof -
  have "unat (to_be16 w ! 0) = unat w div 256" "unat (to_be16 w ! 1) = unat w mod 256"
    using unat_to_be16 [of w] by (simp_all add: to_be16_def)
  then show ?thesis
    by (subst word_unat_eq_iff) (simp add: unat_from_be16)
qed

lemma to_from_be16: "to_be16 (from_be16 a b) = [a, b]"
proof -
  have "map unat (to_be16 (from_be16 a b)) = map unat [a, b]"
    using unat_u8_less [of b] by (simp add: unat_to_be16 unat_from_be16)
  then show ?thesis
    by (simp add: to_be16_def word_unat_eq_iff)
qed

lemma unat_to_be32:
  "map unat (to_be32 w) =
     [unat w div 16777216, unat w div 65536 mod 256, unat w div 256 mod 256, unat w mod 256]"
  using unat_u32_less [of w]
  by (simp add: to_be32_def unat_ucast_byte unat_drop)

lemma unat_from_be32:
  "unat (from_be32 a b c d) = unat a * 16777216 + unat b * 65536 + unat c * 256 + unat d"
proof -
  have "unat a * 16777216 + unat b * 65536 + unat c * 256 + unat d < 4294967296"
    using unat_u8_less [of a] unat_u8_less [of b] unat_u8_less [of c] unat_u8_less [of d]
    by linarith
  then show ?thesis
    unfolding from_be32_def unat_of_nat by (intro mod_less) simp
qed

lemma div_digits_256:
  fixes n :: nat
  shows "n div 16777216 * 16777216 + n div 65536 mod 256 * 65536 + n div 256 mod 256 * 256
    + n mod 256 = n"
proof -
  define p where "p = n div 256"
  define q where "q = p div 256"
  have n: "n = p * 256 + n mod 256" and p: "p = q * 256 + p mod 256"
    and q: "q = q div 256 * 256 + q mod 256"
    unfolding p_def q_def by (simp_all only: div_mult_mod_eq)
  have "n div 65536 = q" "n div 16777216 = q div 256"
    using div_mult2_eq [of n 256 256] div_mult2_eq [of n 256 65536] div_mult2_eq [of p 256 256]
    by (simp_all add: p_def q_def)
  moreover have "q div 256 * 16777216 + q mod 256 * 65536 = q * 65536"
    using q by linarith
  moreover have "q * 65536 + p mod 256 * 256 = p * 256"
    using p by linarith
  ultimately show ?thesis
    using n by (simp add: p_def)
qed

lemma from_to_be32:
  "from_be32 (to_be32 w ! 0) (to_be32 w ! 1) (to_be32 w ! 2) (to_be32 w ! 3) = w"
proof -
  have "unat (to_be32 w ! 0) = unat w div 16777216" "unat (to_be32 w ! 1) = unat w div 65536 mod 256"
    "unat (to_be32 w ! 2) = unat w div 256 mod 256" "unat (to_be32 w ! 3) = unat w mod 256"
    using unat_to_be32 [of w] by (simp_all add: to_be32_def)
  then have "unat (from_be32 (to_be32 w ! 0) (to_be32 w ! 1) (to_be32 w ! 2) (to_be32 w ! 3)) = unat w"
    by (simp only: unat_from_be32 div_digits_256)
  then show ?thesis
    by (simp only: word_unat_eq_iff)
qed

end
