(* ===== verification/Rust_Text.thy ===== *)
theory Rust_Text
  imports Rust_Prelude
begin

text \<open>
  Unicode text: the scalar values, the UTF-8 encoding with its strict and its lossy decoder, the
  character classes, and the string methods of Rust's \<open>str\<close> that the program calls.
\<close>

section \<open>Scalar values and UTF-8\<close>

definition is_scalar :: "uchar \<Rightarrow> bool" where
  "is_scalar c \<longleftrightarrow> c < 0xD800 \<or> 0xE000 \<le> c \<and> c < 0x110000"

abbreviation wf_ustr :: "ustr \<Rightarrow> bool" where
  "wf_ustr s \<equiv> list_all is_scalar s"

definition utf8_char :: "uchar \<Rightarrow> nat list" where
  "utf8_char c =
     (if c < 0x80 then [c]
      else if c < 0x800 then [0xC0 + c div 64, 0x80 + c mod 64]
      else if c < 0x10000 then [0xE0 + c div 4096, 0x80 + c div 64 mod 64, 0x80 + c mod 64]
      else [0xF0 + c div 262144, 0x80 + c div 4096 mod 64, 0x80 + c div 64 mod 64, 0x80 + c mod 64])"

definition utf8_nats :: "ustr \<Rightarrow> nat list" where
  "utf8_nats s = concat (map utf8_char s)"

definition as_bytes :: "ustr \<Rightarrow> bytes" where
  "as_bytes s = map of_nat (utf8_nats s)"

abbreviation str_len :: "ustr \<Rightarrow> nat" where
  "str_len s \<equiv> length (as_bytes s)"

definition len_utf8 :: "uchar \<Rightarrow> nat" where
  "len_utf8 c = length (utf8_char c)"

text \<open>
  One step of the decoder: the scalar value the bytes start with and its width, or no value and
  the width of the maximal ill-formed prefix, which the lossy decoder replaces by one U+FFFD.
\<close>

definition is_cont :: "nat \<Rightarrow> bool" where
  "is_cont b \<longleftrightarrow> 0x80 \<le> b \<and> b \<le> 0xBF"

definition second_ok :: "nat \<Rightarrow> nat \<Rightarrow> bool" where
  "second_ok b0 b1 \<longleftrightarrow>
     (if b0 = 0xE0 then 0xA0 \<le> b1 \<and> b1 \<le> 0xBF
      else if b0 = 0xED then 0x80 \<le> b1 \<and> b1 \<le> 0x9F
      else if b0 = 0xF0 then 0x90 \<le> b1 \<and> b1 \<le> 0xBF
      else if b0 = 0xF4 then 0x80 \<le> b1 \<and> b1 \<le> 0x8F
      else is_cont b1)"

definition utf8_step :: "nat list \<Rightarrow> uchar option \<times> nat" where
  "utf8_step bs =
     (case bs of
        [] \<Rightarrow> (None, 0)
      | b0 # r0 \<Rightarrow>
          if b0 < 0x80 then (Some b0, 1)
          else if b0 < 0xC2 \<or> 0xF4 < b0 then (None, 1)
          else (case r0 of
             [] \<Rightarrow> (None, 1)
           | b1 # r1 \<Rightarrow>
               if \<not> second_ok b0 b1 then (None, 1)
               else if b0 < 0xE0 then (Some ((b0 - 0xC0) * 64 + (b1 - 0x80)), 2)
               else (case r1 of
                  [] \<Rightarrow> (None, 2)
                | b2 # r2 \<Rightarrow>
                    if \<not> is_cont b2 then (None, 2)
                    else if b0 < 0xF0
                    then (Some ((b0 - 0xE0) * 4096 + (b1 - 0x80) * 64 + (b2 - 0x80)), 3)
                    else (case r2 of
                       [] \<Rightarrow> (None, 3)
                     | b3 # r3 \<Rightarrow>
                         if \<not> is_cont b3 then (None, 3)
                         else (Some ((b0 - 0xF0) * 262144 + (b1 - 0x80) * 4096
                                + (b2 - 0x80) * 64 + (b3 - 0x80)), 4)))))"

lemma utf8_step_pos: "bs \<noteq> [] \<Longrightarrow> 0 < snd (utf8_step bs)"
  by (auto simp: utf8_step_def split: list.splits)

lemma utf8_step_shrinks:
  "bs \<noteq> [] \<Longrightarrow> utf8_step bs = (a, n) \<Longrightarrow> length bs - n < length bs"
  using utf8_step_pos [of bs] by (cases bs) auto

function from_utf8_nats :: "nat list \<Rightarrow> ustr option" where
  "from_utf8_nats bs =
     (if bs = [] then Some []
      else (case utf8_step bs of
              (None, _) \<Rightarrow> None
            | (Some c, n) \<Rightarrow> map_option (Cons c) (from_utf8_nats (drop n bs))))"
  by pat_completeness auto
termination
  by (relation "measure length") (auto dest!: utf8_step_shrinks [OF _ sym])

function lossy_utf8_nats :: "nat list \<Rightarrow> ustr" where
  "lossy_utf8_nats bs =
     (if bs = [] then []
      else (case utf8_step bs of
              (None, n) \<Rightarrow> 0xFFFD # lossy_utf8_nats (drop n bs)
            | (Some c, n) \<Rightarrow> c # lossy_utf8_nats (drop n bs)))"
  by pat_completeness auto
termination
  by (relation "measure length") (auto dest!: utf8_step_shrinks [OF _ sym])

declare from_utf8_nats.simps [simp del] lossy_utf8_nats.simps [simp del]

definition from_utf8 :: "bytes \<Rightarrow> ustr option" where
  "from_utf8 bs = from_utf8_nats (map unat bs)"

definition from_utf8_lossy :: "bytes \<Rightarrow> ustr" where
  "from_utf8_lossy bs = lossy_utf8_nats (map unat bs)"

lemma small_bytes:
  "q < 32 \<Longrightarrow> r < 64 \<Longrightarrow> \<forall>b \<in> set [0xC0 + q, 0x80 + r]. b < (256 :: nat)"
  "q < 16 \<Longrightarrow> r < 64 \<Longrightarrow> s < 64 \<Longrightarrow> \<forall>b \<in> set [0xE0 + q, 0x80 + r, 0x80 + s]. b < (256 :: nat)"
  "q < 5 \<Longrightarrow> r < 64 \<Longrightarrow> s < 64 \<Longrightarrow> t < 64 \<Longrightarrow>
    \<forall>b \<in> set [0xF0 + q, 0x80 + r, 0x80 + s, 0x80 + t]. b < (256 :: nat)"
  by auto

lemma utf8_char_bytes:
  assumes "is_scalar c"
  shows "\<forall>b \<in> set (utf8_char c). b < 256"
proof -
  have m: "c div 4096 mod 64 < 64" "c div 64 mod 64 < 64" "c mod 64 < 64" by simp_all
  consider "c < 0x80" | "\<not> c < 0x80" "c < 0x800" | "\<not> c < 0x80" "\<not> c < 0x800" "c < 0x10000"
    | "\<not> c < 0x80" "\<not> c < 0x800" "\<not> c < 0x10000" by blast
  then show ?thesis
  proof cases
    case 1
    then show ?thesis by (simp add: utf8_char_def)
  next
    case 2
    then have "c div 64 < 32" by auto
    with 2 small_bytes(1) m show ?thesis by (simp only: utf8_char_def if_False if_True)
  next
    case 3
    then have "c div 4096 < 16" by auto
    with 3 small_bytes(2) m show ?thesis by (simp only: utf8_char_def if_False if_True)
  next
    case 4
    have "c div 262144 < 5" using assms by (auto simp: is_scalar_def)
    with 4 small_bytes(3) m show ?thesis by (simp only: utf8_char_def if_False if_True)
  qed
qed

lemma utf8_char_nonempty: "utf8_char c \<noteq> []"
  by (simp add: utf8_char_def)

lemma split_64: "c = c div 64 * 64 + c mod (64 :: nat)"
  by simp

lemma split_4096: "c = c div 4096 * 4096 + c div 64 mod 64 * 64 + c mod (64 :: nat)"
proof -
  have "c div 4096 = c div 64 div 64" using div_mult2_eq [of c 64 64] by simp
  then show ?thesis
    using split_64 [of c] split_64 [of "c div 64"] by linarith
qed

lemma split_262144:
  "c = c div 262144 * 262144 + c div 4096 mod 64 * 4096 + c div 64 mod 64 * 64 + c mod (64 :: nat)"
proof -
  have "c div 262144 = c div 4096 div 64" using div_mult2_eq [of c 4096 64] by simp
  then show ?thesis
    using split_4096 [of c] split_64 [of "c div 4096"] by linarith
qed

lemma utf8_step_2:
  assumes "2 \<le> q" "q < 32" "r' < 64"
  shows "utf8_step ((0xC0 + q) # (0x80 + r') # r) = (Some (q * 64 + r'), 2)"
  using assms by (simp add: utf8_step_def second_ok_def is_cont_def)

lemma utf8_step_3:
  assumes "q0 < 16" "q0 = 0 \<Longrightarrow> 32 \<le> q1" "q0 = 13 \<Longrightarrow> q1 < 32" "q1 < 64" "q2 < 64"
  shows "utf8_step ((0xE0 + q0) # (0x80 + q1) # (0x80 + q2) # r)
    = (Some (q0 * 4096 + q1 * 64 + q2), 3)"
  using assms by (auto simp: utf8_step_def second_ok_def is_cont_def)

lemma utf8_step_4:
  assumes "q0 < 5" "q0 = 0 \<Longrightarrow> 16 \<le> q1" "q0 = 4 \<Longrightarrow> q1 < 16" "q1 < 64" "q2 < 64" "q3 < 64"
  shows "utf8_step ((0xF0 + q0) # (0x80 + q1) # (0x80 + q2) # (0x80 + q3) # r)
    = (Some (q0 * 262144 + q1 * 4096 + q2 * 64 + q3), 4)"
  using assms by (auto simp: utf8_step_def second_ok_def is_cont_def)

lemma utf8_step_char:
  assumes "is_scalar c"
  shows "utf8_step (utf8_char c @ r) = (Some c, length (utf8_char c))"
proof -
  consider "c < 0x80" | "0x80 \<le> c" "c < 0x800" | "0x800 \<le> c" "c < 0x10000"
    | "0x10000 \<le> c" by linarith
  then show ?thesis
  proof cases
    case 1
    then show ?thesis by (simp add: utf8_char_def utf8_step_def)
  next
    case 2
    have "2 \<le> c div 64" "c div 64 < 32" "c mod 64 < 64" using 2 by auto
    then show ?thesis
      using 2 utf8_step_2 [of "c div 64" "c mod 64"] by (simp add: utf8_char_def)
  next
    case 3
    have s: "c = c div 4096 * 4096 + c div 64 mod 64 * 64 + c mod 64" by (rule split_4096)
    have b: "c div 4096 < 16" "c div 64 mod 64 < 64" "c mod 64 < 64" using 3 by auto
    with s 3 assms have "c div 4096 = 0 \<Longrightarrow> 32 \<le> c div 64 mod 64"
      "c div 4096 = 13 \<Longrightarrow> c div 64 mod 64 < 32"
      unfolding is_scalar_def by linarith+
    with b have "utf8_step ((0xE0 + c div 4096) # (0x80 + c div 64 mod 64) # (0x80 + c mod 64) # r)
      = (Some c, 3)"
      by (subst utf8_step_3) (simp_all flip: s)
    then show ?thesis
      using 3 by (simp add: utf8_char_def)
  next
    case 4
    have s: "c = c div 262144 * 262144 + c div 4096 mod 64 * 4096 + c div 64 mod 64 * 64 + c mod 64"
      by (rule split_262144)
    have b: "c div 262144 < 5" "c div 4096 mod 64 < 64" "c div 64 mod 64 < 64" "c mod 64 < 64"
      using 4 assms by (auto simp: is_scalar_def)
    with s 4 assms have "c div 262144 = 0 \<Longrightarrow> 16 \<le> c div 4096 mod 64"
      "c div 262144 = 4 \<Longrightarrow> c div 4096 mod 64 < 16"
      unfolding is_scalar_def by linarith+
    with b have "utf8_step ((0xF0 + c div 262144) # (0x80 + c div 4096 mod 64)
        # (0x80 + c div 64 mod 64) # (0x80 + c mod 64) # r) = (Some c, 4)"
      by (subst utf8_step_4) (simp_all flip: s)
    then show ?thesis
      using 4 by (simp add: utf8_char_def)
  qed
qed

lemma utf8_nats_simps [simp]:
  "utf8_nats [] = []" "utf8_nats (c # s) = utf8_char c @ utf8_nats s"
  "utf8_nats (s @ t) = utf8_nats s @ utf8_nats t"
  by (simp_all add: utf8_nats_def)

lemma from_utf8_nats_Nil [simp]: "from_utf8_nats [] = Some []"
  by (simp add: from_utf8_nats.simps)

lemma lossy_utf8_nats_Nil [simp]: "lossy_utf8_nats [] = []"
  by (simp add: lossy_utf8_nats.simps)

lemma from_utf8_nats_char [simp]:
  "is_scalar c \<Longrightarrow> from_utf8_nats (utf8_char c @ r) = map_option (Cons c) (from_utf8_nats r)"
  by (subst from_utf8_nats.simps) (simp add: utf8_step_char utf8_char_nonempty)

lemma lossy_utf8_nats_char [simp]:
  "is_scalar c \<Longrightarrow> lossy_utf8_nats (utf8_char c @ r) = c # lossy_utf8_nats r"
  by (subst lossy_utf8_nats.simps) (simp add: utf8_step_char utf8_char_nonempty)

lemma from_utf8_nats_append:
  "wf_ustr s \<Longrightarrow> from_utf8_nats (utf8_nats s @ r) = map_option (append s) (from_utf8_nats r)"
proof (induction s)
  case Nil
  then show ?case by (simp add: option.map_id0 [unfolded id_def] id_def)
next
  case (Cons c s)
  then show ?case by (simp add: option.map_comp comp_def)
qed

lemma lossy_utf8_nats_append:
  "wf_ustr s \<Longrightarrow> lossy_utf8_nats (utf8_nats s @ r) = s @ lossy_utf8_nats r"
  by (induction s) auto

lemma utf8_nats_bytes: "wf_ustr s \<Longrightarrow> \<forall>b \<in> set (utf8_nats s). b < 256"
  using utf8_char_bytes by (induction s) auto

lemma map_unat_as_bytes: "wf_ustr s \<Longrightarrow> map unat (as_bytes s) = utf8_nats s"
  using utf8_nats_bytes [of s]
  by (auto simp: as_bytes_def unat_of_nat intro!: map_idI)

theorem from_utf8_as_bytes: "wf_ustr s \<Longrightarrow> from_utf8 (as_bytes s) = Some s"
  using from_utf8_nats_append [of s "[]"] by (simp add: from_utf8_def map_unat_as_bytes)

theorem from_utf8_lossy_as_bytes: "wf_ustr s \<Longrightarrow> from_utf8_lossy (as_bytes s) = s"
  using lossy_utf8_nats_append [of s "[]"] by (simp add: from_utf8_lossy_def map_unat_as_bytes)

lemma as_bytes_simps [simp]:
  "as_bytes [] = []" "as_bytes (s @ t) = as_bytes s @ as_bytes t"
  by (simp_all add: as_bytes_def)

lemma as_bytes_Cons: "as_bytes (c # s) = map of_nat (utf8_char c) @ as_bytes s"
  by (simp add: as_bytes_def)

lemma as_bytes_ascii_Cons [simp]: "c < 128 \<Longrightarrow> as_bytes (c # s) = of_nat c # as_bytes s"
  by (simp add: as_bytes_def utf8_char_def)

lemma as_bytes_eq_Nil [simp]: "as_bytes s = [] \<longleftrightarrow> s = []"
  by (cases s) (auto simp: as_bytes_Cons utf8_char_nonempty)

lemma as_bytes_inject: "wf_ustr s \<Longrightarrow> wf_ustr t \<Longrightarrow> as_bytes s = as_bytes t \<longleftrightarrow> s = t"
  by (metis from_utf8_as_bytes option.inject)

lemma wf_ustr_ascii: "list_all (\<lambda>c. c < 128) s \<Longrightarrow> wf_ustr s"
  by (auto simp: list_all_iff is_scalar_def)

lemma str_len_ascii: "list_all (\<lambda>c. c < 128) s \<Longrightarrow> str_len s = length s"
  by (induction s) auto

lemma length_le_str_len: "length s \<le> str_len s"
proof (induction s)
  case (Cons c s)
  have "1 \<le> length (utf8_char c)" using utf8_char_nonempty [of c] by (cases "utf8_char c") auto
  with Cons show ?case by (simp add: as_bytes_Cons)
qed simp

lemma from_utf8_ascii: "list_all (\<lambda>b. b < 0x80) bs \<Longrightarrow> from_utf8 bs = Some (map unat bs)"
proof (induction bs)
  case (Cons b bs)
  then have "unat b < 128" by (simp add: word_less_nat_alt)
  then have "utf8_char (unat b) = [unat b]" "is_scalar (unat b)"
    by (simp_all add: utf8_char_def is_scalar_def)
  with Cons show ?case
    using from_utf8_nats_char [of "unat b" "map unat bs"] by (simp add: from_utf8_def)
qed (simp add: from_utf8_def)

lemma from_utf8_lossy_ascii: "list_all (\<lambda>b. b < 0x80) bs \<Longrightarrow> from_utf8_lossy bs = map unat bs"
proof (induction bs)
  case (Cons b bs)
  then have "unat b < 128" by (simp add: word_less_nat_alt)
  then have "utf8_char (unat b) = [unat b]" "is_scalar (unat b)"
    by (simp_all add: utf8_char_def is_scalar_def)
  with Cons show ?case
    using lossy_utf8_nats_char [of "unat b" "map unat bs"] by (simp add: from_utf8_lossy_def)
qed (simp add: from_utf8_lossy_def)

end
