(* ===== verification/Rust_Str.thy ===== *)
theory Rust_Str
  imports Rust_Text
begin

text \<open>
  Character classes and the \<open>str\<close> methods the program calls: ASCII classes and case folding,
  trimming, prefixes and suffixes, splitting and joining, and number parsing, with the facts about
  them that the component proofs share.
\<close>

section \<open>Character classes\<close>

definition is_control :: "uchar \<Rightarrow> bool" where
  "is_control c \<longleftrightarrow> c < 0x20 \<or> 0x7F \<le> c \<and> c \<le> 0x9F"

definition is_whitespace :: "uchar \<Rightarrow> bool" where
  "is_whitespace c \<longleftrightarrow>
     9 \<le> c \<and> c \<le> 13 \<or> c = 0x20 \<or> c = 0x85 \<or> c = 0xA0 \<or> c = 0x1680
     \<or> 0x2000 \<le> c \<and> c \<le> 0x200A \<or> c = 0x2028 \<or> c = 0x2029 \<or> c = 0x202F \<or> c = 0x205F
     \<or> c = 0x3000"

definition is_ascii_digit :: "uchar \<Rightarrow> bool" where
  "is_ascii_digit c \<longleftrightarrow> 48 \<le> c \<and> c \<le> 57"

definition is_ascii_hexdigit :: "uchar \<Rightarrow> bool" where
  "is_ascii_hexdigit c \<longleftrightarrow> is_ascii_digit c \<or> 97 \<le> c \<and> c \<le> 102 \<or> 65 \<le> c \<and> c \<le> 70"

definition is_ascii_alphanumeric :: "uchar \<Rightarrow> bool" where
  "is_ascii_alphanumeric c \<longleftrightarrow> is_ascii_digit c \<or> 97 \<le> c \<and> c \<le> 122 \<or> 65 \<le> c \<and> c \<le> 90"

definition ascii_lower :: "uchar \<Rightarrow> uchar" where
  "ascii_lower c = (if 65 \<le> c \<and> c \<le> 90 then c + 32 else c)"

abbreviation to_ascii_lowercase :: "ustr \<Rightarrow> ustr" where
  "to_ascii_lowercase \<equiv> map ascii_lower"

definition eq_ignore_ascii_case :: "ustr \<Rightarrow> ustr \<Rightarrow> bool" where
  "eq_ignore_ascii_case s t \<longleftrightarrow> to_ascii_lowercase s = to_ascii_lowercase t"

lemmas char_class_defs = is_control_def is_whitespace_def is_ascii_digit_def is_ascii_hexdigit_def
  is_ascii_alphanumeric_def

lemma eq_ignore_ascii_case_refl [simp]: "eq_ignore_ascii_case s s"
  by (simp add: eq_ignore_ascii_case_def)

lemma eq_ignore_ascii_case_sym: "eq_ignore_ascii_case s t \<longleftrightarrow> eq_ignore_ascii_case t s"
  by (auto simp: eq_ignore_ascii_case_def)

lemma eq_ignore_ascii_case_trans:
  "eq_ignore_ascii_case s t \<Longrightarrow> eq_ignore_ascii_case t u \<Longrightarrow> eq_ignore_ascii_case s u"
  by (simp add: eq_ignore_ascii_case_def)

section \<open>Trimming\<close>

definition trim_end_by :: "(uchar \<Rightarrow> bool) \<Rightarrow> ustr \<Rightarrow> ustr" where
  "trim_end_by p s = rev (dropWhile p (rev s))"

definition trim_by :: "(uchar \<Rightarrow> bool) \<Rightarrow> ustr \<Rightarrow> ustr" where
  "trim_by p s = trim_end_by p (dropWhile p s)"

abbreviation trim :: "ustr \<Rightarrow> ustr" where
  "trim \<equiv> trim_by is_whitespace"

abbreviation trim_end_matches :: "uchar \<Rightarrow> ustr \<Rightarrow> ustr" where
  "trim_end_matches c \<equiv> trim_end_by (\<lambda>d. d = c)"

abbreviation trim_matches :: "uchar \<Rightarrow> ustr \<Rightarrow> ustr" where
  "trim_matches c \<equiv> trim_by (\<lambda>d. d = c)"

lemma trim_end_by_Nil [simp]: "trim_end_by p [] = []"
  by (simp add: trim_end_by_def)

lemma trim_end_by_snoc [simp]:
  "trim_end_by p (s @ [c]) = (if p c then trim_end_by p s else s @ [c])"
  by (simp add: trim_end_by_def)

lemma trim_end_by_id: "s = [] \<or> \<not> p (last s) \<Longrightarrow> trim_end_by p s = s"
  by (cases s rule: rev_cases) auto

lemma set_trim_end_by: "set (trim_end_by p s) \<subseteq> set s"
  by (auto simp: trim_end_by_def dest: set_dropWhileD)

lemma set_trim_by: "set (trim_by p s) \<subseteq> set s"
  unfolding trim_by_def using set_trim_end_by [of p "dropWhile p s"] by (auto dest: set_dropWhileD)

lemma length_trim_end_by [ustr_simps]: "length (trim_end_by p s) \<le> length s"
  unfolding trim_end_by_def length_rev using length_dropWhile_le [of p "rev s"] by simp

lemma length_trim_by [ustr_simps]: "length (trim_by p s) \<le> length s"
  unfolding trim_by_def by (rule order_trans [OF length_trim_end_by length_dropWhile_le])

lemma trim_end_by_last: "trim_end_by p s = [] \<or> \<not> p (last (trim_end_by p s))"
  by (cases "dropWhile p (rev s)") (auto simp: trim_end_by_def dest: dropWhile_eq_Cons_conv [THEN iffD1])

lemma trim_end_by_prefix: "\<exists>t. s = trim_end_by p s @ t"
proof (induction s rule: rev_induct)
  case (snoc c s)
  then obtain t where "s = trim_end_by p s @ t" by blast
  then show ?case
    by (cases "p c") (auto intro!: exI [of _ "t @ [c]"] simp flip: append_assoc)
qed simp

lemma trim_end_by_hd: "trim_end_by p s \<noteq> [] \<Longrightarrow> hd (trim_end_by p s) = hd s"
  using trim_end_by_prefix [of s p] by (metis hd_append2)

lemma trim_by_hd: "trim_by p s \<noteq> [] \<Longrightarrow> \<not> p (hd (trim_by p s))"
  unfolding trim_by_def
  by (metis hd_dropWhile trim_end_by_Nil trim_end_by_hd)

lemma trim_by_idem [simp]: "trim_by p (trim_by p s) = trim_by p s"
proof (cases "trim_by p s")
  case Nil
  then show ?thesis by (simp add: trim_by_def)
next
  case (Cons c t)
  then have "\<not> p c" using trim_by_hd [of p s] by simp
  with Cons have "dropWhile p (trim_by p s) = trim_by p s" by simp
  moreover have "trim_end_by p (trim_by p s) = trim_by p s"
    unfolding trim_by_def using trim_end_by_last trim_end_by_id by metis
  ultimately show ?thesis by (simp add: trim_by_def [of p "trim_by p s"])
qed

lemma trim_by_id: "s = [] \<or> \<not> p (hd s) \<and> \<not> p (last s) \<Longrightarrow> trim_by p s = s"
  unfolding trim_by_def by (cases s) (auto simp: trim_end_by_id)

lemma trim_ends:
  "trim_by p s = [] \<or> \<not> p (hd (trim_by p s)) \<and> \<not> p (last (trim_by p s))"
  using trim_by_hd [of p s] trim_end_by_last [of p "dropWhile p s"] by (auto simp: trim_by_def)

section \<open>Prefixes, suffixes, splitting, joining\<close>

definition starts_with :: "ustr \<Rightarrow> ustr \<Rightarrow> bool" where
  "starts_with s p \<longleftrightarrow> take (length p) s = p"

definition strip_prefix :: "ustr \<Rightarrow> ustr \<Rightarrow> ustr option" where
  "strip_prefix s p = (if starts_with s p then Some (drop (length p) s) else None)"

definition strip_suffix :: "ustr \<Rightarrow> ustr \<Rightarrow> ustr option" where
  "strip_suffix s p = map_option rev (strip_prefix (rev s) (rev p))"

fun split_once :: "ustr \<Rightarrow> ustr \<Rightarrow> (ustr \<times> ustr) option" where
  "split_once [] p = (if p = [] then Some ([], []) else None)"
| "split_once (c # s) p =
     (if starts_with (c # s) p then Some ([], drop (length p) (c # s))
      else map_option (\<lambda>(a, b). (c # a, b)) (split_once s p))"

definition rsplit_once :: "ustr \<Rightarrow> ustr \<Rightarrow> (ustr \<times> ustr) option" where
  "rsplit_once s p = map_option (\<lambda>(a, b). (rev b, rev a)) (split_once (rev s) (rev p))"

definition str_contains :: "ustr \<Rightarrow> ustr \<Rightarrow> bool" where
  "str_contains s p \<longleftrightarrow> split_once s p \<noteq> None"

fun split_char :: "uchar \<Rightarrow> ustr \<Rightarrow> ustr list" where
  "split_char d [] = [[]]"
| "split_char d (c # s) =
     (if c = d then [] # split_char d s
      else (case split_char d s of [] \<Rightarrow> [[c]] | t # ts \<Rightarrow> (c # t) # ts))"

fun join :: "ustr \<Rightarrow> ustr list \<Rightarrow> ustr" where
  "join sep [] = []"
| "join sep [s] = s"
| "join sep (s # t # ts) = s @ sep @ join sep (t # ts)"

lemma starts_with_append [simp]: "starts_with (p @ s) p"
  by (simp add: starts_with_def)

lemma starts_with_iff: "starts_with s p \<longleftrightarrow> (\<exists>t. s = p @ t)"
  unfolding starts_with_def by (metis append_eq_conv_conj append_take_drop_id)

lemma strip_prefix_Some_iff: "strip_prefix s p = Some t \<longleftrightarrow> s = p @ t"
  by (auto simp: strip_prefix_def starts_with_iff)

lemma strip_suffix_Some_iff: "strip_suffix s p = Some t \<longleftrightarrow> s = t @ p"
  by (auto simp: strip_suffix_def strip_prefix_Some_iff)
     (metis rev_append rev_rev_ident)

lemma split_once_Some: "split_once s p = Some (a, b) \<Longrightarrow> s = a @ p @ b"
proof (induction s arbitrary: a)
  case (Cons c s)
  then show ?case
    by (auto split: if_splits simp: starts_with_iff)
qed (auto split: if_splits)

lemma rsplit_once_Some: "rsplit_once s p = Some (a, b) \<Longrightarrow> s = a @ p @ b"
  by (auto simp: rsplit_once_def dest!: split_once_Some)
     (metis append_assoc rev_append rev_rev_ident)

lemma split_once_char_None: "split_once s [d] = None \<longleftrightarrow> d \<notin> set s"
  by (induction s) (auto simp: starts_with_def)

lemma split_once_char:
  "d \<notin> set a \<Longrightarrow> split_once (a @ d # b) [d] = Some (a, b)"
  by (induction a) (auto simp: starts_with_def)

lemma split_once_char_Some_iff:
  "split_once s [d] = Some (a, b) \<longleftrightarrow> s = a @ d # b \<and> d \<notin> set a"
proof
  assume l: "split_once s [d] = Some (a, b)"
  then have "d \<notin> set a"
    by (induction s arbitrary: a) (auto split: if_splits simp: starts_with_def)
  with split_once_Some [OF l] show "s = a @ d # b \<and> d \<notin> set a" by simp
qed (auto simp: split_once_char)

lemma rsplit_once_char_Some_iff:
  "rsplit_once s [d] = Some (a, b) \<longleftrightarrow> s = a @ d # b \<and> d \<notin> set b"
proof -
  have "rsplit_once s [d] = Some (a, b) \<longleftrightarrow> split_once (rev s) [d] = Some (rev b, rev a)"
    by (auto simp: rsplit_once_def)
  also have "\<dots> \<longleftrightarrow> s = a @ d # b \<and> d \<notin> set b"
    by (simp add: split_once_char_Some_iff rev_swap)
  finally show ?thesis .
qed

lemma split_char_nonempty [simp]: "split_char d s \<noteq> []"
  by (induction s) (auto split: list.splits)

lemma split_char_no_sep: "d \<notin> set s \<Longrightarrow> split_char d s = [s]"
  by (induction s) auto

lemma split_char_append:
  "d \<notin> set a \<Longrightarrow> split_char d (a @ d # b) = a # split_char d b"
  by (induction a) auto

lemma join_Cons: "ts \<noteq> [] \<Longrightarrow> join sep (t # ts) = t @ sep @ join sep ts"
  by (cases ts) auto

lemma join_Cons_hd: "join sep ((c # t) # ts) = c # join sep (t # ts)"
  by (cases ts) auto

lemma join_split_char: "join [d] (split_char d s) = s"
  by (induction s) (auto split: list.splits simp: join_Cons join_Cons_hd)

lemma split_char_pieces: "t \<in> set (split_char d s) \<Longrightarrow> d \<notin> set t"
  by (induction s arbitrary: t) (auto split: list.splits if_splits)

section \<open>Numbers\<close>

text \<open>\<open>str::parse\<close> for an unsigned type of maximum \<open>m\<close>: an optional plus sign, then decimal digits
  whose value fits; anything else is an error.\<close>

definition digits_value :: "ustr \<Rightarrow> nat" where
  "digits_value s = foldl (\<lambda>n c. 10 * n + (c - 48)) 0 s"

definition parse_unsigned :: "nat \<Rightarrow> ustr \<Rightarrow> nat option" where
  "parse_unsigned m s =
     (let d = (case s of c # t \<Rightarrow> if c = 43 \<and> t \<noteq> [] then t else s | [] \<Rightarrow> s)
      in if d \<noteq> [] \<and> list_all is_ascii_digit d \<and> digits_value d \<le> m
         then Some (digits_value d) else None)"

fun show_nat :: "nat \<Rightarrow> ustr" where
  "show_nat n = (if n < 10 then [48 + n] else show_nat (n div 10) @ [48 + n mod 10])"

declare show_nat.simps [simp del]

lemma digits_value_snoc [simp]: "digits_value (s @ [c]) = 10 * digits_value s + (c - 48)"
  by (simp add: digits_value_def)

lemma show_nat_digits: "show_nat n \<noteq> [] \<and> list_all is_ascii_digit (show_nat n)"
proof (induction n rule: show_nat.induct)
  case (1 n)
  then show ?case
    by (subst (1 2) show_nat.simps) (auto simp: is_ascii_digit_def [abs_def])
qed

lemma digits_value_show_nat: "digits_value (show_nat n) = n"
proof (induction n rule: show_nat.induct)
  case (1 n)
  then show ?case
    by (subst show_nat.simps) (auto simp: digits_value_def)
qed

lemma parse_show_nat:
  assumes "n \<le> m"
  shows "parse_unsigned m (show_nat n) = Some n"
proof -
  obtain c t where ct: "show_nat n = c # t"
    using show_nat_digits [of n] by (cases "show_nat n") auto
  then have "is_ascii_digit c" using show_nat_digits [of n] by simp
  then have "c \<noteq> 43" by (simp add: is_ascii_digit_def)
  with ct assms show ?thesis
    using show_nat_digits [of n] digits_value_show_nat [of n] by (simp add: parse_unsigned_def)
qed

end
