(* ===== verification/Rust_Net.thy ===== *)
theory Rust_Net
  imports Rust_Str
begin

text \<open>
  The address parsers and printers of \<open>std::net\<close> that the server addresses go through:
  \<open>Ipv4Addr\<close>, \<open>Ipv6Addr\<close> and \<open>IpAddr\<close>. An IPv4 address is its four octets, an IPv6
  address its eight segments; both parsers accept exactly what Rust's recursive-descent parser
  accepts, and the printers write Rust's canonical form.
\<close>

definition hex_char_value :: "uchar \<Rightarrow> nat" where
  "hex_char_value c = (if c \<le> 57 then c - 48 else if c \<le> 70 then c - 55 else c - 87)"

definition hex_value :: "ustr \<Rightarrow> nat" where
  "hex_value s = foldl (\<lambda>n c. 16 * n + hex_char_value c) 0 s"

definition hex_group :: "ustr \<Rightarrow> (nat \<times> ustr) option" where
  "hex_group s =
     (let d = takeWhile is_ascii_hexdigit s
      in if d = [] \<or> length d > 4 then None
         else Some (hex_value d, dropWhile is_ascii_hexdigit s))"

definition dec_octet :: "ustr \<Rightarrow> (nat \<times> ustr) option" where
  "dec_octet s =
     (let d = takeWhile is_ascii_digit s
      in if d = [] \<or> length d > 3 \<or> digits_value d > 255 \<or> (length d > 1 \<and> hd d = 48) then None
         else Some (digits_value d, dropWhile is_ascii_digit s))"

definition read_ipv4 :: "ustr \<Rightarrow> (nat list \<times> ustr) option" where
  "read_ipv4 s =
     Option.bind (dec_octet s) (\<lambda>(a, s).
     Option.bind (Option.bind (strip_prefix s [46]) dec_octet) (\<lambda>(b, s).
     Option.bind (Option.bind (strip_prefix s [46]) dec_octet) (\<lambda>(c, s).
     Option.bind (Option.bind (strip_prefix s [46]) dec_octet) (\<lambda>(d, s).
     Some ([a, b, c, d], s)))))"

definition parse_ipv4 :: "ustr \<Rightarrow> nat list option" where
  "parse_ipv4 s = Option.bind (read_ipv4 s) (\<lambda>(os, r). if r = [] then Some os else None)"

definition group_sep :: "nat \<Rightarrow> ustr \<Rightarrow> ustr option" where
  "group_sep i s = (if i > 0 then strip_prefix s [58] else Some s)"

function read_groups :: "nat \<Rightarrow> nat \<Rightarrow> ustr \<Rightarrow> nat list \<times> bool \<times> ustr" where
  "read_groups limit i s =
     (if \<not> i < limit then ([], False, s)
      else
        (case (if i + 1 < limit then Option.bind (group_sep i s) read_ipv4 else None) of
           Some (os, r) \<Rightarrow> ([os ! 0 * 256 + os ! 1, os ! 2 * 256 + os ! 3], True, r)
         | None \<Rightarrow>
             (case Option.bind (group_sep i s) hex_group of
                Some (g, r) \<Rightarrow>
                  (let (gs, v4, r') = read_groups limit (Suc i) r in (g # gs, v4, r'))
              | None \<Rightarrow> ([], False, s))))"
  by pat_completeness auto
termination
  by (relation "measure (\<lambda>(limit, i, s). limit - i)") auto

declare read_groups.simps [simp del]

definition parse_ipv6 :: "ustr \<Rightarrow> nat list option" where
  "parse_ipv6 s =
     (let (head, v4, r) = read_groups 8 0 s
      in if length head = 8 then (if r = [] then Some head else None)
         else if v4 then None
         else
           Option.bind (strip_prefix r (lit ''::'')) (\<lambda>r.
             (let (tail, _, r') = read_groups (8 - (length head + 1)) 0 r
              in if r' = []
                 then Some (head @ replicate (8 - length head - length tail) 0 @ tail)
                 else None)))"

definition show_ipv4 :: "nat list \<Rightarrow> ustr" where
  "show_ipv4 os = join [46] (map show_nat os)"

fun show_hex :: "nat \<Rightarrow> ustr" where
  "show_hex n =
     (let d = n mod 16; c = (if d < 10 then 48 + d else 87 + d)
      in if n < 16 then [c] else show_hex (n div 16) @ [c])"

declare show_hex.simps [simp del]

text \<open>The first of the longest runs of zero segments, as its start and its length.\<close>

fun zero_run :: "nat \<Rightarrow> nat \<times> nat \<Rightarrow> nat \<times> nat \<Rightarrow> nat list \<Rightarrow> nat \<times> nat" where
  "zero_run i longest current [] = longest"
| "zero_run i longest current (g # gs) =
     (if g = 0 then
        (let current = (if snd current = 0 then i else fst current, Suc (snd current))
         in zero_run (Suc i) (if snd current > snd longest then current else longest) current gs)
      else zero_run (Suc i) longest (0, 0) gs)"

definition show_ipv6 :: "nat list \<Rightarrow> ustr" where
  "show_ipv6 gs =
     (if take 6 gs = [0, 0, 0, 0, 0, 0xFFFF]
      then lit ''::ffff:''
        @ show_ipv4 [gs ! 6 div 256, gs ! 6 mod 256, gs ! 7 div 256, gs ! 7 mod 256]
      else
        (let (start, len) = zero_run 0 (0, 0) (0, 0) gs
         in if len > 1
            then join [58] (map show_hex (take start gs)) @ lit ''::''
              @ join [58] (map show_hex (drop (start + len) gs))
            else join [58] (map show_hex gs)))"

text \<open>\<open>IpAddr\<close>: an IPv4 address is tried first.\<close>

definition ip_to_string :: "ustr \<Rightarrow> ustr option" where
  "ip_to_string s =
     (case parse_ipv4 s of
        Some os \<Rightarrow> Some (show_ipv4 os)
      | None \<Rightarrow> map_option show_ipv6 (parse_ipv6 s))"

lemma takeWhile_append_stop:
  "list_all p xs \<Longrightarrow> ys = [] \<or> \<not> p (hd ys) \<Longrightarrow> takeWhile p (xs @ ys) = xs"
  "list_all p xs \<Longrightarrow> ys = [] \<or> \<not> p (hd ys) \<Longrightarrow> dropWhile p (xs @ ys) = ys"
  by (induction xs) (auto simp: takeWhile_eq_Nil_iff dropWhile_eq_self_iff)

lemma show_nat_octet:
  assumes "n \<le> 255"
  shows "length (show_nat n) \<le> 3" and "length (show_nat n) > 1 \<Longrightarrow> hd (show_nat n) \<noteq> 48"
proof -
  consider "n < 10" | "10 \<le> n" "n < 100" | "100 \<le> n" by linarith
  then have "length (show_nat n) \<le> 3 \<and> (length (show_nat n) > 1 \<longrightarrow> hd (show_nat n) \<noteq> 48)"
  proof cases
    case 1
    then show ?thesis by (simp add: show_nat.simps)
  next
    case 2
    then have "n div 10 < 10" "0 < n div 10" by auto
    with 2 show ?thesis
      by (simp add: show_nat.simps [of n] show_nat.simps [of "n div 10"])
  next
    case 3
    then have "n div 10 div 10 < 10" "0 < n div 10 div 10" using assms by auto
    with 3 show ?thesis
      by (simp add: show_nat.simps [of n] show_nat.simps [of "n div 10"]
          show_nat.simps [of "n div 10 div 10"] del: div_mult2_eq)
  qed
  then show "length (show_nat n) \<le> 3" "length (show_nat n) > 1 \<Longrightarrow> hd (show_nat n) \<noteq> 48"
    by auto
qed

lemma dec_octet_show_nat:
  "n \<le> 255 \<Longrightarrow> r = [] \<or> \<not> is_ascii_digit (hd r) \<Longrightarrow> dec_octet (show_nat n @ r) = Some (n, r)"
  using show_nat_octet [of n] show_nat_digits [of n] digits_value_show_nat [of n]
  by (auto simp: dec_octet_def Let_def takeWhile_append_stop)

lemma parse_show_ipv4:
  assumes "length os = 4" "\<forall>n \<in> set os. n \<le> 255"
  shows "parse_ipv4 (show_ipv4 os) = Some os"
proof -
  obtain a b c d where os: "os = [a, b, c, d]"
    using assms(1) by (auto simp: length_Suc_conv eval_nat_numeral)
  have dot: "strip_prefix (46 # r) [46] = Some r" for r
    by (simp add: strip_prefix_Some_iff)
  have nd: "\<not> is_ascii_digit 46" by (simp add: is_ascii_digit_def)
  show ?thesis
    using assms(2) dec_octet_show_nat [of d "[]"]
    by (simp add: os show_ipv4_def parse_ipv4_def read_ipv4_def dec_octet_show_nat dot nd)
qed

end
