(* ===== verification/Domain_Error.thy ===== *)
theory Domain_Error
  imports Rust_Str
begin

text \<open>
  \<open>domain/error.rs\<close> and \<open>domain/text.rs\<close>: the typed failures that cross the IPC boundary, with
  their stable codes, and the sanitiser every text from outside passes before it is published.
\<close>

section \<open>Error codes\<close>

datatype ErrorCode =
    InvalidInput | UnknownService | InvalidState | Timeout | Unsupported | ServerUnavailable
  | ServerNotTrusted | ServerIdentityChanged | NotAuthorized | PrinterNotShared | QueueUnavailable
  | Internal

definition ErrorCode_ALL :: "ErrorCode list" where
  "ErrorCode_ALL =
     [InvalidInput, UnknownService, InvalidState, Timeout, Unsupported, ServerUnavailable,
      ServerNotTrusted, ServerIdentityChanged, NotAuthorized, PrinterNotShared, QueueUnavailable,
      Internal]"

fun ErrorCode_as_str :: "ErrorCode \<Rightarrow> ustr" where
  "ErrorCode_as_str InvalidInput = lit ''invalid-input''"
| "ErrorCode_as_str UnknownService = lit ''unknown-service''"
| "ErrorCode_as_str InvalidState = lit ''invalid-state''"
| "ErrorCode_as_str Timeout = lit ''timeout''"
| "ErrorCode_as_str Unsupported = lit ''unsupported''"
| "ErrorCode_as_str ServerUnavailable = lit ''server-unavailable''"
| "ErrorCode_as_str ServerNotTrusted = lit ''server-untrusted''"
| "ErrorCode_as_str ServerIdentityChanged = lit ''server-identity-changed''"
| "ErrorCode_as_str NotAuthorized = lit ''not-authorized''"
| "ErrorCode_as_str PrinterNotShared = lit ''printer-not-shared''"
| "ErrorCode_as_str QueueUnavailable = lit ''queue-unavailable''"
| "ErrorCode_as_str Internal = lit ''internal''"

record AppError =
  err_code :: ErrorCode
  err_message :: ustr

definition app_error :: "ErrorCode \<Rightarrow> ustr \<Rightarrow> AppError" where
  "app_error code message = \<lparr>err_code = code, err_message = message\<rparr>"

definition invalid_input :: "ustr \<Rightarrow> AppError" where
  "invalid_input = app_error InvalidInput"

definition unknown_service :: "ustr \<Rightarrow> AppError" where
  "unknown_service = app_error UnknownService"

definition invalid_state :: "ustr \<Rightarrow> AppError" where
  "invalid_state = app_error InvalidState"

definition timeout_error :: "ustr \<Rightarrow> AppError" where
  "timeout_error = app_error Timeout"

definition unsupported_error :: "ustr \<Rightarrow> AppError" where
  "unsupported_error = app_error Unsupported"

definition server_unavailable :: "ustr \<Rightarrow> AppError" where
  "server_unavailable = app_error ServerUnavailable"

definition server_not_trusted :: "ustr \<Rightarrow> AppError" where
  "server_not_trusted = app_error ServerNotTrusted"

definition server_identity_changed :: "ustr \<Rightarrow> AppError" where
  "server_identity_changed = app_error ServerIdentityChanged"

definition not_authorized :: "ustr \<Rightarrow> AppError" where
  "not_authorized = app_error NotAuthorized"

definition printer_not_shared :: "ustr \<Rightarrow> AppError" where
  "printer_not_shared = app_error PrinterNotShared"

definition queue_unavailable :: "ustr \<Rightarrow> AppError" where
  "queue_unavailable = app_error QueueUnavailable"

definition internal_error :: "ustr \<Rightarrow> AppError" where
  "internal_error = app_error Internal"

definition code_str :: "AppError \<Rightarrow> ustr" where
  "code_str e = ErrorCode_as_str (err_code e)"

lemmas app_error_defs = app_error_def invalid_input_def unknown_service_def invalid_state_def
  timeout_error_def unsupported_error_def server_unavailable_def server_not_trusted_def
  server_identity_changed_def not_authorized_def printer_not_shared_def queue_unavailable_def
  internal_error_def

lemma error_codes [simp]:
  "err_code (invalid_input m) = InvalidInput"
  "err_code (unknown_service m) = UnknownService"
  "err_code (invalid_state m) = InvalidState"
  "err_code (timeout_error m) = Timeout"
  "err_code (unsupported_error m) = Unsupported"
  "err_code (server_unavailable m) = ServerUnavailable"
  "err_code (server_not_trusted m) = ServerNotTrusted"
  "err_code (server_identity_changed m) = ServerIdentityChanged"
  "err_code (not_authorized m) = NotAuthorized"
  "err_code (printer_not_shared m) = PrinterNotShared"
  "err_code (queue_unavailable m) = QueueUnavailable"
  "err_code (internal_error m) = Internal"
  "err_code (app_error c m) = c"
  by (simp_all add: app_error_defs)

lemma ErrorCode_as_str_inject [simp]: "ErrorCode_as_str a = ErrorCode_as_str b \<longleftrightarrow> a = b"
  by (cases a; cases b) simp_all

lemma ErrorCode_ALL_complete: "set ErrorCode_ALL = UNIV \<and> distinct ErrorCode_ALL"
proof
  have "a \<in> set ErrorCode_ALL" for a by (cases a) (simp_all add: ErrorCode_ALL_def)
  then show "set ErrorCode_ALL = UNIV" by blast
  show "distinct ErrorCode_ALL" by (simp add: ErrorCode_ALL_def)
qed

section \<open>Sanitised text\<close>

fun sanitize_loop :: "nat \<Rightarrow> ustr \<Rightarrow> ustr \<Rightarrow> ustr \<times> bool" where
  "sanitize_loop limit cleaned [] = (cleaned, False)"
| "sanitize_loop limit cleaned (c # cs) =
     (if str_len cleaned + len_utf8 c > limit then (cleaned, True)
      else sanitize_loop limit (cleaned @ [if is_control c then 0x20 else c]) cs)"

definition sanitize_text :: "ustr \<Rightarrow> nat \<Rightarrow> ustr" where
  "sanitize_text s limit =
     (let (cleaned, truncated) = sanitize_loop limit [] s;
          cleaned = trim cleaned
      in if truncated then cleaned @ [0x2026] else cleaned)"

definition blank_controls :: "ustr \<Rightarrow> ustr" where
  "blank_controls = map (\<lambda>c. if is_control c then 0x20 else c)"

text \<open>The loop cleans a prefix of its input; it reports a truncation exactly when it left some out.\<close>

lemma sanitize_loop_prefix:
  "sanitize_loop limit acc s = (out, chopped) \<Longrightarrow>
    \<exists>p q. s = p @ q \<and> out = acc @ blank_controls p \<and> (chopped \<longleftrightarrow> q \<noteq> [])"
proof (induction limit acc s rule: sanitize_loop.induct)
  case (1 limit acc)
  then show ?case by (auto simp: blank_controls_def)
next
  case (2 limit acc c cs)
  show ?case
  proof (cases "str_len acc + len_utf8 c > limit")
    case True
    with "2.prems" show ?thesis
      by (auto simp: blank_controls_def intro!: exI [of _ "[]"])
  next
    case False
    with 2 obtain p q where "cs = p @ q" "chopped \<longleftrightarrow> q \<noteq> []"
      "out = (acc @ [if is_control c then 0x20 else c]) @ blank_controls p"
      by (auto split: if_splits)
    then show ?thesis
      by (intro exI [of _ "c # p"] exI [of _ q]) (simp add: blank_controls_def)
  qed
qed

lemma len_utf8_pos: "1 \<le> len_utf8 c"
  using utf8_char_nonempty [of c] by (cases "utf8_char c") (simp_all add: len_utf8_def)

lemma str_len_single [simp]: "str_len [c] = len_utf8 c"
  by (simp add: as_bytes_def len_utf8_def)

lemma sanitize_loop_bound:
  "sanitize_loop limit acc s = (out, chopped) \<Longrightarrow> str_len acc \<le> limit \<Longrightarrow> str_len out \<le> limit"
proof (induction limit acc s rule: sanitize_loop.induct)
  case (2 limit acc c cs)
  have "len_utf8 0x20 = 1" by (simp add: len_utf8_def utf8_char_def)
  with 2 len_utf8_pos [of c] show ?case by (auto split: if_splits)
qed simp

lemma blank_controls_clean: "c \<in> set (blank_controls s) \<Longrightarrow> \<not> is_control c"
  by (auto simp: blank_controls_def is_control_def)

lemma str_len_trim: "str_len (trim_by p s) \<le> str_len s"
proof -
  obtain a where "s = a @ dropWhile p s" by (metis takeWhile_dropWhile_id)
  moreover obtain b where "dropWhile p s = trim_by p s @ b"
    using trim_end_by_prefix [of "dropWhile p s" p] by (auto simp: trim_by_def)
  ultimately have "s = a @ trim_by p s @ b" by simp
  then have "str_len s = str_len a + str_len (trim_by p s) + str_len b"
    by (metis as_bytes_simps(2) length_append add.assoc)
  then show ?thesis by simp
qed

lemma sanitize_text_no_control: "c \<in> set (sanitize_text s limit) \<Longrightarrow> \<not> is_control c"
proof -
  assume c: "c \<in> set (sanitize_text s limit)"
  obtain out chopped where l: "sanitize_loop limit [] s = (out, chopped)" by fastforce
  from sanitize_loop_prefix [OF l] obtain p where "out = blank_controls p" by auto
  then have "\<And>d. d \<in> set (trim out) \<Longrightarrow> \<not> is_control d"
    using set_trim_by blank_controls_clean by blast
  moreover have "c \<in> set (trim out) \<or> c = 0x2026"
    using c l by (auto simp: sanitize_text_def Let_def split: if_splits)
  ultimately show ?thesis by (auto simp: is_control_def)
qed

lemma sanitize_text_bound: "str_len (sanitize_text s limit) \<le> limit + 3"
proof -
  obtain out chopped where l: "sanitize_loop limit [] s = (out, chopped)" by fastforce
  then have "str_len (trim out) \<le> limit"
    using sanitize_loop_bound [OF l] str_len_trim [of is_whitespace out] by simp
  moreover have "len_utf8 0x2026 = 3" by (simp add: len_utf8_def utf8_char_def)
  ultimately show ?thesis using l by (simp add: sanitize_text_def Let_def)
qed

lemma sanitize_loop_all:
  "str_len acc + str_len s \<le> limit \<Longrightarrow> sanitize_loop limit acc s = (acc @ blank_controls s, False)"
proof (induction limit acc s rule: sanitize_loop.induct)
  case (2 limit acc c cs)
  have "str_len (c # cs) = len_utf8 c + str_len cs" by (simp add: as_bytes_Cons len_utf8_def)
  moreover have "len_utf8 (if is_control c then 0x20 else c) \<le> len_utf8 c"
    using len_utf8_pos [of c] by (auto simp: len_utf8_def utf8_char_def)
  ultimately show ?case using 2 by (simp add: blank_controls_def)
qed (simp add: blank_controls_def)

text \<open>Text that fits is kept: only its controls are blanked and its ends trimmed.\<close>

lemma sanitize_text_fits:
  "str_len s \<le> limit \<Longrightarrow> sanitize_text s limit = trim (blank_controls s)"
  by (simp add: sanitize_text_def sanitize_loop_all)

end
