(* ===== verification/Domain_Printer.thy ===== *)
theory Domain_Printer
  imports Domain_Error "HOL-Library.List_Lexorder"
begin

text \<open>
  \<open>domain/printer.rs\<close>, \<open>domain/discovery.rs\<close> and \<open>domain/identity.rs\<close>: the validated printer
  name, the selection a server shares, the nearby server an advertisement describes, and the
  certificate fingerprint a client compares.
\<close>

section \<open>Printer names\<close>

datatype PrinterName = PrinterName (PrinterName_as_str: ustr)

definition NAME_LIMIT :: nat where
  "NAME_LIMIT = 220"

definition PrinterName_parse :: "ustr \<Rightarrow> AppError + PrinterName" where
  "PrinterName_parse value =
     (let name = trim value in
      if name = [] then Inl (invalid_input (lit ''printer name is empty''))
      else if length name > NAME_LIMIT
      then Inl (invalid_input
             (lit ''printer name is longer than '' @ show_nat NAME_LIMIT @ lit '' characters''))
      else if list_ex is_control name
      then Inl (invalid_input (lit ''printer name contains control characters''))
      else Inr (PrinterName name))"

definition wf_name :: "ustr \<Rightarrow> bool" where
  "wf_name s \<longleftrightarrow> s \<noteq> [] \<and> length s \<le> NAME_LIMIT \<and> list_all (\<lambda>c. \<not> is_control c) s \<and> trim s = s"

instantiation PrinterName :: linorder
begin

definition less_eq_PrinterName :: "PrinterName \<Rightarrow> PrinterName \<Rightarrow> bool" where
  "less_eq_PrinterName a b \<longleftrightarrow> PrinterName_as_str a \<le> PrinterName_as_str b"

definition less_PrinterName :: "PrinterName \<Rightarrow> PrinterName \<Rightarrow> bool" where
  "less_PrinterName a b \<longleftrightarrow> PrinterName_as_str a < PrinterName_as_str b"

instance
  by standard
    (auto simp: less_eq_PrinterName_def less_PrinterName_def less_le_not_le PrinterName.expand)

end

lemma PrinterName_parse_Inr_iff:
  "PrinterName_parse v = Inr p \<longleftrightarrow> p = PrinterName (trim v) \<and> wf_name (trim v)"
  by (auto simp: PrinterName_parse_def wf_name_def Let_def list_all_iff list_ex_iff)

lemma PrinterName_parse_Inl:
  "PrinterName_parse v = Inl e \<Longrightarrow> err_code e = InvalidInput"
  by (auto simp: PrinterName_parse_def Let_def split: if_splits)

lemma PrinterName_parse_as_str:
  "PrinterName_parse v = Inr p \<Longrightarrow> PrinterName_parse (PrinterName_as_str p) = Inr p"
  by (auto simp: PrinterName_parse_Inr_iff)

section \<open>The selection a server shares\<close>

datatype SharedPrinters = SharedPrinters (SharedPrinters_as_slice: "PrinterName list")

fun select_loop :: "PrinterName list \<Rightarrow> PrinterName list \<Rightarrow> PrinterName list" where
  "select_loop selected [] = selected"
| "select_loop selected (name # names) =
     (if name \<in> set selected then select_loop selected names
      else select_loop (selected @ [name]) names)"

definition SharedPrinters_new :: "PrinterName list \<Rightarrow> SharedPrinters" where
  "SharedPrinters_new names = SharedPrinters (select_loop [] names)"

definition SharedPrinters_is_empty :: "SharedPrinters \<Rightarrow> bool" where
  "SharedPrinters_is_empty s \<longleftrightarrow> SharedPrinters_as_slice s = []"

definition SharedPrinters_contains :: "SharedPrinters \<Rightarrow> PrinterName \<Rightarrow> bool" where
  "SharedPrinters_contains s name \<longleftrightarrow> name \<in> set (SharedPrinters_as_slice s)"

lemma select_loop_set: "set (select_loop acc ns) = set acc \<union> set ns"
  by (induction acc ns rule: select_loop.induct) auto

lemma select_loop_distinct: "distinct acc \<Longrightarrow> distinct (select_loop acc ns)"
  by (induction acc ns rule: select_loop.induct) auto

text \<open>The loop keeps the first occurrence of each name, which is \<open>remdups\<close> read backwards.\<close>

lemma select_loop_eq:
  "select_loop acc ns = acc @ rev (remdups (rev (filter (\<lambda>n. n \<notin> set acc) ns)))"
proof (induction acc ns rule: select_loop.induct)
  case (2 acc n ns)
  have "rev (remdups (rev (n # xs))) = n # rev (remdups (rev (filter (\<lambda>m. m \<noteq> n) xs)))"
    for n :: PrinterName and xs
  proof (induction xs rule: rev_induct)
    case (snoc x xs)
    then show ?case by auto
  qed simp
  note first = this
  show ?case
  proof (cases "n \<in> set acc")
    case True
    with 2 show ?thesis by simp
  next
    case False
    with 2 have "select_loop acc (n # ns)
      = acc @ n # rev (remdups (rev (filter (\<lambda>m. m \<notin> set (acc @ [n])) ns)))"
      by simp
    also have "filter (\<lambda>m. m \<notin> set (acc @ [n])) ns
      = filter (\<lambda>m. m \<noteq> n) (filter (\<lambda>m. m \<notin> set acc) ns)"
      by (auto intro: filter_cong)
    finally show ?thesis
      using False first [of n "filter (\<lambda>m. m \<notin> set acc) ns"] by simp
  qed
qed simp

section \<open>Nearby servers\<close>

definition SERVER_NAME_LIMIT :: nat where
  "SERVER_NAME_LIMIT = 64"

definition SERVER_ADDRESS_LIMIT :: nat where
  "SERVER_ADDRESS_LIMIT = 255"

definition VERSION_LIMIT :: nat where
  "VERSION_LIMIT = 32"

record NearbyServer =
  nearby_name :: ustr
  nearby_address :: ustr
  nearby_printers :: "PrinterName list"
  nearby_version :: "ustr option"

definition has_control :: "ustr \<Rightarrow> bool" where
  "has_control value \<longleftrightarrow> list_ex is_control value"

definition clean_version :: "ustr option \<Rightarrow> ustr option" where
  "clean_version version =
     Option.bind version (\<lambda>v.
       let trimmed = trim v in
       if trimmed = [] \<or> length trimmed > VERSION_LIMIT \<or> has_control trimmed
       then None else Some trimmed)"

definition NearbyServer_with_version ::
  "ustr \<Rightarrow> ustr \<Rightarrow> PrinterName list \<Rightarrow> ustr option \<Rightarrow> AppError + NearbyServer" where
  "NearbyServer_with_version name address printers version =
     (let name = trim name; address = trim address in
      if name = [] \<or> length name > SERVER_NAME_LIMIT \<or> has_control name
      then Inl (invalid_input (lit ''the advertised server label is not usable''))
      else if address = [] \<or> str_len address > SERVER_ADDRESS_LIMIT \<or> has_control address
      then Inl (invalid_input (lit ''the advertised server address is not usable''))
      else Inr \<lparr>nearby_name = name, nearby_address = address, nearby_printers = printers,
                nearby_version = clean_version version\<rparr>)"

definition NearbyServer_new ::
  "ustr \<Rightarrow> ustr \<Rightarrow> PrinterName list \<Rightarrow> AppError + NearbyServer" where
  "NearbyServer_new name address printers = NearbyServer_with_version name address printers None"

definition showable :: "NearbyServer \<Rightarrow> bool" where
  "showable s \<longleftrightarrow>
     nearby_name s \<noteq> [] \<and> length (nearby_name s) \<le> SERVER_NAME_LIMIT
     \<and> \<not> has_control (nearby_name s)
     \<and> nearby_address s \<noteq> [] \<and> str_len (nearby_address s) \<le> SERVER_ADDRESS_LIMIT
     \<and> \<not> has_control (nearby_address s)
     \<and> (case nearby_version s of None \<Rightarrow> True
        | Some v \<Rightarrow> v \<noteq> [] \<and> length v \<le> VERSION_LIMIT \<and> \<not> has_control v)"

lemma NearbyServer_with_version_showable:
  "NearbyServer_with_version n a ps v = Inr s \<Longrightarrow> showable s \<and> nearby_printers s = ps"
  by (auto simp: NearbyServer_with_version_def showable_def clean_version_def Let_def
      split: if_splits option.splits bind_splits)

section \<open>Certificate fingerprints\<close>

text \<open>The digest is the caller's: \<open>sha256\<close> is the hash function of the \<open>sha2\<close> crate.\<close>

definition hex_digit_lower :: "nat \<Rightarrow> uchar" where
  "hex_digit_lower n = (if n < 10 then 48 + n else 87 + n)"

definition hex_digit_upper :: "nat \<Rightarrow> uchar" where
  "hex_digit_upper n = (if n < 10 then 48 + n else 55 + n)"

definition hex_lower :: "u8 \<Rightarrow> ustr" where
  "hex_lower b = [hex_digit_lower (unat b div 16), hex_digit_lower (unat b mod 16)]"

definition hex_upper :: "u8 \<Rightarrow> ustr" where
  "hex_upper b = [hex_digit_upper (unat b div 16), hex_digit_upper (unat b mod 16)]"

datatype CertificateFingerprint = CertificateFingerprint (fingerprint_bytes: bytes)

definition of_der :: "(bytes \<Rightarrow> bytes) \<Rightarrow> bytes \<Rightarrow> CertificateFingerprint" where
  "of_der sha256 certificate = CertificateFingerprint (sha256 certificate)"

definition fingerprint_hex :: "CertificateFingerprint \<Rightarrow> ustr" where
  "fingerprint_hex f = concat (map hex_lower (fingerprint_bytes f))"

fun fmt_pairs :: "nat \<Rightarrow> bytes \<Rightarrow> ustr" where
  "fmt_pairs index [] = []"
| "fmt_pairs index (b # bs) =
     (if index > 0 then [58] else []) @ hex_upper b @ fmt_pairs (Suc index) bs"

definition fingerprint_fmt :: "CertificateFingerprint \<Rightarrow> ustr" where
  "fingerprint_fmt f = fmt_pairs 0 (fingerprint_bytes f)"

lemma hex_digit_inject:
  assumes "m < 16" "n < 16"
  shows "hex_digit_lower m = hex_digit_lower n \<longleftrightarrow> m = n"
    and "hex_digit_upper m = hex_digit_upper n \<longleftrightarrow> m = n"
  using assms by (auto simp: hex_digit_lower_def hex_digit_upper_def)

lemma nibbles_inject:
  "unat (a :: u8) div 16 = unat b div 16 \<and> unat a mod 16 = unat b mod 16 \<longleftrightarrow> a = b"
  by (metis div_mult_mod_eq word_unat_eq_iff)

lemma nibble_bounds: "unat (b :: u8) div 16 < 16" "unat b mod 16 < 16"
  using unat_u8_less [of b] by auto

lemma hex_lower_inject [simp]: "hex_lower a = hex_lower b \<longleftrightarrow> a = b"
  using nibbles_inject [of a b] by (simp add: hex_lower_def hex_digit_inject nibble_bounds)

lemma hex_upper_inject [simp]: "hex_upper a = hex_upper b \<longleftrightarrow> a = b"
  using nibbles_inject [of a b] by (simp add: hex_upper_def hex_digit_inject nibble_bounds)

lemma length_hex [simp]: "length (hex_lower b) = 2" "length (hex_upper b) = 2"
  by (simp_all add: hex_lower_def hex_upper_def)

lemma concat_hex_inject: "concat (map hex_lower xs) = concat (map hex_lower ys) \<Longrightarrow> xs = ys"
proof (induction xs arbitrary: ys)
  case Nil
  then show ?case by (cases ys) (auto simp: hex_lower_def)
next
  case (Cons x xs)
  then obtain y ys' where ys: "ys = y # ys'"
    by (cases ys) (auto simp: hex_lower_def)
  with Cons.prems show ?case using Cons.IH [of ys'] by (simp add: append_eq_append_conv)
qed

lemma fmt_pairs_inject: "fmt_pairs i xs = fmt_pairs i ys \<Longrightarrow> xs = ys"
proof (induction xs arbitrary: i ys)
  case Nil
  then show ?case by (cases ys) (auto simp: hex_upper_def)
next
  case (Cons x xs)
  then obtain y ys' where ys: "ys = y # ys'"
    by (cases ys) (auto simp: hex_upper_def)
  with Cons.prems show ?case using Cons.IH [of "Suc i" ys'] by (simp add: append_eq_append_conv)
qed

lemma length_fmt_pairs: "length (fmt_pairs i bs) = 3 * length bs - (if i = 0 \<and> bs \<noteq> [] then 1 else 0)"
  by (induction i bs rule: fmt_pairs.induct) auto

end
