(* ===== verification/Domain_Service.thy ===== *)
theory Domain_Service
  imports Domain_Printer
begin

text \<open>
  \<open>domain/service.rs\<close>: the supervised background services, their lifecycle states with the table
  of legal transitions, and the status snapshot the shell publishes.
\<close>

section \<open>Identities and states\<close>

datatype ServiceId = ClientProxy | ServerSharing | ServerDiscovery

definition ServiceId_ALL :: "ServiceId list" where
  "ServiceId_ALL = [ClientProxy, ServerSharing, ServerDiscovery]"

fun ServiceId_as_str :: "ServiceId \<Rightarrow> ustr" where
  "ServiceId_as_str ClientProxy = lit ''client-proxy''"
| "ServiceId_as_str ServerSharing = lit ''server-sharing''"
| "ServiceId_as_str ServerDiscovery = lit ''server-discovery''"

definition ServiceId_parse :: "ustr \<Rightarrow> AppError + ServiceId" where
  "ServiceId_parse value =
     ok_or (List.find (\<lambda>sid. ServiceId_as_str sid = value) ServiceId_ALL)
       (app_error UnknownService (lit ''unknown service '' @ [39] @ value @ [39]))"

text \<open>The derived order of the enum is its declaration order.\<close>

fun ServiceId_rank :: "ServiceId \<Rightarrow> nat" where
  "ServiceId_rank ClientProxy = 0"
| "ServiceId_rank ServerSharing = 1"
| "ServiceId_rank ServerDiscovery = 2"

lemma ServiceId_rank_inject: "ServiceId_rank a = ServiceId_rank b \<Longrightarrow> a = b"
  by (cases a; cases b) simp_all

instantiation ServiceId :: linorder
begin

definition less_eq_ServiceId :: "ServiceId \<Rightarrow> ServiceId \<Rightarrow> bool" where
  "less_eq_ServiceId a b \<longleftrightarrow> ServiceId_rank a \<le> ServiceId_rank b"

definition less_ServiceId :: "ServiceId \<Rightarrow> ServiceId \<Rightarrow> bool" where
  "less_ServiceId a b \<longleftrightarrow> ServiceId_rank a < ServiceId_rank b"

instance
  by standard (auto simp: less_eq_ServiceId_def less_ServiceId_def dest: ServiceId_rank_inject)

end

datatype ServiceState = Stopped | Starting | Running | Stopping | Failed

definition ServiceState_ALL :: "ServiceState list" where
  "ServiceState_ALL = [Stopped, Starting, Running, Stopping, Failed]"

fun ServiceState_as_str :: "ServiceState \<Rightarrow> ustr" where
  "ServiceState_as_str Stopped = lit ''stopped''"
| "ServiceState_as_str Starting = lit ''starting''"
| "ServiceState_as_str Running = lit ''running''"
| "ServiceState_as_str Stopping = lit ''stopping''"
| "ServiceState_as_str Failed = lit ''failed''"

fun is_live :: "ServiceState \<Rightarrow> bool" where
  "is_live Starting = True"
| "is_live Running = True"
| "is_live Stopping = True"
| "is_live _ = False"

fun can_transition :: "ServiceState \<Rightarrow> ServiceState \<Rightarrow> bool" where
  "can_transition Stopped Starting = True"
| "can_transition Starting Running = True"
| "can_transition Starting Stopping = True"
| "can_transition Starting Failed = True"
| "can_transition Running Stopping = True"
| "can_transition Running Failed = True"
| "can_transition Stopping Stopped = True"
| "can_transition Stopping Failed = True"
| "can_transition Failed Starting = True"
| "can_transition Failed Stopped = True"
| "can_transition _ _ = False"

fun_cases can_transition_to_Running: "can_transition s Running"
fun_cases can_transition_from_Stopped: "can_transition Stopped s"

section \<open>Status\<close>

definition DETAIL_LIMIT :: nat where
  "DETAIL_LIMIT = 120"

record ServiceStatus =
  status_id :: ServiceId
  status_state :: ServiceState
  status_detail :: ustr

definition ServiceStatus_stopped :: "ServiceId \<Rightarrow> ServiceStatus" where
  "ServiceStatus_stopped sid = \<lparr>status_id = sid, status_state = Stopped, status_detail = []\<rparr>"

definition transition :: "ServiceStatus \<Rightarrow> ServiceState \<Rightarrow> AppError + ServiceStatus" where
  "transition s next =
     (if \<not> can_transition (status_state s) next
      then Inl (invalid_state
             (lit ''service '' @ [39] @ ServiceId_as_str (status_id s) @ [39]
              @ lit '' cannot move from '' @ ServiceState_as_str (status_state s)
              @ lit '' to '' @ ServiceState_as_str next))
      else Inr (s\<lparr>status_state := next\<rparr>))"

definition set_detail :: "ServiceStatus \<Rightarrow> ustr \<Rightarrow> ServiceStatus" where
  "set_detail s detail = s\<lparr>status_detail := sanitize_text detail DETAIL_LIMIT\<rparr>"

datatype RuntimeStatus = RuntimeStatus (runtime_services: "ServiceStatus list")

definition runtime_service :: "RuntimeStatus \<Rightarrow> ServiceId \<Rightarrow> ServiceStatus option" where
  "runtime_service r sid = List.find (\<lambda>s. status_id s = sid) (runtime_services r)"

text \<open>A status under either mutation, from a service that was never started.\<close>

inductive status_step :: "ServiceStatus \<Rightarrow> ServiceStatus \<Rightarrow> bool" where
  step_transition: "transition s next = Inr s' \<Longrightarrow> status_step s s'"
| step_detail: "status_step s (set_detail s detail)"

inductive status_reachable :: "ServiceId \<Rightarrow> ServiceStatus \<Rightarrow> bool" for sid where
  reach_start: "status_reachable sid (ServiceStatus_stopped sid)"
| reach_step: "status_reachable sid s \<Longrightarrow> status_step s s' \<Longrightarrow> status_reachable sid s'"

inductive_cases status_stepE: "status_step s s'"

lemma transition_Inr_iff:
  "transition s n = Inr s' \<longleftrightarrow> can_transition (status_state s) n \<and> s' = s\<lparr>status_state := n\<rparr>"
  by (auto simp: transition_def)

lemma ServiceId_parse_Inr_iff: "ServiceId_parse v = Inr i \<longleftrightarrow> v = ServiceId_as_str i"
  by (cases i) (auto simp: ServiceId_parse_def ServiceId_ALL_def ok_or_def split: option.splits)

definition status_inv :: "ServiceId \<Rightarrow> ServiceStatus \<Rightarrow> bool" where
  "status_inv sid s \<longleftrightarrow> status_id s = sid \<and> str_len (status_detail s) \<le> DETAIL_LIMIT + 3
     \<and> list_all (\<lambda>c. \<not> is_control c) (status_detail s)"

lemma status_step_inv: "status_step s s' \<Longrightarrow> status_inv sid s \<Longrightarrow> status_inv sid s'"
  using sanitize_text_bound sanitize_text_no_control
  by (auto elim!: status_stepE simp: transition_Inr_iff status_inv_def set_detail_def list_all_iff)

lemma status_reachable_inv: "status_reachable sid s \<Longrightarrow> status_inv sid s"
proof (induction rule: status_reachable.induct)
  case reach_start
  then show ?case by (simp add: status_inv_def ServiceStatus_stopped_def)
next
  case (reach_step s s')
  then show ?case using status_step_inv by blast
qed

end
