(* ===== verification/Client_Queue.thy ===== *)
theory Client_Queue
  imports Domain_Service
begin

unbundle bit_operations_syntax

text \<open>
  \<open>domain/queue.rs\<close>: the name and the request of a native client queue, the CUPS destination name
  derived from them, the check of a canonical server address, and the classification of a spooler
  record into a recognised client queue, an ambiguous one, a shareable local printer or neither.
  \<open>sha256\<close> stands for the digest of the \<open>sha2\<close> crate.
\<close>

section \<open>Queue names\<close>

definition QUEUE_NAME_LIMIT :: nat where
  "QUEUE_NAME_LIMIT = 220"

definition QUEUE_ADDRESS_LIMIT :: nat where
  "QUEUE_ADDRESS_LIMIT = 300"

datatype ClientQueueName = ClientQueueName (ClientQueueName_as_str: ustr)

definition ClientQueueName_parse :: "ustr \<Rightarrow> AppError + ClientQueueName" where
  "ClientQueueName_parse value =
     (let name = trim value in
      if name = [] then Inl (invalid_input (lit ''the Windows queue name is empty''))
      else if length name > QUEUE_NAME_LIMIT
      then Inl (invalid_input
             (lit ''the Windows queue name is longer than '' @ show_nat QUEUE_NAME_LIMIT
              @ lit '' characters''))
      else if list_ex is_control name
      then Inl (invalid_input (lit ''the Windows queue name contains control characters''))
      else (case List.find (\<lambda>c. c = 92 \<or> c = 44) name of
              Some rejected \<Rightarrow>
                Inl (invalid_input
                  (lit ''the Windows queue name '' @ [34] @ name @ [34] @ lit '' cannot contain ''
                   @ [39, rejected, 39]
                   @ lit ''; rename the printer on the server and share it again''))
            | None \<Rightarrow> Inr (ClientQueueName name)))"

definition address_label :: "ustr \<Rightarrow> ustr" where
  "address_label server_address =
     (let label = map (\<lambda>c. if is_ascii_alphanumeric c \<or> c = 46 \<or> c = 45 then c else 45)
                    server_address;
          label = trim_matches 45 label
      in if label = [] then lit ''server'' else label)"

definition for_shared_printer :: "PrinterName \<Rightarrow> ustr \<Rightarrow> AppError + ClientQueueName" where
  "for_shared_printer printer server_address =
     ClientQueueName_parse
       (PrinterName_as_str printer @ lit '' (ShaPrint '' @ address_label server_address @ lit '')'')"

section \<open>Canonical addresses\<close>

definition address_invalid :: AppError where
  "address_invalid = invalid_input
     (lit ''the server address is not a host or host:port; review the server connection again'')"

definition address_port :: "ustr \<Rightarrow> AppError + ustr option" where
  "address_port address =
     (case strip_prefix address [91] of
        Some rest \<Rightarrow>
          and_then (ok_or (split_once rest [93]) address_invalid) (\<lambda>(host, after).
            if host = [] \<or> \<not> list_all (\<lambda>c. is_ascii_hexdigit c \<or> c = 58 \<or> c = 46) host
            then Inl address_invalid
            else (case strip_prefix after [58] of
                    Some port \<Rightarrow> if port \<noteq> [] then Inr (Some port) else Inl address_invalid
                  | None \<Rightarrow> if after = [] then Inr None else Inl address_invalid))
      | None \<Rightarrow>
          (let (host, port) = (case split_once address [58] of
                                 Some (host, port) \<Rightarrow> (host, Some port)
                               | None \<Rightarrow> (address, None))
           in if host = [] \<or> \<not> list_all (\<lambda>c. is_ascii_alphanumeric c \<or> c = 46 \<or> c = 45) host
              then Inl address_invalid
              else (case port of
                      Some port \<Rightarrow> if port \<noteq> [] then Inr (Some port) else Inl address_invalid
                    | None \<Rightarrow> Inr None)))"

definition port_valid :: "ustr \<Rightarrow> bool" where
  "port_valid port \<longleftrightarrow>
     str_len port \<le> 5 \<and> list_all (\<lambda>b. 48 \<le> b \<and> b \<le> 57) (as_bytes port)
     \<and> (case parse_unsigned 65535 port of Some n \<Rightarrow> n > 0 | None \<Rightarrow> False)"

definition validate_address :: "ustr \<Rightarrow> AppError + unit" where
  "validate_address address =
     (if address = []
      then Inl (invalid_input (lit ''enter the address of the server that shares the printer''))
      else if length address > QUEUE_ADDRESS_LIMIT
      then Inl (invalid_input (lit ''the server address is too long''))
      else and_then (address_port address) (\<lambda>port.
             case port of
               Some port \<Rightarrow> if \<not> port_valid port then Inl address_invalid else Inr ()
             | None \<Rightarrow> Inr ()))"

section \<open>Requests and CUPS destinations\<close>

record ClientQueueRequest =
  request_queue_name :: ClientQueueName
  request_server_address :: ustr
  request_printer :: PrinterName

definition ClientQueueRequest_new :: "ustr \<Rightarrow> PrinterName \<Rightarrow> AppError + ClientQueueRequest" where
  "ClientQueueRequest_new server_address printer =
     (let address = trim server_address in
      and_then (validate_address address) (\<lambda>_.
      and_then (for_shared_printer printer address) (\<lambda>queue_name.
      Inr \<lparr>request_queue_name = queue_name, request_server_address = address,
           request_printer = printer\<rparr>)))"

fun sanitize_cups_loop :: "ustr \<Rightarrow> bool \<Rightarrow> ustr \<Rightarrow> ustr" where
  "sanitize_cups_loop out last_underscore [] = out"
| "sanitize_cups_loop out last_underscore (ch # cs) =
     (if is_ascii_alphanumeric ch \<or> ch = 45 \<or> ch = 46
      then sanitize_cups_loop (out @ [ch]) False cs
      else if \<not> last_underscore \<and> out \<noteq> []
      then sanitize_cups_loop (out @ [95]) True cs
      else sanitize_cups_loop out last_underscore cs)"

definition sanitize_cups_token :: "ustr \<Rightarrow> ustr" where
  "sanitize_cups_token input = trim_end_matches 95 (sanitize_cups_loop [] False input)"

definition cups_destination_for :: "(bytes \<Rightarrow> bytes) \<Rightarrow> PrinterName \<Rightarrow> ustr \<Rightarrow> ustr" where
  "cups_destination_for sha256 printer server_address =
     (let address = trim server_address;
          digest = sha256 (as_bytes (lit ''shaprint-cups-queue:'') @ as_bytes address @ [0]
                           @ as_bytes (PrinterName_as_str printer));
          short_hash = concat (map hex_lower (take 4 digest));
          addr_slug = trim_matches 45 (take 40 (address_label address));
          addr_slug = (if addr_slug = [] then lit ''server'' else addr_slug);
          printer_slug = trim_matches 95 (take 60 (sanitize_cups_token (PrinterName_as_str printer)));
          printer_slug = (if printer_slug = [] then lit ''Printer'' else printer_slug)
      in lit ''ShaPrint_'' @ printer_slug @ [95] @ addr_slug @ [95] @ short_hash)"

definition cups_destination_name :: "(bytes \<Rightarrow> bytes) \<Rightarrow> ClientQueueRequest \<Rightarrow> ustr" where
  "cups_destination_name sha256 r =
     cups_destination_for sha256 (request_printer r) (request_server_address r)"

section \<open>Spooler records\<close>

record SpoolerRecord =
  record_name :: ustr
  record_port :: ustr

record RecognisedClientQueue =
  recognised_queue_name :: ClientQueueName
  recognised_server_address :: ustr
  recognised_printer_name :: PrinterName

datatype SpoolerRecordClassification =
    RecognisedQueue RecognisedClientQueue
  | AmbiguousClientQueue
  | EligibleLocal PrinterName
  | Ignored

definition is_loopback_authority :: "ustr \<Rightarrow> ustr \<Rightarrow> bool" where
  "is_loopback_authority authority proxy_authority =
     (if eq_ignore_ascii_case authority proxy_authority then True
      else
        (case (case strip_prefix authority [91] of
                 Some rest \<Rightarrow>
                   (case split_once rest [93] of
                      Some (ipv6, after) \<Rightarrow>
                        if after = [] then Some (ipv6, [])
                        else (case strip_prefix after [58] of
                                Some p \<Rightarrow> Some (ipv6, p)
                              | None \<Rightarrow> None)
                    | None \<Rightarrow> None)
               | None \<Rightarrow>
                   (case split_once authority [58] of
                      Some (h, p) \<Rightarrow> Some (h, p)
                    | None \<Rightarrow> Some (authority, []))) of
           None \<Rightarrow> False
         | Some (host, port) \<Rightarrow>
             if \<not> (eq_ignore_ascii_case host (lit ''127.0.0.1'')
                   \<or> eq_ignore_ascii_case host (lit ''localhost'') \<or> host = lit ''::1'')
             then False
             else if port = [] then True
             else parse_unsigned 65535 port \<noteq> None))"

definition hex_val :: "u8 \<Rightarrow> u8 option" where
  "hex_val b =
     (if 48 \<le> b \<and> b \<le> 57 then Some (b - 48)
      else if 97 \<le> b \<and> b \<le> 102 then Some (b - 97 + 10)
      else if 65 \<le> b \<and> b \<le> 70 then Some (b - 65 + 10)
      else None)"

function queue_percent_bytes :: "bytes \<Rightarrow> bytes" where
  "queue_percent_bytes [] = []"
| "queue_percent_bytes (b # rest) =
     (if b = 37 then
        (let high = Option.bind (slice_at rest 0) hex_val;
             low = Option.bind (slice_at rest 1) hex_val;
             rest = drop 2 rest
         in (case (high, low) of
               (Some h, Some l) \<Rightarrow> (push_bit 4 h OR l) # queue_percent_bytes rest
             | _ \<Rightarrow> b # queue_percent_bytes rest))
      else b # queue_percent_bytes rest)"
  by pat_completeness auto
termination
  by (relation "measure length") auto

definition queue_percent_decode :: "ustr \<Rightarrow> ustr" where
  "queue_percent_decode value = from_utf8_lossy (queue_percent_bytes (as_bytes value))"

definition strip_trailing_copy_suffix :: "ustr \<Rightarrow> ustr option" where
  "strip_trailing_copy_suffix name =
     Option.bind (strip_suffix name [41]) (\<lambda>without_close.
     Option.bind (rsplit_once without_close (lit '' (Copy '')) (\<lambda>(before_copy, copy_number).
       if copy_number \<noteq> [] \<and> list_all is_ascii_digit copy_number then Some before_copy else None))"

definition unwrap_or :: "'a option \<Rightarrow> 'a \<Rightarrow> 'a" where
  "unwrap_or r d = (case r of Some x \<Rightarrow> x | None \<Rightarrow> d)"

definition candidate_address :: "ustr \<Rightarrow> ustr" where
  "candidate_address label =
     (case rsplit_once label [45] of
        Some (host_part, port_part) \<Rightarrow>
          if port_part \<noteq> [] \<and> list_all is_ascii_digit port_part
          then host_part @ [58] @ port_part else label
      | None \<Rightarrow> label)"

definition parse_client_queue_name ::
  "ustr \<Rightarrow> (PrinterName \<times> ustr \<times> ClientQueueName) option" where
  "parse_client_queue_name name =
     (let name_trimmed = trim name in
      Option.bind (ok (ClientQueueName_parse name_trimmed)) (\<lambda>actual_queue_name.
      let base_name = unwrap_or (strip_trailing_copy_suffix name_trimmed) name_trimmed in
      Option.bind (strip_suffix base_name [41]) (\<lambda>without_suffix.
      Option.bind (rsplit_once without_suffix (lit '' (ShaPrint '')) (\<lambda>(printer_raw, label).
      Option.bind (ok (PrinterName_parse printer_raw)) (\<lambda>printer_name.
      let candidate = candidate_address label in
      if \<not> is_ok (validate_address candidate) then None
      else
        Option.bind (ok (for_shared_printer printer_name candidate)) (\<lambda>expected_queue_name.
        if ClientQueueName_as_str expected_queue_name \<noteq> base_name then None
        else Some (printer_name, candidate, actual_queue_name)))))))"

section \<open>Classification\<close>

text \<open>
  \<open>SpoolerRecord::classify\<close> in its three stages: a record whose port is a print URI on the loopback
  proxy, a record on a Windows WSD port whose name is a derived one, and everything else. A stage
  that does not apply is \<open>None\<close>, where the code falls through to the next.
\<close>

definition classify_route ::
  "(bytes \<Rightarrow> bytes) \<Rightarrow> ustr \<Rightarrow> ustr \<Rightarrow> SpoolerRecordClassification" where
  "classify_route sha256 name_trimmed path_with_slash =
     (case split_char 47 (drop 11 path_with_slash) of
        [server, printer] \<Rightarrow>
          if server = [] \<or> printer = [] then AmbiguousClientQueue
          else
            (let server_decoded = queue_percent_decode server in
             if \<not> is_ok (validate_address server_decoded) then AmbiguousClientQueue
             else
               (case PrinterName_parse (queue_percent_decode printer) of
                  Inl _ \<Rightarrow> AmbiguousClientQueue
                | Inr printer_name \<Rightarrow>
                    (case for_shared_printer printer_name server_decoded of
                       Inl _ \<Rightarrow> AmbiguousClientQueue
                     | Inr expected_queue_name \<Rightarrow>
                         (let expected_cups_name =
                                cups_destination_for sha256 printer_name server_decoded;
                              base_name =
                                unwrap_or (strip_trailing_copy_suffix name_trimmed) name_trimmed
                          in if ClientQueueName_as_str expected_queue_name = base_name
                                \<or> expected_cups_name = base_name
                             then (case ClientQueueName_parse name_trimmed of
                                     Inl _ \<Rightarrow> AmbiguousClientQueue
                                   | Inr actual_queue_name \<Rightarrow>
                                       RecognisedQueue
                                         \<lparr>recognised_queue_name = actual_queue_name,
                                          recognised_server_address = server_decoded,
                                          recognised_printer_name = printer_name\<rparr>)
                             else AmbiguousClientQueue))))
      | _ \<Rightarrow> AmbiguousClientQueue)"

definition scheme_rest :: "ustr \<Rightarrow> ustr option" where
  "scheme_rest port_trimmed =
     (let port_lower = to_ascii_lowercase port_trimmed in
      if starts_with port_lower (lit ''ipp://'') then Some (drop 6 port_trimmed)
      else if starts_with port_lower (lit ''http://'') then Some (drop 7 port_trimmed)
      else None)"

definition classify_endpoint ::
  "(bytes \<Rightarrow> bytes) \<Rightarrow> ustr \<Rightarrow> ustr \<Rightarrow> ustr \<Rightarrow> SpoolerRecordClassification option" where
  "classify_endpoint sha256 name_trimmed port_trimmed proxy_authority =
     Option.bind (scheme_rest port_trimmed) (\<lambda>rest.
     Option.bind (split_once rest [47]) (\<lambda>(authority, path).
       (let path_with_slash = [47] @ path;
            path_lower = to_ascii_lowercase path_with_slash
        in if is_loopback_authority authority proxy_authority
              \<and> starts_with path_lower (lit ''/ipp/print/'')
           then Some (classify_route sha256 name_trimmed path_with_slash)
           else None)))"

definition classify_wsd :: "ustr \<Rightarrow> ustr \<Rightarrow> SpoolerRecordClassification option" where
  "classify_wsd name_trimmed port_trimmed =
     (if starts_with (to_ascii_lowercase port_trimmed) (lit ''wsd-'') then
        (case parse_client_queue_name name_trimmed of
           Some (printer_name, server_address, queue_name) \<Rightarrow>
             Some (RecognisedQueue
                     \<lparr>recognised_queue_name = queue_name,
                      recognised_server_address = server_address,
                      recognised_printer_name = printer_name\<rparr>)
         | None \<Rightarrow>
             if str_contains name_trimmed (lit '' (ShaPrint '') then Some AmbiguousClientQueue
             else None)
      else None)"

definition is_loopback_port :: "ustr \<Rightarrow> ustr \<Rightarrow> bool" where
  "is_loopback_port port_trimmed proxy_authority =
     (case scheme_rest port_trimmed of
        None \<Rightarrow> False
      | Some rest \<Rightarrow>
          is_loopback_authority (case split_once rest [47] of Some (a, _) \<Rightarrow> a | None \<Rightarrow> rest)
            proxy_authority)"

definition classify_other :: "ustr \<Rightarrow> ustr \<Rightarrow> ustr \<Rightarrow> SpoolerRecordClassification" where
  "classify_other name_trimmed port_trimmed proxy_authority =
     (let port_lower = to_ascii_lowercase port_trimmed in
      if str_contains port_lower (to_ascii_lowercase proxy_authority)
         \<or> str_contains port_lower (lit ''/ipp/print/'')
         \<or> is_loopback_port port_trimmed proxy_authority
      then AmbiguousClientQueue
      else (case PrinterName_parse name_trimmed of
              Inr printer_name \<Rightarrow> EligibleLocal printer_name
            | Inl _ \<Rightarrow> Ignored))"

definition classify ::
  "(bytes \<Rightarrow> bytes) \<Rightarrow> SpoolerRecord \<Rightarrow> ustr \<Rightarrow> SpoolerRecordClassification" where
  "classify sha256 r proxy_authority =
     (let name_trimmed = trim (record_name r); port_trimmed = trim (record_port r) in
      case classify_endpoint sha256 name_trimmed port_trimmed proxy_authority of
        Some c \<Rightarrow> c
      | None \<Rightarrow>
          (case classify_wsd name_trimmed port_trimmed of
             Some c \<Rightarrow> c
           | None \<Rightarrow> classify_other name_trimmed port_trimmed proxy_authority))"

section \<open>Facts\<close>

lemma find_Some_list: "List.find P xs = Some x \<Longrightarrow> x \<in> set xs \<and> P x"
  by (induction xs) (auto split: if_splits)

lemma find_None_list: "List.find P xs = None \<longleftrightarrow> (\<forall>x \<in> set xs. \<not> P x)"
  by (auto simp: find_None_iff)

definition wf_queue_name :: "ustr \<Rightarrow> bool" where
  "wf_queue_name s \<longleftrightarrow>
     s \<noteq> [] \<and> length s \<le> QUEUE_NAME_LIMIT \<and> list_all (\<lambda>c. \<not> is_control c \<and> c \<noteq> 92 \<and> c \<noteq> 44) s
     \<and> trim s = s"

lemma ClientQueueName_parse_Inr_iff:
  "ClientQueueName_parse v = Inr q \<longleftrightarrow> q = ClientQueueName (trim v) \<and> wf_queue_name (trim v)"
  by (auto simp: ClientQueueName_parse_def wf_queue_name_def Let_def list_all_iff list_ex_iff
      find_None_list split: option.splits dest: find_Some_list)

definition label_char :: "uchar \<Rightarrow> bool" where
  "label_char c \<longleftrightarrow> is_ascii_alphanumeric c \<or> c = 46 \<or> c = 45"

lemma address_label_chars: "c \<in> set (address_label a) \<Longrightarrow> label_char c"
  using set_trim_by [of "\<lambda>d. d = 45"]
  by (fastforce simp: address_label_def Let_def label_char_def is_ascii_alphanumeric_def
      is_ascii_digit_def split: if_splits)

lemma address_label_nonempty: "address_label a \<noteq> []"
  by (simp add: address_label_def Let_def)

lemma for_shared_printer_Inr:
  "for_shared_printer p a = Inr q \<Longrightarrow> wf_queue_name (ClientQueueName_as_str q)"
  by (auto simp: for_shared_printer_def ClientQueueName_parse_Inr_iff)

lemma is_ok_unit: "is_ok (r :: 'e + unit) \<longleftrightarrow> r = Inr ()"
  by (cases r) auto

end
