(* ===== verification/Percent_Codec.thy ===== *)
theory Percent_Codec
  imports Client_Queue
begin

unbundle bit_operations_syntax

text \<open>
  The percent escapes of \<open>adapters/ipps/protocol.rs\<close>, and what its decoder shares with the decoder
  of \<open>domain/queue.rs\<close>. The two decoders disagree on malformed escapes, but both satisfy the
  interface \<open>percent_decoder\<close>, and that is enough to undo \<open>percent_encode\<close>.
\<close>

section \<open>The endpoint's encoder and decoder\<close>

definition unreserved :: "u8 \<Rightarrow> bool" where
  "unreserved b \<longleftrightarrow>
     48 \<le> b \<and> b \<le> 57 \<or> 65 \<le> b \<and> b \<le> 90 \<or> 97 \<le> b \<and> b \<le> 122
     \<or> b = 45 \<or> b = 46 \<or> b = 95 \<or> b = 126"

definition encode_byte :: "u8 \<Rightarrow> ustr" where
  "encode_byte b = (if unreserved b then [unat b] else 37 # hex_upper b)"

definition percent_encode :: "ustr \<Rightarrow> ustr" where
  "percent_encode value = concat (map encode_byte (as_bytes value))"

definition hex_digit :: "u8 \<Rightarrow> u8 option" where
  "hex_digit b =
     (if 48 \<le> b \<and> b \<le> 57 then Some (b - 48)
      else if 97 \<le> b \<and> b \<le> 102 then Some (b - 97 + 10)
      else if 65 \<le> b \<and> b \<le> 70 then Some (b - 65 + 10)
      else None)"

function percent_bytes :: "bytes \<Rightarrow> bytes" where
  "percent_bytes [] = []"
| "percent_bytes (b # rest) =
     (if b = 37 \<and> 2 \<le> length rest then
        (case (hex_digit (rest ! 0), hex_digit (rest ! 1)) of
           (Some high, Some low) \<Rightarrow> (high * 16 + low) # percent_bytes (drop 2 rest)
         | _ \<Rightarrow> b # percent_bytes rest)
      else b # percent_bytes rest)"
  by pat_completeness auto
termination
  by (relation "measure length") auto

definition percent_decode :: "ustr \<Rightarrow> ustr" where
  "percent_decode value = from_utf8_lossy (percent_bytes (as_bytes value))"

section \<open>What a decoder of these escapes promises\<close>

definition escape :: "u8 \<Rightarrow> bytes" where
  "escape b = map of_nat (encode_byte b)"

locale percent_decoder =
  fixes dec :: "bytes \<Rightarrow> bytes"
  assumes dec_Nil: "dec [] = []"
    and dec_plain: "b \<noteq> 37 \<Longrightarrow> dec (b # r) = b # dec r"
    and dec_escape: "dec (37 # map of_nat (hex_upper b) @ r) = b # dec r"
begin

lemma dec_escapes: "dec (concat (map escape bs)) = bs"
proof (induction bs)
  case (Cons b bs)
  show ?case
  proof (cases "unreserved b")
    case True
    then have "b \<noteq> 37" "escape b = [b]"
      by (auto simp: unreserved_def escape_def encode_byte_def)
    with Cons show ?thesis by (simp add: dec_plain)
  next
    case False
    then have "escape b = 37 # map of_nat (hex_upper b)"
      by (simp add: escape_def encode_byte_def)
    with Cons show ?thesis by (simp add: dec_escape)
  qed
qed (simp add: dec_Nil)

lemma encode_byte_ascii: "list_all (\<lambda>c. c < 128) (encode_byte b)"
  using nibble_bounds [of b]
  by (auto simp: encode_byte_def unreserved_def hex_upper_def hex_digit_upper_def word_le_nat_alt
      word_less_nat_alt)

lemma as_bytes_percent_encode: "as_bytes (percent_encode s) = concat (map escape (as_bytes s))"
proof -
  have "as_bytes t = map of_nat t" if "list_all (\<lambda>c. c < 128) t" for t
    using that by (induction t) auto
  then have "as_bytes (concat (map encode_byte bs)) = concat (map escape bs)" for bs
    using encode_byte_ascii by (induction bs) (auto simp: escape_def)
  then show ?thesis by (simp add: percent_encode_def)
qed

lemma decode_encode: "wf_ustr s \<Longrightarrow> from_utf8_lossy (dec (as_bytes (percent_encode s))) = s"
  by (simp add: as_bytes_percent_encode dec_escapes from_utf8_lossy_as_bytes)

end

lemma nibble_all: "\<forall>n \<in> set [0..<16]. P n \<Longrightarrow> n < 16 \<Longrightarrow> P (n :: nat)"
  by simp

lemma hex_digit_upper_value:
  "n < 16 \<Longrightarrow> hex_digit (of_nat (hex_digit_upper n)) = Some (of_nat n)"
  "n < 16 \<Longrightarrow> hex_val (of_nat (hex_digit_upper n)) = Some (of_nat n)"
  by (erule nibble_all [rotated],
      simp add: upt_conv_Cons hex_digit_def hex_val_def hex_digit_upper_def)+

lemma hex_digit_upper_unreserved:
  "n < 16 \<Longrightarrow> unreserved (of_nat (hex_digit_upper n)) \<and> hex_digit_upper n < 128"
  by (erule nibble_all [rotated]) (simp add: upt_conv_Cons unreserved_def hex_digit_upper_def)

lemma nibbles_join:
  "of_nat (unat b div 16) * 16 + of_nat (unat b mod 16) = (b :: u8)"
proof -
  have "of_nat (unat b div 16 * 16 + unat b mod 16) = b" by simp
  then show ?thesis by (simp only: of_nat_add of_nat_mult of_nat_numeral)
qed

lemma nibbles_or:
  "(push_bit 4 (of_nat (unat b div 16)) OR of_nat (unat b mod 16)) = (b :: u8)"
proof -
  have small: "unat (of_nat k :: u8) = k" if "k < 16" for k
    using that by (simp add: unat_of_nat)
  have "of_nat (unat b div 16) = drop_bit 4 b"
    unfolding word_unat_eq_iff unat_drop small [OF nibble_bounds(1)] by simp
  moreover have "of_nat (unat b mod 16) = take_bit 4 b"
    unfolding word_unat_eq_iff unsigned_take_bit_eq small [OF nibble_bounds(2)]
    by (simp add: take_bit_eq_mod)
  ultimately show ?thesis by (auto intro!: bit_eqI simp: bit_simps)
qed

interpretation endpoint: percent_decoder percent_bytes
proof unfold_locales
  show "percent_bytes (37 # map of_nat (hex_upper b) @ r) = b # percent_bytes r" for b r
    by (simp add: hex_upper_def hex_digit_upper_value nibble_bounds nibbles_join)
qed simp_all

interpretation spooler: percent_decoder queue_percent_bytes
proof unfold_locales
  show "queue_percent_bytes (37 # map of_nat (hex_upper b) @ r) = b # queue_percent_bytes r" for b r
    by (simp add: hex_upper_def slice_at_def hex_digit_upper_value nibble_bounds nibbles_or)
qed simp_all

lemma percent_decode_encode: "wf_ustr s \<Longrightarrow> percent_decode (percent_encode s) = s"
  by (simp add: percent_decode_def endpoint.decode_encode)

lemma queue_percent_decode_encode: "wf_ustr s \<Longrightarrow> queue_percent_decode (percent_encode s) = s"
  by (simp add: queue_percent_decode_def spooler.decode_encode)

lemma encode_byte_chars: "c \<in> set (encode_byte b) \<Longrightarrow> unreserved (of_nat c) \<and> c < 128 \<or> c = 37"
proof (cases "unreserved b")
  case True
  then have "unat b < 128"
    by (auto simp: unreserved_def word_le_nat_alt)
  moreover assume "c \<in> set (encode_byte b)"
  ultimately show ?thesis using True by (auto simp: encode_byte_def)
next
  case False
  moreover assume "c \<in> set (encode_byte b)"
  ultimately show ?thesis
    using hex_digit_upper_unreserved nibble_bounds [of b]
    by (auto simp: encode_byte_def hex_upper_def)
qed

lemma percent_encode_chars:
  "c \<in> set (percent_encode s) \<Longrightarrow> unreserved (of_nat c) \<and> c < 128 \<or> c = 37"
  using encode_byte_chars by (auto simp: percent_encode_def)

lemma unreserved_nat:
  "unreserved b \<Longrightarrow> 45 \<le> unat b \<and> unat b \<le> 126 \<and> unat b \<noteq> 47 \<and> unat b \<noteq> 58 \<and> unat b \<noteq> 63"
  by (auto simp: unreserved_def word_le_nat_alt)

lemma percent_encode_visible:
  assumes "c \<in> set (percent_encode s)"
  shows "37 \<le> c \<and> c \<le> 126 \<and> c \<noteq> 47 \<and> c \<noteq> 58 \<and> c \<noteq> 63"
  using percent_encode_chars [OF assms] unreserved_nat [of "of_nat c"]
  by (auto simp: unat_of_nat)

lemma percent_encode_no_slash: "47 \<notin> set (percent_encode s)"
  using percent_encode_visible [of 47 s] by auto

lemma encode_byte_nonempty [simp]: "encode_byte b \<noteq> []"
  by (simp add: encode_byte_def)

lemma percent_encode_eq_Nil [simp]: "percent_encode s = [] \<longleftrightarrow> s = []"
  by (cases "as_bytes s") (auto simp: percent_encode_def)

end
