(* ===== verification/Server_Address.thy ===== *)
theory Server_Address
  imports Rust_Net Percent_Codec
begin

text \<open>
  \<open>ServerAddress\<close> of \<open>adapters/client_connections.rs\<close>: the parser that brings what a user typed
  into the canonical \<open>host:port\<close> the trust store is keyed by, and the loopback URI of a client
  queue (\<open>client_queue_uri\<close> of \<open>adapters/client_proxy.rs\<close>) with the routes the proxy reads back.
\<close>

section \<open>Server addresses\<close>

definition DEFAULT_PORT :: nat where
  "DEFAULT_PORT = 48631"

record ServerAddress =
  addr_host :: ustr
  addr_port :: nat
  addr_normalized :: ustr

definition invalid_address :: AppError where
  "invalid_address = invalid_input
     (lit ''Enter a valid server host or host:port with a port from 1 to 65535; IPv6 addresses must be bracketed.'')"

definition host_label_ok :: "ustr \<Rightarrow> bool" where
  "host_label_ok label \<longleftrightarrow>
     \<not> (label = [] \<or> str_len label > 63 \<or> starts_with label [45] \<or> strip_suffix label [45] \<noteq> None)"

definition host_name_ok :: "ustr \<Rightarrow> bool" where
  "host_name_ok host \<longleftrightarrow>
     \<not> (host = [] \<or> str_len host > 253
        \<or> list_ex (\<lambda>label. \<not> host_label_ok label) (split_char 46 host)
        \<or> \<not> list_all (\<lambda>b. 48 \<le> b \<and> b \<le> 57 \<or> 97 \<le> b \<and> b \<le> 122 \<or> 65 \<le> b \<and> b \<le> 90 \<or> b = 46 \<or> b = 45)
             (as_bytes host))"

definition parse_port :: "ustr \<Rightarrow> AppError + nat" where
  "parse_port s = ok_or (parse_unsigned 65535 s) invalid_address"

definition address_host_port :: "ustr \<Rightarrow> AppError + ustr \<times> nat" where
  "address_host_port value =
     (if starts_with value [91] then
        and_then (ok_or (split_once value [93]) invalid_address) (\<lambda>(pre, rest).
        and_then (ok_or (parse_ipv6 (tl pre)) invalid_address) (\<lambda>ip.
        and_then (if rest = [] then Inr DEFAULT_PORT
                  else and_then (ok_or (strip_prefix rest [58]) invalid_address) parse_port) (\<lambda>port.
        Inr (show_ipv6 ip, port))))
      else
        (case ip_to_string value of
           Some ip \<Rightarrow> Inr (ip, DEFAULT_PORT)
         | None \<Rightarrow>
             (let parts = split_char 58 value;
                  host = hd parts;
                  maybe_port = slice_at parts 1
              in if slice_at parts 2 \<noteq> None
                 then Inl (invalid_input
                        (lit ''For IPv6 addresses, use brackets, for example [2001:db8::1]:48631.''))
                 else if \<not> host_name_ok host then Inl invalid_address
                 else and_then (case maybe_port of
                                  Some port \<Rightarrow> parse_port port
                                | None \<Rightarrow> Inr DEFAULT_PORT) (\<lambda>port.
                      Inr (to_ascii_lowercase host, port)))))"

definition ServerAddress_parse :: "ustr \<Rightarrow> AppError + ServerAddress" where
  "ServerAddress_parse input =
     (let value = trim input in
      if value = [] \<or> 64 \<in> set value \<or> 47 \<in> set value \<or> 63 \<in> set value \<or> 35 \<in> set value
         \<or> list_ex is_whitespace value
      then Inl (invalid_input
             (lit ''Enter a server host or host:port (for example printer.local or printer.local:48631); do not include a URL or credentials.''))
      else
        and_then (address_host_port value) (\<lambda>(host, port).
        if port = 0 then Inl invalid_address
        else
          (let host = to_ascii_lowercase host;
               normalized = (if 58 \<in> set host
                             then [91] @ host @ [93, 58] @ show_nat port
                             else host @ [58] @ show_nat port)
           in Inr \<lparr>addr_host = host, addr_port = port, addr_normalized = normalized\<rparr>)))"

definition ServerAddress_socket :: "ServerAddress \<Rightarrow> ustr" where
  "ServerAddress_socket a =
     (if 58 \<in> set (addr_host a)
      then [91] @ addr_host a @ [93, 58] @ show_nat (addr_port a)
      else addr_host a @ [58] @ show_nat (addr_port a))"

definition normalize_address :: "ustr \<Rightarrow> AppError + ustr" where
  "normalize_address input =
     and_then (ServerAddress_parse input) (\<lambda>a. Inr (addr_normalized a))"

section \<open>Queue URIs and routes\<close>

definition client_queue_uri :: "ustr \<Rightarrow> ustr \<Rightarrow> ustr \<Rightarrow> AppError + ustr" where
  "client_queue_uri proxy_authority server_address printer_name =
     and_then (normalize_address server_address) (\<lambda>server_address.
     and_then (PrinterName_parse printer_name) (\<lambda>printer_name.
     Inr (lit ''ipp://'' @ proxy_authority @ lit ''/ipp/print/'' @ percent_encode server_address
          @ [47] @ percent_encode (PrinterName_as_str printer_name))))"

definition queue_uri :: "ustr \<Rightarrow> ClientQueueRequest \<Rightarrow> AppError + ustr" where
  "queue_uri proxy_authority request =
     client_queue_uri proxy_authority (request_server_address request)
       (PrinterName_as_str (request_printer request))"

definition not_this_proxy :: AppError where
  "not_this_proxy = invalid_input (lit ''The printer queue does not point to this local proxy.'')"

definition invalid_destination :: AppError where
  "invalid_destination =
     invalid_input (lit ''The local printer queue has an invalid destination.'')"

definition parse_route :: "ustr \<Rightarrow> AppError + ustr \<times> PrinterName" where
  "parse_route route =
     (let segments = split_char 47 route;
          server = unwrap_or (slice_at segments 0) [];
          printer = unwrap_or (slice_at segments 1) []
      in if server = [] \<or> printer = [] \<or> slice_at segments 2 \<noteq> None then Inl invalid_destination
         else
           and_then (normalize_address (percent_decode server)) (\<lambda>address.
           and_then (PrinterName_parse (percent_decode printer)) (\<lambda>name.
           Inr (address, name))))"

definition before_query :: "ustr \<Rightarrow> ustr" where
  "before_query path = takeWhile (\<lambda>c. c \<noteq> 63 \<and> c \<noteq> 35) path"

definition route_uri :: "ustr \<Rightarrow> ustr \<Rightarrow> AppError + ustr \<times> PrinterName" where
  "route_uri uri proxy_authority =
     and_then (ok_or (split_once uri (lit ''://'')) not_this_proxy) (\<lambda>(scheme, remainder).
     if \<not> eq_ignore_ascii_case scheme (lit ''ipp'') \<and> \<not> eq_ignore_ascii_case scheme (lit ''http'')
     then Inl not_this_proxy
     else
       and_then (ok_or (split_once remainder [47]) invalid_destination) (\<lambda>(authority, path).
       and_then (case rsplit_once authority [58] of
                   Some (host, port) \<Rightarrow>
                     and_then (ok_or (parse_unsigned 65535 port) invalid_destination)
                       (\<lambda>p. Inr (host, Some p))
                 | None \<Rightarrow> Inr (authority, None)) (\<lambda>(host, uri_port).
       if \<not> eq_ignore_ascii_case host (lit ''localhost'') \<and> host \<noteq> lit ''127.0.0.1''
       then Inl not_this_proxy
       else
         (let proxy_port = Option.bind (rsplit_once proxy_authority [58])
                             (\<lambda>(_, port). parse_unsigned 65535 port)
          in if (case uri_port of Some port \<Rightarrow> Some port \<noteq> proxy_port | None \<Rightarrow> False)
             then Inl not_this_proxy
             else
               and_then (ok_or (strip_prefix (before_query path) (lit ''ipp/print/''))
                           invalid_destination) parse_route))))"

definition route_from_request_path ::
  "ustr \<Rightarrow> ustr \<Rightarrow> AppError + ustr \<times> PrinterName \<times> ustr" where
  "route_from_request_path path proxy_authority =
     and_then (ok_or (strip_prefix (before_query path) (lit ''/ipp/print/''))
                 (invalid_input (lit ''The HTTP request path has no printer destination.'')))
       (\<lambda>route.
     and_then (parse_route route) (\<lambda>(server_address, printer_name).
     Inr (server_address, printer_name,
          lit ''ipp://'' @ proxy_authority @ lit ''/ipp/print/'' @ percent_encode server_address
          @ [47] @ percent_encode (PrinterName_as_str printer_name))))"

end
