(* ===== verification/Queue_Routing.thy ===== *)
theory Queue_Routing
  imports Server_Address
begin

text \<open>
  What the queue names, addresses and URIs of the components promise together: the addresses that
  reach the elevated helper hold no shell or URI syntax, the CUPS destination name is safe and
  short, and a queue installed for a shared printer is recognised in the spooler and routed back to
  the server and printer it was installed for.
\<close>

section \<open>Accepted addresses\<close>

definition address_char :: "uchar \<Rightarrow> bool" where
  "address_char c \<longleftrightarrow> label_char c \<or> c = 58 \<or> c = 91 \<or> c = 93"

lemma as_bytes_digits:
  assumes "wf_ustr s" "list_all (\<lambda>b. 48 \<le> b \<and> b \<le> 57) (as_bytes s)"
  shows "list_all is_ascii_digit s"
proof -
  have "list_all (\<lambda>b. b < 0x80) (as_bytes s)"
    using assms(2) by (auto simp: list_all_iff intro: order_le_less_trans [of _ 57 128])
  then have "s = map unat (as_bytes s)"
    using from_utf8_ascii [of "as_bytes s"] from_utf8_as_bytes [OF assms(1)] by simp
  moreover have "list_all (\<lambda>b. is_ascii_digit (unat b)) (as_bytes s)"
    using assms(2) by (auto simp: list_all_iff is_ascii_digit_def word_le_nat_alt)
  ultimately show ?thesis
    by (metis list.pred_map comp_def list.pred_mono_strong)
qed

lemma address_port_shape:
  assumes "address_port a = Inr port"
  shows "\<exists>h. list_all address_char h \<and>
    a = h @ (case port of None \<Rightarrow> [] | Some p \<Rightarrow> 58 # p)"
proof (cases "strip_prefix a [91]")
  case (Some rest)
  with assms obtain host after where s: "split_once rest [93] = Some (host, after)"
    and host: "list_all (\<lambda>c. is_ascii_hexdigit c \<or> c = 58 \<or> c = 46) host"
    and port: "port = (case strip_prefix after [58] of Some p \<Rightarrow> Some p | None \<Rightarrow> None)"
      "strip_prefix after [58] = None \<Longrightarrow> after = []"
    by (auto simp: address_port_def result_simps split: if_splits option.splits prod.splits)
  have a: "a = [91] @ host @ [93] @ after"
    using Some split_once_Some [OF s] by (simp add: strip_prefix_Some_iff)
  have "after = (case port of None \<Rightarrow> [] | Some p \<Rightarrow> 58 # p)"
    using port by (auto simp: strip_prefix_Some_iff split: option.splits)
  moreover have "list_all address_char ([91] @ host @ [93])"
    using host by (auto simp: list_all_iff address_char_def label_char_def is_ascii_hexdigit_def
        is_ascii_alphanumeric_def)
  ultimately show ?thesis using a by (intro exI [of _ "[91] @ host @ [93]"]) simp
next
  case None
  have host: "list_all address_char h" if "list_all (\<lambda>c. is_ascii_alphanumeric c \<or> c = 46 \<or> c = 45) h"
    for h using that by (auto simp: list_all_iff address_char_def label_char_def)
  show ?thesis
  proof (cases "split_once a [58]")
    case None
    with assms \<open>strip_prefix a [91] = None\<close> show ?thesis
      by (intro exI [of _ a]) (auto simp: address_port_def intro!: host split: if_splits)
  next
    case (Some hp)
    then obtain h p where hp: "split_once a [58] = Some (h, p)" by (cases hp) auto
    with assms \<open>strip_prefix a [91] = None\<close> split_once_Some [OF hp] show ?thesis
      by (intro exI [of _ h]) (auto simp: address_port_def intro!: host split: if_splits)
  qed
qed

lemma validate_address_chars:
  assumes "validate_address a = Inr ()" "wf_ustr a"
  shows "list_all address_char a"
proof -
  from assms obtain port where port: "address_port a = Inr port"
    "\<And>p. port = Some p \<Longrightarrow> port_valid p"
    by (auto simp: validate_address_def result_simps split: if_splits option.splits)
  from address_port_shape [OF port(1)] obtain h where h: "list_all address_char h"
    and a: "a = h @ (case port of None \<Rightarrow> [] | Some p \<Rightarrow> 58 # p)" by blast
  have "list_all address_char p" if "port = Some p" for p
  proof -
    have "wf_ustr p" using assms(2) a that by simp
    with port(2) [OF that] have "list_all is_ascii_digit p"
      by (auto simp: port_valid_def intro: as_bytes_digits)
    then show ?thesis
      by (auto simp: list_all_iff address_char_def label_char_def is_ascii_alphanumeric_def)
  qed
  with h a show ?thesis
    by (auto simp: address_char_def split: option.splits)
qed

lemma address_char_ascii: "list_all address_char a \<Longrightarrow> list_all (\<lambda>c. c < 128) a"
  by (auto simp: list_all_iff address_char_def label_char_def is_ascii_alphanumeric_def
      is_ascii_digit_def)

section \<open>Derived queue names\<close>

lemma shaprint_suffix_trim:
  assumes "wf_name p"
  shows "trim (p @ s @ [41]) = p @ s @ [41]"
proof -
  have "\<not> is_whitespace (hd p)" "p \<noteq> []"
    using assms trim_ends [of is_whitespace p] by (auto simp: wf_name_def)
  then show ?thesis by (intro trim_by_id) (auto simp: is_whitespace_def)
qed

definition queue_text :: "PrinterName \<Rightarrow> ustr \<Rightarrow> ustr" where
  "queue_text p a = PrinterName_as_str p @ lit '' (ShaPrint '' @ address_label a @ [41]"

lemma for_shared_printer_eq:
  assumes "wf_name (PrinterName_as_str p)" "for_shared_printer p a = Inr q"
  shows "q = ClientQueueName (queue_text p a)" "wf_queue_name (queue_text p a)"
proof -
  have "trim (queue_text p a) = queue_text p a"
    using shaprint_suffix_trim [OF assms(1), of "lit '' (ShaPrint '' @ address_label a"]
    by (simp add: queue_text_def)
  with assms(2) show "q = ClientQueueName (queue_text p a)" "wf_queue_name (queue_text p a)"
    by (auto simp: for_shared_printer_def ClientQueueName_parse_Inr_iff queue_text_def)
qed

lemma last_separator:
  fixes d :: uchar
  assumes "a @ d # b = a' @ d # b'" "d \<notin> set b" "d \<notin> set b'"
  shows "a = a'" "b = b'"
proof -
  have "rsplit_once (a @ d # b) [d] = Some (a, b)" "rsplit_once (a' @ d # b') [d] = Some (a', b')"
    using assms(2,3) by (simp_all add: rsplit_once_char_Some_iff)
  then have "Some (a, b) = Some (a', b')" by (metis assms(1))
  then show "a = a'" "b = b'" by blast+
qed

text \<open>A derived name never looks like a Windows copy: what follows its last \<open> (Copy \<close> holds the
  opening parenthesis of the ShaPrint suffix, so it is not a number.\<close>

lemma derived_not_copy: "strip_trailing_copy_suffix (queue_text p a) = None"
proof (rule ccontr)
  assume "strip_trailing_copy_suffix (queue_text p a) \<noteq> None"
  then obtain x n where
    r: "rsplit_once (PrinterName_as_str p @ lit '' (ShaPrint '' @ address_label a) (lit '' (Copy '')
        = Some (x, n)" and n: "list_all is_ascii_digit n"
    by (auto simp: strip_trailing_copy_suffix_def queue_text_def strip_suffix_Some_iff
        split: bind_splits if_splits)
  from rsplit_once_Some [OF r]
  have eq: "(PrinterName_as_str p @ lit '' (ShaPrint'') @ [32] @ address_label a
    = (x @ lit '' (Copy'') @ [32] @ n" by simp
  have no32: "32 \<notin> set n" "32 \<notin> set (address_label a)"
    using n address_label_chars [of 32 a]
    by (auto simp: list_all_iff is_ascii_digit_def label_char_def is_ascii_alphanumeric_def)
  from eq have "(PrinterName_as_str p @ lit '' (ShaPrint'') @ 32 # address_label a
    = (x @ lit '' (Copy'') @ 32 # n" by simp
  from last_separator(1) [OF this no32(2,1)]
  have "PrinterName_as_str p @ lit '' (ShaPrint'' = x @ lit '' (Copy''" .
  then have "last (PrinterName_as_str p @ lit '' (ShaPrint'') = last (x @ lit '' (Copy'')"
    by simp
  then show False by simp
qed

section \<open>An installed queue is recognised and routed back\<close>

lemma starts_with_lit_lower:
  "to_ascii_lowercase p = p \<Longrightarrow> starts_with (to_ascii_lowercase (p @ s)) p"
  by (metis map_append starts_with_append)

lemma trim_uri:
  assumes "wf_name p"
  shows "trim (lit ''ipp://'' @ s @ percent_encode p) = lit ''ipp://'' @ s @ percent_encode p"
proof (rule trim_by_id, intro disjI2 conjI)
  show "\<not> is_whitespace (hd (lit ''ipp://'' @ s @ percent_encode p))"
    by (simp add: is_whitespace_def)
  have ne: "percent_encode p \<noteq> []" using assms by (simp add: wf_name_def)
  then have "last (percent_encode p) \<in> set (percent_encode p)" by simp
  from percent_encode_visible [OF this] have "\<not> is_whitespace (last (percent_encode p))"
    by (auto simp: is_whitespace_def)
  with ne show "\<not> is_whitespace (last (lit ''ipp://'' @ s @ percent_encode p))" by simp
qed

lemma queue_uri_Inr:
  assumes "queue_uri auth r = Inr uri" "wf_name (PrinterName_as_str (request_printer r))"
    and "normalize_address (request_server_address r) = Inr (request_server_address r)"
  shows "uri = lit ''ipp://'' @ auth @ lit ''/ipp/print/''
    @ percent_encode (request_server_address r) @ [47]
    @ percent_encode (PrinterName_as_str (request_printer r))"
  using assms by (auto simp: queue_uri_def client_queue_uri_def result_simps
      PrinterName_parse_Inr_iff wf_name_def)

lemma route_segments: "split_char 47 (percent_encode a @ 47 # percent_encode b)
    = [percent_encode a, percent_encode b]"
  by (simp add: split_char_append split_char_no_sep percent_encode_no_slash)

lemma ClientQueueRequest_new_Inr:
  assumes "ClientQueueRequest_new addr p = Inr r" "wf_name (PrinterName_as_str p)"
  shows "request_printer r = p" "request_server_address r = trim addr"
    "validate_address (trim addr) = Inr ()"
    "request_queue_name r = ClientQueueName (queue_text p (trim addr))"
    "wf_queue_name (queue_text p (trim addr))"
    "for_shared_printer p (trim addr) = Inr (ClientQueueName (queue_text p (trim addr)))"
  using assms(1) for_shared_printer_eq [OF assms(2), of "trim addr"]
  by (auto simp: ClientQueueRequest_new_def result_simps Let_def)

lemma classify_route_installed:
  assumes "wf_ustr (PrinterName_as_str p)" "wf_name (PrinterName_as_str p)"
    and "wf_ustr a" "a \<noteq> []" "validate_address a = Inr ()"
    and "for_shared_printer p a = Inr (ClientQueueName (queue_text p a))"
    and "wf_queue_name (queue_text p a)"
  shows "classify_route sha256 (queue_text p a)
      (lit ''/ipp/print/'' @ percent_encode a @ 47 # percent_encode (PrinterName_as_str p))
    = RecognisedQueue \<lparr>recognised_queue_name = ClientQueueName (queue_text p a),
        recognised_server_address = a, recognised_printer_name = p\<rparr>"
proof -
  have "PrinterName_parse (PrinterName_as_str p) = Inr p" "PrinterName_as_str p \<noteq> []"
    using assms(2) by (auto simp: PrinterName_parse_Inr_iff wf_name_def)
  moreover have "ClientQueueName_parse (queue_text p a) = Inr (ClientQueueName (queue_text p a))"
    using assms(7) by (auto simp: ClientQueueName_parse_Inr_iff wf_queue_name_def)
  ultimately show ?thesis
    using assms
    by (simp add: classify_route_def route_segments queue_percent_decode_encode
        derived_not_copy unwrap_or_def)
qed

lemma lower_print_path:
  "starts_with (to_ascii_lowercase (lit ''/ipp/print/'' @ s)) (lit ''/ipp/print/'')"
  by (rule starts_with_lit_lower) (simp add: ascii_lower_def)

lemma scheme_rest_ipp: "scheme_rest (lit ''ipp://'' @ s) = Some s"
proof -
  have "starts_with (to_ascii_lowercase (lit ''ipp://'' @ s)) (lit ''ipp://'')"
    by (rule starts_with_lit_lower) (simp add: ascii_lower_def)
  then show ?thesis by (simp add: scheme_rest_def Let_def)
qed

lemma installed_queue_classified:
  assumes "PrinterName_parse v = Inr p" "wf_ustr v" "wf_ustr addr"
    and "ClientQueueRequest_new addr p = Inr r"
    and "normalize_address (request_server_address r) = Inr (request_server_address r)"
    and "queue_uri auth r = Inr uri" "47 \<notin> set auth"
  shows "classify sha256
      \<lparr>record_name = ClientQueueName_as_str (request_queue_name r), record_port = uri\<rparr> auth
    = RecognisedQueue \<lparr>recognised_queue_name = request_queue_name r,
        recognised_server_address = request_server_address r, recognised_printer_name = p\<rparr>"
proof -
  have p: "wf_name (PrinterName_as_str p)" "wf_ustr (PrinterName_as_str p)"
    using assms(1,2) set_trim_by [of is_whitespace v]
    by (auto simp: PrinterName_parse_Inr_iff list_all_iff)
  note r = ClientQueueRequest_new_Inr [OF assms(4) p(1)]
  define a where "a = request_server_address r"
  have a: "wf_ustr a" "a \<noteq> []" "validate_address a = Inr ()"
    using r(2,3) assms(3) set_trim_by [of is_whitespace addr]
    by (auto simp: list_all_iff a_def validate_address_def)
  let ?tail = "percent_encode a @ 47 # percent_encode (PrinterName_as_str p)"
  have uri: "uri = lit ''ipp://'' @ auth @ lit ''/ipp/print/'' @ ?tail"
    using queue_uri_Inr [OF assms(6)] p r(1) assms(5) by (simp add: a_def)
  then have "trim uri = uri"
    using trim_uri [OF p(1), of "auth @ lit ''/ipp/print/'' @ percent_encode a @ [47]"] by simp
  moreover have "split_once (auth @ lit ''/ipp/print/'' @ ?tail) [47]
      = Some (auth, lit ''ipp/print/'' @ ?tail)"
    using split_once_char [OF assms(7), of "lit ''ipp/print/'' @ ?tail"] by simp
  moreover have "is_loopback_authority auth auth" by (simp add: is_loopback_authority_def)
  moreover have "classify_route sha256 (queue_text p a) (lit ''/ipp/print/'' @ ?tail)
    = RecognisedQueue \<lparr>recognised_queue_name = ClientQueueName (queue_text p a),
        recognised_server_address = a, recognised_printer_name = p\<rparr>"
    using r p a by (intro classify_route_installed) (simp_all add: a_def)
  ultimately have "classify_endpoint sha256 (queue_text p a) (trim uri) auth
    = Some (RecognisedQueue \<lparr>recognised_queue_name = ClientQueueName (queue_text p a),
        recognised_server_address = a, recognised_printer_name = p\<rparr>)"
    using lower_print_path [of ?tail] uri scheme_rest_ipp by (simp add: classify_endpoint_def)
  moreover have "trim (queue_text p a) = queue_text p a"
    using r(2,5) by (simp add: wf_queue_name_def a_def)
  ultimately show ?thesis
    using r(2,4) by (simp add: classify_def a_def)
qed

text \<open>
  C28: A client queue ShaPrint installs is recognised as exactly that queue. For a valid printer name
  and a canonical server address, the record the spooler reports after the install (the derived
  queue name and the URI \<open>queue_uri\<close> built for the request) is classified as the recognised
  client queue with the request's queue name, server address and printer.
\<close>

theorem installed_queue_recognised:
  assumes "PrinterName_parse v = Inr p" "wf_ustr v" "wf_ustr addr"
    and "ClientQueueRequest_new addr p = Inr r"
    and "normalize_address (request_server_address r) = Inr (request_server_address r)"
    and "queue_uri auth r = Inr uri" "47 \<notin> set auth"
  shows "classify sha256
      \<lparr>record_name = ClientQueueName_as_str (request_queue_name r), record_port = uri\<rparr> auth
    = RecognisedQueue \<lparr>recognised_queue_name = request_queue_name r,
        recognised_server_address = request_server_address r, recognised_printer_name = p\<rparr>"
  by (rule installed_queue_classified [OF assms])

text \<open>
  The proxy resolves an installed queue's URI back to the server and printer it was installed
  for, from the \<open>printer-uri\<close> attribute as well as from the HTTP request path, whatever the port
  the proxy listens on.
\<close>

lemma installed_queue_routed:
  assumes "PrinterName_parse v = Inr p" "wf_ustr v"
    and "ClientQueueRequest_new addr p = Inr r" "wf_ustr addr"
    and "normalize_address (request_server_address r) = Inr (request_server_address r)"
    and "auth = lit ''127.0.0.1:'' @ show_nat port" "port \<le> 65535"
    and "queue_uri auth r = Inr uri"
  shows "route_uri uri auth = Inr (request_server_address r, p)
    \<and> route_from_request_path (drop (6 + length auth) uri) auth
        = Inr (request_server_address r, p, uri)"
proof -
  have p: "wf_name (PrinterName_as_str p)" "wf_ustr (PrinterName_as_str p)"
    "PrinterName_parse (PrinterName_as_str p) = Inr p"
    using assms(1,2) set_trim_by [of is_whitespace v] PrinterName_parse_as_str [OF assms(1)]
    by (auto simp: PrinterName_parse_Inr_iff list_all_iff)
  note r = ClientQueueRequest_new_Inr [OF assms(3) p(1)]
  define a where "a = request_server_address r"
  have a: "wf_ustr a" "a \<noteq> []" "normalize_address a = Inr a"
    using r(2,3) assms(4,5) set_trim_by [of is_whitespace addr]
    by (auto simp: list_all_iff a_def validate_address_def)
  let ?route = "percent_encode a @ 47 # percent_encode (PrinterName_as_str p)"
  have uri: "uri = lit ''ipp://'' @ auth @ lit ''/ipp/print/'' @ ?route"
    using queue_uri_Inr [OF assms(8)] p(1) r(1) assms(5) by (simp add: a_def)
  have ne: "percent_encode a \<noteq> []" "percent_encode (PrinterName_as_str p) \<noteq> []"
    using a(2) p(1) by (auto simp: wf_name_def)
  have route: "parse_route ?route = Inr (a, p)"
    using ne a p by (simp add: parse_route_def route_segments slice_at_def unwrap_or_def
        percent_decode_encode)
  have digits: "list_all is_ascii_digit (show_nat port)" using show_nat_digits [of port] by simp
  have no: "47 \<notin> set auth" "58 \<notin> set (show_nat port)"
    using digits by (auto simp: assms(6) list_all_iff is_ascii_digit_def)
  have visible: "before_query (s @ ?route) = s @ ?route" if "63 \<notin> set s" "35 \<notin> set s" for s
    using that percent_encode_visible [of 35 a] percent_encode_visible [of 63 a]
      percent_encode_visible [of 35 "PrinterName_as_str p"]
      percent_encode_visible [of 63 "PrinterName_as_str p"]
    by (auto simp: before_query_def takeWhile_eq_all_conv)
  have scheme: "split_once uri (lit ''://'') = Some (lit ''ipp'', auth @ lit ''/ipp/print/'' @ ?route)"
    by (simp add: uri starts_with_def)
  have remainder: "split_once (auth @ lit ''/ipp/print/'' @ ?route) [47]
      = Some (auth, lit ''ipp/print/'' @ ?route)"
    using split_once_char [OF no(1), of "lit ''ipp/print/'' @ ?route"] by simp
  have authority: "rsplit_once auth [58] = Some (lit ''127.0.0.1'', show_nat port)"
    using no(2) by (simp add: assms(6) rsplit_once_char_Some_iff)
  have prefix: "strip_prefix (before_query (lit ''ipp/print/'' @ ?route)) (lit ''ipp/print/'')
      = Some ?route"
    "strip_prefix (before_query (lit ''/ipp/print/'' @ ?route)) (lit ''/ipp/print/'')
      = Some ?route"
    by (subst visible; simp add: strip_prefix_Some_iff)+
  have "route_uri uri auth = Inr (a, p)"
    unfolding route_uri_def scheme
    by (simp only: ok_or_simps and_then.simps case_prod_conv remainder authority option.case
        parse_show_nat [OF assms(7)] prefix route bind.bind_lunit eq_ignore_ascii_case_refl
        not_True_eq_False simp_thms if_False Let_def)
  moreover have "drop (6 + length auth) uri = lit ''/ipp/print/'' @ ?route"
    using drop_drop [of "length auth" 6 uri] by (simp add: uri add.commute)
  then have "route_from_request_path (drop (6 + length auth) uri) auth = Inr (a, p, uri)"
    using prefix(2) route by (simp add: route_from_request_path_def uri)
  ultimately show ?thesis by (simp add: a_def)
qed

text \<open>The stages of the classification, as rules.\<close>

lemma classify_route_cases:
  "classify_route sha256 n path \<noteq> EligibleLocal q" "classify_route sha256 n path \<noteq> Ignored"
  by (auto simp: classify_route_def Let_def split: list.splits sum.splits)

lemma classify_endpoint_Some:
  "classify_endpoint sha256 n port auth = Some c \<Longrightarrow> \<exists>path. c = classify_route sha256 n path"
  by (auto simp: classify_endpoint_def Let_def split: bind_splits if_splits)

text \<open>
  A queue that ShaPrint installed is never offered for sharing, so a print job can never loop
  through its own proxy: whatever name the spooler reports for it, and whatever authority the proxy
  uses now, a record on the URI of an installed queue (on any loopback port, also the port of an
  older release) is neither an eligible local printer nor ignored.
\<close>

lemma installed_port_classified:
  assumes "PrinterName_parse v = Inr p" "ClientQueueRequest_new addr p = Inr r"
    and "normalize_address (request_server_address r) = Inr (request_server_address r)"
    and "queue_uri (lit ''127.0.0.1:'' @ show_nat port) r = Inr uri" "port \<le> 65535"
  shows "classify sha256 \<lparr>record_name = n, record_port = uri\<rparr> auth \<noteq> EligibleLocal q
    \<and> classify sha256 \<lparr>record_name = n, record_port = uri\<rparr> auth \<noteq> Ignored"
proof -
  have p: "wf_name (PrinterName_as_str p)" using assms(1) by (auto simp: PrinterName_parse_Inr_iff)
  note r = ClientQueueRequest_new_Inr [OF assms(2) p]
  let ?auth = "lit ''127.0.0.1:'' @ show_nat port"
  let ?tail = "percent_encode (request_server_address r) @ 47 # percent_encode (PrinterName_as_str p)"
  have digits: "list_all is_ascii_digit (show_nat port)" using show_nat_digits [of port] by simp
  then have no: "47 \<notin> set ?auth" "58 \<notin> set (lit ''127.0.0.1'')"
    by (auto simp: list_all_iff is_ascii_digit_def)
  have uri: "uri = lit ''ipp://'' @ ?auth @ lit ''/ipp/print/'' @ ?tail"
    using queue_uri_Inr [OF assms(4)] p r(1) assms(3) by simp
  then have "trim uri = uri"
    using trim_uri [OF p, of "?auth @ lit ''/ipp/print/'' @ percent_encode (request_server_address r)
      @ [47]"] by simp
  moreover have "split_once (?auth @ lit ''/ipp/print/'' @ ?tail) [47]
      = Some (?auth, lit ''ipp/print/'' @ ?tail)"
    using split_once_char [OF no(1), of "lit ''ipp/print/'' @ ?tail"] by simp
  moreover have "is_loopback_authority ?auth auth"
  proof -
    have "strip_prefix ?auth [91] = None" by (simp add: strip_prefix_def starts_with_def)
    moreover have "split_once ?auth [58] = Some (lit ''127.0.0.1'', show_nat port)"
      using split_once_char [OF no(2), of "show_nat port"] by simp
    ultimately show ?thesis
      by (simp add: is_loopback_authority_def parse_show_nat assms(5))
  qed
  ultimately have "classify_endpoint sha256 (trim n) (trim uri) auth
    = Some (classify_route sha256 (trim n) (lit ''/ipp/print/'' @ ?tail))"
    using lower_print_path [of ?tail] uri scheme_rest_ipp by (simp add: classify_endpoint_def)
  then show ?thesis by (simp add: classify_def classify_route_cases)
qed

lemma ClientQueueName_as_str_eq: "ClientQueueName_as_str q = s \<longleftrightarrow> q = ClientQueueName s"
  by (cases q) auto

text \<open>
  A recognised client queue is a verified one, on every path of the classification: its name is
  the record's, well formed, and equal to the name (or the CUPS destination) derived from the very
  server and printer it is reported for, up to a trailing Windows copy suffix; and its server
  address has the canonical shape.
\<close>

theorem recognised_queue_verified:
  assumes "classify sha256 rec auth = RecognisedQueue q"
  shows "recognised_queue_name q = ClientQueueName (trim (record_name rec))
    \<and> wf_queue_name (trim (record_name rec))
    \<and> validate_address (recognised_server_address q) = Inr ()
    \<and> (let base = unwrap_or (strip_trailing_copy_suffix (trim (record_name rec)))
                    (trim (record_name rec))
       in for_shared_printer (recognised_printer_name q) (recognised_server_address q)
            = Inr (ClientQueueName base)
          \<or> cups_destination_for sha256 (recognised_printer_name q) (recognised_server_address q)
            = base)"
proof -
  let ?n = "trim (record_name rec)"
  have route: ?thesis if "classify_route sha256 ?n path = RecognisedQueue q" for path
    using that
    by (auto simp: classify_route_def Let_def ClientQueueName_parse_Inr_iff is_ok_unit
        ClientQueueName_as_str_eq split: list.splits if_splits sum.splits)
  have wsd: ?thesis if "classify_wsd ?n port = Some (RecognisedQueue q)" for port
    using that
    by (auto simp: classify_wsd_def parse_client_queue_name_def Let_def is_ok_unit result_simps
        ClientQueueName_parse_Inr_iff ClientQueueName_as_str_eq
        split: if_splits option.splits bind_splits)
  have other: "classify_other ?n port auth \<noteq> RecognisedQueue q" for port
    by (auto simp: classify_other_def Let_def split: sum.splits)
  from assms consider "classify_endpoint sha256 ?n (trim (record_port rec)) auth
      = Some (RecognisedQueue q)"
    | "classify_wsd ?n (trim (record_port rec)) = Some (RecognisedQueue q)"
    using other by (auto simp: classify_def Let_def split: option.splits)
  then show ?thesis
    by cases (use route wsd classify_endpoint_Some in metis)+
qed

section \<open>Safe names\<close>

lemma sanitize_cups_loop_chars:
  "c \<in> set (sanitize_cups_loop out u s) \<Longrightarrow> \<forall>d \<in> set out. label_char d \<or> d = 95
    \<Longrightarrow> label_char c \<or> c = 95"
  by (induction out u s rule: sanitize_cups_loop.induct)
    (auto simp: label_char_def split: if_splits)

lemma cups_slug_chars:
  "c \<in> set (trim_matches 95 (take 60 (sanitize_cups_token s))) \<Longrightarrow> label_char c \<or> c = 95"
  using sanitize_cups_loop_chars [of c "[]" False s] set_trim_by [of "\<lambda>d. d = 95"]
    set_trim_end_by [of "\<lambda>d. d = 95"]
  by (fastforce simp: sanitize_cups_token_def dest: in_set_takeD)

lemma hex_digit_lower_char: "n < 16 \<Longrightarrow> label_char (hex_digit_lower n)"
  by (auto simp: hex_digit_lower_def label_char_def is_ascii_alphanumeric_def is_ascii_digit_def)

lemma hex_lower_chars: "c \<in> set (hex_lower b) \<Longrightarrow> label_char c"
  using hex_digit_lower_char nibble_bounds [of b] by (auto simp: hex_lower_def)

lemma length_concat_hex_lower: "length (concat (map hex_lower bs)) = 2 * length bs"
  by (induction bs) simp_all

text \<open>
  A CUPS destination name is safe and bounded, for every printer, every address and every digest:
  it starts with \<open>ShaPrint_\<close>, has at most 127 characters, and each of them is an ASCII letter or
  digit, a dot, a hyphen or an underscore.
\<close>

theorem cups_destination_safe:
  "starts_with (cups_destination_for sha256 p a) (lit ''ShaPrint_'')
   \<and> length (cups_destination_for sha256 p a) \<le> 127
   \<and> list_all (\<lambda>c. is_ascii_alphanumeric c \<or> c = 46 \<or> c = 45 \<or> c = 95)
       (cups_destination_for sha256 p a)"
proof -
  define digest where "digest = sha256 (as_bytes (lit ''shaprint-cups-queue:'') @ as_bytes (trim a)
    @ [0] @ as_bytes (PrinterName_as_str p))"
  define addr where "addr = (let s = trim_matches 45 (take 40 (address_label (trim a)))
    in if s = [] then lit ''server'' else s)"
  define prn where "prn = (let s = trim_matches 95 (take 60 (sanitize_cups_token
    (PrinterName_as_str p))) in if s = [] then lit ''Printer'' else s)"
  have d: "cups_destination_for sha256 p a
    = lit ''ShaPrint_'' @ prn @ [95] @ addr @ [95] @ concat (map hex_lower (take 4 digest))"
    unfolding cups_destination_for_def Let_def digest_def addr_def prn_def by (rule refl)
  have "length addr \<le> 40" "length prn \<le> 60"
    using length_trim_by [of "\<lambda>d. d = 45" "take 40 (address_label (trim a))"]
      length_trim_by [of "\<lambda>d. d = 95" "take 60 (sanitize_cups_token (PrinterName_as_str p))"]
    by (auto simp: addr_def prn_def Let_def)
  moreover have "label_char c" if "c \<in> set (trim_matches 45 (take 40 (address_label (trim a))))" for c
    using that set_trim_by [of "\<lambda>d. d = 45" "take 40 (address_label (trim a))"]
      address_label_chars [of c "trim a"] by (auto dest: in_set_takeD)
  then have "\<forall>c \<in> set addr. label_char c"
    by (auto simp: addr_def Let_def label_char_def is_ascii_alphanumeric_def is_ascii_digit_def
        split: if_splits)
  moreover have "\<forall>c \<in> set prn. label_char c \<or> c = 95"
    using cups_slug_chars [of _ "PrinterName_as_str p"]
    by (auto simp: prn_def Let_def label_char_def is_ascii_alphanumeric_def is_ascii_digit_def
        split: if_splits)
  ultimately show ?thesis
    using hex_lower_chars length_concat_hex_lower [of "take 4 digest"]
    by (auto simp: d starts_with_def list_all_iff label_char_def is_ascii_alphanumeric_def)
qed

text \<open>
  No address with URI or shell syntax reaches the elevated helper: a client queue request exists
  only for an address of at most 300 characters, each an ASCII letter or digit, a dot, a hyphen, a
  colon or a square bracket, and the queue name derived for it has no control character, backslash
  or comma and at most 220 characters.
\<close>

theorem queue_request_safe:
  assumes "ClientQueueRequest_new addr p = Inr r" "wf_ustr addr"
  shows "list_all (\<lambda>c. is_ascii_alphanumeric c \<or> c \<in> {45, 46, 58, 91, 93}) (request_server_address r)
    \<and> request_server_address r \<noteq> [] \<and> length (request_server_address r) \<le> 300
    \<and> list_all (\<lambda>c. \<not> is_control c \<and> c \<noteq> 92 \<and> c \<noteq> 44)
        (ClientQueueName_as_str (request_queue_name r))
    \<and> length (ClientQueueName_as_str (request_queue_name r)) \<le> 220"
proof -
  have r: "request_server_address r = trim addr" "validate_address (trim addr) = Inr ()"
    "wf_queue_name (ClientQueueName_as_str (request_queue_name r))"
    using assms(1) for_shared_printer_Inr
    by (auto simp: ClientQueueRequest_new_def result_simps Let_def)
  have "wf_ustr (trim addr)"
    using assms(2) set_trim_by [of is_whitespace addr] by (auto simp: list_all_iff)
  then have "list_all address_char (trim addr)" by (rule validate_address_chars [OF r(2)])
  moreover have "trim addr \<noteq> []" "length (trim addr) \<le> 300"
    using r(2) by (auto simp: validate_address_def QUEUE_ADDRESS_LIMIT_def split: if_splits)
  ultimately show ?thesis
    using r(1,3)
    by (auto simp: wf_queue_name_def QUEUE_NAME_LIMIT_def list_all_iff address_char_def
        label_char_def)
qed

text \<open>
  The two percent decoders of the program agree on everything \<open>percent_encode\<close> writes, but not
  on malformed escapes: the endpoint's decoder keeps an unusable escape verbatim, while the spooler
  decoder drops the two characters after the percent sign.
\<close>

theorem percent_decoders_compared:
  "(\<forall>s. wf_ustr s \<longrightarrow> percent_decode (percent_encode s) = s
      \<and> queue_percent_decode (percent_encode s) = s)
   \<and> percent_decode (lit ''50%zz9'') = lit ''50%zz9''
   \<and> queue_percent_decode (lit ''50%zz9'') = lit ''50%9''"
proof -
  have "percent_decode (lit ''50%zz9'') = lit ''50%zz9''"
    by (simp add: percent_decode_def hex_digit_def from_utf8_lossy_ascii)
  moreover have "queue_percent_decode (lit ''50%zz9'') = lit ''50%9''"
    by (simp add: queue_percent_decode_def hex_val_def slice_at_def from_utf8_lossy_ascii)
  ultimately show ?thesis
    using percent_decode_encode queue_percent_decode_encode by blast
qed

end
