(* ===== verification/Mdns_Wire.thy ===== *)
theory Mdns_Wire
  imports Domain_Printer
begin

unbundle bit_operations_syntax

text \<open>
  \<open>adapters/discovery/wire.rs\<close>: the multicast DNS messages of the discovery protocol, their encoder,
  and the defensive reader with name compression. A reader is the packet and a position in it; an
  operation of it returns its value and the new position. A lifetime is whole seconds and
  nanoseconds, as \<open>Duration\<close> keeps it.
\<close>

section \<open>Constants and data\<close>

definition SERVICE_TYPE :: ustr where
  "SERVICE_TYPE = lit ''_shaprint-ipps._tcp.local.''"

definition RECORD_TYPE_PTR :: u16 where "RECORD_TYPE_PTR = 12"
definition RECORD_TYPE_TXT :: u16 where "RECORD_TYPE_TXT = 16"
definition RECORD_TYPE_SRV :: u16 where "RECORD_TYPE_SRV = 33"
definition MESSAGE_FLAGS_QUERY :: u16 where "MESSAGE_FLAGS_QUERY = 0"
definition MESSAGE_FLAGS_RESPONSE :: u16 where "MESSAGE_FLAGS_RESPONSE = 0x8400"
definition CLASS_IN :: u16 where "CLASS_IN = 1"
definition UNICAST_OR_CACHE_FLUSH :: u16 where "UNICAST_OR_CACHE_FLUSH = 0x8000"
definition MAX_NAME_JUMPS :: nat where "MAX_NAME_JUMPS = 64"
definition MAX_LABEL :: nat where "MAX_LABEL = 63"
definition MAX_TXT_STRING :: nat where "MAX_TXT_STRING = 255"
definition FIXED_SERVICE_LENGTH :: nat where "FIXED_SERVICE_LENGTH = 6"

lemmas wire_constants = RECORD_TYPE_PTR_def RECORD_TYPE_TXT_def RECORD_TYPE_SRV_def
  MESSAGE_FLAGS_QUERY_def MESSAGE_FLAGS_RESPONSE_def CLASS_IN_def UNICAST_OR_CACHE_FLUSH_def

record Duration =
  as_secs :: nat
  subsec_nanos :: nat

record Query =
  query_name :: ustr
  query_type :: u16
  unicast_response :: bool

datatype RecordData =
    Pointer ustr
  | Service u16 u16 u16 ustr
  | Text "(ustr \<times> ustr) list"
  | Other bytes

record DnsRecord =
  rec_name :: ustr
  rec_type :: u16
  cache_flush :: bool
  rec_ttl :: Duration
  rec_data :: RecordData

record Message =
  queries :: "Query list"
  records :: "DnsRecord list"

definition malformed_with :: "ustr \<Rightarrow> AppError" where
  "malformed_with reason =
     invalid_input (lit ''the multicast DNS packet is malformed: '' @ reason)"

definition malformed :: AppError where
  "malformed = malformed_with (lit ''the packet ends before the record it describes'')"

section \<open>The reader\<close>

definition reader_take :: "bytes \<Rightarrow> nat \<Rightarrow> nat \<Rightarrow> AppError + bytes \<times> nat" where
  "reader_take packet position len =
     and_then (ok_or (slice_get packet position (position + len)) malformed) (\<lambda>bs.
     Inr (bs, position + len))"

definition reader_u16 :: "bytes \<Rightarrow> nat \<Rightarrow> AppError + u16 \<times> nat" where
  "reader_u16 packet position =
     and_then (reader_take packet position 2) (\<lambda>(bs, position).
     Inr (from_be16 (bs ! 0) (bs ! 1), position))"

definition reader_u32 :: "bytes \<Rightarrow> nat \<Rightarrow> AppError + u32 \<times> nat" where
  "reader_u32 packet position =
     and_then (reader_take packet position 4) (\<lambda>(bs, position).
     Inr (from_be32 (bs ! 0) (bs ! 1) (bs ! 2) (bs ! 3), position))"

text \<open>
  The loop of \<open>Reader::name\<close>. Every round either moves forward inside the packet or follows one of
  at most \<open>MAX_NAME_JUMPS\<close> pointers, which is the measure that makes it end.
\<close>

function name_loop ::
  "bytes \<Rightarrow> ustr list \<Rightarrow> nat \<Rightarrow> nat \<Rightarrow> nat option \<Rightarrow> AppError + ustr list \<times> nat \<times> nat option" where
  "name_loop packet labels jumps position after_name =
     (case slice_at packet position of
        None \<Rightarrow> Inl malformed
      | Some len \<Rightarrow>
          if len AND 0xC0 = 0x00 then
            (if len = 0 then Inr (labels, position + 1, after_name)
             else (case slice_get packet (position + 1) (position + 1 + unat len) of
                     None \<Rightarrow> Inl malformed
                   | Some label \<Rightarrow>
                       (case from_utf8 label of
                          None \<Rightarrow> Inl (malformed_with (lit ''a name label is not valid utf-8''))
                        | Some s \<Rightarrow>
                            name_loop packet (labels @ [s]) jumps (position + 1 + unat len)
                              after_name)))
          else if len AND 0xC0 = 0xC0 then
            (case slice_at packet (position + 1) of
               None \<Rightarrow> Inl malformed
             | Some second \<Rightarrow>
                 (let target = push_bit 8 (unat (len AND 0x3F)) OR unat second;
                      after_name = (case after_name of None \<Rightarrow> Some (position + 2)
                                    | Some a \<Rightarrow> Some a)
                  in if jumps + 1 > MAX_NAME_JUMPS
                     then Inl (malformed_with (lit ''a name compression pointer loops''))
                     else name_loop packet labels (jumps + 1) target after_name))
          else Inl (malformed_with (lit ''a name uses a reserved label type'')))"
  by pat_completeness auto
termination
  by (relation "measures [\<lambda>(packet, labels, jumps, position, after). MAX_NAME_JUMPS - jumps,
        \<lambda>(packet, labels, jumps, position, after). length packet - position]")
     (auto simp: slice_at_def split: if_splits)

declare name_loop.simps [simp del]

definition reader_name :: "bytes \<Rightarrow> nat \<Rightarrow> AppError + ustr \<times> nat" where
  "reader_name packet position =
     and_then (name_loop packet [] 0 position None) (\<lambda>(labels, position, after_name).
     Inr (if labels = [] then [] else join [46] labels @ [46],
          (case after_name of Some a \<Rightarrow> a | None \<Rightarrow> position)))"

section \<open>Record data\<close>

definition expect_consumed :: "nat \<Rightarrow> nat \<Rightarrow> bytes \<Rightarrow> AppError + unit" where
  "expect_consumed position start data =
     (if position \<noteq> start + length data
      then Inl (malformed_with
             (lit ''a record'' @ [39] @ lit ''s data does not match its length''))
      else Inr ())"

function txt_entries :: "bytes \<Rightarrow> AppError + (ustr \<times> ustr) list" where
  "txt_entries [] = Inr []"
| "txt_entries (len # rest) =
     and_then (ok_or (slice_get rest 0 (unat len)) malformed) (\<lambda>entry.
       let s = from_utf8_lossy entry;
           property = (case split_once s [61] of
                         Some (key, value) \<Rightarrow> (key, value)
                       | None \<Rightarrow> (s, []))
       in and_then (txt_entries (drop (unat len) rest)) (\<lambda>properties.
          Inr (property # properties)))"
  by pat_completeness auto
termination
  by (relation "measure length") auto

definition decode_data :: "u16 \<Rightarrow> bytes \<Rightarrow> nat \<Rightarrow> bytes \<Rightarrow> AppError + RecordData" where
  "decode_data record_type packet start data =
     (if record_type = RECORD_TYPE_PTR then
        and_then (reader_name packet start) (\<lambda>(instance_name, position).
        and_then (expect_consumed position start data) (\<lambda>_.
        Inr (Pointer instance_name)))
      else if record_type = RECORD_TYPE_SRV then
        (if length data < FIXED_SERVICE_LENGTH
         then Inl (malformed_with (lit ''a service record is shorter than its fixed fields''))
         else
           and_then (reader_u16 packet start) (\<lambda>(priority, position).
           and_then (reader_u16 packet position) (\<lambda>(weight, position).
           and_then (reader_u16 packet position) (\<lambda>(port, position).
           and_then (reader_name packet position) (\<lambda>(target, position).
           and_then (expect_consumed position start data) (\<lambda>_.
           Inr (Service priority weight port target)))))))
      else if record_type = RECORD_TYPE_TXT then
        and_then (txt_entries data) (\<lambda>properties. Inr (Text properties))
      else Inr (Other data))"

section \<open>Messages\<close>

fun read_queries :: "bytes \<Rightarrow> nat \<Rightarrow> nat \<Rightarrow> AppError + Query list \<times> nat" where
  "read_queries packet 0 position = Inr ([], position)"
| "read_queries packet (Suc n) position =
     and_then (reader_name packet position) (\<lambda>(name, position).
     and_then (reader_u16 packet position) (\<lambda>(record_type, position).
     and_then (reader_u16 packet position) (\<lambda>(cls, position).
     and_then (read_queries packet n position) (\<lambda>(qs, position).
     Inr (\<lparr>query_name = name, query_type = record_type,
           unicast_response = (cls AND UNICAST_OR_CACHE_FLUSH \<noteq> 0)\<rparr> # qs, position)))))"

definition read_record :: "bytes \<Rightarrow> nat \<Rightarrow> AppError + DnsRecord \<times> nat" where
  "read_record packet position =
     and_then (reader_name packet position) (\<lambda>(name, position).
     and_then (reader_u16 packet position) (\<lambda>(record_type, position).
     and_then (reader_u16 packet position) (\<lambda>(cls, position).
     and_then (reader_u32 packet position) (\<lambda>(ttl, position).
     and_then (reader_u16 packet position) (\<lambda>(len, position).
     let start = position in
     and_then (reader_take packet position (unat len)) (\<lambda>(data, position).
     and_then (decode_data record_type packet start data) (\<lambda>d.
     Inr (\<lparr>rec_name = name, rec_type = record_type,
           cache_flush = (cls AND UNICAST_OR_CACHE_FLUSH \<noteq> 0),
           rec_ttl = \<lparr>as_secs = unat ttl, subsec_nanos = 0\<rparr>, rec_data = d\<rparr>, position))))))))"

fun read_records :: "bytes \<Rightarrow> nat \<Rightarrow> nat \<Rightarrow> AppError + DnsRecord list \<times> nat" where
  "read_records packet 0 position = Inr ([], position)"
| "read_records packet (Suc n) position =
     and_then (read_record packet position) (\<lambda>(r, position).
     and_then (read_records packet n position) (\<lambda>(rs, position).
     Inr (r # rs, position)))"

definition Message_parse :: "bytes \<Rightarrow> AppError + Message" where
  "Message_parse packet =
     and_then (reader_u16 packet 0) (\<lambda>(_, position).
     and_then (reader_u16 packet position) (\<lambda>(_, position).
     and_then (reader_u16 packet position) (\<lambda>(question_count, position).
     and_then (reader_u16 packet position) (\<lambda>(answer_count, position).
     and_then (reader_u16 packet position) (\<lambda>(authority_count, position).
     and_then (reader_u16 packet position) (\<lambda>(additional_count, position).
     and_then (read_queries packet (unat question_count) position) (\<lambda>(qs, position).
     let total_records = unat answer_count + unat authority_count + unat additional_count in
     and_then (read_records packet total_records position) (\<lambda>(rs, _).
     Inr \<lparr>queries = qs, records = rs\<rparr>))))))))"

section \<open>Services\<close>

record ServiceInstance =
  svc_instance :: ustr
  svc_target :: ustr
  svc_port :: u16
  svc_properties :: "(ustr \<times> ustr) list"
  svc_ttl :: Duration

definition is_named :: "ustr \<Rightarrow> ustr \<Rightarrow> bool" where
  "is_named left right \<longleftrightarrow>
     eq_ignore_ascii_case (trim_end_matches 46 left) (trim_end_matches 46 right)"

fun is_service_data :: "RecordData \<Rightarrow> bool" where
  "is_service_data (Service _ _ _ _) = True"
| "is_service_data _ = False"

fun is_text_data :: "RecordData \<Rightarrow> bool" where
  "is_text_data (Text _) = True"
| "is_text_data _ = False"

definition service_of :: "DnsRecord list \<Rightarrow> DnsRecord \<Rightarrow> ServiceInstance option" where
  "service_of rs pointer =
     (if rec_type pointer \<noteq> RECORD_TYPE_PTR \<or> \<not> is_named (rec_name pointer) SERVICE_TYPE then None
      else (case rec_data pointer of
        Pointer inst \<Rightarrow>
          (case (List.find (\<lambda>r. is_named (rec_name r) inst \<and> is_service_data (rec_data r)) rs,
                 List.find (\<lambda>r. is_named (rec_name r) inst \<and> is_text_data (rec_data r)) rs) of
             (Some transport, Some txt) \<Rightarrow>
               (case (rec_data transport, rec_data txt) of
                  (Service _ _ port target, Text properties) \<Rightarrow>
                    Some \<lparr>svc_instance = inst, svc_target = target, svc_port = port,
                          svc_properties = properties, svc_ttl = rec_ttl pointer\<rparr>
                | _ \<Rightarrow> None)
           | _ \<Rightarrow> None)
      | _ \<Rightarrow> None))"

definition services :: "Message \<Rightarrow> ServiceInstance list" where
  "services message = List.map_filter (service_of (records message)) (records message)"

definition queries_service :: "Query \<Rightarrow> ustr \<Rightarrow> bool" where
  "queries_service q service_type \<longleftrightarrow>
     query_type q = RECORD_TYPE_PTR \<and> is_named (query_name q) service_type"

section \<open>The encoder\<close>

definition dns_header :: "u16 \<Rightarrow> u16 \<Rightarrow> u16 \<Rightarrow> bytes" where
  "dns_header flags questions answers =
     to_be16 0 @ to_be16 flags @ to_be16 questions @ to_be16 answers @ to_be16 0 @ to_be16 0"

fun push_labels :: "ustr \<Rightarrow> bytes \<Rightarrow> bool \<Rightarrow> ustr list \<Rightarrow> AppError + bytes \<times> bool" where
  "push_labels name out wrote_label [] = Inr (out, wrote_label)"
| "push_labels name out wrote_label (label # labels) =
     (if label = [] then push_labels name out wrote_label labels
      else if str_len label > MAX_LABEL
      then Inl (invalid_input
             (lit ''the DNS name '' @ [39] @ name @ [39] @ lit '' has a label longer than ''
              @ show_nat MAX_LABEL @ lit '' characters''))
      else push_labels name (out @ of_nat (str_len label) # as_bytes label) True labels)"

definition push_name :: "bytes \<Rightarrow> ustr \<Rightarrow> AppError + bytes" where
  "push_name out name =
     and_then (push_labels name out False (split_char 46 name)) (\<lambda>(out, wrote_label).
     if \<not> wrote_label
     then Inl (invalid_input (lit ''the DNS name '' @ [39] @ name @ [39] @ lit '' is empty''))
     else Inr (out @ [0]))"

definition push_record_data :: "bytes \<Rightarrow> bytes \<Rightarrow> AppError + bytes" where
  "push_record_data packet data =
     (if length data > 65535 then Inl (invalid_input (lit ''a DNS record is too long to encode''))
      else Inr (packet @ to_be16 (of_nat (length data)) @ data))"

definition encode_query :: "ustr \<Rightarrow> AppError + bytes" where
  "encode_query service_type =
     and_then (push_name (dns_header MESSAGE_FLAGS_QUERY 1 0) service_type) (\<lambda>packet.
     Inr (packet @ to_be16 RECORD_TYPE_PTR @ to_be16 (CLASS_IN OR UNICAST_OR_CACHE_FLUSH)))"

definition record_lifetime :: "Duration \<Rightarrow> AppError + u32" where
  "record_lifetime ttl =
     (let seconds = (if as_secs ttl = 0 \<and> subsec_nanos ttl = 0 then 0
                     else as_secs ttl + (if subsec_nanos ttl > 0 then 1 else 0))
      in if seconds > 4294967295
         then Inl (invalid_input (lit ''the advertised lifetime does not fit in a record''))
         else Inr (of_nat seconds))"

definition dns_instance_name :: "ustr \<Rightarrow> AppError + ustr" where
  "dns_instance_name label =
     (let label = trim label;
          usable = (label \<noteq> [] \<and> str_len label \<le> MAX_LABEL \<and> 46 \<notin> set label
                    \<and> list_all (\<lambda>b. 0x20 \<le> b \<and> b < 0x7F) (as_bytes label))
      in if \<not> usable
         then Inl (invalid_input
                ([39] @ label @ [39] @ lit '' cannot be used as a discovery instance name''))
         else Inr (label @ [46] @ SERVICE_TYPE))"

fun push_properties :: "bytes \<Rightarrow> (ustr \<times> ustr) list \<Rightarrow> AppError + bytes" where
  "push_properties out [] = Inr out"
| "push_properties out ((key, value) # ps) =
     (let entry = key @ [61] @ value in
      if str_len entry > MAX_TXT_STRING
      then Inl (invalid_input
             (lit ''the advertised property '' @ [39] @ key @ [39] @ lit '' is longer than ''
              @ show_nat MAX_TXT_STRING @ lit '' characters''))
      else push_properties (out @ of_nat (str_len entry) # as_bytes entry) ps)"

definition encode_announcement ::
  "ustr \<Rightarrow> ustr \<Rightarrow> u16 \<Rightarrow> (ustr \<times> ustr) list \<Rightarrow> Duration \<Rightarrow> AppError + bytes" where
  "encode_announcement label target port properties ttl =
     and_then (dns_instance_name label) (\<lambda>inst.
     and_then (record_lifetime ttl) (\<lambda>lifetime.
     and_then (push_name (dns_header MESSAGE_FLAGS_RESPONSE 0 3) SERVICE_TYPE) (\<lambda>packet.
     let packet = packet @ to_be16 RECORD_TYPE_PTR @ to_be16 CLASS_IN @ to_be32 lifetime in
     and_then (push_name [] inst) (\<lambda>pointer.
     and_then (push_record_data packet pointer) (\<lambda>packet.
     and_then (push_name packet inst) (\<lambda>packet.
     let packet = packet @ to_be16 RECORD_TYPE_SRV
                    @ to_be16 (CLASS_IN OR UNICAST_OR_CACHE_FLUSH) @ to_be32 lifetime in
     and_then (push_name (to_be16 0 @ to_be16 0 @ to_be16 port) target) (\<lambda>service.
     and_then (push_record_data packet service) (\<lambda>packet.
     and_then (push_name packet inst) (\<lambda>packet.
     let packet = packet @ to_be16 RECORD_TYPE_TXT
                    @ to_be16 (CLASS_IN OR UNICAST_OR_CACHE_FLUSH) @ to_be32 lifetime in
     and_then (push_properties [] properties) (\<lambda>txt.
     push_record_data packet txt))))))))))"

end
