(* ===== verification/Mdns_Roundtrip.thy ===== *)
theory Mdns_Roundtrip
  imports Mdns_Wire
begin

unbundle bit_operations_syntax

text \<open>
  The encoder and the reader of the discovery protocol fit: what a server announces is what a
  browser finds. The interface between the two is the locale \<open>wire_field\<close>, a value that a reader
  takes back from wherever its bytes stand in a packet; integers and names are its instances.
\<close>

section \<open>Bytes at a position\<close>

definition holds_at :: "bytes \<Rightarrow> nat \<Rightarrow> bytes \<Rightarrow> bool" where
  "holds_at packet p bs \<longleftrightarrow>
     p + length bs \<le> length packet \<and> take (length bs) (drop p packet) = bs"

lemma holds_at_append:
  "holds_at packet p (xs @ ys) \<longleftrightarrow> holds_at packet p xs \<and> holds_at packet (p + length xs) ys"
proof -
  have "take (length xs + length ys) (drop p packet)
    = take (length xs) (drop p packet) @ take (length ys) (drop (p + length xs) packet)"
    by (simp add: take_add add.commute)
  then show ?thesis
    by (auto simp: holds_at_def append_eq_append_conv_if)
qed

lemma holds_at_whole: "holds_at packet 0 packet"
  by (simp add: holds_at_def)

lemma slice_get_holds: "holds_at packet p bs \<Longrightarrow> slice_get packet p (p + length bs) = Some bs"
  by (simp add: holds_at_def slice_get_def)

lemma slice_at_holds: "holds_at packet p (b # bs) \<Longrightarrow> slice_at packet p = Some b"
  by (cases "drop p packet") (auto simp: holds_at_def slice_at_def nth_via_drop)

lemma reader_take_holds:
  "holds_at packet p bs \<Longrightarrow> reader_take packet p (length bs) = Inr (bs, p + length bs)"
  by (simp add: reader_take_def slice_get_holds)

section \<open>Fields\<close>

locale wire_field =
  fixes valid :: "'a \<Rightarrow> bool"
    and put :: "'a \<Rightarrow> bytes"
    and get :: "bytes \<Rightarrow> nat \<Rightarrow> AppError + 'a \<times> nat"
  assumes get_put:
    "valid x \<Longrightarrow> holds_at packet p (put x) \<Longrightarrow> get packet p = Inr (x, p + length (put x))"
begin

lemma get_then:
  assumes "valid x" "holds_at packet p (put x @ rest)"
  shows "and_then (get packet p) f = f (x, p + length (put x))"
    and "holds_at packet (p + length (put x)) rest"
  using assms(2) get_put [OF assms(1)] unfolding holds_at_append by simp_all

lemma put_inject: 
  assumes "valid x" "valid y" "put x = put y"
  shows "x = y"
proof -
  have "get (put y) 0 = Inr (y, 0 + length (put y))"
    using assms(2) holds_at_whole by (rule get_put)
  moreover have "get (put y) 0 = Inr (x, 0 + length (put x))"
    using get_put [OF assms(1)] holds_at_whole [of "put y"] unfolding assms(3) .
  ultimately show ?thesis by simp
qed

end

interpretation u16_field: wire_field "\<lambda>_. True" to_be16 reader_u16
proof unfold_locales
  fix x packet p
  assume "holds_at packet p (to_be16 x)"
  from reader_take_holds [OF this]
  show "reader_u16 packet p = Inr (x, p + length (to_be16 x))"
    using from_to_be16 [of x] by (simp add: reader_u16_def)
qed

interpretation u32_field: wire_field "\<lambda>_. True" to_be32 reader_u32
proof unfold_locales
  fix x packet p
  assume "holds_at packet p (to_be32 x)"
  from reader_take_holds [OF this]
  show "reader_u32 packet p = Inr (x, p + length (to_be32 x))"
    using from_to_be32 [of x] by (simp add: reader_u32_def)
qed

section \<open>Names\<close>

definition dns_labels :: "ustr \<Rightarrow> ustr list" where
  "dns_labels name = filter (\<lambda>l. l \<noteq> []) (split_char 46 name)"

definition label_bytes :: "ustr \<Rightarrow> bytes" where
  "label_bytes l = of_nat (str_len l) # as_bytes l"

definition name_bytes :: "ustr \<Rightarrow> bytes" where
  "name_bytes name = concat (map label_bytes (dns_labels name)) @ [0]"

definition valid_name :: "ustr \<Rightarrow> bool" where
  "valid_name name \<longleftrightarrow> wf_ustr name \<and> dns_labels name \<noteq> []
     \<and> (\<forall>l \<in> set (dns_labels name). str_len l \<le> MAX_LABEL)
     \<and> name = join [46] (dns_labels name) @ [46]"

lemma label_length_byte:
  "n \<le> 63 \<Longrightarrow> (of_nat n :: u8) AND 0xC0 = 0 \<and> unat (of_nat n :: u8) = n"
proof -
  have all: "\<forall>n \<in> set [0..<64]. (of_nat n :: u8) AND 0xC0 = 0"
    by (simp add: upt_conv_Cons)
  assume "n \<le> 63"
  with all show ?thesis by (simp add: unat_of_nat)
qed

lemma name_loop_labels:
  assumes "\<forall>l \<in> set ls. l \<noteq> [] \<and> wf_ustr l \<and> str_len l \<le> MAX_LABEL"
    and "holds_at packet p (concat (map label_bytes ls) @ [0])"
  shows "name_loop packet acc jumps p af
    = Inr (acc @ ls, p + length (concat (map label_bytes ls)) + 1, af)"
  using assms
proof (induction ls arbitrary: acc p)
  case Nil
  then show ?case by (subst name_loop.simps) (simp add: slice_at_holds)
next
  case (Cons l ls)
  let ?n = "str_len l"
  have l: "l \<noteq> []" "wf_ustr l" "?n \<le> 63" using Cons.prems(1) by (simp_all add: MAX_LABEL_def)
  from Cons.prems(2)
  have h: "holds_at packet p [of_nat ?n]" "holds_at packet (p + 1) (as_bytes l)"
    "holds_at packet (p + 1 + ?n) (concat (map label_bytes ls) @ [0])"
    using holds_at_append [of packet p "[of_nat ?n]"
        "as_bytes l @ concat (map label_bytes ls) @ [0]"]
      holds_at_append [of packet "p + 1" "as_bytes l" "concat (map label_bytes ls) @ [0]"]
    by (simp_all add: label_bytes_def [of l])
  have n: "of_nat ?n AND 0xC0 = (0 :: u8)" "unat (of_nat ?n :: u8) = ?n"
    using label_length_byte [OF l(3)] by auto
  have "of_nat ?n \<noteq> (0 :: u8)" using n(2) l(1) by (metis as_bytes_eq_Nil length_0_conv unat_0)
  with l n slice_at_holds [OF h(1)] slice_get_holds [OF h(2)]
  have "name_loop packet acc jumps p af
    = name_loop packet (acc @ [l]) jumps (p + 1 + ?n) af"
    by (subst name_loop.simps) (simp add: from_utf8_as_bytes)
  also have "\<dots> = Inr ((acc @ [l]) @ ls, p + 1 + ?n + length (concat (map label_bytes ls)) + 1, af)"
    using Cons.prems(1) h(3) by (intro Cons.IH) simp_all
  finally show ?case by (simp add: label_bytes_def [of l])
qed

lemma split_char_subset: "l \<in> set (split_char d name) \<Longrightarrow> set l \<subseteq> set name"
proof (induction name arbitrary: l)
  case (Cons a name)
  then show ?case
    by (cases "split_char d name") (fastforce split: if_splits)+
qed simp

lemma dns_labels_wf: "wf_ustr name \<Longrightarrow> l \<in> set (dns_labels name) \<Longrightarrow> wf_ustr l \<and> l \<noteq> []"
  using split_char_subset by (fastforce simp: dns_labels_def list_all_iff)

lemma reader_name_holds:
  assumes "wf_ustr name" "\<forall>l \<in> set (dns_labels name). str_len l \<le> MAX_LABEL"
    and "dns_labels name \<noteq> []" "holds_at packet p (name_bytes name)"
  shows "reader_name packet p
    = Inr (join [46] (dns_labels name) @ [46], p + length (name_bytes name))"
proof -
  have "name_loop packet [] 0 p None = Inr ([] @ dns_labels name,
      p + length (concat (map label_bytes (dns_labels name))) + 1, None)"
    using assms dns_labels_wf by (intro name_loop_labels) (auto simp: name_bytes_def)
  then show ?thesis using assms(3) by (simp add: reader_name_def name_bytes_def)
qed

interpretation name_field: wire_field valid_name name_bytes reader_name
proof unfold_locales
  fix x packet p
  assume "valid_name x" "holds_at packet p (name_bytes x)"
  then show "reader_name packet p = Inr (x, p + length (name_bytes x))"
    using reader_name_holds [of x packet p] by (simp add: valid_name_def)
qed

lemma push_labels_Inr:
  "push_labels name out w ls = Inr (out', w') \<Longrightarrow>
    out' = out @ concat (map label_bytes (filter (\<lambda>l. l \<noteq> []) ls))
    \<and> (w' \<longleftrightarrow> w \<or> filter (\<lambda>l. l \<noteq> []) ls \<noteq> [])
    \<and> (\<forall>l \<in> set (filter (\<lambda>l. l \<noteq> []) ls). str_len l \<le> MAX_LABEL)"
  by (induction name out w ls rule: push_labels.induct)
    (auto simp: label_bytes_def split: if_splits)

lemma push_name_Inr:
  "push_name out name = Inr out' \<Longrightarrow>
    out' = out @ name_bytes name \<and> dns_labels name \<noteq> []
    \<and> (\<forall>l \<in> set (dns_labels name). str_len l \<le> MAX_LABEL)"
  by (auto simp: push_name_def result_simps name_bytes_def dns_labels_def split: if_splits
      dest!: push_labels_Inr)

section \<open>Text entries\<close>

definition txt_entry_bytes :: "ustr \<times> ustr \<Rightarrow> bytes" where
  "txt_entry_bytes p =
     of_nat (str_len (fst p @ [61] @ snd p)) # as_bytes (fst p @ [61] @ snd p)"

definition txt_property :: "ustr \<times> ustr \<Rightarrow> bool" where
  "txt_property p \<longleftrightarrow> wf_ustr (fst p) \<and> wf_ustr (snd p) \<and> 61 \<notin> set (fst p)"

lemma push_properties_Inr:
  "push_properties out ps = Inr out' \<Longrightarrow>
    out' = out @ concat (map txt_entry_bytes ps)
    \<and> (\<forall>p \<in> set ps. str_len (fst p @ [61] @ snd p) \<le> 255)"
  by (induction out ps rule: push_properties.induct)
    (auto simp: txt_entry_bytes_def Let_def MAX_TXT_STRING_def split: if_splits)

lemma txt_entries_properties:
  assumes "\<forall>p \<in> set ps. txt_property p \<and> str_len (fst p @ [61] @ snd p) \<le> 255"
  shows "txt_entries (concat (map txt_entry_bytes ps)) = Inr ps"
  using assms
proof (induction ps)
  case (Cons p ps)
  let ?e = "fst p @ [61] @ snd p"
  let ?tail = "concat (map txt_entry_bytes ps)"
  have "wf_ustr ?e" using Cons.prems by (auto simp: txt_property_def is_scalar_def)
  then have lossy: "from_utf8_lossy (as_bytes ?e) = ?e" by (rule from_utf8_lossy_as_bytes)
  have n: "unat (of_nat (str_len ?e) :: u8) = str_len ?e"
  proof -
    have "str_len ?e \<le> 255" using Cons.prems by (meson list.set_intros(1))
    then show ?thesis unfolding unat_of_nat by (intro mod_less) simp
  qed
  have split: "split_once ?e [61] = Some (fst p, snd p)"
    using Cons.prems split_once_char [of 61 "fst p" "snd p"] by (simp add: txt_property_def)
  have "slice_get (as_bytes ?e @ ?tail) 0 (str_len ?e) = Some (as_bytes ?e)"
    by (simp add: slice_get_def del: append.simps)
  moreover have "drop (str_len ?e) (as_bytes ?e @ ?tail) = ?tail" by (simp del: append.simps)
  ultimately have "txt_entries (of_nat (str_len ?e) # as_bytes ?e @ ?tail)
    = and_then (txt_entries ?tail) (\<lambda>properties. Inr ((fst p, snd p) # properties))"
    unfolding txt_entries.simps n by (simp only: ok_or_simps and_then.simps lossy split Let_def
        option.case prod.case)
  moreover have "concat (map txt_entry_bytes (p # ps))
    = of_nat (str_len ?e) # as_bytes ?e @ ?tail"
    by (simp add: txt_entry_bytes_def [of p])
  moreover have "txt_entries ?tail = Inr ps" using Cons by simp
  ultimately show ?case by (simp only: and_then.simps prod.collapse)
qed simp

section \<open>Whole messages\<close>

definition resource_record :: "ustr \<Rightarrow> u16 \<Rightarrow> u16 \<Rightarrow> u32 \<Rightarrow> bytes \<Rightarrow> bytes" where
  "resource_record name ty cls ttl data =
     name_bytes name @ to_be16 ty @ to_be16 cls @ to_be32 ttl
     @ to_be16 (of_nat (length data)) @ data"

lemmas field_reads = u16_field.get_then(1) u32_field.get_then(1) name_field.get_then(1)

lemma read_resource_record:
  assumes "valid_name name" "length data \<le> 65535"
    and h: "holds_at packet p (resource_record name ty cls ttl data)"
    and d: "\<And>start. holds_at packet start data \<Longrightarrow> decode_data ty packet start data = Inr d"
  shows "read_record packet p
    = Inr (\<lparr>rec_name = name, rec_type = ty, cache_flush = (cls AND UNICAST_OR_CACHE_FLUSH \<noteq> 0),
            rec_ttl = \<lparr>as_secs = unat ttl, subsec_nanos = 0\<rparr>, rec_data = d\<rparr>,
           p + length (resource_record name ty cls ttl data))"
proof -
  note h1 = h [unfolded resource_record_def]
  note h2 = name_field.get_then(2) [OF assms(1) h1]
  note h3 = u16_field.get_then(2) [OF TrueI h2]
  note h4 = u16_field.get_then(2) [OF TrueI h3]
  note h5 = u32_field.get_then(2) [OF TrueI h4]
  note h6 = u16_field.get_then(2) [OF TrueI h5]
  have len: "unat (of_nat (length data) :: u16) = length data"
    unfolding unat_of_nat using assms(2) by (intro mod_less) simp
  show ?thesis
    unfolding read_record_def name_field.get_then(1) [OF assms(1) h1] prod.case
      u16_field.get_then(1) [OF TrueI h2] u16_field.get_then(1) [OF TrueI h3]
      u32_field.get_then(1) [OF TrueI h4] u16_field.get_then(1) [OF TrueI h5] len Let_def
      reader_take_holds [OF h6] and_then.simps d [OF h6]
    by (simp add: resource_record_def)
qed

lemma decode_pointer:
  assumes "valid_name name" "holds_at packet start (name_bytes name)"
  shows "decode_data RECORD_TYPE_PTR packet start (name_bytes name) = Inr (Pointer name)"
  using name_field.get_put [OF assms] by (simp add: decode_data_def expect_consumed_def)

definition service_bytes :: "u16 \<Rightarrow> ustr \<Rightarrow> bytes" where
  "service_bytes port target = to_be16 0 @ to_be16 0 @ to_be16 port @ name_bytes target"

lemma decode_service:
  assumes v: "valid_name target" and h: "holds_at packet start (service_bytes port target)"
  shows "decode_data RECORD_TYPE_SRV packet start (service_bytes port target)
    = Inr (Service 0 0 port target)"
proof -
  note h1 = h [unfolded service_bytes_def]
  note h2 = u16_field.get_then(2) [OF TrueI h1]
  note h3 = u16_field.get_then(2) [OF TrueI h2]
  note h4 = u16_field.get_then(2) [OF TrueI h3]
  have conds: "length (service_bytes port target) < FIXED_SERVICE_LENGTH \<longleftrightarrow> False"
    "RECORD_TYPE_SRV = RECORD_TYPE_PTR \<longleftrightarrow> False" "RECORD_TYPE_SRV = RECORD_TYPE_SRV \<longleftrightarrow> True"
    by (simp_all add: service_bytes_def FIXED_SERVICE_LENGTH_def wire_constants)
  show ?thesis
    unfolding decode_data_def conds if_False if_True u16_field.get_then(1) [OF TrueI h1] prod.case
      u16_field.get_then(1) [OF TrueI h2] u16_field.get_then(1) [OF TrueI h3]
      name_field.get_put [OF v h4] and_then.simps expect_consumed_def
    by (simp add: service_bytes_def)
qed

lemma decode_text:
  assumes "\<forall>p \<in> set ps. txt_property p \<and> str_len (fst p @ [61] @ snd p) \<le> 255"
  shows "decode_data RECORD_TYPE_TXT packet start (concat (map txt_entry_bytes ps)) = Inr (Text ps)"
  using txt_entries_properties [OF assms] by (simp add: decode_data_def wire_constants)

lemma push_record_data_Inr:
  "push_record_data packet data = Inr out \<Longrightarrow>
    length data \<le> 65535 \<and> out = packet @ to_be16 (of_nat (length data)) @ data"
  by (simp add: push_record_data_def split: if_splits)

lemma valid_service_type: "valid_name SERVICE_TYPE"
  by (simp add: valid_name_def dns_labels_def SERVICE_TYPE_def MAX_LABEL_def is_scalar_def
      as_bytes_def utf8_char_def)

lemma dns_instance_name_Inr:
  assumes "dns_instance_name label = Inr inst" "wf_ustr label"
  shows "inst = trim label @ [46] @ SERVICE_TYPE \<and> valid_name inst"
proof -
  from assms(1) have l: "trim label \<noteq> []" "str_len (trim label) \<le> MAX_LABEL" "46 \<notin> set (trim label)"
    and inst: "inst = trim label @ [46] @ SERVICE_TYPE"
    by (auto simp: dns_instance_name_def Let_def split: if_splits)
  have wf: "wf_ustr (trim label)"
    using assms(2) set_trim_by [of is_whitespace label] by (auto simp: list_all_iff)
  have labels: "dns_labels inst = trim label # dns_labels SERVICE_TYPE"
    using l(1) split_char_append [OF l(3), of SERVICE_TYPE] by (simp add: dns_labels_def inst)
  have "join [46] (dns_labels inst) = trim label @ [46] @ join [46] (dns_labels SERVICE_TYPE)"
    unfolding labels using valid_service_type by (intro join_Cons) (simp add: valid_name_def)
  then have "inst = join [46] (dns_labels inst) @ [46]"
    using valid_service_type unfolding inst by (simp add: valid_name_def)
  moreover have "wf_ustr inst"
    using wf valid_service_type by (simp add: inst valid_name_def is_scalar_def)
  moreover have "\<forall>l \<in> set (dns_labels inst). str_len l \<le> MAX_LABEL" "dns_labels inst \<noteq> []"
    using labels l(2) valid_service_type by (simp_all add: valid_name_def)
  ultimately show ?thesis using inst unfolding valid_name_def by blast
qed

definition lifetime_secs :: "Duration \<Rightarrow> nat" where
  "lifetime_secs ttl = as_secs ttl + (if subsec_nanos ttl > 0 then 1 else 0)"

lemma record_lifetime_Inr:
  assumes "record_lifetime ttl = Inr w"
  shows "unat w = lifetime_secs ttl"
proof -
  have "lifetime_secs ttl \<le> 4294967295 \<and> w = of_nat (lifetime_secs ttl)"
    using assms by (auto simp: record_lifetime_def lifetime_secs_def Let_def split: if_splits)
  then show ?thesis by (auto simp: unat_of_nat simp del: of_nat_Suc of_nat_add)
qed

definition announcement_records ::
  "ustr \<Rightarrow> ustr \<Rightarrow> u16 \<Rightarrow> (ustr \<times> ustr) list \<Rightarrow> u32 \<Rightarrow> bytes" where
  "announcement_records inst target port props lifetime =
     resource_record SERVICE_TYPE RECORD_TYPE_PTR CLASS_IN lifetime (name_bytes inst)
     @ resource_record inst RECORD_TYPE_SRV (CLASS_IN OR UNICAST_OR_CACHE_FLUSH) lifetime
         (service_bytes port target)
     @ resource_record inst RECORD_TYPE_TXT (CLASS_IN OR UNICAST_OR_CACHE_FLUSH) lifetime
         (concat (map txt_entry_bytes props))"

lemma encode_announcement_Inr:
  assumes "encode_announcement label target port props ttl = Inr packet"
  obtains inst lifetime where
    "dns_instance_name label = Inr inst" "record_lifetime ttl = Inr lifetime"
    "packet = dns_header MESSAGE_FLAGS_RESPONSE 0 3
       @ announcement_records inst target port props lifetime"
    "length (name_bytes inst) \<le> 65535" "length (service_bytes port target) \<le> 65535"
    "length (concat (map txt_entry_bytes props)) \<le> 65535"
    "\<forall>p \<in> set props. str_len (fst p @ [61] @ snd p) \<le> 255"
proof -
  note steps = assms [unfolded encode_announcement_def Let_def and_then_Inr_iff]
  then obtain inst lifetime p1 p2 p3 p4 p5 p6 p7 tx where
    a: "dns_instance_name label = Inr inst" "record_lifetime ttl = Inr lifetime"
    and b: "push_name (dns_header MESSAGE_FLAGS_RESPONSE 0 3) SERVICE_TYPE = Inr p1"
    "push_name [] inst = Inr p2"
    "push_record_data (p1 @ to_be16 RECORD_TYPE_PTR @ to_be16 CLASS_IN @ to_be32 lifetime) p2 = Inr p3"
    "push_name p3 inst = Inr p4"
    "push_name (to_be16 0 @ to_be16 0 @ to_be16 port) target = Inr p5"
    "push_record_data (p4 @ to_be16 RECORD_TYPE_SRV @ to_be16 (CLASS_IN OR UNICAST_OR_CACHE_FLUSH)
       @ to_be32 lifetime) p5 = Inr p6"
    "push_name p6 inst = Inr p7"
    "push_properties [] props = Inr tx"
    "push_record_data (p7 @ to_be16 RECORD_TYPE_TXT @ to_be16 (CLASS_IN OR UNICAST_OR_CACHE_FLUSH)
       @ to_be32 lifetime) tx = Inr packet"
    by blast
  note n = b(1,2,4,5,7) [THEN push_name_Inr] and r = b(3,6,9) [THEN push_record_data_Inr]
    and t = push_properties_Inr [OF b(8)]
  have tx: "tx = concat (map txt_entry_bytes props)" using t by simp
  have p2: "p2 = name_bytes inst" using n(2) by simp
  have p5: "p5 = service_bytes port target" using n(4) by (simp add: service_bytes_def)
  show thesis
  proof (rule that [OF a])
    show "packet = dns_header MESSAGE_FLAGS_RESPONSE 0 3
       @ announcement_records inst target port props lifetime"
      using n r unfolding tx p2 p5 announcement_records_def resource_record_def by simp
  qed (use r t p2 p5 tx in simp_all)
qed

definition sent_record ::
  "ustr \<Rightarrow> u16 \<Rightarrow> bool \<Rightarrow> u32 \<Rightarrow> RecordData \<Rightarrow> DnsRecord" where
  "sent_record name ty flush lifetime d =
     \<lparr>rec_name = name, rec_type = ty, cache_flush = flush,
      rec_ttl = \<lparr>as_secs = unat lifetime, subsec_nanos = 0\<rparr>, rec_data = d\<rparr>"

definition announced_records ::
  "ustr \<Rightarrow> ustr \<Rightarrow> u16 \<Rightarrow> (ustr \<times> ustr) list \<Rightarrow> u32 \<Rightarrow> DnsRecord list" where
  "announced_records inst target port props lifetime =
     [sent_record SERVICE_TYPE RECORD_TYPE_PTR False lifetime (Pointer inst),
      sent_record inst RECORD_TYPE_SRV True lifetime (Service 0 0 port target),
      sent_record inst RECORD_TYPE_TXT True lifetime (Text props)]"

lemma class_bits:
  "CLASS_IN AND UNICAST_OR_CACHE_FLUSH = 0"
  "(CLASS_IN OR UNICAST_OR_CACHE_FLUSH) AND UNICAST_OR_CACHE_FLUSH \<noteq> 0"
  "UNICAST_OR_CACHE_FLUSH \<noteq> 0"
  by (simp_all add: wire_constants)

lemma read_announcement_records:
  assumes v: "valid_name inst" "valid_name target"
    and len: "length (name_bytes inst) \<le> 65535" "length (service_bytes port target) \<le> 65535"
      "length (concat (map txt_entry_bytes props)) \<le> 65535"
    and props: "\<forall>p \<in> set props. txt_property p \<and> str_len (fst p @ [61] @ snd p) \<le> 255"
    and h: "holds_at packet p (announcement_records inst target port props lifetime)"
  shows "\<exists>q. read_records packet 3 p = Inr (announced_records inst target port props lifetime, q)"
proof -
  note h1 = h [unfolded announcement_records_def holds_at_append]
  note r1 = read_resource_record [OF valid_service_type len(1) h1 [THEN conjunct1]
      decode_pointer [OF v(1)]]
  note r2 = read_resource_record [OF v(1) len(2) h1 [THEN conjunct2, THEN conjunct1]
      decode_service [OF v(2)]]
  note r3 = read_resource_record [OF v(1) len(3) h1 [THEN conjunct2, THEN conjunct2]
      decode_text [OF props]]
  show ?thesis
    by (simp add: numeral_3_eq_3 r1 r2 r3 announced_records_def sent_record_def class_bits)
qed

lemma services_announced:
  "services \<lparr>queries = qs, records = announced_records inst target port props lifetime\<rparr>
    = [\<lparr>svc_instance = inst, svc_target = target, svc_port = port, svc_properties = props,
        svc_ttl = \<lparr>as_secs = unat lifetime, subsec_nanos = 0\<rparr>\<rparr>]"
proof -
  have "is_named inst inst" "is_named SERVICE_TYPE SERVICE_TYPE"
    "is_named SERVICE_TYPE inst = is_named SERVICE_TYPE inst"
    by (simp_all add: is_named_def)
  then show ?thesis
    by (simp add: services_def List.map_filter_def announced_records_def sent_record_def
        service_of_def wire_constants)
qed

lemma read_header:
  "Message_parse (dns_header flags nq na @ body)
   = and_then (read_queries (dns_header flags nq na @ body) (unat nq) 12) (\<lambda>(qs, position).
     and_then (read_records (dns_header flags nq na @ body) (unat na) position) (\<lambda>(rs, _).
     Inr \<lparr>queries = qs, records = rs\<rparr>))"
proof -
  let ?p = "dns_header flags nq na @ body"
  have h: "holds_at ?p 0 (to_be16 0 @ to_be16 flags @ to_be16 nq @ to_be16 na @ to_be16 0
      @ to_be16 0 @ body)"
    using holds_at_whole [of ?p] by (simp add: dns_header_def)
  note h2 = u16_field.get_then(2) [OF TrueI h]
  note h3 = u16_field.get_then(2) [OF TrueI h2]
  note h4 = u16_field.get_then(2) [OF TrueI h3]
  note h5 = u16_field.get_then(2) [OF TrueI h4]
  note h6 = u16_field.get_then(2) [OF TrueI h5]
  show ?thesis
    unfolding Message_parse_def u16_field.get_then(1) [OF TrueI h] prod.case
      u16_field.get_then(1) [OF TrueI h2] u16_field.get_then(1) [OF TrueI h3]
      u16_field.get_then(1) [OF TrueI h4] u16_field.get_then(1) [OF TrueI h5]
      u16_field.get_then(1) [OF TrueI h6] Let_def
    by (simp add: eval_nat_numeral)
qed

lemma announcement_parsed:
  assumes "valid_name inst" "valid_name target" "\<forall>p \<in> set props. txt_property p"
    and len: "length (name_bytes inst) \<le> 65535" "length (service_bytes port target) \<le> 65535"
      "length (concat (map txt_entry_bytes props)) \<le> 65535"
      "\<forall>p \<in> set props. str_len (fst p @ [61] @ snd p) \<le> 255"
    and packet: "packet = dns_header MESSAGE_FLAGS_RESPONSE 0 3
       @ announcement_records inst target port props lifetime"
  shows "Message_parse packet
    = Inr \<lparr>queries = [], records = announced_records inst target port props lifetime\<rparr>"
proof -
  have "holds_at packet 12 (announcement_records inst target port props lifetime)"
    using holds_at_whole [of packet] unfolding packet holds_at_append by (simp add: dns_header_def)
  from read_announcement_records [OF assms(1,2) len(1-3) _ this] assms(3) len(4)
  obtain q where "read_records packet 3 12
    = Inr (announced_records inst target port props lifetime, q)" by auto
  then show ?thesis unfolding packet read_header by simp
qed

text \<open>What a server announces is what a browser finds. Every announcement that
  \<open>encode_announcement\<close> accepts, for a target written as a fully qualified name and properties
  whose keys hold no equals sign, is parsed back by \<open>Message::parse\<close> without an error, asks nothing,
  and \<open>services\<close> finds in it exactly one instance, with the announced label, target, port and
  properties, and the lifetime rounded up to whole seconds.\<close>

theorem announcement_discovered:
  assumes "wf_ustr label" "valid_name target" "\<forall>p \<in> set props. txt_property p"
    and "encode_announcement label target port props ttl = Inr packet"
  shows "\<exists>m. Message_parse packet = Inr m \<and> queries m = []
    \<and> services m = [\<lparr>svc_instance = trim label @ [46] @ SERVICE_TYPE, svc_target = target,
        svc_port = port, svc_properties = props,
        svc_ttl = \<lparr>as_secs = lifetime_secs ttl, subsec_nanos = 0\<rparr>\<rparr>]"
proof -
  from encode_announcement_Inr [OF assms(4)] obtain inst lifetime where
    i: "dns_instance_name label = Inr inst" and lt: "record_lifetime ttl = Inr lifetime" and
    packet: "packet = dns_header MESSAGE_FLAGS_RESPONSE 0 3
       @ announcement_records inst target port props lifetime" and
    len: "length (name_bytes inst) \<le> 65535" "length (service_bytes port target) \<le> 65535"
      "length (concat (map txt_entry_bytes props)) \<le> 65535"
      "\<forall>p \<in> set props. str_len (fst p @ [61] @ snd p) \<le> 255" .
  have inst: "inst = trim label @ [46] @ SERVICE_TYPE" "valid_name inst"
    using dns_instance_name_Inr [OF i assms(1)] by blast+
  from announcement_parsed [OF inst(2) assms(2,3) len packet]
  show ?thesis
    using services_announced record_lifetime_Inr [OF lt] inst(1) by simp
qed

text \<open>A question a browser sends is the question a server answers. The packet of
  \<open>encode_query\<close> is parsed without an error into one query, for pointer records, asking for a
  unicast answer, that \<open>queries_service\<close> recognises for that service type; it carries no record.\<close>

theorem query_recognised:
  assumes "valid_name service_type" "encode_query service_type = Inr packet"
  shows "\<exists>q. Message_parse packet = Inr \<lparr>queries = [q], records = []\<rparr>
    \<and> queries_service q service_type \<and> unicast_response q \<and> query_name q = service_type"
proof -
  let ?cls = "CLASS_IN OR UNICAST_OR_CACHE_FLUSH"
  have packet: "packet = dns_header MESSAGE_FLAGS_QUERY 1 0
      @ name_bytes service_type @ to_be16 RECORD_TYPE_PTR @ to_be16 ?cls"
    using assms(2) by (auto simp: encode_query_def result_simps dest!: push_name_Inr)
  have h: "holds_at packet 12 (name_bytes service_type @ to_be16 RECORD_TYPE_PTR @ to_be16 ?cls)"
    using holds_at_whole [of packet] unfolding packet holds_at_append by (simp add: dns_header_def)
  note h2 = name_field.get_then(2) [OF assms(1) h]
  note h3 = u16_field.get_then(2) [OF TrueI h2]
  let ?q = "\<lparr>query_name = service_type, query_type = RECORD_TYPE_PTR, unicast_response = True\<rparr>"
  have "\<exists>e. read_queries packet 1 12 = Inr ([?q], e)"
    unfolding One_nat_def read_queries.simps name_field.get_then(1) [OF assms(1) h] prod.case
      u16_field.get_then(1) [OF TrueI h2] u16_field.get_put [OF TrueI h3] and_then.simps
    by (simp add: class_bits)
  then have "Message_parse packet = Inr \<lparr>queries = [?q], records = []\<rparr>"
    unfolding packet read_header by auto
  then show ?thesis by (simp add: queries_service_def is_named_def)
qed

end
