(* ===== verification/Media_Catalog.thy ===== *)
theory Media_Catalog
  imports Rust_Str
begin

text \<open>
  \<open>adapters/printers/media.rs\<close>: the media sizes the server advertises, and the lookup from paper
  dimensions. Dimensions are tenths of a millimeter; the program keeps them as \<open>i16\<close>, and
  \<open>custom_dimensions_are_supported\<close> keeps every one that reaches the lookup below 4501, so the
  differences it takes stay in that type (\<open>media_differences_fit\<close>).
\<close>

definition DIMENSION_TOLERANCE_TENTHS_MM :: int where "DIMENSION_TOLERANCE_TENTHS_MM = 5"
definition CUSTOM_MIN_TENTHS_MM :: int where "CUSTOM_MIN_TENTHS_MM = 500"
definition CUSTOM_MAX_SHORT_TENTHS_MM :: int where "CUSTOM_MAX_SHORT_TENTHS_MM = 3302"
definition CUSTOM_MAX_LONG_TENTHS_MM :: int where "CUSTOM_MAX_LONG_TENTHS_MM = 4500"

lemmas media_limits = DIMENSION_TOLERANCE_TENTHS_MM_def CUSTOM_MIN_TENTHS_MM_def
  CUSTOM_MAX_SHORT_TENTHS_MM_def CUSTOM_MAX_LONG_TENTHS_MM_def

record MediaSpec =
  keyword :: ustr
  paper_id :: int
  short_tenths_mm :: int
  long_tenths_mm :: int
  explicit_dimensions :: bool

definition media_entry :: "string \<Rightarrow> int \<Rightarrow> int \<Rightarrow> int \<Rightarrow> bool \<Rightarrow> MediaSpec" where
  "media_entry k p s l e =
     \<lparr>keyword = lit k, paper_id = p, short_tenths_mm = s, long_tenths_mm = l,
      explicit_dimensions = e\<rparr>"

definition MEDIA_CATALOG :: "MediaSpec list" where
  "MEDIA_CATALOG =
    [media_entry ''iso_a4_210x297mm'' 9 2100 2970 False,
     media_entry ''na_letter_8.5x11in'' 1 2159 2794 False,
     media_entry ''na_legal_8.5x14in'' 5 2159 3556 False,
     media_entry ''om_folio_210x330mm'' 14 2100 3300 True,
     media_entry ''na_foolscap_8.5x13in'' 14 2159 3302 False,
     media_entry ''iso_a3_297x420mm'' 8 2970 4200 False,
     media_entry ''iso_a5_148x210mm'' 11 1480 2100 False,
     media_entry ''iso_a6_105x148mm'' 70 1050 1480 False,
     media_entry ''iso_b4_250x353mm'' 12 2500 3530 True,
     media_entry ''iso_b5_176x250mm'' 13 1760 2500 True,
     media_entry ''jis_b5_182x257mm'' 13 1820 2570 False,
     media_entry ''na_executive_7.25x10.5in'' 7 1842 2667 False,
     media_entry ''na_invoice_5.5x8.5in'' 6 1397 2159 False,
     media_entry ''na_ledger_11x17in'' 3 2794 4318 False,
     media_entry ''oe_photo-4x6_4x6in'' 256 1016 1524 True,
     media_entry ''na_index-4x6_4x6in'' 256 1016 1524 True,
     media_entry ''na_5x7_5x7in'' 256 1270 1778 True,
     media_entry ''iso_dl_110x220mm'' 27 1100 2200 False,
     media_entry ''iso_c5_162x229mm'' 28 1620 2290 False,
     media_entry ''na_number-10_4.125x9.5in'' 20 1048 2413 False,
     media_entry ''na_monarch_3.875x7.5in'' 37 984 1905 False]"

definition media_for_dimensions :: "int \<Rightarrow> int \<Rightarrow> MediaSpec option" where
  "media_for_dimensions short long =
     List.find (\<lambda>spec. \<bar>short - short_tenths_mm spec\<bar> \<le> DIMENSION_TOLERANCE_TENTHS_MM
                 \<and> \<bar>long - long_tenths_mm spec\<bar> \<le> DIMENSION_TOLERANCE_TENTHS_MM) MEDIA_CATALOG"

definition custom_dimensions_are_supported :: "int \<Rightarrow> int \<Rightarrow> bool" where
  "custom_dimensions_are_supported short long \<longleftrightarrow>
     short \<ge> CUSTOM_MIN_TENTHS_MM \<and> long \<ge> CUSTOM_MIN_TENTHS_MM
     \<and> short \<le> CUSTOM_MAX_SHORT_TENTHS_MM \<and> long \<le> CUSTOM_MAX_LONG_TENTHS_MM"

lemma catalog_dimensions:
  "spec \<in> set MEDIA_CATALOG \<Longrightarrow>
    0 < short_tenths_mm spec \<and> short_tenths_mm spec \<le> long_tenths_mm spec
    \<and> custom_dimensions_are_supported (short_tenths_mm spec) (long_tenths_mm spec)"
  by (auto simp: MEDIA_CATALOG_def media_entry_def custom_dimensions_are_supported_def media_limits)

lemma catalog_keywords_distinct: "distinct (map keyword MEDIA_CATALOG)"
  by (simp add: MEDIA_CATALOG_def media_entry_def)

lemma catalog_keywords_length:
  "spec \<in> set MEDIA_CATALOG \<Longrightarrow> list_all (\<lambda>c. 0 < c \<and> c < 128) (keyword spec)
    \<and> keyword spec \<noteq> [] \<and> length (keyword spec) \<le> 26"
  by (auto simp: MEDIA_CATALOG_def media_entry_def)

lemma media_differences_fit:
  assumes "custom_dimensions_are_supported short long" "spec \<in> set MEDIA_CATALOG"
  shows "\<bar>short - short_tenths_mm spec\<bar> \<le> 32767" "\<bar>long - long_tenths_mm spec\<bar> \<le> 32767"
  using catalog_dimensions [OF assms(2)] assms(1)
  by (auto simp: custom_dimensions_are_supported_def media_limits)

lemma media_for_dimensions_Some:
  assumes "media_for_dimensions short long = Some spec"
  shows "spec \<in> set MEDIA_CATALOG" "\<bar>short - short_tenths_mm spec\<bar> \<le> 5"
    "\<bar>long - long_tenths_mm spec\<bar> \<le> 5"
  using assms
  by (auto simp: media_for_dimensions_def find_Some_iff media_limits in_set_conv_nth)

end
