(* ===== verification/Ipp_Message.thy ===== *)
theory Ipp_Message
  imports Media_Catalog
begin

text \<open>
  \<open>adapters/ipps/protocol.rs\<close>, the decoding half: IPP requests (RFC 8010), their attributes, and
  the media a job asks for. The reader's position in the message is the rest of the message from
  that position on. An \<open>i32\<close> read from four bytes is their two's complement value.
\<close>

section \<open>Constants\<close>

definition IPP_VERSION_1_1 :: "u8 \<times> u8" where "IPP_VERSION_1_1 = (1, 1)"
definition IPP_VERSION_2_0 :: "u8 \<times> u8" where "IPP_VERSION_2_0 = (2, 0)"

definition SUPPORTED_VERSIONS :: "(u8 \<times> u8) list" where
  "SUPPORTED_VERSIONS = [IPP_VERSION_2_0, IPP_VERSION_1_1, (1, 0)]"

definition OPERATION_PRINT_JOB :: u16 where "OPERATION_PRINT_JOB = 0x0002"
definition OPERATION_VALIDATE_JOB :: u16 where "OPERATION_VALIDATE_JOB = 0x0004"
definition OPERATION_CREATE_JOB :: u16 where "OPERATION_CREATE_JOB = 0x0005"
definition OPERATION_SEND_DOCUMENT :: u16 where "OPERATION_SEND_DOCUMENT = 0x0006"
definition OPERATION_CANCEL_JOB :: u16 where "OPERATION_CANCEL_JOB = 0x0008"
definition OPERATION_GET_JOB_ATTRIBUTES :: u16 where "OPERATION_GET_JOB_ATTRIBUTES = 0x0009"
definition OPERATION_GET_JOBS :: u16 where "OPERATION_GET_JOBS = 0x000A"
definition OPERATION_GET_PRINTER_ATTRIBUTES :: u16 where "OPERATION_GET_PRINTER_ATTRIBUTES = 0x000B"
definition OPERATION_GET_PRINTERS :: u16 where "OPERATION_GET_PRINTERS = 0x4002"

lemmas operation_codes = OPERATION_PRINT_JOB_def OPERATION_VALIDATE_JOB_def OPERATION_CREATE_JOB_def
  OPERATION_SEND_DOCUMENT_def OPERATION_CANCEL_JOB_def OPERATION_GET_JOB_ATTRIBUTES_def
  OPERATION_GET_JOBS_def OPERATION_GET_PRINTER_ATTRIBUTES_def OPERATION_GET_PRINTERS_def

abbreviation TAG_OPERATION_ATTRIBUTES :: u8 where "TAG_OPERATION_ATTRIBUTES \<equiv> 0x01"
abbreviation TAG_JOB_ATTRIBUTES :: u8 where "TAG_JOB_ATTRIBUTES \<equiv> 0x02"
abbreviation TAG_END_OF_ATTRIBUTES :: u8 where "TAG_END_OF_ATTRIBUTES \<equiv> 0x03"
abbreviation TAG_PRINTER_ATTRIBUTES :: u8 where "TAG_PRINTER_ATTRIBUTES \<equiv> 0x04"
abbreviation TAG_INTEGER :: u8 where "TAG_INTEGER \<equiv> 0x21"
abbreviation TAG_BOOLEAN :: u8 where "TAG_BOOLEAN \<equiv> 0x22"
abbreviation TAG_ENUM :: u8 where "TAG_ENUM \<equiv> 0x23"
abbreviation TAG_RESOLUTION :: u8 where "TAG_RESOLUTION \<equiv> 0x32"
abbreviation TAG_RANGE_OF_INTEGER :: u8 where "TAG_RANGE_OF_INTEGER \<equiv> 0x33"
abbreviation TAG_BEG_COLLECTION :: u8 where "TAG_BEG_COLLECTION \<equiv> 0x34"
abbreviation TAG_END_COLLECTION :: u8 where "TAG_END_COLLECTION \<equiv> 0x37"
abbreviation TAG_TEXT :: u8 where "TAG_TEXT \<equiv> 0x41"
abbreviation TAG_NAME :: u8 where "TAG_NAME \<equiv> 0x42"
abbreviation TAG_KEYWORD :: u8 where "TAG_KEYWORD \<equiv> 0x44"
abbreviation TAG_URI :: u8 where "TAG_URI \<equiv> 0x45"
abbreviation TAG_CHARSET :: u8 where "TAG_CHARSET \<equiv> 0x47"
abbreviation TAG_NATURAL_LANGUAGE :: u8 where "TAG_NATURAL_LANGUAGE \<equiv> 0x48"
abbreviation TAG_MIME_MEDIA_TYPE :: u8 where "TAG_MIME_MEDIA_TYPE \<equiv> 0x49"
abbreviation TAG_MEMBER_ATTR_NAME :: u8 where "TAG_MEMBER_ATTR_NAME \<equiv> 0x4A"

definition is_delimiter :: "u8 \<Rightarrow> bool" where
  "is_delimiter t \<longleftrightarrow> 0x01 \<le> t \<and> t \<le> 0x05"

definition is_text :: "u8 \<Rightarrow> bool" where
  "is_text t \<longleftrightarrow> t = 0x41 \<or> t = 0x42 \<or> (0x44 \<le> t \<and> t \<le> 0x4A)"

datatype Status = Ok | NotAuthorized | AttributesOrValuesNotSupported | BadRequest
  | DocumentFormatNotSupported | NotFound | NotPossible | DocumentTooLarge | NotAcceptingJobs
  | StatusInternalError | VersionNotSupported | UnsupportedOperation

fun status_code :: "Status \<Rightarrow> u16" where
  "status_code Ok = 0x0000"
| "status_code NotAuthorized = 0x0403"
| "status_code AttributesOrValuesNotSupported = 0x040B"
| "status_code BadRequest = 0x0400"
| "status_code NotFound = 0x0406"
| "status_code NotPossible = 0x0408"
| "status_code DocumentTooLarge = 0x0409"
| "status_code NotAcceptingJobs = 0x0508"
| "status_code StatusInternalError = 0x0500"
| "status_code DocumentFormatNotSupported = 0x040A"
| "status_code VersionNotSupported = 0x0503"
| "status_code UnsupportedOperation = 0x0501"

lemma status_code_inject: "status_code a = status_code b \<longleftrightarrow> a = b"
  by (cases a; cases b; simp)

datatype ParseError = Truncated | Overrun | NotText

section \<open>Reading fields\<close>

fun read_u16 :: "bytes \<Rightarrow> ParseError + u16 \<times> bytes" where
  "read_u16 (a # b # rest) = Inr (from_be16 a b, rest)"
| "read_u16 _ = Inl Overrun"

definition read_raw :: "bytes \<Rightarrow> ParseError + bytes \<times> bytes" where
  "read_raw rest =
     and_then (read_u16 rest) (\<lambda>(len, rest).
     and_then (ok_or (slice_get rest 0 (unat len)) Overrun) (\<lambda>slice.
     Inr (slice, drop (unat len) rest)))"

definition read_text :: "bytes \<Rightarrow> ParseError + ustr \<times> bytes" where
  "read_text rest =
     and_then (read_raw rest) (\<lambda>(raw, rest).
     and_then (ok_or (from_utf8 raw) NotText) (\<lambda>s.
     Inr (trim_end_matches 0 s, rest)))"

lemma read_u16_length: "read_u16 r = Inr (n, r') \<Longrightarrow> length r = length r' + 2"
  by (cases r rule: read_u16.cases) auto

lemma read_raw_length: "read_raw r = Inr (v, r') \<Longrightarrow> length r = length r' + length v + 2"
  by (auto simp: read_raw_def result_simps slice_get_Some_iff dest!: read_u16_length)

lemma read_text_length: "read_text r = Inr (s, r') \<Longrightarrow> length r' + 2 \<le> length r"
  by (auto simp: read_text_def result_simps dest!: read_raw_length)

section \<open>Requests\<close>

record Attribute =
  attr_name :: ustr
  attr_tag :: u8
  attr_values :: "bytes list"
  attr_value_tags :: "u8 list"

record Request =
  version :: "u8 \<times> u8"
  operation :: u16
  request_id :: u32
  attributes :: "Attribute list"
  document :: bytes
  document_start :: nat

text \<open>\<open>attributes.last_mut()\<close>: another value of the attribute read last, if there is one.\<close>

definition push_value :: "Attribute list \<Rightarrow> bytes \<Rightarrow> u8 \<Rightarrow> Attribute list option" where
  "push_value attrs value value_tag =
     (if attrs = [] then None
      else Some (butlast attrs @ [(last attrs)\<lparr>attr_values := attr_values (last attrs) @ [value],
              attr_value_tags := attr_value_tags (last attrs) @ [value_tag]\<rparr>]))"

function parse_loop :: "bytes \<Rightarrow> Attribute list \<Rightarrow> ParseError + Attribute list \<times> bytes" where
  "parse_loop [] attrs = Inr (attrs, [])"
| "parse_loop (value_tag # rest) attrs =
     (if value_tag = TAG_END_OF_ATTRIBUTES then Inr (attrs, rest)
      else if is_delimiter value_tag then parse_loop rest attrs
      else
        and_then (read_text rest) (\<lambda>(name, rest).
        and_then (read_raw rest) (\<lambda>(value, rest).
        if name = [] then
          (case push_value attrs value value_tag of
             Some attrs \<Rightarrow> parse_loop rest attrs
           | None \<Rightarrow> Inl NotText)
        else parse_loop rest
               (attrs @ [\<lparr>attr_name = name, attr_tag = value_tag, attr_values = [value],
                          attr_value_tags = [value_tag]\<rparr>]))))"
  by pat_completeness auto
termination
  by (relation "measure (\<lambda>(rest, attrs). length rest)")
     (auto dest!: read_text_length read_raw_length)

definition Request_parse :: "bytes \<Rightarrow> ParseError + Request" where
  "Request_parse bs =
     (if length bs < 8 then Inl Truncated
      else
        and_then (parse_loop (drop 8 bs) []) (\<lambda>(attrs, doc).
        Inr \<lparr>version = (bs ! 0, bs ! 1), operation = from_be16 (bs ! 2) (bs ! 3),
             request_id = from_be32 (bs ! 4) (bs ! 5) (bs ! 6) (bs ! 7),
             attributes = attrs, document = doc, document_start = length bs - length doc\<rparr>))"

section \<open>Attribute values\<close>

definition attribute_text :: "Attribute \<Rightarrow> ustr option" where
  "attribute_text a =
     (if \<not> is_text (attr_tag a) then None
      else (case attr_values a of
              [] \<Rightarrow> None
            | value # _ \<Rightarrow> map_option (trim_end_matches 0) (from_utf8 value)))"

definition attribute :: "Request \<Rightarrow> ustr \<Rightarrow> Attribute option" where
  "attribute r name = List.find (\<lambda>a. attr_name a = name) (attributes r)"

definition value_text :: "Request \<Rightarrow> ustr \<Rightarrow> ustr option" where
  "value_text r name = Option.bind (attribute r name) attribute_text"

definition text_values :: "Request \<Rightarrow> ustr \<Rightarrow> ustr list" where
  "text_values r name =
     (case attribute r name of
        None \<Rightarrow> []
      | Some a \<Rightarrow> List.map_filter
          (\<lambda>v. map_option (trim_end_matches 0) (from_utf8 v)) (attr_values a))"

fun i32_from_bytes :: "bytes \<Rightarrow> int option" where
  "i32_from_bytes [a, b, c, d] = Some (sint (from_be32 a b c d))"
| "i32_from_bytes _ = None"

definition integer :: "Request \<Rightarrow> ustr \<Rightarrow> int option" where
  "integer r name =
     (case attribute r name of
        None \<Rightarrow> None
      | Some a \<Rightarrow>
          if attr_tag a \<noteq> TAG_INTEGER \<and> attr_tag a \<noteq> TAG_ENUM then None
          else (case attr_values a of [] \<Rightarrow> None | value # _ \<Rightarrow> i32_from_bytes value))"

definition has_attribute :: "Request \<Rightarrow> ustr \<Rightarrow> bool" where
  "has_attribute r name = list_ex (\<lambda>a. attr_name a = name) (attributes r)"

definition boolean :: "Request \<Rightarrow> ustr \<Rightarrow> bool option" where
  "boolean r name =
     (case attribute r name of
        None \<Rightarrow> None
      | Some a \<Rightarrow>
          (case attr_values a of
             [] \<Rightarrow> None
           | value # _ \<Rightarrow> if value = [0] then Some False
                         else if value = [1] then Some True else None))"

definition version_is_supported :: "Request \<Rightarrow> bool" where
  "version_is_supported r \<longleftrightarrow> version r \<in> set SUPPORTED_VERSIONS"

definition response_version :: "Request \<Rightarrow> u8 \<times> u8" where
  "response_version r = (if version_is_supported r then version r else IPP_VERSION_1_1)"

section \<open>Requested media\<close>

abbreviation ascii :: "string \<Rightarrow> bytes" where
  "ascii s \<equiv> map of_char s"

record MediaScan =
  scan_path :: "bytes list"
  scan_member :: "bytes option"
  scan_name :: "ustr option"
  media_size_seen :: bool
  dim_x :: "int option"
  dim_y :: "int option"

abbreviation "invalid_media \<equiv> AttributesOrValuesNotSupported"

text \<open>The value of a member that is not a collection.\<close>

definition media_member_value :: "MediaScan \<Rightarrow> bytes \<Rightarrow> u8 \<Rightarrow> bytes \<Rightarrow> Status + MediaScan" where
  "media_member_value s key value_tag value =
     (if length (scan_path s) = 1 \<and> key = ascii ''media-size-name'' then
        (if (value_tag \<noteq> TAG_KEYWORD \<and> value_tag \<noteq> TAG_NAME) \<or> scan_name s \<noteq> None
         then Inl invalid_media
         else
           and_then (ok_or (from_utf8 value) invalid_media) (\<lambda>raw.
           let name = trim_end_matches 0 raw in
           if 0 \<in> set name then Inl invalid_media
           else if name \<noteq> [] then Inr (s\<lparr>scan_name := Some name\<rparr>) else Inr s))
      else if scan_path s = [ascii ''media-col'', ascii ''media-size'']
        \<and> (key = ascii ''x-dimension'' \<or> key = ascii ''y-dimension'') then
        (if value_tag \<noteq> TAG_INTEGER then Inl invalid_media
         else
           and_then (ok_or (i32_from_bytes value) invalid_media) (\<lambda>dimension.
           if \<not> (5000 \<le> dimension \<and> dimension \<le> 45000) then Inl invalid_media
           else if key = ascii ''x-dimension'' then
             (if dim_x s \<noteq> None then Inl invalid_media else Inr (s\<lparr>dim_x := Some dimension\<rparr>))
           else
             (if dim_y s \<noteq> None then Inl invalid_media else Inr (s\<lparr>dim_y := Some dimension\<rparr>))))
      else Inr s)"

definition media_step :: "MediaScan \<Rightarrow> u8 \<Rightarrow> bytes \<Rightarrow> Status + MediaScan" where
  "media_step s value_tag value =
     (if scan_path s = [] then Inl invalid_media
      else if value_tag = TAG_MEMBER_ATTR_NAME then
        (if scan_member s \<noteq> None \<or> value = [] then Inl invalid_media
         else Inr (s\<lparr>scan_member := Some value\<rparr>))
      else if value_tag = TAG_BEG_COLLECTION then
        (if value \<noteq> [] \<or> length (scan_path s) \<ge> 16 then Inl invalid_media
         else (case scan_member s of
           None \<Rightarrow> Inl invalid_media
         | Some key \<Rightarrow>
             let size = (length (scan_path s) = 1 \<and> key = ascii ''media-size'') in
             if size \<and> media_size_seen s then Inl invalid_media
             else Inr (s\<lparr>scan_member := None, scan_path := scan_path s @ [key],
                         media_size_seen := media_size_seen s \<or> size\<rparr>)))
      else if value_tag = TAG_END_COLLECTION then
        (if scan_member s \<noteq> None \<or> value \<noteq> [] then Inl invalid_media
         else Inr (s\<lparr>scan_path := butlast (scan_path s)\<rparr>))
      else (case scan_member s of
          None \<Rightarrow> Inl invalid_media
        | Some key \<Rightarrow> media_member_value (s\<lparr>scan_member := None\<rparr>) key value_tag value))"

fun media_scan :: "MediaScan \<Rightarrow> (u8 \<times> bytes) list \<Rightarrow> Status + MediaScan" where
  "media_scan s [] = Inr s"
| "media_scan s ((value_tag, value) # vs) =
     and_then (media_step s value_tag value) (\<lambda>s. media_scan s vs)"

definition media_dimensions :: "MediaScan \<Rightarrow> Status + (int \<times> int) option" where
  "media_dimensions s =
     (case (dim_x s, dim_y s) of
        (Some x, Some y) \<Rightarrow>
          (if min x y > 33020 then Inl invalid_media
           else
             let short = min x y div 10; long = max x y div 10 in
             if \<not> (-32768 \<le> short \<and> short \<le> 32767) \<or> \<not> (-32768 \<le> long \<and> long \<le> 32767)
             then Inl invalid_media
             else if \<not> custom_dimensions_are_supported short long then Inl invalid_media
             else Inr (Some (short, long)))
      | (None, None) \<Rightarrow> if media_size_seen s then Inl invalid_media else Inr None
      | _ \<Rightarrow> Inl invalid_media)"

text \<open>One decimal of a tenth of a millimeter, as \<open>{:.1}\<close> prints it.\<close>

definition show_tenths :: "int \<Rightarrow> ustr" where
  "show_tenths n = show_nat (nat (n div 10)) @ [46] @ show_nat (nat (n mod 10))"

definition custom_media_keyword :: "int \<Rightarrow> int \<Rightarrow> ustr" where
  "custom_media_keyword short long =
     lit ''custom_'' @ show_tenths short @ lit ''x'' @ show_tenths long @ lit ''mm''"

definition media :: "Request \<Rightarrow> Status + ustr option" where
  "media r =
     (case value_text r (lit ''media'') of
        Some m \<Rightarrow> Inr (Some m)
      | None \<Rightarrow>
     (case attribute r (lit ''media-col'') of
        None \<Rightarrow> Inr None
      | Some collection \<Rightarrow>
          if attr_tag collection \<noteq> TAG_BEG_COLLECTION \<or> hd (attr_values collection) \<noteq> []
          then Inl invalid_media
          else
            and_then (media_scan
                \<lparr>scan_path = [ascii ''media-col''], scan_member = None, scan_name = None,
                 media_size_seen = False, dim_x = None, dim_y = None\<rparr>
                (drop 1 (zip (attr_value_tags collection) (attr_values collection)))) (\<lambda>s.
            if scan_path s \<noteq> [] \<or> scan_member s \<noteq> None then Inl invalid_media
            else
              and_then (media_dimensions s) (\<lambda>dimensions.
              case scan_name s of
                Some name \<Rightarrow> Inr (Some name)
              | None \<Rightarrow>
                  (case dimensions of
                     None \<Rightarrow> Inr None
                   | Some (short, long) \<Rightarrow>
                       (case media_for_dimensions short long of
                          Some spec \<Rightarrow> Inr (Some (keyword spec))
                        | None \<Rightarrow> Inr (Some (custom_media_keyword short long))))))))"

end
