(* ===== verification/Ipp_Response.thy ===== *)
theory Ipp_Response
  imports Ipp_Message Domain_Printer
begin

text \<open>
  \<open>adapters/ipps/protocol.rs\<close>, the encoding half: the attribute writers, the printer and job
  responses and the media collections. A writer of the source appends to its output; here it is the
  bytes it appends. A length is cut to 16 bits, as the source casts it. The SHA-256 function and the
  server's uptime are arguments, as \<open>sha256\<close> and \<open>uptime\<close>.
\<close>

section \<open>Writers\<close>

definition write_name_and_value :: "ustr \<Rightarrow> bytes \<Rightarrow> bytes" where
  "write_name_and_value name value =
     to_be16 (of_nat (str_len name)) @ as_bytes name @ to_be16 (of_nat (length value)) @ value"

definition i32_bytes :: "int \<Rightarrow> bytes" where
  "i32_bytes v = to_be32 (of_int v)"

definition write_integer :: "ustr \<Rightarrow> int \<Rightarrow> bytes" where
  "write_integer name value = TAG_INTEGER # write_name_and_value name (i32_bytes value)"

definition write_resolution :: "ustr \<Rightarrow> int \<Rightarrow> int \<Rightarrow> u8 \<Rightarrow> bytes" where
  "write_resolution name xres yres units =
     TAG_RESOLUTION # write_name_and_value name (i32_bytes xres @ i32_bytes yres @ [units])"

definition write_range_of_integers :: "ustr \<Rightarrow> int \<Rightarrow> int \<Rightarrow> bytes" where
  "write_range_of_integers name lower upper =
     TAG_RANGE_OF_INTEGER # write_name_and_value name (i32_bytes lower @ i32_bytes upper)"

definition write_text :: "u8 \<Rightarrow> ustr \<Rightarrow> ustr \<Rightarrow> bytes" where
  "write_text value_tag name value = value_tag # write_name_and_value name (as_bytes value)"

text \<open>A 1setOf repeats the tag, with an empty name after the first value.\<close>

fun write_set :: "u8 \<Rightarrow> ustr \<Rightarrow> bytes list \<Rightarrow> bytes" where
  "write_set value_tag name [] = []"
| "write_set value_tag name (v # vs) =
     value_tag # write_name_and_value name v @ write_set value_tag [] vs"

definition write_texts :: "u8 \<Rightarrow> ustr \<Rightarrow> ustr list \<Rightarrow> bytes" where
  "write_texts value_tag name vs = write_set value_tag name (map as_bytes vs)"

definition write_integers :: "u8 \<Rightarrow> ustr \<Rightarrow> int list \<Rightarrow> bytes" where
  "write_integers value_tag name vs = write_set value_tag name (map i32_bytes vs)"

definition write_boolean :: "ustr \<Rightarrow> bool \<Rightarrow> bytes" where
  "write_boolean name value =
     TAG_BOOLEAN # write_name_and_value name [if value then 1 else 0]"

section \<open>Media collections\<close>

definition STANDARD_MARGIN_HUNDREDTHS_MM :: int where "STANDARD_MARGIN_HUNDREDTHS_MM = 350"
definition BORDERLESS_MARGIN_HUNDREDTHS_MM :: int where "BORDERLESS_MARGIN_HUNDREDTHS_MM = 0"

definition write_media_size :: "ustr \<Rightarrow> MediaSpec \<Rightarrow> bytes" where
  "write_media_size name spec =
     TAG_BEG_COLLECTION # write_name_and_value name []
     @ concat (map (\<lambda>(member, dimension).
         write_text TAG_MEMBER_ATTR_NAME [] member
         @ write_integers TAG_INTEGER [] [dimension * 10])
       [(lit ''x-dimension'', short_tenths_mm spec), (lit ''y-dimension'', long_tenths_mm spec)])
     @ TAG_END_COLLECTION # write_name_and_value [] []"

definition write_media_collection :: "ustr \<Rightarrow> MediaSpec \<Rightarrow> int \<Rightarrow> bytes" where
  "write_media_collection name spec margin_hundredths_mm =
     TAG_BEG_COLLECTION # write_name_and_value name []
     @ write_text TAG_MEMBER_ATTR_NAME [] (lit ''media-size'')
     @ write_media_size [] spec
     @ write_text TAG_MEMBER_ATTR_NAME [] (lit ''media-size-name'')
     @ write_text TAG_KEYWORD [] (keyword spec)
     @ concat (map (\<lambda>margin. write_text TAG_MEMBER_ATTR_NAME [] margin
           @ write_integers TAG_INTEGER [] [margin_hundredths_mm])
         [lit ''media-bottom-margin'', lit ''media-top-margin'',
          lit ''media-left-margin'', lit ''media-right-margin''])
     @ TAG_END_COLLECTION # write_name_and_value [] []"

fun write_media_rows :: "bool \<Rightarrow> (MediaSpec \<times> int) list \<Rightarrow> bytes" where
  "write_media_rows is_first [] = []"
| "write_media_rows is_first ((spec, margin) # rows) =
     write_media_collection (if is_first then lit ''media-col-database'' else []) spec margin
     @ write_media_rows False rows"

definition write_media_col_database :: "MediaSpec list \<Rightarrow> bytes" where
  "write_media_col_database specs =
     write_media_rows True (concat (map (\<lambda>spec.
       map (\<lambda>margin. (spec, margin))
         [STANDARD_MARGIN_HUNDREDTHS_MM, BORDERLESS_MARGIN_HUNDREDTHS_MM]) specs))"

definition write_media_col_database_zero_margin :: "MediaSpec list \<Rightarrow> bytes" where
  "write_media_col_database_zero_margin specs =
     write_media_rows True (map (\<lambda>spec. (spec, BORDERLESS_MARGIN_HUNDREDTHS_MM)) specs)"

definition write_media_col_default :: "MediaSpec \<Rightarrow> bytes" where
  "write_media_col_default spec =
     write_media_collection (lit ''media-col-default'') spec STANDARD_MARGIN_HUNDREDTHS_MM"

fun write_media_size_rows :: "bool \<Rightarrow> MediaSpec list \<Rightarrow> bytes" where
  "write_media_size_rows is_first [] = []"
| "write_media_size_rows is_first (spec # specs) =
     write_media_size (if is_first then lit ''media-size-supported'' else []) spec
     @ write_media_size_rows False specs"

definition write_media_size_supported :: "MediaSpec list \<Rightarrow> bytes" where
  "write_media_size_supported specs = write_media_size_rows True specs"

section \<open>Printer responses\<close>

record PrinterEntry =
  entry_name :: ustr
  entry_uri :: ustr
  accepting_jobs :: bool

definition printer_uuid :: "(bytes \<Rightarrow> bytes) \<Rightarrow> ustr \<Rightarrow> ustr" where
  "printer_uuid sha256 name =
     (let hash = sha256 (ascii ''shaprint-printer-uuid:'' @ as_bytes name);
          bs = take 16 hash;
          bs = bs[6 := or (and (bs ! 6) 0x0F) 0x50];
          bs = bs[8 := or (and (bs ! 8) 0x3F) 0x80];
          hex = (\<lambda>i. hex_lower (bs ! i))
      in lit ''urn:uuid:'' @ hex 0 @ hex 1 @ hex 2 @ hex 3 @ lit ''-'' @ hex 4 @ hex 5 @ lit ''-''
         @ hex 6 @ hex 7 @ lit ''-'' @ hex 8 @ hex 9 @ lit ''-''
         @ hex 10 @ hex 11 @ hex 12 @ hex 13 @ hex 14 @ hex 15)"

definition response_start :: "u32 \<Rightarrow> u8 \<times> u8 \<Rightarrow> Status \<Rightarrow> bytes" where
  "response_start rid ver status =
     [fst ver, snd ver] @ to_be16 (status_code status) @ to_be32 rid
     @ TAG_OPERATION_ATTRIBUTES
     # write_text TAG_CHARSET (lit ''attributes-charset'') (lit ''utf-8'')
     @ write_text TAG_NATURAL_LANGUAGE (lit ''attributes-natural-language'') (lit ''en'')"

definition PRINTER_STATE_IDLE :: int where "PRINTER_STATE_IDLE = 3"

definition margins_of :: "bool \<Rightarrow> int list" where
  "margins_of legacy_zero_margin =
     (if legacy_zero_margin then [BORDERLESS_MARGIN_HUNDREDTHS_MM]
      else [BORDERLESS_MARGIN_HUNDREDTHS_MM, STANDARD_MARGIN_HUNDREDTHS_MM])"

text \<open>The attributes of one printer group, in the order of \<open>build_response\<close>: identity and media
  first, then job defaults, then state and operations.\<close>

definition write_printer_identity :: "(bytes \<Rightarrow> bytes) \<Rightarrow> PrinterEntry \<Rightarrow> bytes" where
  "write_printer_identity sha256 p =
     write_text TAG_URI (lit ''printer-uri-supported'') (entry_uri p)
     @ write_text TAG_URI (lit ''printer-uuid'') (printer_uuid sha256 (entry_name p))
     @ write_text TAG_NAME (lit ''printer-name'') (entry_name p)
     @ write_text TAG_TEXT (lit ''printer-make-and-model'') (entry_name p)
     @ write_text TAG_TEXT (lit ''printer-info'') (entry_name p)"

definition write_printer_media :: "bool \<Rightarrow> bytes" where
  "write_printer_media legacy_zero_margin =
     (let supported_media = map keyword MEDIA_CATALOG;
          margins = margins_of legacy_zero_margin
      in write_text TAG_MIME_MEDIA_TYPE (lit ''document-format-default'') (lit ''image/pwg-raster'')
       @ write_texts TAG_MIME_MEDIA_TYPE (lit ''document-format-supported'') [lit ''image/pwg-raster'']
       @ write_text TAG_KEYWORD (lit ''media-default'') (lit ''iso_a4_210x297mm'')
       @ write_texts TAG_KEYWORD (lit ''media-supported'') supported_media
       @ write_texts TAG_KEYWORD (lit ''media-ready'') supported_media
       @ write_integers TAG_INTEGER (lit ''media-bottom-margin-supported'') margins
       @ write_integers TAG_INTEGER (lit ''media-top-margin-supported'') margins
       @ write_integers TAG_INTEGER (lit ''media-left-margin-supported'') margins
       @ write_integers TAG_INTEGER (lit ''media-right-margin-supported'') margins
       @ (if legacy_zero_margin
          then write_media_collection (lit ''media-col-default'') (MEDIA_CATALOG ! 0)
                 BORDERLESS_MARGIN_HUNDREDTHS_MM
          else write_media_col_default (MEDIA_CATALOG ! 0))
       @ write_texts TAG_KEYWORD (lit ''media-col-supported'')
           [lit ''media-size'', lit ''media-size-name'', lit ''media-bottom-margin'',
            lit ''media-top-margin'', lit ''media-left-margin'', lit ''media-right-margin'']
       @ (if legacy_zero_margin then write_media_col_database_zero_margin MEDIA_CATALOG
          else write_media_col_database MEDIA_CATALOG)
       @ write_media_size_supported MEDIA_CATALOG)"

definition write_printer_defaults :: bytes where
  "write_printer_defaults =
     write_text TAG_KEYWORD (lit ''sides-default'') (lit ''one-sided'')
     @ write_texts TAG_KEYWORD (lit ''sides-supported'')
         [lit ''one-sided'', lit ''two-sided-long-edge'', lit ''two-sided-short-edge'']
     @ write_text TAG_KEYWORD (lit ''print-color-mode-default'') (lit ''color'')
     @ write_texts TAG_KEYWORD (lit ''print-color-mode-supported'')
         [lit ''color'', lit ''monochrome'', lit ''bi-level'']
     @ write_boolean (lit ''color-supported'') True
     @ write_integers TAG_INTEGER (lit ''copies-default'') [1]
     @ write_range_of_integers (lit ''copies-supported'') 1 999
     @ write_integers TAG_ENUM (lit ''orientation-requested-default'') [3]
     @ write_integers TAG_ENUM (lit ''orientation-requested-supported'') [3, 4]
     @ write_integers TAG_ENUM (lit ''print-quality-default'') [4]
     @ write_integers TAG_ENUM (lit ''print-quality-supported'') [3, 4, 5]
     @ write_resolution (lit ''printer-resolution-default'') 300 300 3
     @ write_resolution (lit ''printer-resolution-supported'') 300 300 3
     @ write_resolution (lit ''pwg-raster-document-resolution-supported'') 300 300 3
     @ write_texts TAG_KEYWORD (lit ''pwg-raster-document-resolution-supported'') [lit ''300dpi'']
     @ write_texts TAG_KEYWORD (lit ''pwg-raster-document-type-supported'')
         [lit ''sgray_8'', lit ''srgb_8'']
     @ write_text TAG_KEYWORD (lit ''pwg-raster-document-sheet-back'') (lit ''normal'')
     @ write_text TAG_KEYWORD (lit ''output-bin-default'') (lit ''face-down'')
     @ write_texts TAG_KEYWORD (lit ''output-bin-supported'') [lit ''face-down'']
     @ write_text TAG_KEYWORD (lit ''pdl-override-supported'') (lit ''not-attempted'')
     @ write_text TAG_KEYWORD (lit ''uri-security-supported'') (lit ''tls'')
     @ write_text TAG_KEYWORD (lit ''uri-authentication-supported'') (lit ''none'')"

definition operations_of :: "bool \<Rightarrow> int list" where
  "operations_of accepting =
     map uint (if accepting
       then [OPERATION_PRINT_JOB, OPERATION_VALIDATE_JOB, OPERATION_CREATE_JOB,
             OPERATION_SEND_DOCUMENT, OPERATION_CANCEL_JOB, OPERATION_GET_JOB_ATTRIBUTES,
             OPERATION_GET_JOBS, OPERATION_GET_PRINTER_ATTRIBUTES, OPERATION_GET_PRINTERS]
       else [OPERATION_CANCEL_JOB, OPERATION_GET_JOB_ATTRIBUTES, OPERATION_GET_JOBS,
             OPERATION_GET_PRINTER_ATTRIBUTES, OPERATION_GET_PRINTERS])"

definition write_printer_state :: "int \<Rightarrow> PrinterEntry \<Rightarrow> bytes" where
  "write_printer_state uptime p =
     write_integer (lit ''printer-up-time'') uptime
     @ write_texts TAG_KEYWORD (lit ''compression-supported'') [lit ''none'']
     @ write_text TAG_TEXT (lit ''printer-location'') (lit ''ShaPrint Network'')
     @ write_text TAG_URI (lit ''printer-more-info'') (entry_uri p)
     @ write_texts TAG_KEYWORD (lit ''ipp-versions-supported'') [lit ''2.0'', lit ''1.1'']
     @ write_integers TAG_ENUM (lit ''printer-state'') [PRINTER_STATE_IDLE]
     @ write_text TAG_KEYWORD (lit ''printer-state-reasons'') (lit ''none'')
     @ write_boolean (lit ''printer-is-accepting-jobs'') (accepting_jobs p)
     @ write_text TAG_CHARSET (lit ''charset-configured'') (lit ''utf-8'')
     @ write_text TAG_CHARSET (lit ''charset-supported'') (lit ''utf-8'')
     @ write_text TAG_NATURAL_LANGUAGE (lit ''natural-language-configured'') (lit ''en'')
     @ write_text TAG_NATURAL_LANGUAGE (lit ''generated-natural-language-supported'') (lit ''en'')
     @ write_integers TAG_ENUM (lit ''operations-supported'') (operations_of (accepting_jobs p))"

definition write_printer :: "(bytes \<Rightarrow> bytes) \<Rightarrow> int \<Rightarrow> bool \<Rightarrow> PrinterEntry \<Rightarrow> bytes" where
  "write_printer sha256 uptime legacy_zero_margin p =
     TAG_PRINTER_ATTRIBUTES # write_printer_identity sha256 p
     @ write_printer_media legacy_zero_margin @ write_printer_defaults
     @ write_printer_state uptime p"

definition build_response ::
  "(bytes \<Rightarrow> bytes) \<Rightarrow> int \<Rightarrow> u32 \<Rightarrow> u8 \<times> u8 \<Rightarrow> Status \<Rightarrow> PrinterEntry list \<Rightarrow> bool \<Rightarrow> bytes" where
  "build_response sha256 uptime rid ver status printers legacy_zero_margin =
     response_start rid ver status
     @ concat (map (write_printer sha256 uptime legacy_zero_margin) printers)
     @ [TAG_END_OF_ATTRIBUTES]"

definition response ::
  "(bytes \<Rightarrow> bytes) \<Rightarrow> int \<Rightarrow> u32 \<Rightarrow> u8 \<times> u8 \<Rightarrow> Status \<Rightarrow> PrinterEntry list \<Rightarrow> bytes" where
  "response sha256 uptime rid ver status printers =
     build_response sha256 uptime rid ver status printers False"

definition legacy_zero_margin_response ::
  "(bytes \<Rightarrow> bytes) \<Rightarrow> int \<Rightarrow> u32 \<Rightarrow> u8 \<times> u8 \<Rightarrow> Status \<Rightarrow> PrinterEntry list \<Rightarrow> bytes" where
  "legacy_zero_margin_response sha256 uptime rid ver status printers =
     build_response sha256 uptime rid ver status printers True"

section \<open>Job responses\<close>

record JobEntry =
  job_id :: int
  job_uri :: ustr
  job_printer_uri :: ustr
  job_printer_name :: ustr
  job_name :: ustr
  document_count :: int
  job_state :: int

definition requested_attribute :: "ustr list \<Rightarrow> ustr \<Rightarrow> bool" where
  "requested_attribute requested name \<longleftrightarrow>
     requested = []
     \<or> list_ex (\<lambda>a. eq_ignore_ascii_case a (lit ''all'') \<or> eq_ignore_ascii_case a name) requested"

definition job_state_reason :: "int \<Rightarrow> ustr" where
  "job_state_reason state =
     (if state = 7 then lit ''job-canceled-by-user''
      else if state = 8 then lit ''job-aborted-by-system''
      else if state = 9 then lit ''job-completed-successfully''
      else lit ''none'')"

definition write_job_attributes :: "JobEntry \<Rightarrow> ustr list \<Rightarrow> bytes" where
  "write_job_attributes job requested =
     (let opt = (\<lambda>name bs. if requested_attribute requested name then bs else [])
      in TAG_JOB_ATTRIBUTES
         # opt (lit ''job-uri'') (write_text TAG_URI (lit ''job-uri'') (job_uri job))
         @ opt (lit ''job-id'') (write_integer (lit ''job-id'') (job_id job))
         @ opt (lit ''job-printer-uri'')
             (write_text TAG_URI (lit ''job-printer-uri'') (job_printer_uri job))
         @ opt (lit ''job-name'') (write_text TAG_NAME (lit ''job-name'') (job_name job))
         @ opt (lit ''job-state'') (write_integers TAG_ENUM (lit ''job-state'') [job_state job])
         @ opt (lit ''job-state-reasons'')
             (write_text TAG_KEYWORD (lit ''job-state-reasons'') (job_state_reason (job_state job)))
         @ opt (lit ''number-of-documents'')
             (write_integer (lit ''number-of-documents'') (document_count job)))"

definition job_response :: "u32 \<Rightarrow> u8 \<times> u8 \<Rightarrow> u32 \<Rightarrow> ustr \<Rightarrow> bytes" where
  "job_response rid ver jid uri =
     response_start rid ver Ok @ TAG_JOB_ATTRIBUTES
     # write_text TAG_URI (lit ''job-uri'') uri
     @ write_integer (lit ''job-id'') (sint jid)
     @ write_integers TAG_ENUM (lit ''job-state'') [3]
     @ write_text TAG_KEYWORD (lit ''job-state-reasons'') (lit ''none'')
     @ [TAG_END_OF_ATTRIBUTES]"

definition managed_job_response :: "u32 \<Rightarrow> u8 \<times> u8 \<Rightarrow> JobEntry \<Rightarrow> bytes" where
  "managed_job_response rid ver job =
     response_start rid ver Ok @ write_job_attributes job [] @ [TAG_END_OF_ATTRIBUTES]"

definition job_attributes_response ::
  "u32 \<Rightarrow> u8 \<times> u8 \<Rightarrow> JobEntry \<Rightarrow> ustr list \<Rightarrow> bytes" where
  "job_attributes_response rid ver job requested =
     response_start rid ver Ok @ write_job_attributes job requested @ [TAG_END_OF_ATTRIBUTES]"

definition jobs_response ::
  "u32 \<Rightarrow> u8 \<times> u8 \<Rightarrow> JobEntry list \<Rightarrow> ustr list \<Rightarrow> bytes" where
  "jobs_response rid ver jobs requested =
     response_start rid ver Ok
     @ concat (map (\<lambda>job. write_job_attributes job requested) jobs) @ [TAG_END_OF_ATTRIBUTES]"

end
