(* ===== verification/Ipp_Proxy.thy ===== *)
theory Ipp_Proxy
  imports Ipp_Response Server_Address
begin

text \<open>
  What the local proxy does to IPP messages: \<open>prepare_proxy_request\<close> and
  \<open>rewrite_printer_uri_supported\<close> of \<open>adapters/ipps/protocol.rs\<close>, and the client's own
  Get-Printers exchange (\<open>query_printers\<close> and \<open>parse_printers\<close> of
  \<open>adapters/client_connections.rs\<close>).
\<close>

section \<open>Requests to the server\<close>

definition write_text_attribute :: "u8 \<Rightarrow> ustr \<Rightarrow> ustr \<Rightarrow> bytes" where
  "write_text_attribute value_tag name value =
     value_tag # to_be16 (of_nat (str_len name)) @ as_bytes name
     @ to_be16 (of_nat (str_len value)) @ as_bytes value"

definition channel_attribute :: "ustr option \<Rightarrow> bytes" where
  "channel_attribute network_channel =
     (case network_channel of
        None \<Rightarrow> []
      | Some channel \<Rightarrow> write_text_attribute 0x41 (lit ''network-channel'') channel)"

text \<open>The bytes of one attribute as they stand in the message: everything up to the rest.\<close>

definition consumed :: "bytes \<Rightarrow> bytes \<Rightarrow> bytes" where
  "consumed rest rest' = take (length rest - length rest') rest"

function proxy_loop ::
  "ustr \<Rightarrow> ustr option \<Rightarrow> bytes \<Rightarrow> bytes \<Rightarrow> bool \<Rightarrow> bool \<Rightarrow> bytes \<Rightarrow> ParseError + bytes" where
  "proxy_loop uri channel [] current_name replaced_printer replaced_channel out = Inl Truncated"
| "proxy_loop uri channel (value_tag # rest) current_name replaced_printer replaced_channel out =
     (if value_tag = 0x03 then
        Inr (out
          @ (if replaced_printer then [] else write_text_attribute 0x45 (lit ''printer-uri'') uri)
          @ (if replaced_channel then [] else channel_attribute channel)
          @ value_tag # rest)
      else if is_delimiter value_tag then
        proxy_loop uri channel rest [] replaced_printer replaced_channel (out @ [value_tag])
      else
        and_then (read_raw rest) (\<lambda>(name, rest1).
        let current_name = (if name \<noteq> [] then name else current_name) in
        and_then (read_raw rest1) (\<lambda>(value, rest2).
        if current_name = ascii ''printer-uri'' then
          (if name = [] then
             proxy_loop uri channel rest2 current_name replaced_printer replaced_channel out
           else if replaced_printer then Inl NotText
           else proxy_loop uri channel rest2 current_name True replaced_channel
                  (out @ value_tag # to_be16 (of_nat (length name)) @ name
                   @ to_be16 (of_nat (str_len uri)) @ as_bytes uri))
        else if current_name = ascii ''network-channel'' then
          (if name = [] then
             proxy_loop uri channel rest2 current_name replaced_printer replaced_channel out
           else if replaced_channel then Inl NotText
           else proxy_loop uri channel rest2 current_name replaced_printer True
                  (out @ channel_attribute channel))
        else proxy_loop uri channel rest2 current_name replaced_printer replaced_channel
               (out @ value_tag # consumed rest rest2))))"
  by pat_completeness auto
termination
  by (relation "measure (\<lambda>(uri, channel, rest, name, rp, rc, out). length rest)")
     (auto dest!: read_raw_length)

definition prepare_proxy_request :: "bytes \<Rightarrow> ustr \<Rightarrow> ustr option \<Rightarrow> ParseError + bytes" where
  "prepare_proxy_request bs remote_printer_uri network_channel =
     and_then (Request_parse bs) (\<lambda>_.
     proxy_loop remote_printer_uri network_channel (drop 8 bs) [] False False (take 8 bs))"

section \<open>URIs of a proxied printer\<close>

definition server_from_proxy_uri :: "ustr \<Rightarrow> ustr option" where
  "server_from_proxy_uri uri =
     Option.bind (split_once uri (lit ''://'')) (\<lambda>(_, remainder).
     Option.bind (split_once remainder (lit ''/'')) (\<lambda>(_, path).
     Option.bind (strip_prefix path (lit ''ipp/print/'')) (\<lambda>after_prefix.
     Option.bind (split_once after_prefix (lit ''/'')) (\<lambda>(server, _).
     if server \<noteq> [] then Some (percent_decode server) else None))))"

definition printer_from_proxy_uri :: "ustr \<Rightarrow> ustr option" where
  "printer_from_proxy_uri uri =
     Option.bind (split_once uri (lit ''://'')) (\<lambda>(_, remainder).
     Option.bind (split_once remainder (lit ''/'')) (\<lambda>(_, path).
     Option.bind (strip_prefix path (lit ''ipp/print/'')) (\<lambda>after_prefix.
     Option.bind (split_once after_prefix (lit ''/'')) (\<lambda>(_, printer).
     if printer \<noteq> [] then Some (percent_decode printer) else None))))"

definition authority_from_uri :: "ustr \<Rightarrow> ustr option" where
  "authority_from_uri uri =
     Option.bind (split_once uri (lit ''://'')) (\<lambda>(_, remainder).
     Option.bind (split_once remainder (lit ''/'')) (\<lambda>(authority, _).
     if authority \<noteq> [] then Some authority else None))"

definition printer_from_remote_uri :: "ustr \<Rightarrow> ustr option" where
  "printer_from_remote_uri uri =
     Option.bind (split_once uri (lit ''://'')) (\<lambda>(_, remainder).
     Option.bind (split_once remainder (lit ''/'')) (\<lambda>(_, path).
     Option.bind (strip_prefix path (lit ''ipp/print/'')) (\<lambda>printer.
     if printer \<noteq> [] \<and> 47 \<notin> set printer then Some (percent_decode printer) else None)))"

definition uri_parts :: "ustr \<Rightarrow> (ustr \<times> ustr \<times> ustr) option" where
  "uri_parts uri =
     Option.bind (split_once uri (lit ''://'')) (\<lambda>(scheme, remainder).
     Option.bind (split_once remainder (lit ''/'')) (\<lambda>(authority, path).
     Option.bind (strip_prefix path (lit ''ipp/print/'')) (\<lambda>printer.
     if authority \<noteq> [] then Some (scheme, authority, printer) else None)))"

definition same_printer_uri :: "ustr \<Rightarrow> ustr \<Rightarrow> bool" where
  "same_printer_uri left right =
     (case (uri_parts left, uri_parts right) of
        (Some (left_scheme, left_authority, left_printer),
         Some (right_scheme, right_authority, right_printer)) \<Rightarrow>
          eq_ignore_ascii_case left_scheme right_scheme
          \<and> eq_ignore_ascii_case left_authority right_authority
          \<and> eq_ignore_ascii_case (percent_decode left_printer) (percent_decode right_printer)
      | _ \<Rightarrow> False)"

definition or_else :: "'a option \<Rightarrow> 'a option \<Rightarrow> 'a option" where
  "or_else a b = (case a of Some x \<Rightarrow> Some x | None \<Rightarrow> b)"

definition proxied_queue_name :: "Request \<Rightarrow> ustr \<Rightarrow> ustr \<Rightarrow> ustr option" where
  "proxied_queue_name parsed remote_printer_uri local_printer_uri =
     Option.bind (or_else (server_from_proxy_uri local_printer_uri)
                    (authority_from_uri remote_printer_uri)) (\<lambda>server_address.
     Option.bind (or_else (value_text parsed (lit ''printer-name''))
                    (or_else (printer_from_remote_uri remote_printer_uri)
                       (printer_from_proxy_uri local_printer_uri))) (\<lambda>printer_raw.
     Option.bind (ok (PrinterName_parse printer_raw)) (\<lambda>printer.
     Option.bind (ok (for_shared_printer printer server_address)) (\<lambda>queue.
     Some (ClientQueueName_as_str queue)))))"

section \<open>Answers to the spooler\<close>

text \<open>
  \<open>str::get(..n)\<close> with an ASCII comparison: the prefix of \<open>n\<close> bytes exists, on a character
  boundary, and matches the ASCII text \<open>p\<close> of that length up to case.
\<close>

definition prefix_ignore_case :: "ustr \<Rightarrow> ustr \<Rightarrow> bool" where
  "prefix_ignore_case s p \<longleftrightarrow>
     length p \<le> length s \<and> eq_ignore_ascii_case (take (length p) s) p"

record Rewrite =
  rw_remote :: ustr
  rw_local :: ustr
  rw_queue_name :: "ustr option"
  rw_queue_uuid :: "ustr option"
  rw_unencrypted :: bool
  rw_trailer :: bytes

text \<open>An attribute that keeps its tag and name and takes another value.\<close>

definition replace_value :: "u8 \<Rightarrow> bytes \<Rightarrow> bytes \<Rightarrow> bytes" where
  "replace_value value_tag name value =
     value_tag # to_be16 (of_nat (length name)) @ name @ to_be16 (of_nat (length value)) @ value"

text \<open>The \<open>if\<close> chain of the loop: what is written for an attribute, and whether the printer group is
  now known to be the proxied printer's.\<close>

definition rewrite_attribute ::
  "Rewrite \<Rightarrow> bytes \<Rightarrow> bool \<Rightarrow> u8 \<Rightarrow> bytes \<Rightarrow> bytes \<Rightarrow> bytes \<Rightarrow> bytes \<times> bool" where
  "rewrite_attribute c current_name rewriting value_tag name value original =
     (if current_name = ascii ''printer-uri-supported''
         \<and> (case from_utf8 value of Some v \<Rightarrow> same_printer_uri v (rw_remote c) | None \<Rightarrow> False)
      then (replace_value value_tag name (as_bytes (rw_local c)), True)
      else if current_name = ascii ''uri-security-supported'' \<and> rewriting \<and> rw_unencrypted c
      then (replace_value value_tag name (ascii ''none''), rewriting)
      else if current_name = ascii ''printer-uuid'' \<and> rewriting \<and> rw_queue_uuid c \<noteq> None
      then (replace_value value_tag name (as_bytes (the (rw_queue_uuid c))), rewriting)
      else if (current_name = ascii ''printer-name'' \<or> current_name = ascii ''printer-info''
               \<or> current_name = ascii ''printer-make-and-model'')
              \<and> rewriting \<and> rw_queue_name c \<noteq> None
      then (replace_value value_tag name (as_bytes (the (rw_queue_name c))), rewriting)
      else if current_name = ascii ''printer-more-info'' \<and> rewriting
      then (replace_value value_tag name (as_bytes (rw_local c)), rewriting)
      else (original, rewriting))"

function rewrite_loop ::
  "Rewrite \<Rightarrow> bytes \<Rightarrow> bytes \<Rightarrow> bool \<Rightarrow> bytes \<Rightarrow> ParseError + bytes" where
  "rewrite_loop c [] current_name rewriting out = Inl Truncated"
| "rewrite_loop c (value_tag # rest) current_name rewriting out =
     (if value_tag = TAG_END_OF_ATTRIBUTES then
        Inr (out @ rw_trailer c @ value_tag # rest)
      else if is_delimiter value_tag then
        rewrite_loop c rest current_name
          (if value_tag = TAG_PRINTER_ATTRIBUTES then False else rewriting) (out @ [value_tag])
      else
        and_then (read_raw rest) (\<lambda>(name, rest1).
        let current_name = (if name \<noteq> [] then name else current_name) in
        and_then (read_raw rest1) (\<lambda>(value, rest2).
        let (written, rewriting) = rewrite_attribute c current_name rewriting value_tag name value
              (value_tag # consumed rest rest2)
        in rewrite_loop c rest2 current_name rewriting (out @ written))))"
  by pat_completeness auto
termination
  by (relation "measure (\<lambda>(c, rest, name, rw, out). length rest)")
     (auto dest!: read_raw_length)

definition rewrite_trailer :: "int \<Rightarrow> bytes \<Rightarrow> Request \<Rightarrow> ustr \<Rightarrow> bytes" where
  "rewrite_trailer uptime bs parsed local_printer_uri =
     (let is_success = (from_be16 (bs ! 2) (bs ! 3) \<le> 0x00FF) in
      if \<not> is_success then []
      else
        (if integer parsed (lit ''printer-up-time'') \<noteq> None then []
         else write_integer (lit ''printer-up-time'') uptime)
        @ (if value_text parsed (lit ''compression-supported'') \<noteq> None then []
           else write_texts TAG_KEYWORD (lit ''compression-supported'') [lit ''none''])
        @ (if value_text parsed (lit ''printer-location'') \<noteq> None then []
           else write_text TAG_TEXT (lit ''printer-location'') (lit ''ShaPrint Network''))
        @ (if value_text parsed (lit ''printer-more-info'') \<noteq> None then []
           else write_text TAG_URI (lit ''printer-more-info'') local_printer_uri)
        @ (if list_ex (\<lambda>a. attr_name a = lit ''pwg-raster-document-resolution-supported''
                          \<and> attr_tag a = TAG_KEYWORD) (attributes parsed) then []
           else write_texts TAG_KEYWORD (lit ''pwg-raster-document-resolution-supported'')
                  [lit ''300dpi'']))"

definition rewrite_printer_uri_supported ::
  "(bytes \<Rightarrow> bytes) \<Rightarrow> int \<Rightarrow> bytes \<Rightarrow> ustr \<Rightarrow> ustr \<Rightarrow> ParseError + bytes" where
  "rewrite_printer_uri_supported sha256 uptime bs remote_printer_uri local_printer_uri =
     and_then (Request_parse bs) (\<lambda>parsed.
     let local_queue_name = proxied_queue_name parsed remote_printer_uri local_printer_uri;
         c = \<lparr>rw_remote = remote_printer_uri, rw_local = local_printer_uri,
              rw_queue_name = local_queue_name,
              rw_queue_uuid = map_option (printer_uuid sha256) local_queue_name,
              rw_unencrypted = prefix_ignore_case local_printer_uri (lit ''ipp://'')
                \<or> prefix_ignore_case local_printer_uri (lit ''http://''),
              rw_trailer = rewrite_trailer uptime bs parsed local_printer_uri\<rparr>
     in rewrite_loop c (drop 8 bs) [] False (take 8 bs))"

section \<open>The client's printer query\<close>

definition protocol_error :: AppError where
  "protocol_error = invalid_state (lit ''The IPPS server returned malformed printer data. Confirm it is a ShaPrint IPPS endpoint and retry.'')"

definition REQUEST_ID :: u32 where "REQUEST_ID = 1"

definition printer_query :: bytes where
  "printer_query =
     [2, 0] @ to_be16 OPERATION_GET_PRINTERS @ to_be32 REQUEST_ID @ 0x01
     # write_text_attribute 0x47 (lit ''attributes-charset'') (lit ''utf-8'')
     @ write_text_attribute 0x48 (lit ''attributes-natural-language'') (lit ''en'')
     @ [0x03]"

function printer_loop :: "bytes \<Rightarrow> bool \<Rightarrow> ustr list \<Rightarrow> AppError + ustr list" where
  "printer_loop [] in_printer names = Inl protocol_error"
| "printer_loop (t # rest) in_printer names =
     (if t = 0x03 then Inr names
      else if is_delimiter t then printer_loop rest (t = 0x04) names
      else
        and_then (map_err (\<lambda>_. protocol_error) (read_raw rest)) (\<lambda>(raw_name, rest).
        and_then (ok_or (from_utf8 raw_name) protocol_error) (\<lambda>name.
        and_then (map_err (\<lambda>_. protocol_error) (read_raw rest)) (\<lambda>(value, rest).
        if in_printer \<and> name = lit ''printer-name'' then
          and_then (ok_or (from_utf8 value) protocol_error) (\<lambda>s.
          printer_loop rest in_printer
            (if s \<noteq> [] \<and> s \<notin> set names then names @ [s] else names))
        else printer_loop rest in_printer names))))"
  by pat_completeness auto
termination
  by (relation "measure (\<lambda>(rest, in_printer, names). length rest)")
     (auto simp: result_simps dest!: read_raw_length)

definition parse_printers :: "bytes \<Rightarrow> AppError + ustr list" where
  "parse_printers bs =
     (if length bs < 9 then Inl (invalid_state (lit ''The IPPS server returned an incomplete IPP response. Confirm it supports Get-Printers and retry.''))
      else if from_be16 (bs ! 2) (bs ! 3) \<noteq> 0
      then Inl (invalid_state (lit ''The IPPS server rejected Get-Printers. Confirm sharing is enabled and retry.''))
      else printer_loop (drop 8 bs) False [])"

end
