(* ===== verification/Ipp_Codec.thy ===== *)
theory Ipp_Codec
  imports Ipp_Proxy
begin

text \<open>
  The interface between the writers and the readers of IPP messages, the locale
  \<open>field_codec\<close>: a reader takes a written value back from the front of a message. Length-prefixed
  integers, bytes and names are its instances. On top of it, what the parser and the
  client's query loop make of an attribute that a writer of the server has written.
\<close>

section \<open>Fields\<close>

locale field_codec =
  fixes valid :: "'a \<Rightarrow> bool"
    and put :: "'a \<Rightarrow> bytes"
    and get :: "bytes \<Rightarrow> ParseError + 'a \<times> bytes"
  assumes get_put: "valid x \<Longrightarrow> get (put x @ rest) = Inr (x, rest)"
begin

lemma get_then: "valid x \<Longrightarrow> and_then (get (put x @ rest)) f = f (x, rest)"
  by (simp add: get_put)

lemma prefix_free:
  assumes "valid x" "valid y" "put x @ a = put y @ b"
  shows "x = y \<and> a = b"
  by (metis assms get_put prod.inject sum.inject(2))

end

definition put_raw :: "bytes \<Rightarrow> bytes" where
  "put_raw v = to_be16 (of_nat (length v)) @ v"

definition fits :: "bytes \<Rightarrow> bool" where
  "fits v \<longleftrightarrow> length v \<le> 65535"

definition plain_name :: "ustr \<Rightarrow> bool" where
  "plain_name s \<longleftrightarrow> wf_ustr s \<and> str_len s \<le> 65535 \<and> s \<noteq> [] \<and> last s \<noteq> 0"

interpretation u16_codec: field_codec "\<lambda>_. True" to_be16 read_u16
proof unfold_locales
  fix x :: u16 and rest
  have "to_be16 x = [to_be16 x ! 0, to_be16 x ! 1]" by (simp add: to_be16_def)
  then show "read_u16 (to_be16 x @ rest) = Inr (x, rest)"
    using from_to_be16 [of x] by (metis append_Cons append_Nil read_u16.simps(1))
qed

interpretation raw_codec: field_codec fits put_raw read_raw
proof unfold_locales
  fix v rest
  assume "fits v"
  then have "unat (of_nat (length v) :: u16) = length v"
    unfolding fits_def unat_of_nat by (intro mod_less) simp
  then show "read_raw (put_raw v @ rest) = Inr (v, rest)"
    by (simp add: put_raw_def read_raw_def u16_codec.get_then slice_get_def)
qed

interpretation name_codec: field_codec plain_name "\<lambda>s. put_raw (as_bytes s)" read_text
proof unfold_locales
  fix s rest
  assume s: "plain_name s"
  then have "trim_end_matches 0 s = s"
    by (cases s rule: rev_cases) (simp_all add: plain_name_def trim_end_by_def)
  with s show "read_text (put_raw (as_bytes s) @ rest) = Inr (s, rest)"
    by (simp add: plain_name_def read_text_def raw_codec.get_then fits_def from_utf8_as_bytes)
qed

lemma write_name_and_value_raw:
  "write_name_and_value name v = put_raw (as_bytes name) @ put_raw v"
  by (simp add: write_name_and_value_def put_raw_def)

lemma write_text_attribute_eq: "write_text_attribute t name v = write_text t name v"
  by (simp add: write_text_attribute_def write_text_def write_name_and_value_def)

section \<open>What the parser reads\<close>

definition value_tag_ok :: "u8 \<Rightarrow> bool" where
  "value_tag_ok t \<longleftrightarrow> t \<noteq> 0x03 \<and> \<not> is_delimiter t"

lemma value_tag_ok_tags [simp]:
  "value_tag_ok TAG_INTEGER" "value_tag_ok TAG_BOOLEAN" "value_tag_ok TAG_ENUM"
  "value_tag_ok TAG_RESOLUTION" "value_tag_ok TAG_RANGE_OF_INTEGER"
  "value_tag_ok TAG_BEG_COLLECTION" "value_tag_ok TAG_END_COLLECTION" "value_tag_ok TAG_TEXT"
  "value_tag_ok TAG_NAME" "value_tag_ok TAG_KEYWORD" "value_tag_ok TAG_URI"
  "value_tag_ok TAG_CHARSET" "value_tag_ok TAG_NATURAL_LANGUAGE"
  "value_tag_ok TAG_MIME_MEDIA_TYPE" "value_tag_ok TAG_MEMBER_ATTR_NAME"
  by (simp_all add: value_tag_ok_def is_delimiter_def)

text \<open>\<open>adds bs attrs\<close>: wherever \<open>bs\<close> stands in a message, the parser goes on after it with the
  attributes \<open>attrs\<close> more.\<close>

definition adds :: "bytes \<Rightarrow> Attribute list \<Rightarrow> bool" where
  "adds bs attrs \<longleftrightarrow> (\<forall>rest acc. parse_loop (bs @ rest) acc = parse_loop rest (acc @ attrs))"

lemma addsD: "adds bs attrs \<Longrightarrow> parse_loop (bs @ rest) acc = parse_loop rest (acc @ attrs)"
  by (simp add: adds_def)

lemma adds_Nil: "adds [] []"
  by (simp add: adds_def)

lemma adds_append: "adds a xs \<Longrightarrow> adds b ys \<Longrightarrow> adds (a @ b) (xs @ ys)"
  by (simp add: adds_def)

lemma adds_delimiter: "is_delimiter t \<Longrightarrow> t \<noteq> 0x03 \<Longrightarrow> adds [t] []"
  by (simp add: adds_def)

lemma adds_Cons_delimiter:
  "is_delimiter t \<Longrightarrow> t \<noteq> 0x03 \<Longrightarrow> adds b ys \<Longrightarrow> adds (t # b) ys"
  using adds_append [OF adds_delimiter] by fastforce

definition single :: "u8 \<Rightarrow> ustr \<Rightarrow> bytes \<Rightarrow> Attribute" where
  "single t name v = \<lparr>attr_name = name, attr_tag = t, attr_values = [v], attr_value_tags = [t]\<rparr>"

lemma adds_attribute:
  assumes "value_tag_ok t" "plain_name name" "fits v"
  shows "adds (t # write_name_and_value name v) [single t name v]"
  using assms
  by (auto simp: adds_def value_tag_ok_def write_name_and_value_raw single_def plain_name_def
      name_codec.get_then [OF assms(2)] raw_codec.get_then)

lemma adds_text:
  "value_tag_ok t \<Longrightarrow> plain_name name \<Longrightarrow> str_len v \<le> 65535
    \<Longrightarrow> adds (write_text t name v) [single t name (as_bytes v)]"
  unfolding write_text_def by (rule adds_attribute) (simp_all add: fits_def)

lemma length_i32_bytes [simp]: "length (i32_bytes v) = 4"
  by (simp add: i32_bytes_def)

lemma adds_integer:
  "plain_name name \<Longrightarrow> adds (write_integer name v) [single TAG_INTEGER name (i32_bytes v)]"
  unfolding write_integer_def by (rule adds_attribute) (simp_all add: fits_def)

lemma adds_integers:
  "value_tag_ok t \<Longrightarrow> plain_name name
    \<Longrightarrow> adds (write_integers t name [v]) [single t name (i32_bytes v)]"
  using adds_attribute [of t name "i32_bytes v"] by (simp add: write_integers_def fits_def)

lemma i32_from_i32_bytes:
  assumes "-2147483648 \<le> v" "v \<le> 2147483647"
  shows "i32_from_bytes (i32_bytes v) = Some v"
proof -
  let ?w = "of_int v :: u32"
  have b: "to_be32 ?w = [to_be32 ?w ! 0, to_be32 ?w ! 1, to_be32 ?w ! 2, to_be32 ?w ! 3]"
    by (simp add: to_be32_def)
  have "sint ?w = v" using assms by (simp add: signed_of_int signed_take_bit_int_eq_self)
  then show ?thesis
    unfolding i32_bytes_def by (subst b) (simp only: i32_from_bytes.simps from_to_be32)
qed

section \<open>What the client's query loop reads\<close>

text \<open>\<open>skips bs\<close>: the loop of \<open>parse_printers\<close> passes over \<open>bs\<close> without a change.\<close>

definition skips :: "bytes \<Rightarrow> bool" where
  "skips bs \<longleftrightarrow> (\<forall>rest b names. printer_loop (bs @ rest) b names = printer_loop rest b names)"

lemma skipsD: "skips a \<Longrightarrow> printer_loop (a @ rest) b names = printer_loop rest b names"
  by (simp add: skips_def)

lemma skips_Nil [simp]: "skips []"
  by (simp add: skips_def)

lemma skips_append [intro]: "skips a \<Longrightarrow> skips b \<Longrightarrow> skips (a @ b)"
  by (simp add: skips_def)

lemma skips_concat: "(\<And>x. x \<in> set xs \<Longrightarrow> skips (f x)) \<Longrightarrow> skips (concat (map f xs))"
  by (induction xs) auto

definition other_name :: "ustr \<Rightarrow> bool" where
  "other_name s \<longleftrightarrow> wf_ustr s \<and> str_len s \<le> 65535 \<and> s \<noteq> lit ''printer-name''"

lemma skips_attribute:
  assumes "value_tag_ok t" "other_name name" "fits v"
  shows "skips (t # write_name_and_value name v)"
  using assms
  by (auto simp: skips_def value_tag_ok_def write_name_and_value_raw other_name_def fits_def
      raw_codec.get_put from_utf8_as_bytes)

lemma skips_set:
  "value_tag_ok t \<Longrightarrow> other_name name \<Longrightarrow> list_all fits vs \<Longrightarrow> skips (write_set t name vs)"
proof (induction vs arbitrary: name)
  case (Cons v vs)
  have "skips (write_set t [] vs)" using Cons by (simp add: other_name_def)
  with skips_attribute [of t name v] Cons.prems show ?case
    using skips_append [of "t # write_name_and_value name v"] by simp
qed simp

lemma skips_text:
  "value_tag_ok t \<Longrightarrow> other_name name \<Longrightarrow> str_len v \<le> 65535 \<Longrightarrow> skips (write_text t name v)"
  unfolding write_text_def by (rule skips_attribute) (simp_all add: fits_def)

lemma skips_texts:
  "value_tag_ok t \<Longrightarrow> other_name name \<Longrightarrow> \<forall>v \<in> set vs. str_len v \<le> 65535
    \<Longrightarrow> skips (write_texts t name vs)"
  unfolding write_texts_def by (rule skips_set) (simp_all add: fits_def list_all_iff)

lemma skips_integers:
  "value_tag_ok t \<Longrightarrow> other_name name \<Longrightarrow> skips (write_integers t name vs)"
  unfolding write_integers_def by (rule skips_set) (simp_all add: fits_def list_all_iff)

lemma skips_integer: "other_name name \<Longrightarrow> skips (write_integer name v)"
  unfolding write_integer_def by (rule skips_attribute) (simp_all add: fits_def)

lemma skips_boolean: "other_name name \<Longrightarrow> skips (write_boolean name v)"
  unfolding write_boolean_def by (rule skips_attribute) (simp_all add: fits_def)

lemma skips_range: "other_name name \<Longrightarrow> skips (write_range_of_integers name l u)"
  unfolding write_range_of_integers_def by (rule skips_attribute) (simp_all add: fits_def)

lemma skips_resolution: "other_name name \<Longrightarrow> skips (write_resolution name x y u)"
  unfolding write_resolution_def by (rule skips_attribute) (simp_all add: fits_def)

end
