(* ===== verification/Ipp_Listing.thy ===== *)
theory Ipp_Listing
  imports Ipp_Codec
begin

text \<open>
  Printer and job responses read back. The server's printer response goes through
  the client's \<open>parse_printers\<close> and yields the shared names; a job response goes through
  \<open>Request::parse\<close> and yields the job's attributes, which is how the proxy learns a job id.
\<close>

section \<open>Everything the client skips\<close>

lemma other_name_ascii:
  "list_all (\<lambda>c. 0 < c \<and> c < 128) s \<Longrightarrow> length s \<le> 60 \<Longrightarrow> s \<noteq> lit ''printer-name'' \<Longrightarrow> other_name s"
  by (auto simp: other_name_def str_len_ascii list_all_iff is_scalar_def)

lemma other_name_Nil: "other_name []"
  by (simp add: other_name_def)

lemma str_len_short: "list_all (\<lambda>c. 0 < c \<and> c < 128) s \<Longrightarrow> length s \<le> 60 \<Longrightarrow> str_len s \<le> 65535"
  by (subst str_len_ascii) (auto simp: list_all_iff)

lemmas skips_writers = skips_text skips_texts skips_integers skips_integer skips_boolean
  skips_range skips_resolution

lemma skips_Cons_delimited:
  assumes "skips (t # a)" "skips b" shows "skips (t # a @ b)"
  using skips_append [OF assms] by simp

lemma skips_begin: "other_name name \<Longrightarrow> skips b
    \<Longrightarrow> skips (TAG_BEG_COLLECTION # write_name_and_value name [] @ b)"
  using skips_attribute [of TAG_BEG_COLLECTION name "[]"]
  by (intro skips_Cons_delimited) (simp_all add: fits_def)

lemma skips_end: "skips (TAG_END_COLLECTION # write_name_and_value [] [])"
  using skips_attribute [of TAG_END_COLLECTION "[]" "[]"] by (simp add: fits_def other_name_Nil)

lemma skips_media_size: "other_name name \<Longrightarrow> skips (write_media_size name spec)"
  unfolding write_media_size_def
  by (intro skips_begin skips_append skips_concat skips_end)
    (auto intro!: skips_append skips_writers simp: other_name_Nil as_bytes_def utf8_char_def)

lemma skips_media_collection:
  assumes "other_name name" "spec \<in> set MEDIA_CATALOG"
  shows "skips (write_media_collection name spec margin)"
proof -
  have "str_len (keyword spec) \<le> 65535"
    using catalog_keywords_length [OF assms(2)] by (intro str_len_short) auto
  then show ?thesis
    unfolding write_media_collection_def
    by (intro skips_begin skips_append skips_concat skips_end assms skips_media_size)
      (auto intro!: skips_append skips_writers simp: other_name_Nil as_bytes_def utf8_char_def)
qed

lemma skips_media_rows:
  "\<forall>r \<in> set rows. fst r \<in> set MEDIA_CATALOG \<Longrightarrow> skips (write_media_rows first rows)"
  by (induction first rows rule: write_media_rows.induct)
    (auto intro!: skips_append skips_media_collection simp: other_name_Nil other_name_ascii)

lemma skips_media_size_rows: "skips (write_media_size_rows first specs)"
  by (induction first specs rule: write_media_size_rows.induct)
    (auto intro!: skips_append skips_media_size simp: other_name_Nil other_name_ascii)

lemma skips_printer_media: "skips (write_printer_media legacy)"
proof -
  have kw: "\<forall>v \<in> set (map keyword MEDIA_CATALOG). str_len v \<le> 65535"
    using catalog_keywords_length by (fastforce intro: str_len_short)
  have first: "MEDIA_CATALOG ! 0 \<in> set MEDIA_CATALOG" by (simp add: MEDIA_CATALOG_def)
  have database: "skips (write_media_col_database MEDIA_CATALOG)"
    "skips (write_media_col_database_zero_margin MEDIA_CATALOG)"
    "skips (write_media_size_supported MEDIA_CATALOG)"
    unfolding write_media_col_database_def write_media_col_database_zero_margin_def
      write_media_size_supported_def
    by (auto intro!: skips_media_rows skips_media_size_rows)
  have default: "skips (if legacy
       then write_media_collection (lit ''media-col-default'') (MEDIA_CATALOG ! 0)
              BORDERLESS_MARGIN_HUNDREDTHS_MM
       else write_media_col_default (MEDIA_CATALOG ! 0))"
    using skips_media_collection [OF _ first] by (simp add: write_media_col_default_def other_name_ascii)
  show ?thesis
    unfolding write_printer_media_def Let_def
    using database default
    by (intro skips_append skips_writers kw) (simp_all add: other_name_ascii str_len_short)
qed

lemma skips_printer_defaults: "skips write_printer_defaults"
  unfolding write_printer_defaults_def
  by (intro skips_append skips_writers) (simp_all add: other_name_ascii str_len_short)

lemma skips_printer_state: "str_len (entry_uri p) \<le> 65535 \<Longrightarrow> skips (write_printer_state uptime p)"
  unfolding write_printer_state_def
  by (intro skips_append skips_writers) (simp_all add: other_name_ascii str_len_short)

lemma printer_uuid_short: "str_len (printer_uuid sha256 name) \<le> 65535"
proof -
  have h: "list_all (\<lambda>c. 0 < c \<and> c < 128) (hex_lower b)" for b
    using unat_u8_less [of b] by (auto simp: hex_lower_def hex_digit_lower_def)
  show ?thesis
    by (intro str_len_short) (simp_all add: printer_uuid_def Let_def h)
qed

section \<open>The printer response\<close>

definition entry_ok :: "PrinterEntry \<Rightarrow> bool" where
  "entry_ok p \<longleftrightarrow> wf_ustr (entry_name p) \<and> entry_name p \<noteq> []
     \<and> str_len (entry_name p) \<le> 65535 \<and> str_len (entry_uri p) \<le> 65535"

fun add_name :: "ustr list \<Rightarrow> ustr list \<Rightarrow> ustr list" where
  "add_name names [] = names"
| "add_name names (s # ss) = add_name (if s \<in> set names then names else names @ [s]) ss"

lemma add_name_eq: "distinct names \<Longrightarrow>
   distinct (add_name names ss) \<and> set (add_name names ss) = set names \<union> set ss"
  by (induction names ss rule: add_name.induct) auto

lemma add_name_distinct: "distinct (names @ ss) \<Longrightarrow> add_name names ss = names @ ss"
  by (induction names ss rule: add_name.induct) auto

lemma printer_loop_name:
  assumes "wf_ustr s" "s \<noteq> []" "str_len s \<le> 65535"
  shows "printer_loop (write_text TAG_NAME (lit ''printer-name'') s @ rest) True names
    = printer_loop rest True (add_name names [s])"
proof -
  have n: "from_utf8 (as_bytes (lit ''printer-name'')) = Some (lit ''printer-name'')"
    "fits (as_bytes (lit ''printer-name''))"
    by (rule from_utf8_as_bytes, simp add: is_scalar_def)
      (simp add: fits_def as_bytes_def utf8_char_def)
  have s: "fits (as_bytes s)" using assms(3) by (simp add: fits_def)
  have "TAG_NAME \<noteq> 0x03" "\<not> is_delimiter TAG_NAME" by (simp_all add: is_delimiter_def)
  then show ?thesis
    unfolding write_text_def write_name_and_value_raw append_Cons append_assoc printer_loop.simps
      raw_codec.get_put [OF n(2)] raw_codec.get_put [OF s] map_err_simps and_then.simps prod.case n(1)
      ok_or_simps from_utf8_as_bytes [OF assms(1)]
    using assms(2) by simp
qed

lemma printer_loop_printer:
  assumes "entry_ok p"
  shows "printer_loop (write_printer sha256 uptime legacy p @ rest) b names
    = printer_loop rest True (add_name names [entry_name p])"
proof -
  have p: "wf_ustr (entry_name p)" "entry_name p \<noteq> []" "str_len (entry_name p) \<le> 65535"
    "str_len (entry_uri p) \<le> 65535" using assms by (simp_all add: entry_ok_def)
  have s: "skips (write_text TAG_URI (lit ''printer-uri-supported'') (entry_uri p))"
    "skips (write_text TAG_URI (lit ''printer-uuid'') (printer_uuid sha256 (entry_name p)))"
    "skips (write_text TAG_TEXT (lit ''printer-make-and-model'') (entry_name p))"
    "skips (write_text TAG_TEXT (lit ''printer-info'') (entry_name p))"
    by (intro skips_text; simp add: other_name_ascii p printer_uuid_short)+
  note skip = s skips_printer_media [of legacy] skips_printer_defaults
    skips_printer_state [OF p(4), of uptime]
  have tags: "TAG_PRINTER_ATTRIBUTES = 0x03 \<longleftrightarrow> False" "is_delimiter TAG_PRINTER_ATTRIBUTES \<longleftrightarrow> True"
    by (simp_all add: is_delimiter_def)
  show ?thesis
    unfolding write_printer_def write_printer_identity_def append_assoc append_Cons
      printer_loop.simps tags if_False if_True simp_thms skip [THEN skipsD]
      printer_loop_name [OF p(1-3)] ..
qed

lemma printer_loop_printers:
  "\<forall>p \<in> set printers. entry_ok p \<Longrightarrow>
    printer_loop (concat (map (write_printer sha256 uptime legacy) printers) @ [TAG_END_OF_ATTRIBUTES])
      b names
    = Inr (add_name names (map entry_name printers))"
  by (induction printers arbitrary: b names) (simp_all add: printer_loop_printer)

lemma response_start_split:
  "\<exists>head. response_start rid ver status = head @ TAG_OPERATION_ATTRIBUTES
       # write_text TAG_CHARSET (lit ''attributes-charset'') (lit ''utf-8'')
       @ write_text TAG_NATURAL_LANGUAGE (lit ''attributes-natural-language'') (lit ''en'')
     \<and> length head = 8 \<and> from_be16 (head ! 2) (head ! 3) = status_code status
     \<and> (head ! 0, head ! 1) = ver
     \<and> from_be32 (head ! 4) (head ! 5) (head ! 6) (head ! 7) = rid"
proof (intro exI conjI)
  let ?head = "[fst ver, snd ver] @ to_be16 (status_code status) @ to_be32 rid"
  show "length ?head = 8" "(?head ! 0, ?head ! 1) = ver" by simp_all
  show "from_be16 (?head ! 2) (?head ! 3) = status_code status"
    using from_to_be16 [of "status_code status"] by (simp add: nth_append)
  show "from_be32 (?head ! 4) (?head ! 5) (?head ! 6) (?head ! 7) = rid"
    using from_to_be32 [of rid] by (simp add: nth_append)
qed (simp add: response_start_def)

text \<open>C38: the printers a client lists are the printers the server shares. For every successful
  printer response of the server, in the current or the legacy margin form, with non-empty names
  that fit their length fields, \<open>parse_printers\<close> succeeds and returns every advertised name exactly
  once, in the advertised order when the names differ; a response with any other status is an
  error of code \<open>InvalidState\<close>.\<close>

theorem shared_printers_listed:
  assumes "\<forall>p \<in> set printers. entry_ok p"
  shows "(status = Ok \<longrightarrow> (\<exists>names.
        parse_printers (build_response sha256 uptime rid ver status printers legacy) = Inr names
        \<and> distinct names \<and> set names = entry_name ` set printers
        \<and> (distinct (map entry_name printers) \<longrightarrow> names = map entry_name printers)))
    \<and> (status \<noteq> Ok \<longrightarrow> (\<exists>e.
        parse_printers (build_response sha256 uptime rid ver status printers legacy) = Inl e
        \<and> err_code e = InvalidState))"
proof -
  let ?msg = "build_response sha256 uptime rid ver status printers legacy"
  let ?groups = "concat (map (write_printer sha256 uptime legacy) printers) @ [TAG_END_OF_ATTRIBUTES]"
  let ?charset = "write_text TAG_CHARSET (lit ''attributes-charset'') (lit ''utf-8'')"
  let ?lang = "write_text TAG_NATURAL_LANGUAGE (lit ''attributes-natural-language'') (lit ''en'')"
  obtain head where msg: "?msg = head @ TAG_OPERATION_ATTRIBUTES # ?charset @ ?lang @ ?groups"
    and head: "length head = 8" "from_be16 (head ! 2) (head ! 3) = status_code status"
    using response_start_split [of rid ver status] unfolding build_response_def by fastforce
  have st: "from_be16 (?msg ! 2) (?msg ! 3) = status_code status" "\<not> length ?msg < 9"
    using head unfolding msg by (simp_all add: nth_append)
  have skip: "skips ?charset" "skips ?lang"
    by (intro skips_text; simp add: other_name_ascii str_len_short)+
  have tags: "TAG_OPERATION_ATTRIBUTES = 0x03 \<longleftrightarrow> False" "is_delimiter TAG_OPERATION_ATTRIBUTES \<longleftrightarrow> True"
    by (simp_all add: is_delimiter_def)
  have "drop 8 ?msg = TAG_OPERATION_ATTRIBUTES # ?charset @ ?lang @ ?groups"
    using head(1) unfolding msg by simp
  then have loop: "printer_loop (drop 8 ?msg) False [] = Inr (add_name [] (map entry_name printers))"
    by (simp only: printer_loop.simps tags if_False if_True skip [THEN skipsD]
        printer_loop_printers [OF assms])
  show ?thesis
  proof (cases "status = Ok")
    case True
    then have "parse_printers ?msg = Inr (add_name [] (map entry_name printers))"
      using st loop by (simp add: parse_printers_def)
    then show ?thesis
      using True add_name_eq [of "[]" "map entry_name printers"]
        add_name_distinct [of "[]" "map entry_name printers"] by simp
  next
    case False
    then have "status_code status \<noteq> 0" using status_code_inject [of status Ok] by simp
    then show ?thesis using False st by (simp add: parse_printers_def invalid_state_def app_error_def)
  qed
qed

section \<open>Job responses\<close>

lemma plain_name_ascii:
  assumes "list_all (\<lambda>c. 0 < c \<and> c < 128) s" "length s \<le> 60" "s \<noteq> []"
  shows "plain_name s"
proof -
  have "last s \<noteq> 0" using assms by (auto simp: list_all_iff dest!: last_in_set)
  with assms show ?thesis
    by (auto simp: plain_name_def str_len_ascii list_all_iff is_scalar_def)
qed

lemma adds_response_start:
  "\<exists>head. response_start rid ver status = head @ drop 8 (response_start rid ver status)
     \<and> length head = 8 \<and> from_be16 (head ! 2) (head ! 3) = status_code status
     \<and> (head ! 0, head ! 1) = ver
     \<and> from_be32 (head ! 4) (head ! 5) (head ! 6) (head ! 7) = rid
     \<and> adds (drop 8 (response_start rid ver status))
         [single TAG_CHARSET (lit ''attributes-charset'') (ascii ''utf-8''),
          single TAG_NATURAL_LANGUAGE (lit ''attributes-natural-language'') (ascii ''en'')]"
proof -
  have "adds (write_text TAG_CHARSET (lit ''attributes-charset'') (lit ''utf-8''))
      [single TAG_CHARSET (lit ''attributes-charset'') (as_bytes (lit ''utf-8''))]"
    "adds (write_text TAG_NATURAL_LANGUAGE (lit ''attributes-natural-language'') (lit ''en''))
      [single TAG_NATURAL_LANGUAGE (lit ''attributes-natural-language'') (as_bytes (lit ''en''))]"
    by (intro adds_text; simp add: plain_name_ascii str_len_short)+
  note a = adds_append [OF this]
  have "adds (TAG_OPERATION_ATTRIBUTES # write_text TAG_CHARSET (lit ''attributes-charset'') (lit ''utf-8'')
      @ write_text TAG_NATURAL_LANGUAGE (lit ''attributes-natural-language'') (lit ''en''))
    [single TAG_CHARSET (lit ''attributes-charset'') (ascii ''utf-8''),
     single TAG_NATURAL_LANGUAGE (lit ''attributes-natural-language'') (ascii ''en'')]"
    using a by (intro adds_Cons_delimiter)
      (simp_all add: is_delimiter_def as_bytes_def utf8_char_def)
  moreover obtain head where "response_start rid ver status = head @ TAG_OPERATION_ATTRIBUTES
       # write_text TAG_CHARSET (lit ''attributes-charset'') (lit ''utf-8'')
       @ write_text TAG_NATURAL_LANGUAGE (lit ''attributes-natural-language'') (lit ''en'')"
    "length head = 8 \<and> from_be16 (head ! 2) (head ! 3) = status_code status
     \<and> (head ! 0, head ! 1) = ver
     \<and> from_be32 (head ! 4) (head ! 5) (head ! 6) (head ! 7) = rid"
    using response_start_split by blast
  ultimately show ?thesis by (intro exI [of _ head]) simp
qed

lemma parse_response:
  assumes "adds body attrs"
  shows "\<exists>r. Request_parse (response_start rid ver status @ body @ [TAG_END_OF_ATTRIBUTES]) = Inr r
    \<and> version r = ver \<and> operation r = status_code status \<and> request_id r = rid \<and> document r = []
    \<and> attributes r = [single TAG_CHARSET (lit ''attributes-charset'') (ascii ''utf-8''),
        single TAG_NATURAL_LANGUAGE (lit ''attributes-natural-language'') (ascii ''en'')] @ attrs"
proof -
  obtain head where h: "response_start rid ver status = head @ drop 8 (response_start rid ver status)"
    "length head = 8" "from_be16 (head ! 2) (head ! 3) = status_code status"
    "(head ! 0, head ! 1) = ver" "from_be32 (head ! 4) (head ! 5) (head ! 6) (head ! 7) = rid"
    and a: "adds (drop 8 (response_start rid ver status))
         [single TAG_CHARSET (lit ''attributes-charset'') (ascii ''utf-8''),
          single TAG_NATURAL_LANGUAGE (lit ''attributes-natural-language'') (ascii ''en'')]"
    using adds_response_start by blast
  let ?rest = "drop 8 (response_start rid ver status) @ body @ [TAG_END_OF_ATTRIBUTES]"
  have m: "response_start rid ver status @ body @ [TAG_END_OF_ATTRIBUTES] = head @ ?rest"
    using h(1) by (metis append_assoc)
  have "parse_loop ?rest [] = Inr ([single TAG_CHARSET (lit ''attributes-charset'') (ascii ''utf-8''),
          single TAG_NATURAL_LANGUAGE (lit ''attributes-natural-language'') (ascii ''en'')] @ attrs, [])"
    by (simp only: addsD [OF a] addsD [OF assms] parse_loop.simps append_Nil simp_thms if_True)
  then show ?thesis
    unfolding m Request_parse_def using h(2-5) by (simp add: nth_append)
qed

definition job_ok :: "JobEntry \<Rightarrow> bool" where
  "job_ok job \<longleftrightarrow> -2147483648 \<le> job_id job \<and> job_id job \<le> 2147483647
     \<and> -2147483648 \<le> job_state job \<and> job_state job \<le> 2147483647
     \<and> plain_name (job_uri job) \<and> plain_name (job_name job) \<and> str_len (job_printer_uri job) \<le> 65535"

definition opt :: "bool \<Rightarrow> 'a \<Rightarrow> 'a list" where
  "opt b x = (if b then [x] else [])"

lemma find_opt: "List.find P (opt b x @ ys) = (if b \<and> P x then Some x else List.find P ys)"
  by (simp add: opt_def)

lemma adds_opt: "adds bs [x] \<Longrightarrow> adds (if b then bs else []) (opt b x)"
  by (simp add: opt_def adds_Nil)

definition job_attribute_list :: "JobEntry \<Rightarrow> ustr list \<Rightarrow> Attribute list" where
  "job_attribute_list job q =
     opt (requested_attribute q (lit ''job-uri''))
       (single TAG_URI (lit ''job-uri'') (as_bytes (job_uri job)))
     @ opt (requested_attribute q (lit ''job-id''))
       (single TAG_INTEGER (lit ''job-id'') (i32_bytes (job_id job)))
     @ opt (requested_attribute q (lit ''job-printer-uri''))
       (single TAG_URI (lit ''job-printer-uri'') (as_bytes (job_printer_uri job)))
     @ opt (requested_attribute q (lit ''job-name''))
       (single TAG_NAME (lit ''job-name'') (as_bytes (job_name job)))
     @ opt (requested_attribute q (lit ''job-state''))
       (single TAG_ENUM (lit ''job-state'') (i32_bytes (job_state job)))
     @ opt (requested_attribute q (lit ''job-state-reasons''))
       (single TAG_KEYWORD (lit ''job-state-reasons'') (as_bytes (job_state_reason (job_state job))))
     @ opt (requested_attribute q (lit ''number-of-documents''))
       (single TAG_INTEGER (lit ''number-of-documents'') (i32_bytes (document_count job)))"

lemma adds_job_attributes:
  assumes "job_ok job"
  shows "adds (write_job_attributes job q) (job_attribute_list job q)"
proof -
  have "str_len (job_state_reason n) \<le> 65535" for n
    by (intro str_len_short) (simp_all add: job_state_reason_def)
  with assms show ?thesis
    unfolding write_job_attributes_def Let_def job_attribute_list_def
    by (intro adds_Cons_delimiter adds_append adds_opt adds_text adds_integer adds_integers)
      (simp_all add: job_ok_def plain_name_def [of "job_uri job"] plain_name_def [of "job_name job"]
        plain_name_ascii is_delimiter_def)
qed

text \<open>C39: a job response answers what was asked for. \<open>Request::parse\<close> accepts the response to
  Get-Job-Attributes (Create-Job, Send-Document and Cancel-Job send it with nothing requested, that
  is, with everything), finds the success status and the request's id and version, and reads the
  job's id, state and URI exactly when they were requested.\<close>

theorem job_attributes_read:
  assumes "job_ok job"
  shows "\<exists>r. Request_parse (job_attributes_response rid ver job requested) = Inr r
    \<and> operation r = 0 \<and> request_id r = rid \<and> version r = ver
    \<and> integer r (lit ''job-id'')
        = (if requested_attribute requested (lit ''job-id'') then Some (job_id job) else None)
    \<and> integer r (lit ''job-state'')
        = (if requested_attribute requested (lit ''job-state'') then Some (job_state job) else None)
    \<and> value_text r (lit ''job-uri'')
        = (if requested_attribute requested (lit ''job-uri'') then Some (job_uri job) else None)
    \<and> job_attributes_response rid ver job [] = managed_job_response rid ver job"
proof -
  obtain r where r: "Request_parse (job_attributes_response rid ver job requested) = Inr r"
    "version r = ver" "operation r = status_code Ok" "request_id r = rid"
    "attributes r = [single TAG_CHARSET (lit ''attributes-charset'') (ascii ''utf-8''),
        single TAG_NATURAL_LANGUAGE (lit ''attributes-natural-language'') (ascii ''en'')]
        @ job_attribute_list job requested"
    using parse_response [OF adds_job_attributes [OF assms]] unfolding job_attributes_response_def
    by blast
  have i: "i32_from_bytes (i32_bytes (job_id job)) = Some (job_id job)"
    "i32_from_bytes (i32_bytes (job_state job)) = Some (job_state job)"
    using assms by (simp_all add: job_ok_def i32_from_i32_bytes)
  have u: "from_utf8 (as_bytes (job_uri job)) = Some (job_uri job)"
    "trim_end_matches 0 (job_uri job) = job_uri job"
    using assms by (auto simp: job_ok_def plain_name_def from_utf8_as_bytes intro: trim_end_by_id)
  note find = r(5) job_attribute_list_def single_def find_opt opt_def
  have "integer r (lit ''job-id'')
        = (if requested_attribute requested (lit ''job-id'') then Some (job_id job) else None)"
    "integer r (lit ''job-state'')
        = (if requested_attribute requested (lit ''job-state'') then Some (job_state job) else None)"
    "value_text r (lit ''job-uri'')
        = (if requested_attribute requested (lit ''job-uri'') then Some (job_uri job) else None)"
    by (simp_all add: integer_def value_text_def attribute_def attribute_text_def find i u is_text_def)
  then show ?thesis
    using r by (simp add: job_attributes_response_def managed_job_response_def)
qed

end
