(* ===== verification/Ipp_Forwarding.thy ===== *)
theory Ipp_Forwarding
  imports Ipp_Codec
begin

text \<open>
  What the proxy changes in a message, and what it leaves alone. A message body is seen as its
  items (group delimiters and raw fields) and the document after the end tag; the two rewriting
  loops are shown to work item by item, and their guarantees are read off the items.
\<close>

section \<open>Items\<close>

datatype ipp_item = Delim u8 | Field u8 bytes bytes

fun item_ok :: "ipp_item \<Rightarrow> bool" where
  "item_ok (Delim t) = (is_delimiter t \<and> t \<noteq> 0x03)"
| "item_ok (Field t n v) = (value_tag_ok t \<and> fits n \<and> fits v)"

fun item_bytes :: "ipp_item \<Rightarrow> bytes" where
  "item_bytes (Delim t) = [t]"
| "item_bytes (Field t n v) = t # put_raw n @ put_raw v"

definition items_bytes :: "ipp_item list \<Rightarrow> bytes" where
  "items_bytes its = concat (map item_bytes its)"

lemma items_bytes_simps [simp]:
  "items_bytes [] = []" "items_bytes (i # its) = item_bytes i @ items_bytes its"
  "items_bytes (xs @ ys) = items_bytes xs @ items_bytes ys"
  by (simp_all add: items_bytes_def)

lemma read_raw_Inr: "read_raw r = Inr (v, r') \<Longrightarrow> r = put_raw v @ r' \<and> fits v"
proof -
  assume a: "read_raw r = Inr (v, r')"
  then obtain n s where n: "read_u16 r = Inr (n, s)" "unat n \<le> length s"
    "v = take (unat n) s" "r' = drop (unat n) s"
    by (auto simp: read_raw_def result_simps slice_get_Some_iff)
  from n(1) have r: "r = to_be16 n @ s"
    by (cases r rule: read_u16.cases) (auto simp: to_from_be16)
  have "length v = unat n" using n(2,3) by simp
  then have "of_nat (length v) = n" "length v \<le> 65535"
    using unat_u16_less [of n] by (auto simp: word_unat_eq_iff)
  with r n(3,4) show ?thesis by (simp add: put_raw_def fits_def)
qed

lemma consumed_fields: "consumed (put_raw n @ put_raw v @ r) r = put_raw n @ put_raw v"
  by (simp add: consumed_def)

section \<open>Labels\<close>

text \<open>The attribute a field belongs to: its own name, or the name before it in the group.\<close>

fun labelled :: "bytes \<Rightarrow> ipp_item list \<Rightarrow> (bytes \<times> ipp_item) list" where
  "labelled cur [] = []"
| "labelled cur (Delim t # its) = ([], Delim t) # labelled [] its"
| "labelled cur (Field t n v # its) =
     (let cur = (if n \<noteq> [] then n else cur) in (cur, Field t n v) # labelled cur its)"

fun item_value :: "ipp_item \<Rightarrow> bytes" where
  "item_value (Delim t) = []"
| "item_value (Field t n v) = v"

definition PU :: bytes where "PU = ascii ''printer-uri''"
definition NC :: bytes where "NC = ascii ''network-channel''"

lemma PU_NC [simp]: "PU \<noteq> NC" "NC \<noteq> PU" "PU \<noteq> []" "NC \<noteq> []" "[] \<noteq> PU" "[] \<noteq> NC"
  by (simp_all add: PU_def NC_def)

lemma fits_PU_NC [simp]: "fits PU" "fits NC"
  by (simp_all add: PU_def NC_def fits_def)

definition values_named :: "bytes \<Rightarrow> ipp_item list \<Rightarrow> bytes list" where
  "values_named nm its = map (item_value \<circ> snd) (filter (\<lambda>p. fst p = nm) (labelled [] its))"

definition other_items :: "ipp_item list \<Rightarrow> (bytes \<times> ipp_item) list" where
  "other_items its = filter (\<lambda>p. fst p \<noteq> PU \<and> fst p \<noteq> NC) (labelled [] its)"

section \<open>The request loop\<close>

definition channel_items :: "ustr option \<Rightarrow> ipp_item list" where
  "channel_items channel = (case channel of None \<Rightarrow> [] | Some c \<Rightarrow> [Field 0x41 NC (as_bytes c)])"

fun proxy_items ::
  "ustr \<Rightarrow> ustr option \<Rightarrow> bytes \<Rightarrow> bool \<Rightarrow> bool \<Rightarrow> ipp_item list \<Rightarrow> ipp_item list option" where
  "proxy_items uri ch cur rp rc [] =
     Some ((if rp then [] else [Field 0x45 PU (as_bytes uri)])
           @ (if rc then [] else channel_items ch))"
| "proxy_items uri ch cur rp rc (Delim t # its) =
     map_option (Cons (Delim t)) (proxy_items uri ch [] rp rc its)"
| "proxy_items uri ch cur rp rc (Field t n v # its) =
     (let cur = (if n \<noteq> [] then n else cur) in
      if cur = PU then
        (if n = [] then proxy_items uri ch cur rp rc its
         else if rp then None
         else map_option (Cons (Field t n (as_bytes uri))) (proxy_items uri ch cur True rc its))
      else if cur = NC then
        (if n = [] then proxy_items uri ch cur rp rc its
         else if rc then None
         else map_option (append (channel_items ch)) (proxy_items uri ch cur rp True its))
      else map_option (Cons (Field t n v)) (proxy_items uri ch cur rp rc its))"

lemma proxy_loop_shape:
  "proxy_loop uri ch rest cur rp rc out = Inr out' \<Longrightarrow>
    \<exists>its doc. list_all item_ok its \<and> rest = items_bytes its @ 0x03 # doc"
proof (induction uri ch rest cur rp rc out arbitrary: out' rule: proxy_loop.induct)
  case (2 uri ch t rest cur rp rc out)
  consider "t = 0x03" | "t \<noteq> 0x03" "is_delimiter t" | "t \<noteq> 0x03" "\<not> is_delimiter t" by blast
  then show ?case
  proof cases
    case 1
    then show ?thesis by (intro exI [of _ "[]"] exI [of _ rest]) simp
  next
    case 2
    with "2.prems" "2.IH"(1) obtain its doc
      where "list_all item_ok its" "rest = items_bytes its @ 0x03 # doc" by auto
    with 2 show ?thesis by (intro exI [of _ "Delim t # its"] exI [of _ doc]) simp
  next
    case 3
    with "2.prems" obtain n r1 v r2 where r: "read_raw rest = Inr (n, r1)" "read_raw r1 = Inr (v, r2)"
      by (auto simp: result_simps Let_def)
    have "\<exists>its doc. list_all item_ok its \<and> r2 = items_bytes its @ 0x03 # doc"
      using "2.prems" 3 r "2.IH"(2-6) by (auto simp: Let_def split: if_splits)
    then obtain its doc where "list_all item_ok its" "r2 = items_bytes its @ 0x03 # doc" by blast
    with 3 r [THEN read_raw_Inr] show ?thesis
      by (intro exI [of _ "Field t n v # its"] exI [of _ doc]) (simp add: value_tag_ok_def)
  qed
qed simp

lemma channel_attribute_items: 
  "channel_attribute ch = items_bytes (channel_items ch)"
  by (cases ch) (simp_all add: channel_attribute_def channel_items_def write_text_attribute_def
      put_raw_def as_bytes_def utf8_char_def PU_def NC_def)

lemma printer_attribute_items:
  "write_text_attribute 0x45 (lit ''printer-uri'') uri = item_bytes (Field 0x45 PU (as_bytes uri))"
  by (simp add: write_text_attribute_def put_raw_def as_bytes_def utf8_char_def PU_def NC_def)

lemma proxy_loop_items:
  "list_all item_ok its \<Longrightarrow>
    proxy_loop uri ch (items_bytes its @ 0x03 # doc) cur rp rc out =
      (case proxy_items uri ch cur rp rc its of
         None \<Rightarrow> Inl NotText
       | Some its' \<Rightarrow> Inr (out @ items_bytes its' @ 0x03 # doc))"
proof (induction its arbitrary: cur rp rc out)
  case Nil
  then show ?case
    using channel_attribute_items printer_attribute_items [of uri] by simp
next
  case (Cons i its)
  show ?case
  proof (cases i)
    case (Delim t)
    with Cons show ?thesis by (auto split: option.splits)
  next
    case (Field t n v)
    with Cons.prems have ok: "t = 0x03 \<longleftrightarrow> False" "is_delimiter t \<longleftrightarrow> False" "fits n" "fits v"
      and its: "list_all item_ok its"
      by (auto simp: value_tag_ok_def)
    have split: "items_bytes (i # its) @ 0x03 # doc
      = t # put_raw n @ put_raw v @ items_bytes its @ 0x03 # doc"
      by (simp add: Field)
    show ?thesis
      unfolding split
      unfolding proxy_loop.simps ok if_False raw_codec.get_then [OF ok(3)]
        raw_codec.get_then [OF ok(4)] prod.case consumed_fields Field proxy_items.simps Let_def
      unfolding PU_def [symmetric] NC_def [symmetric]
      by (cases "n = []"; cases "(if n \<noteq> [] then n else cur) = PU";
          cases "(if n \<noteq> [] then n else cur) = NC"; cases rp; cases rc;
          simp add: Cons.IH [OF its] channel_attribute_items put_raw_def
            option.case_distrib [symmetric] split: option.split)
  qed
qed

lemma proxy_items_ok:
  "proxy_items uri ch cur rp rc its = Some its' \<Longrightarrow> list_all item_ok its \<Longrightarrow> fits (as_bytes uri)
    \<Longrightarrow> (\<And>c. ch = Some c \<Longrightarrow> fits (as_bytes c)) \<Longrightarrow> list_all item_ok its'"
  by (induction uri ch cur rp rc its arbitrary: its' rule: proxy_items.induct)
    (auto simp: channel_items_def Let_def value_tag_ok_def is_delimiter_def
      split: if_splits option.splits)

lemma proxy_items_labels:
  "proxy_items uri ch cur rp rc its = Some its' \<Longrightarrow> (cur \<noteq> PU \<and> cur \<noteq> NC \<longrightarrow> c' = cur) \<Longrightarrow>
    filter (\<lambda>p. fst p \<noteq> PU \<and> fst p \<noteq> NC) (labelled c' its')
      = filter (\<lambda>p. fst p \<noteq> PU \<and> fst p \<noteq> NC) (labelled cur its)
    \<and> map (item_value \<circ> snd) (filter (\<lambda>p. fst p = PU) (labelled c' its'))
      = (if rp then [] else [as_bytes uri])
    \<and> filter (\<lambda>p. fst p = NC) (labelled c' its')
      = (if rc then [] else map (Pair NC) (channel_items ch))"
proof (induction its arbitrary: cur c' rp rc its')
  case Nil
  then show ?case by (cases ch) (auto simp: channel_items_def)
next
  case (Cons i its)
  show ?case
  proof (cases i)
    case (Delim t)
    with Cons.prems(1) obtain r where "proxy_items uri ch [] rp rc its = Some r" "its' = Delim t # r"
      by auto
    with Cons.IH [of "[]" rp rc r "[]"] Delim show ?thesis by (simp add: eq_commute)
  next
    case (Field t n v)
    let ?cur = "if n \<noteq> [] then n else cur"
    have c': "n = [] \<Longrightarrow> ?cur \<noteq> PU \<Longrightarrow> ?cur \<noteq> NC \<Longrightarrow> c' = cur" using Cons.prems(2) by simp
    note step = Cons.prems(1) [unfolded Field proxy_items.simps Let_def]
    consider (pu_more) "?cur = PU" "n = []" "proxy_items uri ch ?cur rp rc its = Some its'"
      | (pu) r where "n = PU" "\<not> rp" "proxy_items uri ch PU True rc its = Some r"
          "its' = Field t PU (as_bytes uri) # r"
      | (nc_more) "?cur = NC" "n = []" "proxy_items uri ch ?cur rp rc its = Some its'"
      | (nc) r where "n = NC" "\<not> rc" "proxy_items uri ch NC rp True its = Some r"
          "its' = channel_items ch @ r"
      | (other) r where "?cur \<noteq> PU" "?cur \<noteq> NC" "proxy_items uri ch ?cur rp rc its = Some r"
          "its' = Field t n v # r"
      using step by (auto split: if_splits)
    then show ?thesis
    proof cases
      case pu_more
      with Cons.IH [of PU rp rc its' c'] Field show ?thesis by simp
    next
      case pu
      with Cons.IH [of PU True rc r PU] Field show ?thesis by simp
    next
      case nc_more
      with Cons.IH [of NC rp rc its' c'] Field show ?thesis by simp
    next
      case nc
      with Cons.IH [of NC rp True r NC] Cons.IH [of NC rp True r c'] Field show ?thesis
        by (cases ch) (simp_all add: channel_items_def)
    next
      case other
      with Cons.IH [of ?cur rp rc r ?cur] Field c' show ?thesis by (simp split: if_splits)
    qed
  qed
qed

section \<open>What the parser makes of items\<close>

fun parse_items :: "ipp_item list \<Rightarrow> Attribute list \<Rightarrow> Attribute list option" where
  "parse_items [] acc = Some acc"
| "parse_items (Delim t # its) acc = parse_items its acc"
| "parse_items (Field t n v # its) acc =
     Option.bind (from_utf8 n) (\<lambda>s.
     let name = trim_end_matches 0 s in
     if name = [] then Option.bind (push_value acc v t) (parse_items its)
     else parse_items its (acc @ [single t name v]))"

lemma parse_loop_items:
  "list_all item_ok its \<Longrightarrow>
    parse_loop (items_bytes its @ 0x03 # doc) acc =
      (case parse_items its acc of None \<Rightarrow> Inl NotText | Some attrs \<Rightarrow> Inr (attrs, doc))"
proof (induction its arbitrary: acc)
  case (Cons i its)
  show ?case
  proof (cases i)
    case (Delim t)
    with Cons show ?thesis by simp
  next
    case (Field t n v)
    with Cons.prems have ok: "t = 0x03 \<longleftrightarrow> False" "is_delimiter t \<longleftrightarrow> False" "fits n" "fits v"
      and its: "list_all item_ok its"
      by (auto simp: value_tag_ok_def)
    have split: "items_bytes (i # its) @ 0x03 # doc
      = t # put_raw n @ put_raw v @ items_bytes its @ 0x03 # doc"
      by (simp add: Field)
    show ?thesis
      unfolding split
      unfolding parse_loop.simps ok if_False read_text_def raw_codec.get_then [OF ok(3)]
        prod.case Field
      using Cons.IH [OF its]
      by (cases "from_utf8 n")
        (auto simp: raw_codec.get_then [OF ok(4)] Let_def single_def split: option.splits)
  qed
qed simp

lemma Request_parse_items:
  assumes "length head = 8" "list_all item_ok its"
  shows "Request_parse (head @ items_bytes its @ 0x03 # doc) =
    (case parse_items its [] of
       None \<Rightarrow> Inl NotText
     | Some attrs \<Rightarrow> Inr \<lparr>version = (head ! 0, head ! 1), operation = from_be16 (head ! 2) (head ! 3),
         request_id = from_be32 (head ! 4) (head ! 5) (head ! 6) (head ! 7), attributes = attrs,
         document = doc, document_start = 8 + length (items_bytes its) + 1\<rparr>)"
  using assms by (simp add: Request_parse_def parse_loop_items nth_append split: option.splits)

section \<open>The channel the server reads\<close>

definition trimmed_name :: "bytes \<Rightarrow> ustr option" where
  "trimmed_name n = map_option (trim_end_matches 0) (from_utf8 n)"

fun names_ok :: "ipp_item list \<Rightarrow> bool" where
  "names_ok [] = True"
| "names_ok (Delim t # its) = names_ok its"
| "names_ok (Field t n v # its) = (trimmed_name n \<noteq> None \<and> names_ok its)"

fun first_ok :: "ipp_item list \<Rightarrow> bool" where
  "first_ok [] = True"
| "first_ok (Delim t # its) = first_ok its"
| "first_ok (Field t n v # its) = (trimmed_name n \<noteq> Some [])"

lemma push_value_Some: "acc \<noteq> [] \<Longrightarrow> \<exists>acc'. push_value acc v t = Some acc' \<and> acc' \<noteq> []"
  by (simp add: push_value_def)

lemma parse_items_Some:
  "names_ok its \<Longrightarrow> acc \<noteq> [] \<or> first_ok its \<Longrightarrow> \<exists>attrs. parse_items its acc = Some attrs"
proof (induction its acc rule: parse_items.induct)
  case (3 t n v its acc)
  from "3.prems" obtain s where s: "from_utf8 n = Some s"
    by (auto simp: trimmed_name_def)
  show ?case
  proof (cases "trim_end_matches 0 s = []")
    case True
    with "3.prems" s have "acc \<noteq> []" by (auto simp: trimmed_name_def)
    with push_value_Some obtain acc' where "push_value acc v t = Some acc'" "acc' \<noteq> []" by blast
    with "3.IH"(1) "3.prems" s True show ?thesis by simp
  next
    case False
    with "3.IH"(2) "3.prems" s show ?thesis by simp
  qed
qed simp_all

lemma parse_items_names: "parse_items its acc = Some attrs \<Longrightarrow> names_ok its"
proof (induction its arbitrary: acc)
  case (Cons i its)
  then show ?case
    by (cases i) (auto simp: trimmed_name_def Let_def bind_eq_Some_conv split: if_splits)
qed simp

lemma parse_items_first: "parse_items its [] = Some attrs \<Longrightarrow> first_ok its"
  by (induction its "[] :: Attribute list" rule: parse_items.induct)
    (auto simp: trimmed_name_def Let_def bind_eq_Some_conv push_value_def split: if_splits)

lemma proxy_items_first:
  "proxy_items uri (Some c) cur rp rc its = Some its' \<Longrightarrow> first_ok its \<Longrightarrow>
    trimmed_name PU \<noteq> Some [] \<Longrightarrow> trimmed_name NC \<noteq> Some [] \<Longrightarrow> trimmed_name [] = Some [] \<Longrightarrow> first_ok its'"
proof (induction its arbitrary: cur its')
  case (Cons i its)
  then show ?case
    by (cases i) (auto simp: channel_items_def Let_def split: if_splits)
qed (auto simp: channel_items_def)

lemma proxy_items_names:
  "proxy_items uri ch cur rp rc its = Some its' \<Longrightarrow> names_ok its \<Longrightarrow>
    trimmed_name PU \<noteq> None \<Longrightarrow> trimmed_name NC \<noteq> None \<Longrightarrow> names_ok its'"
proof (induction its arbitrary: cur rp rc its')
  case (Cons i its)
  then show ?case
    by (cases i; cases ch) (auto simp: channel_items_def Let_def split: if_splits)
qed (auto simp: channel_items_def split: option.splits)

lemma trimmed_special:
  "trimmed_name PU = Some (lit ''printer-uri'')" "trimmed_name NC = Some (lit ''network-channel'')"
  "trimmed_name [] = Some []"
proof -
  have "from_utf8 (as_bytes (lit ''printer-uri'')) = Some (lit ''printer-uri'')"
    "from_utf8 (as_bytes (lit ''network-channel'')) = Some (lit ''network-channel'')"
    "from_utf8 (as_bytes []) = Some []"
    by (rule from_utf8_as_bytes, simp add: is_scalar_def)+
  then show "trimmed_name PU = Some (lit ''printer-uri'')"
    "trimmed_name NC = Some (lit ''network-channel'')" "trimmed_name [] = Some []"
    by (simp_all add: trimmed_name_def PU_def NC_def as_bytes_def utf8_char_def trim_end_by_id)
qed

definition first_value :: "Attribute \<Rightarrow> u8 \<Rightarrow> bytes \<Rightarrow> bool" where
  "first_value a t v \<longleftrightarrow> attr_tag a = t \<and> (\<exists>vs. attr_values a = v # vs)"

definition named :: "ustr \<Rightarrow> Attribute list \<Rightarrow> Attribute option" where
  "named nm attrs = List.find (\<lambda>a. attr_name a = nm) attrs"

lemma find_append: "List.find P (xs @ ys) = or_else (List.find P xs) (List.find P ys)"
  by (induction xs) (auto simp: or_else_def)

lemma named_push_value:
  assumes "push_value acc v t = Some acc'" "named nm acc = Some a" "first_value a t0 v0"
  shows "\<exists>a'. named nm acc' = Some a' \<and> first_value a' t0 v0"
proof -
  from assms(1) have acc: "acc = butlast acc @ [last acc]"
    and acc': "acc' = butlast acc @ [(last acc)\<lparr>attr_values := attr_values (last acc) @ [v],
      attr_value_tags := attr_value_tags (last acc) @ [t]\<rparr>]"
    by (auto simp: push_value_def split: if_splits)
  from assms(2) have "named nm (butlast acc @ [last acc]) = Some a" using acc by simp
  then show ?thesis
    using assms(3) unfolding acc'
    by (auto simp: named_def find_append or_else_def first_value_def split: option.splits if_splits)
qed

lemma named_push_value_None:
  assumes "push_value acc v t = Some acc'" "named nm acc = None"
  shows "named nm acc' = None"
proof -
  from assms(1) have acc: "acc = butlast acc @ [last acc]"
    and acc': "acc' = butlast acc @ [(last acc)\<lparr>attr_values := attr_values (last acc) @ [v],
      attr_value_tags := attr_value_tags (last acc) @ [t]\<rparr>]"
    by (auto simp: push_value_def split: if_splits)
  from assms(2) have "named nm (butlast acc @ [last acc]) = None" using acc by simp
  then show ?thesis
    unfolding acc' by (auto simp: named_def find_append or_else_def split: option.splits if_splits)
qed

lemma parse_items_keeps:
  "parse_items its acc = Some attrs \<Longrightarrow> named nm acc = Some a \<Longrightarrow> first_value a t0 v0 \<Longrightarrow>
    \<exists>a'. named nm attrs = Some a' \<and> first_value a' t0 v0"
proof (induction its arbitrary: acc a)
  case (Cons i its)
  show ?case
  proof (cases i)
    case (Delim t)
    with Cons show ?thesis by simp
  next
    case (Field t n v)
    with Cons.prems(1) obtain s where s: "from_utf8 n = Some s"
      by (auto simp: bind_eq_Some_conv)
    show ?thesis
    proof (cases "trim_end_matches 0 s = []")
      case True
      with s Field Cons.prems(1) obtain acc' where "push_value acc v t = Some acc'"
        "parse_items its acc' = Some attrs"
        by (auto simp: bind_eq_Some_conv)
      then show ?thesis using named_push_value [OF _ Cons.prems(2,3)] Cons.IH by blast
    next
      case False
      with s Field Cons.prems(1) have "parse_items its (acc @ [single t (trim_end_matches 0 s) v]) = Some attrs"
        by simp
      moreover have "named nm (acc @ [single t (trim_end_matches 0 s) v]) = Some a"
        using Cons.prems(2) by (simp add: named_def find_append or_else_def)
      ultimately show ?thesis using Cons.IH Cons.prems(3) by blast
    qed
  qed
qed auto

lemma parse_items_finds:
  "parse_items its acc = Some attrs \<Longrightarrow> named nm acc = None \<Longrightarrow> nm \<noteq> [] \<Longrightarrow>
    (\<And>t n v. Field t n v \<in> set its \<Longrightarrow> trimmed_name n = Some nm \<Longrightarrow> t = t0 \<and> v = v0) \<Longrightarrow>
    (\<exists>t n v. Field t n v \<in> set its \<and> trimmed_name n = Some nm) \<Longrightarrow>
    \<exists>a. named nm attrs = Some a \<and> first_value a t0 v0"
proof (induction its arbitrary: acc)
  case (Cons i its)
  note uniq = Cons.prems(4)
  have uniq': "t = t0 \<and> v = v0" if "Field t n v \<in> set its" "trimmed_name n = Some nm" for t n v
    using uniq [of t n v] that by simp
  show ?case
  proof (cases i)
    case (Delim t)
    have p: "parse_items its acc = Some attrs" using Cons.prems(1) Delim by simp
    have ex: "\<exists>t n v. Field t n v \<in> set its \<and> trimmed_name n = Some nm"
      using Cons.prems(5) Delim by auto
    show ?thesis by (rule Cons.IH [OF p Cons.prems(2,3)]) (use uniq' ex in \<open>blast\<close>)+
  next
    case (Field t n v)
    with Cons.prems(1) obtain s where s: "from_utf8 n = Some s"
      by (auto simp: bind_eq_Some_conv)
    let ?s = "trim_end_matches 0 s"
    consider "?s = []" | "?s = nm" | "?s \<noteq> []" "?s \<noteq> nm" by blast
    then show ?thesis
    proof cases
      case 1
      with s Field Cons.prems(1) obtain acc' where acc': "push_value acc v t = Some acc'"
        "parse_items its acc' = Some attrs"
        by (auto simp: bind_eq_Some_conv)
      have ex: "\<exists>t n v. Field t n v \<in> set its \<and> trimmed_name n = Some nm"
        using Cons.prems(3,5) Field s 1 by (auto simp: trimmed_name_def)
      note none = named_push_value_None [OF acc'(1) Cons.prems(2)]
      show ?thesis
        by (rule Cons.IH [OF acc'(2) none Cons.prems(3)]) (use uniq' ex in \<open>blast\<close>)+
    next
      case 2
      have "parse_items its (acc @ [single t nm v]) = Some attrs"
        using s Field Cons.prems(1,3) 2 by simp
      moreover have "named nm (acc @ [single t nm v]) = Some (single t nm v)"
        using Cons.prems(2) by (simp add: named_def find_append or_else_def single_def)
      moreover have "first_value (single t nm v) t0 v0"
        using uniq [of t n v] Field s 2 by (simp add: trimmed_name_def first_value_def single_def)
      ultimately show ?thesis by (rule parse_items_keeps)
    next
      case 3
      have p: "parse_items its (acc @ [single t ?s v]) = Some attrs"
        using s Field Cons.prems(1) 3 by simp
      have none: "named nm (acc @ [single t ?s v]) = None"
        using Cons.prems(2) 3(2) by (simp add: named_def find_append or_else_def single_def)
      have ex: "\<exists>t n v. Field t n v \<in> set its \<and> trimmed_name n = Some nm"
        using Cons.prems(5) Field s 3 by (auto simp: trimmed_name_def)
      show ?thesis
        by (rule Cons.IH [OF p none Cons.prems(3)]) (use uniq' ex in \<open>blast\<close>)+
    qed
  qed
qed simp

section \<open>Properties of a forwarded request\<close>

lemma body_inject:
  assumes "list_all item_ok its" "list_all item_ok its'"
    and "items_bytes its @ 0x03 # doc = items_bytes its' @ 0x03 # doc'"
  shows "its = its' \<and> doc = doc'"
  using assms
proof (induction its arbitrary: its')
  case Nil
  then show ?case
    by (cases its' rule: list.exhaust; cases "hd its'") (auto simp: value_tag_ok_def)
next
  case (Cons i its)
  then obtain j js where j: "its' = j # js"
    by (cases its'; cases i) (auto simp: value_tag_ok_def)
  show ?case
  proof (cases i; cases j)
    fix t n v t' n' v' assume f: "i = Field t n v" "j = Field t' n' v'"
    with Cons.prems j have ok: "fits n" "fits v" "fits n'" "fits v'"
      and e: "t = t'" "put_raw n @ put_raw v @ items_bytes its @ 0x03 # doc
        = put_raw n' @ put_raw v' @ items_bytes js @ 0x03 # doc'"
      by auto
    from raw_codec.prefix_free [OF ok(1,3) e(2)] raw_codec.prefix_free [OF ok(2,4)]
    have "n = n'" "v = v'" "items_bytes its @ 0x03 # doc = items_bytes js @ 0x03 # doc'" by blast+
    with Cons.IH [of js] Cons.prems j f e(1) show ?thesis by simp
  qed (use Cons.IH [of "tl its'"] Cons.prems j in \<open>auto simp: value_tag_ok_def\<close>)
qed

lemma prepare_proxy_request_items:
  assumes "prepare_proxy_request bs uri ch = Inr out"
  obtains its its' doc attrs where "bs = take 8 bs @ items_bytes its @ 0x03 # doc" "8 \<le> length bs"
    "list_all item_ok its" "proxy_items uri ch [] False False its = Some its'"
    "out = take 8 bs @ items_bytes its' @ 0x03 # doc" "parse_items its [] = Some attrs"
proof -
  from assms obtain r where r: "Request_parse bs = Inr r"
    and l: "proxy_loop uri ch (drop 8 bs) [] False False (take 8 bs) = Inr out"
    by (auto simp: prepare_proxy_request_def result_simps)
  from proxy_loop_shape [OF l] obtain its doc where its: "list_all item_ok its"
    "drop 8 bs = items_bytes its @ 0x03 # doc" by blast
  have bs: "bs = take 8 bs @ items_bytes its @ 0x03 # doc"
    using its(2) by (metis append_take_drop_id)
  have len: "8 \<le> length bs" using r by (auto simp: Request_parse_def split: if_splits)
  from l its(1) obtain its' where its': "proxy_items uri ch [] False False its = Some its'"
    "out = take 8 bs @ items_bytes its' @ 0x03 # doc"
    unfolding its(2) by (auto simp: proxy_loop_items split: option.splits)
  have "\<exists>attrs. parse_items its [] = Some attrs"
    using r len its by (auto simp: Request_parse_def parse_loop_items result_simps split: option.splits)
  with that bs len its its' show thesis by blast
qed

text \<open>C29: what the proxy forwards. When \<open>prepare_proxy_request\<close> succeeds, the forwarded message has
  the header and the document of the request byte for byte; exactly one value is left under
  \<open>printer-uri\<close>, the remote printer's URI; the values under \<open>network-channel\<close> are exactly the
  configured channel, or none; and every other item of the request, with the attribute it belongs
  to, is forwarded unchanged and in order.\<close>

theorem proxy_request_rewritten:
  assumes "prepare_proxy_request bs uri ch = Inr out" "str_len uri \<le> 65535"
    and "\<And>c. ch = Some c \<Longrightarrow> str_len c \<le> 65535"
  shows "\<exists>its its' doc r. bs = take 8 bs @ items_bytes its @ 0x03 # doc
    \<and> out = take 8 bs @ items_bytes its' @ 0x03 # doc
    \<and> list_all item_ok its \<and> list_all item_ok its'
    \<and> Request_parse bs = Inr r \<and> document r = doc
    \<and> values_named PU its' = [as_bytes uri]
    \<and> values_named NC its' = (case ch of None \<Rightarrow> [] | Some c \<Rightarrow> [as_bytes c])
    \<and> other_items its' = other_items its"
proof -
  from prepare_proxy_request_items [OF assms(1)] obtain its its' doc attrs where
    p: "bs = take 8 bs @ items_bytes its @ 0x03 # doc" "8 \<le> length bs" "list_all item_ok its"
    "proxy_items uri ch [] False False its = Some its'"
    "out = take 8 bs @ items_bytes its' @ 0x03 # doc" "parse_items its [] = Some attrs" .
  have ok: "list_all item_ok its'"
    using proxy_items_ok [OF p(4,3)] assms(2,3) by (simp add: fits_def)
  have "length (take 8 bs) = 8" using p(2) by simp
  from Request_parse_items [OF this p(3), of doc] p(1,6)
  obtain r where "Request_parse bs = Inr r" "document r = doc" by fastforce
  moreover have "values_named PU its' = [as_bytes uri]"
    "values_named NC its' = (case ch of None \<Rightarrow> [] | Some c \<Rightarrow> [as_bytes c])"
    "other_items its' = other_items its"
    using proxy_items_labels [OF p(4), of "[]"]
    by (simp_all add: values_named_def other_items_def channel_items_def split: option.splits)
  ultimately show ?thesis using p ok by blast
qed

lemma channel_field_unique:
  assumes "filter (\<lambda>p. fst p = NC) (labelled cur its) = [(NC, Field t0 NC v0)]"
  shows "Field t NC v \<in> set its \<Longrightarrow> t = t0 \<and> v = v0" and "Field t0 NC v0 \<in> set its"
proof -
  have l: "Field t NC v \<in> set its \<Longrightarrow> (NC, Field t NC v) \<in> set (labelled cur its)" for t v
    by (induction cur its rule: labelled.induct) (auto simp: Let_def)
  have b: "(c, i) \<in> set (labelled cur its) \<Longrightarrow> i \<in> set its" for c i
    by (induction cur its rule: labelled.induct) (auto simp: Let_def)
  have s: "p \<in> set (labelled cur its) \<and> fst p = NC \<longleftrightarrow> p = (NC, Field t0 NC v0)" for p
    using arg_cong [OF assms, of "\<lambda>xs. p \<in> set xs"] by simp
  show "Field t NC v \<in> set its \<Longrightarrow> t = t0 \<and> v = v0"
    using l [of t v] s [of "(NC, Field t NC v)"] by simp
  show "Field t0 NC v0 \<in> set its" using b [of NC "Field t0 NC v0"] s [of "(NC, Field t0 NC v0)"] by simp
qed

lemma proxy_items_fields:
  "proxy_items uri ch cur rp rc its = Some its' \<Longrightarrow> Field t n v \<in> set its' \<Longrightarrow>
    n = PU \<or> n = NC \<or> (\<exists>t v. Field t n v \<in> set its)"
proof (induction its arbitrary: cur rp rc its')
  case Nil
  then show ?case by (auto simp: channel_items_def split: if_splits option.splits)
next
  case (Cons i its)
  then show ?case
    by (cases i) (auto simp: channel_items_def Let_def split: if_splits option.splits; blast)+
qed

lemma forwarded_items:
  assumes "prepare_proxy_request (head @ items_bytes its @ 0x03 # doc) uri (Some c) = Inr out"
    and "length head = 8" "list_all item_ok its" "str_len uri \<le> 65535" "str_len c \<le> 65535"
  obtains its' attrs attrs' where "proxy_items uri (Some c) [] False False its = Some its'"
    "out = head @ items_bytes its' @ 0x03 # doc" "list_all item_ok its'"
    "parse_items its [] = Some attrs" "parse_items its' [] = Some attrs'"
proof -
  have take: "take 8 (head @ items_bytes its @ 0x03 # doc) = head" using assms(2) by simp
  obtain its2 its' doc2 attrs where
    p: "head @ items_bytes its @ 0x03 # doc = head @ items_bytes its2 @ 0x03 # doc2"
    "list_all item_ok its2" "proxy_items uri (Some c) [] False False its2 = Some its'"
    "out = head @ items_bytes its' @ 0x03 # doc2" "parse_items its2 [] = Some attrs"
    by (rule prepare_proxy_request_items [OF assms(1), unfolded take])
  have "its2 = its \<and> doc2 = doc"
    using body_inject [OF assms(3) p(2) p(1) [unfolded same_append_eq]] by simp
  then have same: "its2 = its" "doc2 = doc" by auto
  note q = p(3) [unfolded same]
  have ok: "list_all item_ok its'" using proxy_items_ok [OF q assms(3)] assms(4,5) by (simp add: fits_def)
  have "names_ok its'" "first_ok its'"
    using proxy_items_names [OF q parse_items_names [OF p(5) [unfolded same]]]
      proxy_items_first [OF q parse_items_first [OF p(5) [unfolded same]]]
    by (simp_all add: trimmed_special)
  then obtain attrs' where "parse_items its' [] = Some attrs'" using parse_items_Some by blast
  with that [OF q _ ok] p(4,5) same show thesis by blast
qed

text \<open>The channel the server reads is the configured one. When the proxy forwards a request with
  a configured channel, and no other attribute name of the request reads \<open>network-channel\<close> once the
  parser has cut its trailing NULs, the server's \<open>Request::parse\<close> accepts the forwarded message,
  finds the configured channel under \<open>network-channel\<close>, and takes the same document.\<close>

theorem forwarded_channel_read:
  assumes "prepare_proxy_request (head @ items_bytes its @ 0x03 # doc) uri (Some c) = Inr out"
    and "length head = 8" "list_all item_ok its" "str_len uri \<le> 65535" "str_len c \<le> 65535" "wf_ustr c"
    and unmasked: "\<And>t n v. Field t n v \<in> set its \<Longrightarrow> n \<noteq> NC
      \<Longrightarrow> trimmed_name n \<noteq> Some (lit ''network-channel'')"
  shows "\<exists>r. Request_parse out = Inr r
    \<and> value_text r (lit ''network-channel'') = Some (trim_end_matches 0 c) \<and> document r = doc
    \<and> operation r = from_be16 (head ! 2) (head ! 3)"
proof -
  let ?nc = "lit ''network-channel''"
  from forwarded_items [OF assms(1-5)] obtain its' attrs' where
    q: "proxy_items uri (Some c) [] False False its = Some its'" and out: "out = head @ items_bytes its' @ 0x03 # doc"
    and ok: "list_all item_ok its'" and attrs': "parse_items its' [] = Some attrs'" by metis
  have only: "filter (\<lambda>p. fst p = NC) (labelled [] its') = [(NC, Field 0x41 NC (as_bytes c))]"
    using proxy_items_labels [OF q, of "[]"] by (simp add: channel_items_def)
  have uniq: "t = 0x41 \<and> v = as_bytes c"
    if f: "Field t n v \<in> set its'" "trimmed_name n = Some ?nc" for t n v
  proof -
    have "n \<noteq> PU" using f(2) trimmed_special(1) by auto
    with proxy_items_fields [OF q f(1)] unmasked f(2) have "n = NC" by blast
    with channel_field_unique(1) [OF only] f(1) show ?thesis by blast
  qed
  have "\<exists>a. named ?nc attrs' = Some a \<and> first_value a 0x41 (as_bytes c)"
  proof (rule parse_items_finds [OF attrs'])
    show "\<exists>t n v. Field t n v \<in> set its' \<and> trimmed_name n = Some ?nc"
      using channel_field_unique(2) [OF only] trimmed_special(2) by blast
  qed (use uniq in \<open>simp_all add: named_def\<close>)
  moreover have "from_utf8 (as_bytes c) = Some c" using assms(6) by (rule from_utf8_as_bytes)
  ultimately show ?thesis
    using Request_parse_items [OF assms(2) ok, of doc]
    by (auto simp: out attrs' value_text_def attribute_def attribute_text_def named_def
        first_value_def is_text_def)
qed

text \<open>A name with a trailing NUL hides the configured channel. The proxy compares raw attribute
  names, the parser compares them without trailing NULs: a request that carries its own channel
  under the name \<open>network-channel\<close> followed by a NUL is forwarded with both, and the server reads the
  client's value, not the configured one, although the comment on \<open>prepare_proxy_request\<close> says that
  client supplied Network Channel values are discarded.\<close>

theorem masked_channel_wins:
  assumes "plain_name chosen" "str_len c \<le> 65535" "str_len uri \<le> 65535" "length head = 8"
    and bs: "bs = head @ items_bytes [Delim 0x01, Field 0x41 (NC @ [0]) (as_bytes chosen)] @ 0x03 # doc"
  shows "\<exists>out r. prepare_proxy_request bs uri (Some c) = Inr out \<and> Request_parse out = Inr r
    \<and> value_text r (lit ''network-channel'') = Some chosen"
proof -
  let ?its = "[Delim 0x01, Field 0x41 (NC @ [0]) (as_bytes chosen)]"
  let ?its' = "?its @ [Field 0x45 PU (as_bytes uri), Field 0x41 NC (as_bytes c)]"
  let ?nc = "lit ''network-channel''"
  have f: "fits (as_bytes chosen)" "fits (as_bytes c)" "fits (as_bytes uri)" "fits (NC @ [0])"
    using assms(1-3) by (simp_all add: plain_name_def fits_def NC_def)
  then have ok: "list_all item_ok ?its" "list_all item_ok ?its'"
    by (simp_all add: is_delimiter_def)
  have nul: "NC @ [0] \<noteq> PU" "NC @ [0] \<noteq> NC" by (simp_all add: PU_def NC_def)
  have utf: "from_utf8 PU = Some (lit ''printer-uri'')" "from_utf8 NC = Some ?nc"
    "from_utf8 (NC @ [0]) = Some (?nc @ [0])"
    by (simp_all add: PU_def NC_def from_utf8_ascii)
  have trim: "trim_end_matches 0 (lit ''printer-uri'') = lit ''printer-uri''"
    "trim_end_matches 0 ?nc = ?nc" "trim_end_matches 0 (?nc @ [0]) = ?nc"
    by (simp_all add: trim_end_by_def)
  let ?attrs = "[single 0x41 ?nc (as_bytes chosen), single 0x45 (lit ''printer-uri'') (as_bytes uri),
    single 0x41 ?nc (as_bytes c)]"
  have items: "proxy_items uri (Some c) [] False False ?its = Some ?its'"
    using nul by (simp add: channel_items_def)
  have parsed: "parse_items ?its [] = Some [single 0x41 ?nc (as_bytes chosen)]"
    "parse_items ?its' [] = Some ?attrs"
    using utf trim by (simp_all add: Let_def)
  have chosen: "from_utf8 (as_bytes chosen) = Some chosen" "trim_end_matches 0 chosen = chosen"
    using assms(1) by (auto simp: plain_name_def from_utf8_as_bytes intro: trim_end_by_id)
  have "prepare_proxy_request bs uri (Some c) = Inr (head @ items_bytes ?its' @ 0x03 # doc)"
    unfolding prepare_proxy_request_def bs Request_parse_items [OF assms(4) ok(1)] parsed
    using proxy_loop_items [OF ok(1), of uri "Some c" doc "[]" False False head] assms(4)
    unfolding items by simp
  moreover have "\<exists>r. Request_parse (head @ items_bytes ?its' @ 0x03 # doc) = Inr r
    \<and> attributes r = ?attrs"
    unfolding Request_parse_items [OF assms(4) ok(2)] parsed by simp
  ultimately show ?thesis
    using chosen by (fastforce simp: value_text_def attribute_def attribute_text_def single_def is_text_def)
qed

end
