(* ===== verification/Ipp_Answer.thy ===== *)
theory Ipp_Answer
  imports Ipp_Forwarding
begin

text \<open>
  \<open>rewrite_printer_uri_supported\<close> item by item: which attribute values the proxy
  replaces in an answer to the local spooler, and that tags, names, order, header and document stay.
\<close>

section \<open>The answer loop\<close>

definition rewritten_value :: "Rewrite \<Rightarrow> bytes \<Rightarrow> bool \<Rightarrow> bytes \<Rightarrow> bytes \<times> bool" where
  "rewritten_value c cur rewriting v =
     (if cur = ascii ''printer-uri-supported''
         \<and> (case from_utf8 v of Some s \<Rightarrow> same_printer_uri s (rw_remote c) | None \<Rightarrow> False)
      then (as_bytes (rw_local c), True)
      else if cur = ascii ''uri-security-supported'' \<and> rewriting \<and> rw_unencrypted c
      then (ascii ''none'', rewriting)
      else if cur = ascii ''printer-uuid'' \<and> rewriting \<and> rw_queue_uuid c \<noteq> None
      then (as_bytes (the (rw_queue_uuid c)), rewriting)
      else if (cur = ascii ''printer-name'' \<or> cur = ascii ''printer-info''
               \<or> cur = ascii ''printer-make-and-model'') \<and> rewriting \<and> rw_queue_name c \<noteq> None
      then (as_bytes (the (rw_queue_name c)), rewriting)
      else if cur = ascii ''printer-more-info'' \<and> rewriting
      then (as_bytes (rw_local c), rewriting)
      else (v, rewriting))"

lemma rewrite_attribute_value:
  "rewrite_attribute c cur rw t n v (t # put_raw n @ put_raw v)
   = (item_bytes (Field t n (fst (rewritten_value c cur rw v))), snd (rewritten_value c cur rw v))"
proof -
  have item: "item_bytes (Field t n x) = replace_value t n x" for x
    by (simp add: replace_value_def put_raw_def)
  have orig: "t # put_raw n @ put_raw v = replace_value t n v"
    by (simp add: replace_value_def put_raw_def)
  have step: "(if a then (replace_value t n x, p) else (replace_value t n y, q))
    = (replace_value t n (fst (if a then (x, p) else (y, q))), snd (if a then (x, p) else (y, q)))"
    for a x p y q by simp
  show ?thesis
    unfolding rewrite_attribute_def rewritten_value_def orig item by (simp only: step prod.collapse)
qed

fun rewrite_items :: "Rewrite \<Rightarrow> bytes \<Rightarrow> bool \<Rightarrow> ipp_item list \<Rightarrow> ipp_item list" where
  "rewrite_items c cur rw [] = []"
| "rewrite_items c cur rw (Delim t # its) =
     Delim t # rewrite_items c cur (if t = TAG_PRINTER_ATTRIBUTES then False else rw) its"
| "rewrite_items c cur rw (Field t n v # its) =
     (let cur = (if n \<noteq> [] then n else cur); r = rewritten_value c cur rw v
      in Field t n (fst r) # rewrite_items c cur (snd r) its)"

lemma rewrite_loop_items:
  "list_all item_ok its \<Longrightarrow>
    rewrite_loop c (items_bytes its @ 0x03 # doc) cur rw out
      = Inr (out @ items_bytes (rewrite_items c cur rw its) @ rw_trailer c @ 0x03 # doc)"
proof (induction its arbitrary: cur rw out)
  case (Cons i its)
  show ?case
  proof (cases i)
    case (Delim t)
    with Cons show ?thesis by simp
  next
    case (Field t n v)
    with Cons.prems have ok: "t = 0x03 \<longleftrightarrow> False" "is_delimiter t \<longleftrightarrow> False" "fits n" "fits v"
      and its: "list_all item_ok its"
      by (auto simp: value_tag_ok_def)
    have split: "items_bytes (i # its) @ 0x03 # doc
      = t # put_raw n @ put_raw v @ items_bytes its @ 0x03 # doc"
      by (simp add: Field)
    show ?thesis
      unfolding split
      unfolding rewrite_loop.simps ok if_False raw_codec.get_then [OF ok(3)]
        raw_codec.get_then [OF ok(4)] prod.case consumed_fields Field rewrite_items.simps Let_def
        rewrite_attribute_value Cons.IH [OF its]
      by simp
  qed
qed simp

lemma rewrite_loop_shape:
  "rewrite_loop c rest cur rw out = Inr out' \<Longrightarrow>
    \<exists>its doc. list_all item_ok its \<and> rest = items_bytes its @ 0x03 # doc"
proof (induction c rest cur rw out arbitrary: out' rule: rewrite_loop.induct)
  case (2 c t rest cur rw out)
  consider "t = 0x03" | "t \<noteq> 0x03" "is_delimiter t" | "t \<noteq> 0x03" "\<not> is_delimiter t" by blast
  then show ?case
  proof cases
    case 1
    then show ?thesis by (intro exI [of _ "[]"] exI [of _ rest]) simp
  next
    case 2
    with "2.prems" "2.IH"(1) obtain its doc
      where "list_all item_ok its" "rest = items_bytes its @ 0x03 # doc" by auto
    with 2 show ?thesis by (intro exI [of _ "Delim t # its"] exI [of _ doc]) simp
  next
    case 3
    with "2.prems" obtain n r1 v r2 where r: "read_raw rest = Inr (n, r1)" "read_raw r1 = Inr (v, r2)"
      by (auto simp: result_simps Let_def)
    obtain w rw' where w: "rewrite_attribute c (if n \<noteq> [] then n else cur) rw t n v (t # consumed rest r2)
      = (w, rw')" by (cases "rewrite_attribute c (if n \<noteq> [] then n else cur) rw t n v (t # consumed rest r2)")
    have "rewrite_loop c r2 (if n \<noteq> [] then n else cur) rw' (out @ w) = Inr out'"
      using "2.prems" 3 r w by (simp add: Let_def)
    from "2.IH"(2) [OF 3 r(1) refl refl r(2) refl w [symmetric] refl this]
    obtain its doc where "list_all item_ok its" "r2 = items_bytes its @ 0x03 # doc" by blast
    with 3 r [THEN read_raw_Inr] show ?thesis
      by (intro exI [of _ "Field t n v # its"] exI [of _ doc]) (simp add: value_tag_ok_def)
  qed
qed simp

section \<open>What an answer keeps\<close>

fun item_shape :: "ipp_item \<Rightarrow> u8 \<times> bytes option" where
  "item_shape (Delim t) = (t, None)"
| "item_shape (Field t n v) = (t, Some n)"

text \<open>The answer loop does not reset the current name at a delimiter.\<close>

fun running_names :: "bytes \<Rightarrow> ipp_item list \<Rightarrow> bytes list" where
  "running_names cur [] = []"
| "running_names cur (Delim t # its) = [] # running_names cur its"
| "running_names cur (Field t n v # its) =
     (let cur = (if n \<noteq> [] then n else cur) in cur # running_names cur its)"

definition rewritten_names :: "bytes list" where
  "rewritten_names = [ascii ''printer-uri-supported'', ascii ''uri-security-supported'',
     ascii ''printer-uuid'', ascii ''printer-name'', ascii ''printer-info'',
     ascii ''printer-make-and-model'', ascii ''printer-more-info'']"

lemma rewritten_value_other:
  "cur \<notin> set rewritten_names \<Longrightarrow> rewritten_value c cur rw v = (v, rw)"
  by (simp add: rewritten_value_def rewritten_names_def)

lemma rewrite_items_shape: "map item_shape (rewrite_items c cur rw its) = map item_shape its"
  by (induction c cur rw its rule: rewrite_items.induct) (simp_all add: Let_def)

lemma rewrite_items_names: "running_names cur (rewrite_items c cur rw its) = running_names cur its"
  by (induction c cur rw its rule: rewrite_items.induct) (simp_all add: Let_def)

lemma rewrite_items_others:
  "filter (\<lambda>p. fst p \<notin> set rewritten_names) (zip (running_names cur its) (rewrite_items c cur rw its))
   = filter (\<lambda>p. fst p \<notin> set rewritten_names) (zip (running_names cur its) its)"
proof (induction its arbitrary: cur rw)
  case (Cons i its)
  show ?case
  proof (cases i)
    case (Field t n v)
    then show ?thesis
      using Cons.IH [of "if n \<noteq> [] then n else cur"
          "snd (rewritten_value c (if n \<noteq> [] then n else cur) rw v)"]
        rewritten_value_other [of "if n \<noteq> [] then n else cur" c rw v]
      by (simp only: rewrite_items.simps running_names.simps Let_def zip_Cons_Cons filter.simps
          fst_conv split: if_split) auto
  qed (simp add: Cons.IH)
qed simp

lemma rewrite_items_uris:
  "(nm, i) \<in> set (zip (running_names cur its) (rewrite_items c cur rw its)) \<Longrightarrow>
    nm = ascii ''printer-uri-supported'' \<Longrightarrow>
    item_value i = as_bytes (rw_local c)
    \<or> (case from_utf8 (item_value i) of Some s \<Rightarrow> \<not> same_printer_uri s (rw_remote c) | None \<Rightarrow> True)"
proof (induction c cur rw its rule: rewrite_items.induct)
  case (3 c cur rw t n v its)
  let ?cur = "if n \<noteq> [] then n else cur"
  let ?r = "rewritten_value c ?cur rw v"
  from "3.prems"(1) consider "nm = ?cur" "i = Field t n (fst ?r)"
    | "(nm, i) \<in> set (zip (running_names ?cur its) (rewrite_items c ?cur (snd ?r) its))"
    by (auto simp: Let_def)
  then show ?case
  proof cases
    case 1
    with "3.prems"(2) show ?thesis by (auto simp: rewritten_value_def split: option.splits)
  next
    case 2
    from "3.IH" [OF refl refl this "3.prems"(2)] show ?thesis .
  qed
qed auto


end
