(* ===== verification/Witnesses.thy ===== *)
theory Witnesses
  imports Queue_Routing Mdns_Roundtrip Ipp_Listing Ipp_Answer
begin

text \<open>
  Concrete runs of the properties that have hypotheses: for each of them one closed theorem that
  applies it to an input where the hypotheses hold. The example is one installation: the
  printer \<open>Office\<close> of the server \<open>srv:631\<close>, behind the proxy on its default port.
\<close>

section \<open>Evaluation\<close>

lemmas eval_str = trim_by_def trim_end_by_def starts_with_def strip_prefix_def strip_suffix_def
  is_whitespace_def list_ex_iff list_all_iff is_control_def is_ascii_alphanumeric_def
  is_ascii_digit_def parse_unsigned_def digits_value_def slice_at_def ascii_lower_def Let_def
  NAME_LIMIT_def QUEUE_NAME_LIMIT_def QUEUE_ADDRESS_LIMIT_def show_nat.simps

lemmas eval_address = normalize_address_def ServerAddress_parse_def address_host_port_def
  ip_to_string_def parse_ipv4_def read_ipv4_def dec_octet_def parse_ipv6_def hex_group_def
  group_sep_def is_ascii_hexdigit_def read_groups.simps host_name_ok_def host_label_ok_def
  parse_port_def

section \<open>An installed queue\<close>

definition example_address :: ustr where "example_address = lit ''srv:631''"
definition example_printer :: ustr where "example_printer = lit ''Office''"
definition example_authority :: ustr where "example_authority = lit ''127.0.0.1:'' @ show_nat 48632"

definition example_request :: ClientQueueRequest where
  "example_request =
     \<lparr>request_queue_name = ClientQueueName (lit ''Office (ShaPrint srv-631)''),
      request_server_address = example_address, request_printer = PrinterName example_printer\<rparr>"

definition example_uri :: ustr where
  "example_uri = lit ''ipp://127.0.0.1:48632/ipp/print/srv%3A631/Office''"

lemma example_server: "ServerAddress_parse example_address
  = Inr \<lparr>addr_host = lit ''srv'', addr_port = 631, addr_normalized = example_address\<rparr>"
  by (simp add: example_address_def eval_address eval_str)

lemma example_canonical: "normalize_address example_address = Inr example_address"
  by (simp add: normalize_address_def example_server)

lemma example_name: "PrinterName_parse example_printer = Inr (PrinterName example_printer)"
  by (simp add: example_printer_def PrinterName_parse_def eval_str)

lemma example_queue: "ClientQueueRequest_new example_address (PrinterName example_printer)
  = Inr example_request"
  by (simp add: ClientQueueRequest_new_def validate_address_def for_shared_printer_def
      address_port_def port_valid_def ClientQueueName_parse_def address_label_def eval_str
      example_request_def example_address_def example_printer_def)

lemma example_queue_uri: "queue_uri example_authority example_request = Inr example_uri"
  unfolding queue_uri_def client_queue_uri_def example_request_def
  by (simp add: example_canonical example_name)
    (simp add: example_uri_def example_authority_def example_address_def example_printer_def
      percent_encode_def encode_byte_def unreserved_def hex_upper_def hex_digit_upper_def eval_str)

lemma example_wf: "wf_ustr example_address" "wf_ustr example_printer"
  "request_server_address example_request = example_address" "47 \<notin> set example_authority"
  by (simp_all add: example_address_def example_printer_def example_request_def
      example_authority_def is_scalar_def show_nat.simps)

theorem installed_queue_recognised_witness:
  "classify (\<lambda>_. []) \<lparr>record_name = ClientQueueName_as_str (request_queue_name example_request),
      record_port = example_uri\<rparr> example_authority
    = RecognisedQueue \<lparr>recognised_queue_name = request_queue_name example_request,
        recognised_server_address = request_server_address example_request,
        recognised_printer_name = PrinterName example_printer\<rparr>"
  using installed_queue_recognised [OF example_name example_wf(2,1) example_queue _ example_queue_uri]
    example_canonical example_wf by simp

theorem recognised_queue_verified_witness:
  "validate_address example_address = Inr ()"
  using recognised_queue_verified [OF installed_queue_classified
      [OF example_name example_wf(2,1) example_queue _ example_queue_uri, of "\<lambda>_. []"]]
    example_canonical example_wf by simp

theorem queue_request_safe_witness:
  "length (ClientQueueName_as_str (request_queue_name example_request)) \<le> 220"
  using queue_request_safe [OF example_queue example_wf(1)] by simp

theorem percent_decoders_compared_witness:
  "percent_decode (percent_encode example_printer) = example_printer
    \<and> queue_percent_decode (percent_encode example_printer) = example_printer"
  using percent_decoders_compared example_wf by blast

section \<open>Discovery\<close>

definition example_target :: ustr where "example_target = lit ''srv.local.''"

lemma example_target_valid: "valid_name example_target"
  by (simp add: example_target_def valid_name_def dns_labels_def MAX_LABEL_def is_scalar_def
      as_bytes_def utf8_char_def)

lemma example_announcement:
  "\<exists>packet. encode_announcement (lit ''srv'') example_target 48631 [(lit ''v'', lit ''1'')]
     \<lparr>as_secs = 120, subsec_nanos = 0\<rparr> = Inr packet"
  by (simp add: encode_announcement_def dns_instance_name_def record_lifetime_def push_name_def
      push_record_data_def example_target_def SERVICE_TYPE_def MAX_LABEL_def MAX_TXT_STRING_def
      to_be16_def to_be32_def dns_header_def as_bytes_def utf8_char_def eval_str)

theorem announcement_discovered_witness:
  "\<exists>packet m. encode_announcement (lit ''srv'') example_target 48631 [(lit ''v'', lit ''1'')]
       \<lparr>as_secs = 120, subsec_nanos = 0\<rparr> = Inr packet
     \<and> Message_parse packet = Inr m \<and> length (services m) = 1"
proof -
  obtain packet where p: "encode_announcement (lit ''srv'') example_target 48631 [(lit ''v'', lit ''1'')]
     \<lparr>as_secs = 120, subsec_nanos = 0\<rparr> = Inr packet"
    using example_announcement by blast
  have "\<forall>p \<in> set [(lit ''v'', lit ''1'')]. txt_property p" "wf_ustr (lit ''srv'')"
    by (simp_all add: txt_property_def is_scalar_def)
  with announcement_discovered [OF _ example_target_valid _ p] p show ?thesis by fastforce
qed

theorem query_recognised_witness:
  "\<exists>packet q. encode_query SERVICE_TYPE = Inr packet
     \<and> Message_parse packet = Inr \<lparr>queries = [q], records = []\<rparr>"
proof -
  have "\<exists>packet. encode_query SERVICE_TYPE = Inr packet"
    by (simp add: encode_query_def push_name_def SERVICE_TYPE_def MAX_LABEL_def as_bytes_def
        utf8_char_def)
  then show ?thesis using query_recognised [OF valid_service_type] by blast
qed

section \<open>IPP\<close>

definition example_entry :: PrinterEntry where
  "example_entry = \<lparr>entry_name = example_printer, entry_uri = lit ''ipps://srv:631/ipp/print/Office'',
     accepting_jobs = True\<rparr>"

theorem shared_printers_listed_witness:
  "\<exists>names. parse_printers (build_response (\<lambda>_. []) 1 7 (2, 0) Ok [example_entry] False) = Inr names
    \<and> set names = {example_printer}"
proof -
  have "\<forall>p \<in> set [example_entry]. entry_ok p"
    by (simp add: entry_ok_def example_entry_def example_printer_def is_scalar_def as_bytes_def
        utf8_char_def)
  from shared_printers_listed [OF this, of Ok "\<lambda>_. []" 1 7 "(2, 0)" False]
  show ?thesis by (auto simp: example_entry_def)
qed

definition example_job :: JobEntry where
  "example_job = \<lparr>job_id = 12, job_uri = lit ''ipps://srv/jobs/12'',
     job_printer_uri = lit ''ipps://srv/ipp/print/Office'', job_printer_name = example_printer,
     job_name = lit ''letter'', document_count = 1, job_state = 9\<rparr>"

theorem job_attributes_read_witness:
  "\<exists>r. Request_parse (job_attributes_response 7 (2, 0) example_job [lit ''job-id'']) = Inr r
    \<and> integer r (lit ''job-id'') = Some 12"
proof -
  have "job_ok example_job"
    by (simp add: job_ok_def example_job_def plain_name_ascii as_bytes_def utf8_char_def)
  from job_attributes_read [OF this, of 7 "(2, 0)" "[lit ''job-id'']"]
  show ?thesis by (auto simp: requested_attribute_def eq_ignore_ascii_case_def example_job_def)
qed

definition example_head :: bytes where "example_head = [2, 0, 0, 2, 0, 0, 0, 1]"

lemma example_prepared:
  "prepare_proxy_request (example_head @ items_bytes [Delim 0x01] @ 0x03 # [42]) example_uri (Some c)
    = Inr (example_head @ items_bytes [Delim 0x01, Field 0x45 PU (as_bytes example_uri),
        Field 0x41 NC (as_bytes c)] @ 0x03 # [42])"
  using proxy_loop_items [of "[Delim 0x01]" example_uri "Some c" "[42]" "[]" False False example_head]
  by (simp add: prepare_proxy_request_def example_head_def Request_parse_def is_delimiter_def
      channel_items_def)

lemma example_lengths: "str_len example_uri \<le> 65535" "str_len (lit ''secret'') \<le> 65535"
  by (simp_all add: example_uri_def as_bytes_def utf8_char_def)

theorem proxy_request_rewritten_witness:
  "\<exists>its. values_named NC its = [as_bytes (lit ''secret'')] \<and> list_all item_ok its"
  using proxy_request_rewritten [OF example_prepared [of "lit ''secret''"] example_lengths(1)]
    example_lengths(2) by auto

theorem forwarded_channel_read_witness:
  "\<exists>out r. prepare_proxy_request (example_head @ items_bytes [Delim 0x01] @ 0x03 # [42]) example_uri
       (Some (lit ''secret'')) = Inr out
    \<and> Request_parse out = Inr r
    \<and> value_text r (lit ''network-channel'') = Some (trim_end_matches 0 (lit ''secret''))"
proof -
  have "wf_ustr (lit ''secret'')" by (simp add: is_scalar_def)
  from forwarded_channel_read [OF example_prepared [of "lit ''secret''"] _ _ example_lengths this]
  show ?thesis using example_prepared [of "lit ''secret''"]
    by (auto simp: example_head_def is_delimiter_def)
qed

theorem masked_channel_wins_witness:
  "\<exists>out r. prepare_proxy_request
       (example_head @ items_bytes [Delim 0x01, Field 0x41 (NC @ [0]) (as_bytes (lit ''mine''))]
         @ 0x03 # [42]) example_uri (Some (lit ''secret'')) = Inr out
    \<and> Request_parse out = Inr r \<and> value_text r (lit ''network-channel'') = Some (lit ''mine'')"
proof -
  have "plain_name (lit ''mine'')" by (simp add: plain_name_ascii)
  then show ?thesis
    by (rule masked_channel_wins [OF _ example_lengths(2,1) _ refl]) (simp add: example_head_def)
qed


end
