(* ===== verification/Trust_Store.thy ===== *)
theory Trust_Store
  imports Ipp_Proxy Key_Map
begin

text \<open>
  \<open>adapters/client_connections.rs\<close>: the saved approvals of server certificates (trust on first use)
  and every operation that contacts a server. The state is the approvals in memory and the file on
  disk. The network is an argument: what dialling an address gives, and, on an open connection, what
  the server answers to the bytes written. An operation also returns the writes it made, in
  order, so that what leaves the machine can be stated. The operations hold the approval lock around
  their disk access, which is the atomic step here; a poisoned lock and a stopped worker, which need
  a panic elsewhere, are not modelled.
\<close>

section \<open>State and environment\<close>

type_synonym approvals = "(ustr \<times> ustr) list"

datatype TrustFile = NoFile | OpenFails | NotJson | Stored approvals

record ClientConnections =
  store :: approvals
  trust_file :: TrustFile

text \<open>The outcomes of \<open>fs::write\<close> on the temporary file and of \<open>fs::rename\<close>.\<close>

record DiskOutcome =
  write_ok :: bool
  rename_ok :: bool

datatype Exchange = ExchangeTimeout | ExchangeFails | Reply bytes

datatype Dial = TcpTimeout | TcpRefused | NoTlsConfig | BadServerName | TlsTimeout | TlsFails
  | NoCertificate | Connected bytes "bytes \<Rightarrow> Exchange"

type_synonym network = "ServerAddress \<Rightarrow> Dial"

datatype Written = Written (written_to: ServerAddress) (written_bytes: bytes)

definition MAX_RESPONSE :: nat where "MAX_RESPONSE = 1024 * 1024"

section \<open>Fingerprints and connections\<close>

definition fingerprint :: "(bytes \<Rightarrow> bytes) \<Rightarrow> bytes \<Rightarrow> ustr" where
  "fingerprint sha256 cert = join [58] (map hex_upper (sha256 cert))"

definition is_hexdigit_byte :: "u8 \<Rightarrow> bool" where
  "is_hexdigit_byte b \<longleftrightarrow> (48 \<le> b \<and> b \<le> 57) \<or> (97 \<le> b \<and> b \<le> 102) \<or> (65 \<le> b \<and> b \<le> 70)"

definition validate_fingerprint :: "ustr \<Rightarrow> AppError + unit" where
  "validate_fingerprint value =
     (if str_len value \<noteq> 95
         \<or> \<not> list_all (\<lambda>(i, b). if i mod 3 = 2 then b = 58 else is_hexdigit_byte b)
              (enumerate 0 (as_bytes value))
      then Inl (invalid_input (lit ''The reviewed certificate fingerprint is invalid. Inspect the server again before approving.''))
      else Inr ())"

definition ascii_upper :: "uchar \<Rightarrow> uchar" where
  "ascii_upper c = (if 97 \<le> c \<and> c \<le> 122 then c - 32 else c)"

definition connect ::
  "(bytes \<Rightarrow> bytes) \<Rightarrow> network \<Rightarrow> ServerAddress \<Rightarrow> AppError + (bytes \<Rightarrow> Exchange) \<times> ustr" where
  "connect sha256 net address =
     (case net address of
        TcpTimeout \<Rightarrow> Inl (server_unavailable (lit ''The server did not respond. Check its address, network route, firewall, and that IPPS sharing is running.''))
      | TcpRefused \<Rightarrow> Inl (server_unavailable (lit ''Could not reach the server. Check its address, network route, firewall, and that IPPS sharing is running.''))
      | NoTlsConfig \<Rightarrow> Inl (internal_error (lit ''This device could not configure secure IPPS.''))
      | BadServerName \<Rightarrow> Inl invalid_address
      | TlsTimeout \<Rightarrow> Inl (server_unavailable (lit ''The secure connection timed out. Check the server address and that IPPS sharing is running.''))
      | TlsFails \<Rightarrow> Inl (server_unavailable (lit ''The server could not complete a secure IPPS connection. Check that it is an IPPS server and retry.''))
      | NoCertificate \<Rightarrow> Inl (internal_error (lit ''The server did not present a certificate. Confirm the address points to an IPPS server.''))
      | Connected cert stream \<Rightarrow> Inr (stream, fingerprint sha256 cert))"

definition observe_fingerprint ::
  "(bytes \<Rightarrow> bytes) \<Rightarrow> network \<Rightarrow> ServerAddress \<Rightarrow> AppError + ustr" where
  "observe_fingerprint sha256 net address =
     and_then (connect sha256 net address) (\<lambda>(_, fp). Inr fp)"

section \<open>The trust file\<close>

definition read_trust_store :: "TrustFile \<Rightarrow> AppError + approvals" where
  "read_trust_store f =
     (case f of
        Stored m \<Rightarrow> Inr m
      | NotJson \<Rightarrow> Inl (internal_error (lit ''Saved server approvals could not be read. Restore or remove client-server-trust.json, then review each server again.''))
      | NoFile \<Rightarrow> Inr []
      | OpenFails \<Rightarrow> Inl (internal_error (lit ''Saved server approvals could not be opened. Check app data directory permissions.'')))"

definition refresh_store :: "ClientConnections \<Rightarrow> (AppError + approvals) \<times> ClientConnections" where
  "refresh_store st =
     (case read_trust_store (trust_file st) of
        Inl e \<Rightarrow> (Inl e, st)
      | Inr latest \<Rightarrow> (Inr latest, st\<lparr>store := latest\<rparr>))"

text \<open>The file is replaced by renaming a complete temporary file, so a failure leaves the old one.\<close>

definition persist ::
  "DiskOutcome \<Rightarrow> approvals \<Rightarrow> ClientConnections \<Rightarrow> (AppError + unit) \<times> ClientConnections" where
  "persist disk m st =
     (if \<not> write_ok disk
      then (Inl (internal_error (lit ''Could not save the server approval. Check app data directory permissions.'')), st)
      else if \<not> rename_ok disk
      then (Inl (internal_error (lit ''Could not finish saving the server approval. Check app data directory permissions and try again.'')), st)
      else (Inr (), st\<lparr>trust_file := Stored m\<rparr>))"

definition ClientConnections_new :: "bool \<Rightarrow> TrustFile \<Rightarrow> AppError + ClientConnections" where
  "ClientConnections_new directory_ok f =
     (if \<not> directory_ok
      then Inl (internal_error (lit ''Cannot create the app data directory for saved server approvals.''))
      else and_then (read_trust_store f) (\<lambda>m. Inr \<lparr>store = m, trust_file = f\<rparr>))"

section \<open>Approvals\<close>

record ConnectionReview =
  review_address :: ustr
  current_fingerprint :: ustr
  previous_fingerprint :: "ustr option"
  trusted :: bool

definition list_trusted_servers ::
  "ClientConnections \<Rightarrow> (AppError + (ustr \<times> ustr) list) \<times> ClientConnections" where
  "list_trusted_servers st = refresh_store st"

definition forget_trusted_server ::
  "DiskOutcome \<Rightarrow> ustr \<Rightarrow> ClientConnections \<Rightarrow> (AppError + unit) \<times> ClientConnections" where
  "forget_trusted_server disk input st =
     (case ServerAddress_parse input of
        Inl e \<Rightarrow> (Inl e, st)
      | Inr address \<Rightarrow>
          (case refresh_store st of
             (Inl e, st) \<Rightarrow> (Inl e, st)
           | (Inr m, st) \<Rightarrow>
               if map_of m (addr_normalized address) = None then (Inr (), st)
               else
                 let updated = bt_remove (addr_normalized address) m in
                 (case persist disk updated st of
                    (Inl e, st) \<Rightarrow> (Inl e, st)
                  | (Inr _, st) \<Rightarrow> (Inr (), st\<lparr>store := updated\<rparr>))))"

definition inspect ::
  "(bytes \<Rightarrow> bytes) \<Rightarrow> network \<Rightarrow> ustr \<Rightarrow> ClientConnections
    \<Rightarrow> (AppError + ConnectionReview) \<times> ClientConnections" where
  "inspect sha256 net input st =
     (case ServerAddress_parse input of
        Inl e \<Rightarrow> (Inl e, st)
      | Inr address \<Rightarrow>
     (case observe_fingerprint sha256 net address of
        Inl e \<Rightarrow> (Inl e, st)
      | Inr live \<Rightarrow>
          (case refresh_store st of
             (Inl e, st) \<Rightarrow> (Inl e, st)
           | (Inr m, st) \<Rightarrow>
               let approved = map_of m (addr_normalized address) in
               (Inr \<lparr>review_address = addr_normalized address, current_fingerprint = live,
                     previous_fingerprint = approved, trusted = (approved = Some live)\<rparr>, st))))"

definition approve ::
  "(bytes \<Rightarrow> bytes) \<Rightarrow> network \<Rightarrow> DiskOutcome \<Rightarrow> ustr \<Rightarrow> ustr \<Rightarrow> ClientConnections
    \<Rightarrow> (AppError + ConnectionReview) \<times> ClientConnections" where
  "approve sha256 net disk input observed st =
     (case ServerAddress_parse input of
        Inl e \<Rightarrow> (Inl e, st)
      | Inr address \<Rightarrow>
     (case validate_fingerprint observed of
        Inl e \<Rightarrow> (Inl e, st)
      | Inr _ \<Rightarrow>
     (case observe_fingerprint sha256 net address of
        Inl e \<Rightarrow> (Inl e, st)
      | Inr live \<Rightarrow>
          if live \<noteq> map ascii_upper observed
          then (Inl (invalid_state (lit ''The server certificate changed since review. Inspect it again and approve only the fingerprint currently shown.'')), st)
          else
            (case refresh_store st of
               (Inl e, st) \<Rightarrow> (Inl e, st)
             | (Inr m, st) \<Rightarrow>
                 let updated = bt_insert (addr_normalized address) live m in
                 (case persist disk updated st of
                    (Inl e, st) \<Rightarrow> (Inl e, st)
                  | (Inr _, st) \<Rightarrow>
                      (Inr \<lparr>review_address = addr_normalized address, current_fingerprint = live,
                            previous_fingerprint = None, trusted = True\<rparr>,
                       st\<lparr>store := updated\<rparr>))))))"

section \<open>Exchanges\<close>

definition http_post :: "ServerAddress \<Rightarrow> nat \<Rightarrow> bytes" where
  "http_post address len =
     as_bytes (lit ''POST /ipp/print HTTP/1.1'' @ [13, 10] @ lit ''Host: '' @ ServerAddress_socket address
       @ [13, 10] @ lit ''Content-Type: application/ipp'' @ [13, 10]
       @ lit ''Content-Length: '' @ show_nat len @ [13, 10] @ lit ''Connection: close'' @ [13, 10, 13, 10])"

text \<open>\<open>windows(4).position\<close>: the first position of the blank line, plus four.\<close>

fun head_end :: "bytes \<Rightarrow> nat option" where
  "head_end (a # b # c # d # rest) =
     (if [a, b, c, d] = [13, 10, 13, 10] then Some 4
      else map_option Suc (head_end (b # c # d # rest)))"
| "head_end _ = None"

definition bytes_start_with :: "bytes \<Rightarrow> bytes \<Rightarrow> bool" where
  "bytes_start_with s p \<longleftrightarrow> take (length p) s = p"

definition query_printers ::
  "ServerAddress \<Rightarrow> (bytes \<Rightarrow> Exchange) \<Rightarrow> (AppError + ustr list) \<times> Written list" where
  "query_printers address tls =
     (let request = http_post address (length printer_query) @ printer_query in
      (case tls request of
         ExchangeTimeout \<Rightarrow> Inl (timeout_error (lit ''The printer query timed out. Check that the server is online and sharing printers.''))
       | ExchangeFails \<Rightarrow> Inl (internal_error (lit ''Could not complete the printer query. Check the server IPPS endpoint and retry.''))
       | Reply reply \<Rightarrow>
           (let response = take (MAX_RESPONSE + 8192) reply in
            and_then (ok_or (head_end response) (invalid_state (lit ''The server returned an invalid HTTP response. Confirm it is the ShaPrint IPPS endpoint.''))) (\<lambda>boundary.
            if \<not> bytes_start_with (take boundary response) (ascii ''HTTP/1.1 200'')
            then Inl (invalid_state (lit ''The IPPS server rejected the printer query. Confirm sharing is enabled and retry.''))
            else parse_printers (drop boundary response))),
       [Written address request]))"

record ConnectionPrinters =
  printers_address :: ustr
  printer_names :: "ustr list"

definition printers ::
  "(bytes \<Rightarrow> bytes) \<Rightarrow> network \<Rightarrow> ustr \<Rightarrow> ClientConnections
    \<Rightarrow> (AppError + ConnectionPrinters) \<times> ClientConnections \<times> Written list" where
  "printers sha256 net input st =
     (case ServerAddress_parse input of
        Inl e \<Rightarrow> (Inl e, st, [])
      | Inr address \<Rightarrow>
     (case refresh_store st of
        (Inl e, st) \<Rightarrow> (Inl e, st, [])
      | (Inr m, st) \<Rightarrow>
     (case map_of m (addr_normalized address) of
        None \<Rightarrow> (Inl (server_not_trusted (lit ''This server is not approved. Inspect its certificate fingerprint and explicitly approve it before listing shared printers.'')), st, [])
      | Some pinned \<Rightarrow>
     (case connect sha256 net address of
        Inl e \<Rightarrow> (Inl e, st, [])
      | Inr (stream, live) \<Rightarrow>
          if live \<noteq> pinned
          then (Inl (server_identity_changed (lit ''The server certificate changed. Previously approved: '' @ pinned @ lit ''. Currently presented: '' @ live @ lit ''. Shared printers are blocked; inspect the current fingerprint and explicitly reapprove it only if you trust the change.'')), st, [])
          else
            (case query_printers address stream of
               (Inl e, w) \<Rightarrow> (Inl e, st, w)
             | (Inr names, w) \<Rightarrow>
                 (Inr \<lparr>printers_address = addr_normalized address, printer_names = names\<rparr>, st, w))))))"

datatype TrustedServerStatus = Online | Offline | IdentityChanged

record TrustedServerProbe =
  probe_address :: ustr
  probe_status :: TrustedServerStatus
  approved_fingerprint :: ustr
  probe_fingerprint :: "ustr option"
  probe_printers :: "ustr list"

definition probe_trusted_server ::
  "(bytes \<Rightarrow> bytes) \<Rightarrow> network \<Rightarrow> ustr \<Rightarrow> ClientConnections
    \<Rightarrow> (AppError + TrustedServerProbe) \<times> ClientConnections \<times> Written list" where
  "probe_trusted_server sha256 net input st =
     (case ServerAddress_parse input of
        Inl e \<Rightarrow> (Inl e, st, [])
      | Inr address \<Rightarrow>
     (case refresh_store st of
        (Inl e, st) \<Rightarrow> (Inl e, st, [])
      | (Inr m, st) \<Rightarrow>
     (case map_of m (addr_normalized address) of
        None \<Rightarrow> (Inl (server_not_trusted (lit ''This server is not approved. Inspect its certificate fingerprint and explicitly approve it before probing its status.'')), st, [])
      | Some pinned \<Rightarrow>
          let probe = (\<lambda>status current names.
                \<lparr>probe_address = addr_normalized address, probe_status = status,
                 approved_fingerprint = pinned, probe_fingerprint = current,
                 probe_printers = names\<rparr>) in
          (case connect sha256 net address of
             Inl _ \<Rightarrow> (Inr (probe Offline None []), st, [])
           | Inr (stream, current) \<Rightarrow>
               if current \<noteq> pinned then (Inr (probe IdentityChanged (Some current) []), st, [])
               else
                 (case query_printers address stream of
                    (Inr names, w) \<Rightarrow> (Inr (probe Online (Some current) names), st, w)
                  | (Inl _, w) \<Rightarrow> (Inr (probe Offline (Some current) []), st, w))))))"

definition forward_ipp ::
  "(bytes \<Rightarrow> bytes) \<Rightarrow> network \<Rightarrow> ustr \<Rightarrow> ustr \<Rightarrow> bytes \<Rightarrow> ustr option \<Rightarrow> ClientConnections
    \<Rightarrow> (AppError + bytes) \<times> ClientConnections \<times> Written list" where
  "forward_ipp sha256 net input printer_uri body network_channel st =
     (case ServerAddress_parse input of
        Inl e \<Rightarrow> (Inl e, st, [])
      | Inr address \<Rightarrow>
     (case refresh_store st of
        (Inl e, st) \<Rightarrow> (Inl e, st, [])
      | (Inr m, st) \<Rightarrow>
     (case map_of m (addr_normalized address) of
        None \<Rightarrow> (Inl (server_not_trusted (lit ''This server is not approved. Inspect its certificate fingerprint and explicitly approve it before printing.'')), st, [])
      | Some pinned \<Rightarrow>
     (case connect sha256 net address of
        Inl e \<Rightarrow> (Inl e, st, [])
      | Inr (tls, live) \<Rightarrow>
          if live \<noteq> pinned
          then (Inl (server_identity_changed (lit ''The server certificate changed. Printing is blocked until you inspect the current fingerprint and explicitly reapprove the server.'')), st, [])
          else
     (case prepare_proxy_request body printer_uri network_channel of
        Inl _ \<Rightarrow> (Inl (invalid_input (lit ''The local printer sent an invalid IPP request.'')), st, [])
      | Inr request \<Rightarrow>
          let sent = http_post address (length request) @ request in
          ((case tls sent of
              ExchangeTimeout \<Rightarrow> Inl (server_unavailable (lit ''The print server did not finish the job in time. Check that it is online and sharing the selected printer.''))
            | ExchangeFails \<Rightarrow> Inl (server_unavailable (lit ''Could not complete the secure print request. Check that the server is online and sharing the selected printer.''))
            | Reply reply \<Rightarrow>
                (let response = take (MAX_RESPONSE + 8192) reply in
                 and_then (ok_or (head_end response) (invalid_state (lit ''The print server returned an invalid IPPS response.''))) (\<lambda>boundary.
                 if \<not> bytes_start_with (take boundary response) (ascii ''HTTP/1.1 200'')
                 then Inl (invalid_state (lit ''The IPPS server rejected the print request. Confirm it is a ShaPrint server and the selected printer is shared.''))
                 else
                   let ipp = drop boundary response in
                   if 9 \<le> length ipp \<and> length ipp \<le> MAX_RESPONSE then Inr ipp
                   else Inl (invalid_state (lit ''The print server returned an incomplete IPP response.''))))),
           st, [Written address sent]))))))"

section \<open>Troubleshooting inspection\<close>

datatype ServerIdentityInspection = Matching | NotTrusted | Changed

datatype ServerInspection =
    Reachable ServerIdentityInspection "bool option"
  | Unreachable
  | TimedOut

definition inspect_server ::
  "(bytes \<Rightarrow> bytes) \<Rightarrow> network \<Rightarrow> ustr \<Rightarrow> ustr \<Rightarrow> ClientConnections
    \<Rightarrow> (AppError + ServerInspection) \<times> ClientConnections \<times> Written list" where
  "inspect_server sha256 net server_address printer_name st =
     (case ServerAddress_parse server_address of
        Inl _ \<Rightarrow> (Inr Unreachable, st, [])
      | Inr address \<Rightarrow>
     (case refresh_store st of
        (Inl e, st) \<Rightarrow> (Inl e, st, [])
      | (Inr m, st) \<Rightarrow>
     (case connect sha256 net address of
        Inl e \<Rightarrow> (Inr (if err_code e = Timeout then TimedOut else Unreachable), st, [])
      | Inr (stream, live) \<Rightarrow>
     (case map_of m (addr_normalized address) of
        None \<Rightarrow> (Inr (Reachable NotTrusted None), st, [])
      | Some pinned \<Rightarrow>
          if live \<noteq> pinned then (Inr (Reachable Changed None), st, [])
          else
            (case query_printers address stream of
               (Inr names, w) \<Rightarrow>
                 (Inr (Reachable Matching (Some (printer_name \<in> set names))), st, w)
             | (Inl _, w) \<Rightarrow> (Inr (Reachable Matching None), st, w))))))"

end
