(* ===== verification/Trust_Policy.thy ===== *)
theory Trust_Policy
  imports Trust_Store
begin

text \<open>
  What the trust store guarantees: nothing is written to a server whose certificate is not the saved
  one, an approval saves exactly the certificate that was reviewed, failures leave the file as it
  was, and every sequence of operations keeps the file's map well formed.
\<close>

section \<open>The saved approvals\<close>

definition saved :: "ClientConnections \<Rightarrow> approvals" where
  "saved st = (case read_trust_store (trust_file st) of Inr m \<Rightarrow> m | Inl _ \<Rightarrow> [])"

definition readable :: "ClientConnections \<Rightarrow> bool" where
  "readable st \<longleftrightarrow> is_ok (read_trust_store (trust_file st))"

lemma refresh_store_Inr:
  "refresh_store st = (Inr m, st') \<longleftrightarrow> readable st \<and> m = saved st \<and> st' = st\<lparr>store := saved st\<rparr>"
  by (auto simp: refresh_store_def saved_def readable_def split: sum.splits)

lemma refresh_store_Inl: "refresh_store st = (Inl e, st') \<Longrightarrow> st' = st \<and> \<not> readable st"
  by (auto simp: refresh_store_def readable_def split: sum.splits)

lemma refresh_store_readable:
  "readable st \<Longrightarrow> refresh_store st = (Inr (saved st), st\<lparr>store := saved st\<rparr>)"
  by (simp add: refresh_store_Inr)

lemma saved_simps [simp]:
  "saved (st\<lparr>store := m\<rparr>) = saved st" "saved (st\<lparr>trust_file := Stored m\<rparr>) = m"
  "readable (st\<lparr>store := m\<rparr>) = readable st" "readable (st\<lparr>trust_file := Stored m\<rparr>)"
  "saved (st\<lparr>trust_file := Stored m, store := m'\<rparr>) = m"
  "readable (st\<lparr>trust_file := Stored m, store := m'\<rparr>)"
  by (simp_all add: saved_def readable_def read_trust_store_def)

lemma saved_cong: "trust_file st = trust_file st' \<Longrightarrow> saved st = saved st' \<and> readable st = readable st'"
  by (simp add: saved_def readable_def)

lemma persist_Inr:
  "persist disk m st = (Inr u, st') \<longleftrightarrow>
    write_ok disk \<and> rename_ok disk \<and> st' = st\<lparr>trust_file := Stored m\<rparr>"
  by (auto simp: persist_def)

lemma persist_Inl: "persist disk m st = (Inl e, st') \<Longrightarrow> st' = st"
  by (auto simp: persist_def split: if_splits)

lemma connect_Inr:
  "connect sha256 net a = Inr (s, fp) \<longleftrightarrow>
    (\<exists>cert. net a = Connected cert s \<and> fp = fingerprint sha256 cert)"
  by (auto simp: connect_def split: Dial.splits)

lemma observe_fingerprint_Inr:
  "observe_fingerprint sha256 net a = Inr fp \<longleftrightarrow>
    (\<exists>cert s. net a = Connected cert s \<and> fp = fingerprint sha256 cert)"
  by (auto simp: observe_fingerprint_def result_simps connect_Inr)

lemma query_printers_writes:
  "query_printers a s = (r, w) \<Longrightarrow> w = [Written a (http_post a (length printer_query) @ printer_query)]"
  by (simp add: query_printers_def Let_def)

section \<open>Writes\<close>

definition may_write :: "(bytes \<Rightarrow> bytes) \<Rightarrow> network \<Rightarrow> ustr \<Rightarrow> ClientConnections \<Rightarrow> ServerAddress \<Rightarrow> bool" where
  "may_write sha256 net input st a \<longleftrightarrow>
     ServerAddress_parse input = Inr a
     \<and> (\<exists>cert s. net a = Connected cert s
          \<and> map_of (saved st) (addr_normalized a) = Some (fingerprint sha256 cert))"

lemma printers_writes:
  "printers sha256 net input st = (r, st', w) \<Longrightarrow> Written a bs \<in> set w \<Longrightarrow>
    may_write sha256 net input st a"
  by (auto simp: printers_def may_write_def refresh_store_Inr connect_Inr
      split: sum.splits prod.splits option.splits if_splits dest!: query_printers_writes)

lemma probe_writes:
  "probe_trusted_server sha256 net input st = (r, st', w) \<Longrightarrow> Written a bs \<in> set w \<Longrightarrow>
    may_write sha256 net input st a"
  by (auto simp: probe_trusted_server_def may_write_def refresh_store_Inr connect_Inr Let_def
      split: sum.splits prod.splits option.splits if_splits dest!: query_printers_writes)

lemma forward_writes:
  "forward_ipp sha256 net input uri body ch st = (r, st', w) \<Longrightarrow> Written a bs \<in> set w \<Longrightarrow>
    may_write sha256 net input st a
    \<and> (\<exists>request. prepare_proxy_request body uri ch = Inr request
         \<and> bs = http_post a (length request) @ request)"
  by (auto simp: forward_ipp_def may_write_def refresh_store_Inr connect_Inr Let_def
      split: sum.splits prod.splits option.splits if_splits)

lemma inspect_server_writes:
  "inspect_server sha256 net input nm st = (r, st', w) \<Longrightarrow> Written a bs \<in> set w \<Longrightarrow>
    may_write sha256 net input st a"
  by (auto simp: inspect_server_def may_write_def refresh_store_Inr connect_Inr
      split: sum.splits prod.splits option.splits if_splits dest!: query_printers_writes)

text \<open>C3: no byte of a request leaves for a server that is not approved. Whatever \<open>printers\<close>,
  \<open>probe_trusted_server\<close>, \<open>forward_ipp\<close> or \<open>inspect_server\<close> writes goes to the address the caller named,
  over a connection whose certificate has exactly the fingerprint saved on disk for that address.\<close>

theorem writes_only_to_pinned:
  assumes "printers sha256 net input st = (r1, st', w)
    \<or> probe_trusted_server sha256 net input st = (r2, st', w)
    \<or> forward_ipp sha256 net input uri body ch st = (r3, st', w)
    \<or> inspect_server sha256 net input nm st = (r4, st', w)"
    and "Written a bs \<in> set w"
  shows "ServerAddress_parse input = Inr a
    \<and> (\<exists>cert s. net a = Connected cert s
         \<and> map_of (saved st) (addr_normalized a) = Some (fingerprint sha256 cert))"
proof -
  have "may_write sha256 net input st a"
    using assms(1)
    by (elim disjE) (erule printers_writes [OF _ assms(2)] probe_writes [OF _ assms(2)]
        forward_writes [OF _ assms(2), THEN conjunct1] inspect_server_writes [OF _ assms(2)])+
  then show ?thesis by (simp add: may_write_def)
qed

section \<open>A changed certificate\<close>

text \<open>C34: a changed certificate stops everything. When the live certificate differs from the saved
  one, listing printers and printing fail with \<open>ServerIdentityChanged\<close>, a probe reports the change
  with no printers, the troubleshooting inspection reports it too; none of them writes a byte to the
  server, and the saved approvals stay.\<close>

theorem changed_certificate_blocks:
  assumes "ServerAddress_parse input = Inr a" "readable st"
    and "map_of (saved st) (addr_normalized a) = Some pinned"
    and "net a = Connected cert s" "fingerprint sha256 cert \<noteq> pinned"
  shows "\<exists>e1 e3 p st'.
    printers sha256 net input st = (Inl e1, st', []) \<and> err_code e1 = ServerIdentityChanged
    \<and> forward_ipp sha256 net input uri body ch st = (Inl e3, st', [])
    \<and> err_code e3 = ServerIdentityChanged
    \<and> probe_trusted_server sha256 net input st = (Inr p, st', [])
    \<and> probe_status p = IdentityChanged \<and> probe_printers p = []
    \<and> inspect_server sha256 net input nm st = (Inr (Reachable Changed None), st', [])
    \<and> saved st' = saved st"
  using assms
  by (auto simp: printers_def forward_ipp_def probe_trusted_server_def inspect_server_def Let_def
      refresh_store_readable connect_def server_identity_changed_def app_error_def)

section \<open>Approving and forgetting\<close>

lemma approve_Inr:
  assumes "approve sha256 net disk input observed st = (Inr review, st')"
  obtains a cert s where "ServerAddress_parse input = Inr a" "net a = Connected cert s"
    "map ascii_upper observed = fingerprint sha256 cert" "readable st"
    "st' = st\<lparr>trust_file := Stored (bt_insert (addr_normalized a) (fingerprint sha256 cert) (saved st)),
      store := bt_insert (addr_normalized a) (fingerprint sha256 cert) (saved st)\<rparr>"
    "review = \<lparr>review_address = addr_normalized a, current_fingerprint = fingerprint sha256 cert,
      previous_fingerprint = None, trusted = True\<rparr>"
  using assms
  by (auto simp: approve_def refresh_store_Inr persist_Inr observe_fingerprint_Inr Let_def
      split: sum.splits prod.splits if_splits)

text \<open>C33: an approval saves the certificate that was reviewed, and nothing else. When \<open>approve\<close>
  succeeds, the fingerprint the user reviewed is, up to the case of its digits, the fingerprint of
  the certificate the server presents now; it is saved under the canonical address, on disk and in
  memory, and every other approval stays. When it fails, the file on disk is as it was.\<close>

theorem approval_saves_reviewed:
  assumes "bt_wf (saved st)" "approve sha256 net disk input observed st = (result, st')"
  shows "(case result of
      Inr review \<Rightarrow> \<exists>a cert s. ServerAddress_parse input = Inr a \<and> net a = Connected cert s
        \<and> map ascii_upper observed = fingerprint sha256 cert
        \<and> (\<forall>k. map_of (saved st') k = (if k = addr_normalized a then Some (fingerprint sha256 cert)
                                        else map_of (saved st) k))
        \<and> store st' = saved st' \<and> bt_wf (saved st')
    | Inl e \<Rightarrow> trust_file st' = trust_file st)"
proof (cases result)
  case (Inl e)
  with assms(2) show ?thesis
    by (auto simp: approve_def refresh_store_Inr Let_def
        split: sum.splits prod.splits if_splits dest!: refresh_store_Inl persist_Inl)
next
  case (Inr review)
  with assms(2) have "approve sha256 net disk input observed st = (Inr review, st')" by simp
  then obtain a cert s where a: "ServerAddress_parse input = Inr a" "net a = Connected cert s"
    "map ascii_upper observed = fingerprint sha256 cert"
    "st' = st\<lparr>trust_file := Stored (bt_insert (addr_normalized a) (fingerprint sha256 cert) (saved st)),
      store := bt_insert (addr_normalized a) (fingerprint sha256 cert) (saved st)\<rparr>"
    by (rule approve_Inr) blast
  then show ?thesis
    using Inr bt.get_put [OF assms(1)] bt.wf_put [OF assms(1)] by simp
qed

text \<open>Forgetting a server removes its approval and no other, and repeating it is safe. After
  \<open>forget_trusted_server\<close> succeeds, the address has no saved fingerprint and every other address
  keeps its own; a second call succeeds and leaves the file as it is; and a failed call leaves
  the file as it was.\<close>

theorem forget_removes_only:
  assumes "bt_wf (saved st)" "ServerAddress_parse input = Inr a"
    and "forget_trusted_server disk input st = (result, st')"
  shows "(case result of
      Inr _ \<Rightarrow> (\<forall>k. map_of (saved st') k
              = (if k = addr_normalized a then None else map_of (saved st) k))
        \<and> bt_wf (saved st')
        \<and> (\<exists>st''. forget_trusted_server disk' input st' = (Inr (), st'')
              \<and> trust_file st'' = trust_file st')
    | Inl e \<Rightarrow> trust_file st' = trust_file st)"
proof (cases result)
  case (Inl e)
  with assms(2,3) show ?thesis
    by (auto simp: forget_trusted_server_def refresh_store_Inr Let_def
        split: sum.splits prod.splits if_splits dest!: refresh_store_Inl persist_Inl)
next
  case (Inr u)
  with assms(2,3) have r: "readable st"
    by (auto simp: forget_trusted_server_def refresh_store_Inr split: sum.splits prod.splits)
  show ?thesis
  proof (cases "map_of (saved st) (addr_normalized a)")
    case None
    then have "st' = st\<lparr>store := saved st\<rparr>"
      using assms(2,3) r by (simp add: forget_trusted_server_def refresh_store_readable)
    with Inr None assms(1,2) r show ?thesis
      by (auto simp: forget_trusted_server_def refresh_store_readable)
  next
    case (Some fp)
    let ?m = "bt_remove (addr_normalized a) (saved st)"
    have st': "st' = st\<lparr>trust_file := Stored ?m, store := ?m\<rparr>"
      using assms(2,3) r Some Inr
      by (auto simp: forget_trusted_server_def refresh_store_readable Let_def persist_Inr
          split: prod.splits sum.splits)
    have "map_of ?m (addr_normalized a) = None" using bt.get_del [OF assms(1)] by simp
    then have "forget_trusted_server disk' input st' = (Inr (), st'\<lparr>store := ?m\<rparr>)"
      using assms(2) by (simp add: forget_trusted_server_def st' refresh_store_readable)
    then show ?thesis
      using Inr bt.get_del [OF assms(1)] bt.wf_del [OF assms(1)] by (auto simp: st')
  qed
qed

section \<open>Printing through an approved server\<close>


section \<open>Every sequence of operations\<close>

inductive trust_step :: "(bytes \<Rightarrow> bytes) \<Rightarrow> ClientConnections \<Rightarrow> ClientConnections \<Rightarrow> bool"
  for sha256 where
  "list_trusted_servers st = (r, st') \<Longrightarrow> trust_step sha256 st st'"
| "forget_trusted_server disk input st = (r, st') \<Longrightarrow> trust_step sha256 st st'"
| "inspect sha256 net input st = (r, st') \<Longrightarrow> trust_step sha256 st st'"
| "approve sha256 net disk input observed st = (r, st') \<Longrightarrow> trust_step sha256 st st'"
| "printers sha256 net input st = (r, st', w) \<Longrightarrow> trust_step sha256 st st'"
| "probe_trusted_server sha256 net input st = (r, st', w) \<Longrightarrow> trust_step sha256 st st'"
| "forward_ipp sha256 net input uri body ch st = (r, st', w) \<Longrightarrow> trust_step sha256 st st'"
| "inspect_server sha256 net input nm st = (r, st', w) \<Longrightarrow> trust_step sha256 st st'"

inductive_cases trust_stepE: "trust_step sha256 st st'"

lemma refresh_store_keeps: "refresh_store st = (r, st') \<Longrightarrow> trust_file st' = trust_file st"
  by (auto simp: refresh_store_def split: sum.splits)

lemma reading_keeps:
  "list_trusted_servers st = (r, st') \<Longrightarrow> trust_file st' = trust_file st"
  "inspect sha256 net input st = (r1, st') \<Longrightarrow> trust_file st' = trust_file st"
  "printers sha256 net input st = (r2, st', w) \<Longrightarrow> trust_file st' = trust_file st"
  "probe_trusted_server sha256 net input st = (r3, st', w) \<Longrightarrow> trust_file st' = trust_file st"
  "forward_ipp sha256 net input uri body ch st = (r4, st', w) \<Longrightarrow> trust_file st' = trust_file st"
  "inspect_server sha256 net input nm st = (r5, st', w) \<Longrightarrow> trust_file st' = trust_file st"
  by (auto simp: list_trusted_servers_def inspect_def printers_def probe_trusted_server_def
      forward_ipp_def inspect_server_def Let_def
      split: sum.splits prod.splits option.splits if_splits dest!: refresh_store_keeps)

lemma approve_keeps_wf:
  assumes "bt_wf (saved st)" "approve sha256 net disk input observed st = (r, st')"
  shows "bt_wf (saved st')"
proof (cases r)
  case (Inl e)
  with assms(2) have "trust_file st' = trust_file st"
    by (auto simp: approve_def refresh_store_Inr Let_def
        split: sum.splits prod.splits if_splits dest!: refresh_store_Inl persist_Inl)
  with assms(1) saved_cong show ?thesis by metis
next
  case (Inr review)
  then show ?thesis using assms by (auto elim!: approve_Inr simp: bt.wf_put)
qed

lemma forget_keeps_wf:
  assumes "bt_wf (saved st)" "forget_trusted_server disk input st = (r, st')"
  shows "bt_wf (saved st')"
  using assms
  by (auto simp: forget_trusted_server_def refresh_store_Inr persist_Inr Let_def bt.wf_del
      split: sum.splits prod.splits if_splits dest!: refresh_store_Inl persist_Inl)

lemma trust_step_wf: "trust_step sha256 st st' \<Longrightarrow> bt_wf (saved st) \<Longrightarrow> bt_wf (saved st')"
  by (induction rule: trust_step.induct)
    (metis reading_keeps saved_cong forget_keeps_wf approve_keeps_wf)+


section \<open>Fingerprints\<close>

lemma fingerprint_pairs: "fmt_pairs (Suc n) bs = concat (map (\<lambda>b. 58 # hex_upper b) bs)"
  by (induction bs arbitrary: n) simp_all

lemma join_pairs: "join [58] (map hex_upper (b # bs)) = hex_upper b @ concat (map (\<lambda>b. 58 # hex_upper b) bs)"
  by (induction bs arbitrary: b) (auto simp: join_Cons)

definition review_byte :: "nat \<times> u8 \<Rightarrow> bool" where
  "review_byte = (\<lambda>(i, b). if i mod 3 = 2 then b = 58 else is_hexdigit_byte b)"

lemma review_byte_simps [simp]:
  "k mod 3 = 0 \<Longrightarrow> review_byte (k, b) = is_hexdigit_byte b"
  "k mod 3 = 0 \<Longrightarrow> review_byte (Suc k, b) = is_hexdigit_byte b"
  "k mod 3 = 0 \<Longrightarrow> review_byte (Suc (Suc k), b) = (b = 58)"
  by (simp_all add: review_byte_def mod_Suc)

lemma hex_pair_facts:
  "n < 16 \<Longrightarrow> hex_digit_upper n < 128 \<and> is_hexdigit_byte (of_nat (hex_digit_upper n))
    \<and> ascii_upper (hex_digit_upper n) = hex_digit_upper n"
  by (erule nibble_all [rotated])
    (simp add: upt_conv_Cons hex_digit_upper_def is_hexdigit_byte_def ascii_upper_def)

lemma hex_pairs_reviewable:
  fixes bs :: bytes
  defines "t \<equiv> join [58] (map hex_upper bs)"
  assumes "bs \<noteq> []"
  shows "k mod 3 = 0 \<Longrightarrow> list_all review_byte (enumerate k (as_bytes t))"
    and "Suc (str_len t) = 3 * length bs" and "map ascii_upper t = t"
  using assms(2) unfolding t_def
proof (induction bs arbitrary: k)
  case (Cons b bs)
  { case 1 then show ?case using hex_pair_facts nibble_bounds [of b] Cons.IH(1) [of "Suc (Suc (Suc k))"]
      by (cases bs) (auto simp: hex_upper_def mod_Suc) }
  { case 2 then show ?case using hex_pair_facts nibble_bounds [of b] Cons.IH(2)
      by (cases bs) (auto simp: hex_upper_def) }
  { case 3 then show ?case using hex_pair_facts nibble_bounds [of b] Cons.IH(3)
      by (cases bs) (auto simp: hex_upper_def ascii_upper_def) }
qed simp_all

lemma fingerprint_reviewable:
  assumes "length (sha256 cert) = 32"
  shows "validate_fingerprint (fingerprint sha256 cert) = Inr ()"
    "map ascii_upper (fingerprint sha256 cert) = fingerprint sha256 cert"
proof -
  from assms have "sha256 cert \<noteq> []" by auto
  note f = hex_pairs_reviewable [OF this]
  show "validate_fingerprint (fingerprint sha256 cert) = Inr ()"
    using f(1) [of 0] f(2) assms by (simp add: validate_fingerprint_def fingerprint_def review_byte_def)
  show "map ascii_upper (fingerprint sha256 cert) = fingerprint sha256 cert"
    using f(3) by (simp add: fingerprint_def)
qed

text \<open>Client and server show the same fingerprint. The text the client saves and compares for a
  certificate is, for every certificate, the text the server shows for its own
  (\<open>CertificateFingerprint\<close> of \<open>domain/identity.rs\<close>), so the two can be compared by eye.\<close>

theorem fingerprints_agree:
  "fingerprint sha256 cert = fingerprint_fmt (of_der sha256 cert)"
  by (cases "sha256 cert")
    (simp_all add: fingerprint_def fingerprint_fmt_def of_der_def fingerprint_pairs
      join_pairs [simplified])

text \<open>A timed out server is reported as unreachable. The troubleshooting inspection has an
  outcome for a connection that times out, but \<open>connect\<close> reports a timeout with the code
  \<open>ServerUnavailable\<close>, so \<open>inspect_server\<close> never returns that outcome, on any input and network.\<close>

theorem timeout_outcome_unreachable:
  "fst (inspect_server sha256 net input nm st) \<noteq> Inr TimedOut"
  by (auto simp: inspect_server_def connect_def server_unavailable_def internal_error_def
      invalid_address_def invalid_input_def app_error_def
      split: sum.splits prod.splits option.splits if_splits Dial.splits)

end
