(* ===== verification/Trust_Witnesses.thy ===== *)
theory Trust_Witnesses
  imports Witnesses Trust_Policy
begin

text \<open>
  Concrete runs of the properties of the trust store: the server \<open>srv:631\<close> presents one
  certificate, is approved, and is forgotten again.
\<close>

definition example_host :: ServerAddress where
  "example_host = \<lparr>addr_host = lit ''srv'', addr_port = 631, addr_normalized = example_address\<rparr>"

definition example_sha :: "bytes \<Rightarrow> bytes" where
  "example_sha cert = replicate 32 (if cert = [1] then 171 else 0)"

definition example_net :: network where
  "example_net a = (if a = example_host then Connected [1] (\<lambda>_. ExchangeFails) else TcpRefused)"

definition example_pin :: ustr where "example_pin = fingerprint example_sha [1]"

definition example_disk :: DiskOutcome where
  "example_disk = \<lparr>write_ok = True, rename_ok = True\<rparr>"

definition example_store :: "approvals \<Rightarrow> ClientConnections" where
  "example_store m = \<lparr>store = m, trust_file = Stored m\<rparr>"

lemma example_parse: "ServerAddress_parse example_address = Inr example_host"
  by (simp add: example_server example_host_def)

lemma example_normalized: "addr_normalized example_host = example_address"
  by (simp add: example_host_def)

lemma example_dial: "example_net example_host = Connected [1] (\<lambda>_. ExchangeFails)"
  by (simp add: example_net_def)

lemma example_pin_valid: "validate_fingerprint example_pin = Inr ()"
  "map ascii_upper example_pin = example_pin"
  unfolding example_pin_def using fingerprint_reviewable by (simp_all add: example_sha_def)

lemma fingerprint_Cons: "sha256 cert = b # bs \<Longrightarrow>
    \<exists>rest. fingerprint sha256 cert = hex_upper b @ rest"
  by (cases bs) (auto simp: fingerprint_def)

lemma example_other: "fingerprint example_sha [] \<noteq> example_pin"
proof -
  have "example_sha [] = 0 # replicate 31 0" "example_sha [1] = 171 # replicate 31 171"
    by (simp_all add: example_sha_def flip: replicate_Suc)
  from fingerprint_Cons [of example_sha, OF this(1)] fingerprint_Cons [of example_sha, OF this(2)]
  show ?thesis by (auto simp: example_pin_def hex_upper_def hex_digit_upper_def)
qed

lemma example_saved: "saved (example_store m) = m" "readable (example_store m)"
  "trust_file (example_store m) = Stored m" "bt_wf [(a, b :: ustr)]"
  by (simp_all add: example_store_def saved_def readable_def read_trust_store_def bt_wf_def)

lemma example_approve: "\<exists>review. approve example_sha example_net example_disk example_address example_pin
    (example_store []) = (Inr review, example_store [(example_address, example_pin)])"
proof -
  have "fingerprint example_sha [1] = example_pin" by (simp add: example_pin_def)
  then show ?thesis
    by (simp add: approve_def example_parse example_normalized example_pin_valid
        observe_fingerprint_def connect_def example_dial refresh_store_readable example_saved
        persist_def example_disk_def Let_def)
      (simp add: example_store_def)
qed

lemma example_forget: "forget_trusted_server example_disk example_address
    (example_store [(example_address, example_pin)]) = (Inr (), example_store [])"
  by (simp add: forget_trusted_server_def example_parse example_normalized refresh_store_readable
      example_saved persist_def example_disk_def bt_remove_def)
    (simp add: example_store_def)

theorem writes_only_to_pinned_witness:
  "\<exists>a st' r w. probe_trusted_server example_sha example_net example_address
       (example_store [(example_address, example_pin)]) = (r, st', w)
     \<and> w \<noteq> [] \<and> (\<exists>cert s. example_net a = Connected cert s
         \<and> map_of [(example_address, example_pin)] (addr_normalized a)
             = Some (fingerprint example_sha cert))"
proof -
  let ?st = "example_store [(example_address, example_pin)]"
  obtain r st' w where p: "probe_trusted_server example_sha example_net example_address ?st = (r, st', w)"
    using prod_cases3 by blast
  then have w: "w = [Written example_host (http_post example_host (length printer_query) @ printer_query)]"
    by (auto simp: probe_trusted_server_def example_parse example_normalized refresh_store_readable
        example_saved connect_def example_dial query_printers_def Let_def
        simp flip: example_pin_def split: sum.splits)
  then have "Written example_host (http_post example_host (length printer_query) @ printer_query) \<in> set w"
    by simp
  from writes_only_to_pinned [OF disjI2 [OF disjI1 [OF p]] this] p w show ?thesis
    unfolding example_saved(1) by blast
qed

theorem changed_certificate_blocks_witness:
  "\<exists>e st'. printers example_sha example_net example_address
      (example_store [(example_address, fingerprint example_sha [])]) = (Inl e, st', [])
    \<and> err_code e = ServerIdentityChanged"
proof -
  let ?st = "example_store [(example_address, fingerprint example_sha [])]"
  have "map_of (saved ?st) (addr_normalized example_host) = Some (fingerprint example_sha [])"
    by (simp add: example_saved example_normalized)
  moreover have "fingerprint example_sha [1] \<noteq> fingerprint example_sha []"
    using example_other by (simp add: example_pin_def)
  ultimately show ?thesis
    using changed_certificate_blocks [of example_address example_host ?st
        "fingerprint example_sha []" example_net "[1]" "\<lambda>_. ExchangeFails" example_sha]
      example_parse example_saved(2) example_dial by blast
qed

theorem approval_saves_reviewed_witness:
  "map_of (saved (example_store [(example_address, example_pin)])) example_address
     = Some (fingerprint example_sha [1])"
proof -
  obtain review where "approve example_sha example_net example_disk example_address example_pin
    (example_store []) = (Inr review, example_store [(example_address, example_pin)])"
    using example_approve by blast
  from approval_saves_reviewed [OF _ this] show ?thesis
    by (auto simp: example_saved example_parse example_normalized example_dial example_pin_valid)
qed

theorem forget_removes_only_witness:
  "map_of (saved (example_store [])) example_address = (None :: ustr option)"
  using forget_removes_only [OF _ example_parse example_forget]
  by (simp add: example_saved example_normalized)

lemma example_forwarded: "prepare_proxy_request
    (example_head @ items_bytes [Delim 0x01] @ 0x03 # [42]) example_uri (Some c) \<noteq> Inl e"
  by (simp only: example_prepared) simp



end
