(* ===== verification/Job_Tracker.thy ===== *)
theory Job_Tracker
  imports Domain_Error
begin

text \<open>
  \<open>application/job_tracker.rs\<close>: the counters of requests and print jobs in flight, the drain mode,
  and the permit that closes admission for a restart. Every operation takes the state lock once and
  is one atomic step; the clock is an argument, in milliseconds. The counters are natural numbers:
  they count leases that are alive in memory, so they never reach the width of \<open>usize\<close>. A poisoned
  lock, which needs a panic inside one of these operations, is not modelled.
\<close>

section \<open>State and operations\<close>

definition DRAIN_COOLDOWN :: nat where "DRAIN_COOLDOWN = 8 * 1000"
definition QUIET_WINDOW :: nat where "QUIET_WINDOW = 15 * 60 * 1000"

record Tracker =
  active_jobs :: nat
  active_requests :: nat
  accepting_jobs :: bool
  draining :: bool
  last_completed_at :: "nat option"
  last_busy_at :: nat

definition Tracker_new :: "nat \<Rightarrow> Tracker" where
  "Tracker_new now =
     \<lparr>active_jobs = 0, active_requests = 0, accepting_jobs = True, draining = False,
      last_completed_at = None, last_busy_at = now\<rparr>"

definition elapsed :: "nat \<Rightarrow> nat \<Rightarrow> nat" where
  "elapsed now since = now - since"

definition promote_request :: "nat \<Rightarrow> Tracker \<Rightarrow> bool \<times> Tracker" where
  "promote_request now st =
     (if draining st \<or> \<not> accepting_jobs st then (False, st)
      else (True, st\<lparr>active_requests := active_requests st - 1, active_jobs := active_jobs st + 1,
                     last_busy_at := now\<rparr>))"

text \<open>The flag says whether \<open>notify_waiters\<close> wakes the tasks that wait in \<open>drain\<close>.\<close>

definition release :: "nat \<Rightarrow> bool \<Rightarrow> Tracker \<Rightarrow> bool \<times> Tracker" where
  "release now is_print_job st =
     (let st = (if is_print_job then
                  (let st = st\<lparr>active_jobs := active_jobs st - 1\<rparr>
                   in if active_jobs st = 0
                      then st\<lparr>last_completed_at := Some now, last_busy_at := now\<rparr> else st)
                else st\<lparr>active_requests := active_requests st - 1\<rparr>)
      in (active_jobs st = 0 \<and> active_requests st = 0, st))"

text \<open>A lease is the flag \<open>is_print_job\<close> of a \<open>RequestLease\<close>.\<close>

definition mark_print_job :: "nat \<Rightarrow> bool \<Rightarrow> Tracker \<Rightarrow> bool \<times> bool \<times> Tracker" where
  "mark_print_job now is_print_job st =
     (if is_print_job then (True, True, st)
      else (case promote_request now st of
              (False, st) \<Rightarrow> (False, False, st)
            | (True, st) \<Rightarrow> (True, True, st)))"

definition begin_drain :: "Tracker \<Rightarrow> Tracker" where
  "begin_drain st = st\<lparr>draining := True\<rparr>"

definition cancel_drain :: "Tracker \<Rightarrow> Tracker" where
  "cancel_drain st = st\<lparr>draining := False, accepting_jobs := True\<rparr>"

definition try_acquire_request :: "Tracker \<Rightarrow> (bool \<times> Tracker) option" where
  "try_acquire_request st =
     (if \<not> accepting_jobs st then None
      else Some (False, st\<lparr>active_requests := active_requests st + 1\<rparr>))"

definition is_restart_safe_with_cooldown :: "nat \<Rightarrow> nat \<Rightarrow> Tracker \<Rightarrow> bool" where
  "is_restart_safe_with_cooldown cooldown now st =
     (if active_jobs st > 0 \<or> active_requests st > 0 then False
      else (case last_completed_at st of
              Some completed_at \<Rightarrow> \<not> elapsed now completed_at < cooldown
            | None \<Rightarrow> True))"

definition is_restart_safe :: "nat \<Rightarrow> Tracker \<Rightarrow> bool" where
  "is_restart_safe = is_restart_safe_with_cooldown DRAIN_COOLDOWN"

definition try_begin_restart_with_cooldown :: "nat \<Rightarrow> nat \<Rightarrow> Tracker \<Rightarrow> Tracker option" where
  "try_begin_restart_with_cooldown cooldown now st =
     (if \<not> accepting_jobs st \<or> active_jobs st > 0 \<or> active_requests st > 0 then None
      else if (case last_completed_at st of
                 Some finished \<Rightarrow> elapsed now finished < cooldown | None \<Rightarrow> False) then None
      else Some (st\<lparr>accepting_jobs := False\<rparr>))"

definition try_begin_restart :: "nat \<Rightarrow> Tracker \<Rightarrow> Tracker option" where
  "try_begin_restart = try_begin_restart_with_cooldown DRAIN_COOLDOWN"

definition drop_permit :: "Tracker \<Rightarrow> Tracker" where
  "drop_permit st = st\<lparr>accepting_jobs := True\<rparr>"

definition is_idle_for :: "nat \<Rightarrow> nat \<Rightarrow> Tracker \<Rightarrow> bool" where
  "is_idle_for duration now st =
     (if active_jobs st > 0 then False else elapsed now (last_busy_at st) \<ge> duration)"

definition is_idle_for_quiet_window :: "nat \<Rightarrow> Tracker \<Rightarrow> bool" where
  "is_idle_for_quiet_window = is_idle_for QUIET_WINDOW"

text \<open>
  \<open>drain\<close> waits in a loop. Its argument \<open>wakes\<close> is what it finds: the state at each wake-up by a
  notification, in order, until the deadline passes, when \<open>late\<close> is the state. It returns the
  outcome and the state it leaves.
\<close>

fun drain_wait :: "Tracker \<Rightarrow> Tracker list \<Rightarrow> Tracker \<Rightarrow> (AppError + unit) \<times> Tracker" where
  "drain_wait st wakes late =
     (if active_jobs st = 0 \<and> active_requests st = 0 then (Inr (), st)
      else (case wakes of
              [] \<Rightarrow> (Inl (timeout_error (lit ''active print jobs did not complete within the drain window'')),
                     cancel_drain late)
            | st' # wakes \<Rightarrow> drain_wait st' wakes late))"

declare drain_wait.simps [simp del]

definition drain :: "Tracker \<Rightarrow> Tracker list \<Rightarrow> Tracker \<Rightarrow> (AppError + unit) \<times> Tracker" where
  "drain st wakes late = drain_wait (begin_drain st) wakes late"

section \<open>The tracker and its leases\<close>

text \<open>
  A world is the tracker with what holds on to it: the live leases, the number of live restart
  permits, the clock, and, for the properties only, the times at which a print job ended. A step
  is one operation by any task, or time passing.
\<close>

record World =
  tracker :: Tracker
  leases :: "bool list"
  permits :: nat
  clock :: nat
  ended_at :: "nat list"

datatype Action = Tick nat | Acquire | Mark nat | DropLease nat | BeginDrain | CancelDrain
  | BeginRestart | DropPermit

definition remove_at :: "nat \<Rightarrow> 'a list \<Rightarrow> 'a list" where
  "remove_at i xs = take i xs @ drop (Suc i) xs"

fun perform :: "Action \<Rightarrow> World \<Rightarrow> World" where
  "perform (Tick d) w = w\<lparr>clock := clock w + d\<rparr>"
| "perform Acquire w =
     (case try_acquire_request (tracker w) of
        None \<Rightarrow> w
      | Some (lease, st) \<Rightarrow> w\<lparr>tracker := st, leases := leases w @ [lease]\<rparr>)"
| "perform (Mark i) w =
     (if i < length (leases w) then
        (case mark_print_job (clock w) (leases w ! i) (tracker w) of
           (_, lease, st) \<Rightarrow> w\<lparr>tracker := st, leases := (leases w)[i := lease]\<rparr>)
      else w)"
| "perform (DropLease i) w =
     (if i < length (leases w) then
        w\<lparr>tracker := snd (release (clock w) (leases w ! i) (tracker w)),
          leases := remove_at i (leases w),
          ended_at := (if leases w ! i then clock w # ended_at w else ended_at w)\<rparr>
      else w)"
| "perform BeginDrain w = w\<lparr>tracker := begin_drain (tracker w)\<rparr>"
| "perform CancelDrain w = w\<lparr>tracker := cancel_drain (tracker w)\<rparr>"
| "perform BeginRestart w =
     (case try_begin_restart (clock w) (tracker w) of
        None \<Rightarrow> w
      | Some st \<Rightarrow> w\<lparr>tracker := st, permits := permits w + 1\<rparr>)"
| "perform DropPermit w =
     (if permits w > 0 then w\<lparr>tracker := drop_permit (tracker w), permits := permits w - 1\<rparr> else w)"

definition world_new :: "nat \<Rightarrow> World" where
  "world_new now = \<lparr>tracker = Tracker_new now, leases = [], permits = 0, clock = now, ended_at = []\<rparr>"

definition run :: "Action list \<Rightarrow> World \<Rightarrow> World" where
  "run as w = fold perform as w"

section \<open>Counting leases\<close>

definition jobs_in :: "bool list \<Rightarrow> nat" where "jobs_in ls = length (filter (\<lambda>l. l) ls)"
definition requests_in :: "bool list \<Rightarrow> nat" where "requests_in ls = length (filter Not ls)"

text \<open>The lease a handler still holds.\<close>

fun held_by :: "bool option \<Rightarrow> bool list" where
  "held_by None = []"
| "held_by (Some l) = [l]"

lemma lease_counts [simp]:
  "jobs_in [] = 0" "requests_in [] = 0"
  "jobs_in (ls @ ls') = jobs_in ls + jobs_in ls'"
  "requests_in (ls @ ls') = requests_in ls + requests_in ls'"
  "jobs_in (l # ls) = (if l then 1 else 0) + jobs_in ls"
  "requests_in (l # ls) = (if l then 0 else 1) + requests_in ls"
  by (simp_all add: jobs_in_def requests_in_def)

lemma lease_split: "i < length ls \<Longrightarrow> take i ls @ ls ! i # drop (Suc i) ls = ls"
  by (simp add: id_take_nth_drop [symmetric])

lemma count_at:
  assumes "i < length ls"
  shows "jobs_in ls = jobs_in (remove_at i ls) + (if ls ! i then 1 else 0)"
    "requests_in ls = requests_in (remove_at i ls) + (if ls ! i then 0 else 1)"
    "jobs_in (ls[i := l]) = jobs_in (remove_at i ls) + (if l then 1 else 0)"
    "requests_in (ls[i := l]) = requests_in (remove_at i ls) + (if l then 0 else 1)"
proof -
  have "jobs_in (take i ls @ ls ! i # drop (Suc i) ls) = jobs_in ls"
    "requests_in (take i ls @ ls ! i # drop (Suc i) ls) = requests_in ls"
    using lease_split [OF assms] by simp_all
  then show "jobs_in ls = jobs_in (remove_at i ls) + (if ls ! i then 1 else 0)"
    "requests_in ls = requests_in (remove_at i ls) + (if ls ! i then 0 else 1)"
    by (simp_all add: remove_at_def)
  show "jobs_in (ls[i := l]) = jobs_in (remove_at i ls) + (if l then 1 else 0)"
    "requests_in (ls[i := l]) = requests_in (remove_at i ls) + (if l then 0 else 1)"
    by (simp_all add: upd_conv_take_nth_drop [OF assms] remove_at_def)
qed

lemma lease_counts_0: "jobs_in ls = 0 \<Longrightarrow> requests_in ls = 0 \<Longrightarrow> ls = []"
  by (cases ls) (auto split: if_splits)

section \<open>Reachable worlds\<close>

definition world_inv :: "World \<Rightarrow> bool" where
  "world_inv w \<longleftrightarrow>
     active_jobs (tracker w) = jobs_in (leases w)
     \<and> active_requests (tracker w) = requests_in (leases w)
     \<and> (\<forall>t \<in> set (ended_at w). t \<le> clock w)
     \<and> (jobs_in (leases w) = 0 \<longrightarrow> (\<forall>t \<in> set (ended_at w).
          t \<le> last_busy_at (tracker w) \<and> (\<exists>c. last_completed_at (tracker w) = Some c \<and> t \<le> c)))"

lemmas tracker_ops = try_acquire_request_def mark_print_job_def promote_request_def release_def
  begin_drain_def cancel_drain_def drop_permit_def try_begin_restart_def
  try_begin_restart_with_cooldown_def Let_def

lemma world_inv_new: "world_inv (world_new now)"
  by (simp add: world_inv_def world_new_def Tracker_new_def)

lemma world_inv_perform: "world_inv w \<Longrightarrow> world_inv (perform a w)"
proof (cases a)
  case (Mark i)
  assume "world_inv w"
  then show ?thesis
    unfolding Mark using count_at(1,2) [of i "leases w"] count_at(3,4) [of i "leases w"]
    by (auto simp: world_inv_def tracker_ops)
next
  case (DropLease i)
  assume "world_inv w"
  then show ?thesis
    unfolding DropLease using count_at [of i "leases w"]
    by (auto simp: world_inv_def tracker_ops)
qed (auto simp: world_inv_def tracker_ops split: option.splits)

lemma run_simps [simp]: "run [] w = w" "run (a # as) w = run as (perform a w)"
  "run (as @ bs) w = run bs (run as w)"
  by (simp_all add: run_def)

lemma world_inv_run: "world_inv w \<Longrightarrow> world_inv (run as w)"
  by (induction as arbitrary: w) (simp_all add: world_inv_perform)

lemma world_inv_reachable: "world_inv (run as (world_new now))"
  by (simp add: world_inv_run world_inv_new)

section \<open>Restart permits\<close>

definition permit_inv :: "World \<Rightarrow> bool" where
  "permit_inv w \<longleftrightarrow> permits w \<le> 1 \<and> (permits w = 0 \<longleftrightarrow> accepting_jobs (tracker w))
     \<and> (permits w > 0 \<longrightarrow> leases w = [])"

lemma permit_inv_new: "permit_inv (world_new now)"
  by (simp add: permit_inv_def world_new_def Tracker_new_def)

lemma remove_at_Nil [simp]: "remove_at i [] = []"
  by (simp add: remove_at_def)

lemma permit_inv_perform:
  "permit_inv w \<Longrightarrow> world_inv w \<Longrightarrow> a \<noteq> CancelDrain \<Longrightarrow> permit_inv (perform a w)"
  by (cases a)
    (auto simp: permit_inv_def world_inv_def tracker_ops split: option.splits
      dest: lease_counts_0)

lemma permit_inv_run:
  "permit_inv w \<Longrightarrow> world_inv w \<Longrightarrow> CancelDrain \<notin> set as \<Longrightarrow> permit_inv (run as w)"
  by (induction as arbitrary: w) (auto simp: permit_inv_perform world_inv_perform)

lemma permit_granted:
  assumes "world_inv w" "try_begin_restart (clock w) (tracker w) = Some st"
  shows "leases w = []" "\<forall>t \<in> set (ended_at w). t + DRAIN_COOLDOWN \<le> clock w"
    "is_restart_safe (clock w) (tracker w)" "\<not> accepting_jobs st"
proof -
  have z: "active_jobs (tracker w) = 0" "active_requests (tracker w) = 0"
    and c: "\<And>c. last_completed_at (tracker w) = Some c \<Longrightarrow> c + DRAIN_COOLDOWN \<le> clock w"
    and st: "st = (tracker w)\<lparr>accepting_jobs := False\<rparr>"
    using assms(2) by (auto simp: try_begin_restart_def try_begin_restart_with_cooldown_def
        elapsed_def DRAIN_COOLDOWN_def split: if_splits option.splits)
  from z assms(1) have "jobs_in (leases w) = 0" "requests_in (leases w) = 0"
    by (simp_all add: world_inv_def)
  then show "leases w = []" by (rule lease_counts_0)
  show "\<forall>t \<in> set (ended_at w). t + DRAIN_COOLDOWN \<le> clock w"
  proof
    fix t assume "t \<in> set (ended_at w)"
    then obtain d where "last_completed_at (tracker w) = Some d" "t \<le> d"
      using assms(1) \<open>jobs_in (leases w) = 0\<close> by (auto simp: world_inv_def)
    with c [of d] show "t + DRAIN_COOLDOWN \<le> clock w" by simp
  qed
  show "is_restart_safe (clock w) (tracker w)"
    using assms(2) by (auto simp: is_restart_safe_def is_restart_safe_with_cooldown_def
        try_begin_restart_def try_begin_restart_with_cooldown_def split: if_splits option.splits)
  show "\<not> accepting_jobs st" by (simp add: st)
qed

lemma drop_takes_one:
  assumes "world_inv w" "i < length (leases w)"
  shows "if leases w ! i then active_jobs (tracker (perform (DropLease i) w)) + 1 = active_jobs (tracker w)
    else active_requests (tracker (perform (DropLease i) w)) + 1 = active_requests (tracker w)"
  using assms count_at(1,2) [OF assms(2)] by (auto simp: world_inv_def release_def Let_def)

text \<open>C20: the counters are the leases. In every world that operations of any tasks can reach, in any
  order and at any time, the two counters are exactly the numbers of live leases of each kind, so
  the saturating subtractions of the code never saturate: dropping a lease takes one from its own
  counter.\<close>

theorem tracker_counts_leases:
  "let w = run as (world_new now) in
     active_jobs (tracker w) = jobs_in (leases w)
     \<and> active_requests (tracker w) = requests_in (leases w)
     \<and> (\<forall>i. i < length (leases w) \<longrightarrow>
          (if leases w ! i then active_jobs (tracker (perform (DropLease i) w)) + 1 = active_jobs (tracker w)
           else active_requests (tracker (perform (DropLease i) w)) + 1 = active_requests (tracker w)))"
  using world_inv_reachable [of as now, unfolded world_inv_def]
    drop_takes_one [OF world_inv_reachable [of as now]]
  unfolding Let_def by (elim conjE) (intro conjI allI impI)


text \<open>A permit is exclusive as long as no drain is cancelled. In every run without
  \<open>cancel_drain\<close>, at most one restart permit is alive, and while it is, no lease exists, no request
  is admitted and no second permit is granted; when none is alive, requests are admitted.\<close>

theorem restart_permit_exclusive:
  assumes "CancelDrain \<notin> set as" "w = run as (world_new now)"
  shows "permits w \<le> 1 \<and> (permits w = 1 \<longrightarrow> leases w = []
      \<and> try_acquire_request (tracker w) = None \<and> try_begin_restart later (tracker w) = None)
    \<and> (permits w = 0 \<longrightarrow> try_acquire_request (tracker w) \<noteq> None)"
proof -
  have "permit_inv w"
    unfolding assms(2) by (rule permit_inv_run [OF permit_inv_new world_inv_new assms(1)])
  then show ?thesis by (auto simp: permit_inv_def tracker_ops)
qed

text \<open>Cancelling a drain defeats a restart permit. \<open>cancel_drain\<close> reopens admission without
  looking whether a restart permit is alive (a \<open>drain\<close> that times out calls it), so a print job can
  start, and a second permit can be granted, under a permit that is documented to block new jobs
  until it is dropped.\<close>

theorem cancel_drain_breaks_permit:
  "permits (run [BeginRestart, CancelDrain, Acquire, Mark 0] (world_new now)) = 1
   \<and> leases (run [BeginRestart, CancelDrain, Acquire, Mark 0] (world_new now)) = [True]
   \<and> permits (run [BeginRestart, CancelDrain, BeginRestart] (world_new now)) = 2"
  by (simp add: tracker_ops world_new_def Tracker_new_def)

section \<open>Draining\<close>

text \<open>The states that a waiting \<open>drain\<close> is woken up in: after each release that notifies.\<close>

fun notifications :: "Action list \<Rightarrow> World \<Rightarrow> Tracker list" where
  "notifications [] w = []"
| "notifications (a # as) w =
     (case a of
        DropLease i \<Rightarrow>
          if i < length (leases w) \<and> fst (release (clock w) (leases w ! i) (tracker w))
          then [tracker (perform a w)] else []
      | _ \<Rightarrow> []) @ notifications as (perform a w)"

lemma drain_wait_Nil: "drain_wait st [] late =
    (if active_jobs st = 0 \<and> active_requests st = 0 then (Inr (), st)
     else (Inl (timeout_error (lit ''active print jobs did not complete within the drain window'')),
           cancel_drain late))"
  by (subst drain_wait.simps) simp

lemma drain_wait_Cons: "drain_wait st (s # wakes) late =
    (if active_jobs st = 0 \<and> active_requests st = 0 then (Inr (), st)
     else drain_wait s wakes late)"
  by (subst drain_wait.simps) simp

lemma drain_wait_result:
  "drain_wait st wakes late = (r, st') \<Longrightarrow>
    (r = Inr () \<and> st' \<in> set (st # wakes) \<and> active_jobs st' = 0 \<and> active_requests st' = 0)
    \<or> (\<exists>e. r = Inl e \<and> err_code e = Timeout \<and> st' = cancel_drain late
        \<and> (\<forall>s \<in> set (st # wakes). active_jobs s > 0 \<or> active_requests s > 0))"
proof (induction wakes arbitrary: st)
  case Nil
  then show ?case
    by (auto simp: drain_wait_Nil timeout_error_def app_error_def simp del: list.map split: if_splits)
next
  case (Cons s wakes)
  show ?case
  proof (cases "active_jobs st = 0 \<and> active_requests st = 0")
    case True
    with Cons.prems show ?thesis by (simp add: drain_wait_Cons)
  next
    case False
    with Cons.prems have "drain_wait s wakes late = (r, st')" by (simp add: drain_wait_Cons)
    from Cons.IH [OF this] False show ?thesis by auto
  qed
qed

lemma last_lease_notifies:
  assumes "world_inv w" "leases w \<noteq> []" "leases (perform a w) = []"
  shows "\<exists>i. a = DropLease i \<and> i < length (leases w)
    \<and> fst (release (clock w) (leases w ! i) (tracker w))"
proof -
  have "active_jobs (tracker (perform a w)) = 0 \<and> active_requests (tracker (perform a w)) = 0"
    using world_inv_perform [OF assms(1), of a] assms(3) by (simp add: world_inv_def)
  with assms(2,3) show ?thesis
    by (cases a) (auto simp: tracker_ops split: option.splits if_splits)
qed

lemma notified_when_empty:
  assumes "world_inv w" "leases w \<noteq> []" "leases (run as w) = []"
  shows "\<exists>st \<in> set (notifications as w). active_jobs st = 0 \<and> active_requests st = 0"
  using assms
proof (induction as arbitrary: w)
  case (Cons a as)
  have inv: "world_inv (perform a w)" using Cons.prems(1) by (rule world_inv_perform)
  show ?case
  proof (cases "leases (perform a w) = []")
    case True
    from last_lease_notifies [OF Cons.prems(1,2) True] obtain i
      where i: "a = DropLease i" "i < length (leases w)"
        "fst (release (clock w) (leases w ! i) (tracker w))" by blast
    then have "tracker (perform a w) \<in> set (notifications (a # as) w)" by simp
    moreover have "active_jobs (tracker (perform a w)) = 0 \<and> active_requests (tracker (perform a w)) = 0"
      using inv True by (simp add: world_inv_def)
    ultimately show ?thesis by blast
  next
    case False
    with Cons.IH [OF inv] Cons.prems(3) show ?thesis by auto
  qed
qed simp

lemma drain_wait_woken:
  "\<exists>s \<in> set (st # wakes). active_jobs s = 0 \<and> active_requests s = 0 \<Longrightarrow>
    \<exists>st'. drain_wait st wakes late = (Inr (), st')"
  using drain_wait_result [of st wakes late "fst (drain_wait st wakes late)"
      "snd (drain_wait st wakes late)"]
  by (cases "drain_wait st wakes late") auto

text \<open>A drain ends with nothing in flight, or gives admission back. Whatever states \<open>drain\<close> finds
  when it is woken up, it returns success only with both counters at zero; its only error is
  the timeout, after which requests and print jobs are admitted again.\<close>

theorem drain_outcome:
  assumes "drain st wakes late = (r, st')"
  shows "(r = Inr () \<and> st' \<in> set (begin_drain st # wakes) \<and> active_jobs st' = 0 \<and> active_requests st' = 0)
    \<or> (\<exists>e. r = Inl e \<and> err_code e = Timeout \<and> try_acquire_request st' \<noteq> None
        \<and> fst (promote_request later st')
        \<and> (\<forall>s \<in> set (begin_drain st # wakes). active_jobs s > 0 \<or> active_requests s > 0))"
  using drain_wait_result [OF assms [unfolded drain_def]] by (auto simp: tracker_ops)

text \<open>No wake-up is lost. If the operations that run while \<open>drain\<close> waits leave no lease alive at
  some point before the deadline, then one of them notifies with both counters at zero, and a
  \<open>drain\<close> that looks at the state each time it is notified returns success.\<close>

theorem drain_completes:
  assumes "w = run before (world_new now)" "leases (run as (perform BeginDrain w)) = []"
  shows "\<exists>st'. drain (tracker w) (notifications as (perform BeginDrain w)) late = (Inr (), st')"
proof -
  let ?w = "perform BeginDrain w"
  have inv: "world_inv ?w" unfolding assms(1) by (rule world_inv_perform [OF world_inv_reachable])
  have "\<exists>s \<in> set (begin_drain (tracker w) # notifications as ?w).
      active_jobs s = 0 \<and> active_requests s = 0"
  proof (cases "leases ?w = []")
    case True
    with inv show ?thesis by (simp add: world_inv_def)
  next
    case False
    from notified_when_empty [OF inv False assms(2)] show ?thesis by auto
  qed
  then show ?thesis unfolding drain_def by (rule drain_wait_woken)
qed

section \<open>The interface of the restart guard\<close>

text \<open>What the updater relies on: \<open>safe\<close> is only reported when nothing is in flight, and a permit
  is only granted then and closes admission.\<close>

locale restart_guard =
  fixes ok :: "'s \<Rightarrow> bool"
    and busy :: "'s \<Rightarrow> bool"
    and safe :: "'s \<Rightarrow> bool"
    and permit :: "'s \<Rightarrow> 's option"
    and admits :: "'s \<Rightarrow> bool"
  assumes safe_idle: "ok s \<Longrightarrow> safe s \<Longrightarrow> \<not> busy s"
    and permit_safe: "ok s \<Longrightarrow> permit s = Some s' \<Longrightarrow> safe s \<and> safe s'"
    and permit_ok: "ok s \<Longrightarrow> permit s = Some s' \<Longrightarrow> ok s'"
    and permit_closes: "ok s \<Longrightarrow> permit s = Some s' \<Longrightarrow> \<not> admits s'"
    and permit_admits: "permit s = Some s' \<Longrightarrow> admits s"
begin

lemma permit_idle: "ok s \<Longrightarrow> permit s = Some s' \<Longrightarrow> \<not> busy s \<and> \<not> busy s'"
  using permit_safe safe_idle permit_ok by blast

lemma permit_once: "ok s \<Longrightarrow> permit s = Some s' \<Longrightarrow> permit s' = None"
  using permit_closes permit_admits by (cases "permit s'") blast+

end

definition begin_restart :: "World \<Rightarrow> World option" where
  "begin_restart w = map_option (\<lambda>st. w\<lparr>tracker := st, permits := permits w + 1\<rparr>)
     (try_begin_restart (clock w) (tracker w))"

definition world_safe :: "World \<Rightarrow> bool" where
  "world_safe w = is_restart_safe (clock w) (tracker w)"

lemma begin_restart_perform: "begin_restart w = Some w' \<Longrightarrow> w' = perform BeginRestart w"
  by (auto simp: begin_restart_def)

lemma world_safe_idle: "world_inv w \<Longrightarrow> world_safe w \<Longrightarrow> leases w = []"
  by (auto simp: world_inv_def world_safe_def is_restart_safe_def is_restart_safe_with_cooldown_def
      dest: lease_counts_0 split: if_splits)

interpretation guard: restart_guard world_inv "\<lambda>w. leases w \<noteq> []" world_safe begin_restart
  "\<lambda>w. accepting_jobs (tracker w)"
proof unfold_locales
  fix w w'
  assume w: "world_inv w" "begin_restart w = Some w'"
  then show "world_inv w'" using begin_restart_perform world_inv_perform by metis
  from w show "world_safe w \<and> world_safe w'" "\<not> accepting_jobs (tracker w')"
    by (auto simp: begin_restart_def world_safe_def is_restart_safe_def tracker_ops
        is_restart_safe_with_cooldown_def split: option.splits if_splits)
next
  fix w w'
  assume "begin_restart w = Some w'"
  then show "accepting_jobs (tracker w)"
    by (auto simp: begin_restart_def tracker_ops split: if_splits)
qed (use world_safe_idle in blast)

section \<open>Concrete runs\<close>

lemma example_run: "leases (run [Acquire, Mark 0] (world_new 0)) = [True]"
  "leases (run [Acquire, Mark 0, Tick 9, DropLease 0] (world_new 0)) = []"
  by (simp_all add: tracker_ops world_new_def Tracker_new_def remove_at_def)

theorem tracker_counts_leases_witness:
  "active_jobs (tracker (perform (DropLease 0) (run [Acquire, Mark 0] (world_new 0)))) + 1
     = active_jobs (tracker (run [Acquire, Mark 0] (world_new 0)))"
  using tracker_counts_leases [of "[Acquire, Mark 0]" 0] example_run(1) by (simp add: Let_def)


theorem restart_permit_exclusive_witness:
  "permits (run [BeginRestart, Acquire] (world_new 0)) = 1
    \<and> leases (run [BeginRestart, Acquire] (world_new 0)) = []"
proof -
  have "permits (run [BeginRestart, Acquire] (world_new 0)) = 1"
    by (simp add: tracker_ops world_new_def Tracker_new_def)
  then show ?thesis using restart_permit_exclusive [OF _ refl, of "[BeginRestart, Acquire]" 0] by simp
qed

theorem drain_outcome_witness:
  "\<exists>e. fst (drain ((Tracker_new 0)\<lparr>active_requests := 1\<rparr>) [] (Tracker_new 0)) = Inl e
    \<and> err_code e = Timeout"
proof -
  obtain r st' where d: "drain ((Tracker_new 0)\<lparr>active_requests := 1\<rparr>) [] (Tracker_new 0) = (r, st')"
    by fastforce
  from drain_outcome [OF d, of 0] have "\<exists>e. r = Inl e \<and> err_code e = Timeout"
    by (auto simp: begin_drain_def)
  then show ?thesis unfolding d by simp
qed

theorem drain_completes_witness:
  "\<exists>st'. drain (tracker (run [Acquire, Mark 0] (world_new 0)))
     (notifications [DropLease 0] (perform BeginDrain (run [Acquire, Mark 0] (world_new 0))))
     (Tracker_new 0) = (Inr (), st')"
  by (rule drain_completes [OF refl])
    (simp add: tracker_ops world_new_def Tracker_new_def remove_at_def)

end
