(* ===== verification/Updater.thy ===== *)
theory Updater
  imports Job_Tracker
begin

text \<open>
  \<open>application/updater.rs\<close> with the restart worker of \<open>lib.rs\<close>: the updater's public state, the
  downloaded package, and the installation behind the restart guard of \<open>Job_Tracker\<close>. Each section
  of an operation that holds the state lock is one micro step, so that the operations of several
  tasks interleave as they do in the program. The update source and the installer are arguments:
  what they return. Messages to subscribers carry the status after each change and are not kept.
\<close>

section \<open>State\<close>

datatype UpdateState =
    Idle
  | Checking
  | Available ustr "ustr option"
  | Downloading ustr
  | ReadyToRestart (ready_version: ustr) (restart_requested: bool)
  | Failed ustr

record UpdateStatus =
  current_version :: ustr
  update_state :: UpdateState
  waiting_for_jobs :: bool

record UpdateRelease =
  release_version :: ustr
  release_notes :: "ustr option"

record UpdatePackage =
  package_version :: ustr
  package_notes :: "ustr option"
  installer_data :: "bytes option"

datatype CheckKind = Manual | Background

record Updater =
  status :: UpdateStatus
  package :: "UpdatePackage option"

definition Updater_new :: "ustr \<Rightarrow> Updater" where
  "Updater_new v =
     \<lparr>status = \<lparr>current_version = v, update_state = Idle, waiting_for_jobs = False\<rparr>, package = None\<rparr>"

abbreviation ustate :: "Updater \<Rightarrow> UpdateState" where "ustate u \<equiv> update_state (status u)"

fun is_ready :: "UpdateState \<Rightarrow> bool" where
  "is_ready (ReadyToRestart _ _) = True" | "is_ready _ = False"

fun is_requested :: "UpdateState \<Rightarrow> bool" where
  "is_requested (ReadyToRestart _ r) = r" | "is_requested _ = False"

section \<open>Locked sections\<close>

definition set_state :: "UpdateState \<Rightarrow> bool \<Rightarrow> Updater \<Rightarrow> Updater" where
  "set_state next waiting u =
     u\<lparr>status := (status u)\<lparr>update_state := next, waiting_for_jobs := waiting\<rparr>\<rparr>"

definition clear_package :: "Updater \<Rightarrow> Updater" where
  "clear_package u = u\<lparr>package := None\<rparr>"

definition update_waiting_flag :: "bool \<Rightarrow> Updater \<Rightarrow> Updater" where
  "update_waiting_flag waiting u =
     (if waiting_for_jobs (status u) = waiting then u
      else u\<lparr>status := (status u)\<lparr>waiting_for_jobs := waiting\<rparr>\<rparr>)"

section \<open>Checking for an update\<close>

text \<open>
  What is left of a running \<open>check\<close>: sections that set the state, clear or store the package, and
  the two waits for the update source. The check gate is held while the list is not empty.
\<close>

datatype MicroOp = SetState UpdateState | Clear | Store UpdatePackage
  | AskSource CheckKind | Fetch CheckKind UpdateRelease

definition check_begin :: "CheckKind \<Rightarrow> Updater \<Rightarrow> MicroOp list" where
  "check_begin kind u = (if is_ready (ustate u) then [] else [SetState Checking, AskSource kind])"

definition check_error :: ustr where
  "check_error = lit ''ShaPrint could not check, download, or verify the update. Check your internet connection and try again.''"

fun check_failed :: "CheckKind \<Rightarrow> MicroOp list" where
  "check_failed Manual = [SetState (Failed check_error)]"
| "check_failed Background = [Clear, SetState Idle]"

fun check_asked :: "CheckKind \<Rightarrow> ustr + UpdateRelease option \<Rightarrow> MicroOp list" where
  "check_asked kind (Inr None) = [Clear, SetState Idle]"
| "check_asked kind (Inr (Some rel)) =
     [SetState (Available (release_version rel) (release_notes rel)),
      SetState (Downloading (release_version rel)), Fetch kind rel]"
| "check_asked kind (Inl _) = check_failed kind"

fun check_fetched :: "CheckKind \<Rightarrow> ustr + UpdatePackage \<Rightarrow> MicroOp list" where
  "check_fetched kind (Inr p) = [Store p, SetState (ReadyToRestart (package_version p) False)]"
| "check_fetched kind (Inl _) = check_failed kind"

fun micro :: "MicroOp \<Rightarrow> Updater \<Rightarrow> Updater" where
  "micro (SetState s) u = set_state s False u"
| "micro Clear u = clear_package u"
| "micro (Store p) u = u\<lparr>package := Some p\<rparr>"
| "micro (AskSource _) u = u"
| "micro (Fetch _ _) u = u"

text \<open>A check that no other task disturbs, with the two answers of the source.\<close>

definition check :: "CheckKind \<Rightarrow> ustr + UpdateRelease option \<Rightarrow> (UpdateRelease \<Rightarrow> ustr + UpdatePackage)
    \<Rightarrow> Updater \<Rightarrow> (ustr + UpdateStatus) \<times> Updater" where
  "check kind asked fetched u =
     (if is_ready (ustate u) then (Inr (status u), u)
      else
        let u = fold micro (check_begin kind u @ check_asked kind asked) u;
            (bad, u) = (case asked of
                 Inl _ \<Rightarrow> (True, u)
               | Inr None \<Rightarrow> (False, u)
               | Inr (Some rel) \<Rightarrow>
                   (\<not> is_ok (fetched rel), fold micro (check_fetched kind (fetched rel)) u))
        in (if bad \<and> kind = Manual then Inl check_error else Inr (status u), u))"

section \<open>Restarting\<close>

fun request_next :: "UpdateState \<Rightarrow> UpdateState" where
  "request_next (ReadyToRestart version _) = ReadyToRestart version True"
| "request_next other = other"

text \<open>\<open>request_restart\<close> reads the state in one locked section and writes in another; this is the call
  that no other task disturbs.\<close>

definition request_restart :: "bool \<Rightarrow> Updater \<Rightarrow> Updater" where
  "request_restart restart_safe u = set_state (request_next (ustate u)) (\<not> restart_safe) u"

definition request_auto_restart_if_idle ::
  "bool \<Rightarrow> nat \<Rightarrow> nat \<Rightarrow> Tracker \<Rightarrow> Updater \<Rightarrow> bool \<times> Updater" where
  "request_auto_restart_if_idle window_hidden quiet_window now jobs u =
     (if \<not> window_hidden \<or> \<not> is_idle_for quiet_window now jobs \<or> \<not> is_restart_safe now jobs
      then (False, u)
      else if \<not> (is_ready (ustate u) \<and> \<not> is_requested (ustate u)) then (False, u)
      else (True, request_restart (is_restart_safe now jobs) u))"

definition install_guard :: "bool \<Rightarrow> Updater \<Rightarrow> bool \<times> Updater" where
  "install_guard restart_safe u =
     (if \<not> is_requested (ustate u) then (False, update_waiting_flag False u)
      else if \<not> restart_safe then (False, update_waiting_flag True u)
      else (True, u))"

definition install_take :: "Updater \<Rightarrow> UpdatePackage option \<times> Updater" where
  "install_take u =
     (if \<not> is_requested (ustate u) then (None, u)
      else (case package u of
              None \<Rightarrow> (None, u)
            | Some p \<Rightarrow> (Some p, update_waiting_flag False (clear_package u))))"

definition install_if_requested ::
  "bool \<Rightarrow> (UpdatePackage \<Rightarrow> ustr + unit) \<Rightarrow> Updater \<Rightarrow> (ustr + bool) \<times> Updater" where
  "install_if_requested restart_safe install u =
     (case install_guard restart_safe u of
        (False, u) \<Rightarrow> (Inr False, u)
      | (True, u) \<Rightarrow>
          (case install_take u of
             (None, u) \<Rightarrow> (Inr False, u)
           | (Some p, u) \<Rightarrow> (case install p of Inl e \<Rightarrow> (Inl e, u) | Inr _ \<Rightarrow> (Inr True, u))))"

definition fail_ops :: "ustr \<Rightarrow> MicroOp list" where
  "fail_ops message = [Clear, SetState (Failed message)]"

definition fail :: "ustr \<Rightarrow> Updater \<Rightarrow> Updater" where
  "fail message u = fold micro (fail_ops message) u"

section \<open>The updater among the tasks of the program\<close>

text \<open>
  The restart worker of \<open>lib.rs\<close> polls: when a restart is requested it takes a restart permit, stops
  the print services, installs, and restarts the program; when anything fails it reports the
  failure, restores the services and gives the permit back.
\<close>

datatype Worker = Watching | Permitted | Guarded | Installing UpdatePackage | Failing "MicroOp list"

record Shell =
  updater :: Updater
  check_todo :: "MicroOp list"
  pending :: "UpdateState list"
  worker :: Worker
  jobs :: World
  installs :: "(UpdatePackage \<times> UpdateState \<times> World) list"

definition Shell_new :: "ustr \<Rightarrow> nat \<Rightarrow> Shell" where
  "Shell_new v now = \<lparr>updater = Updater_new v, check_todo = [], pending = [], worker = Watching,
     jobs = world_new now, installs = []\<rparr>"

datatype ShellAction =
    Job Action
  | StartCheck CheckKind
  | StepCheck
  | SourceAnswer "ustr + UpdateRelease option"
  | SourceDownload "ustr + UpdatePackage"
  | RequestRestart
  | ReadRequest
  | WriteRequest nat
  | AutoRestart bool
  | TakePermit
  | ShutdownFails ustr
  | Guard
  | TakePackage
  | InstallFails ustr
  | StepFailing

fun shell_step :: "ShellAction \<Rightarrow> Shell \<Rightarrow> Shell" where
  "shell_step (Job a) s =
     (if a \<in> {BeginRestart, DropPermit} then s else s\<lparr>jobs := perform a (jobs s)\<rparr>)"
| "shell_step (StartCheck kind) s =
     (if check_todo s = [] then s\<lparr>check_todo := check_begin kind (updater s)\<rparr> else s)"
| "shell_step StepCheck s =
     (case check_todo s of
        [] \<Rightarrow> s | AskSource _ # _ \<Rightarrow> s | Fetch _ _ # _ \<Rightarrow> s
      | m # ms \<Rightarrow> s\<lparr>updater := micro m (updater s), check_todo := ms\<rparr>)"
| "shell_step (SourceAnswer a) s =
     (case check_todo s of AskSource kind # _ \<Rightarrow> s\<lparr>check_todo := check_asked kind a\<rparr> | _ \<Rightarrow> s)"
| "shell_step (SourceDownload a) s =
     (case check_todo s of Fetch kind _ # _ \<Rightarrow> s\<lparr>check_todo := check_fetched kind a\<rparr> | _ \<Rightarrow> s)"
| "shell_step RequestRestart s =
     s\<lparr>updater := request_restart (world_safe (jobs s)) (updater s)\<rparr>"
| "shell_step ReadRequest s = s\<lparr>pending := pending s @ [request_next (ustate (updater s))]\<rparr>"
| "shell_step (WriteRequest i) s =
     (if i < length (pending s)
      then s\<lparr>updater := set_state (pending s ! i) (\<not> world_safe (jobs s)) (updater s),
             pending := remove_at i (pending s)\<rparr>
      else s)"
| "shell_step (AutoRestart hidden) s =
     s\<lparr>updater := snd (request_auto_restart_if_idle hidden QUIET_WINDOW (clock (jobs s))
                        (tracker (jobs s)) (updater s))\<rparr>"
| "shell_step TakePermit s =
     (if worker s = Watching \<and> is_requested (ustate (updater s)) then
        (case begin_restart (jobs s) of
           None \<Rightarrow> s | Some w \<Rightarrow> s\<lparr>jobs := w, worker := Permitted\<rparr>)
      else s)"
| "shell_step (ShutdownFails message) s =
     (if worker s = Permitted then s\<lparr>worker := Failing (fail_ops message)\<rparr> else s)"
| "shell_step Guard s =
     (if worker s = Permitted then
        (case install_guard (world_safe (jobs s)) (updater s) of
           (True, u) \<Rightarrow> s\<lparr>updater := u, worker := Guarded\<rparr>
         | (False, u) \<Rightarrow> s\<lparr>updater := u, worker := Failing (fail_ops (lit ''The update was not installed. ShaPrint attempted to restore its print services.''))\<rparr>)
      else s)"
| "shell_step TakePackage s =
     (if worker s = Guarded then
        (case install_take (updater s) of
           (Some p, u) \<Rightarrow> s\<lparr>updater := u, worker := Installing p,
                             installs := (p, ustate (updater s), jobs s) # installs s\<rparr>
         | (None, u) \<Rightarrow> s\<lparr>updater := u, worker := Failing (fail_ops (lit ''The update was not installed. ShaPrint attempted to restore its print services.''))\<rparr>)
      else s)"
| "shell_step (InstallFails message) s =
     (case worker s of
        Installing p \<Rightarrow> s\<lparr>worker := Failing (fail_ops message)\<rparr> | _ \<Rightarrow> s)"
| "shell_step StepFailing s =
     (case worker s of
        Failing (m # ms) \<Rightarrow> s\<lparr>updater := micro m (updater s), worker := Failing ms\<rparr>
      | Failing [] \<Rightarrow> s\<lparr>jobs := perform DropPermit (jobs s), worker := Watching\<rparr>
      | _ \<Rightarrow> s)"

definition shell_run :: "ShellAction list \<Rightarrow> Shell \<Rightarrow> Shell" where
  "shell_run as s = fold shell_step as s"

section \<open>Invariants\<close>

text \<open>The runs in which every \<open>request_restart\<close> is undisturbed and no drain is cancelled.\<close>

fun undisturbed :: "ShellAction \<Rightarrow> bool" where
  "undisturbed ReadRequest = False"
| "undisturbed (WriteRequest _) = False"
| "undisturbed (Job CancelDrain) = False"
| "undisturbed _ = True"

inductive check_shape :: "MicroOp list \<Rightarrow> bool" where
  "check_shape []"
| "check_shape [SetState Checking, AskSource kind]"
| "check_shape [AskSource kind]"
| "check_shape [SetState (Available v n), SetState (Downloading v), Fetch kind rel]"
| "check_shape [SetState (Downloading v), Fetch kind rel]"
| "check_shape [Fetch kind rel]"
| "check_shape [Store p, SetState (ReadyToRestart (package_version p) False)]"
| "check_shape [SetState (ReadyToRestart v False)]"
| "check_shape [Clear, SetState Idle]"
| "check_shape [SetState Idle]"
| "check_shape [SetState (Failed e)]"

definition may_offer :: "Worker \<Rightarrow> bool" where
  "may_offer w \<longleftrightarrow> w \<in> {Watching, Permitted, Guarded, Failing []}"

definition in_restart :: "Worker \<Rightarrow> bool" where
  "in_restart w \<longleftrightarrow> w \<noteq> Watching \<and> w \<noteq> Failing []"

definition update_inv :: "Shell \<Rightarrow> bool" where
  "update_inv s \<longleftrightarrow>
     check_shape (check_todo s)
     \<and> (is_ready (ustate (updater s)) \<longrightarrow> check_todo s = [])
     \<and> (\<forall>p. package (updater s) = Some p \<longrightarrow>
          (\<exists>r. ustate (updater s) = ReadyToRestart (package_version p) r)
          \<or> check_todo s = [SetState (ReadyToRestart (package_version p) False)])
     \<and> (\<forall>v. check_todo s = [SetState (ReadyToRestart v False)] \<longrightarrow>
          (\<exists>p. package (updater s) = Some p \<and> package_version p = v))
     \<and> (in_restart (worker s) \<longrightarrow> is_requested (ustate (updater s)))
     \<and> (is_ready (ustate (updater s)) \<and> may_offer (worker s) \<longrightarrow> package (updater s) \<noteq> None)
     \<and> (\<forall>ms. worker s = Failing ms \<longrightarrow>
          (\<exists>m. ms = fail_ops m \<or> (ms = tl (fail_ops m) \<and> package (updater s) = None) \<or> ms = []))"

definition jobs_inv :: "Shell \<Rightarrow> bool" where
  "jobs_inv s \<longleftrightarrow> world_inv (jobs s) \<and> permit_inv (jobs s)
     \<and> permits (jobs s) = (if worker s = Watching then 0 else 1)
     \<and> (worker s \<noteq> Watching \<longrightarrow> (\<forall>t \<in> set (ended_at (jobs s)). t + DRAIN_COOLDOWN \<le> clock (jobs s)))"

definition installs_inv :: "Shell \<Rightarrow> bool" where
  "installs_inv s \<longleftrightarrow> (\<forall>(p, st, w) \<in> set (installs s).
     st = ReadyToRestart (package_version p) True \<and> permits w = 1 \<and> leases w = []
     \<and> \<not> accepting_jobs (tracker w)
     \<and> (\<forall>t \<in> set (ended_at w). t + DRAIN_COOLDOWN \<le> clock w))"

lemma is_requested_iff: "is_requested st \<longleftrightarrow> (\<exists>v. st = ReadyToRestart v True)"
  by (cases st) auto

lemma is_ready_iff: "is_ready st \<longleftrightarrow> (\<exists>v r. st = ReadyToRestart v r)"
  by (cases st) auto

lemma is_requested_ready: "is_requested st \<Longrightarrow> is_ready st"
  by (cases st) auto

lemma ustate_simps [simp]:
  "ustate (set_state st wt u) = st" "package (set_state st wt u) = package u"
  "ustate (clear_package u) = ustate u" "package (clear_package u) = None"
  "ustate (update_waiting_flag b u) = ustate u" "package (update_waiting_flag b u) = package u"
  by (simp_all add: set_state_def clear_package_def update_waiting_flag_def)

lemmas shell_ops = check_begin_def request_restart_def request_auto_restart_if_idle_def
  install_guard_def install_take_def fail_ops_def may_offer_def in_restart_def

inductive_cases check_shape_cases: "check_shape (m # ms)"

lemma check_failed_shape: "check_shape (check_failed kind)"
  "check_failed kind \<noteq> [SetState (ReadyToRestart v r)]"
  by (cases kind; auto intro: check_shape.intros)+

lemma check_asked_shape: "check_shape (check_asked kind a)"
  "check_asked kind a \<noteq> [SetState (ReadyToRestart v r)]"
  by (induction kind a rule: check_asked.induct) (auto simp: check_failed_shape intro: check_shape.intros)

lemma check_fetched_shape: "check_shape (check_fetched kind a)"
  "check_fetched kind a \<noteq> [SetState (ReadyToRestart v r)]"
  by (induction kind a rule: check_fetched.induct) (auto simp: check_failed_shape intro: check_shape.intros)

lemma update_inv_StepCheck: "update_inv s \<Longrightarrow> update_inv (shell_step StepCheck s)"
  unfolding update_inv_def
  by (elim conjE, erule check_shape.cases)
    (auto simp: shell_ops is_requested_iff is_ready_iff intro: check_shape.intros)

lemma update_inv_todo:
  assumes "update_inv s" "check_todo s \<noteq> []" "check_shape ms"
    and "\<And>v. check_todo s \<noteq> [SetState (ReadyToRestart v False)]"
    and "\<And>v r. ms \<noteq> [SetState (ReadyToRestart v r)]"
  shows "update_inv (s\<lparr>check_todo := ms\<rparr>)"
  using assms unfolding update_inv_def by auto

lemma update_inv_sources:
  "update_inv s \<Longrightarrow> update_inv (shell_step (SourceAnswer a) s)"
  "update_inv s \<Longrightarrow> update_inv (shell_step (SourceDownload d) s)"
proof -
  assume s: "update_inv s"
  show "update_inv (shell_step (SourceAnswer a) s)"
  proof (cases "\<exists>kind ms. check_todo s = AskSource kind # ms")
    case True
    with s show ?thesis by (auto intro!: update_inv_todo simp: check_asked_shape)
  qed (use s in \<open>auto split: list.splits MicroOp.splits\<close>)
  show "update_inv (shell_step (SourceDownload d) s)"
  proof (cases "\<exists>kind rel ms. check_todo s = Fetch kind rel # ms")
    case True
    with s show ?thesis by (auto intro!: update_inv_todo simp: check_fetched_shape)
  qed (use s in \<open>auto split: list.splits MicroOp.splits\<close>)
qed

lemma update_inv_StartCheck: "update_inv s \<Longrightarrow> update_inv (shell_step (StartCheck kind) s)"
  unfolding update_inv_def by (auto simp: check_begin_def intro: check_shape.intros)

lemma request_next_simps [simp]:
  "is_ready (request_next st) = is_ready st" "is_requested (request_next st) = is_ready st"
  "(\<exists>r. request_next st = ReadyToRestart v r) = (\<exists>r. st = ReadyToRestart v r)"
  by (cases st, auto)+

lemma update_inv_request: "update_inv s \<Longrightarrow> update_inv (s\<lparr>updater := request_restart b (updater s)\<rparr>)"
  unfolding update_inv_def request_restart_def by (simp add: is_requested_ready)

lemma update_inv_requests:
  "update_inv s \<Longrightarrow> update_inv (shell_step RequestRestart s)"
  "update_inv s \<Longrightarrow> update_inv (shell_step (AutoRestart h) s)"
  using update_inv_request by (auto simp: request_auto_restart_if_idle_def)

lemma update_inv_worker:
  "update_inv s \<Longrightarrow> update_inv (shell_step TakePermit s)"
  "update_inv s \<Longrightarrow> update_inv (shell_step (ShutdownFails m) s)"
  "update_inv s \<Longrightarrow> update_inv (shell_step (InstallFails m) s)"
  "update_inv s \<Longrightarrow> update_inv (shell_step Guard s)"
  unfolding update_inv_def
  by (auto simp: shell_ops split: option.splits Worker.splits)

lemma update_inv_TakePackage: "update_inv s \<Longrightarrow> update_inv (shell_step TakePackage s)"
  unfolding update_inv_def
  by (auto simp: shell_ops is_requested_iff split: option.splits)

lemma update_inv_StepFailing: "update_inv s \<Longrightarrow> update_inv (shell_step StepFailing s)"
proof (cases "worker s")
  case (Failing ms)
  assume s: "update_inv s"
  with Failing obtain m where "ms = fail_ops m \<or> ms = tl (fail_ops m) \<and> package (updater s) = None \<or> ms = []"
    by (auto simp: update_inv_def)
  then consider "ms = [Clear, SetState (Failed m)]"
    | "ms = [SetState (Failed m)]" "package (updater s) = None" | "ms = []"
    by (auto simp: fail_ops_def)
  then show ?thesis
    using s by cases (auto simp: Failing update_inv_def shell_ops is_requested_ready)
qed simp_all

lemma update_inv_step:
  assumes "update_inv s" "undisturbed a"
  shows "update_inv (shell_step a s)"
proof (cases a)
  case (Job b)
  with assms(1) show ?thesis by (simp add: update_inv_def)
qed (use assms in \<open>simp_all add: update_inv_sources update_inv_StartCheck update_inv_requests
       update_inv_worker update_inv_TakePackage update_inv_StepFailing update_inv_StepCheck
       del: shell_step.simps\<close>)

lemma begin_restart_permits: "begin_restart w = Some w' \<Longrightarrow> permits w' = permits w + 1
    \<and> clock w' = clock w \<and> ended_at w' = ended_at w"
  by (auto simp: begin_restart_def)

lemma job_keeps_permits: "a \<notin> {BeginRestart, DropPermit} \<Longrightarrow> permits (perform a w) = permits w"
  by (cases a) (auto split: option.splits prod.splits)

lemma job_keeps_ended:
  "leases w = [] \<Longrightarrow> ended_at (perform a w) = ended_at w \<and> clock w \<le> clock (perform a w)"
  by (cases a) (auto split: option.splits prod.splits)

lemma jobs_inv_Job:
  assumes "jobs_inv s" "undisturbed (Job a)"
  shows "jobs_inv (shell_step (Job a) s)"
proof (cases "a \<in> {BeginRestart, DropPermit}")
  case False
  have "a \<noteq> CancelDrain" using assms(2) by auto
  then have "world_inv (perform a (jobs s))" "permit_inv (perform a (jobs s))"
    using assms(1) by (simp_all add: jobs_inv_def world_inv_perform permit_inv_perform)
  moreover have "\<forall>t \<in> set (ended_at (perform a (jobs s))). t + DRAIN_COOLDOWN \<le> clock (perform a (jobs s))"
    if "worker s \<noteq> Watching"
    using that assms(1) job_keeps_ended [of "jobs s" a] by (fastforce simp: jobs_inv_def permit_inv_def)
  ultimately show ?thesis
    using False assms(1) job_keeps_permits [of a "jobs s"] by (auto simp: jobs_inv_def)
qed (use assms in auto)

lemma jobs_inv_TakePermit:
  assumes "jobs_inv s"
  shows "jobs_inv (shell_step TakePermit s)"
proof (cases "worker s = Watching \<and> is_requested (ustate (updater s)) \<and> begin_restart (jobs s) \<noteq> None")
  case True
  then obtain w where w: "begin_restart (jobs s) = Some w" by blast
  have "world_inv w" "permit_inv w"
    using assms begin_restart_perform [OF w]
    by (simp_all add: jobs_inv_def world_inv_perform permit_inv_perform del: perform.simps)
  moreover have "\<forall>t \<in> set (ended_at w). t + DRAIN_COOLDOWN \<le> clock w"
    using permit_granted(2) [of "jobs s"] begin_restart_permits [OF w] assms w
    by (auto simp: jobs_inv_def begin_restart_def)
  ultimately show ?thesis
    using True w assms begin_restart_permits [OF w] by (auto simp: jobs_inv_def)
qed (use assms in \<open>auto split: option.splits\<close>)

lemma jobs_inv_StepFailing:
  assumes "jobs_inv s"
  shows "jobs_inv (shell_step StepFailing s)"
proof (cases "worker s")
  case (Failing ms)
  have "world_inv (perform DropPermit (jobs s))" "permit_inv (perform DropPermit (jobs s))"
    using assms by (simp_all add: jobs_inv_def world_inv_perform permit_inv_perform del: perform.simps)
  with assms show ?thesis by (cases ms) (auto simp: Failing jobs_inv_def)
qed (use assms in simp_all)

lemma jobs_inv_step:
  assumes "jobs_inv s" "undisturbed a"
  shows "jobs_inv (shell_step a s)"
proof (cases a)
  case (Job b)
  with assms show ?thesis using jobs_inv_Job by simp
next
  case TakePermit
  with assms show ?thesis using jobs_inv_TakePermit by simp
next
  case StepFailing
  with assms show ?thesis using jobs_inv_StepFailing by simp
qed (use assms in \<open>auto simp: jobs_inv_def split: list.splits MicroOp.splits option.splits Worker.splits prod.splits bool.splits\<close>)

lemma installs_inv_step:
  assumes "installs_inv s" "update_inv s" "jobs_inv s"
  shows "installs_inv (shell_step a s)"
proof (cases "a = TakePackage \<and> worker s = Guarded")
  case True
  then show ?thesis
    using assms by (auto simp: installs_inv_def update_inv_def jobs_inv_def permit_inv_def
        install_take_def in_restart_def is_requested_iff split: option.splits)
next
  case False
  then have "installs (shell_step a s) = installs s"
    by (cases a) (auto split: list.splits MicroOp.splits option.splits Worker.splits prod.splits bool.splits)
  with assms(1) show ?thesis by (simp add: installs_inv_def)
qed

lemma shell_run_simps [simp]: "shell_run [] s = s" "shell_run (a # as) s = shell_run as (shell_step a s)"
  by (simp_all add: shell_run_def)

lemma shell_inv_run:
  assumes "list_all undisturbed as" "update_inv s" "jobs_inv s" "installs_inv s"
  shows "update_inv (shell_run as s) \<and> jobs_inv (shell_run as s) \<and> installs_inv (shell_run as s)"
  using assms
  by (induction as arbitrary: s)
    (simp_all add: update_inv_step jobs_inv_step installs_inv_step del: shell_step.simps)

lemma shell_inv_new: "update_inv (Shell_new v now)" "jobs_inv (Shell_new v now)"
  "installs_inv (Shell_new v now)"
  using world_inv_new permit_inv_new
  by (auto simp: update_inv_def jobs_inv_def installs_inv_def Shell_new_def Updater_new_def
      in_restart_def world_new_def intro: check_shape.intros)

lemmas shell_inv_reachable = shell_inv_run [OF _ shell_inv_new]

text \<open>C19: an update never cuts off a print job. Whatever the tasks of the program do, in any order, as
  long as no drain is cancelled and no \<open>request_restart\<close> is interrupted, every package the
  worker installs is the one the user was offered and asked to restart for, and at that moment the
  worker holds the only restart permit, no request and no print job is in flight, none is
  admitted, and every job that ever ran ended at least the cooldown before.\<close>

theorem update_never_cuts_jobs:
  assumes "list_all undisturbed as" "s = shell_run as (Shell_new v now)"
    and "(p, st, w) \<in> set (installs s)"
  shows "st = ReadyToRestart (package_version p) True \<and> permits w = 1 \<and> leases w = []
    \<and> try_acquire_request (tracker w) = None
    \<and> (\<forall>t \<in> set (ended_at w). t + DRAIN_COOLDOWN \<le> clock w)"
  using shell_inv_reachable [OF assms(1), of v now] assms(2,3)
  by (auto simp: installs_inv_def try_acquire_request_def)

text \<open>What is offered is there. In the same runs, when the public state says that a version is
  ready to restart and the worker is not already installing or reporting a failure, the package of
  that version is stored, no check is running, and a check that starts then changes nothing; and a
  stored package is offered, or is about to be by the running check.\<close>

theorem update_offer_is_stored:
  assumes "list_all undisturbed as" "s = shell_run as (Shell_new v now)"
  shows "(\<forall>version r. ustate (updater s) = ReadyToRestart version r \<and> may_offer (worker s) \<longrightarrow>
      (\<exists>p. package (updater s) = Some p \<and> package_version p = version)
      \<and> check_todo s = [] \<and> shell_step (StartCheck kind) s = s)
    \<and> (\<forall>p. package (updater s) = Some p \<longrightarrow>
      (\<exists>r. ustate (updater s) = ReadyToRestart (package_version p) r)
      \<or> check_todo s = [SetState (ReadyToRestart (package_version p) False)])"
proof -
  have i: "update_inv s" using shell_inv_reachable [OF assms(1), of v now] assms(2) by simp
  show ?thesis
  proof (intro conjI allI impI)
    fix version r
    assume r: "ustate (updater s) = ReadyToRestart version r \<and> may_offer (worker s)"
    with i have todo: "check_todo s = []" and "package (updater s) \<noteq> None"
      by (auto simp: update_inv_def)
    then obtain p where p: "package (updater s) = Some p" by blast
    with i r todo have "package_version p = version" by (auto simp: update_inv_def)
    with p show "\<exists>p. package (updater s) = Some p \<and> package_version p = version" by blast
    show "check_todo s = []" by (rule todo)
    show "shell_step (StartCheck kind) s = s" using r todo by (simp add: check_begin_def)
  qed (use i in \<open>auto simp: update_inv_def\<close>)
qed

text \<open>An interrupted request loses the offer. \<open>request_restart\<close> reads the state in one locked
  section and writes it back in another. When a download finishes in between, the old state is
  written over the offer: the program keeps saying that it is downloading, no check is running,
  the package is stored, and asking for a restart has no effect.\<close>

theorem interrupted_request_loses_offer:
  "\<exists>as. let s = shell_run as (Shell_new v now) in
     ustate (updater s) = Downloading version \<and> check_todo s = [] \<and> pending s = []
     \<and> package (updater s) = Some \<lparr>package_version = version, package_notes = None, installer_data = d\<rparr>
     \<and> ustate (updater (shell_step RequestRestart s)) = Downloading version"
proof (rule exI)
  let ?r = "\<lparr>release_version = version, release_notes = None\<rparr>"
  let ?p = "\<lparr>package_version = version, package_notes = None, installer_data = d\<rparr>"
  show "let s = shell_run [StartCheck Manual, StepCheck, SourceAnswer (Inr (Some ?r)), StepCheck, StepCheck,
      ReadRequest, SourceDownload (Inr ?p), StepCheck, StepCheck, WriteRequest 0] (Shell_new v now) in
     ustate (updater s) = Downloading version \<and> check_todo s = [] \<and> pending s = []
     \<and> package (updater s) = Some ?p
     \<and> ustate (updater (shell_step RequestRestart s)) = Downloading version"
    by (simp add: Let_def Shell_new_def Updater_new_def check_begin_def request_restart_def
        set_state_def remove_at_def)
qed

section \<open>Concrete runs\<close>

definition example_package :: UpdatePackage where
  "example_package = \<lparr>package_version = [50], package_notes = None, installer_data = None\<rparr>"

definition example_offer :: "ShellAction list" where
  "example_offer = [StartCheck Background, StepCheck,
     SourceAnswer (Inr (Some \<lparr>release_version = [50], release_notes = None\<rparr>)), StepCheck, StepCheck,
     SourceDownload (Inr example_package), StepCheck, StepCheck]"

lemmas eval_shell = example_offer_def example_package_def Shell_new_def Updater_new_def
  check_begin_def set_state_def request_restart_def install_guard_def install_take_def
  begin_restart_def world_safe_def is_restart_safe_def is_restart_safe_with_cooldown_def
  world_new_def Tracker_new_def tracker_ops clear_package_def update_waiting_flag_def may_offer_def

theorem update_never_cuts_jobs_witness:
  "\<exists>w. installs (shell_run (example_offer @ [RequestRestart, TakePermit, Guard, TakePackage]) (Shell_new [49] 0))
      = [(example_package, ReadyToRestart [50] True, w)] \<and> leases w = []"
proof -
  let ?as = "example_offer @ [RequestRestart, TakePermit, Guard, TakePackage]"
  have "list_all undisturbed ?as" by (simp add: example_offer_def)
  moreover obtain w where w: "installs (shell_run ?as (Shell_new [49] 0))
      = [(example_package, ReadyToRestart [50] True, w)]"
    by (simp add: eval_shell)
  ultimately have "leases w = []"
    using update_never_cuts_jobs [OF _ refl, of ?as example_package "ReadyToRestart [50] True" w "[49]" 0]
    by simp
  with w show ?thesis by blast
qed

theorem update_offer_is_stored_witness:
  "\<exists>p. package (updater (shell_run example_offer (Shell_new [49] 0))) = Some p
     \<and> package_version p = [50]"
proof -
  have "list_all undisturbed example_offer" by (simp add: example_offer_def)
  moreover have "ustate (updater (shell_run example_offer (Shell_new [49] 0))) = ReadyToRestart [50] False
    \<and> may_offer (worker (shell_run example_offer (Shell_new [49] 0)))"
    by (simp add: eval_shell)
  ultimately show ?thesis using update_offer_is_stored [OF _ refl] by blast
qed

end
