(* ===== verification/Print_Failure.thy ===== *)
theory Print_Failure
  imports Domain_Printer Job_Tracker
begin

text \<open>
  \<open>domain/failure.rs\<close> and \<open>application/failures.rs\<close>: failed print attempts as the user interface
  reports them. A record derives its message and recovery action from the path, the code and the
  printer; the clock is an argument.
\<close>

section \<open>Failures\<close>

definition MESSAGE_LIMIT :: nat where "MESSAGE_LIMIT = 200"

datatype JobPath = ClientForwarding | ServerSubmission

definition JobPath_ALL :: "JobPath list" where "JobPath_ALL = [ClientForwarding, ServerSubmission]"

fun JobPath_as_str :: "JobPath \<Rightarrow> ustr" where
  "JobPath_as_str ClientForwarding = lit ''client-forwarding''"
| "JobPath_as_str ServerSubmission = lit ''server-submission''"

record PrintFailure =
  failure_path :: JobPath
  failure_code :: ErrorCode
  failure_printer :: "PrinterName option"
  failure_message :: ustr
  failure_recovery :: ustr
  observed_at_ms :: nat

record Guidance =
  problem :: ustr
  recovery_text :: ustr

definition guidance :: "JobPath \<Rightarrow> ErrorCode \<Rightarrow> Guidance" where
  "guidance path code = (case path of
     ClientForwarding \<Rightarrow> (case code of
           ErrorCode.ServerUnavailable \<Rightarrow>
             \<lparr>problem = lit ''could not reach the ShaPrint server.'',
              recovery_text = lit ''Check that ShaPrint is running on the server, that its address is reachable from this computer, and print again.''\<rparr>
         | ErrorCode.ServerNotTrusted \<Rightarrow>
             \<lparr>problem = lit ''was not sent because this server is not approved yet.'',
              recovery_text = lit ''Open Nearby servers or Server connections, review the fingerprint, and approve the server before printing.''\<rparr>
         | ErrorCode.ServerIdentityChanged \<Rightarrow>
             \<lparr>problem = lit ''was blocked because the server certificate changed.'',
              recovery_text = lit ''Review the server's current fingerprint and reapprove it only if you trust the change.''\<rparr>
         | ErrorCode.NotAuthorized \<Rightarrow>
             \<lparr>problem = lit ''was rejected because the Network Channel is missing or incorrect.'',
              recovery_text = lit ''Set the Network Channel to the value this ShaPrint network uses, then print again.''\<rparr>
         | ErrorCode.PrinterNotShared \<Rightarrow>
             \<lparr>problem = lit ''was rejected because the server does not share that printer.'',
              recovery_text = lit ''Ask the server user to select this printer in ShaPrint and start sharing, then print again.''\<rparr>
         | ErrorCode.QueueUnavailable \<Rightarrow>
             \<lparr>problem = lit ''was rejected because the server could not use its printer queue.'',
              recovery_text = lit ''Ask the server user to check the printer and its queue on the server, then print again.''\<rparr>
         | ErrorCode.InvalidInput \<Rightarrow>
             \<lparr>problem = lit ''was rejected because its printer settings or request format are not supported.'',
              recovery_text = lit ''Print again with a supported media size, colour mode, and page count.''\<rparr>
         | ErrorCode.Timeout \<Rightarrow>
             \<lparr>problem = lit ''timed out before the server finished it.'',
              recovery_text = lit ''Check the server and the network route to it, then print again.''\<rparr>
         | ErrorCode.Unsupported \<Rightarrow>
             \<lparr>problem = lit ''was rejected because the server does not support it.'',
              recovery_text = lit ''Update ShaPrint on both computers so they agree on what a print job may contain, then print again.''\<rparr>
         | _ \<Rightarrow>
             \<lparr>problem = lit ''failed because the client proxy could not complete it.'',
              recovery_text = lit ''Open the Services panel, check that the client proxy is running, then print again.''\<rparr>)
   | ServerSubmission \<Rightarrow> (case code of
           ErrorCode.QueueUnavailable \<Rightarrow>
             \<lparr>problem = lit ''could not be submitted to the Windows printer queue.'',
              recovery_text = lit ''Check that the printer is switched on and reachable from this computer, then print again.''\<rparr>
         | ErrorCode.PrinterNotShared \<Rightarrow>
             \<lparr>problem = lit ''was rejected because that printer is no longer shared.'',
              recovery_text = lit ''Select this printer in the ShaPrint sharing panel and keep sharing running.''\<rparr>
         | ErrorCode.NotAuthorized \<Rightarrow>
             \<lparr>problem = lit ''was rejected because the Network Channel does not match.'',
              recovery_text = lit ''Set the Network Channel to the value this ShaPrint network uses, then restart sharing.''\<rparr>
         | ErrorCode.Timeout \<Rightarrow>
             \<lparr>problem = lit ''timed out while the printer queue was accepting it.'',
              recovery_text = lit ''Check that the printer is switched on and reachable from this computer, then print again.''\<rparr>
         | ErrorCode.InvalidInput \<Rightarrow>
             \<lparr>problem = lit ''was rejected because its printer settings are not supported.'',
              recovery_text = lit ''Print again with a supported media size, colour mode, and page count.''\<rparr>
         | ErrorCode.Unsupported \<Rightarrow>
             \<lparr>problem = lit ''could not be submitted because this server cannot reach Windows printer queues.'',
              recovery_text = lit ''Check that the printer is switched on and reachable from this computer, then print again.''\<rparr>
         | _ \<Rightarrow>
             \<lparr>problem = lit ''could not be submitted to the Windows printer queue.'',
              recovery_text = lit ''Check the printer and the sharing panel on this computer, then print again.''\<rparr>))"

definition describe :: "PrinterName option \<Rightarrow> ustr \<Rightarrow> ustr" where
  "describe printer text = (case printer of
     Some name \<Rightarrow> lit ''The job for '' @ [39] @ PrinterName_as_str name @ [39] @ lit '' '' @ text
   | None \<Rightarrow> lit ''A print job '' @ text)"

definition PrintFailure_new :: "JobPath \<Rightarrow> ErrorCode \<Rightarrow> PrinterName option \<Rightarrow> nat \<Rightarrow> PrintFailure" where
  "PrintFailure_new path code printer now_ms =
     (let g = guidance path code in
      \<lparr>failure_path = path, failure_code = code, failure_printer = printer,
       failure_message = sanitize_text (describe printer (problem g)) MESSAGE_LIMIT,
       failure_recovery = recovery_text g, observed_at_ms = now_ms\<rparr>)"

definition client_failure :: "ErrorCode \<Rightarrow> PrinterName option \<Rightarrow> nat \<Rightarrow> PrintFailure" where
  "client_failure code printer now_ms = PrintFailure_new ClientForwarding code printer now_ms"

definition server_failure :: "ErrorCode \<Rightarrow> PrinterName option \<Rightarrow> nat \<Rightarrow> PrintFailure" where
  "server_failure code printer now_ms = PrintFailure_new ServerSubmission code printer now_ms"

section \<open>The latest failure\<close>

type_synonym PrintFailures = "PrintFailure option"

definition PrintFailures_new :: PrintFailures where "PrintFailures_new = None"

definition report :: "PrintFailure \<Rightarrow> PrintFailures \<Rightarrow> PrintFailures" where
  "report failure latest = Some failure"

definition clear_failure :: "PrintFailures \<Rightarrow> PrintFailures" where
  "clear_failure latest = None"

definition is_rejected :: "PrintFailures \<Rightarrow> ustr \<Rightarrow> bool" where
  "is_rejected latest printer_name =
     (case latest of
        Some failure \<Rightarrow>
          failure_path failure = ClientForwarding \<and> failure_code failure = ErrorCode.NotAuthorized
          \<and> map_option PrinterName_as_str (failure_printer failure) = Some printer_name
      | None \<Rightarrow> False)"

lemma failure_simps [simp]:
  "failure_code (client_failure c p t) = c" "failure_printer (client_failure c p t) = p"
  "failure_path (client_failure c p t) = ClientForwarding"
  "failure_code (server_failure c p t) = c" "failure_printer (server_failure c p t) = p"
  "failure_path (server_failure c p t) = ServerSubmission"
  by (simp_all add: client_failure_def server_failure_def PrintFailure_new_def Let_def)

text \<open>A message is one bounded line, whatever the queue is called.\<close>

lemma failure_message_safe:
  "str_len (failure_message (PrintFailure_new path code printer t)) \<le> MESSAGE_LIMIT + 3"
  "c \<in> set (failure_message (PrintFailure_new path code printer t)) \<Longrightarrow> \<not> is_control c"
  using sanitize_text_bound sanitize_text_no_control
  by (auto simp: PrintFailure_new_def Let_def)

end
