(* ===== verification/Proxy_Http.thy ===== *)
theory Proxy_Http
  imports Rust_Net Domain_Error
begin

text \<open>
  The HTTP framing of the local proxy (\<open>adapters/client_proxy.rs\<close>): the request head, a chunked body,
  and the response it writes. A connection is what is still to be read and how it ends: the peer
  closes, stops sending until the timeout of the caller, or the transport fails. What the
  standard readers do with it (\<open>read_until\<close> below a limit, \<open>read_exact\<close>) is written out.
\<close>

section \<open>Connections\<close>

datatype Ending = Closed | Stalled | Broken

type_synonym connection = "bytes \<times> Ending"

text \<open>The reading of a line: its bytes, the rest, and whether it is complete.\<close>

fun take_line :: "nat \<Rightarrow> bytes \<Rightarrow> bytes \<times> bytes \<times> bool" where
  "take_line n [] = ([], [], n = 0)"
| "take_line n (b # bs) =
     (if n = 0 then ([], b # bs, True)
      else if b = 10 then ([b], bs, True)
      else (case take_line (n - 1) bs of (line, rest, full) \<Rightarrow> (b # line, rest, full)))"

text \<open>A failed read is \<open>None\<close> when the caller's timeout ends it and the given error otherwise.\<close>

definition read_until :: "AppError \<Rightarrow> nat \<Rightarrow> connection \<Rightarrow> AppError option + bytes \<times> connection" where
  "read_until err limit conn =
     (case take_line limit (fst conn) of
        (line, rest, full) \<Rightarrow>
          if full \<or> snd conn = Closed then Inr (line, (rest, snd conn))
          else if snd conn = Stalled then Inl None else Inl (Some err))"

definition read_exact :: "AppError \<Rightarrow> nat \<Rightarrow> connection \<Rightarrow> AppError option + bytes \<times> connection" where
  "read_exact err n conn =
     (if n \<le> length (fst conn) then Inr (take n (fst conn), (drop n (fst conn), snd conn))
      else if snd conn = Stalled then Inl None else Inl (Some err))"

lemma take_line_append: "take_line n bs = (line, rest, full) \<Longrightarrow> bs = line @ rest \<and> length line \<le> n"
  by (induction n bs arbitrary: line rest full rule: take_line.induct)
    (auto split: if_splits prod.splits)

lemma read_until_shorter:
  assumes "read_until err n conn = Inr (line, conn')"
  shows "fst conn = line @ fst conn'" "snd conn' = snd conn" "length line \<le> n"
  using assms take_line_append [of n "fst conn"]
  by (auto simp: read_until_def split: prod.splits if_splits)

text \<open>The pieces of \<open>split_whitespace\<close>.\<close>

fun split_whitespace_from :: "ustr \<Rightarrow> ustr \<Rightarrow> ustr list" where
  "split_whitespace_from word [] = (if word = [] then [] else [word])"
| "split_whitespace_from word (c # s) =
     (if is_whitespace c
      then (if word = [] then split_whitespace_from [] s else word # split_whitespace_from [] s)
      else split_whitespace_from (word @ [c]) s)"

definition split_whitespace :: "ustr \<Rightarrow> ustr list" where
  "split_whitespace s = split_whitespace_from [] s"

section \<open>The request head\<close>

definition MAX_HEAD_BYTES :: nat where "MAX_HEAD_BYTES = 8 * 1024"
definition MAX_BODY_BYTES :: nat where "MAX_BODY_BYTES = 64 * 1024 * 1024"
definition USIZE_MAX :: nat where "USIZE_MAX = 2 ^ 64 - 1"

record RequestHead =
  head_method :: ustr
  head_path :: ustr
  head_content_type :: "ustr option"
  head_content_length :: "nat option"
  is_chunked :: bool
  expects_continue :: bool

definition invalid_http :: AppError where
  "invalid_http = invalid_input (lit ''The local printer sent an invalid HTTP request.'')"

definition unreadable_http :: AppError where
  "unreadable_http = invalid_input (lit ''The local printer sent an unreadable HTTP request.'')"

function proxy_head_bytes :: "bytes \<Rightarrow> connection \<Rightarrow> AppError option + bytes \<times> connection" where
  "proxy_head_bytes seen conn =
     (case read_until unreadable_http (MAX_HEAD_BYTES - length seen + 1) conn of
        Inl e \<Rightarrow> Inl e
      | Inr (line, conn) \<Rightarrow>
          if line = [] then
            (if seen = [] then Inl (Some (timeout_error (lit ''Client disconnected without sending data.'')))
             else Inl (Some invalid_http))
          else if length seen + length line > MAX_HEAD_BYTES then Inl (Some invalid_http)
          else if line = [13, 10] \<or> line = [10] then Inr (seen @ line, conn)
          else proxy_head_bytes (seen @ line) conn)"
  by pat_completeness auto
termination
  by (relation "measure (\<lambda>(seen, conn). length (fst conn))") (auto dest!: read_until_shorter(1))

declare proxy_head_bytes.simps [simp del]

text \<open>One header line of the head.\<close>

definition proxy_header :: "ustr \<Rightarrow> RequestHead \<Rightarrow> AppError + RequestHead" where
  "proxy_header line h =
     (case split_once line [58] of
        None \<Rightarrow> Inr h
      | Some (name, v) \<Rightarrow>
          if eq_ignore_ascii_case name (lit ''content-type'')
          then Inr (h\<lparr>head_content_type := Some (trim v)\<rparr>)
          else if eq_ignore_ascii_case name (lit ''content-length'')
          then Inr (h\<lparr>head_content_length := parse_unsigned USIZE_MAX (trim v)\<rparr>)
          else if eq_ignore_ascii_case name (lit ''transfer-encoding'') then
            (if list_ex (\<lambda>e. eq_ignore_ascii_case e (lit ''chunked'')) (map trim (split_char 44 v))
             then Inr (h\<lparr>is_chunked := True\<rparr>)
             else Inl (invalid_input (lit ''The local printer used an unsupported HTTP transfer encoding'')))
          else if eq_ignore_ascii_case name (lit ''expect'')
          then Inr (h\<lparr>expects_continue := eq_ignore_ascii_case (trim v) (lit ''100-continue'')\<rparr>)
          else Inr h)"

fun proxy_headers :: "ustr list \<Rightarrow> RequestHead \<Rightarrow> AppError + RequestHead" where
  "proxy_headers [] h = Inr h"
| "proxy_headers (line # lines) h =
     (if line = [] then Inr h else and_then (proxy_header line h) (proxy_headers lines))"

text \<open>The lines of a text, without their line endings.\<close>

definition http_lines :: "ustr \<Rightarrow> ustr list" where
  "http_lines s = map (\<lambda>line. case strip_suffix line [13] of Some l \<Rightarrow> l | None \<Rightarrow> line) (split_char 10 s)"

definition proxy_parse_head :: "bytes \<Rightarrow> AppError + RequestHead" where
  "proxy_parse_head bs =
     (case from_utf8 bs of
        None \<Rightarrow> Inl invalid_http
      | Some t \<Rightarrow>
          (let lines = http_lines t in
           case split_whitespace (hd lines) of
             [m, path, _] \<Rightarrow>
               proxy_headers (tl lines)
                 \<lparr>head_method = m, head_path = path, head_content_type = None,
                  head_content_length = None, is_chunked = False, expects_continue = False\<rparr>
           | _ \<Rightarrow> Inl invalid_http))"

definition proxy_read_head :: "connection \<Rightarrow> AppError option + RequestHead \<times> connection" where
  "proxy_read_head conn =
     and_then (proxy_head_bytes [] conn) (\<lambda>(bs, conn).
     and_then (map_err Some (proxy_parse_head bs)) (\<lambda>h. Inr (h, conn)))"

text \<open>Accepts the IPP media type while ignoring optional HTTP parameters.\<close>

definition is_ipp_content_type :: "ustr \<Rightarrow> bool" where
  "is_ipp_content_type v = eq_ignore_ascii_case (trim (hd (split_char 59 v))) (lit ''application/ipp'')"

section \<open>Chunked bodies\<close>

definition parse_hex :: "nat \<Rightarrow> ustr \<Rightarrow> nat option" where
  "parse_hex m s =
     (let d = (case s of c # t \<Rightarrow> if c = 43 \<and> t \<noteq> [] then t else s | [] \<Rightarrow> s)
      in if d \<noteq> [] \<and> list_all is_ascii_hexdigit d \<and> hex_value d \<le> m then Some (hex_value d) else None)"

function skip_trailers :: "connection \<Rightarrow> AppError option + connection" where
  "skip_trailers conn =
     (case read_until (invalid_input (lit ''The local printer sent an unreadable chunk trailer.''))
             MAX_HEAD_BYTES conn of
        Inl e \<Rightarrow> Inl e
      | Inr (trailer, conn) \<Rightarrow>
          if trailer = [] \<or> trailer = [13, 10] \<or> trailer = [10] then Inr conn else skip_trailers conn)"
  by pat_completeness auto
termination
  by (relation "measure (\<lambda>conn. length (fst conn))") (auto dest!: read_until_shorter(1))

declare skip_trailers.simps [simp del]

definition chunk_size_of :: "bytes \<Rightarrow> AppError + nat" where
  "chunk_size_of line =
     and_then (ok_or (from_utf8 line) (invalid_input (lit ''Chunk size header not valid UTF-8.''))) (\<lambda>t.
     (let chunk_size_hex = trim (hd (split_char 59 (trim t))) in
      ok_or (parse_hex USIZE_MAX chunk_size_hex)
        (invalid_input (lit ''Invalid chunk size: '' @ chunk_size_hex))))"

definition chunk_data ::
  "nat \<Rightarrow> bytes \<Rightarrow> connection \<Rightarrow> AppError option + bytes \<times> connection" where
  "chunk_data chunk_size body conn =
     (if chunk_size > MAX_BODY_BYTES - length body
      then Inl (Some (invalid_input (lit ''Chunked body exceeds MAX_BODY_BYTES.'')))
      else
        and_then (read_exact (invalid_input (lit ''Incomplete chunk data from local printer.''))
                    chunk_size conn) (\<lambda>(data, conn).
        and_then (read_until (invalid_input (lit ''Missing delimiter after chunk data.'')) 4 conn)
          (\<lambda>(delim, conn).
        if delim \<noteq> [13, 10] \<and> delim \<noteq> [10]
        then Inl (Some (invalid_input (lit ''Malformed chunk delimiter.'')))
        else Inr (body @ data, conn))))"

lemma chunk_data_shorter:
  "chunk_data n body conn = Inr (body', conn') \<Longrightarrow> length (fst conn') < length (fst conn)"
  by (auto simp: chunk_data_def result_simps read_exact_def split: if_splits
      dest!: read_until_shorter(1)) (drule arg_cong [where f = length], simp)+

function read_chunks :: "bytes \<Rightarrow> connection \<Rightarrow> AppError option + bytes \<times> connection" where
  "read_chunks body conn =
     (case read_until (invalid_input (lit ''The local printer sent an unreadable chunk size.'')) 1024 conn of
        Inl e \<Rightarrow> Inl e
      | Inr (line, conn) \<Rightarrow>
          if line = [] then Inl (Some (invalid_input (lit ''Connection closed while reading chunk size.'')))
          else
            (case chunk_size_of line of
               Inl e \<Rightarrow> Inl (Some e)
             | Inr chunk_size \<Rightarrow>
                 if chunk_size = 0 then and_then (skip_trailers conn) (\<lambda>conn. Inr (body, conn))
                 else
                   (case chunk_data chunk_size body conn of
                      Inl e \<Rightarrow> Inl e
                    | Inr (body, conn) \<Rightarrow> read_chunks body conn)))"
  by pat_completeness auto
termination
  by (relation "measure (\<lambda>(body, conn). length (fst conn))")
    (auto dest!: read_until_shorter(1) chunk_data_shorter)

declare read_chunks.simps [simp del]

definition read_chunked_body :: "connection \<Rightarrow> AppError option + bytes \<times> connection" where
  "read_chunked_body conn = read_chunks [] conn"

section \<open>Responses\<close>

definition write_http :: "ustr \<Rightarrow> bytes \<Rightarrow> bytes" where
  "write_http status_line body =
     as_bytes (lit ''HTTP/1.1 '' @ status_line @ [13, 10] @ lit ''Content-Type: application/ipp'' @ [13, 10]
       @ lit ''Content-Length: '' @ show_nat (length body) @ [13, 10] @ lit ''Connection: close''
       @ [13, 10, 13, 10]) @ body"

section \<open>Bounds and round trip of a chunked body\<close>

lemma chunk_data_bound:
  "chunk_data n body conn = Inr (body', conn') \<Longrightarrow> 0 < n \<Longrightarrow> length body' \<le> MAX_BODY_BYTES"
  by (auto simp: chunk_data_def result_simps read_exact_def split: if_splits)

lemma read_chunks_bound:
  "read_chunks body conn = Inr (body', conn') \<Longrightarrow> length body \<le> MAX_BODY_BYTES \<Longrightarrow>
    length body' \<le> MAX_BODY_BYTES"
proof (induction body conn rule: read_chunks.induct)
  case (1 body conn)
  let ?line = "read_until (invalid_input (lit ''The local printer sent an unreadable chunk size.'')) 1024 conn"
  note r = "1.prems"(1) [unfolded read_chunks.simps [of body conn]]
  from r obtain line conn1 where l: "?line = Inr (line, conn1)" by (cases ?line) auto
  with r have ne: "line \<noteq> []" by auto
  from r l ne obtain n where n: "chunk_size_of line = Inr n" by (cases "chunk_size_of line") auto
  show ?case
  proof (cases "n = 0")
    case True
    with r l ne n "1.prems"(2) show ?thesis by (auto simp: result_simps)
  next
    case False
    with r l ne n obtain b c where bc: "chunk_data n body conn1 = Inr (b, c)"
      by (cases "chunk_data n body conn1") auto
    with r l ne n False have "read_chunks b c = Inr (body', conn')" by simp
    from "1.IH" [OF l refl ne n False bc refl this] show ?thesis
      using chunk_data_bound [OF bc] False by simp
  qed
qed

text \<open>A chunk as a client writes it: the size in hexadecimal, the data, and the line endings.\<close>

definition chunk_bytes :: "ustr \<times> bytes \<Rightarrow> bytes" where
  "chunk_bytes = (\<lambda>(sz, data). as_bytes (sz @ [13, 10]) @ data @ [13, 10])"

definition chunk_ok :: "ustr \<times> bytes \<Rightarrow> bool" where
  "chunk_ok = (\<lambda>(sz, data). data \<noteq> [] \<and> length sz \<le> 1022 \<and> list_all is_ascii_hexdigit sz
     \<and> sz \<noteq> [] \<and> hex_value sz = length data)"

lemma take_line_short:
  "10 \<notin> set line \<Longrightarrow> length line < n \<Longrightarrow> take_line n (line @ 10 # rest) = (line @ [10], rest, True)"
  by (induction line arbitrary: n) auto

lemma read_until_line:
  "10 \<notin> set line \<Longrightarrow> length line < n \<Longrightarrow>
    read_until err n (line @ 10 # rest, ending) = Inr (line @ [10], (rest, ending))"
  by (simp add: read_until_def take_line_short)

lemma hexdigit_facts:
  "is_ascii_hexdigit c \<Longrightarrow> c < 128 \<and> c \<noteq> 10 \<and> c \<noteq> 13 \<and> c \<noteq> 43 \<and> c \<noteq> 59 \<and> \<not> is_whitespace c"
  by (auto simp: is_ascii_hexdigit_def is_ascii_digit_def is_whitespace_def)

lemma chunk_size_line:
  assumes "list_all is_ascii_hexdigit sz" "sz \<noteq> []" "hex_value sz \<le> USIZE_MAX"
  shows "chunk_size_of (as_bytes (sz @ [13, 10])) = Inr (hex_value sz)"
proof -
  have f: "\<forall>c \<in> set sz. c < 128 \<and> c \<noteq> 10 \<and> c \<noteq> 13 \<and> c \<noteq> 43 \<and> c \<noteq> 59 \<and> \<not> is_whitespace c"
    using assms(1) hexdigit_facts by (auto simp: list_all_iff)
  then have "wf_ustr (sz @ [13, 10])" by (intro wf_ustr_ascii) (auto simp: list_all_iff)
  from from_utf8_as_bytes [OF this]
  have "from_utf8 (as_bytes sz @ [13, 10]) = Some (sz @ [13, 10])" by simp
  moreover have "trim (sz @ [13, 10]) = sz"
  proof -
    have "\<not> is_whitespace (hd sz)" "\<not> is_whitespace (last sz)" using f assms(2) by auto
    moreover have "is_whitespace 13" "is_whitespace 10" by (simp_all add: is_whitespace_def)
    moreover have "dropWhile is_whitespace (sz @ [13, 10]) = (sz @ [13]) @ [10]"
      using assms(2) calculation(1) by (cases sz) auto
    moreover have "trim_end_by is_whitespace sz = sz"
      using calculation(2) by (intro trim_end_by_id) simp
    ultimately show ?thesis by (simp add: trim_by_def del: append.simps append_assoc)
  qed
  moreover have "trim sz = sz" using f assms(2) by (intro trim_by_id) auto
  moreover have "split_char 59 sz = [sz]" using f by (intro split_char_no_sep) auto
  moreover have "parse_hex USIZE_MAX sz = Some (hex_value sz)"
    using assms f by (cases sz) (auto simp: parse_hex_def)
  ultimately show ?thesis by (simp add: chunk_size_of_def)
qed

lemma as_bytes_hex: "list_all is_ascii_hexdigit s \<Longrightarrow> 10 \<notin> set (as_bytes s) \<and> length (as_bytes s) = length s"
proof (induction s)
  case (Cons c s)
  then have "c < 128" "c \<noteq> 10" using hexdigit_facts [of c] by auto
  moreover from this have "(of_nat c :: u8) \<noteq> 10" by (simp add: word_unat_eq_iff unat_of_nat)
  ultimately show ?case using Cons by simp
qed simp

lemma read_chunks_chunk:
  assumes "chunk_ok c" "length body + length (snd c) \<le> MAX_BODY_BYTES"
  shows "read_chunks body (chunk_bytes c @ rest, ending) = read_chunks (body @ snd c) (rest, ending)"
proof -
  obtain sz data where c: "c = (sz, data)" by (cases c)
  from assms(1) have ok: "data \<noteq> []" "length sz \<le> 1022" "list_all is_ascii_hexdigit sz" "sz \<noteq> []"
    "hex_value sz = length data" by (simp_all add: chunk_ok_def c)
  have le: "hex_value sz \<le> USIZE_MAX"
    using assms(2) ok(5) by (simp add: c MAX_BODY_BYTES_def USIZE_MAX_def)
  have line: "as_bytes (sz @ [13, 10]) = as_bytes sz @ [13, 10]" by simp
  have "10 \<notin> set (as_bytes sz @ [13])" "length (as_bytes sz @ [13]) < 1024"
    using as_bytes_hex [OF ok(3)] ok(2) by auto
  from read_until_line [OF this]
  have l: "read_until err 1024 (chunk_bytes c @ rest, ending)
      = Inr (as_bytes (sz @ [13, 10]), (data @ 13 # 10 # rest, ending))" for err
    by (simp add: chunk_bytes_def c)
  have d: "chunk_data (hex_value sz) body (data @ 13 # 10 # rest, ending) = Inr (body @ data, (rest, ending))"
    using assms(2) ok(5) read_until_line [of "[13]" 4]
    by (simp add: chunk_data_def c read_exact_def)
  have "hex_value sz \<noteq> 0" using ok(1,5) by simp
  then show ?thesis
    by (subst read_chunks.simps) (simp add: l [unfolded c] chunk_size_line [OF ok(3,4) le] d c del: as_bytes_simps)
qed

lemma read_chunks_all:
  "list_all chunk_ok cs \<Longrightarrow> length body + length (concat (map snd cs)) \<le> MAX_BODY_BYTES \<Longrightarrow>
    read_chunks body (concat (map chunk_bytes cs) @ rest, ending)
      = read_chunks (body @ concat (map snd cs)) (rest, ending)"
  by (induction cs arbitrary: body) (simp_all add: read_chunks_chunk)

lemma read_chunks_end:
  "read_chunks body (as_bytes [48, 13, 10, 13, 10] @ rest, ending) = Inr (body, (rest, ending))"
proof -
  have "read_until err 1024 (as_bytes [48, 13, 10, 13, 10] @ rest, ending)
      = Inr (as_bytes ([48] @ [13, 10]), (13 # 10 # rest, ending))" for err
    using read_until_line [of "[48, 13]" 1024] by simp
  moreover have "chunk_size_of (as_bytes ([48] @ [13, 10])) = Inr 0"
    using chunk_size_line [of "[48]"]
    by (simp add: is_ascii_hexdigit_def is_ascii_digit_def hex_value_def hex_char_value_def)
  moreover have "skip_trailers (13 # 10 # rest, ending) = Inr (rest, ending)"
    using read_until_line [of "[13]" MAX_HEAD_BYTES]
    by (subst skip_trailers.simps) (simp add: MAX_HEAD_BYTES_def)
  ultimately show ?thesis
    by (subst read_chunks.simps) (simp del: as_bytes_simps)
qed

text \<open>C31: a chunked document arrives whole, and never too large. Whatever the connection holds, a
  chunked body that \<open>read_chunked_body\<close> accepts has at most 64 MiB; and for any way of cutting a
  document of at most that size into chunks, the body read back is the document, byte for byte, with
  what follows left unread.\<close>

theorem chunked_body_read:
  "(\<forall>conn body conn'. read_chunked_body conn = Inr (body, conn') \<longrightarrow> length body \<le> MAX_BODY_BYTES)
   \<and> (\<forall>chunks rest ending. list_all chunk_ok chunks
        \<and> length (concat (map snd chunks)) \<le> MAX_BODY_BYTES \<longrightarrow>
      read_chunked_body (concat (map chunk_bytes chunks) @ as_bytes [48, 13, 10, 13, 10] @ rest, ending)
        = Inr (concat (map snd chunks), (rest, ending)))"
  using read_chunks_bound [of "[]"] read_chunks_all [of _ "[]"] read_chunks_end
  unfolding read_chunked_body_def by fastforce

theorem chunked_body_read_witness:
  "read_chunked_body (concat (map chunk_bytes [([51], [1, 2, 3]), ([49], [4])])
     @ as_bytes [48, 13, 10, 13, 10] @ [], Closed) = Inr ([1, 2, 3, 4], ([], Closed))"
proof -
  have "list_all chunk_ok [([51], [1, 2, 3]), ([49], [4])]"
    by (simp add: chunk_ok_def is_ascii_hexdigit_def is_ascii_digit_def hex_value_def hex_char_value_def)
  moreover have "length (concat (map snd [([51 :: nat], [1, 2, 3 :: u8]), ([49], [4])])) \<le> MAX_BODY_BYTES"
    by (simp add: MAX_BODY_BYTES_def)
  ultimately show ?thesis using chunked_body_read by fastforce
qed

end
