(* ===== verification/Client_Proxy.thy ===== *)
theory Client_Proxy
  imports Trust_Policy Print_Failure Proxy_Http "HOL-Library.Product_Lexorder"
begin

text \<open>
  \<open>serve_client\<close> of \<open>adapters/client_proxy.rs\<close>: one request of the local spooler, from its bytes to
  the answer, with the leases, the pending multi-step jobs, the failure record and the trust store it
  works on. The environment holds what is outside: the network, SHA-256, the configured
  channel, the clocks (one reading per request), whether the pending jobs are unlocked at the moment of
  the clean-up, and whether the spooler still takes answers. A request returns its result, the new
  state, the bytes written to the spooler and the bytes written to a server. A lease that goes out
  of scope in the code is released explicitly.
\<close>

section \<open>State and environment\<close>

record PendingJob =
  pending_lease :: bool
  created_at :: nat

type_synonym pending = "((ustr \<times> int) \<times> PendingJob) list"

record ProxyState =
  proxy_connections :: ClientConnections
  proxy_failures :: PrintFailures
  proxy_tracker :: Tracker
  pending_jobs :: pending

record ProxyEnv =
  env_sha256 :: "bytes \<Rightarrow> bytes"
  env_network :: network
  env_channel :: "ustr option"
  env_uptime :: int
  env_now :: nat
  env_now_ms :: nat
  env_pending_free :: bool
  env_spooler_listens :: bool

type_synonym served = "(AppError + unit) \<times> bytes list"

definition PENDING_LIFETIME :: nat where "PENDING_LIFETIME = 120 * 1000"

definition drop_lease :: "ProxyEnv \<Rightarrow> bool \<Rightarrow> ProxyState \<Rightarrow> ProxyState" where
  "drop_lease env lease st =
     st\<lparr>proxy_tracker := snd (release (env_now env) lease (proxy_tracker st))\<rparr>"

definition drop_pending :: "ProxyEnv \<Rightarrow> PendingJob list \<Rightarrow> ProxyState \<Rightarrow> ProxyState" where
  "drop_pending env js st = fold (\<lambda>j. drop_lease env (pending_lease j)) js st"

definition is_fresh :: "ProxyEnv \<Rightarrow> PendingJob \<Rightarrow> bool" where
  "is_fresh env j \<longleftrightarrow> elapsed (env_now env) (created_at j) < PENDING_LIFETIME"

text \<open>\<open>HashMap::retain\<close>, \<open>insert\<close> and \<open>remove\<close> on the pending jobs, with the leases they drop.\<close>

definition retain_pending :: "ProxyEnv \<Rightarrow> ProxyState \<Rightarrow> ProxyState" where
  "retain_pending env st =
     drop_pending env (filter (\<lambda>j. \<not> is_fresh env j) (map snd (pending_jobs st)))
       (st\<lparr>pending_jobs := filter (\<lambda>p. is_fresh env (snd p)) (pending_jobs st)\<rparr>)"

definition insert_pending :: "ProxyEnv \<Rightarrow> ustr \<times> int \<Rightarrow> bool \<Rightarrow> ProxyState \<Rightarrow> ProxyState" where
  "insert_pending env key lease st =
     drop_pending env (case map_of (pending_jobs st) key of Some old \<Rightarrow> [old] | None \<Rightarrow> [])
       (st\<lparr>pending_jobs := bt_insert key \<lparr>pending_lease = lease, created_at = env_now env\<rparr>
                            (pending_jobs st)\<rparr>)"

definition remove_pending :: "ProxyEnv \<Rightarrow> ustr \<times> int \<Rightarrow> ProxyState \<Rightarrow> ProxyState" where
  "remove_pending env key st =
     drop_pending env (case map_of (pending_jobs st) key of Some old \<Rightarrow> [old] | None \<Rightarrow> [])
       (st\<lparr>pending_jobs := bt_remove key (pending_jobs st)\<rparr>)"

section \<open>Answers\<close>

definition respond :: "ProxyEnv \<Rightarrow> ustr \<Rightarrow> bytes \<Rightarrow> served" where
  "respond env status_line body =
     (if env_spooler_listens env then (Inr (), [write_http status_line body])
      else (Inl (internal_error (lit ''Could not answer the local printer.'')), []))"

definition respond_status :: "ProxyEnv \<Rightarrow> u32 \<Rightarrow> u8 \<times> u8 \<Rightarrow> Status \<Rightarrow> served" where
  "respond_status env rid ver status =
     respond env (lit ''200 OK'') (response (env_sha256 env) (env_uptime env) rid ver status [])"

definition write_ipp_error :: "ProxyEnv \<Rightarrow> Status \<Rightarrow> served" where
  "write_ipp_error env status = respond_status env 0 IPP_VERSION_1_1 status"

definition report_client :: "ProxyEnv \<Rightarrow> ErrorCode \<Rightarrow> PrinterName \<Rightarrow> ProxyState \<Rightarrow> ProxyState" where
  "report_client env code printer st =
     st\<lparr>proxy_failures := report (client_failure code (Some printer) (env_now_ms env)) (proxy_failures st)\<rparr>"

section \<open>Operations\<close>

definition is_print_submission :: "u16 \<Rightarrow> bool" where
  "is_print_submission op \<longleftrightarrow>
     op \<in> {OPERATION_PRINT_JOB, OPERATION_VALIDATE_JOB, OPERATION_CREATE_JOB, OPERATION_SEND_DOCUMENT}"

definition job_operations :: "u16 list" where
  "job_operations = [OPERATION_PRINT_JOB, OPERATION_VALIDATE_JOB, OPERATION_CREATE_JOB,
     OPERATION_SEND_DOCUMENT, OPERATION_CANCEL_JOB, OPERATION_GET_JOB_ATTRIBUTES, OPERATION_GET_JOBS]"

definition proxied_operations :: "u16 list" where
  "proxied_operations = job_operations @ [OPERATION_GET_PRINTER_ATTRIBUTES, OPERATION_GET_PRINTERS]"

definition forwarded_failure :: "u16 \<Rightarrow> ErrorCode option" where
  "forwarded_failure st =
     (if st \<le> 0x00FF then None
      else if st = status_code Status.NotAuthorized then Some ErrorCode.NotAuthorized
      else if st = status_code Status.NotFound then Some PrinterNotShared
      else if 0x0500 \<le> st \<and> st \<le> 0x05FF then Some QueueUnavailable
      else Some InvalidInput)"

fun ipp_status_for :: "ErrorCode \<Rightarrow> Status" where
  "ipp_status_for InvalidInput = Status.BadRequest"
| "ipp_status_for ErrorCode.NotAuthorized = Status.NotAuthorized"
| "ipp_status_for InvalidState = Status.NotAuthorized"
| "ipp_status_for ServerNotTrusted = Status.NotAuthorized"
| "ipp_status_for ServerIdentityChanged = Status.NotAuthorized"
| "ipp_status_for PrinterNotShared = Status.NotFound"
| "ipp_status_for _ = StatusInternalError"

definition remote_printer_uri :: "ustr \<Rightarrow> PrinterName \<Rightarrow> ustr" where
  "remote_printer_uri server printer =
     lit ''ipps://'' @ server @ lit ''/ipp/print/'' @ percent_encode (PrinterName_as_str printer)"

definition find_route :: "ustr \<Rightarrow> ustr \<Rightarrow> Request \<Rightarrow> (ustr \<times> PrinterName \<times> ustr) option" where
  "find_route authority path request =
     (case Option.bind (value_text request (lit ''printer-uri'')) (\<lambda>local_uri.
             map_option (\<lambda>(server, printer). (server, printer, local_uri))
               (ok (route_uri local_uri authority))) of
        Some route \<Rightarrow> Some route
      | None \<Rightarrow> ok (route_from_request_path path authority))"

definition positive_job_id :: "Request \<Rightarrow> int option" where
  "positive_job_id request =
     (case integer request (lit ''job-id'') of Some i \<Rightarrow> if i > 0 then Some i else None | None \<Rightarrow> None)"

section \<open>After forwarding\<close>

definition answer_status :: "bytes \<Rightarrow> u16 option" where
  "answer_status resp = map_option (\<lambda>bs. from_be16 (bs ! 0) (bs ! 1)) (slice_get resp 2 4)"

definition forwarded_answer ::
  "ProxyEnv \<Rightarrow> Request \<Rightarrow> ustr \<Rightarrow> ustr \<Rightarrow> bytes \<Rightarrow> bytes" where
  "forwarded_answer env request remote_uri local_uri resp =
     (if operation request = OPERATION_GET_PRINTER_ATTRIBUTES then
        (case rewrite_printer_uri_supported (env_sha256 env) (env_uptime env) resp remote_uri local_uri of
           Inr resp \<Rightarrow> resp
         | Inl _ \<Rightarrow> response (env_sha256 env) (env_uptime env) (request_id request)
                     (response_version request) StatusInternalError [])
      else resp)"

text \<open>What a forwarded request does to the pending jobs; the second component is what is left of the
  request's own lease.\<close>

definition settle_pending ::
  "ProxyEnv \<Rightarrow> ustr \<Rightarrow> Request \<Rightarrow> u16 option \<Rightarrow> bytes \<Rightarrow> bool option \<Rightarrow> ProxyState
    \<Rightarrow> bool option \<times> ProxyState" where
  "settle_pending env server request status resp lease st =
     (if operation request = OPERATION_CREATE_JOB
         \<and> (case status of Some s \<Rightarrow> s \<le> 0x00FF | None \<Rightarrow> False) then
        (case Request_parse resp of
           Inl _ \<Rightarrow> (lease, st)
         | Inr parsed \<Rightarrow>
             (case (positive_job_id parsed, lease) of
                (Some jid, Some l) \<Rightarrow> (None, insert_pending env (server, jid) l st)
              | _ \<Rightarrow> (lease, st)))
      else if operation request = OPERATION_SEND_DOCUMENT then
        (case positive_job_id request of
           None \<Rightarrow> (lease, st)
         | Some jid \<Rightarrow>
             if unwrap_or (boolean request (lit ''last-document'')) True
                \<or> (case status of Some s \<Rightarrow> s > 0x00FF | None \<Rightarrow> True)
             then (lease, remove_pending env (server, jid) st) else (lease, st))
      else if operation request = OPERATION_CANCEL_JOB then
        (case positive_job_id request of
           None \<Rightarrow> (lease, st) | Some jid \<Rightarrow> (lease, remove_pending env (server, jid) st))
      else (lease, st))"

definition report_forwarded ::
  "ProxyEnv \<Rightarrow> Request \<Rightarrow> PrinterName \<Rightarrow> u16 option \<Rightarrow> ProxyState \<Rightarrow> ProxyState" where
  "report_forwarded env request printer status st =
     (if is_print_submission (operation request) then
        (case (case status of Some s \<Rightarrow> forwarded_failure s | None \<Rightarrow> Some QueueUnavailable) of
           Some code \<Rightarrow> report_client env code printer st
         | None \<Rightarrow> st)
      else st)"

definition forward_succeeded ::
  "ProxyEnv \<Rightarrow> ustr \<Rightarrow> PrinterName \<Rightarrow> ustr \<Rightarrow> ustr \<Rightarrow> Request \<Rightarrow> bytes \<Rightarrow> bool option \<Rightarrow> ProxyState
    \<Rightarrow> served \<times> bool option \<times> ProxyState" where
  "forward_succeeded env server printer remote_uri local_uri request resp lease st =
     (let status = answer_status resp;
          st = report_forwarded env request printer status st;
          resp = forwarded_answer env request remote_uri local_uri resp;
          (lease, st) = settle_pending env server request status resp lease st
      in (respond env (lit ''200 OK'') resp, lease, st))"

definition forward_failed ::
  "ProxyEnv \<Rightarrow> ustr \<Rightarrow> PrinterName \<Rightarrow> Request \<Rightarrow> AppError \<Rightarrow> bool option \<Rightarrow> ProxyState
    \<Rightarrow> served \<times> bool option \<times> ProxyState" where
  "forward_failed env server printer request err lease st =
     (let st = (if is_print_submission (operation request)
                then report_client env (err_code err) printer st else st);
          st = (if operation request \<in> {OPERATION_SEND_DOCUMENT, OPERATION_CANCEL_JOB} then
                  (case positive_job_id request of
                     Some jid \<Rightarrow> remove_pending env (server, jid) st | None \<Rightarrow> st)
                else st)
      in (respond_status env (request_id request) (response_version request)
            (ipp_status_for (err_code err)), lease, st))"

section \<open>One request\<close>

text \<open>The lease the request keeps while it is forwarded, if it may go on.\<close>

definition job_lease_for ::
  "ProxyEnv \<Rightarrow> u16 \<Rightarrow> bool \<Rightarrow> ProxyState \<Rightarrow> (bool + bool option) \<times> ProxyState" where
  "job_lease_for env op lease st =
     (if op \<in> {OPERATION_PRINT_JOB, OPERATION_CREATE_JOB} then
        (case mark_print_job (env_now env) lease (proxy_tracker st) of
           (marked, lease, t) \<Rightarrow>
             ((if marked then Inr (Some lease) else Inl lease), st\<lparr>proxy_tracker := t\<rparr>))
      else if op \<in> {OPERATION_SEND_DOCUMENT, OPERATION_CANCEL_JOB} then (Inr (Some lease), st)
      else (Inr None, drop_lease env lease st))"

definition forward_request ::
  "ProxyEnv \<Rightarrow> bytes \<Rightarrow> Request \<Rightarrow> ustr \<times> PrinterName \<times> ustr \<Rightarrow> bool option \<Rightarrow> ProxyState
    \<Rightarrow> served \<times> bool option \<times> ProxyState \<times> Written list" where
  "forward_request env body request route lease st =
     (let (server, printer, local_uri) = route;
          remote_uri = remote_printer_uri server printer;
          op = operation request;
          credential = (if op \<in> set job_operations then env_channel env else None)
      in if op \<in> set job_operations \<and> env_channel env = None then
           (write_ipp_error env Status.NotAuthorized, lease,
            (if is_print_submission op then report_client env ErrorCode.NotAuthorized printer st else st), [])
         else
           (case forward_ipp (env_sha256 env) (env_network env) server remote_uri body credential
                   (proxy_connections st) of
              (Inr resp, conns, w) \<Rightarrow>
                (let (out, lease, st) = forward_succeeded env server printer remote_uri local_uri request
                       resp lease (st\<lparr>proxy_connections := conns\<rparr>)
                 in (out, lease, st, w))
            | (Inl err, conns, w) \<Rightarrow>
                (let (out, lease, st) = forward_failed env server printer request err lease
                       (st\<lparr>proxy_connections := conns\<rparr>)
                 in (out, lease, st, w))))"

definition serve_request ::
  "ProxyEnv \<Rightarrow> ustr \<Rightarrow> ustr \<Rightarrow> bytes \<Rightarrow> bool \<Rightarrow> ProxyState
    \<Rightarrow> served \<times> bool option \<times> ProxyState \<times> Written list" where
  "serve_request env authority path body lease st =
     (case Request_parse body of
        Inl _ \<Rightarrow> (write_ipp_error env Status.BadRequest, Some lease, st, [])
      | Inr request \<Rightarrow>
          let op = operation request;
              refuse = respond_status env (request_id request) (response_version request) in
          if \<not> version_is_supported request
          then (refuse Status.VersionNotSupported, Some lease, st, [])
          else if op \<notin> set proxied_operations
          then (refuse Status.UnsupportedOperation, Some lease, st, [])
          else
            (case find_route authority path request of
               None \<Rightarrow> (write_ipp_error env Status.NotFound, Some lease, st, [])
             | Some (server, printer, local_uri) \<Rightarrow>
                 (let st = (if env_pending_free env then retain_pending env st else st) in
                  case job_lease_for env op lease st of
                    (Inl lease, st) \<Rightarrow>
                      (refuse Status.NotAcceptingJobs, Some lease,
                       (if is_print_submission op then report_client env QueueUnavailable printer st else st),
                       [])
                  | (Inr lease, st) \<Rightarrow>
                      forward_request env body request (server, printer, local_uri) lease st)))"

definition read_body ::
  "ProxyEnv \<Rightarrow> RequestHead \<Rightarrow> connection \<Rightarrow> served + bytes" where
  "read_body env head conn =
     (let late = timeout_error (lit ''The local printer did not finish sending the document.'') in
      if is_chunked head then
        (case read_chunked_body conn of
           Inl None \<Rightarrow> Inl (Inl late, [])
         | Inl (Some e) \<Rightarrow> Inl (Inl e, [])
         | Inr (body, _) \<Rightarrow> Inr body)
      else
        (case head_content_length head of
           None \<Rightarrow> Inl (respond env (lit ''411 Length Required'') [])
         | Some len \<Rightarrow>
             if len > MAX_BODY_BYTES then Inl (respond env (lit ''413 Payload Too Large'') [])
             else
               (case read_exact (invalid_input (lit ''The local printer sent an incomplete IPP request.''))
                       len conn of
                  Inl None \<Rightarrow> Inl (Inl late, [])
                | Inl (Some e) \<Rightarrow> Inl (Inl e, [])
                | Inr (body, _) \<Rightarrow> Inr body)))"

definition serve_leased ::
  "ProxyEnv \<Rightarrow> ustr \<Rightarrow> RequestHead \<Rightarrow> connection \<Rightarrow> bool \<Rightarrow> ProxyState
    \<Rightarrow> served \<times> bool option \<times> ProxyState \<times> Written list" where
  "serve_leased env authority head conn lease st =
     (if expects_continue head \<and> \<not> env_spooler_listens env
      then ((Inl (internal_error (lit ''Could not send HTTP continue to the local printer.'')), []),
            Some lease, st, [])
      else
        let interim = (if expects_continue head
              then [as_bytes (lit ''HTTP/1.1 100 Continue'' @ [13, 10, 13, 10])] else []) in
        (case read_body env head conn of
           Inl (r, outs) \<Rightarrow> ((r, interim @ outs), Some lease, st, [])
         | Inr body \<Rightarrow>
             (case serve_request env authority (head_path head) body lease st of
                ((r, outs), lease, st, w) \<Rightarrow> ((r, interim @ outs), lease, st, w))))"

definition serve_client ::
  "ProxyEnv \<Rightarrow> ustr \<Rightarrow> connection \<Rightarrow> ProxyState \<Rightarrow> served \<times> ProxyState \<times> Written list" where
  "serve_client env authority conn st =
     (case proxy_read_head conn of
        Inl None \<Rightarrow> ((Inr (), []), st, [])
      | Inl (Some e) \<Rightarrow> ((if err_code e = Timeout then Inr () else Inl e, []), st, [])
      | Inr (head, conn) \<Rightarrow>
          if head_method head \<noteq> lit ''POST'' \<or> \<not> starts_with (head_path head) (lit ''/ipp/print'')
             \<or> \<not> (case head_content_type head of Some t \<Rightarrow> is_ipp_content_type t | None \<Rightarrow> False)
          then (respond env (lit ''400 Bad Request'') [], st, [])
          else
            (case try_acquire_request (proxy_tracker st) of
               None \<Rightarrow> (respond env (lit ''503 Service Unavailable'') [], st, [])
             | Some (lease, t) \<Rightarrow>
                 (case serve_leased env authority head conn lease (st\<lparr>proxy_tracker := t\<rparr>) of
                    (out, lease, st, w) \<Rightarrow>
                      (out, (case lease of Some l \<Rightarrow> drop_lease env l st | None \<Rightarrow> st), w))))"

text \<open>The clean-up that the service runs every five seconds.\<close>

definition cleanup_tick :: "ProxyEnv \<Rightarrow> ProxyState \<Rightarrow> ProxyState" where
  "cleanup_tick env st = retain_pending env st"

end
