(* ===== verification/Map_Contents.thy ===== *)
theory Map_Contents
  imports Key_Map "HOL-Library.Multiset"
begin

text \<open>
  The values of an ordered map as a multiset: what an insertion or a removal adds to them and takes
  from them. The lease accounts of the proxy and of the server's job store rest on it.
\<close>

lemma bt_wf_filter: "bt_wf m \<Longrightarrow> bt_wf (filter P m)"
  unfolding bt_wf_def by (induction m) auto

lemma mset_fresh:
  "mset (map (\<lambda>p. f (snd p)) (filter (\<lambda>p. P (snd p)) xs)) + mset (map f (filter (\<lambda>j. \<not> P j) (map snd xs)))
    = mset (map (\<lambda>p. f (snd p)) xs)"
  by (induction xs) auto

definition replaced :: "'k \<Rightarrow> ('k \<times> 'v) list \<Rightarrow> 'v list" where
  "replaced k m = (case map_of m k of Some old \<Rightarrow> [old] | None \<Rightarrow> [])"

lemma mset_bt_insert:
  "bt_wf m \<Longrightarrow> mset (map snd (bt_insert k v m)) + mset (replaced k m) = add_mset v (mset (map snd m))"
proof (induction k v m rule: bt_insert.induct)
  case (2 k v k' v' m)
  have "map_of m k = None" if "k < k'"
  proof -
    have "\<forall>x \<in> set (map fst m). k < x" using "2.prems" that unfolding bt_wf_def by auto
    then show ?thesis by (auto simp: map_of_eq_None_iff)
  qed
  with 2 show ?case by (auto simp: bt_wf_def replaced_def)
qed (simp add: replaced_def)

lemma mset_bt_remove:
  "bt_wf m \<Longrightarrow> mset (map snd (bt_remove k m)) + mset (replaced k m) = mset (map snd m)"
proof (induction m)
  case (Cons p m)
  have "filter (\<lambda>q. fst q \<noteq> k) m = m" "map_of m k = None" if "fst p = k"
  proof -
    have "\<forall>q \<in> set m. k < fst q" using Cons.prems that unfolding bt_wf_def by auto
    then show "filter (\<lambda>q. fst q \<noteq> k) m = m" "map_of m k = None"
      by (auto simp: filter_id_conv map_of_eq_None_iff)
  qed
  with Cons show ?case by (cases p) (auto simp: bt_remove_def bt_wf_def replaced_def)
qed (simp add: bt_remove_def replaced_def)

end
