(* ===== verification/Proxy_Policy.thy ===== *)
theory Proxy_Policy
  imports Client_Proxy Map_Contents
begin

text \<open>
  What the local proxy guarantees for every request of the spooler, whatever it holds: what leaves
  for a server and under which conditions, that no lease is lost on any path, and which failures the
  user is told about.
\<close>

section \<open>Leases\<close>

definition pending_leases :: "ProxyState \<Rightarrow> bool list" where
  "pending_leases st = map (\<lambda>p. pending_lease (snd p)) (pending_jobs st)"

text \<open>The counters are those of other tasks (\<open>js\<close> jobs, \<open>rs\<close> requests), of the leases held here, and of
  the leases of the pending jobs.\<close>

definition balanced :: "nat \<Rightarrow> nat \<Rightarrow> bool list \<Rightarrow> ProxyState \<Rightarrow> bool" where
  "balanced js rs held st \<longleftrightarrow>
     active_jobs (proxy_tracker st) = js + jobs_in (held @ pending_leases st)
     \<and> active_requests (proxy_tracker st) = rs + requests_in (held @ pending_leases st)
     \<and> bt_wf (pending_jobs st)"

lemma lease_counts_mset: "jobs_in ls = count (mset ls) True" "requests_in ls = count (mset ls) False"
  by (induction ls) auto

lemma balanced_cong:
  "mset (held @ pending_leases st) = mset (held' @ pending_leases st') \<Longrightarrow>
    proxy_tracker st = proxy_tracker st' \<Longrightarrow> bt_wf (pending_jobs st') \<Longrightarrow>
    balanced js rs held st \<Longrightarrow> balanced js rs held' st'"
  unfolding balanced_def lease_counts_mset by simp

lemma balanced_other [simp]:
  "balanced js rs held (st\<lparr>proxy_connections := c\<rparr>) = balanced js rs held st"
  "balanced js rs held (st\<lparr>proxy_failures := f\<rparr>) = balanced js rs held st"
  by (simp_all add: balanced_def pending_leases_def)

lemma balanced_report [simp]: "balanced js rs held (report_client env code p st) = balanced js rs held st"
  by (simp add: report_client_def)

lemma balanced_drop: "balanced js rs (l # held) st \<Longrightarrow> balanced js rs held (drop_lease env l st)"
  by (auto simp: balanced_def drop_lease_def release_def pending_leases_def Let_def)

lemma balanced_drop_pending:
  "balanced js rs (map pending_lease ps @ held) st \<Longrightarrow> balanced js rs held (drop_pending env ps st)"
  unfolding drop_pending_def
  by (induction ps arbitrary: st) (simp_all add: balanced_drop)

lemma balanced_retain:
  assumes "balanced js rs held st"
  shows "balanced js rs held (retain_pending env st)"
proof -
  let ?st = "st\<lparr>pending_jobs := filter (\<lambda>p. is_fresh env (snd p)) (pending_jobs st)\<rparr>"
  let ?old = "filter (\<lambda>j. \<not> is_fresh env j) (map snd (pending_jobs st))"
  have "mset (held @ pending_leases st) = mset ((map pending_lease ?old @ held) @ pending_leases ?st)"
    using mset_fresh [of pending_lease "is_fresh env" "pending_jobs st"]
    by (simp add: pending_leases_def ac_simps)
  moreover have "bt_wf (pending_jobs ?st)" using assms by (simp add: balanced_def bt_wf_filter)
  ultimately have "balanced js rs (map pending_lease ?old @ held) ?st"
    using balanced_cong [of held st "map pending_lease ?old @ held" ?st] assms by simp
  then show ?thesis unfolding retain_pending_def by (rule balanced_drop_pending)
qed

lemma pending_mset: "mset (pending_leases st) = image_mset pending_lease (mset (map snd (pending_jobs st)))"
  by (simp add: pending_leases_def multiset.map_comp comp_def)

lemma balanced_insert:
  assumes "balanced js rs (l # held) st"
  shows "balanced js rs held (insert_pending env k l st)"
proof -
  let ?st = "st\<lparr>pending_jobs := bt_insert k \<lparr>pending_lease = l, created_at = env_now env\<rparr> (pending_jobs st)\<rparr>"
  have wf: "bt_wf (pending_jobs st)" using assms by (simp add: balanced_def)
  have "image_mset pending_lease (mset (map snd (pending_jobs ?st)) + mset (replaced k (pending_jobs st)))
      = add_mset l (mset (pending_leases st))"
    using mset_bt_insert [OF wf, of k "\<lparr>pending_lease = l, created_at = env_now env\<rparr>"]
    by (simp add: pending_mset)
  then have "mset ((l # held) @ pending_leases st)
      = mset ((map pending_lease (replaced k (pending_jobs st)) @ held) @ pending_leases ?st)"
    by (simp add: pending_mset ac_simps)
  from balanced_cong [OF this _ _ assms] have "balanced js rs (map pending_lease (replaced k (pending_jobs st)) @ held) ?st"
    using bt.wf_put [OF wf] by simp
  then show ?thesis unfolding insert_pending_def replaced_def by (rule balanced_drop_pending)
qed

lemma balanced_remove:
  assumes "balanced js rs held st"
  shows "balanced js rs held (remove_pending env k st)"
proof -
  let ?st = "st\<lparr>pending_jobs := bt_remove k (pending_jobs st)\<rparr>"
  have wf: "bt_wf (pending_jobs st)" using assms by (simp add: balanced_def)
  have "image_mset pending_lease (mset (map snd (pending_jobs ?st)) + mset (replaced k (pending_jobs st)))
      = mset (pending_leases st)"
    using mset_bt_remove [OF wf, of k] by (simp add: pending_mset)
  then have "mset (held @ pending_leases st)
      = mset ((map pending_lease (replaced k (pending_jobs st)) @ held) @ pending_leases ?st)"
    by (simp add: pending_mset ac_simps)
  from balanced_cong [OF this _ _ assms] have "balanced js rs (map pending_lease (replaced k (pending_jobs st)) @ held) ?st"
    using bt.wf_del [OF wf] by simp
  then show ?thesis unfolding remove_pending_def replaced_def by (rule balanced_drop_pending)
qed

lemma balanced_settle:
  "balanced js rs (held_by lease) st \<Longrightarrow> settle_pending env server request status resp lease st = (lease', st')
    \<Longrightarrow> balanced js rs (held_by lease') st'"
  by (auto simp: settle_pending_def balanced_insert balanced_remove
      split: if_splits sum.splits option.splits)

lemma balanced_report_forwarded [simp]:
  "balanced js rs held (report_forwarded env request printer status st) = balanced js rs held st"
  by (auto simp: report_forwarded_def split: option.splits)

lemma balanced_succeeded:
  assumes "balanced js rs (held_by lease) st"
    "forward_succeeded env server printer remote local_uri request resp lease st = (out, lease', st')"
  shows "balanced js rs (held_by lease') st'"
  using assms balanced_settle [of js rs lease "report_forwarded env request printer (answer_status resp) st"]
  by (auto simp: forward_succeeded_def Let_def split: prod.splits)

lemma balanced_failed:
  assumes "balanced js rs (held_by lease) st"
    "forward_failed env server printer request err lease st = (out, lease', st')"
  shows "balanced js rs (held_by lease') st'"
  using assms by (auto simp: forward_failed_def Let_def balanced_remove split: if_splits option.splits)

lemma balanced_forward:
  assumes "balanced js rs (held_by lease) st"
    and "forward_request env body request route lease st = (out, lease', st', w)"
  shows "balanced js rs (held_by lease') st'"
proof -
  obtain server printer local_uri where route: "route = (server, printer, local_uri)" by (cases route)
  let ?cred = "if operation request \<in> set job_operations then env_channel env else None"
  obtain r conns w' where f: "forward_ipp (env_sha256 env) (env_network env) server
      (remote_printer_uri server printer) body ?cred (proxy_connections st) = (r, conns, w')"
    by (metis prod_cases3)
  show ?thesis
  proof (cases "operation request \<in> set job_operations \<and> env_channel env = None")
    case True
    with assms show ?thesis by (auto simp: forward_request_def route Let_def split: if_splits)
  next
    case False
    show ?thesis
    proof (cases r)
      case (Inl e)
      then have "forward_failed env server printer request e lease (st\<lparr>proxy_connections := conns\<rparr>)
          = (out, lease', st')"
        using assms(2) False f by (auto simp: forward_request_def route Let_def split: prod.splits if_splits)
      from balanced_failed [OF _ this] assms(1) show ?thesis by simp
    next
      case (Inr resp)
      then have "forward_succeeded env server printer (remote_printer_uri server printer) local_uri
          request resp lease (st\<lparr>proxy_connections := conns\<rparr>) = (out, lease', st')"
        using assms(2) False f by (auto simp: forward_request_def route Let_def split: prod.splits if_splits)
      from balanced_succeeded [OF _ this] assms(1) show ?thesis by simp
    qed
  qed
qed

lemma balanced_job_lease:
  assumes "balanced js rs [lease] st" "job_lease_for env op lease st = (r, st')"
  shows "balanced js rs (held_by (case r of Inl l \<Rightarrow> Some l | Inr l \<Rightarrow> l)) st'"
  using assms balanced_drop [OF assms(1)]
  by (auto simp: job_lease_for_def mark_print_job_def promote_request_def balanced_def pending_leases_def
      split: if_splits prod.splits)

abbreviation swept :: "ProxyEnv \<Rightarrow> ProxyState \<Rightarrow> ProxyState" where
  "swept env st \<equiv> (if env_pending_free env then retain_pending env st else st)"

definition routed_to ::
  "ustr \<Rightarrow> ustr \<Rightarrow> bytes \<Rightarrow> Request \<Rightarrow> ustr \<times> PrinterName \<times> ustr \<Rightarrow> bool" where
  "routed_to authority path body request route \<longleftrightarrow>
     Request_parse body = Inr request \<and> version_is_supported request
     \<and> operation request \<in> set proxied_operations \<and> find_route authority path request = Some route"

lemma serve_request_unrouted:
  assumes "\<And>request route. \<not> routed_to authority path body request route"
    and "serve_request env authority path body lease st = (out, lease', st', w)"
  shows "lease' = Some lease \<and> st' = st \<and> w = []"
proof (cases "Request_parse body")
  case (Inl e)
  with assms(2) show ?thesis by (simp add: serve_request_def)
next
  case (Inr request)
  show ?thesis
  proof (cases "find_route authority path request")
    case None
    with assms(2) Inr show ?thesis by (simp add: serve_request_def Let_def split: if_splits)
  next
    case (Some route)
    with assms(1) [of request route] Inr have "\<not> version_is_supported request \<or> operation request \<notin> set proxied_operations"
      by (auto simp: routed_to_def)
    with assms(2) Inr show ?thesis by (auto simp: serve_request_def Let_def split: if_splits)
  qed
qed

lemma serve_request_refused:
  assumes "routed_to authority path body request (server, printer, local_uri)"
    and "job_lease_for env (operation request) lease (swept env st) = (Inl l, st2)"
    and "serve_request env authority path body lease st = (out, lease', st', w)"
  shows "lease' = Some l \<and> w = []
    \<and> st' = (if is_print_submission (operation request) then report_client env QueueUnavailable printer st2 else st2)
    \<and> out = respond_status env (request_id request) (response_version request) Status.NotAcceptingJobs"
  using assms by (simp add: routed_to_def serve_request_def Let_def)

lemma serve_request_forwarded:
  assumes "routed_to authority path body request (server, printer, local_uri)"
    and "job_lease_for env (operation request) lease (swept env st) = (Inr l, st2)"
  shows "serve_request env authority path body lease st
    = forward_request env body request (server, printer, local_uri) l st2"
  using assms by (simp add: routed_to_def serve_request_def Let_def)

lemma balanced_request:
  assumes "balanced js rs [lease] st" "serve_request env authority path body lease st = (out, lease', st', w)"
  shows "balanced js rs (held_by lease') st'"
proof (cases "\<exists>request route. routed_to authority path body request route")
  case True
  then obtain request server printer local_uri
    where r: "routed_to authority path body request (server, printer, local_uri)" by (metis prod_cases3)
  obtain q st2 where q: "job_lease_for env (operation request) lease (swept env st) = (q, st2)" by fastforce
  have "balanced js rs [lease] (swept env st)" using assms(1) by (simp add: balanced_retain)
  note b2 = balanced_job_lease [OF this q]
  show ?thesis
  proof (cases q)
    case (Inl l)
    from serve_request_refused [OF r q [unfolded Inl] assms(2)] b2 Inl show ?thesis by simp
  next
    case (Inr l)
    from serve_request_forwarded [OF r q [unfolded Inr]] assms(2)
    have "forward_request env body request (server, printer, local_uri) l st2 = (out, lease', st', w)" by simp
    from balanced_forward [OF _ this] b2 Inr show ?thesis by simp
  qed
next
  case False
  then have "\<not> routed_to authority path body request route" for request route by blast
  from serve_request_unrouted [OF this assms(2)] assms(1) show ?thesis by simp
qed

lemma balanced_leased:
  assumes "balanced js rs [lease] st" "serve_leased env authority head conn lease st = (out, lease', st', w)"
  shows "balanced js rs (held_by lease') st'"
  using assms balanced_request [OF assms(1)]
  by (auto simp: serve_leased_def Let_def split: if_splits sum.splits prod.splits)

text \<open>C9: no lease is lost. For every input of the spooler and on every path of \<open>serve_client\<close>, errors,
  refused jobs and failed answers included, the tracker's counters afterwards are those of the
  other tasks and of the pending multi-step jobs, exactly, if they were so before: a request that ended
  holds nothing that would block a restart.\<close>

theorem proxy_conserves_leases:
  assumes "serve_client env authority conn st = (out, st', w)" "bt_wf (pending_jobs st)"
    and "active_jobs (proxy_tracker st) = js + jobs_in (pending_leases st)"
    and "active_requests (proxy_tracker st) = rs + requests_in (pending_leases st)"
  shows "active_jobs (proxy_tracker st') = js + jobs_in (pending_leases st')
    \<and> active_requests (proxy_tracker st') = rs + requests_in (pending_leases st')
    \<and> bt_wf (pending_jobs st')"
proof -
  have b: "balanced js rs [] st" using assms(2-4) by (simp add: balanced_def)
  show ?thesis
  proof (cases "\<exists>head conn' lease t. proxy_read_head conn = Inr (head, conn')
      \<and> try_acquire_request (proxy_tracker st) = Some (lease, t) \<and> st' \<noteq> st")
    case True
    then obtain head conn' lease t where h: "proxy_read_head conn = Inr (head, conn')"
      "try_acquire_request (proxy_tracker st) = Some (lease, t)" "st' \<noteq> st" by blast
    have b1: "balanced js rs [lease] (st\<lparr>proxy_tracker := t\<rparr>)"
      using h(2) b by (auto simp: try_acquire_request_def balanced_def pending_leases_def split: if_splits)
    obtain out2 lease2 st2 w2 where l: "serve_leased env authority head conn' lease
        (st\<lparr>proxy_tracker := t\<rparr>) = (out2, lease2, st2, w2)" by (metis prod_cases4)
    have st': "st' = (case lease2 of Some l \<Rightarrow> drop_lease env l st2 | None \<Rightarrow> st2)"
      using assms(1) h l by (auto simp: serve_client_def split: if_splits)
    have "balanced js rs [] st'"
      using balanced_leased [OF b1 l] balanced_drop [of js rs _ "[]" st2] by (cases lease2) (auto simp: st')
    then show ?thesis by (simp add: balanced_def)
  next
    case False
    then have "st' = st"
      using assms(1) by (auto simp: serve_client_def split: sum.splits option.splits if_splits) blast
    with assms(2-4) show ?thesis by simp
  qed
qed

section \<open>What leaves for a server\<close>

definition sent_for :: "ProxyEnv \<Rightarrow> ustr \<Rightarrow> ustr \<Rightarrow> bytes \<Rightarrow> ClientConnections \<Rightarrow> ServerAddress \<Rightarrow> bytes \<Rightarrow> bool" where
  "sent_for env authority path body conns a bs \<longleftrightarrow>
     (\<exists>request server printer local_uri sent credential.
        Request_parse body = Inr request \<and> version_is_supported request
        \<and> operation request \<in> set proxied_operations
        \<and> find_route authority path request = Some (server, printer, local_uri)
        \<and> credential = (if operation request \<in> set job_operations then env_channel env else None)
        \<and> (operation request \<in> set job_operations \<longrightarrow> env_channel env \<noteq> None)
        \<and> may_write (env_sha256 env) (env_network env) server conns a
        \<and> prepare_proxy_request body (remote_printer_uri server printer) credential = Inr sent
        \<and> bs = http_post a (length sent) @ sent)"

lemma forward_request_writes:
  assumes "forward_request env body request (server, printer, local_uri) lease st = (out, lease', st', w)"
    and "Written a bs \<in> set w"
  shows "\<exists>sent credential. credential = (if operation request \<in> set job_operations then env_channel env else None)
    \<and> (operation request \<in> set job_operations \<longrightarrow> env_channel env \<noteq> None)
    \<and> may_write (env_sha256 env) (env_network env) server (proxy_connections st) a
    \<and> prepare_proxy_request body (remote_printer_uri server printer) credential = Inr sent
    \<and> bs = http_post a (length sent) @ sent"
proof -
  let ?cred = "if operation request \<in> set job_operations then env_channel env else None"
  obtain r conns w' where f: "forward_ipp (env_sha256 env) (env_network env) server
      (remote_printer_uri server printer) body ?cred (proxy_connections st) = (r, conns, w')"
    by (metis prod_cases3)
  have "\<not> (operation request \<in> set job_operations \<and> env_channel env = None)" "w = w'"
    using assms f by (auto simp: forward_request_def Let_def split: sum.splits prod.splits if_splits)
  with forward_writes [OF f, of a bs] assms(2) show ?thesis by auto
qed

lemma job_lease_keeps_connections:
  "job_lease_for env op lease st = (r, st') \<Longrightarrow> proxy_connections st' = proxy_connections st"
  by (auto simp: job_lease_for_def drop_lease_def split: if_splits prod.splits)

lemma drop_pending_keeps:
  "proxy_connections (drop_pending env ps st) = proxy_connections st"
  "proxy_failures (drop_pending env ps st) = proxy_failures st"
  unfolding drop_pending_def by (induction ps arbitrary: st) (simp_all add: drop_lease_def)

lemma serve_request_writes:
  assumes "serve_request env authority path body lease st = (out, lease', st', w)"
    and "Written a bs \<in> set w"
  shows "sent_for env authority path body (proxy_connections st) a bs"
proof -
  obtain request server printer local_uri
    where r: "routed_to authority path body request (server, printer, local_uri)"
    using serve_request_unrouted [OF _ assms(1)] assms(2) by fastforce
  obtain q st2 where q: "job_lease_for env (operation request) lease (swept env st) = (q, st2)" by fastforce
  have c: "proxy_connections st2 = proxy_connections st"
    using job_lease_keeps_connections [OF q] by (simp add: retain_pending_def drop_pending_keeps)
  obtain l where "q = Inr l"
    using serve_request_refused [OF r _ assms(1), of _ st2] q assms(2) by (cases q) auto
  with q assms(1) have "forward_request env body request (server, printer, local_uri) l st2 = (out, lease', st', w)"
    using serve_request_forwarded [OF r, of env lease st l st2] by simp
  from forward_request_writes [OF this assms(2)] c r show ?thesis
    unfolding sent_for_def routed_to_def by metis
qed


section \<open>What the user is told\<close>

lemma settle_keeps_failures:
  "settle_pending env server request status resp lease st = (lease', st') \<Longrightarrow>
    proxy_failures st' = proxy_failures st"
  by (auto simp: settle_pending_def insert_pending_def remove_pending_def drop_pending_keeps
      split: if_splits sum.splits option.splits)

lemma forwarded_failure_None: "forwarded_failure s = None \<longleftrightarrow> s \<le> 0x00FF"
  by (simp add: forwarded_failure_def)

definition told :: "PrinterName \<Rightarrow> ProxyState \<Rightarrow> ErrorCode \<Rightarrow> bool" where
  "told printer st code \<longleftrightarrow> (\<exists>f. proxy_failures st = Some f \<and> failure_path f = ClientForwarding
     \<and> failure_printer f = Some printer \<and> failure_code f = code)"

lemma told_report [simp]: "told printer (report_client env code printer st) code"
  by (simp add: told_def report_client_def report_def)

lemma told_cong: "proxy_failures st = proxy_failures st' \<Longrightarrow> told printer st code = told printer st' code"
  by (simp add: told_def)

lemma report_forwarded_told:
  fixes st :: ProxyState and env :: ProxyEnv and request :: Request and printer :: PrinterName
    and status :: "u16 option"
  defines "st' \<equiv> report_forwarded env request printer status st"
  shows "if is_print_submission (operation request) \<and> \<not> (\<exists>s. status = Some s \<and> s \<le> 0x00FF)
         then \<exists>code. told printer st' code else proxy_failures st' = proxy_failures st"
proof (cases "is_print_submission (operation request)")
  case True
  show ?thesis
  proof (cases status)
    case None
    with True show ?thesis by (auto simp: st'_def report_forwarded_def intro: told_report)
  next
    case (Some s)
    with True show ?thesis
      using forwarded_failure_None [of s]
      by (cases "s \<le> 0x00FF"; cases "forwarded_failure s")
        (auto simp: st'_def report_forwarded_def intro: told_report)
  qed
next
  case False
  then show ?thesis by (simp add: st'_def report_forwarded_def)
qed

lemma told_pending [simp]:
  "told printer (remove_pending env key st) code = told printer st code"
  by (rule told_cong) (simp add: remove_pending_def drop_pending_keeps)

lemma failures_pending [simp]:
  "proxy_failures (remove_pending env key st) = proxy_failures st"
  "proxy_failures (retain_pending env st) = proxy_failures st"
  by (simp_all add: remove_pending_def retain_pending_def drop_pending_keeps)

lemma forward_failed_told:
  assumes "forward_failed env server printer request err lease st = (out, lease', st')"
  shows "if is_print_submission (operation request) then told printer st' (err_code err)
         else proxy_failures st' = proxy_failures st"
  using assms by (cases "positive_job_id request") (auto simp: forward_failed_def Let_def split: if_splits)

lemma forward_succeeded_told:
  assumes "forward_succeeded env server printer remote local_uri request resp lease st = (out, lease', st')"
  shows "if is_print_submission (operation request) \<and> \<not> (\<exists>s. answer_status resp = Some s \<and> s \<le> 0x00FF)
         then \<exists>code. told printer st' code else proxy_failures st' = proxy_failures st"
proof -
  let ?st = "report_forwarded env request printer (answer_status resp) st"
  obtain l s2 where s2: "settle_pending env server request (answer_status resp)
    (forwarded_answer env request remote local_uri resp) lease ?st = (l, s2)" by fastforce
  with assms have "st' = s2" by (simp add: forward_succeeded_def Let_def)
  with settle_keeps_failures [OF s2] have f: "proxy_failures st' = proxy_failures ?st" by simp
  from report_forwarded_told [of request "answer_status resp" printer env st]
  show ?thesis using f told_cong [OF f] by simp
qed

text \<open>The server accepted the request: it was forwarded over the trusted connection and the answer has a
  successful IPP status.\<close>

definition delivered :: "ProxyEnv \<Rightarrow> ClientConnections \<Rightarrow> bytes \<Rightarrow> ustr \<Rightarrow> PrinterName \<Rightarrow> bool" where
  "delivered env conns body server printer \<longleftrightarrow>
     env_channel env \<noteq> None
     \<and> (\<exists>resp conns' w s. forward_ipp (env_sha256 env) (env_network env) server
           (remote_printer_uri server printer) body (env_channel env) conns = (Inr resp, conns', w)
         \<and> answer_status resp = Some s \<and> s \<le> 0x00FF)"

lemma submissions_are_jobs: "is_print_submission op \<Longrightarrow> op \<in> set job_operations"
  by (auto simp: is_print_submission_def job_operations_def)

lemma reply_was_written:
  assumes "forward_ipp sha256 net input uri body channel conns = (Inr resp, conns', w)"
  shows "w \<noteq> []"
  using assms unfolding forward_ipp_def
  by (auto simp: Let_def split: sum.splits option.splits prod.splits if_splits)

lemma forward_request_told:
  assumes "forward_request env body request (server, printer, local_uri) lease st = (out, lease', st', w)"
  shows "if is_print_submission (operation request) \<and> \<not> delivered env (proxy_connections st) body server printer
         then \<exists>code. told printer st' code
         else proxy_failures st' = proxy_failures st
           \<and> (is_print_submission (operation request) \<longrightarrow> w \<noteq> [])"
proof (cases "operation request \<in> set job_operations \<and> env_channel env = None")
  case True
  with assms show ?thesis
    by (auto simp: forward_request_def Let_def delivered_def intro: told_report split: if_splits)
next
  case False
  let ?cred = "if operation request \<in> set job_operations then env_channel env else None"
  obtain r conns w' where f: "forward_ipp (env_sha256 env) (env_network env) server
      (remote_printer_uri server printer) body ?cred (proxy_connections st) = (r, conns, w')"
    by (metis prod_cases3)
  show ?thesis
  proof (cases r)
    case (Inl e)
    obtain o2 l2 s2 where g: "forward_failed env server printer request e lease
        (st\<lparr>proxy_connections := conns\<rparr>) = (o2, l2, s2)" by (metis prod_cases3)
    with assms False f Inl have "st' = s2" by (simp add: forward_request_def Let_def split: if_splits)
    moreover have "\<not> delivered env (proxy_connections st) body server printer"
      if "is_print_submission (operation request)"
      using f Inl submissions_are_jobs [OF that] by (auto simp: delivered_def)
    ultimately show ?thesis using forward_failed_told [OF g] by auto
  next
    case (Inr resp)
    obtain o2 l2 s2 where g: "forward_succeeded env server printer (remote_printer_uri server printer)
        local_uri request resp lease (st\<lparr>proxy_connections := conns\<rparr>) = (o2, l2, s2)"
      by (metis prod_cases3)
    with assms False f Inr have "st' = s2" "w = w'" by (auto simp: forward_request_def Let_def split: if_splits)
    moreover have "w' \<noteq> []" using reply_was_written f Inr by blast
    moreover have "delivered env (proxy_connections st) body server printer
        \<longleftrightarrow> (\<exists>s. answer_status resp = Some s \<and> s \<le> 0x00FF)"
      if "is_print_submission (operation request)"
      using f Inr False submissions_are_jobs [OF that] by (auto simp: delivered_def)
    ultimately show ?thesis using forward_succeeded_told [OF g] by auto
  qed
qed

lemma job_lease_keeps_failures:
  "job_lease_for env op lease st = (r, st') \<Longrightarrow> proxy_failures st' = proxy_failures st"
  by (auto simp: job_lease_for_def drop_lease_def split: if_splits prod.splits)


end
