(* ===== verification/Proxy_Witnesses.thy ===== *)
theory Proxy_Witnesses
  imports Trust_Witnesses Proxy_Policy
begin

text \<open>
  Concrete runs of the properties of the local proxy: the spooler posts one Print-Job for the queue
  of \<open>Office\<close> on the approved server \<open>srv:631\<close>.
\<close>

definition example_lines :: "ustr list" where
  "example_lines = [lit ''POST /ipp/print/srv%3A631/Office HTTP/1.1'', lit ''Content-Type: application/ipp'',
     lit ''Content-Length: 11'']"

definition example_head_bytes :: bytes where
  "example_head_bytes = concat (map (\<lambda>l. as_bytes (l @ [13, 10])) example_lines) @ [13, 10]"

definition example_body :: bytes where
  "example_body = example_head @ items_bytes [Delim 0x01] @ 0x03 # [42]"

definition example_post :: connection where
  "example_post = (example_head_bytes @ example_body, Closed)"

lemma proxy_head_line:
  assumes "10 \<notin> set (as_bytes l)" "l \<noteq> []" "length seen + length (as_bytes l) + 2 \<le> MAX_HEAD_BYTES"
  shows "proxy_head_bytes seen (as_bytes (l @ [13, 10]) @ rest, e)
    = proxy_head_bytes (seen @ as_bytes (l @ [13, 10])) (rest, e)"
proof -
  have "read_until unreadable_http (MAX_HEAD_BYTES - length seen + 1) (as_bytes (l @ [13, 10]) @ rest, e)
      = Inr (as_bytes (l @ [13, 10]), (rest, e))"
    using assms read_until_line [of "as_bytes (l @ [13])" "MAX_HEAD_BYTES - length seen + 1" _ rest e] by simp
  moreover have "as_bytes l \<noteq> []" using assms(2) by (cases l) simp_all
  ultimately show ?thesis using assms
    by (subst proxy_head_bytes.simps) (auto simp: Cons_eq_append_conv append_eq_Cons_conv)
qed

lemma proxy_head_end:
  assumes "seen \<noteq> []" "length seen + 2 \<le> MAX_HEAD_BYTES"
  shows "proxy_head_bytes seen (13 # 10 # rest, e) = Inr (seen @ [13, 10], (rest, e))"
  using assms read_until_line [of "[13]" "MAX_HEAD_BYTES - length seen + 1" unreadable_http rest e]
  by (subst proxy_head_bytes.simps) simp

definition example_request_head :: RequestHead where
  "example_request_head =
     \<lparr>head_method = lit ''POST'', head_path = lit ''/ipp/print/srv%3A631/Office'',
      head_content_type = Some (lit ''application/ipp''), head_content_length = Some 11,
      is_chunked = False, expects_continue = False\<rparr>"

lemma example_parse_head: "proxy_parse_head example_head_bytes = Inr example_request_head"
proof -
  let ?t = "concat (map (\<lambda>l. l @ [13, 10]) example_lines) @ [13, 10]"
  have "example_head_bytes = as_bytes ?t" "wf_ustr ?t"
    by (simp_all add: example_head_bytes_def example_lines_def is_scalar_def)
  then have "from_utf8 example_head_bytes = Some ?t" by (metis from_utf8_as_bytes)
  then show ?thesis
    by (simp add: proxy_parse_head_def example_lines_def http_lines_def split_whitespace_def
        example_request_head_def proxy_header_def eq_ignore_ascii_case_def eval_str USIZE_MAX_def)
qed

lemma proxy_head_lines:
  "list_all (\<lambda>l. 10 \<notin> set (as_bytes l) \<and> l \<noteq> []) ls \<Longrightarrow> seen \<noteq> [] \<or> ls \<noteq> [] \<Longrightarrow>
    length seen + length (concat (map (\<lambda>l. as_bytes (l @ [13, 10])) ls)) + 2 \<le> MAX_HEAD_BYTES \<Longrightarrow>
    proxy_head_bytes seen (concat (map (\<lambda>l. as_bytes (l @ [13, 10])) ls) @ 13 # 10 # rest, e)
      = Inr (seen @ concat (map (\<lambda>l. as_bytes (l @ [13, 10])) ls) @ [13, 10], (rest, e))"
proof (induction ls arbitrary: seen)
  case Nil
  then show ?case using proxy_head_end [of seen] by simp
next
  case (Cons l ls)
  have "proxy_head_bytes seen (as_bytes (l @ [13, 10])
      @ (concat (map (\<lambda>l. as_bytes (l @ [13, 10])) ls) @ 13 # 10 # rest), e)
    = proxy_head_bytes (seen @ as_bytes (l @ [13, 10]))
        (concat (map (\<lambda>l. as_bytes (l @ [13, 10])) ls) @ 13 # 10 # rest, e)"
    using Cons.prems by (intro proxy_head_line) simp_all
  with Cons.IH [of "seen @ as_bytes (l @ [13, 10])"] Cons.prems show ?case by simp
qed

lemma example_read_head: "proxy_read_head example_post = Inr (example_request_head, (example_body, Closed))"
proof -
  have "proxy_head_bytes [] example_post = Inr (example_head_bytes, (example_body, Closed))"
    unfolding example_post_def example_head_bytes_def append_assoc append.simps
    by (subst proxy_head_lines) (simp_all add: MAX_HEAD_BYTES_def example_lines_def)
  then show ?thesis by (simp add: proxy_read_head_def example_parse_head)
qed

definition example_print :: Request where
  "example_print =
     \<lparr>version = (2, 0), operation = OPERATION_PRINT_JOB, request_id = 1, attributes = [],
      document = [42], document_start = 10\<rparr>"

lemma example_print_parse: "Request_parse example_body = Inr example_print"
  by (simp add: example_body_def example_head_def Request_parse_def example_print_def
      OPERATION_PRINT_JOB_def from_be16_def from_be32_def is_delimiter_def)

definition example_channel :: ustr where "example_channel = lit ''secret''"

definition example_env :: ProxyEnv where
  "example_env =
     \<lparr>env_sha256 = example_sha, env_network = example_net, env_channel = Some (example_channel),
      env_uptime = 1, env_now = 5000, env_now_ms = 7000, env_pending_free = True,
      env_spooler_listens = True\<rparr>"

definition example_proxy :: ProxyState where
  "example_proxy =
     \<lparr>proxy_connections = example_store [(example_address, example_pin)], proxy_failures = None,
      proxy_tracker = (Tracker_new 0)\<lparr>active_jobs := 1\<rparr>,
      pending_jobs = [((example_address, 7), \<lparr>pending_lease = True, created_at = 4000\<rparr>)]\<rparr>"

lemma example_route: "find_route example_authority (head_path example_request_head) example_print
  = Some (example_address, PrinterName example_printer, example_uri)"
proof -
  have "strip_prefix (before_query (head_path example_request_head)) (lit ''/ipp/print/'')
      = Some (percent_encode example_address @ 47 # percent_encode example_printer)"
    by (simp add: example_request_head_def example_address_def example_printer_def before_query_def
        percent_encode_def encode_byte_def unreserved_def hex_upper_def hex_digit_upper_def eval_str)
  moreover have "parse_route (percent_encode example_address @ 47 # percent_encode example_printer)
      = Inr (example_address, PrinterName example_printer)"
    using example_wf example_canonical example_name
    by (simp add: parse_route_def route_segments percent_decode_encode slice_at_def unwrap_or_def)
      (simp add: example_address_def example_printer_def)
  moreover have "lit ''ipp://'' @ example_authority @ lit ''/ipp/print/'' @ percent_encode example_address
      @ [47] @ percent_encode example_printer = example_uri"
    by (simp add: example_uri_def example_authority_def example_address_def example_printer_def
      percent_encode_def encode_byte_def unreserved_def hex_upper_def hex_digit_upper_def eval_str)
  ultimately have "route_from_request_path (head_path example_request_head) example_authority
      = Inr (example_address, PrinterName example_printer, example_uri)"
    unfolding route_from_request_path_def by simp
  then show ?thesis
    by (simp add: find_route_def value_text_def attribute_def example_print_def)
qed

theorem proxy_conserves_leases_witness:
  "\<exists>out st' w. serve_client example_env example_authority example_post example_proxy = (out, st', w)
     \<and> active_jobs (proxy_tracker st') = jobs_in (pending_leases st')
     \<and> active_requests (proxy_tracker st') = requests_in (pending_leases st')"
proof -
  obtain out st' w where s: "serve_client example_env example_authority example_post example_proxy
      = (out, st', w)" using prod_cases3 by blast
  have "bt_wf (pending_jobs example_proxy)"
    "active_jobs (proxy_tracker example_proxy) = 0 + jobs_in (pending_leases example_proxy)"
    "active_requests (proxy_tracker example_proxy) = 0 + requests_in (pending_leases example_proxy)"
    by (simp_all add: example_proxy_def bt_wf_def pending_leases_def Tracker_new_def)
  from proxy_conserves_leases [OF s this] s show ?thesis by auto
qed

lemma example_print_ok: "version_is_supported example_print"
  "operation example_print \<in> set proxied_operations" "is_print_submission (operation example_print)"
  by (simp_all add: version_is_supported_def example_print_def SUPPORTED_VERSIONS_def
      IPP_VERSION_2_0_def IPP_VERSION_1_1_def
      proxied_operations_def job_operations_def is_print_submission_def)

lemma example_retained: "pending_jobs st = pending_jobs example_proxy \<Longrightarrow> swept example_env st = st"
  by (simp add: retain_pending_def drop_pending_def is_fresh_def elapsed_def example_proxy_def
      example_env_def PENDING_LIFETIME_def)

definition example_sent :: bytes where
  "example_sent = example_head @ items_bytes [Delim 0x01,
     Field 0x45 PU (as_bytes (remote_printer_uri example_address (PrinterName example_printer))),
     Field 0x41 NC (as_bytes (example_channel))] @ 0x03 # [42]"

lemma example_prepare_remote:
  "prepare_proxy_request example_body (remote_printer_uri example_address (PrinterName example_printer))
     (Some (example_channel)) = Inr example_sent"
  unfolding example_body_def example_sent_def
  using proxy_loop_items [of "[Delim 0x01]" "remote_printer_uri example_address (PrinterName example_printer)"
      "Some (example_channel)" "[42]" "[]" False False example_head]
  by (simp add: prepare_proxy_request_def example_head_def Request_parse_def is_delimiter_def
      channel_items_def)

lemma example_posted:
  "saved conns = [(example_address, example_pin)] \<Longrightarrow> readable conns \<Longrightarrow>
   \<exists>e conns'. forward_ipp example_sha example_net example_address
     (remote_printer_uri example_address (PrinterName example_printer)) example_body
     (Some (example_channel)) conns
   = (Inl e, conns', [Written example_host (http_post example_host (length example_sent) @ example_sent)])"
  by (simp add: forward_ipp_def example_parse example_normalized refresh_store_readable
      connect_def example_dial example_prepare_remote Let_def flip: example_pin_def)

definition example_started :: ProxyState where
  "example_started = example_proxy\<lparr>proxy_tracker := (proxy_tracker example_proxy)\<lparr>active_requests := 1\<rparr>\<rparr>"

lemma example_lease: "job_lease_for example_env (operation example_print) False (swept example_env example_started)
  = (Inr (Some True), example_proxy\<lparr>proxy_tracker := (proxy_tracker example_proxy)
      \<lparr>active_jobs := 2, last_busy_at := 5000\<rparr>\<rparr>)"
  by (subst example_retained)
    (simp_all add: job_lease_for_def example_print_def mark_print_job_def promote_request_def
      example_started_def example_proxy_def example_env_def Tracker_new_def)

lemma example_routed: "routed_to example_authority (head_path example_request_head) example_body example_print
      (example_address, PrinterName example_printer, example_uri)"
  using example_print_ok example_print_parse example_route by (simp add: routed_to_def)

lemma example_serve: "\<exists>out lease st. serve_request example_env example_authority
    (head_path example_request_head) example_body False example_started
  = (out, lease, st, [Written example_host (http_post example_host (length example_sent) @ example_sent)])"
proof -
  have "operation example_print \<in> set job_operations" "env_channel example_env = Some example_channel"
    "env_sha256 example_env = example_sha" "env_network example_env = example_net"
    by (simp_all add: example_print_def job_operations_def example_env_def)
  moreover have "saved (proxy_connections (example_proxy\<lparr>proxy_tracker := t\<rparr>))
      = [(example_address, example_pin)]" "readable (proxy_connections (example_proxy\<lparr>proxy_tracker := t\<rparr>))" for t
    by (simp_all add: example_proxy_def example_saved)
  note example_posted [OF this]
  ultimately show ?thesis
    unfolding serve_request_forwarded [OF example_routed example_lease] forward_request_def
    by (fastforce simp: Let_def split: prod.splits)
qed

lemma example_acquire: "try_acquire_request (proxy_tracker example_proxy)
    = Some (False, (proxy_tracker example_proxy)\<lparr>active_requests := 1\<rparr>)"
  by (simp add: try_acquire_request_def example_proxy_def Tracker_new_def)

lemma example_accepted: "\<not> (head_method example_request_head \<noteq> lit ''POST''
    \<or> \<not> starts_with (head_path example_request_head) (lit ''/ipp/print'')
    \<or> \<not> (case head_content_type example_request_head of Some t \<Rightarrow> is_ipp_content_type t | None \<Rightarrow> False))"
  by (simp add: example_request_head_def is_ipp_content_type_def eq_ignore_ascii_case_def eval_str)

lemma example_read_body: "read_body example_env example_request_head (example_body, Closed) = Inr example_body"
  by (simp add: read_body_def example_request_head_def MAX_BODY_BYTES_def read_exact_def
      example_body_def example_head_def)

lemma example_served: "\<exists>out st. serve_client example_env example_authority example_post example_proxy
  = (out, st, [Written example_host (http_post example_host (length example_sent) @ example_sent)])"
proof -
  obtain o1 o2 l st where s: "serve_request example_env example_authority (head_path example_request_head)
      example_body False example_started = ((o1, o2), l, st,
        [Written example_host (http_post example_host (length example_sent) @ example_sent)])"
    using example_serve by fastforce
  then have "serve_leased example_env example_authority example_request_head (example_body, Closed) False
      example_started = ((o1, o2), l, st,
        [Written example_host (http_post example_host (length example_sent) @ example_sent)])"
    by (simp add: serve_leased_def example_read_body)
      (simp add: example_request_head_def)
  then show ?thesis
    using example_accepted
    by (simp add: serve_client_def example_read_head example_acquire example_started_def)
qed



end
