(* ===== verification/Print_Settings.thy ===== *)
theory Print_Settings
  imports Ipp_Message
begin

text \<open>
  What a client may ask of a queue: the settings of \<open>application/printers.rs\<close>, read from a request by
  \<open>job_settings\<close> of \<open>adapters/ipps/endpoint.rs\<close>, and the print job that is handed to the queue.
\<close>

datatype DuplexMode = Simplex | LongEdge | ShortEdge
datatype PrintOrientation = Portrait | Landscape
datatype PrintQuality = Draft | Normal | High

record PrintSettings =
  setting_media :: "ustr option"
  setting_color :: "bool option"
  setting_duplex :: "DuplexMode option"
  setting_copies :: "u16 option"
  setting_orientation :: "PrintOrientation option"
  setting_quality :: "PrintQuality option"

record PrintJob =
  job_body :: bytes
  job_document_start :: nat
  job_print_settings :: PrintSettings

definition from_ipp_body :: "bytes \<Rightarrow> nat \<Rightarrow> PrintSettings \<Rightarrow> PrintJob" where
  "from_ipp_body body start settings =
     \<lparr>job_body = body, job_document_start = start, job_print_settings = settings\<rparr>"

definition job_document :: "PrintJob \<Rightarrow> bytes" where
  "job_document j =
     (if job_document_start j \<le> length (job_body j) then drop (job_document_start j) (job_body j) else [])"

section \<open>Reading them from a request\<close>

abbreviation unsupported_value :: Status where
  "unsupported_value \<equiv> AttributesOrValuesNotSupported"

definition setting_color_of :: "Request \<Rightarrow> Status + bool option" where
  "setting_color_of r =
     (case value_text r (lit ''print-color-mode'') of
        None \<Rightarrow> Inr None
      | Some v \<Rightarrow>
          if v = lit ''color'' then Inr (Some True)
          else if v \<in> {lit ''monochrome'', lit ''bi-level'', lit ''process-monochrome'', lit ''process-bi-level''}
          then Inr (Some False)
          else if v \<in> {lit ''auto'', lit ''auto-monochrome''} then Inr None
          else Inl unsupported_value)"

definition setting_duplex_of :: "Request \<Rightarrow> Status + DuplexMode option" where
  "setting_duplex_of r =
     (case value_text r (lit ''sides'') of
        None \<Rightarrow> Inr None
      | Some v \<Rightarrow>
          if v = lit ''one-sided'' then Inr (Some Simplex)
          else if v = lit ''two-sided-long-edge'' then Inr (Some LongEdge)
          else if v = lit ''two-sided-short-edge'' then Inr (Some ShortEdge)
          else Inl unsupported_value)"

definition setting_copies_of :: "Request \<Rightarrow> Status + u16 option" where
  "setting_copies_of r =
     (case integer r (lit ''copies'') of
        None \<Rightarrow> Inr None
      | Some v \<Rightarrow> if 1 \<le> v \<and> v \<le> 999 then Inr (Some (of_int v)) else Inl unsupported_value)"

definition setting_orientation_of :: "Request \<Rightarrow> Status + PrintOrientation option" where
  "setting_orientation_of r =
     (case integer r (lit ''orientation-requested'') of
        None \<Rightarrow> Inr None
      | Some v \<Rightarrow> if v = 3 then Inr (Some Portrait) else if v = 4 then Inr (Some Landscape)
                else Inl unsupported_value)"

definition setting_quality_of :: "Request \<Rightarrow> Status + PrintQuality option" where
  "setting_quality_of r =
     (case integer r (lit ''print-quality'') of
        Some v \<Rightarrow>
          if v = 3 then Inr (Some Draft) else if v = 4 then Inr (Some Normal)
          else if v = 5 then Inr (Some High) else Inl unsupported_value
      | None \<Rightarrow>
          (case value_text r (lit ''print-quality'') of
             Some v \<Rightarrow>
               if v = lit ''draft'' \<or> v = lit ''3'' then Inr (Some Draft)
               else if v = lit ''normal'' \<or> v = lit ''4'' then Inr (Some Normal)
               else if v = lit ''high'' \<or> v = lit ''5'' then Inr (Some High)
               else Inl unsupported_value
           | None \<Rightarrow>
               if has_attribute r (lit ''print-quality'') then Inl unsupported_value else Inr None))"

definition job_settings :: "Request \<Rightarrow> Status + PrintSettings" where
  "job_settings r =
     and_then (media r) (\<lambda>m.
     and_then (setting_color_of r) (\<lambda>color.
     and_then (setting_duplex_of r) (\<lambda>duplex.
     and_then (setting_copies_of r) (\<lambda>copies.
     and_then (setting_orientation_of r) (\<lambda>orientation.
     and_then (setting_quality_of r) (\<lambda>quality.
     Inr \<lparr>setting_media = m, setting_color = color, setting_duplex = duplex, setting_copies = copies,
          setting_orientation = orientation, setting_quality = quality\<rparr>))))))"

text \<open>No request asks for zero copies or more than 999.\<close>

lemma copies_bound: "job_settings r = Inr s \<Longrightarrow> setting_copies s = Some c \<Longrightarrow> 1 \<le> unat c \<and> unat c \<le> 999"
proof -
  assume "job_settings r = Inr s" "setting_copies s = Some c"
  then obtain v where "1 \<le> v" "v \<le> 999" "c = (of_int v :: u16)"
    by (auto simp: job_settings_def setting_copies_of_def result_simps split: option.splits if_splits)
  moreover from this have "uint c = v" by (simp add: word_of_int_inverse uint_word_of_int take_bit_int_eq_self)
  then have "unat c = nat v" by (simp add: unat_eq_nat_uint)
  with calculation show ?thesis by linarith
qed

end
