(* ===== verification/Job_Store.thy ===== *)
theory Job_Store
  imports Print_Settings Job_Tracker Ipp_Response Percent_Codec Map_Contents
begin

text \<open>
  \<open>JobStore\<close> of \<open>adapters/ipps/endpoint.rs\<close>: the jobs of RFC 8011 multi-step printing. Every
  operation returns its result, the new store, and the leases it dropped, which the caller
  releases at the tracker; the clock is an argument. A job that waits for documents or is being
  printed holds its lease, a finished one does not.
\<close>

section \<open>State\<close>

definition PENDING_JOB_LIFETIME :: nat where "PENDING_JOB_LIFETIME = 5 * 60 * 1000"
definition JOB_HISTORY_LIFETIME :: nat where "JOB_HISTORY_LIFETIME = 60 * 60 * 1000"
definition MAX_TRACKED_JOBS :: nat where "MAX_TRACKED_JOBS = 256"
definition MAX_JOB_DOCUMENT_BYTES :: nat where "MAX_JOB_DOCUMENT_BYTES = 64 * 1024 * 1024"
definition I32_MAX :: int where "I32_MAX = 2147483647"

record StoredJob =
  stored_entry :: JobEntry
  stored_printer :: PrinterName
  stored_settings :: PrintSettings
  stored_document :: bytes
  stored_at :: nat
  stored_lease :: "bool option"

record JobStore =
  next_job_id :: int
  stored_jobs :: "(int \<times> StoredJob) list"

definition JobStore_new :: JobStore where
  "JobStore_new = \<lparr>next_job_id = 1, stored_jobs = []\<rparr>"

record JobSubmission =
  submission_entry :: JobEntry
  submission_printer :: PrinterName
  submission_settings :: PrintSettings
  submission_document :: bytes

abbreviation stored_state :: "StoredJob \<Rightarrow> int" where
  "stored_state j \<equiv> job_state (stored_entry j)"

fun leases_of :: "StoredJob list \<Rightarrow> bool list" where
  "leases_of [] = []"
| "leases_of (j # js) = (case stored_lease j of Some l \<Rightarrow> l # leases_of js | None \<Rightarrow> leases_of js)"

definition put_job :: "int \<Rightarrow> StoredJob \<Rightarrow> JobStore \<Rightarrow> JobStore" where
  "put_job jid j st = st\<lparr>stored_jobs := bt_insert jid j (stored_jobs st)\<rparr>"

section \<open>Operations\<close>

definition job_alive :: "nat \<Rightarrow> StoredJob \<Rightarrow> bool" where
  "job_alive now j \<longleftrightarrow>
     elapsed now (stored_at j) < (if stored_state j = 3 then PENDING_JOB_LIFETIME else JOB_HISTORY_LIFETIME)"

definition expire_locked :: "nat \<Rightarrow> JobStore \<Rightarrow> JobStore \<times> bool list" where
  "expire_locked now st =
     (st\<lparr>stored_jobs := filter (\<lambda>p. job_alive now (snd p)) (stored_jobs st)\<rparr>,
      leases_of (filter (\<lambda>j. \<not> job_alive now j) (map snd (stored_jobs st))))"

definition terminal_state :: "int \<Rightarrow> bool" where
  "terminal_state s \<longleftrightarrow> 7 \<le> s \<and> s \<le> 9"

text \<open>\<open>min_by_key\<close>: the first of the minimal elements.\<close>

fun oldest :: "(int \<times> StoredJob) list \<Rightarrow> int option" where
  "oldest [] = None"
| "oldest [p] = Some (fst p)"
| "oldest (p # q # ps) = oldest ((if stored_at (snd p) \<le> stored_at (snd q) then p else q) # ps)"

fun next_id_loop :: "nat \<Rightarrow> JobStore \<Rightarrow> (Status + int) \<times> JobStore" where
  "next_id_loop 0 st = (Inl NotAcceptingJobs, st)"
| "next_id_loop (Suc n) st =
     (let jid = max (next_job_id st) 1;
          st = st\<lparr>next_job_id := (if jid = I32_MAX then 1 else jid + 1)\<rparr>
      in if map_of (stored_jobs st) jid = None then (Inr jid, st) else next_id_loop n st)"

definition next_id :: "JobStore \<Rightarrow> (Status + int) \<times> JobStore" where
  "next_id st = next_id_loop (MAX_TRACKED_JOBS + 1) st"

definition printer_entry :: "ustr \<Rightarrow> PrinterName \<Rightarrow> bool \<Rightarrow> PrinterEntry" where
  "printer_entry host name accepting =
     \<lparr>entry_name = PrinterName_as_str name,
      entry_uri = lit ''ipps://'' @ host @ lit ''/ipp/print/'' @ percent_encode (PrinterName_as_str name),
      accepting_jobs = accepting\<rparr>"

definition make_room :: "JobStore \<Rightarrow> Status + JobStore \<times> bool list" where
  "make_room st =
     (if length (stored_jobs st) \<ge> MAX_TRACKED_JOBS then
        (case oldest (filter (\<lambda>p. terminal_state (stored_state (snd p))) (stored_jobs st)) of
           None \<Rightarrow> Inl NotAcceptingJobs
         | Some jid \<Rightarrow>
             Inr (st\<lparr>stored_jobs := bt_remove jid (stored_jobs st)\<rparr>,
                  leases_of (replaced jid (stored_jobs st))))
      else Inr (st, []))"

definition new_job :: "nat \<Rightarrow> ustr \<Rightarrow> PrinterName \<Rightarrow> ustr option \<Rightarrow> PrintSettings \<Rightarrow> bool \<Rightarrow> int \<Rightarrow> StoredJob" where
  "new_job now host printer name settings lease jid =
     (let printer_uri = entry_uri (printer_entry host printer True) in
      \<lparr>stored_entry =
         \<lparr>job_id = jid, job_uri = printer_uri @ lit ''/jobs/'' @ show_nat (nat jid),
          job_printer_uri = printer_uri, job_printer_name = PrinterName_as_str printer,
          job_name = (case name of Some n \<Rightarrow> n | None \<Rightarrow> lit ''ShaPrint job''), document_count = 0,
          job_state = 3\<rparr>,
       stored_printer = printer, stored_settings = settings, stored_document = [], stored_at = now,
       stored_lease = Some lease\<rparr>)"

definition create ::
  "nat \<Rightarrow> ustr \<Rightarrow> PrinterName \<Rightarrow> ustr option \<Rightarrow> PrintSettings \<Rightarrow> bool \<Rightarrow> JobStore
    \<Rightarrow> (Status + JobEntry) \<times> JobStore \<times> bool list" where
  "create now host printer name settings lease st =
     (case expire_locked now st of (st, old) \<Rightarrow>
        (case make_room st of
           Inl s \<Rightarrow> (Inl s, st, old @ [lease])
         | Inr (st, room) \<Rightarrow>
             (case next_id st of
                (Inl s, st) \<Rightarrow> (Inl s, st, old @ room @ [lease])
              | (Inr jid, st) \<Rightarrow>
                  let j = new_job now host printer name settings lease jid
                  in (Inr (stored_entry j), put_job jid j st, old @ room))))"

definition get_job :: "nat \<Rightarrow> int \<Rightarrow> JobStore \<Rightarrow> (Status + JobEntry) \<times> JobStore \<times> bool list" where
  "get_job now jid st =
     (case expire_locked now st of (st, old) \<Rightarrow>
        (ok_or (map_option stored_entry (map_of (stored_jobs st) jid)) NotFound, st, old))"

definition job_listed :: "ustr \<Rightarrow> int \<Rightarrow> bool" where
  "job_listed which s =
     (let which = to_ascii_lowercase which in
      if which = lit ''all'' then True
      else if which = lit ''completed'' then terminal_state s
      else if which = lit ''not-completed'' then 3 \<le> s \<and> s \<le> 6
      else if which = lit ''canceled'' then s = 7
      else if which = lit ''aborted'' then s = 8
      else False)"

definition same_printer :: "PrinterName \<Rightarrow> PrinterName \<Rightarrow> bool" where
  "same_printer p q \<longleftrightarrow> eq_ignore_ascii_case (PrinterName_as_str p) (PrinterName_as_str q)"

definition list_jobs ::
  "nat \<Rightarrow> PrinterName \<Rightarrow> ustr option \<Rightarrow> JobStore \<Rightarrow> (Status + JobEntry list) \<times> JobStore \<times> bool list" where
  "list_jobs now printer which_jobs st =
     (let which = (case which_jobs of Some w \<Rightarrow> w | None \<Rightarrow> lit ''not-completed'') in
      if \<not> list_ex (eq_ignore_ascii_case which)
            [lit ''all'', lit ''completed'', lit ''not-completed'', lit ''canceled'', lit ''aborted'']
      then (Inl AttributesOrValuesNotSupported, st, [])
      else
        (case expire_locked now st of (st, old) \<Rightarrow>
           (Inr (map stored_entry (filter (\<lambda>j. same_printer (stored_printer j) printer
                     \<and> job_listed which (stored_state j)) (map snd (stored_jobs st)))), st, old)))"

text \<open>The checks that \<open>append_document\<close> and \<open>cancel\<close> share.\<close>

definition open_job :: "int \<Rightarrow> PrinterName \<Rightarrow> JobStore \<Rightarrow> Status + StoredJob" where
  "open_job jid printer st =
     and_then (ok_or (map_of (stored_jobs st) jid) NotFound) (\<lambda>j.
     if \<not> same_printer (stored_printer j) printer then Inl NotFound
     else if stored_state j \<noteq> 3 then Inl NotPossible else Inr j)"

definition append_document ::
  "nat \<Rightarrow> int \<Rightarrow> PrinterName \<Rightarrow> bytes \<Rightarrow> bool \<Rightarrow> JobStore
    \<Rightarrow> (Status + JobSubmission option) \<times> JobStore \<times> bool list" where
  "append_document now jid printer doc last_document st =
     (case expire_locked now st of (st, old) \<Rightarrow>
        (case open_job jid printer st of
           Inl s \<Rightarrow> (Inl s, st, old)
         | Inr j \<Rightarrow>
             if length doc > MAX_JOB_DOCUMENT_BYTES - length (stored_document j)
             then (Inl DocumentTooLarge, st, old)
             else
               let e = (stored_entry j)\<lparr>document_count := min I32_MAX (document_count (stored_entry j) + 1)\<rparr>;
                   j = j\<lparr>stored_document := stored_document j @ doc, stored_entry := e\<rparr> in
               if \<not> last_document then (Inr None, put_job jid j st, old)
               else
                 let e = e\<lparr>job_state := 5\<rparr> in
                 (Inr (Some \<lparr>submission_entry = e, submission_printer = stored_printer j,
                             submission_settings = stored_settings j,
                             submission_document = stored_document j\<rparr>),
                  put_job jid (j\<lparr>stored_entry := e, stored_document := []\<rparr>) st, old)))"

definition closed_job :: "int \<Rightarrow> StoredJob \<Rightarrow> StoredJob" where
  "closed_job s j =
     j\<lparr>stored_entry := (stored_entry j)\<lparr>job_state := s\<rparr>, stored_document := [], stored_lease := None\<rparr>"

definition finish :: "int \<Rightarrow> int \<Rightarrow> JobStore \<Rightarrow> JobEntry option \<times> JobStore \<times> bool list" where
  "finish jid s st =
     (case map_of (stored_jobs st) jid of
        None \<Rightarrow> (None, st, [])
      | Some j \<Rightarrow>
          (Some (stored_entry (closed_job s j)), put_job jid (closed_job s j) st, leases_of [j]))"

definition cancel :: "nat \<Rightarrow> int \<Rightarrow> PrinterName \<Rightarrow> JobStore \<Rightarrow> (Status + JobEntry) \<times> JobStore \<times> bool list" where
  "cancel now jid printer st =
     (case expire_locked now st of (st, old) \<Rightarrow>
        (case open_job jid printer st of
           Inl s \<Rightarrow> (Inl s, st, old)
         | Inr j \<Rightarrow>
             (Inr (stored_entry (closed_job 7 j)), put_job jid (closed_job 7 j) st, old @ leases_of [j])))"

definition expire :: "nat \<Rightarrow> JobStore \<Rightarrow> JobStore \<times> bool list" where
  "expire now st = expire_locked now st"

definition unfinished :: "StoredJob \<Rightarrow> bool" where
  "unfinished j \<longleftrightarrow> stored_state j = 3 \<or> stored_state j = 5"

definition abort_incomplete :: "JobStore \<Rightarrow> JobStore \<times> bool list" where
  "abort_incomplete st =
     (st\<lparr>stored_jobs := map (\<lambda>(k, j). (k, if unfinished j then closed_job 8 j else j)) (stored_jobs st)\<rparr>,
      leases_of (filter unfinished (map snd (stored_jobs st))))"

section \<open>Leases\<close>

definition job_leases :: "StoredJob \<Rightarrow> bool multiset" where
  "job_leases j = (case stored_lease j of Some l \<Rightarrow> {#l#} | None \<Rightarrow> {#})"

definition store_leases :: "JobStore \<Rightarrow> bool multiset" where
  "store_leases st = mset (leases_of (map snd (stored_jobs st)))"

lemma mset_leases_of: "mset (leases_of js) = \<Sum>\<^sub># (image_mset job_leases (mset js))"
  by (induction js) (auto simp: job_leases_def split: option.splits)

lemma leases_of_append [simp]: "leases_of (xs @ ys) = leases_of xs @ leases_of ys"
  by (induction xs) (auto split: option.splits)

lemma leases_of_filter: "mset (leases_of (filter P js)) + mset (leases_of (filter (\<lambda>j. \<not> P j) js))
    = mset (leases_of js)"
  by (induction js) (auto split: option.splits)

lemma map_snd_filter: "map snd (filter (\<lambda>p. P (snd p)) xs) = filter P (map snd xs)"
  by (induction xs) auto

lemma store_leases_expire:
  "expire_locked now st = (st', old) \<Longrightarrow> store_leases st = store_leases st' + mset old"
  using leases_of_filter [of "job_alive now" "map snd (stored_jobs st)"]
  by (auto simp: expire_locked_def store_leases_def map_snd_filter)

lemma store_leases_put:
  assumes "bt_wf (stored_jobs st)"
  shows "store_leases (put_job k j st) + mset (leases_of (replaced k (stored_jobs st)))
    = store_leases st + job_leases j"
proof -
  have "image_mset job_leases (mset (map snd (stored_jobs (put_job k j st))) + mset (replaced k (stored_jobs st)))
      = image_mset job_leases (add_mset j (mset (map snd (stored_jobs st))))"
    using mset_bt_insert [OF assms, of k j] by (simp add: put_job_def)
  from arg_cong [OF this, of "\<Sum>\<^sub>#"] show ?thesis
    by (simp add: store_leases_def mset_leases_of ac_simps)
qed

lemma store_leases_del:
  assumes "bt_wf (stored_jobs st)"
  shows "store_leases (st\<lparr>stored_jobs := bt_remove k (stored_jobs st)\<rparr>)
    + mset (leases_of (replaced k (stored_jobs st))) = store_leases st"
proof -
  have "image_mset job_leases (mset (map snd (bt_remove k (stored_jobs st))) + mset (replaced k (stored_jobs st)))
      = image_mset job_leases (mset (map snd (stored_jobs st)))"
    using mset_bt_remove [OF assms, of k] by simp
  from arg_cong [OF this, of "\<Sum>\<^sub>#"] show ?thesis
    by (simp add: store_leases_def mset_leases_of)
qed

section \<open>The invariant\<close>

definition job_inv :: "int \<Rightarrow> StoredJob \<Rightarrow> bool" where
  "job_inv k j \<longleftrightarrow>
     job_id (stored_entry j) = k \<and> 1 \<le> k \<and> k \<le> I32_MAX \<and> stored_state j \<in> {3, 5, 7, 8, 9}
     \<and> (stored_lease j \<noteq> None \<longleftrightarrow> unfinished j)
     \<and> length (stored_document j) \<le> MAX_JOB_DOCUMENT_BYTES
     \<and> (stored_state j \<noteq> 3 \<longrightarrow> stored_document j = [])
     \<and> job_printer_name (stored_entry j) = PrinterName_as_str (stored_printer j)
     \<and> 0 \<le> document_count (stored_entry j) \<and> document_count (stored_entry j) \<le> I32_MAX"

definition store_inv :: "JobStore \<Rightarrow> bool" where
  "store_inv st \<longleftrightarrow>
     bt_wf (stored_jobs st) \<and> length (stored_jobs st) \<le> MAX_TRACKED_JOBS
     \<and> 1 \<le> next_job_id st \<and> next_job_id st \<le> I32_MAX
     \<and> (\<forall>(k, j) \<in> set (stored_jobs st). job_inv k j)"

lemma store_inv_new: "store_inv JobStore_new"
  by (simp add: store_inv_def JobStore_new_def I32_MAX_def)

lemma store_inv_filter: "store_inv st \<Longrightarrow> store_inv (st\<lparr>stored_jobs := filter P (stored_jobs st)\<rparr>)"
  by (auto simp: store_inv_def bt_wf_filter intro: order_trans [OF length_filter_le])

lemma store_inv_expire: "store_inv st \<Longrightarrow> expire_locked now st = (st', old) \<Longrightarrow> store_inv st'"
  using store_inv_filter by (auto simp: expire_locked_def)

lemma store_inv_job: "store_inv st \<Longrightarrow> map_of (stored_jobs st) k = Some j \<Longrightarrow> job_inv k j"
  by (auto simp: store_inv_def dest!: map_of_SomeD)

lemma length_bt_insert: "bt_wf m \<Longrightarrow> map_of m k \<noteq> None \<Longrightarrow> length (bt_insert k v m) = length m"
proof -
  assume m: "bt_wf m" "map_of m k \<noteq> None"
  then obtain old where "map_of m k = Some old" by blast
  then have "replaced k m = [old]" by (simp add: replaced_def)
  with arg_cong [OF mset_bt_insert [OF m(1), of k v], of size] show ?thesis by simp
qed

lemma length_bt_insert_le: "length (bt_insert k v m) \<le> Suc (length m)"
  by (induction k v m rule: bt_insert.induct) auto

lemma set_bt_insert: "set (bt_insert k v m) \<subseteq> insert (k, v) (set m)"
  by (induction k v m rule: bt_insert.induct) auto

lemma store_inv_update:
  assumes "store_inv st" "map_of (stored_jobs st) k \<noteq> None" "job_inv k j"
  shows "store_inv (put_job k j st)"
  using assms set_bt_insert [of k j "stored_jobs st"] length_bt_insert [of "stored_jobs st" k j]
  by (auto simp: store_inv_def put_job_def bt.wf_put)

lemma job_inv_closed: "job_inv k j \<Longrightarrow> s \<in> {7, 8, 9} \<Longrightarrow> job_inv k (closed_job s j)"
  by (auto simp: job_inv_def closed_job_def unfinished_def)

section \<open>Every operation keeps it\<close>

text \<open>The leases an operation was given and those the store held are those it holds afterwards and those
  that were dropped.\<close>

definition accounts :: "bool list \<Rightarrow> JobStore \<Rightarrow> JobStore \<Rightarrow> bool list \<Rightarrow> bool" where
  "accounts ins st st' dropped \<longleftrightarrow> mset ins + store_leases st = store_leases st' + mset dropped"

lemma accounts_refl [simp]: "accounts [] st st []"
  by (simp add: accounts_def)

lemma accounts_trans:
  assumes "accounts ins st st' d" "accounts ins' st' st'' d'"
  shows "accounts (ins @ ins') st st'' (d @ d')"
proof -
  have "mset ins' + (mset ins + store_leases st) = (mset ins' + store_leases st') + mset d"
    using assms(1) by (simp add: accounts_def ac_simps)
  also have "\<dots> = (store_leases st'' + mset d') + mset d" using assms(2) by (simp add: accounts_def)
  finally show ?thesis by (simp add: accounts_def ac_simps)
qed

lemma leases_of_single: "mset (leases_of [j]) = job_leases j"
  by (simp add: job_leases_def split: option.splits)

lemma accounts_expire: "expire_locked now st = (st', old) \<Longrightarrow> accounts [] st st' old"
  by (simp add: accounts_def store_leases_expire)

lemma accounts_update:
  assumes "store_inv st" "map_of (stored_jobs st) k = Some j"
    and "job_leases j + mset ins = job_leases j' + mset d"
  shows "accounts ins st (put_job k j' st) d"
proof -
  have "store_leases (put_job k j' st) + job_leases j = store_leases st + job_leases j'"
    using store_leases_put [of st k j'] assms(1,2)
    by (simp add: store_inv_def replaced_def leases_of_single del: leases_of.simps)
  then have "(job_leases j + mset ins) + (store_leases st + job_leases j')
      = (job_leases j' + mset d) + (store_leases (put_job k j' st) + job_leases j)"
    using assms(3) by simp
  then show ?thesis by (simp add: accounts_def ac_simps)
qed

lemma open_job_Inr:
  "open_job k p st = Inr j \<longleftrightarrow> map_of (stored_jobs st) k = Some j \<and> same_printer (stored_printer j) p
    \<and> stored_state j = 3"
  by (auto simp: open_job_def result_simps)

lemma get_job_ok:
  "store_inv st \<Longrightarrow> get_job now k st = (r, st', d) \<Longrightarrow> store_inv st' \<and> accounts [] st st' d"
  by (auto simp: get_job_def split: prod.splits intro: store_inv_expire accounts_expire)

lemma list_jobs_ok:
  "store_inv st \<Longrightarrow> list_jobs now p w st = (r, st', d) \<Longrightarrow> store_inv st' \<and> accounts [] st st' d"
  by (auto simp: list_jobs_def Let_def split: prod.splits if_splits intro: store_inv_expire accounts_expire)

lemma append_document_ok:
  assumes "store_inv st" "append_document now k p doc l st = (r, st', d)"
  shows "store_inv st' \<and> accounts [] st st' d"
proof -
  obtain st1 old where e: "expire_locked now st = (st1, old)" by fastforce
  note inv = store_inv_expire [OF assms(1) e]
  show ?thesis
  proof (cases "\<exists>j. open_job k p st1 = Inr j
      \<and> length doc \<le> MAX_JOB_DOCUMENT_BYTES - length (stored_document j)")
    case False
    with assms(2) e have "st' = st1" "d = old"
      by (auto simp: append_document_def Let_def split: sum.splits if_splits)
    with inv accounts_expire [OF e] show ?thesis by simp
  next
    case True
    then obtain j where o: "open_job k p st1 = Inr j"
      "length doc \<le> MAX_JOB_DOCUMENT_BYTES - length (stored_document j)" by blast
    then have j: "map_of (stored_jobs st1) k = Some j" "stored_state j = 3" by (simp_all add: open_job_Inr)
    note ji = store_inv_job [OF inv j(1)]
    have "\<exists>j'. st' = put_job k j' st1 \<and> d = old \<and> job_inv k j' \<and> job_leases j' = job_leases j"
      using assms(2) e o ji j(2)
      by (auto simp: append_document_def Let_def job_inv_def unfinished_def job_leases_def I32_MAX_def
          split: if_splits)
    then obtain j' where j': "st' = put_job k j' st1" "d = old" "job_inv k j'" "job_leases j' = job_leases j"
      by blast
    have "accounts [] st1 st' []" unfolding j'(1) using accounts_update [OF inv j(1)] j'(4) by simp
    with accounts_trans [OF accounts_expire [OF e] this] store_inv_update [OF inv _ j'(3)] j j'
    show ?thesis by simp
  qed
qed

lemma finish_ok:
  assumes "store_inv st" "s \<in> {7, 8, 9}" "finish k s st = (r, st', d)"
  shows "store_inv st' \<and> accounts [] st st' d"
proof (cases "map_of (stored_jobs st) k")
  case None
  with assms show ?thesis by (simp add: finish_def)
next
  case (Some j)
  with assms(3) have d: "st' = put_job k (closed_job s j) st" "d = leases_of [j]" by (simp_all add: finish_def)
  have "job_leases j + mset [] = job_leases (closed_job s j) + mset d"
    by (simp add: d closed_job_def job_leases_def split: option.splits)
  from accounts_update [OF assms(1) Some this] store_inv_update [OF assms(1)] Some
    job_inv_closed [OF store_inv_job [OF assms(1) Some] assms(2)] d(1)
  show ?thesis by simp
qed

lemma cancel_ok:
  assumes "store_inv st" "cancel now k p st = (r, st', d)"
  shows "store_inv st' \<and> accounts [] st st' d"
proof -
  obtain st1 old where e: "expire_locked now st = (st1, old)" by fastforce
  note inv = store_inv_expire [OF assms(1) e]
  show ?thesis
  proof (cases "open_job k p st1")
    case (Inl x)
    with assms(2) e inv accounts_expire [OF e] show ?thesis by (simp add: cancel_def)
  next
    case (Inr j)
    then have "finish k 7 st1 = (Some (stored_entry (closed_job 7 j)), st', leases_of [j])" "d = old @ leases_of [j]"
      using assms(2) e Inr open_job_Inr [of k p st1 j]
      by (simp_all add: cancel_def finish_def del: leases_of.simps)
    with finish_ok [OF inv _ this(1)] accounts_trans [OF accounts_expire [OF e]] show ?thesis by fastforce
  qed
qed

lemma expire_ok: "store_inv st \<Longrightarrow> expire now st = (st', d) \<Longrightarrow> store_inv st' \<and> accounts [] st st' d"
  by (simp add: expire_def store_inv_expire accounts_expire)

lemma abort_incomplete_ok:
  assumes "store_inv st" "abort_incomplete st = (st', d)"
  shows "store_inv st' \<and> accounts [] st st' d"
proof -
  let ?f = "\<lambda>j. if unfinished j then closed_job 8 j else j"
  have st': "stored_jobs st' = map (\<lambda>(k, j). (k, ?f j)) (stored_jobs st)"
    and d: "d = leases_of (filter unfinished (map snd (stored_jobs st)))" "next_job_id st' = next_job_id st"
    using assms(2) by (auto simp: abort_incomplete_def)
  have keys: "map fst (stored_jobs st') = map fst (stored_jobs st)"
    and vals: "map snd (stored_jobs st') = map ?f (map snd (stored_jobs st))"
    by (simp_all add: st' case_prod_beta comp_def)
  have "mset (leases_of js) = mset (leases_of (map ?f js)) + mset (leases_of (filter unfinished js))" for js
    by (induction js) (auto simp: closed_job_def split: option.splits)
  from this [of "map snd (stored_jobs st)"] have "accounts [] st st' d"
    unfolding accounts_def store_leases_def vals d(1) by simp
  moreover have "\<forall>(k, j) \<in> set (stored_jobs st'). job_inv k j"
    using assms(1) job_inv_closed [of _ _ 8] by (fastforce simp: store_inv_def st')
  then have "store_inv st'"
    using assms(1) keys d(2) by (simp add: store_inv_def bt_wf_def) (metis length_map)
  ultimately show ?thesis by simp
qed

lemma oldest_in: "oldest ps = Some k \<Longrightarrow> k \<in> fst ` set ps"
  by (induction ps rule: oldest.induct) (auto split: if_splits)

lemma oldest_None: "oldest ps = None \<longleftrightarrow> ps = []"
  by (induction ps rule: oldest.induct) auto

lemma length_bt_remove: "k \<in> fst ` set m \<Longrightarrow> length (bt_remove k m) < length m"
  by (auto simp: bt_remove_def intro: length_filter_less)

lemma make_room_ok:
  assumes "store_inv st" "make_room st = Inr (st', room)"
  shows "store_inv st' \<and> accounts [] st st' room \<and> length (stored_jobs st') < MAX_TRACKED_JOBS"
proof (cases "length (stored_jobs st) \<ge> MAX_TRACKED_JOBS")
  case True
  with assms(2) obtain k where k: "oldest (filter (\<lambda>p. terminal_state (stored_state (snd p))) (stored_jobs st)) = Some k"
    "st' = st\<lparr>stored_jobs := bt_remove k (stored_jobs st)\<rparr>" "room = leases_of (replaced k (stored_jobs st))"
    by (auto simp: make_room_def split: option.splits)
  have "k \<in> fst ` set (stored_jobs st)" using oldest_in [OF k(1)] by auto
  from length_bt_remove [OF this] have "length (stored_jobs st') < MAX_TRACKED_JOBS"
    using assms(1) k(2) by (simp add: store_inv_def)
  moreover have "store_inv st'"
    using store_inv_filter [OF assms(1), of "\<lambda>p. fst p \<noteq> k"] by (simp add: k(2) bt_remove_def)
  moreover have "accounts [] st st' room"
    using store_leases_del [of st k] assms(1) by (simp add: accounts_def k store_inv_def)
  ultimately show ?thesis by simp
next
  case False
  with assms show ?thesis by (auto simp: make_room_def)
qed

lemma next_id_loop_ok:
  "next_id_loop n st = (r, st') \<Longrightarrow> 1 \<le> next_job_id st \<Longrightarrow> next_job_id st \<le> I32_MAX \<Longrightarrow>
    stored_jobs st' = stored_jobs st \<and> 1 \<le> next_job_id st' \<and> next_job_id st' \<le> I32_MAX
    \<and> (\<forall>k. r = Inr k \<longrightarrow> map_of (stored_jobs st) k = None \<and> 1 \<le> k \<and> k \<le> I32_MAX)"
proof (induction n arbitrary: st)
  case (Suc n)
  let ?st = "st\<lparr>next_job_id := (if next_job_id st = I32_MAX then 1 else next_job_id st + 1)\<rparr>"
  have m: "max (next_job_id st) 1 = next_job_id st" using Suc.prems(2) by simp
  have nx: "1 \<le> next_job_id ?st" "next_job_id ?st \<le> I32_MAX"
    using Suc.prems(2,3) by (auto simp: I32_MAX_def)
  show ?case
  proof (cases "map_of (stored_jobs st) (next_job_id st) = None")
    case True
    with Suc.prems m nx show ?thesis by (auto simp: Let_def)
  next
    case False
    with Suc.prems(1) m have "next_id_loop n ?st = (r, st')" by (simp add: Let_def)
    from Suc.IH [OF this nx] show ?thesis by simp
  qed
qed auto

text \<open>The identifiers that a failed search has tried are all taken, and they are different.\<close>

definition id_after :: "int \<Rightarrow> nat \<Rightarrow> int" where
  "id_after a i = (a - 1 + int i) mod I32_MAX + 1"

lemma next_id_loop_tried:
  assumes "next_id_loop n st = (Inl s, st')" "1 \<le> next_job_id st" "next_job_id st \<le> I32_MAX" "i < n"
  shows "map_of (stored_jobs st) (id_after (next_job_id st) i) \<noteq> None"
  using assms
proof (induction n arbitrary: st i)
  case (Suc n)
  let ?next = "if next_job_id st = I32_MAX then 1 else next_job_id st + 1"
  let ?st = "st\<lparr>next_job_id := ?next\<rparr>"
  have m: "max (next_job_id st) 1 = next_job_id st" using Suc.prems(2) by simp
  have nx: "1 \<le> next_job_id ?st" "next_job_id ?st \<le> I32_MAX"
    using Suc.prems(2,3) by (auto simp: I32_MAX_def)
  have first: "id_after (next_job_id st) 0 = next_job_id st"
    using Suc.prems(2,3) by (simp add: id_after_def)
  from Suc.prems(1) m have taken: "map_of (stored_jobs st) (next_job_id st) \<noteq> None"
    and loop: "next_id_loop n ?st = (Inl s, st')"
    by (auto simp: Let_def split: if_splits)
  show ?case
  proof (cases i)
    case 0
    with taken first show ?thesis by simp
  next
    case (Suc j)
    have "id_after ?next j = id_after (next_job_id st) (Suc j)"
    proof (cases "next_job_id st = I32_MAX")
      case True
      then have "next_job_id st - 1 + int (Suc j) = int j + I32_MAX" by simp
      then show ?thesis using True by (simp add: id_after_def)
    next
      case False
      then show ?thesis by (simp add: id_after_def algebra_simps)
    qed
    with Suc.IH [OF loop nx, of j] \<open>i < Suc n\<close> Suc show ?thesis by simp
  qed
qed simp

lemma id_after_inj: "inj_on (id_after a) {..< 300}"
proof (rule inj_onI)
  fix i j :: nat
  assume ij: "i \<in> {..<300}" "j \<in> {..<300}" "id_after a i = id_after a j"
  then have "(a - 1 + int i) mod I32_MAX = (a - 1 + int j) mod I32_MAX" by (simp add: id_after_def)
  then have "I32_MAX dvd (int i - int j)" by (simp add: mod_eq_dvd_iff)
  moreover have "\<bar>int i - int j\<bar> < I32_MAX" using ij by (auto simp: I32_MAX_def)
  ultimately show "i = j" using dvd_imp_le_int [of "int i - int j" I32_MAX] by (cases "i = j") auto
qed

lemma next_id_finds:
  assumes "store_inv st" "length (stored_jobs st) < MAX_TRACKED_JOBS"
  shows "\<exists>k st'. next_id st = (Inr k, st')"
proof (rule ccontr)
  assume "\<not> ?thesis"
  then obtain s st' where f: "next_id_loop (MAX_TRACKED_JOBS + 1) st = (Inl s, st')"
    by (cases "next_id st"; cases "fst (next_id st)") (auto simp: next_id_def)
  have "id_after (next_job_id st) ` {..< MAX_TRACKED_JOBS + 1} \<subseteq> set (map fst (stored_jobs st))"
    using next_id_loop_tried [OF f] assms(1) by (auto simp: store_inv_def map_of_eq_None_iff)
  from card_mono [OF _ this] have "card (id_after (next_job_id st) ` {..< MAX_TRACKED_JOBS + 1})
      \<le> length (stored_jobs st)"
    using card_length [of "map fst (stored_jobs st)"] by simp
  moreover have "inj_on (id_after (next_job_id st)) {..< MAX_TRACKED_JOBS + 1}"
    by (rule inj_on_subset [OF id_after_inj]) (simp add: MAX_TRACKED_JOBS_def)
  ultimately show False using assms(2) by (simp add: card_image)
qed

lemma new_job_inv: "1 \<le> k \<Longrightarrow> k \<le> I32_MAX \<Longrightarrow> job_inv k (new_job now host p name settings lease k)"
  by (simp add: job_inv_def new_job_def Let_def unfinished_def I32_MAX_def)

lemma put_new_job:
  assumes "store_inv st" "length (stored_jobs st) < MAX_TRACKED_JOBS" "map_of (stored_jobs st) k = None"
    and "job_inv k j" "job_leases j = {#lease#}"
  shows "store_inv (put_job k j st) \<and> accounts [lease] st (put_job k j st) []"
proof
  show "store_inv (put_job k j st)"
    using assms set_bt_insert [of k j "stored_jobs st"] length_bt_insert_le [of k j "stored_jobs st"]
    by (auto simp: store_inv_def put_job_def bt.wf_put)
  show "accounts [lease] st (put_job k j st) []"
    using store_leases_put [of st k j] assms by (simp add: accounts_def store_inv_def replaced_def)
qed

lemma accounts_drop: "accounts [l] st st [l]"
  by (simp add: accounts_def)

lemma create_ok:
  assumes "store_inv st" "create now host p name settings lease st = (r, st', d)"
  shows "store_inv st' \<and> accounts [lease] st st' d
    \<and> (\<forall>e. r = Inr e \<longrightarrow> (\<exists>j. map_of (stored_jobs st') (job_id e) = Some j
          \<and> j = new_job now host p name settings lease (job_id e)))
    \<and> (\<forall>s. r = Inl s \<longrightarrow> length (stored_jobs st') = MAX_TRACKED_JOBS
          \<and> (\<forall>(k, j) \<in> set (stored_jobs st'). unfinished j))"
proof -
  obtain st1 old where e: "expire_locked now st = (st1, old)" by fastforce
  note inv = store_inv_expire [OF assms(1) e] and old = accounts_expire [OF e]
  show ?thesis
  proof (cases "make_room st1")
    case (Inl s)
    with assms(2) e have r: "r = Inl s" "st' = st1" "d = old @ [lease]" by (auto simp: create_def)
    have "length (stored_jobs st1) \<ge> MAX_TRACKED_JOBS"
      "\<forall>p \<in> set (stored_jobs st1). \<not> terminal_state (stored_state (snd p))"
      using Inl by (auto simp: make_room_def oldest_None filter_empty_conv split: if_splits option.splits)
    moreover from this have "unfinished j" if "(k, j) \<in> set (stored_jobs st1)" for k j
    proof -
      have "job_inv k j" "\<not> terminal_state (stored_state j)" using that inv calculation by (auto simp: store_inv_def)
      then show ?thesis by (auto simp: job_inv_def unfinished_def terminal_state_def)
    qed
    ultimately have "length (stored_jobs st1) = MAX_TRACKED_JOBS" "\<forall>(k, j) \<in> set (stored_jobs st1). unfinished j"
      using inv by (auto simp: store_inv_def)
    with inv accounts_trans [OF old accounts_drop [of lease]] r show ?thesis by simp
  next
    case (Inr x)
    then obtain st2 room where m: "make_room st1 = Inr (st2, room)" by (cases x) auto
    note mr = make_room_ok [OF inv m]
    obtain k st3 where n: "next_id st2 = (Inr k, st3)" using next_id_finds mr by blast
    have inv2: "store_inv st2" and b: "1 \<le> next_job_id st2" "next_job_id st2 \<le> I32_MAX"
      using mr by (auto simp: store_inv_def)
    from next_id_loop_ok [OF n [unfolded next_id_def] b]
    have s3: "stored_jobs st3 = stored_jobs st2" "1 \<le> next_job_id st3" "next_job_id st3 \<le> I32_MAX"
      "map_of (stored_jobs st3) k = None" "1 \<le> k" "k \<le> I32_MAX" by auto
    then have inv3: "store_inv st3" "accounts [] st2 st3 []" and len: "length (stored_jobs st3) < MAX_TRACKED_JOBS"
      using inv2 mr by (auto simp: store_inv_def accounts_def store_leases_def)
    let ?j = "new_job now host p name settings lease k"
    have r: "r = Inr (stored_entry ?j)" "st' = put_job k ?j st3" "d = old @ room" "job_id (stored_entry ?j) = k"
      using assms(2) e m n by (auto simp: create_def Let_def new_job_def)
    have "job_leases ?j = {#lease#}" by (simp add: job_leases_def new_job_def Let_def)
    note put = put_new_job [OF inv3(1) len s3(4) new_job_inv [OF s3(5,6)] this]
    have "map_of (stored_jobs st') k = Some ?j"
      using bt.get_put_same [of "stored_jobs st3"] inv3(1) by (simp add: r(2) put_job_def store_inv_def)
    moreover have "accounts [lease] st st' d"
      using accounts_trans [OF accounts_trans [OF accounts_trans [OF old conjunct1 [OF conjunct2 [OF mr]]] inv3(2)]]
        put by (fastforce simp: r(2,3))
    ultimately show ?thesis using put r by simp
  qed
qed

section \<open>Runs\<close>

text \<open>Any sequence of operations of the server's tasks: the leases given to the store so far, its
  state, and the leases it dropped.\<close>

inductive job_run :: "bool list \<Rightarrow> JobStore \<Rightarrow> bool list \<Rightarrow> bool" where
  run_new: "job_run [] JobStore_new []"
| run_create: "job_run ins st d \<Longrightarrow> create now host p name settings lease st = (r, st', d')
    \<Longrightarrow> job_run (ins @ [lease]) st' (d @ d')"
| run_get: "job_run ins st d \<Longrightarrow> get_job now k st = (r1, st', d') \<Longrightarrow> job_run ins st' (d @ d')"
| run_list: "job_run ins st d \<Longrightarrow> list_jobs now p which st = (r2, st', d') \<Longrightarrow> job_run ins st' (d @ d')"
| run_append: "job_run ins st d \<Longrightarrow> append_document now k p doc final st = (r3, st', d')
    \<Longrightarrow> job_run ins st' (d @ d')"
| run_finish: "job_run ins st d \<Longrightarrow> s \<in> {8, 9} \<Longrightarrow> finish k s st = (r4, st', d') \<Longrightarrow> job_run ins st' (d @ d')"
| run_cancel: "job_run ins st d \<Longrightarrow> cancel now k p st = (r5, st', d') \<Longrightarrow> job_run ins st' (d @ d')"
| run_expire: "job_run ins st d \<Longrightarrow> expire now st = (st', d') \<Longrightarrow> job_run ins st' (d @ d')"
| run_abort: "job_run ins st d \<Longrightarrow> abort_incomplete st = (st', d') \<Longrightarrow> job_run ins st' (d @ d')"

lemma run_step:
  assumes "store_inv st \<and> accounts ins st0 st d" "store_inv st \<Longrightarrow> store_inv st' \<and> accounts [] st st' d'"
  shows "store_inv st' \<and> accounts ins st0 st' (d @ d')"
  using assms accounts_trans [of ins st0 st d "[]" st' d'] by simp

lemma job_run_inv: "job_run ins st d \<Longrightarrow> store_inv st \<and> accounts ins JobStore_new st d"
proof (induction rule: job_run.induct)
  case run_new
  then show ?case by (simp add: store_inv_new)
next
  case (run_create ins st d now host p name settings lease r st' d')
  with create_ok [OF _ run_create.hyps(2)] accounts_trans show ?case by blast
next
  case (run_get ins st d now k r st' d')
  then show ?case by (intro run_step [OF run_get.IH] get_job_ok)
next
  case (run_list ins st d now p which r st' d')
  then show ?case by (intro run_step [OF run_list.IH] list_jobs_ok)
next
  case (run_append ins st d now k p doc final r st' d')
  then show ?case by (intro run_step [OF run_append.IH] append_document_ok)
next
  case (run_finish ins st d s k r st' d')
  from run_finish.hyps(2) have "s \<in> {7, 8, 9}" by auto
  with run_finish show ?case by (intro run_step [OF run_finish.IH] finish_ok)
next
  case (run_cancel ins st d now k p r st' d')
  then show ?case by (intro run_step [OF run_cancel.IH] cancel_ok)
next
  case (run_expire ins st d now st' d')
  then show ?case by (intro run_step [OF run_expire.IH] expire_ok)
next
  case (run_abort ins st d st' d')
  then show ?case by (intro run_step [OF run_abort.IH] abort_incomplete_ok)
qed

text \<open>C11: the server's job store stays consistent. In every state the server's tasks can bring
  it to: at most 256 jobs, each under its own identifier, in a state of RFC 8011, with at most 64 MiB of
  document; a job holds a lease exactly while it waits for documents or is printed; and the leases
  given to the store are those it holds and those it has released, no more and no less. A new job
  is refused only if all 256 jobs are unfinished.\<close>

theorem job_store_consistent:
  assumes "job_run given st dropped"
  shows "store_inv st \<and> mset given = store_leases st + mset dropped
    \<and> (\<forall>now host p name settings lease s st' d.
        create now host p name settings lease st = (Inl s, st', d) \<longrightarrow>
          length (stored_jobs st') = MAX_TRACKED_JOBS \<and> (\<forall>(k, j) \<in> set (stored_jobs st'). unfinished j))"
proof -
  note inv = job_run_inv [OF assms]
  have "store_leases JobStore_new = {#}" by (simp add: store_leases_def JobStore_new_def)
  then show ?thesis using inv create_ok [of st] by (fastforce simp: accounts_def)
qed

section \<open>A document in pieces\<close>

fun send_documents ::
  "int \<Rightarrow> PrinterName \<Rightarrow> (nat \<times> bytes) list \<Rightarrow> JobStore \<Rightarrow> (Status + JobSubmission option) \<times> JobStore" where
  "send_documents k p [] st = (Inr None, st)"
| "send_documents k p ((now, doc) # rest) st =
     (case append_document now k p doc (rest = []) st of
        (Inl s, st, _) \<Rightarrow> (Inl s, st)
      | (Inr sub, st, _) \<Rightarrow> if rest = [] then (Inr sub, st) else send_documents k p rest st)"

lemma map_of_filter_alive:
  "bt_wf m \<Longrightarrow> map_of m k = Some v \<Longrightarrow> P v \<Longrightarrow> map_of (filter (\<lambda>p. P (snd p)) m) k = Some v"
  unfolding bt_wf_def by (induction m) (auto split: if_splits dest: map_of_SomeD)

lemma append_to_open:
  assumes "store_inv st" "map_of (stored_jobs st) k = Some j" "stored_state j = 3"
    and "elapsed now (stored_at j) < PENDING_JOB_LIFETIME"
    and "length (stored_document j) + length doc \<le> MAX_JOB_DOCUMENT_BYTES"
  defines "e \<equiv> (stored_entry j)\<lparr>document_count := min I32_MAX (document_count (stored_entry j) + 1)\<rparr>"
  shows "\<exists>st' d. append_document now k (stored_printer j) doc final st
    = (Inr (if final then Some \<lparr>submission_entry = e\<lparr>job_state := 5\<rparr>, submission_printer = stored_printer j,
          submission_settings = stored_settings j, submission_document = stored_document j @ doc\<rparr> else None),
       st', d) \<and> store_inv st'
      \<and> (\<not> final \<longrightarrow> map_of (stored_jobs st') k
            = Some (j\<lparr>stored_document := stored_document j @ doc, stored_entry := e\<rparr>))"
proof -
  obtain st1 old where x: "expire_locked now st = (st1, old)" by fastforce
  have "job_alive now j" using assms(3,4) by (simp add: job_alive_def)
  with map_of_filter_alive [of "stored_jobs st" k j "job_alive now"] assms(1,2) x
  have j: "map_of (stored_jobs st1) k = Some j" by (auto simp: expire_locked_def store_inv_def)
  then have "open_job k (stored_printer j) st1 = Inr j"
    using assms(3) by (simp add: open_job_Inr same_printer_def)
  moreover have "\<not> length doc > MAX_JOB_DOCUMENT_BYTES - length (stored_document j)" using assms(5) by simp
  ultimately obtain st' where a: "append_document now k (stored_printer j) doc final st
    = (Inr (if final then Some \<lparr>submission_entry = e\<lparr>job_state := 5\<rparr>, submission_printer = stored_printer j,
          submission_settings = stored_settings j, submission_document = stored_document j @ doc\<rparr> else None),
       st', old)"
    and st': "\<not> final \<Longrightarrow> st' = put_job k (j\<lparr>stored_document := stored_document j @ doc, stored_entry := e\<rparr>) st1"
    using x by (cases final) (simp_all add: append_document_def Let_def e_def)
  have "bt_wf (stored_jobs st1)" using store_inv_expire [OF assms(1) x] by (simp add: store_inv_def)
  with a st' append_document_ok [OF assms(1) a] show ?thesis
    by (auto simp: put_job_def bt.get_put_same)
qed

lemma documents_collected:
  assumes "store_inv st" "map_of (stored_jobs st) k = Some j" "stored_state j = 3" "docs \<noteq> []"
    and "\<forall>(now, doc) \<in> set docs. elapsed now (stored_at j) < PENDING_JOB_LIFETIME"
    and "length (stored_document j @ concat (map snd docs)) \<le> MAX_JOB_DOCUMENT_BYTES"
  shows "\<exists>e st'. send_documents k (stored_printer j) docs st
    = (Inr (Some \<lparr>submission_entry = e, submission_printer = stored_printer j,
          submission_settings = stored_settings j,
          submission_document = stored_document j @ concat (map snd docs)\<rparr>), st') \<and> job_state e = 5"
  using assms
proof (induction docs arbitrary: st j)
  case (Cons x docs)
  obtain now doc where x: "x = (now, doc)" by fastforce
  have h: "elapsed now (stored_at j) < PENDING_JOB_LIFETIME"
    "length (stored_document j) + length doc \<le> MAX_JOB_DOCUMENT_BYTES"
    using Cons.prems(5,6) x by auto
  note step = append_to_open [OF Cons.prems(1-3) h, of "docs = []"]
  show ?case
  proof (cases "docs = []")
    case True
    with step x show ?thesis by fastforce
  next
    case False
    define j' where "j' = j\<lparr>stored_document := stored_document j @ doc,
      stored_entry := (stored_entry j)\<lparr>document_count := min I32_MAX (document_count (stored_entry j) + 1)\<rparr>\<rparr>"
    from step False obtain st' d where a: "append_document now k (stored_printer j) doc False st = (Inr None, st', d)"
      "store_inv st'" "map_of (stored_jobs st') k = Some j'" by (auto simp: j'_def)
    have j': "stored_state j' = 3" "stored_at j' = stored_at j" "stored_printer j' = stored_printer j"
      "stored_settings j' = stored_settings j" "stored_document j' = stored_document j @ doc"
      using Cons.prems(3) by (simp_all add: j'_def)
    have "\<forall>(now, doc) \<in> set docs. elapsed now (stored_at j') < PENDING_JOB_LIFETIME"
      "length (stored_document j' @ concat (map snd docs)) \<le> MAX_JOB_DOCUMENT_BYTES"
      using Cons.prems(5,6) x j' by auto
    from Cons.IH [OF a(2,3) j'(1) False this] a(1) x False j' show ?thesis by simp
  qed
qed simp

text \<open>C12: a document sent in pieces is printed whole. After Create-Job, any number of Send-Document
  requests within five minutes and 64 MiB in total, the last one marked as such, hand the queue the
  concatenation of the pieces in the order they came, with the settings the job was created with.\<close>

theorem pieces_make_document:
  assumes "job_run given st dropped"
    and "create now host p name settings lease st = (Inr e, st1, d)"
    and "docs \<noteq> []" "\<forall>(t, doc) \<in> set docs. elapsed t now < PENDING_JOB_LIFETIME"
    and "length (concat (map snd docs)) \<le> MAX_JOB_DOCUMENT_BYTES"
  shows "\<exists>e' st2. send_documents (job_id e) p docs st1
    = (Inr (Some \<lparr>submission_entry = e', submission_printer = p, submission_settings = settings,
          submission_document = concat (map snd docs)\<rparr>), st2) \<and> job_state e' = 5"
proof -
  have inv: "store_inv st" using job_run_inv [OF assms(1)] by simp
  let ?j = "new_job now host p name settings lease (job_id e)"
  from create_ok [OF inv assms(2)] have "store_inv st1" "map_of (stored_jobs st1) (job_id e) = Some ?j"
    by auto
  from documents_collected [OF this _ assms(3)] assms(4,5) show ?thesis
    by (simp add: new_job_def Let_def)
qed

end
