(* ===== verification/Network_Channel.thy ===== *)
theory Network_Channel
  imports Domain_Error
begin

unbundle bit_operations_syntax

text \<open>
  The Network Channel (\<open>adapters/ipps/channel.rs\<close>, as built for Linux): the salted verifier the server
  checks print requests against, the credential the local proxy sends, and their files. SHA-256,
  the \<open>hex\<close> crate and the random salt are parameters; a file is missing, unreadable or has a content.
\<close>

section \<open>State\<close>

datatype 'a FileState = Missing | Unreadable | Holds 'a

record ChannelVerifier =
  verifier_salt :: bytes
  verifier_digest :: bytes

record VerifierRecord =
  record_salt :: "ustr option"
  record_sha256 :: ustr
  client_secret_protected :: "ustr option"

text \<open>The verifier file holds a record, or something that is not one.\<close>

record ChannelDisk =
  verifier_file :: "VerifierRecord option FileState"
  credential_store :: "bytes FileState"
  systemd_credential :: "bytes FileState"

record NetworkChannel =
  has_path :: bool
  has_credential_file :: bool
  channel_verifier :: "ChannelVerifier option"
  client_secret :: "ustr option"

definition NetworkChannel_in_memory :: NetworkChannel where
  "NetworkChannel_in_memory =
     \<lparr>has_path = False, has_credential_file = False, channel_verifier = None, client_secret = None\<rparr>"

definition channel_digest :: "(bytes \<Rightarrow> bytes) \<Rightarrow> bytes \<Rightarrow> ustr \<Rightarrow> bytes" where
  "channel_digest sha256 salt channel = sha256 (salt @ as_bytes channel)"

section \<open>Files\<close>

definition read_credential_file :: "bytes FileState \<Rightarrow> AppError + ustr" where
  "read_credential_file f =
     (case f of
        Holds bs \<Rightarrow>
          and_then (ok_or (from_utf8 bs)
              (internal_error (lit ''the protected Network Channel credential is invalid''))) (\<lambda>raw.
          let trimmed = trim_end_by (\<lambda>c. c = 13 \<or> c = 10) raw in
          if trimmed = [] then Inl (internal_error (lit ''the protected Network Channel credential is empty''))
          else Inr trimmed)
      | _ \<Rightarrow> Inl (internal_error (lit ''cannot read the protected Network Channel credential'')))"

definition load_machine_credential :: "bool \<Rightarrow> ChannelDisk \<Rightarrow> AppError + ustr option" where
  "load_machine_credential credential_file disk =
     (if systemd_credential disk \<noteq> Missing
      then and_then (read_credential_file (systemd_credential disk)) (\<lambda>s. Inr (Some s))
      else if credential_file \<and> credential_store disk \<noteq> Missing
      then and_then (read_credential_file (credential_store disk)) (\<lambda>s. Inr (Some s))
      else Inr None)"

definition verifier_invalid :: AppError where
  "verifier_invalid = internal_error (lit ''the Network Channel verifier is invalid'')"

definition decode_hex :: "(ustr \<Rightarrow> bytes option) \<Rightarrow> nat \<Rightarrow> ustr \<Rightarrow> AppError + bytes" where
  "decode_hex hex_decode n encoded =
     and_then (ok_or (hex_decode encoded) verifier_invalid) (\<lambda>bs.
     if length bs = n then Inr bs else Inl verifier_invalid)"

definition protect_secret :: "ustr \<Rightarrow> AppError + ustr option" where
  "protect_secret v = Inr None"

definition decode_secret :: "ustr \<Rightarrow> AppError + ustr" where
  "decode_secret encoded =
     Inl (unsupported_error (lit ''protected Network Channel storage is available on Windows only''))"

definition open_with_credential_file ::
  "(ustr \<Rightarrow> bytes option) \<Rightarrow> bool \<Rightarrow> ChannelDisk \<Rightarrow> AppError + NetworkChannel" where
  "open_with_credential_file hex_decode credential_file disk =
     and_then
       (case verifier_file disk of
          Missing \<Rightarrow> Inr (None, None)
        | Unreadable \<Rightarrow> Inl (internal_error (lit ''cannot read the Network Channel verifier''))
        | Holds None \<Rightarrow> Inl verifier_invalid
        | Holds (Some rec) \<Rightarrow>
            and_then
              (case record_salt rec of
                 Some salt \<Rightarrow>
                   and_then (decode_hex hex_decode 16 salt) (\<lambda>salt.
                   and_then (decode_hex hex_decode 32 (record_sha256 rec)) (\<lambda>digest.
                   Inr (Some \<lparr>verifier_salt = salt, verifier_digest = digest\<rparr>)))
               | None \<Rightarrow> Inr None) (\<lambda>v.
            and_then
              (case client_secret_protected rec of
                 Some p \<Rightarrow> and_then (decode_secret p) (\<lambda>s. Inr (Some s)) | None \<Rightarrow> Inr None) (\<lambda>secret.
            Inr (v, secret))))
       (\<lambda>(v, secret).
     and_then (if secret = None then load_machine_credential credential_file disk else Inr secret) (\<lambda>secret.
     Inr \<lparr>has_path = True, has_credential_file = credential_file, channel_verifier = v,
          client_secret = secret\<rparr>))"

section \<open>Configuring\<close>

text \<open>How the writes of one call end: an error, or success.\<close>

record ChannelIo =
  credential_error :: "AppError option"
  verifier_error :: "AppError option"

definition persist_credential :: "ChannelIo \<Rightarrow> ustr \<Rightarrow> ChannelDisk \<Rightarrow> (AppError + unit) \<times> ChannelDisk" where
  "persist_credential io channel disk =
     (case credential_error io of
        None \<Rightarrow> (Inr (), disk\<lparr>credential_store := Holds (as_bytes channel)\<rparr>)
      | Some e \<Rightarrow>
          (if ok (read_credential_file (credential_store disk)) = Some channel then Inr () else Inl e, disk))"

definition persist_verifier ::
  "(bytes \<Rightarrow> ustr) \<Rightarrow> ChannelIo \<Rightarrow> ChannelVerifier \<Rightarrow> ustr option \<Rightarrow> ChannelDisk
    \<Rightarrow> (AppError + unit) \<times> ChannelDisk" where
  "persist_verifier hex_encode io v protected disk =
     (case verifier_error io of
        None \<Rightarrow>
          (Inr (), disk\<lparr>verifier_file := Holds (Some
             \<lparr>record_salt = Some (hex_encode (verifier_salt v)), record_sha256 = hex_encode (verifier_digest v),
              client_secret_protected = protected\<rparr>)\<rparr>)
      | Some e \<Rightarrow> (Inl e, disk))"

definition configure ::
  "(bytes \<Rightarrow> bytes) \<Rightarrow> (bytes \<Rightarrow> ustr) \<Rightarrow> ChannelIo \<Rightarrow> bytes option \<Rightarrow> ustr \<Rightarrow> NetworkChannel \<times> ChannelDisk
    \<Rightarrow> (AppError + bool) \<times> NetworkChannel \<times> ChannelDisk" where
  "configure sha256 hex_encode io salt channel st =
     (case st of (nc, disk) \<Rightarrow>
        if channel = [] then (Inl (invalid_input (lit ''Network Channel cannot be empty'')), st)
        else
          (case salt of
             None \<Rightarrow> (Inl (internal_error (lit ''cannot generate a Network Channel salt'')), st)
           | Some salt \<Rightarrow>
               let v = \<lparr>verifier_salt = salt, verifier_digest = channel_digest sha256 salt channel\<rparr>;
                   nc' = nc\<lparr>channel_verifier := Some v, client_secret := Some channel\<rparr> in
               (case protect_secret channel of
                  Inl e \<Rightarrow> (Inl e, st)
                | Inr protected \<Rightarrow>
                    if \<not> has_path nc then (Inr True, nc', disk)
                    else
                      (case (if has_credential_file nc then persist_credential io channel disk else (Inr (), disk)) of
                         (Inl e, disk) \<Rightarrow> (Inl e, nc, disk)
                       | (Inr _, disk) \<Rightarrow>
                           (case persist_verifier hex_encode io v protected disk of
                              (Inl e, disk) \<Rightarrow> (Inl e, nc, disk)
                            | (Inr _, disk) \<Rightarrow> (Inr True, nc', disk))))))"

section \<open>Checking\<close>

definition channel_is_configured :: "NetworkChannel \<Rightarrow> bool" where
  "channel_is_configured nc = (channel_verifier nc \<noteq> None)"

definition authorizes :: "(bytes \<Rightarrow> bytes) \<Rightarrow> NetworkChannel \<Rightarrow> ustr \<Rightarrow> bool" where
  "authorizes sha256 nc candidate =
     (case channel_verifier nc of
        None \<Rightarrow> False
      | Some expected \<Rightarrow>
          foldl (\<lambda>difference (left, right). difference OR (left XOR right)) 0
            (zip (verifier_digest expected) (channel_digest sha256 (verifier_salt expected) candidate)) = 0)"

definition client_credential :: "NetworkChannel \<Rightarrow> ustr option" where
  "client_credential nc = client_secret nc"

text \<open>The comparison without early exit is equality.\<close>

lemma xor_eq_0: "(a :: u8) XOR b = 0 \<longleftrightarrow> a = b"
  by (metis xor.assoc xor.left_neutral xor_self_eq)

lemma or_eq_0: "(a :: u8) OR b = 0 \<longleftrightarrow> a = 0 \<and> b = 0"
  by (metis bit.conj_disj_distrib or.right_neutral word_bw_same(2) or_eq_0_iff)

lemma difference_zero:
  "length xs = length ys \<Longrightarrow>
    foldl (\<lambda>difference (left, right). difference OR (left XOR right)) d (zip xs ys) = (0 :: u8)
      \<longleftrightarrow> d = 0 \<and> xs = ys"
  by (induction xs ys arbitrary: d rule: list_induct2) (auto simp: or_eq_0 xor_eq_0)

lemma authorizes_iff:
  assumes "channel_verifier nc = Some v" "\<And>bs. length (sha256 bs) = length (verifier_digest v)"
  shows "authorizes sha256 nc c \<longleftrightarrow> verifier_digest v = channel_digest sha256 (verifier_salt v) c"
  using assms difference_zero [of "verifier_digest v" "channel_digest sha256 (verifier_salt v) c" 0]
  by (simp add: authorizes_def channel_digest_def)

abbreviation line_end :: "uchar \<Rightarrow> bool" where
  "line_end c \<equiv> c = 13 \<or> c = 10"

lemma read_stored_credential:
  "wf_ustr channel \<Longrightarrow> read_credential_file (Holds (as_bytes channel))
    = (if trim_end_by line_end channel = []
       then Inl (internal_error (lit ''the protected Network Channel credential is empty''))
       else Inr (trim_end_by line_end channel))"
  by (simp add: read_credential_file_def from_utf8_as_bytes)

lemma read_credential_missing: "read_credential_file Missing \<noteq> Inr s"
  by (simp add: read_credential_file_def)

lemma configure_Inr:
  assumes "configure sha256 hex_encode io (Some salt) channel (nc, disk) = (Inr r, nc', disk')"
    and "has_path nc" "has_credential_file nc"
  defines "v \<equiv> \<lparr>verifier_salt = salt, verifier_digest = channel_digest sha256 salt channel\<rparr>"
  shows "channel \<noteq> [] \<and> nc' = nc\<lparr>channel_verifier := Some v, client_secret := Some channel\<rparr>
    \<and> verifier_file disk' = Holds (Some
         \<lparr>record_salt = Some (hex_encode salt), record_sha256 = hex_encode (verifier_digest v),
          client_secret_protected = None\<rparr>)
    \<and> systemd_credential disk' = systemd_credential disk
    \<and> (credential_store disk' = Holds (as_bytes channel)
       \<or> read_credential_file (credential_store disk') = Inr channel \<and> credential_store disk' \<noteq> Missing)"
  using assms
  by (auto simp: configure_def protect_secret_def Let_def persist_credential_def persist_verifier_def
      ok_Some_iff read_credential_missing
      split: if_splits option.splits prod.splits sum.splits)

lemma read_credential_trimmed: "read_credential_file f = Inr s \<Longrightarrow> s \<noteq> [] \<and> \<not> line_end (last s)"
  using trim_end_by_last [of line_end]
  by (auto simp: read_credential_file_def result_simps Let_def split: FileState.splits if_splits)


end
