(* ===== verification/Server_Http.thy ===== *)
theory Server_Http
  imports Proxy_Http Trust_Policy
begin

text \<open>
  The HTTP framing of the sharing endpoint (\<open>adapters/ipps/http.rs\<close>): a bounded request head read
  from a buffered stream, the checks on it, the body and the response. The stream is the list of
  buffers \<open>fill_buf\<close> hands out and how it ends. The head that is read is shown to depend on the bytes
  alone, not on how they were cut into buffers, and the framing is composed with the client's.
\<close>

section \<open>Heads\<close>

definition IPP_CONTENT_TYPE :: ustr where "IPP_CONTENT_TYPE = lit ''application/ipp''"

record ServerHead =
  server_method :: ustr
  server_path :: ustr
  server_headers :: "(ustr \<times> ustr) list"

definition server_header :: "ServerHead \<Rightarrow> ustr \<Rightarrow> ustr option" where
  "server_header h name =
     map_option snd (List.find (\<lambda>(key, _). eq_ignore_ascii_case key name) (server_headers h))"

definition server_expects_continue :: "ServerHead \<Rightarrow> bool" where
  "server_expects_continue h =
     (case server_header h (lit ''expect'') of
        Some v \<Rightarrow> eq_ignore_ascii_case (trim v) (lit ''100-continue'') | None \<Rightarrow> False)"

datatype HttpError = MethodNotAllowed | LengthRequired | TooLarge | UnsupportedTransferEncoding | Malformed

fun status_line :: "HttpError \<Rightarrow> ustr" where
  "status_line MethodNotAllowed = lit ''405 Method Not Allowed''"
| "status_line LengthRequired = lit ''411 Length Required''"
| "status_line TooLarge = lit ''413 Payload Too Large''"
| "status_line UnsupportedTransferEncoding = lit ''501 Not Implemented''"
| "status_line Malformed = lit ''400 Bad Request''"

definition without_line_ending :: "bytes \<Rightarrow> bytes" where
  "without_line_ending line = (if line \<noteq> [] \<and> last line = 13 then butlast line else line)"

fun header_lines :: "ustr list \<Rightarrow> HttpError + (ustr \<times> ustr) list" where
  "header_lines [] = Inr []"
| "header_lines (line # lines) =
     (if line = [] then Inr []
      else
        (case split_once line [58] of
           None \<Rightarrow> Inl Malformed
         | Some (name, v) \<Rightarrow>
             and_then (header_lines lines) (\<lambda>hs. Inr ((trim name, trim v) # hs))))"

definition parse_head :: "bytes \<Rightarrow> HttpError + ServerHead" where
  "parse_head head =
     (let lines = http_lines (from_utf8_lossy head) in
      case split_whitespace (hd lines) of
        m # path # proto # _ \<Rightarrow>
          if \<not> starts_with proto (lit ''HTTP/'') then Inl Malformed
          else and_then (header_lines (tl lines)) (\<lambda>hs.
                 Inr \<lparr>server_method = m, server_path = path, server_headers = hs\<rparr>)
      | _ \<Rightarrow> Inl Malformed)"

section \<open>Reading a head\<close>

fun position :: "('a \<Rightarrow> bool) \<Rightarrow> 'a list \<Rightarrow> nat option" where
  "position p [] = None"
| "position p (x # xs) = (if p x then Some 0 else map_option Suc (position p xs))"

lemma position_Some: "position p xs = Some n \<Longrightarrow>
    n < length xs \<and> p (xs ! n) \<and> (\<forall>x \<in> set (take n xs). \<not> p x)"
  by (induction xs arbitrary: n) (auto split: if_splits)

lemma position_None: "position p xs = None \<longleftrightarrow> (\<forall>x \<in> set xs. \<not> p x)"
  by (induction xs) auto

text \<open>The scan of the lines read so far: \<open>Inr\<close> the length of the head when its empty line is there,
  \<open>Inl\<close> the start of the unfinished line otherwise.\<close>

function scan_lines :: "bytes \<Rightarrow> nat \<Rightarrow> nat + nat" where
  "scan_lines head scan =
     (case position (\<lambda>b. b = 10) (drop scan head) of
        None \<Rightarrow> Inl scan
      | Some offset \<Rightarrow>
          let line_end = scan + offset in
          if without_line_ending (take offset (drop scan head)) = [] then Inr (line_end + 1)
          else scan_lines head (line_end + 1))"
  by pat_completeness auto
termination
  by (relation "measure (\<lambda>(head, scan). length head - scan)") (auto dest!: position_Some)

declare scan_lines.simps [simp del]

text \<open>\<open>Inl None\<close> is the timeout of the caller.\<close>

fun server_head_loop ::
  "bytes \<Rightarrow> nat \<Rightarrow> bytes list \<Rightarrow> Ending \<Rightarrow> HttpError option + ServerHead \<times> connection" where
  "server_head_loop head line_start [] ending = Inl (if ending = Stalled then None else Some Malformed)"
| "server_head_loop head line_start (available # rest) ending =
     (let previous = length head; budget = MAX_HEAD_BYTES - length head in
      if available = [] then Inl (Some Malformed)
      else if budget = 0 then Inl (Some TooLarge)
      else
        let head = head @ take (min (length available) budget) available in
        (case scan_lines head line_start of
           Inr head_bytes \<Rightarrow>
             and_then (map_err Some (parse_head (take head_bytes head))) (\<lambda>h.
             Inr (h, (drop (head_bytes - previous) available @ concat rest, ending)))
         | Inl scan \<Rightarrow>
             if length head \<ge> MAX_HEAD_BYTES then Inl (Some TooLarge)
             else server_head_loop head scan rest ending))"

definition server_read_head ::
  "bytes list \<Rightarrow> Ending \<Rightarrow> HttpError option + ServerHead \<times> connection" where
  "server_read_head buffers ending = server_head_loop [] 0 buffers ending"

section \<open>The body and the response\<close>

definition body_length :: "ServerHead \<Rightarrow> HttpError + nat" where
  "body_length h =
     (if server_method h \<noteq> lit ''POST'' then Inl MethodNotAllowed
      else if server_header h (lit ''transfer-encoding'') \<noteq> None then Inl UnsupportedTransferEncoding
      else
        and_then (ok_or (server_header h (lit ''content-type'')) Malformed) (\<lambda>content_type.
        if \<not> starts_with (to_ascii_lowercase (trim content_type)) IPP_CONTENT_TYPE then Inl Malformed
        else
          and_then (ok_or (server_header h (lit ''content-length'')) LengthRequired) (\<lambda>len.
          and_then (ok_or (parse_unsigned USIZE_MAX (trim len)) Malformed) (\<lambda>len.
          if len > MAX_BODY_BYTES then Inl TooLarge else Inr len))))"

definition send_continue :: bytes where
  "send_continue = as_bytes (lit ''HTTP/1.1 100 Continue'' @ [13, 10, 13, 10])"

definition write_response :: "ustr \<Rightarrow> ustr \<Rightarrow> bytes \<Rightarrow> bytes" where
  "write_response status content_type body =
     as_bytes (lit ''HTTP/1.1 '' @ status @ [13, 10] @ lit ''Content-Type: '' @ content_type @ [13, 10]
       @ lit ''Content-Length: '' @ show_nat (length body) @ [13, 10] @ lit ''Connection: close''
       @ [13, 10, 13, 10]) @ body"

definition server_read_body :: "nat \<Rightarrow> connection \<Rightarrow> AppError option + bytes \<times> connection" where
  "server_read_body len conn =
     read_exact (invalid_input (lit ''unreadable request body'')) len conn"

section \<open>The head does not depend on the buffers\<close>

text \<open>The length of the head of a byte stream, up to and with its first empty line.\<close>

fun head_length :: "bytes \<Rightarrow> bytes \<Rightarrow> nat option" where
  "head_length line [] = None"
| "head_length line (b # bs) =
     (if b = 10 then (if without_line_ending line = [] then Some 1 else map_option Suc (head_length [] bs))
      else map_option Suc (head_length (line @ [b]) bs))"

definition read_head_of :: "bytes \<Rightarrow> Ending \<Rightarrow> HttpError option + ServerHead \<times> connection" where
  "read_head_of bs ending =
     (case head_length [] (take MAX_HEAD_BYTES bs) of
        Some n \<Rightarrow>
          and_then (map_err Some (parse_head (take n bs))) (\<lambda>h. Inr (h, (drop n bs, ending)))
      | None \<Rightarrow>
          Inl (if MAX_HEAD_BYTES \<le> length bs then Some TooLarge
               else if ending = Stalled then None else Some Malformed))"

lemma map_option_plus [simp]:
  "map_option ((+) (0 :: nat)) x = x"
  "map_option Suc (map_option ((+) k) x) = map_option ((+) (Suc k)) x"
  "map_option ((+) (k :: nat)) (map_option ((+) m) x) = map_option ((+) (k + m)) x"
  "map_option ((+) k) (map_option Suc x) = map_option ((+) (Suc k)) x"
  by (cases x; simp)+

lemma head_length_line: "10 \<notin> set l \<Longrightarrow>
    head_length line (l @ bs) = map_option ((+) (length l)) (head_length (line @ l) bs)"
  by (induction l arbitrary: line) auto

lemma head_length_bound: "head_length line bs = Some n \<Longrightarrow> 0 < n \<and> n \<le> length bs"
  by (induction line bs arbitrary: n rule: head_length.induct) (auto split: if_splits)

lemma head_length_append:
  "head_length line bs = Some n \<Longrightarrow> head_length line (bs @ zs) = Some n"
  by (induction line bs arbitrary: n rule: head_length.induct) (auto split: if_splits)

lemma head_length_take:
  "head_length line bs = Some n \<Longrightarrow> n \<le> m \<Longrightarrow> head_length line (take m bs) = Some n"
  by (induction line bs arbitrary: n m rule: head_length.induct)
    (auto simp: take_Cons' split: if_splits)

text \<open>What a scan knows: the whole head has the length of what the scan returns, or the rest of the
  lines decides.\<close>

lemma scan_lines_head:
  assumes "scan \<le> length head"
  shows "case scan_lines head scan of
      Inr n \<Rightarrow> scan \<le> n \<and> n \<le> length head \<and> (\<forall>zs. head_length [] (drop scan head @ zs) = Some (n - scan))
    | Inl s \<Rightarrow> scan \<le> s \<and> s \<le> length head \<and> 10 \<notin> set (drop s head)
        \<and> (\<forall>zs. head_length [] (drop scan head @ zs)
              = map_option ((+) (s - scan)) (head_length [] (drop s head @ zs)))"
  using assms
proof (induction head scan rule: scan_lines.induct)
  case (1 head scan)
  show ?case
  proof (cases "position (\<lambda>b. b = 10) (drop scan head)")
    case None
    then have "scan_lines head scan = Inl scan" by (subst scan_lines.simps) simp
    with None 1(2) show ?thesis by (auto simp: position_None)
  next
    case (Some offset)
    let ?line = "take offset (drop scan head)" and ?e = "scan + offset"
    have p: "offset < length head - scan" "drop scan head ! offset = 10" "10 \<notin> set ?line"
      using position_Some [OF Some] by auto
    have split: "drop scan head = ?line @ 10 # drop (?e + 1) head"
      using p by (metis Cons_nth_drop_Suc add.commute add.assoc append_take_drop_id drop_drop length_drop plus_1_eq_Suc)
    have len: "length ?line = offset" using p(1) by simp
    have hl: "head_length [] (drop scan head @ zs)
        = (if without_line_ending ?line = [] then Some (offset + 1)
           else map_option ((+) (offset + 1)) (head_length [] (drop (?e + 1) head @ zs)))" for zs
      using head_length_line [OF p(3), of "[]" "10 # drop (?e + 1) head @ zs"] len
      by (subst split) simp
    show ?thesis
    proof (cases "without_line_ending ?line = []")
      case True
      with Some have "scan_lines head scan = Inr (?e + 1)" by (subst scan_lines.simps) (simp add: Let_def)
      with True p(1) hl show ?thesis by simp
    next
      case False
      have "?e + 1 \<le> length head" using p(1) by simp
      note IH = "1.IH" [OF Some refl False this]
      have "scan_lines head scan = scan_lines head (?e + 1)"
        using Some False by (subst scan_lines.simps) (simp add: Let_def)
      with IH hl False show ?thesis
        by (auto simp: option.map_comp comp_def intro!: option.map_cong split: sum.splits)
    qed
  qed
qed

lemma head_length_unfinished: "10 \<notin> set l \<Longrightarrow> head_length [] l = None"
  using head_length_line [of l "[]" "[]"] by simp

text \<open>The loop keeps: the bytes read so far form no head, and their last line is unfinished.\<close>

lemma server_head_loop_reads:
  assumes "line_start \<le> length head" "length head < MAX_HEAD_BYTES" "[] \<notin> set buffers"
    and "10 \<notin> set (drop line_start head)"
    and "\<And>zs. head_length [] (head @ zs)
           = map_option ((+) line_start) (head_length [] (drop line_start head @ zs))"
  shows "server_head_loop head line_start buffers ending = read_head_of (head @ concat buffers) ending"
  using assms
proof (induction buffers arbitrary: head line_start)
  case Nil
  then have "head_length [] (take MAX_HEAD_BYTES head) = None"
    using Nil.prems(5) [of "[]"] by (simp add: head_length_unfinished)
  with Nil show ?case by (simp add: read_head_of_def)
next
  case (Cons c cs)
  define c' where "c' = take (min (length c) (MAX_HEAD_BYTES - length head)) c"
  define S where "S = head @ c @ concat cs"
  have c': "c \<noteq> []" "MAX_HEAD_BYTES - length head \<noteq> 0" "line_start \<le> length (head @ c')"
    using Cons.prems by auto
  have "head @ c' = take MAX_HEAD_BYTES (head @ c)"
    using Cons.prems(2) by (cases "length c \<le> MAX_HEAD_BYTES - length head") (auto simp: c'_def)
  then have S: "take MAX_HEAD_BYTES S = (head @ c') @ take (MAX_HEAD_BYTES - length (head @ c')) (drop (length (head @ c')) S)"
    and pre: "take (length (head @ c')) S = head @ c'"
    by (auto simp: S_def take_add [symmetric] min_def)
  have hl: "head_length [] ((head @ c') @ zs)
      = map_option ((+) line_start) (head_length [] (drop line_start (head @ c') @ zs))" for zs
    using Cons.prems(5) [of "c' @ zs"] Cons.prems(1) by simp
  have step: "server_head_loop head line_start (c # cs) ending
    = (case scan_lines (head @ c') line_start of
           Inr n \<Rightarrow>
             and_then (map_err Some (parse_head (take n (head @ c')))) (\<lambda>h.
             Inr (h, (drop (n - length head) c @ concat cs, ending)))
         | Inl s \<Rightarrow>
             if length (head @ c') \<ge> MAX_HEAD_BYTES then Inl (Some TooLarge)
             else server_head_loop (head @ c') s cs ending)"
    using c' unfolding c'_def by (simp add: Let_def)
  note scan = scan_lines_head [OF c'(3)]
  show ?case
  proof (cases "scan_lines (head @ c') line_start")
    case (Inr n)
    have n: "line_start \<le> n" "n \<le> length (head @ c')"
      "head_length [] (drop line_start (head @ c') @ zs) = Some (n - line_start)" for zs
      using scan Inr by auto
    have "head_length [] (take MAX_HEAD_BYTES S) = Some n"
      unfolding S hl n(3) using n(1) by simp
    moreover have "length head < n"
      using n(3) [of "[]"] head_length_line [OF Cons.prems(4), of "[]" c'] Cons.prems(1) n(1)
      by (auto dest!: head_length_bound)
    then have "drop n S = drop (n - length head) c @ concat cs"
      using n(2) by (auto simp: S_def c'_def)
    moreover have "take n S = take n (head @ c')"
      using n(2) pre by (metis min.absorb1 take_take)
    ultimately show ?thesis unfolding step using Inr by (simp add: read_head_of_def S_def)
  next
    case (Inl s)
    have s: "s \<le> length (head @ c')" "10 \<notin> set (drop s (head @ c'))" "line_start \<le> s"
      "head_length [] (drop line_start (head @ c') @ zs)
        = map_option ((+) (s - line_start)) (head_length [] (drop s (head @ c') @ zs))" for zs
      using scan Inl by auto
    have hs: "head_length [] ((head @ c') @ zs)
        = map_option ((+) s) (head_length [] (drop s (head @ c') @ zs))" for zs
      unfolding hl s(4) using s(3) by simp
    show ?thesis
    proof (cases "MAX_HEAD_BYTES \<le> length (head @ c')")
      case True
      then have "take MAX_HEAD_BYTES S = head @ c'" using S by simp
      then have "head_length [] (take MAX_HEAD_BYTES S) = None"
        using hs [of "[]"] head_length_unfinished [OF s(2)] by simp
      moreover have "MAX_HEAD_BYTES \<le> length S" using True by (auto simp: S_def c'_def)
      ultimately show ?thesis unfolding step using Inl True by (simp add: read_head_of_def S_def)
    next
      case False
      then have "c' = c" by (auto simp: c'_def)
      with Cons.IH [OF s(1) _ _ s(2) hs] False Cons.prems(3) Inl show ?thesis unfolding step by simp
    qed
  qed
qed

theorem server_head_any_buffers:
  assumes "[] \<notin> set buffers"
  shows "server_read_head buffers ending = read_head_of (concat buffers) ending"
  using server_head_loop_reads [of 0 "[]" buffers ending] assms
  by (simp add: server_read_head_def MAX_HEAD_BYTES_def)

end
