(* ===== verification/Sharing_Endpoint.thy ===== *)
theory Sharing_Endpoint
  imports Job_Store Network_Channel Print_Failure Server_Http Ipp_Response
begin

text \<open>
  The sharing endpoint (\<open>adapters/ipps/endpoint.rs\<close> and \<open>adapters/ipps/mod.rs\<close>): the answer to one
  request, from its bytes to the response, with the jobs, leases and failures of the server. The
  spooler of the server is a parameter, which accepts a job or refuses it; every submission to it
  is recorded. A lease that goes out of scope in the code is released explicitly.
\<close>

section \<open>State and environment\<close>

record ServerState =
  server_jobs :: JobStore
  server_failures :: PrintFailures
  server_tracker :: Tracker

type_synonym submitter = "PrinterName \<Rightarrow> PrintJob \<Rightarrow> AppError + u32"

record ServerEnv =
  srv_sha256 :: "bytes \<Rightarrow> bytes"
  srv_uptime :: int
  srv_now :: nat
  srv_now_ms :: nat
  srv_channel :: NetworkChannel
  srv_shared :: "PrinterName list"
  srv_available :: bool
  srv_submit :: submitter
  srv_client_listens :: bool

type_synonym submission = "PrinterName \<times> PrintJob"
type_synonym answered = "bytes \<times> bool option \<times> ServerState \<times> submission list"

definition server_release :: "ServerEnv \<Rightarrow> bool list \<Rightarrow> ServerState \<Rightarrow> ServerState" where
  "server_release env ls st =
     st\<lparr>server_tracker := fold (\<lambda>l t. snd (release (srv_now env) l t)) ls (server_tracker st)\<rparr>"

definition report_server :: "ServerEnv \<Rightarrow> ErrorCode \<Rightarrow> PrinterName option \<Rightarrow> ServerState \<Rightarrow> ServerState" where
  "report_server env code printer st =
     st\<lparr>server_failures := report (server_failure code printer (srv_now_ms env)) (server_failures st)\<rparr>"

text \<open>An operation of the job store, with the leases it drops.\<close>

definition with_jobs ::
  "ServerEnv \<Rightarrow> (JobStore \<Rightarrow> 'r \<times> JobStore \<times> bool list) \<Rightarrow> ServerState \<Rightarrow> 'r \<times> ServerState" where
  "with_jobs env f st =
     (case f (server_jobs st) of
        (r, jobs, dropped) \<Rightarrow> (r, server_release env dropped (st\<lparr>server_jobs := jobs\<rparr>)))"

text \<open>The two ways an operation ends: the lease is dropped, or kept until the answer is written.\<close>

definition answer_done :: "ServerEnv \<Rightarrow> bytes \<Rightarrow> bool \<Rightarrow> ServerState \<Rightarrow> answered" where
  "answer_done env resp lease st = (resp, None, server_release env [lease] st, [])"

definition answer_held :: "bytes \<Rightarrow> bool option \<Rightarrow> ServerState \<Rightarrow> answered" where
  "answer_held resp lease st = (resp, lease, st, [])"

section \<open>Finding a queue\<close>

definition find_by_name :: "PrinterName list \<Rightarrow> ustr \<Rightarrow> PrinterName option" where
  "find_by_name shared requested =
     List.find (\<lambda>p. eq_ignore_ascii_case (PrinterName_as_str p) requested) shared"

definition ipps_authority_and_path :: "ustr \<Rightarrow> (ustr \<times> ustr) option" where
  "ipps_authority_and_path uri =
     Option.bind (split_once uri (lit ''://'')) (\<lambda>(scheme, remainder).
     if \<not> eq_ignore_ascii_case scheme (lit ''ipps'') then None
     else
       Option.bind (split_once remainder (lit ''/'')) (\<lambda>(authority, path).
       if authority \<noteq> [] \<and> path \<noteq> [] then Some (authority, path) else None))"

definition find_by_uri :: "PrinterName list \<Rightarrow> ustr \<Rightarrow> ustr \<Rightarrow> PrinterName option" where
  "find_by_uri shared host requested =
     Option.bind (ipps_authority_and_path requested) (\<lambda>(authority, path).
     if \<not> eq_ignore_ascii_case authority host then None
     else
       Option.bind (strip_prefix path (lit ''ipp/print/'')) (\<lambda>encoded_name.
       find_by_name shared (percent_decode encoded_name)))"

definition selected_printer :: "ServerEnv \<Rightarrow> ustr \<Rightarrow> Request \<Rightarrow> PrinterName option" where
  "selected_printer env host request =
     Option.bind (value_text request (lit ''printer-uri'')) (find_by_uri (srv_shared env) host)"

section \<open>Queries\<close>

definition srv_response :: "ServerEnv \<Rightarrow> Request \<Rightarrow> Status \<Rightarrow> PrinterEntry list \<Rightarrow> bytes" where
  "srv_response env request status entries =
     response (srv_sha256 env) (srv_uptime env) (request_id request) (response_version request) status entries"

definition bad_request :: "ServerEnv \<Rightarrow> bytes" where
  "bad_request env = response (srv_sha256 env) (srv_uptime env) 0 IPP_VERSION_1_1 BadRequest []"

definition answer_with_job_status :: "ServerEnv \<Rightarrow> ustr \<Rightarrow> bool \<Rightarrow> bytes \<Rightarrow> bytes" where
  "answer_with_job_status env host accepting bs =
     (case Request_parse bs of
        Inl _ \<Rightarrow> bad_request env
      | Inr request \<Rightarrow>
          if \<not> version_is_supported request then srv_response env request VersionNotSupported []
          else if operation request = OPERATION_GET_PRINTERS then
            srv_response env request Ok (map (\<lambda>p. printer_entry host p accepting) (srv_shared env))
          else if operation request = OPERATION_GET_PRINTER_ATTRIBUTES then
            (case (case value_text request (lit ''printer-uri'') of
                     Some uri \<Rightarrow> find_by_uri (srv_shared env) host uri
                   | None \<Rightarrow> Option.bind (value_text request (lit ''printer-name''))
                               (find_by_name (srv_shared env))) of
               Some p \<Rightarrow> srv_response env request Ok [printer_entry host p accepting]
             | None \<Rightarrow> srv_response env request Status.NotFound [])
          else srv_response env request UnsupportedOperation [])"

section \<open>Submitting\<close>

definition submission_failure :: "ErrorCode \<Rightarrow> ErrorCode" where
  "submission_failure code = (if code = InvalidInput then code else QueueUnavailable)"

fun submission_status :: "ErrorCode \<Rightarrow> Status" where
  "submission_status InvalidInput = AttributesOrValuesNotSupported"
| "submission_status Unsupported = NotAcceptingJobs"
| "submission_status _ = StatusInternalError"

definition is_pwg_raster :: "ustr \<Rightarrow> bool" where
  "is_pwg_raster format = eq_ignore_ascii_case format (lit ''image/pwg-raster'')"

definition wrong_format :: "bool \<Rightarrow> Request \<Rightarrow> Status option" where
  "wrong_format required request =
     (case value_text request (lit ''document-format'') of
        Some format \<Rightarrow> if \<not> is_pwg_raster format then Some DocumentFormatNotSupported else None
      | None \<Rightarrow> if required then Some BadRequest else None)"

text \<open>Print-Job and Validate-Job, once the client is authorized; \<open>guard\<close> is the lease of a print job.\<close>

definition answer_print ::
  "ServerEnv \<Rightarrow> ustr \<Rightarrow> bytes \<Rightarrow> Request \<Rightarrow> bool option \<Rightarrow> ServerState \<Rightarrow> answered" where
  "answer_print env host bs request guard st =
     (let is_print = (operation request = OPERATION_PRINT_JOB);
          selected = selected_printer env host request;
          refuse = (\<lambda>status st. answer_held (srv_response env request status []) guard st) in
      if \<not> srv_available env then
        refuse NotAcceptingJobs (report_server env QueueUnavailable selected st)
      else
        (case selected of
           None \<Rightarrow> refuse Status.NotFound st
         | Some printer \<Rightarrow>
             (case wrong_format is_print request of
                Some status \<Rightarrow> refuse status st
              | None \<Rightarrow>
                  (case job_settings request of
                     Inl status \<Rightarrow>
                       refuse status
                         (if is_print then report_server env InvalidInput (Some printer) st else st)
                   | Inr settings \<Rightarrow>
                       if \<not> is_print then refuse Ok st
                       else if document request = [] then refuse BadRequest st
                       else
                         let job = from_ipp_body bs (document_start request) settings in
                         (case srv_submit env printer job of
                            Inr spooled \<Rightarrow>
                              (job_response (request_id request) (response_version request) spooled
                                 (entry_uri (printer_entry host printer True) @ lit ''/jobs/''
                                    @ show_nat (unat spooled)),
                               guard, st, [(printer, job)])
                          | Inl err \<Rightarrow>
                              (srv_response env request (submission_status (err_code err)) [], guard,
                               report_server env (submission_failure (err_code err)) (Some printer) st,
                               [(printer, job)]))))))"

section \<open>Multi-step jobs\<close>

definition channel_authorizes :: "ServerEnv \<Rightarrow> Request \<Rightarrow> bool" where
  "channel_authorizes env request =
     (case value_text request (lit ''network-channel'') of
        None \<Rightarrow> False
      | Some candidate \<Rightarrow> authorizes (srv_sha256 env) (srv_channel env) candidate)"

definition multi_step_operations :: "u16 list" where
  "multi_step_operations =
     [OPERATION_CREATE_JOB, OPERATION_SEND_DOCUMENT, OPERATION_CANCEL_JOB,
      OPERATION_GET_JOB_ATTRIBUTES, OPERATION_GET_JOBS]"

definition job_answer :: "Request \<Rightarrow> JobEntry \<Rightarrow> bytes" where
  "job_answer request e = managed_job_response (request_id request) (response_version request) e"

definition answer_create :: "ServerEnv \<Rightarrow> ustr \<Rightarrow> Request \<Rightarrow> bool \<Rightarrow> ServerState \<Rightarrow> answered" where
  "answer_create env host request lease st =
     (let refuse = (\<lambda>status lease st. answer_done env (srv_response env request status []) lease st) in
      case selected_printer env host request of
        None \<Rightarrow> refuse Status.NotFound lease st
      | Some printer \<Rightarrow>
          if document request \<noteq> [] then refuse BadRequest lease st
          else (case wrong_format False request of
            Some status \<Rightarrow> refuse status lease st
          | None \<Rightarrow>
              if \<not> srv_available env then
                refuse NotAcceptingJobs lease (report_server env QueueUnavailable (Some printer) st)
              else
                (case job_settings request of
                   Inl status \<Rightarrow> refuse status lease (report_server env InvalidInput (Some printer) st)
                 | Inr settings \<Rightarrow>
                     (case mark_print_job (srv_now env) lease (server_tracker st) of
                        (marked, lease, t) \<Rightarrow>
                          let st = st\<lparr>server_tracker := t\<rparr> in
                          if \<not> marked then refuse NotAcceptingJobs lease st
                          else
                            (case with_jobs env (create (srv_now env) host printer
                                     (value_text request (lit ''job-name'')) settings lease) st of
                               (Inr e, st) \<Rightarrow> (job_answer request e, None, st, [])
                             | (Inl status, st) \<Rightarrow> (srv_response env request status [], None, st, []))))))"

text \<open>The document of a job is complete: it is submitted, and the job is finished or aborted.\<close>

definition submit_collected ::
  "ServerEnv \<Rightarrow> bytes \<Rightarrow> Request \<Rightarrow> int \<Rightarrow> JobSubmission \<Rightarrow> bool \<Rightarrow> ServerState \<Rightarrow> answered" where
  "submit_collected env bs request jid sub lease st =
     (let body = take (document_start request) bs @ submission_document sub;
          job = from_ipp_body body (document_start request) (submission_settings sub) in
      case srv_submit env (submission_printer sub) job of
        Inr _ \<Rightarrow>
          (case with_jobs env (finish jid 9) st of
             (e, st) \<Rightarrow>
               (job_answer request (case e of Some e \<Rightarrow> e | None \<Rightarrow> submission_entry sub), Some lease, st,
                [(submission_printer sub, job)]))
      | Inl err \<Rightarrow>
          (case with_jobs env (finish jid 8)
                  (report_server env (submission_failure (err_code err)) (Some (submission_printer sub)) st) of
             (_, st) \<Rightarrow>
               (srv_response env request (submission_status (err_code err)) [], Some lease, st,
                [(submission_printer sub, job)])))"

definition valid_job_id :: "Request \<Rightarrow> int option" where
  "valid_job_id request =
     (case integer request (lit ''job-id'') of Some i \<Rightarrow> if i > 0 then Some i else None | None \<Rightarrow> None)"

definition answer_send :: "ServerEnv \<Rightarrow> ustr \<Rightarrow> bytes \<Rightarrow> Request \<Rightarrow> bool \<Rightarrow> ServerState \<Rightarrow> answered" where
  "answer_send env host bs request lease st =
     (let refuse = (\<lambda>status. answer_done env (srv_response env request status []) lease st) in
      case selected_printer env host request of
        None \<Rightarrow> refuse Status.NotFound
      | Some printer \<Rightarrow>
          (case valid_job_id request of
             None \<Rightarrow> refuse BadRequest
           | Some jid \<Rightarrow>
               (case wrong_format False request of
                  Some status \<Rightarrow> refuse status
                | None \<Rightarrow>
                    (case boolean request (lit ''last-document'') of
                       None \<Rightarrow> refuse BadRequest
                     | Some last_document \<Rightarrow>
                         if document request = [] then refuse BadRequest
                         else if \<not> srv_available env then
                           answer_held (srv_response env request NotAcceptingJobs []) (Some lease)
                             (report_server env QueueUnavailable (Some printer) st)
                         else
                           (case with_jobs env (append_document (srv_now env) jid printer
                                    (document request) last_document) st of
                              (Inl status, st) \<Rightarrow>
                                answer_held (srv_response env request status []) (Some lease) st
                            | (Inr (Some sub), st) \<Rightarrow> submit_collected env bs request jid sub lease st
                            | (Inr None, st) \<Rightarrow>
                                (case with_jobs env (get_job (srv_now env) jid) st of
                                   (Inr e, st) \<Rightarrow> answer_held (job_answer request e) (Some lease) st
                                 | (Inl status, st) \<Rightarrow>
                                     answer_held (srv_response env request status []) (Some lease) st))))))"

definition answer_job_attributes :: "ServerEnv \<Rightarrow> ustr \<Rightarrow> Request \<Rightarrow> bool \<Rightarrow> ServerState \<Rightarrow> answered" where
  "answer_job_attributes env host request lease st =
     (let refuse = (\<lambda>status st. answer_done env (srv_response env request status []) lease st) in
      case valid_job_id request of
        None \<Rightarrow> refuse BadRequest st
      | Some jid \<Rightarrow>
          (case with_jobs env (get_job (srv_now env) jid) st of
             (Inl status, st) \<Rightarrow> refuse status st
           | (Inr e, st) \<Rightarrow>
               (case selected_printer env host request of
                  None \<Rightarrow> refuse Status.NotFound st
                | Some printer \<Rightarrow>
                    if \<not> eq_ignore_ascii_case (PrinterName_as_str printer) (job_printer_name e)
                    then refuse Status.NotFound st
                    else answer_done env
                           (job_attributes_response (request_id request) (response_version request) e
                              (text_values request (lit ''requested-attributes''))) lease st)))"

definition answer_jobs :: "ServerEnv \<Rightarrow> ustr \<Rightarrow> Request \<Rightarrow> bool \<Rightarrow> ServerState \<Rightarrow> answered" where
  "answer_jobs env host request lease st =
     (case selected_printer env host request of
        None \<Rightarrow> answer_done env (srv_response env request Status.NotFound []) lease st
      | Some printer \<Rightarrow>
          (case with_jobs env (list_jobs (srv_now env) printer (value_text request (lit ''which-jobs''))) st of
             (Inr es, st) \<Rightarrow>
               answer_done env (jobs_response (request_id request) (response_version request) es
                 (text_values request (lit ''requested-attributes''))) lease st
           | (Inl status, st) \<Rightarrow> answer_done env (srv_response env request status []) lease st))"

definition answer_cancel :: "ServerEnv \<Rightarrow> ustr \<Rightarrow> Request \<Rightarrow> bool \<Rightarrow> ServerState \<Rightarrow> answered" where
  "answer_cancel env host request lease st =
     (case selected_printer env host request of
        None \<Rightarrow> answer_done env (srv_response env request Status.NotFound []) lease st
      | Some printer \<Rightarrow>
          (case valid_job_id request of
             None \<Rightarrow> answer_done env (srv_response env request BadRequest []) lease st
           | Some jid \<Rightarrow>
               (case with_jobs env (cancel (srv_now env) jid printer) st of
                  (Inr e, st) \<Rightarrow> answer_held (job_answer request e) (Some lease) st
                | (Inl status, st) \<Rightarrow>
                    answer_held (srv_response env request status []) (Some lease) st)))"

definition answer_multi_step :: "ServerEnv \<Rightarrow> ustr \<Rightarrow> bytes \<Rightarrow> bool \<Rightarrow> ServerState \<Rightarrow> answered" where
  "answer_multi_step env host bs lease st =
     (case Request_parse bs of
        Inl _ \<Rightarrow> answer_done env (bad_request env) lease st
      | Inr request \<Rightarrow>
          let op = operation request;
              refuse = (\<lambda>status. answer_done env (srv_response env request status []) lease st) in
          if \<not> version_is_supported request then refuse VersionNotSupported
          else if op \<in> set multi_step_operations \<and> \<not> channel_authorizes env request
          then refuse Status.NotAuthorized
          else if op = OPERATION_CREATE_JOB then answer_create env host request lease st
          else if op = OPERATION_SEND_DOCUMENT then answer_send env host bs request lease st
          else if op = OPERATION_GET_JOB_ATTRIBUTES then answer_job_attributes env host request lease st
          else if op = OPERATION_GET_JOBS then answer_jobs env host request lease st
          else if op = OPERATION_CANCEL_JOB then answer_cancel env host request lease st
          else refuse UnsupportedOperation)"

section \<open>One request\<close>

definition answer_job :: "ServerEnv \<Rightarrow> ustr \<Rightarrow> bytes \<Rightarrow> bool \<Rightarrow> ServerState \<Rightarrow> answered" where
  "answer_job env host bs lease st =
     (case Request_parse bs of
        Inl _ \<Rightarrow> answer_done env (bad_request env) lease st
      | Inr request \<Rightarrow>
          let op = operation request;
              refuse = (\<lambda>status lease st. answer_done env (srv_response env request status []) lease st) in
          if \<not> version_is_supported request then refuse VersionNotSupported lease st
          else if op \<in> set multi_step_operations then answer_multi_step env host bs lease st
          else if op \<noteq> OPERATION_PRINT_JOB \<and> op \<noteq> OPERATION_VALIDATE_JOB then
            answer_done env
              (answer_with_job_status env host (channel_is_configured (srv_channel env) \<and> srv_available env) bs)
              lease st
          else if \<not> channel_authorizes env request then refuse Status.NotAuthorized lease st
          else if op = OPERATION_PRINT_JOB then
            (case mark_print_job (srv_now env) lease (server_tracker st) of
               (marked, lease, t) \<Rightarrow>
                 let st = st\<lparr>server_tracker := t\<rparr> in
                 if \<not> marked then refuse NotAcceptingJobs lease st
                 else answer_print env host bs request (Some lease) st)
          else
            (case answer_print env host bs request None st of
               (resp, guard, st, subs) \<Rightarrow> (resp, guard, server_release env [lease] st, subs)))"

type_synonym replied = "(AppError + unit) \<times> bytes list"

definition server_respond :: "ServerEnv \<Rightarrow> ustr \<Rightarrow> ustr \<Rightarrow> bytes \<Rightarrow> replied" where
  "server_respond env status content_type body =
     (if srv_client_listens env then (Inr (), [write_response status content_type body])
      else (Inl (internal_error (lit ''cannot answer a client'')), []))"

definition answer_leased ::
  "ServerEnv \<Rightarrow> ServerHead \<Rightarrow> nat \<Rightarrow> connection \<Rightarrow> bool \<Rightarrow> ServerState
    \<Rightarrow> replied \<times> bool option \<times> ServerState \<times> submission list" where
  "answer_leased env head len conn lease st =
     (if server_expects_continue head \<and> \<not> srv_client_listens env
      then ((Inl (internal_error (lit ''cannot answer a client'')), []), Some lease, st, [])
      else
        let interim = (if server_expects_continue head then [send_continue] else []) in
        (case server_read_body len conn of
           Inl None \<Rightarrow>
             ((Inl (timeout_error (lit ''a client did not send its request in time'')), interim), Some lease, st, [])
         | Inl (Some e) \<Rightarrow> ((Inl e, interim), Some lease, st, [])
         | Inr (body, _) \<Rightarrow>
             (case (case server_header head (lit ''host'') of
                      Some host \<Rightarrow> if trim host \<noteq> [] then Some (trim host) else None | None \<Rightarrow> None) of
                None \<Rightarrow>
                  (case server_respond env (lit ''400 Bad Request'') (lit ''text/plain'') [] of
                     (r, outs) \<Rightarrow> ((r, interim @ outs), Some lease, st, []))
              | Some authority \<Rightarrow>
                  (case answer_job env authority body lease st of
                     (answer, guard, st, subs) \<Rightarrow>
                       (case server_respond env (lit ''200 OK'') IPP_CONTENT_TYPE answer of
                          (r, outs) \<Rightarrow> ((r, interim @ outs), guard, st, subs))))))"

definition answer_request ::
  "ServerEnv \<Rightarrow> bytes list \<Rightarrow> Ending \<Rightarrow> ServerState \<Rightarrow> replied \<times> ServerState \<times> submission list" where
  "answer_request env buffers ending st =
     (case server_read_head buffers ending of
        Inl None \<Rightarrow> ((Inl (timeout_error (lit ''a client did not send a request in time'')), []), st, [])
      | Inl (Some e) \<Rightarrow> (server_respond env (status_line e) (lit ''text/plain'') [], st, [])
      | Inr (head, conn) \<Rightarrow>
          (case body_length head of
             Inl e \<Rightarrow> (server_respond env (status_line e) (lit ''text/plain'') [], st, [])
           | Inr len \<Rightarrow>
               (case try_acquire_request (server_tracker st) of
                  None \<Rightarrow>
                    (server_respond env (lit ''503 Service Unavailable'') (lit ''text/plain'') [], st, [])
                | Some (lease, t) \<Rightarrow>
                    (case answer_leased env head len conn lease (st\<lparr>server_tracker := t\<rparr>) of
                       (out, guard, st, subs) \<Rightarrow>
                         (out, (case guard of Some l \<Rightarrow> server_release env [l] st | None \<Rightarrow> st), subs)))))"

text \<open>What the service does besides: the clean-up every thirty seconds, and the abort of unfinished
  jobs when it stops.\<close>

definition server_cleanup :: "ServerEnv \<Rightarrow> ServerState \<Rightarrow> ServerState" where
  "server_cleanup env st = snd (with_jobs env (\<lambda>jobs. ((), expire (srv_now env) jobs)) st)"

definition server_stop :: "ServerEnv \<Rightarrow> ServerState \<Rightarrow> ServerState" where
  "server_stop env st = snd (with_jobs env (\<lambda>jobs. ((), abort_incomplete jobs)) st)"

end
