(* ===== verification/Endpoint_Policy.thy ===== *)
theory Endpoint_Policy
  imports Sharing_Endpoint
begin

text \<open>
  What the sharing endpoint guarantees for every request of a client, whatever it holds: no lease
  is lost on any path, and which jobs reach the queue.
\<close>

section \<open>Leases\<close>

definition srv_balanced :: "nat \<Rightarrow> nat \<Rightarrow> bool list \<Rightarrow> ServerState \<Rightarrow> bool" where
  "srv_balanced js rs held st \<longleftrightarrow>
     active_jobs (server_tracker st) = js + count (mset held + store_leases (server_jobs st)) True
     \<and> active_requests (server_tracker st) = rs + count (mset held + store_leases (server_jobs st)) False
     \<and> store_inv (server_jobs st)"

lemma srv_balanced_report [simp]:
  "srv_balanced js rs held (report_server env code p st) = srv_balanced js rs held st"
  by (simp add: srv_balanced_def report_server_def)

lemma server_release_Nil [simp]: "server_release env [] st = st"
  by (simp add: server_release_def)

lemma server_release_Cons: "server_release env (l # ls) st = server_release env ls (server_release env [l] st)"
  by (simp add: server_release_def)

lemma srv_balanced_release:
  "srv_balanced js rs (ls @ held) st \<Longrightarrow> srv_balanced js rs held (server_release env ls st)"
proof (induction ls arbitrary: st)
  case (Cons l ls)
  then have "srv_balanced js rs (ls @ held) (server_release env [l] st)"
    by (auto simp: srv_balanced_def server_release_def release_def Let_def)
  with Cons.IH show ?case by (subst server_release_Cons)
qed simp

lemma srv_balanced_with_jobs:
  assumes "srv_balanced js rs (ins @ held) st" "with_jobs env f st = (r, st')"
    and "\<And>jobs r jobs' d. store_inv jobs \<Longrightarrow> f jobs = (r, jobs', d) \<Longrightarrow> store_inv jobs' \<and> accounts ins jobs jobs' d"
  shows "srv_balanced js rs held st'"
proof -
  obtain jobs d where f: "f (server_jobs st) = (r, jobs, d)" "st' = server_release env d (st\<lparr>server_jobs := jobs\<rparr>)"
    using assms(2) by (auto simp: with_jobs_def split: prod.splits)
  have "store_inv jobs \<and> accounts ins (server_jobs st) jobs d"
    using assms(1) assms(3) [OF _ f(1)] by (simp add: srv_balanced_def)
  then have j: "store_inv jobs" "mset ins + store_leases (server_jobs st) = store_leases jobs + mset d"
    by (simp_all add: accounts_def)
  then have "count (mset ins + store_leases (server_jobs st)) b = count (store_leases jobs + mset d) b" for b
    by simp
  from this [of True] this [of False] assms(1) j(1)
  have "srv_balanced js rs (d @ held) (st\<lparr>server_jobs := jobs\<rparr>)"
    by (simp add: srv_balanced_def ac_simps)
  then show ?thesis unfolding f(2) by (rule srv_balanced_release)
qed

lemma keeps_operation:
  assumes "srv_balanced js rs held st" "with_jobs env f st = (r, st')"
    and "\<And>jobs r jobs' d. store_inv jobs \<Longrightarrow> f jobs = (r, jobs', d) \<Longrightarrow> store_inv jobs' \<and> accounts [] jobs jobs' d"
  shows "srv_balanced js rs held st'"
  by (rule srv_balanced_with_jobs [where ins = "[]"]) (use assms in auto)

lemmas keeps_get = keeps_operation [OF _ _ get_job_ok]
  and keeps_list = keeps_operation [OF _ _ list_jobs_ok]
  and keeps_append = keeps_operation [OF _ _ append_document_ok]
  and keeps_cancel = keeps_operation [OF _ _ cancel_ok]
  and keeps_finished = keeps_operation [OF _ _ finish_ok [where s = 9, simplified]]
  and keeps_aborted = keeps_operation [OF _ _ finish_ok [where s = 8, simplified]]

lemma keeps_create:
  "srv_balanced js rs (lease # held) st \<Longrightarrow> with_jobs env (create now host p name settings lease) st = (r, st')
    \<Longrightarrow> srv_balanced js rs held st'"
  using srv_balanced_with_jobs [of js rs "[lease]" held st env "create now host p name settings lease" r st'] create_ok
  by simp

definition keeps :: "nat \<Rightarrow> nat \<Rightarrow> answered \<Rightarrow> bool" where
  "keeps js rs out \<longleftrightarrow> srv_balanced js rs (held_by (fst (snd out))) (fst (snd (snd out)))"

lemma keeps_tuple [simp]: "keeps js rs (resp, guard, st, subs) = srv_balanced js rs (held_by guard) st"
  by (simp add: keeps_def)

lemma keeps_done [simp]: "srv_balanced js rs [lease] st \<Longrightarrow> keeps js rs (answer_done env resp lease st)"
  using srv_balanced_release [of js rs "[lease]" "[]"] by (simp add: answer_done_def)

lemma keeps_held [simp]: "srv_balanced js rs (held_by guard) st \<Longrightarrow> keeps js rs (answer_held resp guard st)"
  by (simp add: answer_held_def)

lemma keeps_print: "srv_balanced js rs (held_by guard) st \<Longrightarrow> keeps js rs (answer_print env host bs request guard st)"
  by (simp add: answer_print_def Let_def split: option.split sum.split)

lemma srv_balanced_mark:
  assumes "srv_balanced js rs (lease # held) st" "mark_print_job now lease (server_tracker st) = (marked, lease', t)"
  shows "srv_balanced js rs (lease' # held) (st\<lparr>server_tracker := t\<rparr>)"
  using assms by (auto simp: mark_print_job_def promote_request_def srv_balanced_def split: if_splits)

lemma keeps_answer_create:
  assumes "srv_balanced js rs [lease] st"
  shows "keeps js rs (answer_create env host request lease st)"
  using assms
  by (auto simp: answer_create_def Let_def split: option.split sum.split prod.split
      dest: srv_balanced_mark keeps_create)

lemma keeps_submit:
  assumes "srv_balanced js rs [lease] st"
  shows "keeps js rs (submit_collected env bs request jid sub lease st)"
  using assms
  by (auto simp: submit_collected_def Let_def split: sum.split prod.split dest: keeps_finished keeps_aborted [OF iffD2 [OF srv_balanced_report]])

lemma keeps_answer_send:
  assumes "srv_balanced js rs [lease] st"
  shows "keeps js rs (answer_send env host bs request lease st)"
  using assms
  by (auto simp: answer_send_def Let_def split: option.split sum.split prod.split
      dest: keeps_append keeps_get [OF keeps_append] intro!: keeps_submit)

lemma keeps_other:
  assumes "srv_balanced js rs [lease] st"
  shows "keeps js rs (answer_job_attributes env host request lease st)"
    and "keeps js rs (answer_jobs env host request lease st)"
    and "keeps js rs (answer_cancel env host request lease st)"
  using assms
  by (auto simp: answer_job_attributes_def answer_jobs_def answer_cancel_def Let_def
      split: option.split sum.split prod.split dest: keeps_get keeps_list keeps_cancel)

lemma keeps_multi_step:
  "srv_balanced js rs [lease] st \<Longrightarrow> keeps js rs (answer_multi_step env host bs lease st)"
  by (simp add: answer_multi_step_def Let_def keeps_answer_create keeps_answer_send keeps_other split: sum.split)

lemma srv_balanced_hold:
  "srv_balanced js rs (lease # held) st
    = srv_balanced (js + of_bool lease) (rs + of_bool (\<not> lease)) held st"
  by (cases lease) (simp_all add: srv_balanced_def)

lemma print_keeps_guard: "answer_print env host bs request guard st = (resp, guard', st', subs) \<Longrightarrow> guard' = guard"
  by (auto simp: answer_print_def answer_held_def Let_def split: option.splits sum.splits if_splits)

lemma keeps_validate:
  assumes "srv_balanced js rs [lease] st"
  shows "keeps js rs (case answer_print env host bs request None st of
    (resp, guard, st, subs) \<Rightarrow> (resp, guard, server_release env [lease] st, subs))"
proof -
  obtain resp guard st' subs where p: "answer_print env host bs request None st = (resp, guard, st', subs)"
    by (metis prod_cases4)
  have "keeps (js + of_bool lease) (rs + of_bool (\<not> lease)) (answer_print env host bs request None st)"
    using assms by (intro keeps_print) (simp add: srv_balanced_hold)
  with p print_keeps_guard [OF p] have "srv_balanced js rs [lease] st'" by (simp add: srv_balanced_hold)
  then show ?thesis
    using srv_balanced_release [of js rs "[lease]" "[]"] p print_keeps_guard [OF p] by simp
qed

lemma keeps_job:
  assumes "srv_balanced js rs [lease] st"
  shows "keeps js rs (answer_job env host bs lease st)"
  using assms
  by (auto simp: answer_job_def Let_def keeps_multi_step keeps_validate split: sum.split prod.split
      dest: srv_balanced_mark intro!: keeps_print)

lemma srv_balanced_acquire:
  assumes "srv_balanced js rs [] st" "try_acquire_request (server_tracker st) = Some (lease, t)"
  shows "srv_balanced js rs [lease] (st\<lparr>server_tracker := t\<rparr>)"
  using assms by (auto simp: try_acquire_request_def srv_balanced_def split: if_splits)

text \<open>A request that is answered at all: its head and body were read, and it holds a lease.\<close>

definition received :: "bytes list \<Rightarrow> Ending \<Rightarrow> ServerHead \<Rightarrow> nat \<Rightarrow> connection \<Rightarrow> bool" where
  "received buffers ending head len conn \<longleftrightarrow>
     server_read_head buffers ending = Inr (head, conn) \<and> body_length head = Inr len"

lemma answer_request_cases:
  assumes "answer_request env buffers ending st = (out, st', subs)"
  obtains (refused) "st' = st" "subs = []"
  | (leased) head len conn lease t guard st2 where "received buffers ending head len conn"
      "try_acquire_request (server_tracker st) = Some (lease, t)"
      "answer_leased env head len conn lease (st\<lparr>server_tracker := t\<rparr>) = (out, guard, st2, subs)"
      "st' = server_release env (held_by guard) st2"
proof -
  consider "\<exists>head len conn lease t. received buffers ending head len conn
      \<and> try_acquire_request (server_tracker st) = Some (lease, t)"
    | "\<nexists>head len conn lease t. received buffers ending head len conn
      \<and> try_acquire_request (server_tracker st) = Some (lease, t)" by blast
  then show thesis
  proof cases
    case 1
    then obtain head len conn lease t where h: "received buffers ending head len conn"
      "try_acquire_request (server_tracker st) = Some (lease, t)" by blast
    obtain out2 guard st2 subs2 where l: "answer_leased env head len conn lease (st\<lparr>server_tracker := t\<rparr>)
        = (out2, guard, st2, subs2)" by (metis prod_cases4)
    with assms h have "out2 = out" "subs2 = subs" "st' = server_release env (held_by guard) st2"
      by (auto simp: answer_request_def received_def split: option.splits)
    with leased [OF h] l show thesis by blast
  next
    case 2
    have "try_acquire_request (server_tracker st) = None" if "received buffers ending head len conn" for head len conn
      using 2 that by (cases conn; cases "try_acquire_request (server_tracker st)") auto
    then have "st' = st \<and> subs = []"
      using assms by (auto simp: answer_request_def received_def split: sum.splits option.splits)
    with refused show thesis by blast
  qed
qed

text \<open>Once it holds a lease, a request is answered by \<open>answer_job\<close> or by nothing.\<close>

lemma answer_leased_cases:
  assumes "answer_leased env head len conn lease st = (out, guard, st', subs)"
  obtains (unread) "guard = Some lease" "st' = st" "subs = []"
  | (answered) host body conn' resp where "server_read_body len conn = Inr (body, conn')"
      "answer_job env host body lease st = (resp, guard, st', subs)"
proof (cases "\<exists>host body conn'. server_read_body len conn = Inr (body, conn')
    \<and> server_header head (lit ''host'') = Some host \<and> trim host \<noteq> []
    \<and> \<not> (server_expects_continue head \<and> \<not> srv_client_listens env)")
  case True
  then obtain host body conn' where h: "server_read_body len conn = Inr (body, conn')"
    "server_header head (lit ''host'') = Some host" "trim host \<noteq> []"
    "\<not> (server_expects_continue head \<and> \<not> srv_client_listens env)" by blast
  obtain resp g s u where a: "answer_job env (trim host) body lease st = (resp, g, s, u)" by (metis prod_cases4)
  with assms h have "g = guard" "s = st'" "u = subs"
    by (auto simp: answer_leased_def Let_def split: prod.splits if_splits)
  with answered [OF h(1)] a show thesis by blast
next
  case False
  with assms have "guard = Some lease \<and> st' = st \<and> subs = []"
    by (auto simp: answer_leased_def Let_def split: prod.splits sum.splits option.splits if_splits)
  with unread show thesis by blast
qed

text \<open>C10: the sharing endpoint loses no lease. For every input of a client and on every path of
  the answer, the tracker's counters afterwards are those of the other tasks and of the unfinished
  jobs of the store, exactly, if they were so before; and the store stays consistent.\<close>

theorem endpoint_conserves_leases:
  assumes "answer_request env buffers ending st = (out, st', subs)" "store_inv (server_jobs st)"
    and "active_jobs (server_tracker st) = js + count (store_leases (server_jobs st)) True"
    and "active_requests (server_tracker st) = rs + count (store_leases (server_jobs st)) False"
  shows "active_jobs (server_tracker st') = js + count (store_leases (server_jobs st')) True
    \<and> active_requests (server_tracker st') = rs + count (store_leases (server_jobs st')) False
    \<and> store_inv (server_jobs st')"
proof -
  have b: "srv_balanced js rs [] st" using assms(2-4) by (simp add: srv_balanced_def)
  from assms(1) show ?thesis
  proof (cases rule: answer_request_cases)
    case refused
    with assms(2-4) show ?thesis by simp
  next
    case (leased head len conn lease t guard st2)
    note b1 = srv_balanced_acquire [OF b leased(2)]
    from leased(3) have "srv_balanced js rs (held_by guard) st2"
    proof (cases rule: answer_leased_cases)
      case unread
      with b1 show ?thesis by simp
    next
      case (answered host body conn' resp)
      from keeps_job [OF b1, of env host body] answered(2) show ?thesis by simp
    qed
    then have "srv_balanced js rs [] st'"
      using srv_balanced_release [of js rs "held_by guard" "[]"] leased(4) by simp
    then show ?thesis by (simp add: srv_balanced_def)
  qed
qed

section \<open>What reaches the queue\<close>

lemma read_raw_suffix: "read_raw r = Inr (v, r') \<Longrightarrow> \<exists>p. r = p @ r'"
  by (cases r rule: read_u16.cases)
     (auto simp: read_raw_def result_simps, metis append_Cons append_take_drop_id)

lemma read_text_suffix: "read_text r = Inr (s, r') \<Longrightarrow> \<exists>p. r = p @ r'"
  by (auto simp: read_text_def result_simps dest!: read_raw_suffix)

lemma parse_loop_rest: "parse_loop rest attrs = Inr (attrs', doc) \<Longrightarrow> \<exists>pre. rest = pre @ doc"
proof (induction "length rest" arbitrary: rest attrs rule: less_induct)
  case less
  show ?case
  proof (cases rest)
    case (Cons value_tag r)
    consider "value_tag = TAG_END_OF_ATTRIBUTES" | "value_tag \<noteq> TAG_END_OF_ATTRIBUTES" "is_delimiter value_tag"
      | "value_tag \<noteq> TAG_END_OF_ATTRIBUTES" "\<not> is_delimiter value_tag" by blast
    then show ?thesis
    proof cases
      case 1
      with less.prems Cons have "rest = [value_tag] @ doc" by simp
      then show ?thesis by blast
    next
      case 2
      with less Cons have "\<exists>pre. r = pre @ doc" by simp
      then show ?thesis using Cons append_Cons by metis
    next
      case 3
      then obtain name r1 v r2 attrs2 where r: "read_text r = Inr (name, r1)" "read_raw r1 = Inr (v, r2)"
        "parse_loop r2 attrs2 = Inr (attrs', doc)"
        using less.prems Cons by (auto simp: result_simps split: if_splits option.splits)
      have "length r2 < length rest"
        using read_text_length [OF r(1)] read_raw_length [OF r(2)] Cons by simp
      from less.hyps [OF this r(3)] have "\<exists>pre. r2 = pre @ doc" .
      moreover have "\<exists>p. r = p @ r1" "\<exists>p. r1 = p @ r2"
        using r read_text_suffix read_raw_suffix by blast+
      ultimately show ?thesis using Cons by (metis append.assoc append_Cons)
    qed
  qed (use less.prems in simp)
qed

lemma document_position:
  assumes "Request_parse bs = Inr request"
  shows "document_start request \<le> length bs" "document request = drop (document_start request) bs"
proof -
  obtain attrs doc where p: "parse_loop (drop 8 bs) [] = Inr (attrs, doc)"
    "document request = doc" "document_start request = length bs - length doc"
    using assms by (auto simp: Request_parse_def result_simps split: if_splits)
  from parse_loop_rest [OF p(1)] obtain pre where "drop 8 bs = pre @ doc" by blast
  then have "bs = take 8 bs @ pre @ doc" by (metis append_take_drop_id)
  then have "bs = (take 8 bs @ pre) @ doc" by simp
  then show "document_start request \<le> length bs" "document request = drop (document_start request) bs"
    unfolding p(2,3) by (metis diff_le_self, metis append_eq_conv_conj length_append add_diff_cancel_right')
qed

lemma selected_shared: "selected_printer env host request = Some p \<Longrightarrow> p \<in> set (srv_shared env)"
  by (auto simp: selected_printer_def find_by_uri_def find_by_name_def bind_eq_Some_conv find_Some_iff
      split: if_splits)

text \<open>The job and the queue a request may submit: its own document, or with its last piece the
  document of an open job of the same queue.\<close>

definition print_submission :: "ServerEnv \<Rightarrow> ustr \<Rightarrow> Request \<Rightarrow> PrinterName \<Rightarrow> PrintJob \<Rightarrow> bool" where
  "print_submission env host request printer job \<longleftrightarrow>
     operation request = OPERATION_PRINT_JOB \<and> selected_printer env host request = Some printer
     \<and> job_document job = document request \<and> job_settings request = Inr (job_print_settings job)"

definition last_piece :: "ServerEnv \<Rightarrow> ustr \<Rightarrow> JobStore \<Rightarrow> Request \<Rightarrow> PrinterName \<Rightarrow> PrintJob \<Rightarrow> bool" where
  "last_piece env host jobs request printer job \<longleftrightarrow>
     operation request = OPERATION_SEND_DOCUMENT \<and> boolean request (lit ''last-document'') = Some True
     \<and> (\<exists>q jid j. selected_printer env host request = Some q \<and> same_printer printer q
          \<and> valid_job_id request = Some jid \<and> map_of (stored_jobs jobs) jid = Some j \<and> stored_state j = 3
          \<and> printer = stored_printer j \<and> job_document job = stored_document j @ document request
          \<and> job_print_settings job = stored_settings j)"

lemma print_submits:
  assumes "answer_print env host bs request guard st = (resp, guard', st', subs)" "x \<in> set subs"
    and "Request_parse bs = Inr request"
  shows "srv_available env \<and> document request \<noteq> []
    \<and> (\<exists>printer job. subs = [(printer, job)] \<and> print_submission env host request printer job)"
proof -
  from assms(1,2) obtain printer settings where "srv_available env" "document request \<noteq> []"
    "operation request = OPERATION_PRINT_JOB" "selected_printer env host request = Some printer"
    "job_settings request = Inr settings"
    "subs = [(printer, from_ipp_body bs (document_start request) settings)]"
    by (auto simp: answer_print_def answer_held_def Let_def split: option.splits sum.splits if_splits)
  moreover from this document_position [OF assms(3)]
  have "print_submission env host request printer (from_ipp_body bs (document_start request) settings)"
    by (simp add: print_submission_def job_document_def from_ipp_body_def)
  ultimately show ?thesis by blast
qed

lemma append_document_submits:
  assumes "store_inv jobs" "append_document now jid p doc final jobs = (Inr (Some sub), jobs', d)"
  shows "final \<and> (\<exists>j. map_of (stored_jobs jobs) jid = Some j \<and> stored_state j = 3
    \<and> same_printer (stored_printer j) p \<and> submission_printer sub = stored_printer j
    \<and> submission_settings sub = stored_settings j \<and> submission_document sub = stored_document j @ doc)"
proof -
  obtain jobs1 old where e: "expire_locked now jobs = (jobs1, old)" by fastforce
  from assms(2) e obtain j where o: "open_job jid p jobs1 = Inr j"
    by (auto simp: append_document_def split: sum.splits)
  then have j: "map_of (stored_jobs jobs1) jid = Some j" "same_printer (stored_printer j) p" "stored_state j = 3"
    by (simp_all add: open_job_Inr)
  have "map_of (stored_jobs jobs) jid = Some j"
    using map_of_SomeD [OF j(1)] e assms(1)
    by (intro map_of_is_SomeI) (auto simp: expire_locked_def store_inv_def bt_wf_def strict_sorted_iff)
  with assms(2) e o j show ?thesis by (auto simp: append_document_def Let_def split: if_splits)
qed

lemma with_jobs_result: "with_jobs env f st = (r, st') \<Longrightarrow> \<exists>jobs d. f (server_jobs st) = (r, jobs, d)"
  by (auto simp: with_jobs_def split: prod.splits)

lemma collected_submits:
  assumes "submit_collected env bs request jid sub lease st = (resp, guard, st', subs)"
    and "Request_parse bs = Inr request"
  shows "\<exists>job. subs = [(submission_printer sub, job)] \<and> job_document job = submission_document sub
    \<and> job_print_settings job = submission_settings sub"
proof -
  let ?body = "take (document_start request) bs @ submission_document sub"
  let ?job = "from_ipp_body ?body (document_start request) (submission_settings sub)"
  have "subs = [(submission_printer sub, ?job)]"
    using assms(1) by (auto simp: submit_collected_def Let_def split: sum.splits prod.splits)
  with document_position(1) [OF assms(2)] show ?thesis
    by (simp add: job_document_def from_ipp_body_def)
qed

lemma send_submits:
  assumes "answer_send env host bs request lease st = (resp, guard, st', subs)" "x \<in> set subs"
    and "Request_parse bs = Inr request" "store_inv (server_jobs st)"
    and "operation request = OPERATION_SEND_DOCUMENT"
  shows "srv_available env \<and> document request \<noteq> []
    \<and> (\<exists>printer job. subs = [(printer, job)] \<and> last_piece env host (server_jobs st) request printer job)"
proof -
  from assms(1,2) obtain p jid final sub st2 where a: "srv_available env" "document request \<noteq> []"
    "selected_printer env host request = Some p" "valid_job_id request = Some jid"
    "boolean request (lit ''last-document'') = Some final"
    "with_jobs env (append_document (srv_now env) jid p (document request) final) st = (Inr (Some sub), st2)"
    "submit_collected env bs request jid sub lease st2 = (resp, guard, st', subs)"
    by (auto simp: answer_send_def answer_done_def answer_held_def Let_def
        split: option.splits sum.splits prod.splits if_splits)
  from with_jobs_result [OF a(6)] append_document_submits [OF assms(4)]
  obtain j where "final" "map_of (stored_jobs (server_jobs st)) jid = Some j" "stored_state j = 3"
    "same_printer (stored_printer j) p" "submission_printer sub = stored_printer j"
    "submission_settings sub = stored_settings j" "submission_document sub = stored_document j @ document request"
    by blast
  with collected_submits [OF a(7) assms(3)] a(1-5) assms(5) show ?thesis
    by (fastforce simp: last_piece_def)
qed

lemma others_submit_nothing:
  "answer_create env host request lease st = (resp, guard, st', subs) \<Longrightarrow> subs = []"
  "answer_job_attributes env host request lease st = (resp, guard, st', subs) \<Longrightarrow> subs = []"
  "answer_jobs env host request lease st = (resp, guard, st', subs) \<Longrightarrow> subs = []"
  "answer_cancel env host request lease st = (resp, guard, st', subs) \<Longrightarrow> subs = []"
  by (auto simp: answer_create_def answer_job_attributes_def answer_jobs_def answer_cancel_def
      answer_done_def answer_held_def Let_def split: option.splits sum.splits prod.splits if_splits)

lemma job_submits:
  assumes "answer_job env host bs lease st = (resp, guard, st', subs)" "x \<in> set subs" "store_inv (server_jobs st)"
  shows "\<exists>request printer job. Request_parse bs = Inr request \<and> version_is_supported request
    \<and> channel_authorizes env request \<and> srv_available env \<and> document request \<noteq> [] \<and> subs = [(printer, job)]
    \<and> (print_submission env host request printer job
        \<or> last_piece env host (server_jobs st) request printer job)"
proof (cases "Request_parse bs")
  case (Inl e)
  with assms show ?thesis by (simp add: answer_job_def answer_done_def)
next
  case (Inr request)
  note simps = answer_job_def answer_done_def Let_def Inr
  have v: "version_is_supported request" using assms(1,2) by (auto simp: simps split: if_splits)
  show ?thesis
  proof (cases "operation request \<in> set multi_step_operations")
    case True
    with assms(1) Inr v have m: "answer_multi_step env host bs lease st = (resp, guard, st', subs)"
      by (simp add: simps)
    have auth: "channel_authorizes env request" using m assms(2) True v
      by (auto simp: answer_multi_step_def simps split: if_splits)
    have "operation request = OPERATION_SEND_DOCUMENT"
      "answer_send env host bs request lease st = (resp, guard, st', subs)"
      using m assms(2) auth v others_submit_nothing
      by (fastforce simp: answer_multi_step_def simps split: if_splits)+
    from send_submits [OF this(2) assms(2) Inr assms(3) this(1)] Inr v auth show ?thesis by blast
  next
    case False
    then have auth: "channel_authorizes env request" using assms(1,2) v by (auto simp: simps split: if_splits)
    from False auth v assms(1,2) obtain guard2 st2 st3 where
      "answer_print env host bs request guard2 st2 = (resp, guard, st3, subs)"
      by (auto simp: simps split: if_splits prod.splits)
    from print_submits [OF this assms(2) Inr] Inr v auth show ?thesis by blast
  qed
qed

text \<open>C2: only authorized documents reach the queue. Whatever a client sends, if the answer to
  it submits a job to the spooler, then exactly one, the request is well-formed and carries the value of the
  network channel, the queue is shared at the moment of the request (or is the one under which the
  job was created), and what is printed is the document of the request, or for the last
  Send-Document of an open job the pieces received before followed by it, with the settings given.\<close>

theorem endpoint_submits_only_authorized:
  assumes "answer_request env buffers ending st = (out, st', subs)" "(printer, job) \<in> set subs"
    and "store_inv (server_jobs st)"
  shows "\<exists>head len conn body conn' host request.
    received buffers ending head len conn \<and> server_read_body len conn = Inr (body, conn')
    \<and> Request_parse body = Inr request \<and> version_is_supported request \<and> channel_authorizes env request
    \<and> srv_available env \<and> document request \<noteq> [] \<and> subs = [(printer, job)]
    \<and> (\<exists>q \<in> set (srv_shared env). selected_printer env host request = Some q)
    \<and> (print_submission env host request printer job
        \<or> last_piece env host (server_jobs st) request printer job)"
  using assms(1)
proof (cases rule: answer_request_cases)
  case refused
  with assms(2) show ?thesis by simp
next
  case (leased head len conn lease t guard st2)
  from leased(3) show ?thesis
  proof (cases rule: answer_leased_cases)
    case unread
    with assms(2) show ?thesis by simp
  next
    case (answered host body conn' resp)
    have "store_inv (server_jobs (st\<lparr>server_tracker := t\<rparr>))" using assms(3) by simp
    from job_submits [OF answered(2) assms(2) this] obtain request where r:
      "Request_parse body = Inr request" "version_is_supported request" "channel_authorizes env request"
      "srv_available env" "document request \<noteq> []" "subs = [(printer, job)]"
      "print_submission env host request printer job \<or> last_piece env host (server_jobs st) request printer job"
      using assms(2) by auto
    then have "\<exists>q \<in> set (srv_shared env). selected_printer env host request = Some q"
      using selected_shared by (auto simp: print_submission_def last_piece_def)
    with r answered(1) leased(1) show ?thesis by blast
  qed
qed

end
