(* ===== verification/Http_Exchange.thy ===== *)
theory Http_Exchange
  imports Server_Http
begin

text \<open>
  The client's and the server's HTTP framing against each other: the server reads exactly the
  request a client posts, however the network cuts it, and the client reads exactly the answer the
  server writes.
\<close>

section \<open>What the name of a server consists of\<close>

text \<open>The visible ASCII characters but the slash.\<close>

definition graphic :: "uchar \<Rightarrow> bool" where
  "graphic c \<longleftrightarrow> 33 \<le> c \<and> c < 127 \<and> c \<noteq> 47"

lemma show_hex_digits: "list_all is_ascii_hexdigit (show_hex n)"
proof (induction n rule: show_hex.induct)
  case (1 n)
  have "is_ascii_hexdigit (if d < 10 then 48 + d else 87 + d)" if "d < 16" for d
    using that by (auto simp: is_ascii_hexdigit_def is_ascii_digit_def)
  note d = this
  show ?case
  proof (cases "n < 16")
    case True
    with d [of n] show ?thesis by (subst show_hex.simps) (simp add: Let_def)
  next
    case False
    with d [of "n mod 16"] 1 show ?thesis by (subst show_hex.simps) (simp add: Let_def split del: if_split)
  qed
qed

lemma length_show_hex: "n < 16 ^ k \<Longrightarrow> 0 < k \<Longrightarrow> length (show_hex n) \<le> k"
proof (induction n arbitrary: k rule: show_hex.induct)
  case (1 n)
  show ?case
  proof (cases "n < 16")
    case True
    with 1 show ?thesis by (subst show_hex.simps) (simp add: Let_def)
  next
    case False
    with 1 obtain j where "k = Suc j" "0 < j" by (cases k; cases "k - 1") auto
    with 1 False show ?thesis by (subst show_hex.simps) (simp add: Let_def)
  qed
qed

lemma length_show_nat: "n < 10 ^ k \<Longrightarrow> 0 < k \<Longrightarrow> length (show_nat n) \<le> k"
proof (induction n arbitrary: k rule: show_nat.induct)
  case (1 n)
  show ?case
  proof (cases "n < 10")
    case True
    with 1 show ?thesis by (subst show_nat.simps) simp
  next
    case False
    with 1 obtain j where "k = Suc j" "0 < j" by (cases k; cases "k - 1") auto
    with 1 False show ?thesis by (subst show_nat.simps) simp
  qed
qed

lemma list_all_join: "list_all (list_all P) ss \<Longrightarrow> list_all P sep \<Longrightarrow> list_all P (join sep ss)"
  by (induction sep ss rule: join.induct) auto

lemma length_join: "list_all (\<lambda>s. length s \<le> k) ss \<Longrightarrow> length (join sep ss) \<le> (k + length sep) * length ss"
  by (induction sep ss rule: join.induct) auto

lemma hexdigit_graphic: "list_all is_ascii_hexdigit s \<Longrightarrow> list_all graphic s"
  by (auto simp: list_all_iff is_ascii_hexdigit_def is_ascii_digit_def graphic_def)

lemma digit_graphic: "list_all is_ascii_digit s \<Longrightarrow> list_all graphic s"
  by (auto simp: list_all_iff is_ascii_digit_def graphic_def)

lemma show_nat_graphic: "list_all graphic (show_nat n)"
  using show_nat_digits [of n] digit_graphic by blast

lemma show_ipv4_graphic: "list_all graphic (show_ipv4 os)"
  unfolding show_ipv4_def
  by (rule list_all_join) (simp_all add: list_all_iff [of _ "map _ _"] show_nat_graphic, simp add: graphic_def)

lemma show_ipv6_graphic: "list_all graphic (show_ipv6 gs)"
proof -
  have "list_all graphic (join [58] (map show_hex xs))" for xs
    by (rule list_all_join)
      (simp_all add: list_all_iff [of _ "map _ _"] show_hex_digits hexdigit_graphic, simp add: graphic_def)
  then show ?thesis
    by (simp add: show_ipv6_def show_ipv4_graphic Let_def split: prod.split) (simp add: graphic_def)
qed

section \<open>How long it is\<close>

lemma read_groups_short: "i \<le> limit \<Longrightarrow> length (fst (read_groups limit i s)) \<le> limit - i"
proof (induction limit i s rule: read_groups.induct)
  case (1 limit i s)
  show ?case
  proof (cases "i < limit")
    case False
    then show ?thesis by (subst read_groups.simps) simp
  next
    case True
    show ?thesis
    proof (cases "if i + 1 < limit then Option.bind (group_sep i s) read_ipv4 else None")
      case (Some v)
      then show ?thesis using True by (subst read_groups.simps) (auto split: if_splits prod.splits)
    next
      case None
      then show ?thesis
      proof (cases "Option.bind (group_sep i s) hex_group")
        case (Some g)
        then obtain a r where g: "Option.bind (group_sep i s) hex_group = Some (a, r)" by (cases g) auto
        have "length (fst (read_groups limit (Suc i) r)) \<le> limit - Suc i"
          using "1.IH" [of "(a, r)" a r] True None g by simp
        then show ?thesis
          using True None g by (subst read_groups.simps) (auto simp: Let_def split: prod.splits)
      qed (use True None in \<open>subst read_groups.simps, simp\<close>)
    qed
  qed
qed

lemma parse_ipv6_shape:
  assumes "parse_ipv6 s = Some gs"
  obtains "gs = fst (read_groups 8 0 s)" "length gs = 8"
  | head q tail where "head = fst (read_groups 8 0 s)" "length head \<noteq> 8"
    "tail = fst (read_groups (8 - (length head + 1)) 0 q)"
    "gs = head @ replicate (8 - length head - length tail) 0 @ tail"
proof -
  obtain head v4 r where h: "read_groups 8 0 s = (head, v4, r)" by (metis prod_cases3)
  show thesis
  proof (cases "length head = 8")
    case True
    with assms h show thesis by (auto simp: parse_ipv6_def split: if_splits intro: that(1))
  next
    case False
    with assms h obtain q where q: "strip_prefix r (lit ''::'') = Some q"
      by (cases "strip_prefix r (lit ''::'')") (auto simp: parse_ipv6_def split: if_splits)
    obtain tail v r' where t: "read_groups (8 - (length head + 1)) 0 q = (tail, v, r')" by (metis prod_cases3)
    have "gs = head @ replicate (8 - length head - length tail) 0 @ tail"
      using assms h q t False by (simp add: parse_ipv6_def Let_def split: if_splits)
    with that(2) [of head tail q] h t False show thesis by simp
  qed
qed

lemma parse_ipv6_length:
  assumes "parse_ipv6 s = Some gs"
  shows "length gs = 8"
  using assms
proof (cases rule: parse_ipv6_shape)
  case (2 head q tail)
  with read_groups_short [of 0 8 s] read_groups_short [of 0 "8 - (length head + 1)" q] show ?thesis by auto
qed simp

lemma hex_value_bound: "list_all is_ascii_hexdigit d \<Longrightarrow> hex_value d < 16 ^ length d"
proof (induction d rule: rev_induct)
  case (snoc c d)
  then have "hex_char_value c < 16"
    by (auto simp: hex_char_value_def is_ascii_hexdigit_def is_ascii_digit_def)
  with snoc show ?case by (simp add: hex_value_def)
qed (simp add: hex_value_def)

lemma hex_group_bound: "hex_group s = Some (g, r) \<Longrightarrow> g < 65536"
proof -
  assume g: "hex_group s = Some (g, r)"
  let ?d = "takeWhile is_ascii_hexdigit s"
  have "list_all is_ascii_hexdigit ?d" by (auto simp: list_all_iff dest: set_takeWhileD)
  from hex_value_bound [OF this] have "hex_value ?d < 16 ^ 4"
    using g power_increasing [of "length ?d" 4 "16 :: nat"]
    by (auto simp: hex_group_def Let_def split: if_splits)
  with g show ?thesis by (auto simp: hex_group_def Let_def split: if_splits)
qed

lemma dec_octet_bound: "dec_octet s = Some (d, r) \<Longrightarrow> d < 256"
  by (auto simp: dec_octet_def Let_def split: if_splits)

lemma read_ipv4_bound: "read_ipv4 s = Some (os, r) \<Longrightarrow> length os = 4 \<and> (\<forall>d \<in> set os. d < 256)"
  by (auto simp: read_ipv4_def bind_eq_Some_conv dest!: dec_octet_bound)

lemma octet_pair: "length os = 4 \<Longrightarrow> \<forall>d \<in> set os. d < 256 \<Longrightarrow>
    os ! 0 * 256 + os ! 1 < (65536 :: nat) \<and> os ! 2 * 256 + os ! 3 < 65536"
proof -
  assume os: "length os = 4" "\<forall>d \<in> set os. d < 256"
  have "os ! i < 256" if "i < 4" for i using os that by simp
  from this [of 0] this [of 1] this [of 2] this [of 3] show ?thesis by simp
qed

lemma read_groups_bound: "\<forall>g \<in> set (fst (read_groups limit i s)). g < 65536"
proof (induction limit i s rule: read_groups.induct)
  case (1 limit i s)
  show ?case
  proof (cases "i < limit")
    case False
    then show ?thesis by (subst read_groups.simps) simp
  next
    case True
    show ?thesis
    proof (cases "if i + 1 < limit then Option.bind (group_sep i s) read_ipv4 else None")
      case (Some v)
      then obtain os r q where "v = (os, r)" "read_ipv4 q = Some (os, r)"
        by (cases v) (auto simp: bind_eq_Some_conv split: if_splits)
      with Some True read_ipv4_bound octet_pair [of os] show ?thesis
        by (subst read_groups.simps) auto
    next
      case None
      show ?thesis
      proof (cases "Option.bind (group_sep i s) hex_group")
        case (Some g)
        then obtain a r where g: "Option.bind (group_sep i s) hex_group = Some (a, r)" by (cases g) auto
        then have "a < 65536" by (auto simp: bind_eq_Some_conv dest: hex_group_bound)
        moreover have "\<forall>g \<in> set (fst (read_groups limit (Suc i) r)). g < 65536"
          using "1.IH" [of "(a, r)" a r] True None g by simp
        ultimately show ?thesis
          using True None g by (subst read_groups.simps) (auto simp: Let_def split: prod.splits)
      qed (use True None in \<open>subst read_groups.simps, simp\<close>)
    qed
  qed
qed

lemma parse_ipv6_bound:
  assumes "parse_ipv6 s = Some gs"
  shows "\<forall>g \<in> set gs. g < 65536"
  using assms
proof (cases rule: parse_ipv6_shape)
  case (2 head q tail)
  with read_groups_bound [of 8 0 s] read_groups_bound [of "8 - (length head + 1)" 0 q] show ?thesis by auto
qed (use read_groups_bound [of 8 0 s] in simp)

lemma length_show_ipv6: 
  assumes "parse_ipv6 s = Some gs"
  shows "length (show_ipv6 gs) \<le> 100"
proof -
  note gs = parse_ipv6_length [OF assms] parse_ipv6_bound [OF assms]
  have hex: "length (join [58] (map show_hex xs)) \<le> 5 * length xs" if "set xs \<subseteq> set gs" for xs
    using length_join [of 4 "map show_hex xs" "[58]"] that gs(2)
    by (simp add: list_all_iff length_show_hex subset_iff)
  have octet: "length (show_nat d) \<le> 3" if "d < 256" for d using that length_show_nat [of d 3] by simp
  have "gs ! i < 65536" if "i < 8" for i using gs that by simp
  from this [of 6] this [of 7] have "length (show_ipv4 [gs ! 6 div 256, gs ! 6 mod 256, gs ! 7 div 256, gs ! 7 mod 256]) \<le> 16"
    using length_join [of 3 "map show_nat [gs ! 6 div 256, gs ! 6 mod 256, gs ! 7 div 256, gs ! 7 mod 256]" "[46]"]
    by (simp add: show_ipv4_def octet less_mult_imp_div_less)
  moreover have "length (join [58] (map show_hex (take m gs))) \<le> 40"
    and "length (join [58] (map show_hex (drop m gs))) \<le> 40" for m
    using hex [of "take m gs"] hex [of "drop m gs"] gs(1) by (auto simp: set_take_subset set_drop_subset)
  from add_mono [OF this] have "length (join [58] (map show_hex (take m gs)))
      + length (join [58] (map show_hex (drop k gs))) \<le> 98" for m k
    by (rule order_trans) simp
  moreover have "length (join [58] (map show_hex gs)) \<le> 40" using hex [of gs] gs(1) by simp
  ultimately show ?thesis
    by (auto simp: show_ipv6_def Let_def split: prod.split)
qed

lemma length_show_ipv4: "parse_ipv4 s = Some os \<Longrightarrow> length (show_ipv4 os) \<le> 100"
proof -
  assume "parse_ipv4 s = Some os"
  then obtain r where "read_ipv4 s = Some (os, r)" by (auto simp: parse_ipv4_def bind_eq_Some_conv split: if_splits)
  from read_ipv4_bound [OF this] have os: "length os = 4" "\<forall>d \<in> set os. d < 10 ^ 3" by auto
  then have "list_all (\<lambda>t. length t \<le> 3) (map show_nat os)"
    using length_show_nat [of _ 3] by (simp add: list_all_iff)
  from length_join [OF this, of "[46]"] os(1) show ?thesis by (simp add: show_ipv4_def)
qed

lemma host_name_chars:
  assumes "host_name_ok host" "wf_ustr host"
  shows "list_all graphic host \<and> length host \<le> 253"
proof -
  have ok: "list_all (\<lambda>b. 48 \<le> b \<and> b \<le> 57 \<or> 97 \<le> b \<and> b \<le> 122 \<or> 65 \<le> b \<and> b \<le> 90 \<or> b = 46 \<or> b = 45)
      (as_bytes host)" "str_len host \<le> 253"
    using assms(1) by (auto simp: host_name_ok_def)
  from ok(1) have "list_all (\<lambda>b. b < 0x80) (as_bytes host)"
    by (auto simp: list_all_iff word_le_nat_alt word_less_nat_alt)
  from from_utf8_ascii [OF this] from_utf8_as_bytes [OF assms(2)]
  have "host = map unat (as_bytes host)" by simp
  moreover have "list_all graphic (map unat (as_bytes host))"
    using ok(1) by (auto simp: list_all_iff graphic_def word_le_nat_alt)
  ultimately show ?thesis using ok(2) by (metis length_map)
qed

lemma lower_graphic: "list_all graphic s \<Longrightarrow> list_all graphic (to_ascii_lowercase s)"
  by (auto simp: list_all_iff graphic_def ascii_lower_def)

lemma address_host_graphic:
  assumes "address_host_port v = Inr (host, port)" "wf_ustr v"
  shows "list_all graphic host \<and> length host \<le> 253"
proof (cases "starts_with v [91]")
  case True
  with assms(1) obtain q ip where "parse_ipv6 q = Some ip" "host = show_ipv6 ip"
    by (auto simp: address_host_port_def result_simps)
  with length_show_ipv6 [of q ip] show_ipv6_graphic show ?thesis by auto
next
  case False
  show ?thesis
  proof (cases "ip_to_string v")
    case (Some ip)
    with False assms(1) have "host = ip" by (simp add: address_host_port_def)
    with Some show ?thesis
      by (auto simp: ip_to_string_def show_ipv4_graphic show_ipv6_graphic split: option.splits
          dest!: length_show_ipv4 length_show_ipv6)
  next
    case None
    then have h: "host = to_ascii_lowercase (hd (split_char 58 v))" "host_name_ok (hd (split_char 58 v))"
      using False assms(1) by (auto simp: address_host_port_def Let_def result_simps split: if_splits)
    have "set (hd (split_char 58 v)) \<subseteq> set v"
      using join_split_char [of 58 v] by (cases "split_char 58 v"; cases "tl (split_char 58 v)") auto
    then have "wf_ustr (hd (split_char 58 v))" using assms(2) by (auto simp: list_all_iff)
    from host_name_chars [OF h(2) this] h(1) lower_graphic show ?thesis by simp
  qed
qed

lemma parse_port_bound: "parse_port s = Inr port \<Longrightarrow> port \<le> 65535"
  by (auto simp: parse_port_def parse_unsigned_def Let_def result_simps split: if_splits)

lemma address_port_bound: "address_host_port v = Inr (host, port) \<Longrightarrow> port \<le> 65535"
  by (auto simp: address_host_port_def Let_def result_simps DEFAULT_PORT_def
      split: if_splits option.splits dest: parse_port_bound)

lemma server_socket_chars:
  assumes "ServerAddress_parse input = Inr a" "wf_ustr input"
  shows "list_all graphic (ServerAddress_socket a)" "ServerAddress_socket a \<noteq> []"
    "length (ServerAddress_socket a) \<le> 262"
proof -
  have "wf_ustr (trim input)" using assms(2) set_trim_by [of is_whitespace input] by (auto simp: list_all_iff)
  with assms(1) obtain host port where h: "address_host_port (trim input) = Inr (host, port)"
    "addr_host a = to_ascii_lowercase host" "addr_port a = port" "wf_ustr (trim input)"
    by (auto simp: ServerAddress_parse_def Let_def result_simps split: if_splits)
  from address_host_graphic [OF h(1,4)] have "list_all graphic (addr_host a)" "length (addr_host a) \<le> 253"
    using h(2) lower_graphic by auto
  moreover note address_port_bound [OF h(1)]
  ultimately show "list_all graphic (ServerAddress_socket a)" "ServerAddress_socket a \<noteq> []"
    "length (ServerAddress_socket a) \<le> 262"
    using show_nat_graphic length_show_nat [of port 5] h(3)
    by (auto simp: ServerAddress_socket_def graphic_def)
qed

section \<open>Lines of a head\<close>

lemma graphic_not_space: "graphic c \<Longrightarrow> \<not> is_whitespace c \<and> c \<noteq> 10 \<and> c \<noteq> 13 \<and> c < 128"
  by (auto simp: graphic_def is_whitespace_def)

lemma trim_header_value: "list_all graphic s \<Longrightarrow> s \<noteq> [] \<Longrightarrow> trim (32 # s) = s"
  using trim_by_id [of s is_whitespace] graphic_not_space
  by (simp add: trim_by_def list_all_iff is_whitespace_def)

lemma http_lines_crlf: "10 \<notin> set l \<Longrightarrow> http_lines (l @ 13 # 10 # s) = l # http_lines s"
  using split_char_append [of 10 "l @ [13]" s] strip_suffix_Some_iff [of "l @ [13]" "[13]" l]
  by (simp add: http_lines_def)

lemma head_length_crlf:
  assumes "10 \<notin> set l" "l \<noteq> []"
  shows "head_length [] (l @ 13 # 10 # bs) = map_option ((+) (length l + 2)) (head_length [] bs)"
  using head_length_line [of "l @ [13]" "[]" "10 # bs"] assms by (simp add: without_line_ending_def)

lemma head_length_end: "head_length [] (13 # 10 # bs) = Some 2"
  by (simp add: without_line_ending_def)

definition crlf_lines :: "ustr list \<Rightarrow> ustr" where
  "crlf_lines ls = concat (map (\<lambda>l. l @ [13, 10]) ls) @ [13, 10]"

definition line_ok :: "ustr \<Rightarrow> bool" where
  "line_ok l \<longleftrightarrow> l \<noteq> [] \<and> list_all (\<lambda>c. c < 128 \<and> c \<noteq> 10 \<and> c \<noteq> 13) l"

lemma as_bytes_ascii: "list_all (\<lambda>c. c < 128) s \<Longrightarrow> as_bytes s = map of_nat s"
  by (induction s) simp_all

lemma line_ok_bytes: "line_ok l \<Longrightarrow> 10 \<notin> set (as_bytes l) \<and> 13 \<notin> set (as_bytes l) \<and> as_bytes l \<noteq> []"
proof -
  assume l: "line_ok l"
  then have "as_bytes l = map of_nat l" using as_bytes_ascii by (auto simp: line_ok_def list_all_iff)
  moreover have "of_nat c \<noteq> (10 :: u8) \<and> of_nat c \<noteq> (13 :: u8)" if "c \<in> set l" for c
  proof -
    have "c < 128" "c \<noteq> 10" "c \<noteq> 13" using l that by (auto simp: line_ok_def list_all_iff)
    moreover have "unat (of_nat c :: u8) = c" using \<open>c < 128\<close> by (simp add: unat_of_nat)
    ultimately show ?thesis by auto
  qed
  ultimately show ?thesis using l by (auto simp: line_ok_def)
qed

lemma crlf_lines_length:
  "list_all line_ok ls \<Longrightarrow>
    head_length [] (as_bytes (crlf_lines ls) @ bs) = Some (length (as_bytes (crlf_lines ls)))"
proof (induction ls)
  case (Cons l ls)
  from Cons line_ok_bytes [of l] head_length_crlf [of "as_bytes l"] show ?case
    by (simp add: crlf_lines_def)
qed (simp add: crlf_lines_def without_line_ending_def)

lemma crlf_lines_split: "list_all line_ok ls \<Longrightarrow> http_lines (crlf_lines ls) = ls @ [[], []]"
proof (induction ls)
  case (Cons l ls)
  then show ?case
    using http_lines_crlf [of l "crlf_lines ls"]
    by (auto simp: crlf_lines_def line_ok_def list_all_iff)
next
  case Nil
  have "http_lines (13 # 10 # []) = [] # http_lines []" using http_lines_crlf [of "[]" "[]"] by simp
  then show ?case by (simp add: crlf_lines_def http_lines_def strip_suffix_def strip_prefix_def starts_with_def)
qed

lemma crlf_lines_parse:
  assumes "list_all line_ok ls"
  shows "from_utf8_lossy (as_bytes (crlf_lines ls)) = crlf_lines ls"
proof -
  have "list_all (\<lambda>c. c < 128) (crlf_lines ls)"
    using assms by (auto simp: crlf_lines_def line_ok_def list_all_iff)
  then show ?thesis using from_utf8_lossy_as_bytes wf_ustr_ascii by blast
qed

section \<open>The request\<close>

definition post_lines :: "ServerAddress \<Rightarrow> nat \<Rightarrow> ustr list" where
  "post_lines a len =
     [lit ''POST /ipp/print HTTP/1.1'', lit ''Host: '' @ ServerAddress_socket a,
      lit ''Content-Type: application/ipp'', lit ''Content-Length: '' @ show_nat len,
      lit ''Connection: close'']"

lemma http_post_lines: "http_post a len = as_bytes (crlf_lines (post_lines a len))"
  by (simp add: http_post_def crlf_lines_def post_lines_def)

lemma graphic_line: "list_all graphic s \<Longrightarrow> list_all (\<lambda>c. c < 128 \<and> c \<noteq> 10 \<and> c \<noteq> 13) s"
  using graphic_not_space by (auto simp: list_all_iff)

lemma post_lines_ok:
  "list_all graphic (ServerAddress_socket a) \<Longrightarrow> list_all line_ok (post_lines a len)"
  using graphic_line [of "ServerAddress_socket a"] graphic_line [OF show_nat_graphic]
  by (simp add: post_lines_def line_ok_def)

definition post_head :: "ServerAddress \<Rightarrow> nat \<Rightarrow> ServerHead" where
  "post_head a len =
     \<lparr>server_method = lit ''POST'', server_path = lit ''/ipp/print'',
      server_headers = [(lit ''Host'', ServerAddress_socket a), (lit ''Content-Type'', lit ''application/ipp''),
        (lit ''Content-Length'', show_nat len), (lit ''Connection'', lit ''close'')]\<rparr>"

lemma post_head_parsed:
  assumes "list_all graphic (ServerAddress_socket a)" "ServerAddress_socket a \<noteq> []"
  shows "parse_head (http_post a len) = Inr (post_head a len)"
proof -
  note ok = post_lines_ok [OF assms(1), of len]
  have n: "trim (32 # show_nat len) = show_nat len"
    using trim_header_value [OF show_nat_graphic] show_nat_digits [of len] by simp
  have "split_whitespace (hd (post_lines a len)) = [lit ''POST'', lit ''/ipp/print'', lit ''HTTP/1.1'']"
    by (simp add: post_lines_def split_whitespace_def is_whitespace_def)
  moreover have "header_lines (tl (post_lines a len) @ [[], []]) = Inr (server_headers (post_head a len))"
    using trim_header_value [OF assms] n
    by (simp add: post_lines_def post_head_def starts_with_def is_whitespace_def trim_by_def trim_end_by_def)
  ultimately show ?thesis
    unfolding http_post_lines parse_head_def crlf_lines_parse [OF ok] crlf_lines_split [OF ok]
    by (simp add: post_lines_def post_head_def starts_with_def)
qed

lemma post_length:
  assumes "length (ServerAddress_socket a) \<le> 262" "list_all graphic (ServerAddress_socket a)" "len \<le> MAX_BODY_BYTES"
  shows "length (http_post a len) \<le> MAX_HEAD_BYTES"
proof -
  have "length (show_nat len) \<le> 10"
    using length_show_nat [of len 10] assms(3) by (simp add: MAX_BODY_BYTES_def)
  moreover have "list_all (\<lambda>c. c < 128) (ServerAddress_socket a)" "list_all (\<lambda>c. c < 128) (show_nat len)"
    using graphic_not_space assms(2) show_nat_graphic [of len] by (auto simp: list_all_iff)
  ultimately show ?thesis
    using assms(1) by (simp add: http_post_lines crlf_lines_def post_lines_def str_len_ascii MAX_HEAD_BYTES_def)
qed

lemma post_head_checked:
  assumes "len \<le> MAX_BODY_BYTES"
  shows "body_length (post_head a len) = Inr len"
    "server_header (post_head a len) (lit ''host'') = Some (ServerAddress_socket a)"
    "\<not> server_expects_continue (post_head a len)"
proof -
  have "trim (show_nat len) = show_nat len"
    using trim_by_id [of "show_nat len" is_whitespace] show_nat_graphic [of len] graphic_not_space
    by (metis list.set_sel(1) last_in_set list_all_iff)
  moreover have "len \<le> USIZE_MAX" using assms by (simp add: MAX_BODY_BYTES_def USIZE_MAX_def)
  ultimately show "body_length (post_head a len) = Inr len"
    using assms parse_show_nat [of len USIZE_MAX]
    by (simp add: body_length_def post_head_def server_header_def eq_ignore_ascii_case_def ascii_lower_def
        IPP_CONTENT_TYPE_def starts_with_def trim_by_def trim_end_by_def is_whitespace_def)
  show "server_header (post_head a len) (lit ''host'') = Some (ServerAddress_socket a)"
    "\<not> server_expects_continue (post_head a len)"
    by (simp_all add: post_head_def server_header_def server_expects_continue_def
        eq_ignore_ascii_case_def ascii_lower_def)
qed

lemma posted_request_read:
  assumes "ServerAddress_parse input = Inr a" "wf_ustr input" "length request \<le> MAX_BODY_BYTES"
  shows "read_head_of (http_post a (length request) @ request) ending
    = Inr (post_head a (length request), (request, ending))"
proof -
  note chars = server_socket_chars [OF assms(1,2)]
  let ?head = "http_post a (length request)"
  have "head_length [] (?head @ request) = Some (length ?head)"
    using crlf_lines_length [OF post_lines_ok [OF chars(1)]] by (simp add: http_post_lines)
  from head_length_take [OF this post_length [OF chars(3,1) assms(3)]]
  show ?thesis using post_head_parsed [OF chars(1,2)] by (simp add: read_head_of_def)
qed

section \<open>The answer\<close>

lemma head_end_other: "a \<noteq> 13 \<Longrightarrow> head_end (a # rest) = map_option Suc (head_end rest)"
  by (cases rest rule: head_end.cases) auto

lemma head_end_line:
  "13 \<notin> set l \<Longrightarrow> c \<noteq> 13 \<Longrightarrow>
    head_end (l @ 13 # 10 # c # bs) = map_option ((+) (length l + 2)) (head_end (c # bs))"
proof (induction l)
  case Nil
  have "head_end (13 # 10 # c # bs) = map_option Suc (head_end (10 # c # bs))"
    using Nil by (cases bs) auto
  then show ?case by (cases "head_end (c # bs)") (simp_all add: head_end_other)
qed (simp add: head_end_other)

lemma head_end_last: "13 \<notin> set l \<Longrightarrow> head_end (l @ 13 # 10 # 13 # 10 # bs) = Some (length l + 4)"
  by (induction l) (simp_all add: head_end_other)

lemma crlf_lines_end:
  assumes "list_all line_ok ls" "ls \<noteq> []"
  shows "head_end (as_bytes (crlf_lines ls) @ bs) = Some (length (as_bytes (crlf_lines ls)))"
  using assms
proof (induction ls)
  case (Cons l ls)
  then have l: "13 \<notin> set (as_bytes l)" using line_ok_bytes by simp
  show ?case
  proof (cases ls)
    case Nil
    then show ?thesis using head_end_last [OF l] by (simp add: crlf_lines_def)
  next
    case (Cons l' ls')
    then have "as_bytes l' \<noteq> []" "13 \<notin> set (as_bytes l')"
      using \<open>list_all line_ok (l # ls)\<close> line_ok_bytes [of l'] by auto
    then obtain c rest where c: "as_bytes (crlf_lines ls) @ bs = c # rest" "c \<noteq> 13"
      using Cons by (cases "as_bytes l'") (auto simp: crlf_lines_def)
    have "head_end (as_bytes (crlf_lines (l # ls)) @ bs)
        = head_end (as_bytes l @ 13 # 10 # as_bytes (crlf_lines ls) @ bs)"
      by (simp add: crlf_lines_def)
    also have "\<dots> = map_option ((+) (length (as_bytes l) + 2)) (head_end (as_bytes (crlf_lines ls) @ bs))"
      unfolding c(1) by (rule head_end_line [OF l c(2)])
    finally show ?thesis using Cons.IH Cons.prems Cons by (simp add: crlf_lines_def)
  qed
qed simp

definition answer_lines :: "nat \<Rightarrow> ustr list" where
  "answer_lines len =
     [lit ''HTTP/1.1 200 OK'', lit ''Content-Type: application/ipp'', lit ''Content-Length: '' @ show_nat len,
      lit ''Connection: close'']"

lemma write_response_lines:
  "write_response (lit ''200 OK'') IPP_CONTENT_TYPE body
    = as_bytes (crlf_lines (answer_lines (length body))) @ body"
  by (simp add: write_response_def crlf_lines_def answer_lines_def IPP_CONTENT_TYPE_def)

lemma answer_lines_ok: "list_all line_ok (answer_lines len)"
  using graphic_line [OF show_nat_graphic] by (simp add: answer_lines_def line_ok_def)

text \<open>How \<open>forward_ipp\<close> reads a reply.\<close>

lemma answer_read:
  assumes "length answer \<le> MAX_RESPONSE"
  defines "r \<equiv> take (MAX_RESPONSE + 8192) (write_response (lit ''200 OK'') IPP_CONTENT_TYPE answer)"
  shows "\<exists>n. head_end r = Some n \<and> bytes_start_with (take n r) (ascii ''HTTP/1.1 200'')
    \<and> drop n r = answer"
proof -
  let ?head = "as_bytes (crlf_lines (answer_lines (length answer)))"
  have "length (show_nat (length answer)) \<le> 10"
    using length_show_nat [of "length answer" 10] assms(1) by (simp add: MAX_RESPONSE_def)
  moreover have "list_all (\<lambda>c. c < 128) (show_nat (length answer))"
    using graphic_not_space show_nat_graphic by (auto simp: list_all_iff)
  ultimately have "length ?head \<le> 8192"
    by (simp add: crlf_lines_def answer_lines_def str_len_ascii)
  then have r: "r = ?head @ answer"
    using assms(1) unfolding r_def write_response_lines by simp
  have "head_end r = Some (length ?head)"
    unfolding r by (rule crlf_lines_end [OF answer_lines_ok]) (simp add: answer_lines_def)
  moreover have "bytes_start_with ?head (ascii ''HTTP/1.1 200'')"
    by (simp add: bytes_start_with_def crlf_lines_def answer_lines_def)
  ultimately show ?thesis by (auto simp: r)
qed

text \<open>C30: what the client posts is what the server reads. For every address the user can
  approve and every document of at most 64 MiB, the server that gets the bytes the client writes, in
  whatever pieces they arrive, accepts the head, sees the client's address as the host, reads exactly
  the document and leaves nothing; a stream that is not a complete head is refused for its size or
  reported as cut off, in the same way for every division into buffers.\<close>

theorem posted_request_received:
  assumes "[] \<notin> set buffers"
  shows "server_read_head buffers ending = read_head_of (concat buffers) ending
    \<and> (\<forall>input a request. ServerAddress_parse input = Inr a \<and> wf_ustr input
        \<and> length request \<le> MAX_BODY_BYTES
        \<and> concat buffers = http_post a (length request) @ request \<longrightarrow>
          (\<exists>h. server_read_head buffers ending = Inr (h, (request, ending))
            \<and> body_length h = Inr (length request)
            \<and> server_header h (lit ''host'') = Some (ServerAddress_socket a)
            \<and> server_read_body (length request) (request, ending) = Inr (request, ([], ending))))"
  using server_head_any_buffers [OF assms] posted_request_read post_head_checked
  by (auto simp: server_read_body_def read_exact_def)

end
