(* ===== verification/Print_Path.thy ===== *)
theory Print_Path
  imports Endpoint_Policy Proxy_Policy Http_Exchange Ipp_Forwarding
begin

text \<open>
  A print job from the spooler of the client to the queue of the server: the request as the proxy
  rewrites it, posted over TLS, read by the endpoint, answered, and the answer read by the proxy.
\<close>

section \<open>Attributes a rewritten request keeps\<close>

definition rewritten_name :: "ustr \<Rightarrow> bool" where
  "rewritten_name nm \<longleftrightarrow> nm = lit ''printer-uri'' \<or> nm = lit ''network-channel''"

text \<open>Names are without trailing NULs, and a printer URI has the tag of a URI.\<close>

fun plain_item :: "ipp_item \<Rightarrow> bool" where
  "plain_item (Delim t) = True"
| "plain_item (Field t n v) =
     ((trimmed_name n = Some [] \<longrightarrow> n = [])
      \<and> (trimmed_name n = Some (lit ''printer-uri'') \<longrightarrow> n = PU \<and> t = 0x45)
      \<and> (trimmed_name n = Some (lit ''network-channel'') \<longrightarrow> n = NC))"

definition kept :: "Attribute list \<Rightarrow> Attribute list" where
  "kept attrs = filter (\<lambda>a. \<not> rewritten_name (attr_name a)) attrs"

definition alike :: "Attribute list \<Rightarrow> Attribute list \<Rightarrow> bool" where
  "alike acc acc' \<longleftrightarrow> kept acc = kept acc' \<and> (acc = [] \<longleftrightarrow> acc' = [])
     \<and> (acc \<noteq> [] \<longrightarrow> attr_name (last acc) = attr_name (last acc'))"

lemma alike_add: "alike acc acc' \<Longrightarrow> alike (acc @ [a]) (acc' @ [a])"
  by (simp add: alike_def kept_def)

lemma alike_rewritten:
  "alike acc acc' \<Longrightarrow> rewritten_name nm \<Longrightarrow> attr_name a = nm \<Longrightarrow> attr_name b = nm \<Longrightarrow> alike (acc @ [a]) (acc' @ [b])"
  by (simp add: alike_def kept_def)

lemma alike_push:
  assumes "alike acc acc'" "push_value acc v t = Some acc1"
  shows "\<exists>acc1'. push_value acc' v t = Some acc1' \<and> alike acc1 acc1' \<and> acc \<noteq> [] \<and> acc1 \<noteq> []
    \<and> attr_name (last acc1) = attr_name (last acc)"
proof -
  from assms obtain xs a ys b where x: "acc = xs @ [a]" "acc' = ys @ [b]" "attr_name a = attr_name b"
    by (cases acc rule: rev_cases; cases acc' rule: rev_cases) (auto simp: alike_def push_value_def)
  from assms(2) x have acc1: "acc1 = xs @ [a\<lparr>attr_values := attr_values a @ [v],
      attr_value_tags := attr_value_tags a @ [t]\<rparr>]" by (simp add: push_value_def)
  have k: "kept (xs @ [a]) = kept (ys @ [b])" using assms(1) x by (simp add: alike_def)
  then have "kept xs = kept ys \<and> (\<not> rewritten_name (attr_name a) \<longrightarrow> a = b)"
    using x(3) by (auto simp: kept_def split: if_splits)
  then show ?thesis using x acc1 by (auto simp: push_value_def alike_def kept_def)
qed

lemma alike_push_rewritten:
  assumes "alike acc acc'" "push_value acc v t = Some acc1" "rewritten_name (attr_name (last acc))"
  shows "alike acc1 acc' \<and> acc1 \<noteq> [] \<and> attr_name (last acc1) = attr_name (last acc)"
proof -
  from assms obtain xs a where x: "acc = xs @ [a]" by (cases acc rule: rev_cases) (auto simp: push_value_def)
  with assms show ?thesis by (auto simp: push_value_def alike_def kept_def)
qed

lemma parse_field_named:
  "trimmed_name n = Some s \<Longrightarrow> s \<noteq> [] \<Longrightarrow> parse_items (Field t n v # its) acc = parse_items its (acc @ [single t s v])"
  by (auto simp: trimmed_name_def)

lemma items_kept:
  assumes "proxy_items uri (Some c) cur rp rc its = Some its'" "parse_items its acc = Some attrs"
    and "list_all plain_item its" "alike acc acc'"
    and "cur = PU \<or> cur = NC \<longrightarrow> acc \<noteq> [] \<and> rewritten_name (attr_name (last acc))"
  shows "\<exists>attrs'. parse_items its' acc' = Some attrs' \<and> kept attrs = kept attrs'"
  using assms
proof (induction its arbitrary: cur rp rc its' acc acc')
  case Nil
  let ?added = "(if rp then [] else [Field 0x45 PU (as_bytes uri)]) @ (if rc then [] else channel_items (Some c))"
  have "parse_items ?added acc' = Some (acc' @ (if rp then [] else [single 0x45 (lit ''printer-uri'') (as_bytes uri)])
      @ (if rc then [] else [single 0x41 (lit ''network-channel'') (as_bytes c)]))"
    using parse_field_named [OF trimmed_special(1)] parse_field_named [OF trimmed_special(2)]
    by (simp add: channel_items_def del: parse_items.simps(3))
  with Nil show ?case by (auto simp: alike_def kept_def rewritten_name_def single_def)
next
  case (Cons i its)
  show ?case
  proof (cases i)
    case (Delim t)
    with Cons.prems obtain r where "proxy_items uri (Some c) [] rp rc its = Some r" "its' = Delim t # r"
      "parse_items its acc = Some attrs" by auto
    with Cons.IH [of "[]" rp rc r acc acc'] Cons.prems(3,4) show ?thesis by simp
  next
    case (Field t n v)
    have names: "names_ok (i # its)" using parse_items_names [OF Cons.prems(2)] .
    then obtain s where s: "trimmed_name n = Some s" using Field by auto
    have plain: "s = [] \<longrightarrow> n = []" "s = lit ''printer-uri'' \<longrightarrow> n = PU" "s = lit ''network-channel'' \<longrightarrow> n = NC"
      using Cons.prems(3) Field s by auto
    show ?thesis
    proof (cases "n = []")
      case True
      then have sn: "from_utf8 n = Some []" using trimmed_special(3) by (simp add: from_utf8_ascii)
      with Cons.prems(2) Field obtain acc1 where a: "push_value acc v t = Some acc1" "parse_items its acc1 = Some attrs"
        by (auto simp: bind_eq_Some_conv)
      show ?thesis
      proof (cases "cur = PU \<or> cur = NC")
        case special: True
        then have "proxy_items uri (Some c) cur rp rc its = Some its'" using Cons.prems(1) Field True by auto
        moreover note p = alike_push_rewritten [OF Cons.prems(4) a(1)]
        ultimately show ?thesis
          using Cons.IH [OF _ a(2)] Cons.prems(3,5) special by auto
      next
        case False
        with Cons.prems(1) Field True obtain r where r: "proxy_items uri (Some c) cur rp rc its = Some r"
          "its' = Field t n v # r" by auto
        from alike_push [OF Cons.prems(4) a(1)] obtain acc1' where p: "push_value acc' v t = Some acc1'"
          "alike acc1 acc1'" by blast
        from Cons.IH [OF r(1) a(2) _ p(2)] Cons.prems(3) False obtain attrs' where
          "parse_items r acc1' = Some attrs'" "kept attrs = kept attrs'" by auto
        with r(2) sn p(1) show ?thesis by simp
      qed
    next
      case False
      have sne: "s \<noteq> []" using plain(1) False by blast
      with Cons.prems(2) Field have a: "parse_items its (acc @ [single t s v]) = Some attrs"
        using parse_field_named [OF s] by simp
      have nm: "attr_name (single t' s' v') = s'" for t' s' v' by (simp add: single_def)
      consider (pu) "n = PU" | (nc) "n = NC" | (other) "n \<noteq> PU" "n \<noteq> NC" by blast
      then show ?thesis
      proof cases
        case pu
        then have su: "s = lit ''printer-uri''" using s trimmed_special(1) by simp
        from Cons.prems(1) Field pu obtain r where r: "proxy_items uri (Some c) PU True rc its = Some r"
          "its' = Field t PU (as_bytes uri) # r" by (auto split: if_splits)
        have "alike (acc @ [single t s v]) (acc' @ [single t s (as_bytes uri)])"
          using Cons.prems(4) by (rule alike_rewritten [of _ _ s]) (simp_all add: nm su rewritten_name_def)
        from Cons.IH [OF r(1) a _ this] Cons.prems(3) su nm show ?thesis
          using parse_field_named [OF s [unfolded pu] sne] r(2) by (auto simp: rewritten_name_def)
      next
        case nc
        then have su: "s = lit ''network-channel''" using s trimmed_special(2) by simp
        from Cons.prems(1) Field nc obtain r where r: "proxy_items uri (Some c) NC rp True its = Some r"
          "its' = Field 0x41 NC (as_bytes c) # r" by (auto simp: channel_items_def split: if_splits)
        have "alike (acc @ [single t s v]) (acc' @ [single 0x41 s (as_bytes c)])"
          using Cons.prems(4) by (rule alike_rewritten [of _ _ s]) (simp_all add: nm su rewritten_name_def)
        from Cons.IH [OF r(1) a _ this] Cons.prems(3) su nm show ?thesis
          using parse_field_named [OF s [unfolded nc] sne] r(2) by (auto simp: rewritten_name_def)
      next
        case other
        from Cons.prems(1) Field other False obtain r where r: "proxy_items uri (Some c) n rp rc its = Some r"
          "its' = Field t n v # r" by auto
        have "alike (acc @ [single t s v]) (acc' @ [single t s v])"
          using Cons.prems(4) by (rule alike_add)
        from Cons.IH [OF r(1) a _ this] Cons.prems(3) other show ?thesis
          using parse_field_named [OF s sne] r(2) by auto
      qed
    qed
  qed
qed

lemma find_kept: "\<not> rewritten_name nm \<Longrightarrow> List.find (\<lambda>a. attr_name a = nm) attrs = List.find (\<lambda>a. attr_name a = nm) (kept attrs)"
  by (induction attrs) (auto simp: kept_def)

lemma attribute_kept: "kept (attributes r) = kept (attributes r') \<Longrightarrow> \<not> rewritten_name nm \<Longrightarrow> attribute r nm = attribute r' nm"
  unfolding attribute_def by (metis find_kept)

lemma has_attribute_kept:
  assumes "kept (attributes r) = kept (attributes r')" "\<not> rewritten_name nm"
  shows "has_attribute r nm = has_attribute r' nm"
proof -
  have "has_attribute q nm \<longleftrightarrow> attribute q nm \<noteq> None" for q
    by (auto simp: has_attribute_def attribute_def list_ex_iff find_None_iff)
  with attribute_kept [OF assms] show ?thesis by simp
qed

text \<open>Everything the server reads for a job but the queue and the channel.\<close>

lemma settings_kept:
  assumes "kept (attributes r) = kept (attributes r')"
  shows "job_settings r = job_settings r'" "wrong_format required r = wrong_format required r'"
proof -
  note k = attribute_kept [OF assms] has_attribute_kept [OF assms]
  have v: "value_text r nm = value_text r' nm" "integer r nm = integer r' nm" if "\<not> rewritten_name nm" for nm
    using k(1) [OF that] by (simp_all add: value_text_def integer_def)
  have n: "\<not> rewritten_name (lit ''media'')" "\<not> rewritten_name (lit ''media-col'')"
    "\<not> rewritten_name (lit ''print-color-mode'')" "\<not> rewritten_name (lit ''sides'')"
    "\<not> rewritten_name (lit ''copies'')" "\<not> rewritten_name (lit ''orientation-requested'')"
    "\<not> rewritten_name (lit ''print-quality'')" "\<not> rewritten_name (lit ''document-format'')"
    by (simp_all add: rewritten_name_def)
  show "wrong_format required r = wrong_format required r'"
    unfolding wrong_format_def v(1) [OF n(8)] ..
  have "media r = media r'" unfolding media_def v(1) [OF n(1)] k(1) [OF n(2)] ..
  moreover have "setting_color_of r = setting_color_of r'" unfolding setting_color_of_def v(1) [OF n(3)] ..
  moreover have "setting_duplex_of r = setting_duplex_of r'" unfolding setting_duplex_of_def v(1) [OF n(4)] ..
  moreover have "setting_copies_of r = setting_copies_of r'" unfolding setting_copies_of_def v(2) [OF n(5)] ..
  moreover have "setting_orientation_of r = setting_orientation_of r'"
    unfolding setting_orientation_of_def v(2) [OF n(6)] ..
  moreover have "setting_quality_of r = setting_quality_of r'"
    unfolding setting_quality_of_def v [OF n(7)] k(2) [OF n(7)] ..
  ultimately show "job_settings r = job_settings r'" unfolding job_settings_def by simp
qed

section \<open>The request the server reads\<close>

lemma proxy_items_tags:
  "proxy_items uri ch cur rp rc its = Some its' \<Longrightarrow> Field t PU v \<in> set its' \<Longrightarrow>
    t = 0x45 \<or> (\<exists>v. Field t PU v \<in> set its)"
proof (induction its arbitrary: cur rp rc its')
  case Nil
  then show ?case by (auto simp: channel_items_def split: if_splits option.splits)
next
  case (Cons i its)
  then show ?case
    by (cases i) (auto simp: channel_items_def Let_def split: if_splits option.splits; blast)+
qed

lemma labelled_field: "Field t n v \<in> set its \<Longrightarrow> n \<noteq> [] \<Longrightarrow> (n, Field t n v) \<in> set (labelled cur its)"
  by (induction cur its rule: labelled.induct) (auto simp: Let_def)

lemma labelled_member: "(l, i) \<in> set (labelled cur its) \<Longrightarrow> i \<in> set its"
  by (induction cur its rule: labelled.induct) (auto simp: Let_def)

lemma labelled_first: "(l, i) \<in> set (labelled cur its) \<Longrightarrow> l \<noteq> [] \<Longrightarrow> l = cur \<or> (\<exists>t v. Field t l v \<in> set its)"
  by (induction cur its rule: labelled.induct) (auto simp: Let_def split: if_splits)

lemma value_found:
  assumes "parse_items its [] = Some attrs" "nm \<noteq> []" "is_text t0" "wf_ustr s"
    and "\<And>t n v. Field t n v \<in> set its \<Longrightarrow> trimmed_name n = Some nm \<Longrightarrow> t = t0 \<and> v = as_bytes s"
    and "Field t1 n1 v1 \<in> set its" "trimmed_name n1 = Some nm" "attributes r = attrs"
  shows "value_text r nm = Some (trim_end_matches 0 s)"
proof -
  have "\<exists>a. named nm attrs = Some a \<and> first_value a t0 (as_bytes s)"
    by (rule parse_items_finds [OF assms(1) _ assms(2)]) (use assms(5-7) in \<open>auto simp: named_def\<close>)
  moreover have "from_utf8 (as_bytes s) = Some s" using assms(4) by (rule from_utf8_as_bytes)
  ultimately show ?thesis
    using assms(3,8)
    by (auto simp: value_text_def attribute_def attribute_text_def named_def first_value_def)
qed

lemma forwarded_request_read:
  assumes "prepare_proxy_request (head @ items_bytes its @ 0x03 # doc) uri (Some c) = Inr out"
    and "length head = 8" "list_all item_ok its" "list_all plain_item its"
    and "str_len uri \<le> 65535" "str_len c \<le> 65535" "wf_ustr uri" "wf_ustr c"
    and "Request_parse (head @ items_bytes its @ 0x03 # doc) = Inr r0"
  shows "\<exists>r. Request_parse out = Inr r
    \<and> value_text r (lit ''printer-uri'') = Some (trim_end_matches 0 uri)
    \<and> value_text r (lit ''network-channel'') = Some (trim_end_matches 0 c)
    \<and> kept (attributes r) = kept (attributes r0) \<and> document r = doc
    \<and> operation r = operation r0 \<and> request_id r = request_id r0 \<and> version r = version r0"
proof -
  from forwarded_items [OF assms(1-3,5,6)] obtain its' attrs attrs' where
    q: "proxy_items uri (Some c) [] False False its = Some its'" and out: "out = head @ items_bytes its' @ 0x03 # doc"
    and ok: "list_all item_ok its'" and attrs: "parse_items its [] = Some attrs" "parse_items its' [] = Some attrs'"
    by metis
  have kept: "kept attrs = kept attrs'"
    using items_kept [OF q attrs(1) assms(4), of "[]"] attrs(2) by (simp add: alike_def)
  note labels = proxy_items_labels [OF q, of "[]", simplified]
  have plain: "n = PU" "t = 0x45" if "Field t n v \<in> set its" "trimmed_name n = Some (lit ''printer-uri'')" for t n v
    using assms(4) that by (auto simp: list_all_iff)
  have plain_nc: "n = NC" if "Field t n v \<in> set its" "trimmed_name n = Some (lit ''network-channel'')" for t n v
    using assms(4) that by (auto simp: list_all_iff)
  have "value_text r (lit ''printer-uri'') = Some (trim_end_matches 0 uri)" if r: "attributes r = attrs'" for r
  proof -
    have "map (item_value \<circ> snd) (filter (\<lambda>p. fst p = PU) (labelled [] its')) = [as_bytes uri]"
      using labels by simp
    then obtain i where i: "filter (\<lambda>p. fst p = PU) (labelled [] its') = [(PU, i)]" "item_value i = as_bytes uri"
      by (auto simp: map_eq_Cons_conv filter_eq_Cons_iff)
    have only: "v = as_bytes uri" if "Field t PU v \<in> set its'" for t v
    proof -
      have "(PU, Field t PU v) \<in> set (filter (\<lambda>p. fst p = PU) (labelled [] its'))"
        using labelled_field [OF that] by simp
      with i show ?thesis by auto
    qed
    have "(PU, i) \<in> set (filter (\<lambda>p. fst p = PU) (labelled [] its'))" unfolding i(1) by simp
    then obtain t1 v1 where f: "Field t1 PU v1 \<in> set its'" using labelled_first [of PU i "[]" its'] by auto
    have "t = 0x45 \<and> v = as_bytes uri" if x: "Field t n v \<in> set its'" "trimmed_name n = Some (lit ''printer-uri'')" for t n v
    proof -
      have "n \<noteq> NC" using x(2) trimmed_special(2) by auto
      then have "n = PU" using proxy_items_fields [OF q x(1)] plain(1) x(2) by blast
      with x(1) only have "v = as_bytes uri" "Field t PU v \<in> set its'" by auto
      with proxy_items_tags [OF q this(2)] plain(2) trimmed_special(1) show ?thesis by blast
    qed
    from value_found [OF attrs(2) _ _ assms(7) this f trimmed_special(1) r] show ?thesis
      by (simp add: is_text_def)
  qed
  moreover have "value_text r (lit ''network-channel'') = Some (trim_end_matches 0 c)" if r: "attributes r = attrs'" for r
  proof -
    have only: "filter (\<lambda>p. fst p = NC) (labelled [] its') = [(NC, Field 0x41 NC (as_bytes c))]"
      using labels by (simp add: channel_items_def)
    have "t = 0x41 \<and> v = as_bytes c"
      if x: "Field t n v \<in> set its'" "trimmed_name n = Some (lit ''network-channel'')" for t n v
    proof -
      have "n \<noteq> PU" using x(2) trimmed_special(1) by auto
      then have "n = NC" using proxy_items_fields [OF q x(1)] plain_nc x(2) by blast
      with channel_field_unique(1) [OF only] x(1) show ?thesis by blast
    qed
    from value_found [OF attrs(2) _ _ assms(8) this channel_field_unique(2) [OF only] trimmed_special(2) r]
    show ?thesis by (simp add: is_text_def)
  qed
  moreover have "attributes r0 = attrs" "operation r0 = from_be16 (head ! 2) (head ! 3)"
    "request_id r0 = from_be32 (head ! 4) (head ! 5) (head ! 6) (head ! 7)" "version r0 = (head ! 0, head ! 1)"
    using assms(9) unfolding Request_parse_items [OF assms(2,3)] attrs(1) by auto
  ultimately show ?thesis
    unfolding out Request_parse_items [OF assms(2) ok] attrs(2) using kept by simp
qed

section \<open>The queue the server finds\<close>

lemma find_remote:
  assumes "47 \<notin> set host" "host \<noteq> []" "wf_ustr (PrinterName_as_str p)"
  shows "find_by_uri shared host (remote_printer_uri host p) = find_by_name shared (PrinterName_as_str p)"
proof -
  let ?enc = "percent_encode (PrinterName_as_str p)"
  have "split_once (remote_printer_uri host p) (lit ''://'') = Some (lit ''ipps'', host @ 47 # lit ''ipp/print/'' @ ?enc)"
    by (simp add: remote_printer_uri_def starts_with_def)
  moreover have "split_once (host @ 47 # lit ''ipp/print/'' @ ?enc) (lit ''/'') = Some (host, lit ''ipp/print/'' @ ?enc)"
    using split_once_char [OF assms(1)] by simp
  ultimately have "ipps_authority_and_path (remote_printer_uri host p) = Some (host, lit ''ipp/print/'' @ ?enc)"
    using assms(2) by (simp add: ipps_authority_and_path_def)
  moreover have "strip_prefix (lit ''ipp/print/'' @ ?enc) (lit ''ipp/print/'') = Some ?enc"
    by (simp add: strip_prefix_def starts_with_def)
  ultimately show ?thesis using percent_decode_encode [OF assms(3)] by (simp add: find_by_uri_def)
qed

lemma remote_uri_plain:
  assumes "list_all graphic host"
  shows "wf_ustr (remote_printer_uri host p)" "trim_end_matches 0 (remote_printer_uri host p) = remote_printer_uri host p"
proof -
  have c: "c < 128 \<and> c \<noteq> 0" if "c \<in> set (remote_printer_uri host p)" for c
    using that assms by (auto simp: remote_printer_uri_def list_all_iff graphic_def dest: percent_encode_visible)
  then show "wf_ustr (remote_printer_uri host p)" by (fastforce simp: list_all_iff is_scalar_def)
  have "remote_printer_uri host p \<noteq> []" by (simp add: remote_printer_uri_def)
  with c [of "last (remote_printer_uri host p)"] show "trim_end_matches 0 (remote_printer_uri host p) = remote_printer_uri host p"
    by (intro trim_end_by_id) auto
qed

lemma job_response_length:
  assumes "str_len uri \<le> 65600"
  shows "9 \<le> length (job_response rid ver jid uri)" "length (job_response rid ver jid uri) \<le> MAX_RESPONSE"
  using assms
  by (simp_all add: job_response_def response_start_def write_text_def write_name_and_value_def write_integer_def
      write_integers_def i32_bytes_def MAX_RESPONSE_def to_be16_def to_be32_def)

section \<open>From the spooler to the queue\<close>

lemma prints_forwarded:
  assumes "Request_parse bs = Inr r" "version_is_supported r" "operation r = OPERATION_PRINT_JOB"
    and "channel_authorizes env r" "Tracker.accepting_jobs (server_tracker st)" "\<not> draining (server_tracker st)"
    and "srv_available env" "selected_printer env host r = Some p" "wrong_format True r = None"
    and "job_settings r = Inr settings" "document r \<noteq> []"
  shows "\<exists>resp st'. answer_job env host bs False st
    = (resp, Some True, st', [(p, from_ipp_body bs (document_start r) settings)])
    \<and> (\<forall>jid. srv_submit env p (from_ipp_body bs (document_start r) settings) = Inr jid \<longrightarrow>
        resp = job_response (request_id r) (version r) jid
          (remote_printer_uri host p @ lit ''/jobs/'' @ show_nat (unat jid)))"
proof -
  have "operation r \<notin> set multi_step_operations"
    using assms(3) by (simp add: multi_step_operations_def operation_codes)
  moreover have "mark_print_job (srv_now env) False (server_tracker st)
      = (True, True, snd (promote_request (srv_now env) (server_tracker st)))"
    using assms(5,6) by (simp add: mark_print_job_def promote_request_def)
  moreover have "entry_uri (printer_entry host p True) = remote_printer_uri host p"
    by (simp add: printer_entry_def remote_printer_uri_def)
  moreover have "response_version r = version r" using assms(2) by (simp add: response_version_def)
  ultimately show ?thesis
    using assms by (simp add: answer_job_def answer_print_def Let_def split: sum.split)
qed

lemma answer_posted:
  assumes "ServerAddress_parse server = Inr a" "wf_ustr server" "length out \<le> MAX_BODY_BYTES"
    and "[] \<notin> set buffers" "concat buffers = http_post a (length out) @ out"
    and "srv_client_listens env" "Tracker.accepting_jobs (server_tracker st)"
    and "answer_request env buffers ending st = ((r, outs), st', subs)"
  shows "\<exists>answer guard st2. answer_job env (ServerAddress_socket a) out False
      (st\<lparr>server_tracker := (server_tracker st)\<lparr>active_requests := Suc (active_requests (server_tracker st))\<rparr>\<rparr>)
        = (answer, guard, st2, subs)
    \<and> r = Inr () \<and> outs = [write_response (lit ''200 OK'') IPP_CONTENT_TYPE answer]
    \<and> st' = server_release env (held_by guard) st2"
proof -
  note chars = server_socket_chars [OF assms(1,2)]
  note checked = post_head_checked [OF assms(3), of a]
  have head: "server_read_head buffers ending = Inr (post_head a (length out), (out, ending))"
    using server_head_any_buffers [OF assms(4)] posted_request_read [OF assms(1-3)] assms(5) by simp
  have body: "server_read_body (length out) (out, ending) = Inr (out, ([], ending))"
    by (simp add: server_read_body_def read_exact_def)
  have host: "trim (ServerAddress_socket a) = ServerAddress_socket a"
    using chars(1,2) graphic_not_space by (intro trim_by_id) (auto simp: list_all_iff)
  let ?st = "st\<lparr>server_tracker := (server_tracker st)\<lparr>active_requests := Suc (active_requests (server_tracker st))\<rparr>\<rparr>"
  obtain answer guard st2 subs2 where a: "answer_job env (ServerAddress_socket a) out False ?st
      = (answer, guard, st2, subs2)" by (metis prod_cases4)
  have acquire: "try_acquire_request (server_tracker st)
      = Some (False, (server_tracker st)\<lparr>active_requests := Suc (active_requests (server_tracker st))\<rparr>)"
    using assms(7) by (simp add: try_acquire_request_def)
  have leased: "answer_leased env (post_head a (length out)) (length out) (out, ending) False ?st
      = ((Inr (), [write_response (lit ''200 OK'') IPP_CONTENT_TYPE answer]), guard, st2, subs2)"
    using checked body host chars(2) a assms(6) by (simp add: answer_leased_def server_respond_def)
  have "((r, outs), st', subs) = ((Inr (), [write_response (lit ''200 OK'') IPP_CONTENT_TYPE answer]),
      (case guard of Some l \<Rightarrow> server_release env [l] st2 | None \<Rightarrow> st2), subs2)"
    using assms(8) unfolding answer_request_def head acquire by (simp add: checked(1) leased)
  then show ?thesis using a by (cases guard) auto
qed

lemma forward_delivers:
  assumes "ServerAddress_parse server = Inr a" "readable conns" "map_of (saved conns) (addr_normalized a) = Some pin"
    and "connect sha256 net a = Inr (tls, pin)" "prepare_proxy_request body uri ch = Inr out"
    and "tls (http_post a (length out) @ out) = Reply (write_response (lit ''200 OK'') IPP_CONTENT_TYPE answer)"
    and "9 \<le> length answer" "length answer \<le> MAX_RESPONSE"
  shows "\<exists>conns'. forward_ipp sha256 net server uri body ch conns
    = (Inr answer, conns', [Written a (http_post a (length out) @ out)])"
proof -
  from answer_read [OF assms(8)] obtain n where n:
    "head_end (take (MAX_RESPONSE + 8192) (write_response (lit ''200 OK'') IPP_CONTENT_TYPE answer)) = Some n"
    "bytes_start_with (take n (take (MAX_RESPONSE + 8192) (write_response (lit ''200 OK'') IPP_CONTENT_TYPE answer)))
      (ascii ''HTTP/1.1 200'')"
    "drop n (take (MAX_RESPONSE + 8192) (write_response (lit ''200 OK'') IPP_CONTENT_TYPE answer)) = answer" by blast
  show ?thesis
    unfolding forward_ipp_def assms(1) refresh_store_readable [OF assms(2)]
    using assms(3-8) n by (simp add: Let_def)
qed

lemma posted_job_printed:
  assumes server: "ServerAddress_parse server = Inr a" "addr_normalized a = server" "wf_ustr server"
    and request: "body = head @ items_bytes its @ 0x03 # doc" "length head = 8" "list_all item_ok its"
      "list_all plain_item its" "Request_parse body = Inr request" "version_is_supported request"
      "operation request = OPERATION_PRINT_JOB" "doc \<noteq> []"
      "wrong_format True request = None" "job_settings request = Inr settings"
    and prepared: "prepare_proxy_request body (remote_printer_uri server p) (Some c) = Inr out"
      "length out \<le> MAX_BODY_BYTES" "str_len (remote_printer_uri server p) \<le> 65535"
      "wf_ustr (PrinterName_as_str p)" "wf_ustr c" "str_len c \<le> 65535"
    and endpoint: "authorizes (srv_sha256 env) (srv_channel env) (trim_end_matches 0 c)"
      "find_by_name (srv_shared env) (PrinterName_as_str p) = Some p" "srv_available env" "srv_client_listens env"
      "Tracker.accepting_jobs (server_tracker st)" "\<not> draining (server_tracker st)"
    and wire: "[] \<notin> set buffers" "concat buffers = http_post a (length out) @ out"
      "answer_request env buffers ending st = ((r, outs), st', subs)"
  shows "\<exists>job resp. subs = [(p, job)] \<and> job_document job = doc \<and> job_print_settings job = settings
    \<and> outs = [write_response (lit ''200 OK'') IPP_CONTENT_TYPE resp]
    \<and> (\<forall>jid. srv_submit env p job = Inr jid \<longrightarrow>
        resp = job_response (request_id request) (version request) jid
          (remote_printer_uri server p @ lit ''/jobs/'' @ show_nat (unat jid)))"
proof -
  have socket: "ServerAddress_socket a = server"
    using server(1,2) by (auto simp: ServerAddress_parse_def ServerAddress_socket_def Let_def result_simps split: if_splits)
  note chars = server_socket_chars [OF server(1,3), unfolded socket]
  note uri = remote_uri_plain [OF chars(1), of p]
  from forwarded_request_read [OF prepared(1) [unfolded request(1)] request(2-4) prepared(3,6) uri(1) prepared(5)
      request(5) [unfolded request(1)]]
  obtain q where q: "Request_parse out = Inr q"
    "value_text q (lit ''printer-uri'') = Some (remote_printer_uri server p)"
    "value_text q (lit ''network-channel'') = Some (trim_end_matches 0 c)"
    "kept (attributes q) = kept (attributes request)" "document q = doc"
    "operation q = operation request" "request_id q = request_id request" "version q = version request"
    unfolding uri(2) by blast
  let ?st = "st\<lparr>server_tracker := (server_tracker st)\<lparr>active_requests := Suc (active_requests (server_tracker st))\<rparr>\<rparr>"
  have "47 \<notin> set server" using chars(1) by (auto simp: list_all_iff graphic_def)
  from find_remote [OF this chars(2) prepared(4)] have sel: "selected_printer env server q = Some p"
    using q(2) endpoint(2) by (simp add: selected_printer_def)
  have ok: "version_is_supported q" "operation q = OPERATION_PRINT_JOB" "channel_authorizes env q"
    "wrong_format True q = None" "job_settings q = Inr settings" "document q \<noteq> []"
    using q request endpoint(1) settings_kept [OF q(4)]
    by (simp_all add: version_is_supported_def channel_authorizes_def)
  let ?job = "from_ipp_body out (document_start q) settings"
  obtain resp st2 where j: "answer_job env server out False ?st = (resp, Some True, st2, [(p, ?job)])"
    "\<And>jid. srv_submit env p ?job = Inr jid \<Longrightarrow> resp = job_response (request_id q) (version q) jid
      (remote_printer_uri server p @ lit ''/jobs/'' @ show_nat (unat jid))"
    using prints_forwarded [OF q(1) ok(1-3) _ _ endpoint(3) sel ok(4-6), of ?st] endpoint(5,6) by auto
  from answer_posted [OF server(1,3) prepared(2) wire(1,2) endpoint(4,5) wire(3)] j(1)
  have out: "subs = [(p, ?job)]" "outs = [write_response (lit ''200 OK'') IPP_CONTENT_TYPE resp]"
    unfolding socket by auto
  from out q(5,7,8) j(2) document_position [OF q(1)] show ?thesis
    by (auto simp: job_document_def from_ipp_body_def)
qed

text \<open>C1: a print job arrives. The client posts a Print-Job of the spooler, rewritten for an approved server
  under its canonical address, with the configured channel; the server reads it in any division into
  buffers. If the server knows the channel, shares the queue, is available and neither drains nor
  restarts, and the spooler's request names its attributes plainly and asks for settings the server
  supports, then exactly one job is submitted, to that queue, with the document byte for
  byte and the settings of the spooler's own request; and when the queue accepts it, the spooler
  gets exactly the answer the server gave, with the identifier of the job.\<close>

theorem forwarded_job_is_printed:
  assumes server: "ServerAddress_parse server = Inr a" "addr_normalized a = server" "wf_ustr server"
    and client: "readable conns" "map_of (saved conns) server = Some pin" "connect sha256 net a = Inr (tls, pin)"
    and request: "body = head @ items_bytes its @ 0x03 # doc" "length head = 8" "list_all item_ok its"
      "list_all plain_item its" "Request_parse body = Inr request" "version_is_supported request"
      "operation request = OPERATION_PRINT_JOB" "doc \<noteq> []"
      "wrong_format True request = None" "job_settings request = Inr settings"
    and prepared: "prepare_proxy_request body (remote_printer_uri server p) (Some c) = Inr out"
      "length out \<le> MAX_BODY_BYTES" "str_len (remote_printer_uri server p) \<le> 65535"
      "wf_ustr (PrinterName_as_str p)" "wf_ustr c" "str_len c \<le> 65535"
    and endpoint: "authorizes (srv_sha256 env) (srv_channel env) (trim_end_matches 0 c)"
      "find_by_name (srv_shared env) (PrinterName_as_str p) = Some p" "srv_available env" "srv_client_listens env"
      "Tracker.accepting_jobs (server_tracker st)" "\<not> draining (server_tracker st)"
    and wire: "[] \<notin> set buffers" "concat buffers = http_post a (length out) @ out"
      "answer_request env buffers ending st = ((r, outs), st', subs)"
      "tls (http_post a (length out) @ out) = Reply (concat outs)"
  shows "\<exists>job. subs = [(p, job)] \<and> job_document job = doc \<and> job_print_settings job = settings
    \<and> (\<forall>jid. srv_submit env p job = Inr jid \<longrightarrow>
        (\<exists>conns'. forward_ipp sha256 net server (remote_printer_uri server p) body (Some c) conns
          = (Inr (job_response (request_id request) (version request) jid
                (remote_printer_uri server p @ lit ''/jobs/'' @ show_nat (unat jid))),
             conns', [Written a (http_post a (length out) @ out)])))"
proof -
  from posted_job_printed [OF server request prepared endpoint wire(1-3)] obtain job resp where
    j: "subs = [(p, job)]" "job_document job = doc" "job_print_settings job = settings"
    "outs = [write_response (lit ''200 OK'') IPP_CONTENT_TYPE resp]"
    "\<And>jid. srv_submit env p job = Inr jid \<Longrightarrow> resp = job_response (request_id request) (version request) jid
      (remote_printer_uri server p @ lit ''/jobs/'' @ show_nat (unat jid))" by blast
  have "\<exists>conns'. forward_ipp sha256 net server (remote_printer_uri server p) body (Some c) conns
      = (Inr resp, conns', [Written a (http_post a (length out) @ out)])" if s: "srv_submit env p job = Inr jid" for jid
  proof -
    have "unat jid < 2 ^ 32" using unsigned_less [of jid, where 'a = nat] by simp
    then have "length (show_nat (unat jid)) \<le> 10" using length_show_nat [of "unat jid" 10] by simp
    then have "str_len (remote_printer_uri server p @ lit ''/jobs/'' @ show_nat (unat jid)) \<le> 65600"
      using prepared(3) show_nat_graphic [of "unat jid"] graphic_not_space
      by (simp add: str_len_ascii list_all_iff)
    from job_response_length [OF this] forward_delivers [OF server(1) client(1) _ client(3) prepared(1)] server(2)
      client(2) wire(4) j(4) j(5) [OF s]
    show ?thesis by simp
  qed
  with j show ?thesis by auto
qed

end
