(* ===== verification/Server_Witnesses.thy ===== *)
theory Server_Witnesses
  imports Proxy_Witnesses Print_Path
begin

text \<open>
  Concrete runs of the properties of the sharing endpoint: a server that shares \<open>Office\<close> under the
  channel \<open>secret\<close> receives one Print-Job.
\<close>

section \<open>Framing\<close>

theorem posted_request_received_witness:
  "\<exists>h. server_read_head [take 7 (http_post example_host 3), drop 7 (http_post example_host 3) @ [1, 2, 3]] Closed
      = Inr (h, ([1, 2, 3], Closed)) \<and> body_length h = Inr 3"
proof -
  let ?bs = "[take 7 (http_post example_host 3), drop 7 (http_post example_host 3) @ [1, 2, 3]]"
  have "[] \<notin> set ?bs" by (simp add: http_post_def)
  moreover have "concat ?bs = http_post example_host (length [1, 2, 3 :: u8]) @ [1, 2, 3]"
    by (simp add: numeral_3_eq_3)
  moreover have "length [1, 2, 3 :: u8] \<le> MAX_BODY_BYTES" by (simp add: MAX_BODY_BYTES_def)
  moreover note example_parse example_wf(1)
  ultimately have "\<exists>h. server_read_head ?bs Closed = Inr (h, ([1, 2, 3], Closed))
      \<and> body_length h = Inr (length [1, 2, 3 :: u8])"
    using posted_request_received [of ?bs Closed] by blast
  then show ?thesis by (simp add: numeral_3_eq_3)
qed

section \<open>The network channel\<close>

fun example_unhex :: "ustr \<Rightarrow> bytes option" where
  "example_unhex [] = Some []"
| "example_unhex [c] = None"
| "example_unhex (a # b # s) =
     (if a < 48 \<or> b < 48 then None
      else map_option (Cons (of_nat (16 * (a - 48) + (b - 48)))) (example_unhex s))"

definition example_hex :: "bytes \<Rightarrow> ustr" where
  "example_hex bs = concat (map (\<lambda>b. [48 + unat b div 16, 48 + unat b mod 16]) bs)"

lemma example_unhex_hex: "example_unhex (example_hex bs) = Some bs"
  by (induction bs) (simp_all add: example_hex_def)

definition example_network_channel :: NetworkChannel where
  "example_network_channel =
     \<lparr>has_path = True, has_credential_file = True, channel_verifier = None, client_secret = None\<rparr>"

definition example_channel_disk :: ChannelDisk where
  "example_channel_disk = \<lparr>verifier_file = Missing, credential_store = Missing, systemd_credential = Missing\<rparr>"

definition example_channel_io :: ChannelIo where
  "example_channel_io = \<lparr>credential_error = None, verifier_error = None\<rparr>"

definition example_salt :: bytes where "example_salt = replicate 16 7"


section \<open>The job store\<close>

definition example_settings :: PrintSettings where
  "example_settings =
     \<lparr>setting_media = None, setting_color = None, setting_duplex = None, setting_copies = None,
      setting_orientation = None, setting_quality = None\<rparr>"

definition example_stored :: StoredJob where
  "example_stored = new_job 0 example_address (PrinterName example_printer) None example_settings True 1"

definition example_jobs :: JobStore where
  "example_jobs = \<lparr>next_job_id = 2, stored_jobs = [(1, example_stored)]\<rparr>"

lemma example_create: "create 0 example_address (PrinterName example_printer) None example_settings True
    JobStore_new = (Inr (stored_entry example_stored), example_jobs, [])"
  using next_id_loop.simps(2) [of 256 JobStore_new]
  by (simp add: create_def expire_locked_def JobStore_new_def make_room_def MAX_TRACKED_JOBS_def
      next_id_def I32_MAX_def put_job_def example_jobs_def example_stored_def Let_def)

lemma example_job_run: "job_run [True] example_jobs []"
  using run_create [OF run_new example_create] by simp

theorem job_store_consistent_witness:
  "job_run [True] example_jobs [] \<and> store_inv example_jobs \<and> store_leases example_jobs = {#True#}"
  using job_store_consistent [OF example_job_run] example_job_run by simp

theorem pieces_make_document_witness:
  "\<exists>e st. send_documents 1 (PrinterName example_printer) [(5, [1, 2]), (9, [3])] example_jobs
    = (Inr (Some \<lparr>submission_entry = e, submission_printer = PrinterName example_printer,
          submission_settings = example_settings, submission_document = [1, 2, 3]\<rparr>), st)"
proof -
  have "job_id (stored_entry example_stored) = 1" by (simp add: example_stored_def new_job_def Let_def)
  moreover have "\<forall>(t, doc) \<in> set [(5, [1, 2]), (9, [3 :: u8])]. elapsed t 0 < PENDING_JOB_LIFETIME"
    "length (concat (map snd [(5 :: nat, [1, 2]), (9, [3 :: u8])])) \<le> MAX_JOB_DOCUMENT_BYTES"
    by (simp_all add: elapsed_def PENDING_JOB_LIFETIME_def MAX_JOB_DOCUMENT_BYTES_def)
  ultimately show ?thesis
    using pieces_make_document [OF run_new example_create, of "[(5, [1, 2]), (9, [3])]"]
    by (simp del: send_documents.simps) blast
qed

section \<open>The endpoint\<close>

definition example_service :: NetworkChannel where
  "example_service = example_network_channel\<lparr>channel_verifier := Some
     \<lparr>verifier_salt = example_salt, verifier_digest = channel_digest example_sha example_salt example_channel\<rparr>\<rparr>"

definition example_server_env :: ServerEnv where
  "example_server_env =
     \<lparr>srv_sha256 = example_sha, srv_uptime = 1, srv_now = 5000, srv_now_ms = 7000,
      srv_channel = example_service, srv_shared = [PrinterName example_printer], srv_available = True,
      srv_submit = (\<lambda>_ _. Inr 42), srv_client_listens = True\<rparr>"

definition example_server :: ServerState where
  "example_server =
     \<lparr>server_jobs = example_jobs, server_failures = None,
      server_tracker = (Tracker_new 0)\<lparr>active_jobs := 1\<rparr>\<rparr>"

theorem endpoint_conserves_leases_witness:
  "\<exists>out st' subs. answer_request example_server_env [http_post example_host 3, [1, 2, 3]] Closed example_server
      = (out, st', subs)
    \<and> active_jobs (server_tracker st') = count (store_leases (server_jobs st')) True
    \<and> active_requests (server_tracker st') = count (store_leases (server_jobs st')) False"
proof -
  obtain out st' subs where a: "answer_request example_server_env [http_post example_host 3, [1, 2, 3]] Closed
      example_server = (out, st', subs)" using prod_cases3 by blast
  have "store_leases example_jobs = {#True#}" "store_inv example_jobs"
    using job_run_inv [OF example_job_run] by (simp_all add: accounts_def store_leases_def JobStore_new_def)
  then have "store_inv (server_jobs example_server)"
    "active_jobs (server_tracker example_server) = 0 + count (store_leases (server_jobs example_server)) True"
    "active_requests (server_tracker example_server) = 0 + count (store_leases (server_jobs example_server)) False"
    by (simp_all add: example_server_def Tracker_new_def)
  from endpoint_conserves_leases [OF a this] a show ?thesis by auto
qed

section \<open>A print job\<close>

definition example_items :: "ipp_item list" where
  "example_items =
     [Delim 0x01, Field 0x49 (ascii ''document-format'') (ascii ''image/pwg-raster'')]"

definition example_job_body :: bytes where
  "example_job_body = example_head @ items_bytes example_items @ 0x03 # [42]"

definition example_remote :: ustr where
  "example_remote = remote_printer_uri example_address (PrinterName example_printer)"

definition example_job_sent :: bytes where
  "example_job_sent = example_head @ items_bytes (example_items
     @ [Field 0x45 PU (as_bytes example_remote), Field 0x41 NC (as_bytes example_channel)]) @ 0x03 # [42]"

definition example_job_request :: Request where
  "example_job_request =
     \<lparr>version = (2, 0), operation = OPERATION_PRINT_JOB, request_id = 1,
      attributes = [\<lparr>attr_name = lit ''document-format'', attr_tag = 0x49,
        attr_values = [ascii ''image/pwg-raster''], attr_value_tags = [0x49]\<rparr>],
      document = [42], document_start = 8 + length (items_bytes example_items) + 1\<rparr>"

lemma example_items_ok: "list_all item_ok example_items" "length example_head = 8"
  by (simp_all add: example_items_def value_tag_ok_def is_delimiter_def fits_def example_head_def)

lemma example_name_decoded: "from_utf8 (ascii ''document-format'') = Some (lit ''document-format'')"
  "trim_end_matches 0 (lit ''document-format'') = lit ''document-format''"
  by (simp_all add: from_utf8_ascii trim_end_by_def)

lemma example_items_plain: "list_all plain_item example_items"
  using example_name_decoded by (simp add: example_items_def trimmed_name_def)

lemma example_job_parsed: "Request_parse example_job_body = Inr example_job_request"
  unfolding example_job_body_def Request_parse_items [OF example_items_ok(2,1)]
  using example_name_decoded
  by (simp add: example_items_def example_job_request_def single_def example_head_def OPERATION_PRINT_JOB_def
      from_be16_def from_be32_def)

lemma example_job_prepared:
  "prepare_proxy_request example_job_body example_remote (Some example_channel) = Inr example_job_sent"
  using proxy_loop_items [OF example_items_ok(1), of example_remote "Some example_channel" "[42]" "[]" False False
      example_head] example_job_parsed example_items_ok(2)
  by (simp add: prepare_proxy_request_def example_job_body_def example_job_sent_def example_items_def
      channel_items_def PU_def NC_def)

lemma example_attribute: "attribute example_job_request nm
  = (if nm = lit ''document-format'' then Some (hd (attributes example_job_request)) else None)"
  by (simp add: attribute_def example_job_request_def)

lemma example_job_settings: "job_settings example_job_request = Inr example_settings"
  "wrong_format True example_job_request = None"
proof -
  have n: "\<not> has_attribute example_job_request (lit ''print-quality'')"
    by (simp add: has_attribute_def example_job_request_def)
  show "job_settings example_job_request = Inr example_settings"
    using n
    by (simp add: job_settings_def media_def setting_color_of_def setting_duplex_of_def setting_copies_of_def
        setting_orientation_of_def setting_quality_of_def value_text_def integer_def example_attribute
        example_settings_def)
  have "from_utf8 (ascii ''image/pwg-raster'') = Some (lit ''image/pwg-raster'')"
    "trim_end_matches 0 (lit ''image/pwg-raster'') = lit ''image/pwg-raster''"
    by (simp_all add: from_utf8_ascii trim_end_by_def)
  moreover have "attribute example_job_request (lit ''document-format'')
      = Some \<lparr>attr_name = lit ''document-format'', attr_tag = 0x49,
          attr_values = [ascii ''image/pwg-raster''], attr_value_tags = [0x49]\<rparr>"
    by (simp add: example_attribute) (simp add: example_job_request_def)
  ultimately show "wrong_format True example_job_request = None"
    by (simp add: wrong_format_def value_text_def attribute_text_def is_text_def is_pwg_raster_def)
qed

definition example_wire :: bytes where
  "example_wire = http_post example_host (length example_job_sent) @ example_job_sent"

definition example_tls :: "bytes \<Rightarrow> Exchange" where
  "example_tls bs = Reply (concat (snd (fst (answer_request example_server_env [bs] Closed example_server))))"

lemma example_size: "length example_job_sent \<le> MAX_BODY_BYTES" "str_len example_remote \<le> 65535"
  "wf_ustr (PrinterName_as_str (PrinterName example_printer))" "wf_ustr example_channel" "str_len example_channel \<le> 65535"
proof -
  have r: "example_remote = lit ''ipps://srv:631/ipp/print/Office''"
    by (simp add: example_remote_def remote_printer_uri_def example_address_def example_printer_def
      percent_encode_def encode_byte_def unreserved_def hex_upper_def hex_digit_upper_def eval_str)
  have "str_len example_remote = 31" unfolding r by simp
  then show "str_len example_remote \<le> 65535" "length example_job_sent \<le> MAX_BODY_BYTES"
    by (simp_all add: example_job_sent_def example_head_def example_items_def put_raw_def MAX_BODY_BYTES_def
        example_channel_def to_be16_def PU_def NC_def)
qed (simp_all add: example_printer_def example_channel_def is_scalar_def)

lemma example_service_ok:
  "authorizes (srv_sha256 example_server_env) (srv_channel example_server_env) (trim_end_matches 0 example_channel)"
  "find_by_name (srv_shared example_server_env) (PrinterName_as_str (PrinterName example_printer))
    = Some (PrinterName example_printer)"
  "srv_available example_server_env" "srv_client_listens example_server_env"
  "Tracker.accepting_jobs (server_tracker example_server)" "\<not> draining (server_tracker example_server)"
proof -
  have "trim_end_matches 0 example_channel = example_channel" by (simp add: example_channel_def trim_end_by_def)
  then show "authorizes (srv_sha256 example_server_env) (srv_channel example_server_env)
      (trim_end_matches 0 example_channel)"
    using authorizes_iff [of example_service _ example_sha example_channel]
    by (simp add: example_server_env_def example_service_def example_network_channel_def
        channel_digest_def example_sha_def)
qed (simp_all add: example_server_env_def find_by_name_def example_server_def Tracker_new_def)

lemma example_wire_read: "[] \<notin> set [example_wire]"
  "concat [example_wire] = http_post example_host (length example_job_sent) @ example_job_sent"
  by (simp_all add: example_wire_def http_post_def)

lemma example_request:
  "version_is_supported example_job_request" "operation example_job_request = OPERATION_PRINT_JOB"
  "request_id example_job_request = 1" "version example_job_request = (2, 0)"
  by (simp_all add: example_job_request_def version_is_supported_def SUPPORTED_VERSIONS_def
    IPP_VERSION_2_0_def)

theorem forwarded_job_is_printed_witness:
  "\<exists>conns'. forward_ipp example_sha (\<lambda>_. Connected [1] example_tls) example_address example_remote example_job_body
      (Some example_channel) (example_store [(example_address, example_pin)])
    = (Inr (job_response 1 (2, 0) 42 (example_remote @ lit ''/jobs/42'')), conns', [Written example_host example_wire])"
proof -
  let ?net = "\<lambda>_. Connected [1] example_tls"
  let ?conns = "example_store [(example_address, example_pin)]"
  obtain r outs st' subs where a: "answer_request example_server_env [example_wire] Closed example_server
      = ((r, outs), st', subs)" by (metis prod.exhaust)
  then have t: "example_tls example_wire = Reply (concat outs)" by (simp add: example_tls_def)
  have client: "readable ?conns" "map_of (saved ?conns) example_address = Some example_pin"
    "connect example_sha ?net example_host = Inr (example_tls, example_pin)"
    "addr_normalized example_host = example_address"
    by (simp_all add: example_saved connect_def example_pin_def example_normalized)
  have "srv_submit example_server_env p job = Inr 42" for p job by (simp add: example_server_env_def)
  with forwarded_job_is_printed [OF example_parse client(4) example_wf(1) client(1-3) example_job_body_def
      example_items_ok(2,1) example_items_plain example_job_parsed example_request(1,2) _ example_job_settings(2,1)
      example_job_prepared [unfolded example_remote_def] example_size(1) example_size(2) [unfolded example_remote_def]
      example_size(3-5) example_service_ok example_wire_read a t [unfolded example_wire_def]]
  show ?thesis using example_request(3,4) 
    by (simp add: example_remote_def example_wire_def show_nat.simps) blast
qed

theorem endpoint_submits_only_authorized_witness:
  "\<exists>out st' job request. answer_request example_server_env [example_wire] Closed example_server
      = (out, st', [(PrinterName example_printer, job)])
    \<and> channel_authorizes example_server_env request \<and> document request \<noteq> []"
proof -
  obtain r outs st' subs where a: "answer_request example_server_env [example_wire] Closed example_server
      = ((r, outs), st', subs)" by (metis prod.exhaust)
  have "addr_normalized example_host = example_address" by (simp add: example_normalized)
  from posted_job_printed [OF example_parse this example_wf(1) example_job_body_def
      example_items_ok(2,1) example_items_plain example_job_parsed example_request(1,2) _ example_job_settings(2,1)
      example_job_prepared [unfolded example_remote_def] example_size(1) example_size(2) [unfolded example_remote_def]
      example_size(3-5) example_service_ok example_wire_read a]
  obtain job where s: "subs = [(PrinterName example_printer, job)]" by auto
  have "store_inv (server_jobs example_server)"
    using job_run_inv [OF example_job_run] by (simp add: example_server_def)
  with endpoint_submits_only_authorized [OF a, of "PrinterName example_printer" job] s a show ?thesis by auto
qed

end
