(* ===== verification/Service_Registry.thy ===== *)
theory Service_Registry
  imports Domain_Service
begin

text \<open>
  The published status of the supervised services (\<open>StatusRegistry\<close> of
  \<open>application/coordinator.rs\<close>) and what a service may do with it (\<open>ServiceReporter\<close> of
  \<open>application/runtime.rs\<close>), with the rule for closing the main window
  (\<open>application/lifecycle.rs\<close>).
\<close>

section \<open>The registry\<close>

record StatusRegistry =
  reg_statuses :: "ServiceStatus list"
  reg_changes :: RuntimeStatus

definition registry_new :: "ServiceId list \<Rightarrow> StatusRegistry" where
  "registry_new ids =
     (let statuses = map ServiceStatus_stopped ids
      in \<lparr>reg_statuses = statuses, reg_changes = RuntimeStatus statuses\<rparr>)"

definition snapshot :: "StatusRegistry \<Rightarrow> RuntimeStatus" where
  "snapshot reg = RuntimeStatus (reg_statuses reg)"

definition registry_status :: "ServiceId \<Rightarrow> StatusRegistry \<Rightarrow> ServiceStatus option" where
  "registry_status sid reg = List.find (\<lambda>s. status_id s = sid) (reg_statuses reg)"

definition unknown_service_named :: "ServiceId \<Rightarrow> AppError" where
  "unknown_service_named sid =
     unknown_service (lit ''unknown service '' @ [39] @ ServiceId_as_str sid @ [39])"

text \<open>
  \<open>entry\<close> lends the first status of a service for an update in place: \<open>entry\<close> finds it and
  \<open>store_entry\<close> writes it back.
\<close>

definition status_entry :: "ServiceStatus list \<Rightarrow> ServiceId \<Rightarrow> AppError + ServiceStatus" where
  "status_entry statuses sid =
     ok_or (List.find (\<lambda>s. status_id s = sid) statuses) (unknown_service_named sid)"

fun store_entry :: "ServiceId \<Rightarrow> ServiceStatus \<Rightarrow> ServiceStatus list \<Rightarrow> ServiceStatus list" where
  "store_entry sid new [] = []"
| "store_entry sid new (s # ss) = (if status_id s = sid then new # ss else s # store_entry sid new ss)"

definition publish :: "ServiceStatus list \<Rightarrow> StatusRegistry \<Rightarrow> StatusRegistry" where
  "publish statuses reg = reg\<lparr>reg_statuses := statuses, reg_changes := RuntimeStatus statuses\<rparr>"

definition registry_transition ::
  "ServiceId \<Rightarrow> ServiceState \<Rightarrow> StatusRegistry \<Rightarrow> AppError + StatusRegistry" where
  "registry_transition sid next reg =
     and_then (status_entry (reg_statuses reg) sid) (\<lambda>status.
     and_then (transition status next) (\<lambda>status.
     Inr (publish (store_entry sid status (reg_statuses reg)) reg)))"

definition registry_set_detail ::
  "ServiceId \<Rightarrow> ustr \<Rightarrow> StatusRegistry \<Rightarrow> AppError + StatusRegistry" where
  "registry_set_detail sid detail reg =
     and_then (status_entry (reg_statuses reg) sid) (\<lambda>status.
     Inr (publish (store_entry sid (set_detail status detail) (reg_statuses reg)) reg))"

definition record_state :: "ServiceId \<Rightarrow> ServiceState \<Rightarrow> ustr \<Rightarrow> StatusRegistry \<Rightarrow> StatusRegistry" where
  "record_state sid next detail reg =
     (case registry_transition sid next reg of
        Inl _ \<Rightarrow> reg
      | Inr reg \<Rightarrow>
          (case registry_set_detail sid detail reg of
             Inl _ \<Rightarrow> reg
           | Inr reg \<Rightarrow> reg))"

section \<open>What a service reports\<close>

definition reporter_ready :: "ServiceId \<Rightarrow> StatusRegistry \<Rightarrow> (AppError + unit) \<times> StatusRegistry" where
  "reporter_ready sid reg =
     (case registry_transition sid Running reg of
        Inl e \<Rightarrow> (Inl e, reg)
      | Inr reg \<Rightarrow>
          (case registry_set_detail sid (lit ''running'') reg of
             Inl e \<Rightarrow> (Inl e, reg)
           | Inr reg \<Rightarrow> (Inr (), reg)))"

definition reporter_detail :: "ServiceId \<Rightarrow> ustr \<Rightarrow> StatusRegistry \<Rightarrow> (AppError + unit) \<times> StatusRegistry" where
  "reporter_detail sid detail reg =
     (case registry_set_detail sid detail reg of
        Inl e \<Rightarrow> (Inl e, reg)
      | Inr reg \<Rightarrow> (Inr (), reg))"

section \<open>Closing the main window\<close>

datatype CloseAction = HideToTray | Close

definition close_action :: "bool \<Rightarrow> CloseAction" where
  "close_action tray_ready = (if tray_ready then HideToTray else Close)"

section \<open>The registry keeps one legal status per service\<close>

definition registry_ids :: "StatusRegistry \<Rightarrow> ServiceId list" where
  "registry_ids reg = map status_id (reg_statuses reg)"

definition state_of :: "StatusRegistry \<Rightarrow> ServiceId \<Rightarrow> ServiceState option" where
  "state_of reg sid = map_option status_state (registry_status sid reg)"

definition registry_inv :: "ServiceId list \<Rightarrow> StatusRegistry \<Rightarrow> bool" where
  "registry_inv ids reg \<longleftrightarrow> registry_ids reg = ids \<and> distinct ids
     \<and> (\<forall>s \<in> set (reg_statuses reg). status_inv (status_id s) s)
     \<and> reg_changes reg = snapshot reg"

lemma find_store_entry:
  "status_id new = sid \<Longrightarrow> List.find (\<lambda>s. status_id s = i) (store_entry sid new ss) =
     (if i = sid then map_option (\<lambda>_. new) (List.find (\<lambda>s. status_id s = i) ss)
      else List.find (\<lambda>s. status_id s = i) ss)"
  by (induction ss) auto

lemma map_store_entry: "status_id new = sid \<Longrightarrow> map status_id (store_entry sid new ss) = map status_id ss"
  by (induction ss) auto

lemma set_store_entry: "s \<in> set (store_entry sid new ss) \<Longrightarrow> s = new \<or> s \<in> set ss"
  by (induction ss) (auto split: if_splits)

lemma find_status_id: "List.find (\<lambda>s. status_id s = i) ss = Some s \<Longrightarrow> s \<in> set ss \<and> status_id s = i"
  by (auto simp: find_Some_iff)

lemma registry_transition_Inr:
  "registry_transition sid n reg = Inr reg' \<longleftrightarrow>
    (\<exists>s. registry_status sid reg = Some s \<and> can_transition (status_state s) n
      \<and> reg' = publish (store_entry sid (s\<lparr>status_state := n\<rparr>) (reg_statuses reg)) reg)"
  by (auto simp: registry_transition_def status_entry_def registry_status_def transition_Inr_iff
      and_then_Inr_iff ok_or_Inr_iff)

lemma registry_set_detail_Inr:
  "registry_set_detail sid d reg = Inr reg' \<longleftrightarrow>
    (\<exists>s. registry_status sid reg = Some s
      \<and> reg' = publish (store_entry sid (set_detail s d) (reg_statuses reg)) reg)"
  by (auto simp: registry_set_detail_def status_entry_def registry_status_def
      and_then_Inr_iff ok_or_Inr_iff)

lemma status_publish:
  assumes "registry_status sid reg = Some s" "status_id new = sid"
  shows "registry_status i (publish (store_entry sid new (reg_statuses reg)) reg) =
    (if i = sid then Some new else registry_status i reg)"
  using assms by (auto simp: registry_status_def publish_def find_store_entry)

lemma registry_status_id: "registry_status sid reg = Some s \<Longrightarrow> status_id s = sid"
  by (auto simp: registry_status_def dest: find_status_id)

lemma status_transition:
  assumes "registry_transition sid n reg = Inr reg'"
  obtains s where "registry_status sid reg = Some s" "can_transition (status_state s) n"
    "\<And>i. registry_status i reg' = (if i = sid then Some (s\<lparr>status_state := n\<rparr>) else registry_status i reg)"
proof -
  from assms obtain s where s: "registry_status sid reg = Some s" "can_transition (status_state s) n"
    "reg' = publish (store_entry sid (s\<lparr>status_state := n\<rparr>) (reg_statuses reg)) reg"
    by (auto simp: registry_transition_Inr)
  with that registry_status_id [OF s(1)] show ?thesis by (simp add: status_publish [OF s(1)])
qed

lemma status_set_detail:
  assumes "registry_set_detail sid d reg = Inr reg'"
  obtains s where "registry_status sid reg = Some s"
    "\<And>i. registry_status i reg' = (if i = sid then Some (set_detail s d) else registry_status i reg)"
proof -
  from assms obtain s where s: "registry_status sid reg = Some s"
    "reg' = publish (store_entry sid (set_detail s d) (reg_statuses reg)) reg"
    by (auto simp: registry_set_detail_Inr)
  moreover have "status_id (set_detail s d) = sid"
    using registry_status_id [OF s(1)] by (simp add: set_detail_def)
  ultimately show ?thesis using that by (simp add: status_publish [OF s(1)])
qed

lemma state_transition:
  "registry_transition sid n reg = Inr reg' \<Longrightarrow>
    (\<exists>a. state_of reg sid = Some a \<and> can_transition a n)
    \<and> state_of reg' = (state_of reg)(sid \<mapsto> n)"
  by (auto simp: state_of_def fun_eq_iff elim!: status_transition)

lemma state_set_detail:
  "registry_set_detail sid d reg = Inr reg' \<Longrightarrow> state_of reg' = state_of reg"
  by (auto simp: state_of_def fun_eq_iff set_detail_def elim!: status_set_detail)

lemma transition_possible:
  "state_of reg sid = Some a \<Longrightarrow> can_transition a n \<Longrightarrow> \<exists>reg'. registry_transition sid n reg = Inr reg'"
  by (auto simp: state_of_def registry_transition_Inr)

lemma transition_refused:
  "registry_transition sid n reg = Inl e \<Longrightarrow>
    state_of reg sid = None \<or> (\<exists>a. state_of reg sid = Some a \<and> \<not> can_transition a n)"
  using transition_possible by (cases "state_of reg sid") force+

lemma set_detail_possible:
  "state_of reg sid = Some a \<Longrightarrow> \<exists>reg'. registry_set_detail sid d reg = Inr reg'"
  by (auto simp: state_of_def registry_set_detail_Inr)

text \<open>What a recording leaves: the state when the table allows it, and nothing otherwise.\<close>

lemma state_record:
  "state_of (record_state sid n d reg) =
    (if \<exists>a. state_of reg sid = Some a \<and> can_transition a n then (state_of reg)(sid \<mapsto> n) else state_of reg)"
proof (cases "registry_transition sid n reg")
  case (Inl e)
  then show ?thesis using transition_refused [OF Inl] by (auto simp: record_state_def)
next
  case (Inr reg')
  then show ?thesis
    using state_transition [OF Inr]
    by (auto simp: record_state_def split: sum.splits dest: state_set_detail)
qed

lemma state_ready:
  "state_of (snd (reporter_ready sid reg)) =
    (if state_of reg sid = Some Starting then (state_of reg)(sid \<mapsto> Running) else state_of reg)"
proof (cases "registry_transition sid Running reg")
  case (Inl e)
  then show ?thesis using transition_refused [OF Inl] by (auto simp: reporter_ready_def)
next
  case (Inr reg')
  then show ?thesis
    using state_transition [OF Inr]
    by (auto simp: reporter_ready_def split: sum.splits dest: state_set_detail elim: can_transition_to_Running)
qed

lemma state_detail [simp]: "state_of (snd (reporter_detail sid d reg)) = state_of reg"
  by (auto simp: reporter_detail_def split: sum.splits dest: state_set_detail)

section \<open>The invariant\<close>

lemma registry_new_inv: "distinct ids \<Longrightarrow> registry_inv ids (registry_new ids)"
  by (auto simp: registry_inv_def registry_new_def Let_def registry_ids_def snapshot_def comp_def
      ServiceStatus_stopped_def status_inv_def)

lemma publish_inv:
  assumes "registry_inv ids reg" "registry_status sid reg = Some s" "status_id new = sid"
    "status_inv sid new"
  shows "registry_inv ids (publish (store_entry sid new (reg_statuses reg)) reg)"
  using assms set_store_entry [of _ sid new "reg_statuses reg"]
  by (fastforce simp: registry_inv_def publish_def registry_ids_def snapshot_def map_store_entry)

lemma registry_status_inv: "registry_inv ids reg \<Longrightarrow> registry_status sid reg = Some s \<Longrightarrow> status_inv sid s"
  by (auto simp: registry_inv_def registry_status_def dest!: find_status_id)

lemma transition_inv:
  assumes "registry_transition sid n reg = Inr reg'" "registry_inv ids reg"
  shows "registry_inv ids reg'"
proof -
  from assms(1) obtain s where s: "registry_status sid reg = Some s"
    "reg' = publish (store_entry sid (s\<lparr>status_state := n\<rparr>) (reg_statuses reg)) reg"
    by (auto simp: registry_transition_Inr)
  with publish_inv [OF assms(2) s(1)] registry_status_inv [OF assms(2) s(1)] show ?thesis
    by (simp add: status_inv_def)
qed

lemma set_detail_inv:
  assumes "registry_set_detail sid d reg = Inr reg'" "registry_inv ids reg"
  shows "registry_inv ids reg'"
proof -
  from assms(1) obtain s where s: "registry_status sid reg = Some s"
    "reg' = publish (store_entry sid (set_detail s d) (reg_statuses reg)) reg"
    by (auto simp: registry_set_detail_Inr)
  have "status_inv sid (set_detail s d)"
    using registry_status_inv [OF assms(2) s(1)] status_step_inv [OF step_detail] by blast
  with publish_inv [OF assms(2) s(1)] s(2) show ?thesis by (simp add: status_inv_def)
qed

lemma record_inv: "registry_inv ids reg \<Longrightarrow> registry_inv ids (record_state sid n d reg)"
  by (auto simp: record_state_def split: sum.splits dest: transition_inv set_detail_inv)

lemma ready_inv: "registry_inv ids reg \<Longrightarrow> registry_inv ids (snd (reporter_ready sid reg))"
  by (auto simp: reporter_ready_def split: sum.splits dest: transition_inv set_detail_inv)

lemma detail_inv: "registry_inv ids reg \<Longrightarrow> registry_inv ids (snd (reporter_detail sid d reg))"
  by (auto simp: reporter_detail_def split: sum.splits dest: set_detail_inv)

lemma state_of_known: "registry_inv ids reg \<Longrightarrow> state_of reg sid \<noteq> None \<longleftrightarrow> sid \<in> set ids"
  by (auto simp: registry_inv_def registry_ids_def state_of_def registry_status_def find_None_iff
      simp del: not_None_eq)

end
