(* ===== verification/Runtime_Coordinator.thy ===== *)
theory Runtime_Coordinator
  imports Service_Registry
begin

text \<open>
  \<open>application/coordinator.rs\<close>: the coordinator that starts, supervises and stops the background
  services. An operation runs from one \<open>await\<close> to the next as one step; what it awaits is a
  \<open>Pending\<close> operation, which a later step resumes. A spawned task is an entry of a table with the
  flag that cancels it; the results of \<open>preflight\<close>, \<open>prepare\<close> and \<open>run\<close>, which the services
  implement, are arguments of the steps. Locks are never poisoned, as nothing panics under them.
\<close>

section \<open>State\<close>

record RuntimeService =
  service_id :: ServiceId
  service_autostart :: bool

record ServiceTask =
  task_service :: ServiceId
  task_cancelled :: bool
  task_ended :: bool

datatype Hook = HookStarted ServiceId | HookStopped ServiceId

record Coordinator =
  co_registry :: StatusRegistry
  co_services :: "ServiceId \<rightharpoonup> RuntimeService"
  co_running :: "ServiceId \<rightharpoonup> nat"
  co_gates :: "ServiceId \<rightharpoonup> bool"
  co_tasks :: "nat \<rightharpoonup> ServiceTask"
  co_next :: nat
  co_hooks :: "Hook list"

datatype Pending =
    Preparing ServiceId
  | Resetting ServiceId nat
  | AwaitingReady ServiceId
  | Discarding ServiceId nat AppError
  | StopWaiting ServiceId nat
  | ShutdownWaiting "(ServiceId \<times> nat) list" "ServiceId list"

datatype Outcome = Returned "AppError + unit" | Suspended Pending

fun supervised_services :: "RuntimeService list \<Rightarrow> (ServiceId \<rightharpoonup> RuntimeService)" where
  "supervised_services [] = Map.empty"
| "supervised_services (s # ss) = Map.empty(service_id s \<mapsto> s) ++ supervised_services ss"

definition coordinator_ids :: "RuntimeService list \<Rightarrow> ServiceId list" where
  "coordinator_ids services = filter (\<lambda>i. supervised_services services i \<noteq> None) ServiceId_ALL"

definition coordinator_new :: "RuntimeService list \<Rightarrow> Coordinator" where
  "coordinator_new services =
     \<lparr>co_registry = registry_new (coordinator_ids services),
      co_services = supervised_services services, co_running = Map.empty,
      co_gates = (\<lambda>i. if i \<in> set (coordinator_ids services) then Some False else None),
      co_tasks = Map.empty, co_next = 0, co_hooks = []\<rparr>"

section \<open>Helpers of the operations\<close>

definition service_named :: "string \<Rightarrow> ServiceId \<Rightarrow> string \<Rightarrow> ustr" where
  "service_named start sid rest = lit start @ [39] @ ServiceId_as_str sid @ [39] @ lit rest"

definition co_state :: "ServiceId \<Rightarrow> Coordinator \<Rightarrow> AppError + ServiceState" where
  "co_state sid c =
     ok_or (map_option status_state (registry_status sid (co_registry c))) (unknown_service_named sid)"

definition co_service :: "ServiceId \<Rightarrow> Coordinator \<Rightarrow> AppError + RuntimeService" where
  "co_service sid c = ok_or (co_services c sid) (unknown_service_named sid)"

definition co_record :: "ServiceId \<Rightarrow> ServiceState \<Rightarrow> ustr \<Rightarrow> Coordinator \<Rightarrow> Coordinator" where
  "co_record sid next detail c = c\<lparr>co_registry := record_state sid next detail (co_registry c)\<rparr>"

definition cancel_task :: "nat \<Rightarrow> Coordinator \<Rightarrow> Coordinator" where
  "cancel_task t c =
     c\<lparr>co_tasks := (co_tasks c)(t := map_option (\<lambda>k. k\<lparr>task_cancelled := True\<rparr>) (co_tasks c t))\<rparr>"

definition take_running :: "ServiceId \<Rightarrow> Coordinator \<Rightarrow> nat option \<times> Coordinator" where
  "take_running sid c = (co_running c sid, c\<lparr>co_running := (co_running c)(sid := None)\<rparr>)"

definition call_hook :: "Hook \<Rightarrow> Coordinator \<Rightarrow> Coordinator" where
  "call_hook h c = c\<lparr>co_hooks := co_hooks c @ [h]\<rparr>"

definition set_gate :: "ServiceId \<Rightarrow> bool \<Rightarrow> Coordinator \<Rightarrow> Coordinator" where
  "set_gate sid locked c = c\<lparr>co_gates := (co_gates c)(sid \<mapsto> locked)\<rparr>"

definition settle_stopped :: "ServiceId \<Rightarrow> Coordinator \<Rightarrow> Coordinator" where
  "settle_stopped sid c =
     (case co_state sid c of
        Inr Stopped \<Rightarrow> c
      | Inr _ \<Rightarrow> co_record sid Stopped (lit ''stopped'') c
      | Inl _ \<Rightarrow> c)"

section \<open>Stopping a service\<close>

definition to_stopping :: "ServiceState \<Rightarrow> ServiceId \<Rightarrow> Coordinator \<Rightarrow> AppError + StatusRegistry" where
  "to_stopping state sid c =
     (if is_live state then registry_transition sid Stopping (co_registry c) else Inr (co_registry c))"

definition stop_begin :: "ServiceId \<Rightarrow> Coordinator \<Rightarrow> Outcome \<times> Coordinator" where
  "stop_begin sid c =
     (case and_then (co_service sid c) (\<lambda>_. co_state sid c) of
        Inl e \<Rightarrow> (Returned (Inl e), c)
      | Inr state \<Rightarrow>
          if state = Stopped
          then (Returned (Inl (invalid_state (service_named ''service '' sid '' is not running''))), c)
          else
            (case take_running sid c of
               (None, c) \<Rightarrow>
                 (Returned (Inr ()), call_hook (HookStopped sid) (co_record sid Stopped (lit ''stopped'') c))
             | (Some t, c) \<Rightarrow>
                 (case to_stopping state sid c of
                    Inl e \<Rightarrow> (Returned (Inl e), cancel_task t c)
                  | Inr reg \<Rightarrow>
                      (Suspended (StopWaiting sid t), cancel_task t (c\<lparr>co_registry := reg\<rparr>)))))"

text \<open>\<open>ended\<close> tells whether the task ended before the deadline.\<close>

definition stop_end :: "bool \<Rightarrow> ServiceId \<Rightarrow> Coordinator \<Rightarrow> (AppError + unit) \<times> Coordinator" where
  "stop_end ended sid c =
     (if ended then (Inr (), call_hook (HookStopped sid) (settle_stopped sid c))
      else (Inl (timeout_error (service_named ''service '' sid '' did not stop in time'')),
            co_record sid Failed (lit ''did not stop within the deadline ['' @ ErrorCode_as_str Timeout @ [93]) c))"

section \<open>Starting a service\<close>

definition release_gate :: "ServiceId \<Rightarrow> (AppError + unit) \<Rightarrow> Coordinator \<Rightarrow> Outcome \<times> Coordinator" where
  "release_gate sid result c = (Returned result, set_gate sid False c)"

definition start_begin ::
  "(AppError + unit) \<Rightarrow> ServiceId \<Rightarrow> Coordinator \<Rightarrow> Outcome \<times> Coordinator" where
  "start_begin preflight sid c =
     (case and_then (co_service sid c) (\<lambda>_. ok_or (co_gates c sid) (unknown_service_named sid)) of
        Inl e \<Rightarrow> (Returned (Inl e), c)
      | Inr locked \<Rightarrow>
          if locked
          then (Returned (Inl (invalid_state (service_named ''service '' sid '' is already starting''))), c)
          else
            let c = set_gate sid True c in
            (case co_state sid c of
               Inl e \<Rightarrow> release_gate sid (Inl e) c
             | Inr state \<Rightarrow>
                 if is_live state
                 then release_gate sid
                        (Inl (invalid_state (service_named ''service '' sid '' is already active''))) c
                 else
                   (case preflight of
                      Inl e \<Rightarrow> release_gate sid (Inl e) c
                    | Inr _ \<Rightarrow> (Suspended (Preparing sid), c))))"

text \<open>\<open>discard\<close>, up to its wait for the cancelled task and from there.\<close>

definition discard_end :: "ServiceId \<Rightarrow> AppError \<Rightarrow> Coordinator \<Rightarrow> Outcome \<times> Coordinator" where
  "discard_end sid e c =
     release_gate sid (Inl e)
       (if co_state sid c = Inr Starting
        then co_record sid Failed (err_message e @ lit '' ['' @ code_str e @ [93]) c
        else c)"

definition discard_begin :: "ServiceId \<Rightarrow> AppError \<Rightarrow> Coordinator \<Rightarrow> Outcome \<times> Coordinator" where
  "discard_begin sid e c =
     (case take_running sid c of
        (Some t, c) \<Rightarrow> (Suspended (Discarding sid t e), cancel_task t c)
      | (None, c) \<Rightarrow> discard_end sid e c)"

definition start_finished ::
  "ServiceId \<Rightarrow> (AppError + unit) \<Rightarrow> Coordinator \<Rightarrow> Outcome \<times> Coordinator" where
  "start_finished sid ready c =
     (case ready of
        Inr _ \<Rightarrow> release_gate sid (Inr ()) (call_hook (HookStarted sid) c)
      | Inl e \<Rightarrow> discard_begin sid e c)"

text \<open>One turn of the loop of \<open>await_ready\<close>, which ends at the wait for the next change.\<close>

definition await_ready :: "ServiceId \<Rightarrow> Coordinator \<Rightarrow> Outcome \<times> Coordinator" where
  "await_ready sid c =
     (case co_state sid c of
        Inl e \<Rightarrow> start_finished sid (Inl e) c
      | Inr Running \<Rightarrow> start_finished sid (Inr ()) c
      | Inr Failed \<Rightarrow>
          start_finished sid
            (Inl (internal_error
              (service_named ''service '' sid '' failed to start: ''
               @ (case registry_status sid (co_registry c) of
                    None \<Rightarrow> []
                  | Some status \<Rightarrow> status_detail status)))) c
      | Inr _ \<Rightarrow> (Suspended (AwaitingReady sid), c))"

definition await_expired :: "ServiceId \<Rightarrow> Coordinator \<Rightarrow> Outcome \<times> Coordinator" where
  "await_expired sid c =
     start_finished sid
       (Inl (timeout_error (service_named ''service '' sid '' did not report ready in time''))) c"

definition spawn_task :: "ServiceId \<Rightarrow> Coordinator \<Rightarrow> Coordinator" where
  "spawn_task sid c =
     c\<lparr>co_tasks := (co_tasks c)(co_next c \<mapsto>
         \<lparr>task_service = sid, task_cancelled = False, task_ended = False\<rparr>),
       co_running := (co_running c)(sid \<mapsto> co_next c), co_next := co_next c + 1\<rparr>"

definition start_spawn :: "ServiceId \<Rightarrow> Coordinator \<Rightarrow> Outcome \<times> Coordinator" where
  "start_spawn sid c =
     (if co_running c sid \<noteq> None
      then release_gate sid (Inl (invalid_state (service_named ''service '' sid '' is already active''))) c
      else
        (case registry_transition sid Starting (co_registry c) of
           Inl e \<Rightarrow> release_gate sid (Inl e) c
         | Inr reg \<Rightarrow>
             let c = c\<lparr>co_registry := reg\<rparr> in
             (case registry_set_detail sid (lit ''starting'') reg of
                Inl e \<Rightarrow> release_gate sid (Inl e) c
              | Inr reg \<Rightarrow> await_ready sid (spawn_task sid (c\<lparr>co_registry := reg\<rparr>)))))"

definition start_prepared ::
  "(AppError + unit) \<Rightarrow> (AppError + unit) \<Rightarrow> ServiceId \<Rightarrow> Coordinator \<Rightarrow> Outcome \<times> Coordinator" where
  "start_prepared prepared preflight sid c =
     (case and_then prepared (\<lambda>_. and_then preflight (\<lambda>_. co_state sid c)) of
        Inl e \<Rightarrow> release_gate sid (Inl e) c
      | Inr state \<Rightarrow>
          if state = Failed
          then (case stop_begin sid c of
                  (Suspended (StopWaiting i t), c) \<Rightarrow> (Suspended (Resetting i t), c)
                | (Suspended p, c) \<Rightarrow> (Suspended p, c)
                | (Returned (Inl e), c) \<Rightarrow> release_gate sid (Inl e) c
                | (Returned (Inr _), c) \<Rightarrow> start_spawn sid c)
          else start_spawn sid c)"

definition start_reset :: "bool \<Rightarrow> ServiceId \<Rightarrow> Coordinator \<Rightarrow> Outcome \<times> Coordinator" where
  "start_reset ended sid c =
     (case stop_end ended sid c of
        (Inl e, c) \<Rightarrow> release_gate sid (Inl e) c
      | (Inr _, c) \<Rightarrow> start_spawn sid c)"

section \<open>Shutting down\<close>

definition running_entries :: "Coordinator \<Rightarrow> (ServiceId \<times> nat) list" where
  "running_entries c =
     List.map_filter (\<lambda>i. map_option (\<lambda>t. (i, t)) (co_running c i)) ServiceId_ALL"

text \<open>An entry dropped on the way out of an error drops its sender, which cancels the task.\<close>

definition cancel_entries :: "(ServiceId \<times> nat) list \<Rightarrow> Coordinator \<Rightarrow> Coordinator" where
  "cancel_entries es c = fold (\<lambda>(_, t). cancel_task t) es c"

fun shutdown_cancel ::
  "(ServiceId \<times> nat) list \<Rightarrow> Coordinator \<Rightarrow> (AppError + unit) \<times> Coordinator" where
  "shutdown_cancel [] c = (Inr (), c)"
| "shutdown_cancel ((sid, t) # es) c =
     (case co_state sid c of
        Inl e \<Rightarrow> (Inl e, cancel_entries ((sid, t) # es) c)
      | Inr state \<Rightarrow>
          (case to_stopping state sid c of
             Inl e \<Rightarrow> (Inl e, cancel_entries ((sid, t) # es) c)
           | Inr reg \<Rightarrow> shutdown_cancel es (cancel_task t (c\<lparr>co_registry := reg\<rparr>))))"

fun join_names :: "ServiceId list \<Rightarrow> ustr" where
  "join_names [] = []"
| "join_names [i] = ServiceId_as_str i"
| "join_names (i # is) = ServiceId_as_str i @ lit '', '' @ join_names is"

definition shutdown_wait ::
  "(ServiceId \<times> nat) list \<Rightarrow> ServiceId list \<Rightarrow> Coordinator \<Rightarrow> Outcome \<times> Coordinator" where
  "shutdown_wait entries stuck c =
     (if entries \<noteq> [] then (Suspended (ShutdownWaiting entries stuck), c)
      else if stuck = [] then (Returned (Inr ()), c)
      else (Returned (Inl (timeout_error
              (lit ''services did not stop in time: '' @ join_names stuck))), c))"

definition shutdown_begin :: "Coordinator \<Rightarrow> Outcome \<times> Coordinator" where
  "shutdown_begin c =
     (let entries = running_entries c;
          c = c\<lparr>co_running := Map.empty\<rparr>
      in if entries = [] then (Returned (Inr ()), c)
         else (case shutdown_cancel entries c of
                 (Inl e, c) \<Rightarrow> (Returned (Inl e), c)
               | (Inr _, c) \<Rightarrow> shutdown_wait entries [] c))"

definition shutdown_next ::
  "bool \<Rightarrow> (ServiceId \<times> nat) list \<Rightarrow> ServiceId list \<Rightarrow> Coordinator \<Rightarrow> Outcome \<times> Coordinator" where
  "shutdown_next ended entries stuck c =
     (case entries of
        [] \<Rightarrow> shutdown_wait [] stuck c
      | (sid, t) # es \<Rightarrow>
          if ended then shutdown_wait es stuck (settle_stopped sid c)
          else shutdown_wait es (stuck @ [sid])
                 (co_record sid Failed (lit ''did not stop within the deadline [timeout]'') c))"

section \<open>The supervised task\<close>

definition supervise_end ::
  "(AppError + unit) \<Rightarrow> ServiceId \<Rightarrow> StatusRegistry \<Rightarrow> StatusRegistry" where
  "supervise_end outcome sid reg =
     (case (outcome, map_option status_state (registry_status sid reg)) of
        (Inr _, Some Stopping) \<Rightarrow> record_state sid Stopped (lit ''stopped'') reg
      | (_, Some Stopped) \<Rightarrow> reg
      | (Inr _, _) \<Rightarrow> record_state sid Failed (lit ''stopped unexpectedly [internal]'') reg
      | (Inl e, _) \<Rightarrow> record_state sid Failed (err_message e @ lit '' ['' @ code_str e @ [93]) reg)"

definition task_end :: "(AppError + unit) \<Rightarrow> nat \<Rightarrow> Coordinator \<Rightarrow> Coordinator" where
  "task_end outcome t c =
     (case co_tasks c t of
        None \<Rightarrow> c
      | Some k \<Rightarrow>
          c\<lparr>co_registry := supervise_end outcome (task_service k) (co_registry c),
            co_tasks := (co_tasks c)(t \<mapsto> k\<lparr>task_ended := True\<rparr>)\<rparr>)"

definition task_ready :: "nat \<Rightarrow> Coordinator \<Rightarrow> Coordinator" where
  "task_ready t c =
     (case co_tasks c t of
        None \<Rightarrow> c
      | Some k \<Rightarrow> c\<lparr>co_registry := snd (reporter_ready (task_service k) (co_registry c))\<rparr>)"

definition task_detail :: "ustr \<Rightarrow> nat \<Rightarrow> Coordinator \<Rightarrow> Coordinator" where
  "task_detail detail t c =
     (case co_tasks c t of
        None \<Rightarrow> c
      | Some k \<Rightarrow> c\<lparr>co_registry := snd (reporter_detail (task_service k) detail (co_registry c))\<rparr>)"

text \<open>A panic ends the task before \<open>supervise\<close> can record anything.\<close>

definition task_panic :: "nat \<Rightarrow> Coordinator \<Rightarrow> Coordinator" where
  "task_panic t c =
     c\<lparr>co_tasks := (co_tasks c)(t := map_option (\<lambda>k. k\<lparr>task_ended := True\<rparr>) (co_tasks c t))\<rparr>"

section \<open>Starting at launch\<close>

text \<open>
  \<open>start_autostart\<close> starts the services that ask for it one after the other, in the order of their
  identities, and reports the first failure once all were tried.
\<close>

definition autostart_ids :: "Coordinator \<Rightarrow> ServiceId list" where
  "autostart_ids c =
     filter (\<lambda>i. case co_services c i of None \<Rightarrow> False | Some s \<Rightarrow> service_autostart s) ServiceId_ALL"

fun autostart_result :: "(AppError + unit) list \<Rightarrow> AppError option \<Rightarrow> AppError + unit" where
  "autostart_result [] failure = (case failure of Some e \<Rightarrow> Inl e | None \<Rightarrow> Inr ())"
| "autostart_result (Inl e # rs) failure =
     autostart_result rs (case failure of None \<Rightarrow> Some e | Some f \<Rightarrow> Some f)"
| "autostart_result (Inr _ # rs) failure = autostart_result rs failure"

definition co_status :: "Coordinator \<Rightarrow> RuntimeStatus" where
  "co_status c = snapshot (co_registry c)"

section \<open>The runtime: the coordinator and the operations under way\<close>

datatype Wakeup = Prepared "AppError + unit" "AppError + unit" | TaskDone | Deadline | Changed

definition has_ended :: "nat \<Rightarrow> Coordinator \<Rightarrow> bool" where
  "has_ended t c = (case co_tasks c t of None \<Rightarrow> True | Some k \<Rightarrow> task_ended k)"

text \<open>
  A deadline only passes on a task that has not ended: \<open>timeout_at\<close> asks the task before the clock.
\<close>

fun resume :: "Wakeup \<Rightarrow> Pending \<Rightarrow> Coordinator \<Rightarrow> (Outcome \<times> Coordinator) option" where
  "resume (Prepared prepared preflight) (Preparing sid) c =
     Some (start_prepared prepared preflight sid c)"
| "resume TaskDone (Resetting sid t) c = (if has_ended t c then Some (start_reset True sid c) else None)"
| "resume Deadline (Resetting sid t) c = (if has_ended t c then None else Some (start_reset False sid c))"
| "resume Changed (AwaitingReady sid) c = Some (await_ready sid c)"
| "resume Deadline (AwaitingReady sid) c = Some (await_expired sid c)"
| "resume TaskDone (Discarding sid t e) c = (if has_ended t c then Some (discard_end sid e c) else None)"
| "resume Deadline (Discarding sid t e) c = (if has_ended t c then None else Some (discard_end sid e c))"
| "resume TaskDone (StopWaiting sid t) c =
     (if has_ended t c then Some (map_prod Returned id (stop_end True sid c)) else None)"
| "resume Deadline (StopWaiting sid t) c =
     (if has_ended t c then None else Some (map_prod Returned id (stop_end False sid c)))"
| "resume TaskDone (ShutdownWaiting ((sid, t) # es) stuck) c =
     (if has_ended t c then Some (shutdown_next True ((sid, t) # es) stuck c) else None)"
| "resume Deadline (ShutdownWaiting ((sid, t) # es) stuck) c =
     (if has_ended t c then None else Some (shutdown_next False ((sid, t) # es) stuck c))"
| "resume _ _ _ = None"

record Runtime =
  rt_coordinator :: Coordinator
  rt_pending :: "Pending list"

datatype Event =
    CallStart "AppError + unit" ServiceId
  | CallStop ServiceId
  | CallShutdown
  | Resume nat Wakeup
  | TaskReady nat
  | TaskDetail nat ustr
  | TaskEnd nat "AppError + unit"
  | TaskPanic nat

definition settle :: "Pending list \<Rightarrow> Outcome \<times> Coordinator \<Rightarrow> Runtime" where
  "settle ps r =
     (case r of
        (Returned _, c) \<Rightarrow> \<lparr>rt_coordinator = c, rt_pending = ps\<rparr>
      | (Suspended p, c) \<Rightarrow> \<lparr>rt_coordinator = c, rt_pending = p # ps\<rparr>)"

definition on_task :: "nat \<Rightarrow> (Coordinator \<Rightarrow> Coordinator) \<Rightarrow> Runtime \<Rightarrow> Runtime option" where
  "on_task t f rt =
     (if has_ended t (rt_coordinator rt) then None
      else Some (rt\<lparr>rt_coordinator := f (rt_coordinator rt)\<rparr>))"

fun rt_event :: "Event \<Rightarrow> Runtime \<Rightarrow> Runtime option" where
  "rt_event (CallStart preflight sid) rt =
     Some (settle (rt_pending rt) (start_begin preflight sid (rt_coordinator rt)))"
| "rt_event (CallStop sid) rt = Some (settle (rt_pending rt) (stop_begin sid (rt_coordinator rt)))"
| "rt_event CallShutdown rt = Some (settle (rt_pending rt) (shutdown_begin (rt_coordinator rt)))"
| "rt_event (Resume n w) rt =
     (if n < length (rt_pending rt)
      then map_option (settle (take n (rt_pending rt) @ drop (Suc n) (rt_pending rt)))
             (resume w (rt_pending rt ! n) (rt_coordinator rt))
      else None)"
| "rt_event (TaskReady t) rt = on_task t (task_ready t) rt"
| "rt_event (TaskDetail t detail) rt = on_task t (task_detail detail t) rt"
| "rt_event (TaskEnd t outcome) rt = on_task t (task_end outcome t) rt"
| "rt_event (TaskPanic t) rt = on_task t (task_panic t) rt"

definition rt_new :: "RuntimeService list \<Rightarrow> Runtime" where
  "rt_new services = \<lparr>rt_coordinator = coordinator_new services, rt_pending = []\<rparr>"

fun rt_run :: "Event list \<Rightarrow> Runtime \<Rightarrow> Runtime option" where
  "rt_run [] rt = Some rt"
| "rt_run (e # es) rt = (case rt_event e rt of None \<Rightarrow> None | Some rt \<Rightarrow> rt_run es rt)"

inductive rt_reachable :: "RuntimeService list \<Rightarrow> Runtime \<Rightarrow> bool" for services where
  rt_initial: "rt_reachable services (rt_new services)"
| rt_step: "rt_reachable services rt \<Longrightarrow> rt_event e rt = Some rt' \<Longrightarrow> rt_reachable services rt'"

lemma rt_run_reachable: "rt_reachable services rt \<Longrightarrow> rt_run es rt = Some rt' \<Longrightarrow> rt_reachable services rt'"
  by (induction es arbitrary: rt) (auto split: option.splits intro: rt_step)

end
