(* ===== verification/Coordinator_Safety.thy ===== *)
theory Coordinator_Safety
  imports Runtime_Coordinator
begin

text \<open>
  What holds of the runtime whatever the order in which operations are called, resumed and timed
  out and tasks report and end: the registry, the table of running tasks and the start gates.
\<close>

section \<open>The coordinator's invariant\<close>

text \<open>
  \<open>owed\<close> holds the tasks that an operation under way took out of the table and still has to cancel.
\<close>

definition core_inv :: "RuntimeService list \<Rightarrow> nat set \<Rightarrow> Coordinator \<Rightarrow> bool" where
  "core_inv services owed c \<longleftrightarrow>
     registry_inv (coordinator_ids services) (co_registry c)
     \<and> co_services c = supervised_services services
     \<and> (\<forall>i t. co_running c i = Some t \<longrightarrow> t \<notin> owed
          \<and> (\<exists>k. co_tasks c t = Some k \<and> task_service k = i \<and> \<not> task_cancelled k))
     \<and> (\<forall>t k. co_tasks c t = Some k \<longrightarrow> t < co_next c
          \<and> (task_cancelled k \<or> t \<in> owed \<or> co_running c (task_service k) = Some t))"

lemma core_registry:
  "core_inv services owed c \<Longrightarrow> registry_inv (coordinator_ids services) (co_registry c)"
  by (simp add: core_inv_def)

lemma core_set_registry [intro]:
  "core_inv services owed c \<Longrightarrow> registry_inv (coordinator_ids services) reg \<Longrightarrow>
    core_inv services owed (c\<lparr>co_registry := reg\<rparr>)"
  by (simp add: core_inv_def)

lemma core_record [intro]: "core_inv services owed c \<Longrightarrow> core_inv services owed (co_record sid n d c)"
  by (auto simp: co_record_def intro: record_inv dest: core_registry)

lemma core_hook [intro, simp]: "core_inv services owed (call_hook h c) = core_inv services owed c"
  by (simp add: core_inv_def call_hook_def)

lemma core_gate [simp]: "core_inv services owed (set_gate sid b c) = core_inv services owed c"
  by (simp add: core_inv_def set_gate_def)

lemma core_settle [intro]: "core_inv services owed c \<Longrightarrow> core_inv services owed (settle_stopped sid c)"
  by (auto simp: settle_stopped_def split: sum.split ServiceState.split)

lemma core_task:
  "core_inv services owed c \<Longrightarrow> co_tasks c t = Some k \<Longrightarrow>
    t < co_next c \<and> (task_cancelled k \<or> t \<in> owed \<or> co_running c (task_service k) = Some t)"
  by (simp add: core_inv_def)

text \<open>Taking a task out of the table owes its cancellation; cancelling it settles the debt.\<close>

lemma core_take:
  assumes "core_inv services owed c" "co_running c sid = Some t"
  shows "core_inv services (insert t owed) (c\<lparr>co_running := (co_running c)(sid := None)\<rparr>)"
proof -
  obtain k where k: "co_tasks c t = Some k" "task_service k = sid"
    using assms by (auto simp: core_inv_def)
  have other: "u \<noteq> t" if "co_running c i = Some u" "i \<noteq> sid" for i u
  proof
    assume "u = t"
    with assms(1) that(1) obtain k' where "co_tasks c t = Some k'" "task_service k' = i"
      by (auto simp: core_inv_def)
    with k that(2) show False by simp
  qed
  have held: "u = t" if "co_tasks c u = Some j" "\<not> task_cancelled j" "u \<notin> owed" "task_service j = sid" for u j
    using core_task [OF assms(1) that(1)] that(2-4) assms(2) by simp
  show ?thesis using assms other held by (auto simp: core_inv_def)
qed

lemma core_cancel:
  assumes "core_inv services (insert t owed) c"
  shows "core_inv services owed (cancel_task t c)"
  unfolding core_inv_def
proof (intro conjI allI impI)
  show "registry_inv (coordinator_ids services) (co_registry (cancel_task t c))"
    "co_services (cancel_task t c) = supervised_services services"
    using assms by (simp_all add: core_inv_def cancel_task_def)
next
  fix i u
  assume "co_running (cancel_task t c) i = Some u"
  then have "co_running c i = Some u" by (simp add: cancel_task_def)
  with assms have u: "u \<notin> insert t owed"
    "\<exists>k. co_tasks c u = Some k \<and> task_service k = i \<and> \<not> task_cancelled k"
    by (auto simp: core_inv_def)
  then show "u \<notin> owed" by simp
  from u show "\<exists>k. co_tasks (cancel_task t c) u = Some k \<and> task_service k = i \<and> \<not> task_cancelled k"
    by (simp add: cancel_task_def)
next
  fix u k
  assume k: "co_tasks (cancel_task t c) u = Some k"
  then have "co_tasks c u \<noteq> None" by (auto simp: cancel_task_def split: if_splits)
  with assms show "u < co_next (cancel_task t c)" by (auto simp: core_inv_def cancel_task_def)
  from k assms show "task_cancelled k \<or> u \<in> owed \<or> co_running (cancel_task t c) (task_service k) = Some u"
    by (cases "u = t") (fastforce simp: core_inv_def cancel_task_def)+
qed

lemma core_owed: "core_inv services owed c \<Longrightarrow> t \<notin> ran (co_running c) \<Longrightarrow> core_inv services (insert t owed) c"
  by (fastforce simp: core_inv_def ran_def)

lemma core_spawn [intro]:
  assumes "core_inv services {} c" "co_running c sid = None"
  shows "core_inv services {} (spawn_task sid c)"
  unfolding core_inv_def
proof (intro conjI allI impI)
  show "registry_inv (coordinator_ids services) (co_registry (spawn_task sid c))"
    "co_services (spawn_task sid c) = supervised_services services"
    using assms by (simp_all add: core_inv_def spawn_task_def)
next
  fix i u
  assume "co_running (spawn_task sid c) i = Some u"
  then show "\<exists>k. co_tasks (spawn_task sid c) u = Some k \<and> task_service k = i \<and> \<not> task_cancelled k"
    using assms by (auto simp: core_inv_def spawn_task_def split: if_splits)
next
  fix u k
  assume k: "co_tasks (spawn_task sid c) u = Some k"
  then show "u < co_next (spawn_task sid c)"
    using assms by (auto simp: core_inv_def spawn_task_def less_Suc_eq split: if_splits)
  from k show "task_cancelled k \<or> u \<in> {} \<or> co_running (spawn_task sid c) (task_service k) = Some u"
    using assms by (fastforce simp: core_inv_def spawn_task_def split: if_splits)
qed simp

lemma supervise_inv: "registry_inv ids reg \<Longrightarrow> registry_inv ids (supervise_end outcome sid reg)"
  by (auto simp: supervise_end_def intro: record_inv split: sum.split option.split ServiceState.split)

lemma core_task_update:
  assumes "core_inv services {} c" "co_tasks c t = Some k" "task_service k' = task_service k"
    "task_cancelled k' = task_cancelled k"
  shows "core_inv services {} (c\<lparr>co_tasks := (co_tasks c)(t \<mapsto> k')\<rparr>)"
  using assms by (fastforce simp: core_inv_def split: if_splits)

lemma core_task_end:
  assumes "core_inv services {} c"
  shows "core_inv services {} (task_end outcome t c)"
proof (cases "co_tasks c t")
  case None
  with assms show ?thesis by (simp add: task_end_def)
next
  case (Some k)
  let ?reg = "supervise_end outcome (task_service k) (co_registry c)"
  have "core_inv services {} (c\<lparr>co_registry := ?reg\<rparr>)"
    using assms by (intro core_set_registry supervise_inv core_registry)
  from core_task_update [OF this, of t k "k\<lparr>task_ended := True\<rparr>"] Some show ?thesis
    by (simp add: task_end_def)
qed

lemma core_task_panic: "core_inv services {} c \<Longrightarrow> core_inv services {} (task_panic t c)"
  by (cases "co_tasks c t") (auto simp: task_panic_def fun_upd_idem intro: core_task_update)

lemma core_task_ready: "core_inv services {} c \<Longrightarrow> core_inv services {} (task_ready t c)"
  by (auto simp: task_ready_def intro: ready_inv core_registry split: option.split)

lemma core_task_detail: "core_inv services {} c \<Longrightarrow> core_inv services {} (task_detail d t c)"
  by (auto simp: task_detail_def intro: detail_inv core_registry split: option.split)

section \<open>Every operation preserves it\<close>

text \<open>\<open>core_kept services r\<close>: the coordinator an operation leaves satisfies the invariant again.\<close>

abbreviation core_kept :: "RuntimeService list \<Rightarrow> 'a \<times> Coordinator \<Rightarrow> bool" where
  "core_kept services r \<equiv> core_inv services {} (snd r)"

lemma kept_release [simp]: "core_kept services (release_gate sid res c) = core_inv services {} c"
  by (simp add: release_gate_def)

lemma core_taken:
  assumes "core_inv services {} c" "co_running c sid = Some t"
    and "registry_inv (coordinator_ids services) reg"
  shows "core_inv services {} (cancel_task t (c\<lparr>co_running := (co_running c)(sid := None), co_registry := reg\<rparr>))"
proof (rule core_cancel)
  from core_take [OF assms(1,2)] assms(3)
  show "core_inv services {t} (c\<lparr>co_running := (co_running c)(sid := None), co_registry := reg\<rparr>)"
    using core_set_registry by fastforce
qed

lemma core_untaken:
  "co_running c sid = None \<Longrightarrow> core_inv services {} (c\<lparr>co_running := (co_running c)(sid := None)\<rparr>)
    \<longleftrightarrow> core_inv services {} c"
  by (simp add: fun_upd_idem)

lemma stopping_inv:
  "to_stopping state sid c = Inr reg \<Longrightarrow> registry_inv ids (co_registry c) \<Longrightarrow> registry_inv ids reg"
  by (auto simp: to_stopping_def split: if_splits dest: transition_inv)

lemma to_stopping_running [simp]:
  "to_stopping state sid (c\<lparr>co_running := r\<rparr>) = to_stopping state sid c"
  by (simp add: to_stopping_def)

lemma stop_begin_kept:
  assumes "core_inv services {} c"
  shows "core_kept services (stop_begin sid c)"
proof (cases "and_then (co_service sid c) (\<lambda>_. co_state sid c)")
  case (Inl e)
  with assms show ?thesis by (simp add: stop_begin_def)
next
  case (Inr state)
  show ?thesis
  proof (cases "co_running c sid")
    case None
    with Inr assms show ?thesis
      by (auto simp: stop_begin_def take_running_def core_untaken)
  next
    case (Some t)
    note inv = core_registry [OF assms]
    show ?thesis
    proof (cases "to_stopping state sid c")
      case (Inl e)
      with Inr Some assms core_taken [OF assms Some inv] show ?thesis
        by (auto simp: stop_begin_def take_running_def split: if_splits)
    next
      case (Inr reg)
      have "core_inv services {}
          (cancel_task t (c\<lparr>co_running := (co_running c)(sid := None), co_registry := reg\<rparr>))"
        using core_taken [OF assms Some stopping_inv [OF Inr inv]] .
      with Inr Some assms \<open>and_then _ _ = Inr state\<close> show ?thesis
        by (auto simp: stop_begin_def take_running_def split: if_splits)
    qed
  qed
qed

lemma stop_end_kept: "core_inv services {} c \<Longrightarrow> core_kept services (stop_end ended sid c)"
  by (auto simp: stop_end_def)

lemma start_begin_kept: "core_inv services {} c \<Longrightarrow> core_kept services (start_begin preflight sid c)"
  by (auto simp: start_begin_def Let_def split: sum.split)

lemma discard_end_kept: "core_inv services {} c \<Longrightarrow> core_kept services (discard_end sid e c)"
  by (auto simp: discard_end_def)

lemma discard_begin_kept:
  assumes "core_inv services {} c"
  shows "core_kept services (discard_begin sid e c)"
proof (cases "co_running c sid")
  case None
  with assms show ?thesis
    by (simp add: discard_begin_def take_running_def discard_end_kept core_untaken)
next
  case (Some t)
  with core_cancel [OF core_take [OF assms Some]] show ?thesis
    by (simp add: discard_begin_def take_running_def)
qed

lemma start_finished_kept: "core_inv services {} c \<Longrightarrow> core_kept services (start_finished sid ready c)"
  by (auto simp: start_finished_def intro: discard_begin_kept split: sum.split)

lemma await_ready_kept: "core_inv services {} c \<Longrightarrow> core_kept services (await_ready sid c)"
  by (auto simp: await_ready_def intro: start_finished_kept split: sum.split ServiceState.split)

lemma start_spawn_kept:
  assumes "core_inv services {} c"
  shows "core_kept services (start_spawn sid c)"
proof (cases "co_running c sid")
  case None
  show ?thesis
  proof (cases "registry_transition sid Starting (co_registry c)")
    case (Inl e)
    with None assms show ?thesis by (simp add: start_spawn_def)
  next
    case (Inr reg)
    then have reg: "registry_inv (coordinator_ids services) reg"
      using transition_inv core_registry [OF assms] by blast
    show ?thesis
    proof (cases "registry_set_detail sid (lit ''starting'') reg")
      case (Inl e)
      with Inr None reg assms show ?thesis by (auto simp: start_spawn_def Let_def)
    next
      case (Inr reg')
      then have "registry_inv (coordinator_ids services) reg'" using reg set_detail_inv by blast
      then have "core_inv services {} (spawn_task sid (c\<lparr>co_registry := reg'\<rparr>))"
        using None assms by (intro core_spawn core_set_registry) simp_all
      with Inr \<open>registry_transition _ _ _ = Inr reg\<close> None show ?thesis
        by (simp add: start_spawn_def Let_def await_ready_kept)
    qed
  qed
next
  case (Some t)
  with assms show ?thesis by (simp add: start_spawn_def)
qed

lemma start_prepared_kept:
  assumes "core_inv services {} c"
  shows "core_kept services (start_prepared prepared preflight sid c)"
proof -
  have "core_inv services {} c'" if "stop_begin sid c = (out, c')" for out c'
    using stop_begin_kept [OF assms, of sid] that by simp
  then show ?thesis
    using assms start_spawn_kept
    by (fastforce simp: start_prepared_def split: sum.split prod.split Outcome.split Pending.split)
qed

lemma start_reset_kept:
  assumes "core_inv services {} c"
  shows "core_kept services (start_reset ended sid c)"
proof -
  have "core_inv services {} c'" if "stop_end ended sid c = (out, c')" for out c'
    using stop_end_kept [OF assms, of ended sid] that by simp
  then show ?thesis using start_spawn_kept by (auto simp: start_reset_def split: sum.split prod.split)
qed

text \<open>\<open>shutdown\<close> takes the whole table, and cancels every task it took, also when it fails.\<close>

lemma core_cancel_entries:
  "core_inv services (snd ` set es \<union> owed) c \<Longrightarrow> core_inv services owed (cancel_entries es c)"
proof (induction es arbitrary: c)
  case (Cons e es)
  obtain sid t where e: "e = (sid, t)" by (cases e)
  with Cons.prems have "core_inv services (insert t (snd ` set es \<union> owed)) c" by simp
  from Cons.IH [OF core_cancel [OF this]] show ?case by (simp add: cancel_entries_def e)
qed (simp add: cancel_entries_def)

lemma shutdown_cancel_kept:
  "core_inv services (snd ` set es) c \<Longrightarrow> core_kept services (shutdown_cancel es c)"
proof (induction es c rule: shutdown_cancel.induct)
  case (2 sid t es c)
  note all = core_cancel_entries [of services "(sid, t) # es" "{}" c]
  show ?case
  proof (cases "co_state sid c")
    case (Inl e)
    with 2 all show ?thesis by simp
  next
    case (Inr state)
    note state = this
    show ?thesis
    proof (cases "to_stopping state sid c")
      case (Inl e)
      with state 2 all show ?thesis by simp
    next
      case (Inr reg)
      have "registry_inv (coordinator_ids services) reg"
        using stopping_inv [OF Inr core_registry [OF "2.prems"]] .
      then have "core_inv services (insert t (snd ` set es)) (c\<lparr>co_registry := reg\<rparr>)"
        using "2.prems" core_set_registry by fastforce
      from "2.IH" [OF state Inr core_cancel [OF this]] state Inr show ?thesis by simp
    qed
  qed
qed simp

lemma set_running_entries: "set (running_entries c) = {(i, t). co_running c i = Some t}"
proof -
  have "i \<in> set ServiceId_ALL" for i by (cases i) (simp_all add: ServiceId_ALL_def)
  then show ?thesis
    by (force simp: running_entries_def List.map_filter_def)
qed

lemma core_take_all:
  assumes "core_inv services {} c"
  shows "core_inv services (snd ` set (running_entries c)) (c\<lparr>co_running := Map.empty\<rparr>)"
  using assms by (force simp: core_inv_def set_running_entries image_iff)

lemma shutdown_wait_core [simp]: "snd (shutdown_wait es stuck c) = c"
  by (simp add: shutdown_wait_def)

lemma shutdown_begin_kept:
  assumes "core_inv services {} c"
  shows "core_kept services (shutdown_begin c)"
  using shutdown_cancel_kept [OF core_take_all [OF assms]] core_take_all [OF assms]
  by (auto simp: shutdown_begin_def Let_def split: sum.split prod.split)

lemma shutdown_next_kept: "core_inv services {} c \<Longrightarrow> core_kept services (shutdown_next ended es stuck c)"
  by (auto simp: shutdown_next_def split: list.split)

lemma resume_kept:
  assumes "core_inv services {} c" "resume w p c = Some r"
  shows "core_kept services r"
  using assms
  by (induction w p c rule: resume.induct)
    (auto simp: start_prepared_kept start_reset_kept await_ready_kept discard_end_kept stop_end_kept
      shutdown_next_kept await_expired_def start_finished_kept split: if_splits)

lemma settle_core [simp]: "rt_coordinator (settle ps r) = snd r"
  by (auto simp: settle_def split: prod.split Outcome.split)

theorem core_reachable:
  "rt_reachable services rt \<Longrightarrow> core_inv services {} (rt_coordinator rt)"
proof (induction rule: rt_reachable.induct)
  case rt_initial
  have "distinct (coordinator_ids services)" by (simp add: coordinator_ids_def ServiceId_ALL_def)
  then show ?case
    by (simp add: rt_new_def coordinator_new_def core_inv_def registry_new_inv)
next
  case (rt_step rt e rt')
  then show ?case
    by (cases e) (auto simp: on_task_def start_begin_kept stop_begin_kept shutdown_begin_kept
        core_task_end core_task_panic core_task_ready core_task_detail split: if_splits dest: resume_kept)
qed

section \<open>The start gates\<close>

text \<open>The service that an operation under way is starting, which holds its gate meanwhile.\<close>

fun starts :: "Pending \<Rightarrow> ServiceId option" where
  "starts (Preparing sid) = Some sid"
| "starts (Resetting sid _) = Some sid"
| "starts (AwaitingReady sid) = Some sid"
| "starts (Discarding sid _ _) = Some sid"
| "starts (StopWaiting _ _) = None"
| "starts (ShutdownWaiting _ _) = None"

definition starts_under_way :: "ServiceId \<Rightarrow> Pending list \<Rightarrow> nat" where
  "starts_under_way sid ps = length (filter (\<lambda>p. starts p = Some sid) ps)"

definition gate_inv :: "Runtime \<Rightarrow> bool" where
  "gate_inv rt \<longleftrightarrow> (\<forall>sid. starts_under_way sid (rt_pending rt)
     = (if co_gates (rt_coordinator rt) sid = Some True then 1 else 0))"

text \<open>A step of a start either goes on holding the gate or ends it and opens the gate.\<close>

definition gate_left :: "ServiceId \<Rightarrow> Coordinator \<Rightarrow> Outcome \<times> Coordinator \<Rightarrow> bool" where
  "gate_left sid c r \<longleftrightarrow>
     (case r of
        (Returned _, c') \<Rightarrow> co_gates c' = (co_gates c)(sid \<mapsto> False)
      | (Suspended p, c') \<Rightarrow> starts p = Some sid \<and> co_gates c' = co_gates c)"

lemma gates_simps [simp]:
  "co_gates (co_record sid n d c) = co_gates c"
  "co_gates (cancel_task t c) = co_gates c"
  "co_gates (call_hook h c) = co_gates c"
  "co_gates (spawn_task sid c) = co_gates c"
  "co_gates (settle_stopped sid c) = co_gates c"
  "co_gates (cancel_entries es c) = co_gates c"
  "co_gates (task_end outcome t c) = co_gates c"
  "co_gates (task_ready t c) = co_gates c"
  "co_gates (task_detail d t c) = co_gates c"
  "co_gates (task_panic t c) = co_gates c"
proof -
  show "co_gates (cancel_entries es c) = co_gates c"
    by (induction es arbitrary: c) (auto simp: cancel_entries_def cancel_task_def)
qed (simp_all add: co_record_def cancel_task_def call_hook_def spawn_task_def settle_stopped_def
    task_end_def task_ready_def task_detail_def task_panic_def split: sum.split ServiceState.split option.split)

lemma gates_stop [simp]:
  "co_gates (snd (stop_begin sid c)) = co_gates c" "co_gates (snd (stop_end ended sid c)) = co_gates c"
  by (auto simp: stop_begin_def stop_end_def take_running_def split: sum.split option.split)

lemma gates_shutdown_cancel [simp]: "co_gates (snd (shutdown_cancel es c)) = co_gates c"
  by (induction es c rule: shutdown_cancel.induct) (auto split: sum.split)

lemma gates_shutdown [simp]:
  "co_gates (snd (shutdown_begin c)) = co_gates c"
  "co_gates (snd (shutdown_next ended es stuck c)) = co_gates c"
proof -
  obtain r c' where e: "shutdown_cancel (running_entries c) (c\<lparr>co_running := Map.empty\<rparr>) = (r, c')"
    by fastforce
  with gates_shutdown_cancel [of "running_entries c" "c\<lparr>co_running := Map.empty\<rparr>"]
  have "co_gates c' = co_gates c" by simp
  with e show "co_gates (snd (shutdown_begin c)) = co_gates c"
    by (simp add: shutdown_begin_def Let_def split: sum.split)
  show "co_gates (snd (shutdown_next ended es stuck c)) = co_gates c"
    by (auto simp: shutdown_next_def split: list.split)
qed

lemma gate_release [intro]: "co_gates c' = co_gates c \<Longrightarrow> gate_left sid c (release_gate sid res c')"
  by (simp add: gate_left_def release_gate_def set_gate_def)

lemma gate_discard_end: "co_gates c' = co_gates c \<Longrightarrow> gate_left sid c (discard_end sid e c')"
  by (auto simp: discard_end_def)

lemma gate_finished:
  assumes "co_gates c' = co_gates c"
  shows "gate_left sid c (start_finished sid ready c')"
proof (cases ready)
  case (Inl e)
  with assms show ?thesis
    by (cases "co_running c' sid")
      (simp_all add: start_finished_def discard_begin_def take_running_def gate_discard_end, simp add: gate_left_def)
next
  case (Inr u)
  with assms show ?thesis by (auto simp: start_finished_def)
qed

lemma gate_await: "co_gates c' = co_gates c \<Longrightarrow> gate_left sid c (await_ready sid c')"
  unfolding await_ready_def
  by (auto intro: gate_finished split: sum.split ServiceState.split) (simp_all add: gate_left_def)

lemma gate_expired: "co_gates c' = co_gates c \<Longrightarrow> gate_left sid c (await_expired sid c')"
  by (simp add: await_expired_def gate_finished)

lemma gate_spawn: "co_gates c' = co_gates c \<Longrightarrow> gate_left sid c (start_spawn sid c')"
  by (auto simp: start_spawn_def Let_def intro: gate_await split: sum.split)

lemma gate_reset: "gate_left sid c (start_reset ended sid c)"
proof -
  obtain r c' where e: "stop_end ended sid c = (r, c')" by fastforce
  then have "co_gates c' = co_gates c" using gates_stop(2) [of ended sid c] by simp
  with e show ?thesis by (auto simp: start_reset_def intro: gate_spawn split: sum.split)
qed

lemma stop_begin_suspends: "stop_begin sid c = (Suspended p, c') \<Longrightarrow> \<exists>t. p = StopWaiting sid t"
  by (auto simp: stop_begin_def take_running_def split: sum.splits option.splits if_splits)

lemma gate_prepared: "gate_left sid c (start_prepared prepared preflight sid c)"
proof -
  obtain out c' where e: "stop_begin sid c = (out, c')" by fastforce
  then have g: "co_gates c' = co_gates c" using gates_stop(1) [of sid c] by simp
  show ?thesis
  proof (cases out)
    case (Returned res)
    with e g show ?thesis
      by (auto simp: start_prepared_def intro: gate_spawn split: sum.split)
  next
    case (Suspended p)
    with e stop_begin_suspends obtain t where "p = StopWaiting sid t" by blast
    with e g Suspended show ?thesis
      by (auto simp: start_prepared_def intro: gate_spawn split: sum.split)
        (simp add: gate_left_def)
  qed
qed

lemma resume_gate:
  assumes "resume w p c = Some r"
  shows "case starts p of Some sid \<Rightarrow> gate_left sid c r
    | None \<Rightarrow> co_gates (snd r) = co_gates c \<and> (\<forall>q. fst r = Suspended q \<longrightarrow> starts q = None)"
  using assms
proof (induction w p c rule: resume.induct)
  case (10 sid t es stuck c)
  then show ?case
    by (auto simp: shutdown_next_def shutdown_wait_def gates_shutdown split: if_splits)
next
  case (11 sid t es stuck c)
  then show ?case
    by (auto simp: shutdown_next_def shutdown_wait_def gates_shutdown split: if_splits)
qed (auto simp: gate_prepared gate_reset gate_await gate_expired gate_discard_end split: if_splits)

lemma starts_under_way_Cons [simp]:
  "starts_under_way sid (p # ps) = (if starts p = Some sid then 1 else 0) + starts_under_way sid ps"
  by (simp add: starts_under_way_def)

lemma starts_under_way_remove:
  assumes "n < length ps"
  shows "starts_under_way sid ps =
    (if starts (ps ! n) = Some sid then 1 else 0) + starts_under_way sid (take n ps @ drop (Suc n) ps)"
proof -
  have "ps = take n ps @ ps ! n # drop (Suc n) ps" using assms by (simp add: id_take_nth_drop)
  then have "starts_under_way sid ps = starts_under_way sid (take n ps @ ps ! n # drop (Suc n) ps)"
    by simp
  also have "\<dots> = (if starts (ps ! n) = Some sid then 1 else 0)
      + starts_under_way sid (take n ps @ drop (Suc n) ps)"
    unfolding starts_under_way_def filter_append length_append by simp
  finally show ?thesis .
qed

lemma gate_settle_other:
  assumes "gate_inv rt"
    and "\<And>sid. starts_under_way sid ps = starts_under_way sid (rt_pending rt)"
    and "co_gates (snd r) = co_gates (rt_coordinator rt)" "\<And>q. fst r = Suspended q \<Longrightarrow> starts q = None"
  shows "gate_inv (settle ps r)"
  using assms by (auto simp: gate_inv_def settle_def split: prod.split Outcome.split)

text \<open>A start under way (or one just begun) that still counts as the holder of its gate.\<close>

lemma gate_settle_start:
  assumes "gate_left sid c r" "co_gates c sid = Some True"
    and "\<And>i. (if i = sid then 1 else 0) + starts_under_way i ps = (if co_gates c i = Some True then 1 else 0)"
  shows "gate_inv (settle ps r)"
proof -
  obtain out c' where r: "r = (out, c')" by fastforce
  have none: "starts_under_way sid ps = 0" using assms(2) assms(3) [of sid] by simp
  have others: "starts_under_way i ps = (if co_gates c i = Some True then 1 else 0)" if "i \<noteq> sid" for i
    using assms(3) [of i] that by simp
  show ?thesis
    using assms(1,2) none others
    by (cases out) (auto simp: r gate_left_def gate_inv_def settle_def)
qed

lemma gate_begin:
  assumes "gate_inv rt"
  shows "gate_inv (settle (rt_pending rt) (start_begin preflight sid (rt_coordinator rt)))"
proof (cases "and_then (co_service sid (rt_coordinator rt))
    (\<lambda>_. ok_or (co_gates (rt_coordinator rt) sid) (unknown_service_named sid))")
  case (Inl e)
  with assms show ?thesis by (simp add: start_begin_def settle_def gate_inv_def)
next
  case (Inr locked)
  let ?c = "rt_coordinator rt" and ?g = "set_gate sid True (rt_coordinator rt)"
  show ?thesis
  proof (cases locked)
    case True
    with Inr assms show ?thesis by (simp add: start_begin_def settle_def gate_inv_def)
  next
    case False
    from Inr False have free: "co_gates ?c sid = Some False"
      by (auto simp: and_then_Inr_iff ok_or_Inr_iff)
    have "start_begin preflight sid ?c =
        (case co_state sid ?g of
             Inl e \<Rightarrow> release_gate sid (Inl e) ?g
           | Inr state \<Rightarrow>
               if is_live state
               then release_gate sid
                      (Inl (invalid_state (service_named ''service '' sid '' is already active''))) ?g
               else (case preflight of
                       Inl e \<Rightarrow> release_gate sid (Inl e) ?g
                     | Inr _ \<Rightarrow> (Suspended (Preparing sid), ?g)))"
      using Inr False by (simp add: start_begin_def Let_def)
    then have "gate_left sid ?g (start_begin preflight sid ?c)"
      by (auto split: sum.split) (simp add: gate_left_def)
    then show ?thesis
    proof (rule gate_settle_start)
      show "co_gates ?g sid = Some True" by (simp add: set_gate_def)
      show "(if i = sid then 1 else 0) + starts_under_way i (rt_pending rt)
          = (if co_gates ?g i = Some True then 1 else 0)" for i
        using assms free by (simp add: gate_inv_def set_gate_def)
    qed
  qed
qed

lemma gate_resume:
  assumes "gate_inv rt" "n < length (rt_pending rt)"
    and "resume w (rt_pending rt ! n) (rt_coordinator rt) = Some r"
  shows "gate_inv (settle (take n (rt_pending rt) @ drop (Suc n) (rt_pending rt)) r)"
proof -
  let ?p = "rt_pending rt ! n" and ?c = "rt_coordinator rt"
  let ?ps = "take n (rt_pending rt) @ drop (Suc n) (rt_pending rt)"
  note count = starts_under_way_remove [OF assms(2)]
  note left = resume_gate [OF assms(3)]
  show ?thesis
  proof (cases "starts ?p")
    case None
    with count have "starts_under_way i ?ps = starts_under_way i (rt_pending rt)" for i by simp
    with None left assms(1) show ?thesis by (auto intro: gate_settle_other)
  next
    case (Some sid)
    have held: "(if i = sid then 1 else 0) + starts_under_way i ?ps
        = (if co_gates ?c i = Some True then 1 else 0)" for i
      using assms(1) count [of i] Some by (auto simp: gate_inv_def)
    moreover from held [of sid] have "co_gates ?c sid = Some True" by (simp split: if_splits)
    moreover have "gate_left sid ?c r" using left Some by simp
    ultimately show ?thesis by (intro gate_settle_start)
  qed
qed

lemma gate_update:
  "gate_inv rt \<Longrightarrow> co_gates c = co_gates (rt_coordinator rt) \<Longrightarrow> gate_inv (rt\<lparr>rt_coordinator := c\<rparr>)"
  by (simp add: gate_inv_def)

lemma shutdown_begin_suspends: "fst (shutdown_begin c) = Suspended q \<Longrightarrow> starts q = None"
  by (auto simp: shutdown_begin_def shutdown_wait_def Let_def split: sum.splits prod.splits if_splits)

theorem gates_reachable: "rt_reachable services rt \<Longrightarrow> gate_inv rt"
proof (induction rule: rt_reachable.induct)
  case rt_initial
  then show ?case by (simp add: gate_inv_def rt_new_def coordinator_new_def starts_under_way_def)
next
  case (rt_step rt e rt')
  have stop: "gate_inv (settle (rt_pending rt) (stop_begin sid (rt_coordinator rt)))" for sid
    using rt_step.IH stop_begin_suspends
    by (intro gate_settle_other) (auto, metis prod.collapse starts.simps(5))
  have shutdown: "gate_inv (settle (rt_pending rt) (shutdown_begin (rt_coordinator rt)))"
    using rt_step.IH shutdown_begin_suspends by (intro gate_settle_other) auto
  show ?case
    using rt_step stop shutdown
    by (cases e) (auto simp: on_task_def gate_begin gate_update split: if_splits dest: gate_resume)
qed

end
