(* ===== verification/Service_Lifecycle.thy ===== *)
theory Service_Lifecycle
  imports Coordinator_Safety
begin

text \<open>
  The promises of the runtime coordinator (\<open>application/coordinator.rs\<close>): what the shell publishes,
  which tasks run, what starting, stopping and shutting down do, that every operation returns, and
  the interleavings in which a service and its status part.
\<close>

section \<open>Every operation returns\<close>

text \<open>
  \<open>wait_out n p c\<close> resumes a suspended operation up to \<open>n\<close> times, each time because the task it
  awaits has ended, or else because its deadline has passed.
\<close>

fun awaited_ended :: "Pending \<Rightarrow> Coordinator \<Rightarrow> bool" where
  "awaited_ended (Resetting _ t) c = has_ended t c"
| "awaited_ended (Discarding _ t _) c = has_ended t c"
| "awaited_ended (StopWaiting _ t) c = has_ended t c"
| "awaited_ended (ShutdownWaiting ((_, t) # _) _) c = has_ended t c"
| "awaited_ended _ _ = False"

fun wait_out :: "nat \<Rightarrow> Pending \<Rightarrow> Coordinator \<Rightarrow> ((AppError + unit) \<times> Coordinator) option" where
  "wait_out 0 p c = None"
| "wait_out (Suc n) p c =
     (case resume (if awaited_ended p c then TaskDone else Deadline) p c of
        None \<Rightarrow> None
      | Some (Returned r, c) \<Rightarrow> Some (r, c)
      | Some (Suspended q, c) \<Rightarrow> wait_out n q c)"

fun wait_bound :: "Pending \<Rightarrow> nat" where
  "wait_bound (Resetting _ _) = 3"
| "wait_bound (AwaitingReady _) = 2"
| "wait_bound (ShutdownWaiting es _) = length es"
| "wait_bound _ = 1"

fun has_timer :: "Pending \<Rightarrow> bool" where
  "has_timer (Preparing _) = False"
| "has_timer (ShutdownWaiting es _) = (es \<noteq> [])"
| "has_timer _ = True"

lemma wait_out_done:
  "resume (if awaited_ended p c then TaskDone else Deadline) p c = Some (Returned r, c') \<Longrightarrow>
    wait_out (Suc n) p c = Some (r, c')"
  by simp

lemma wait_out_next:
  "resume (if awaited_ended p c then TaskDone else Deadline) p c = Some (Suspended q, c') \<Longrightarrow>
    wait_out (Suc n) p c = wait_out n q c'"
  by simp

lemma discard_end_returns: "\<exists>c'. discard_end sid e c = (Returned (Inl e), c')"
  by (simp add: discard_end_def release_gate_def)

lemma wait_discarding: "\<exists>r c'. wait_out (Suc n) (Discarding sid t e) c = Some (r, c')"
  using discard_end_returns [of sid e c] by fastforce

lemma finished_cases:
  obtains r c' where "start_finished sid ready c = (Returned r, c')"
  | t e c' where "start_finished sid ready c = (Suspended (Discarding sid t e), c')"
  using discard_end_returns [of sid _ "snd (take_running sid c)"]
  by (cases ready; cases "co_running c sid")
    (fastforce simp: start_finished_def discard_begin_def take_running_def release_gate_def)+

lemma wait_awaiting: "\<exists>r c'. wait_out (Suc (Suc n)) (AwaitingReady sid) c = Some (r, c')"
proof -
  have step: "resume (if awaited_ended (AwaitingReady sid) c then TaskDone else Deadline) (AwaitingReady sid) c
      = Some (await_expired sid c)" by simp
  show ?thesis
  proof (cases rule: finished_cases [of sid
        "Inl (timeout_error (service_named ''service '' sid '' did not report ready in time''))" c])
    case (1 r c')
    with step show ?thesis by (simp add: await_expired_def)
  next
    case (2 t e c')
    then have "wait_out (Suc (Suc n)) (AwaitingReady sid) c = wait_out (Suc n) (Discarding sid t e) c'"
      by (intro wait_out_next) (simp add: await_expired_def)
    with wait_discarding show ?thesis by metis
  qed
qed

lemma await_cases:
  obtains r c' where "await_ready sid c = (Returned r, c')"
  | q c' where "await_ready sid c = (Suspended q, c')" "q = AwaitingReady sid \<or> (\<exists>t e. q = Discarding sid t e)"
proof (cases "co_state sid c")
  case (Inl e)
  then show ?thesis
    using that by (cases rule: finished_cases [of sid "Inl e" c]) (auto simp: await_ready_def)
next
  case (Inr state)
  have finished: thesis if "await_ready sid c = start_finished sid ready c" for ready
    using that \<open>\<And>r c'. await_ready sid c = (Returned r, c') \<Longrightarrow> thesis\<close>
      \<open>\<And>q c'. await_ready sid c = (Suspended q, c') \<Longrightarrow> _ \<Longrightarrow> thesis\<close>
    by (cases rule: finished_cases [of sid ready c]) auto
  from Inr show ?thesis
    by (cases state) (auto simp: await_ready_def intro: that finished)
qed

lemma spawn_cases:
  obtains r c' where "start_spawn sid c = (Returned r, c')"
  | q c' where "start_spawn sid c = (Suspended q, c')" "q = AwaitingReady sid \<or> (\<exists>t e. q = Discarding sid t e)"
proof -
  consider (returned) r c' where "start_spawn sid c = (Returned r, c')"
    | (awaits) c' where "start_spawn sid c = await_ready sid c'"
    by (cases "co_running c sid"; cases "registry_transition sid Starting (co_registry c)";
        cases "registry_set_detail sid (lit ''starting'') (projr (registry_transition sid Starting (co_registry c)))")
      (auto simp: start_spawn_def release_gate_def Let_def)
  then show ?thesis
  proof cases
    case awaits
    then show ?thesis using that by (cases rule: await_cases [of sid c']) auto
  qed (rule that(1))
qed

lemma wait_started:
  "q = AwaitingReady sid \<or> (\<exists>t e. q = Discarding sid t e) \<Longrightarrow> \<exists>r c'. wait_out (Suc (Suc n)) q c = Some (r, c')"
  using wait_awaiting wait_discarding by blast

lemma reset_cases:
  obtains r c' where "start_reset ended sid c = (Returned r, c')"
  | q c' where "start_reset ended sid c = (Suspended q, c')" "q = AwaitingReady sid \<or> (\<exists>t e. q = Discarding sid t e)"
proof -
  obtain r c' where e: "stop_end ended sid c = (r, c')" by fastforce
  show ?thesis
  proof (cases r)
    case (Inl err)
    with e that(1) show ?thesis by (simp add: start_reset_def release_gate_def)
  next
    case (Inr u)
    with e that show ?thesis
      by (cases rule: spawn_cases [of sid c']) (auto simp: start_reset_def)
  qed
qed

lemma wait_resetting: "\<exists>r c'. wait_out (Suc (Suc (Suc n))) (Resetting sid t) c = Some (r, c')"
proof -
  have step: "resume (if awaited_ended (Resetting sid t) c then TaskDone else Deadline) (Resetting sid t) c
      = Some (start_reset (has_ended t c) sid c)" by simp
  show ?thesis
  proof (cases rule: reset_cases [of "has_ended t c" sid c])
    case (1 r c')
    then show ?thesis using wait_out_done [of "Resetting sid t" c r c'] step by auto
  next
    case (2 q c')
    then have "wait_out (Suc (Suc (Suc n))) (Resetting sid t) c = wait_out (Suc (Suc n)) q c'"
      using step by (intro wait_out_next) simp
    with wait_started [OF 2(2)] show ?thesis by metis
  qed
qed

lemma wait_shutdown: "es \<noteq> [] \<Longrightarrow> \<exists>r c'. wait_out (length es) (ShutdownWaiting es stuck) c = Some (r, c')"
proof (induction es arbitrary: stuck c)
  case (Cons e es)
  obtain sid t where e: "e = (sid, t)" by (cases e)
  have step: "resume (if awaited_ended (ShutdownWaiting (e # es) stuck) c then TaskDone else Deadline)
      (ShutdownWaiting (e # es) stuck) c = Some (shutdown_next (has_ended t c) (e # es) stuck c)"
    by (simp add: e)
  show ?case
  proof (cases es)
    case Nil
    with step show ?thesis by (auto simp: e shutdown_next_def shutdown_wait_def)
  next
    case (Cons x xs)
    then obtain stuck' c' where
      "shutdown_next (has_ended t c) (e # es) stuck c = (Suspended (ShutdownWaiting es stuck'), c')"
      by (cases "has_ended t c") (auto simp: shutdown_next_def shutdown_wait_def e)
    with step have "wait_out (length (e # es)) (ShutdownWaiting (e # es) stuck) c
        = wait_out (length es) (ShutdownWaiting es stuck') c'" by simp
    with Cons Cons.IH show ?thesis by simp
  qed
qed simp

lemma wait_out_returns: "has_timer p \<Longrightarrow> \<exists>r c'. wait_out (wait_bound p) p c = Some (r, c')"
proof (cases p)
  case (Resetting sid t)
  then show ?thesis using wait_resetting [of 0 sid t c] by (simp add: numeral_3_eq_3)
next
  case (AwaitingReady sid)
  then show ?thesis using wait_awaiting [of 0 sid c] by (simp add: numeral_2_eq_2)
next
  case (Discarding sid t e)
  then show ?thesis using wait_discarding [of 0 sid t e c] by simp
next
  case (StopWaiting sid t)
  then show ?thesis by (cases "has_ended t c"; cases "stop_end (has_ended t c) sid c") simp_all
qed (auto simp: wait_shutdown)

text \<open>What an operation suspends on has a timer, except that \<open>prepare\<close> may ask the user.\<close>

definition timed :: "Pending \<Rightarrow> bool" where
  "timed p \<longleftrightarrow> has_timer p \<or> (\<exists>sid. p = Preparing sid)"

definition timed_outcome :: "Outcome \<times> Coordinator \<Rightarrow> bool" where
  "timed_outcome r \<longleftrightarrow> (\<forall>q. fst r = Suspended q \<longrightarrow> timed q)"

lemma timed_started: "q = AwaitingReady sid \<or> (\<exists>t e. q = Discarding sid t e) \<Longrightarrow> timed q"
  by (auto simp: timed_def)

lemma timed_spawn: "timed_outcome (start_spawn sid c)"
  by (cases rule: spawn_cases [of sid c]) (auto simp: timed_outcome_def timed_def)

lemma timed_reset: "timed_outcome (start_reset ended sid c)"
  by (cases rule: reset_cases [of ended sid c]) (auto simp: timed_outcome_def timed_def)

lemma timed_await: "timed_outcome (await_ready sid c)"
  by (cases rule: await_cases [of sid c]) (auto simp: timed_outcome_def timed_def)

lemma timed_release [simp]: "timed_outcome (release_gate sid r c)"
  by (simp add: timed_outcome_def release_gate_def)

lemma timed_discard_end [simp]: "timed_outcome (discard_end sid e c)"
  by (simp add: discard_end_def)

lemma timed_finished: "timed_outcome (start_finished sid ready c)"
  by (cases rule: finished_cases [of sid ready c]) (auto simp: timed_outcome_def timed_def)

lemma timed_shutdown_wait [simp]: "timed_outcome (shutdown_wait es stuck c)"
  by (simp add: shutdown_wait_def timed_outcome_def timed_def)

lemma timed_shutdown: "timed_outcome (shutdown_begin c)" "timed_outcome (shutdown_next ended es stuck c)"
  by (auto simp: shutdown_begin_def Let_def timed_outcome_def timed_def shutdown_wait_def shutdown_next_def
      split: sum.splits prod.splits list.splits if_splits)

lemma timed_stop: "timed_outcome (stop_begin sid c)"
  using stop_begin_suspends [of sid c] by (auto simp: timed_outcome_def timed_def) (metis has_timer.simps(6) prod.collapse)

lemma timed_begin: "timed_outcome (start_begin preflight sid c)"
  by (auto simp: start_begin_def Let_def timed_outcome_def timed_def release_gate_def split: sum.split)

lemma timed_prepared: "timed_outcome (start_prepared prepared preflight sid c)"
proof -
  obtain out c' where e: "stop_begin sid c = (out, c')" by fastforce
  show ?thesis
  proof (cases out)
    case (Returned res)
    with e show ?thesis by (auto simp: start_prepared_def timed_spawn split: sum.split)
  next
    case (Suspended p)
    with e stop_begin_suspends obtain t where "p = StopWaiting sid t" by blast
    with e Suspended show ?thesis
      by (auto simp: start_prepared_def timed_spawn split: sum.split)
        (simp add: timed_outcome_def timed_def)
  qed
qed

lemma timed_returned [simp]: "timed_outcome (map_prod Returned id r)"
  by (simp add: timed_outcome_def)

lemma timed_resume: "resume w p c = Some r \<Longrightarrow> timed_outcome r"
  by (induction w p c rule: resume.induct)
    (auto simp: timed_prepared timed_reset timed_await timed_shutdown await_expired_def timed_finished
      split: if_splits)

lemma timed_settle: "timed_outcome r \<Longrightarrow> \<forall>p \<in> set ps. timed p \<Longrightarrow> \<forall>p \<in> set (rt_pending (settle ps r)). timed p"
  by (auto simp: settle_def timed_outcome_def split: prod.splits Outcome.splits)

lemma timed_reachable: "rt_reachable services rt \<Longrightarrow> \<forall>p \<in> set (rt_pending rt). timed p"
proof (induction rule: rt_reachable.induct)
  case rt_initial
  then show ?case by (simp add: rt_new_def)
next
  case (rt_step rt e rt')
  have rest: "\<forall>p \<in> set (take n (rt_pending rt) @ drop (Suc n) (rt_pending rt)). timed p" for n
    using rt_step.IH by (auto dest: in_set_takeD in_set_dropD)
  have resumed: "\<forall>p \<in> set (rt_pending (settle (take n (rt_pending rt) @ drop (Suc n) (rt_pending rt)) r)). timed p"
    if "resume w (rt_pending rt ! n) (rt_coordinator rt) = Some r" for n w r
    using timed_settle [OF timed_resume [OF that] rest] .
  show ?case
    using rt_step.hyps rt_step.IH resumed
      timed_settle [OF timed_begin rt_step.IH] timed_settle [OF timed_stop rt_step.IH]
      timed_settle [OF timed_shutdown(1) rt_step.IH]
    by (cases e) (auto simp: on_task_def split: if_splits)
qed


section \<open>What is published and what runs\<close>

text \<open>
  C27: What the shell publishes is well formed in every interleaving: the snapshot lists each
  supervised service exactly once, in the declared order, it is the snapshot that \<open>status\<close> returns,
  and every detail is within the display limit and free of control characters.
\<close>

theorem published_status_well_formed:
  assumes "rt_reachable services rt"
  shows "map status_id (runtime_services (co_status (rt_coordinator rt))) = coordinator_ids services
    \<and> reg_changes (co_registry (rt_coordinator rt)) = co_status (rt_coordinator rt)
    \<and> (\<forall>s \<in> set (runtime_services (co_status (rt_coordinator rt))).
         str_len (status_detail s) \<le> DETAIL_LIMIT + 3
         \<and> list_all (\<lambda>c. \<not> is_control c) (status_detail s))"
  using core_registry [OF core_reachable [OF assms]]
  by (auto simp: registry_inv_def registry_ids_def co_status_def snapshot_def status_inv_def)

text \<open>
  C13: No background task is orphaned. In every interleaving a task that was not told to stop is
  the one registered for its service, so the next stop, shutdown or failed start reaches it, and a
  service never has two tasks that were not told to stop.
\<close>

theorem task_never_orphaned:
  assumes "rt_reachable services rt" "co_tasks (rt_coordinator rt) t = Some k" "\<not> task_cancelled k"
  shows "co_running (rt_coordinator rt) (task_service k) = Some t
    \<and> (\<forall>t' k'. co_tasks (rt_coordinator rt) t' = Some k' \<longrightarrow> \<not> task_cancelled k'
         \<longrightarrow> task_service k' = task_service k \<longrightarrow> t' = t)"
proof (intro conjI allI impI)
  note tasks = core_task [OF core_reachable [OF assms(1)]]
  show held: "co_running (rt_coordinator rt) (task_service k) = Some t"
    using tasks [OF assms(2)] assms(3) by simp
  show "t' = t" if "co_tasks (rt_coordinator rt) t' = Some k'" "\<not> task_cancelled k'"
    "task_service k' = task_service k" for t' k'
    using tasks [OF that(1)] that(2,3) held by simp
qed

text \<open>
  C26: Starting a service twice at once is impossible: in every interleaving at most one start of a
  service is under way, and its gate is closed exactly while one is, so that a second start is
  refused and the first one's end admits the next.
\<close>

theorem one_start_per_service:
  assumes "rt_reachable services rt"
  shows "starts_under_way sid (rt_pending rt) \<le> 1
    \<and> (co_gates (rt_coordinator rt) sid = Some True \<longleftrightarrow> starts_under_way sid (rt_pending rt) = 1)"
  using gates_reachable [OF assms] by (simp add: gate_inv_def)

lemma running_simps [simp]:
  "co_running (cancel_task t c) = co_running c" "co_running (cancel_entries es c) = co_running c"
proof -
  show "co_running (cancel_entries es c) = co_running c"
    by (induction es arbitrary: c) (auto simp: cancel_entries_def cancel_task_def)
qed (simp add: cancel_task_def)

lemma running_shutdown_cancel [simp]: "co_running (snd (shutdown_cancel es c)) = co_running c"
  by (induction es c rule: shutdown_cancel.induct) (auto split: sum.split)

lemma running_shutdown: "co_running (snd (shutdown_begin c)) = Map.empty"
proof -
  obtain r c' where e: "shutdown_cancel (running_entries c) (c\<lparr>co_running := Map.empty\<rparr>) = (r, c')"
    by fastforce
  with running_shutdown_cancel [of "running_entries c" "c\<lparr>co_running := Map.empty\<rparr>"]
  have "co_running c' = Map.empty" by simp
  with e show ?thesis by (simp add: shutdown_begin_def Let_def split: sum.split)
qed

text \<open>
  A shutdown leaves nothing running uncancelled: at once, before it waits for any task, no task
  is registered any more and every task ever started has been told to stop.
\<close>

theorem shutdown_cancels_everything:
  assumes "rt_reachable services rt" "shutdown_begin (rt_coordinator rt) = (out, c)"
  shows "co_running c = Map.empty \<and> (\<forall>t k. co_tasks c t = Some k \<longrightarrow> task_cancelled k)"
proof -
  have "core_inv services {} c"
    using shutdown_begin_kept [OF core_reachable [OF assms(1)]] assms(2) by simp
  moreover have "co_running c = Map.empty" using running_shutdown [of "rt_coordinator rt"] assms(2) by simp
  ultimately show ?thesis using core_task [of services "{}" c] by auto
qed

section \<open>Starting and stopping\<close>

lemma co_state_of: "co_state sid c = ok_or (state_of (co_registry c) sid) (unknown_service_named sid)"
  by (simp add: co_state_def state_of_def)

lemma co_state_Inr [simp]: "co_state sid c = Inr a \<longleftrightarrow> state_of (co_registry c) sid = Some a"
  by (simp add: co_state_of ok_or_Inr_iff)

text \<open>
  An unmet precondition leaves the lifecycle untouched: when the first or the second check or
  the preparation fails, the start returns that very error, and the published status, the registered
  and spawned tasks and the hooks are as before; the gate is open again.
\<close>

theorem unmet_precondition_untouched:
  assumes "co_services c sid = Some s" "co_gates c sid = Some False" "co_state sid c = Inr state"
    and "\<not> is_live state"
  shows "start_begin (Inl e) sid c = (Returned (Inl e), c)
    \<and> (\<exists>c1. start_begin (Inr ()) sid c = (Suspended (Preparing sid), c1)
         \<and> start_prepared (Inl e) preflight sid c1 = (Returned (Inl e), c)
         \<and> start_prepared (Inr ()) (Inl e) sid c1 = (Returned (Inl e), c))"
  using assms
  by (simp add: start_begin_def start_prepared_def co_service_def release_gate_def set_gate_def
      co_state_of ok_or_Inr_iff fun_upd_idem)

lemma begin_start:
  assumes "co_services c sid = Some s" "co_gates c sid = Some False" "co_state sid c = Inr state"
    and "\<not> is_live state"
  shows "start_begin (Inr ()) sid c = (Suspended (Preparing sid), set_gate sid True c)"
  using assms by (simp add: start_begin_def co_service_def set_gate_def co_state_of ok_or_Inr_iff)

text \<open>A stopped service without a task spawns one and waits for it to report.\<close>

lemma spawn_stopped:
  assumes "state_of (co_registry c) sid = Some Stopped" "co_running c sid = None"
  obtains reg where "state_of reg = (state_of (co_registry c))(sid \<mapsto> Starting)"
    "start_spawn sid c = (Suspended (AwaitingReady sid), spawn_task sid (c\<lparr>co_registry := reg\<rparr>))"
proof -
  obtain reg1 where reg1: "registry_transition sid Starting (co_registry c) = Inr reg1"
    using transition_possible [OF assms(1)] by fastforce
  then have state1: "state_of reg1 = (state_of (co_registry c))(sid \<mapsto> Starting)"
    using state_transition by blast
  then obtain reg2 where reg2: "registry_set_detail sid (lit ''starting'') reg1 = Inr reg2"
    using set_detail_possible [of reg1 sid Starting] by fastforce
  then have state2: "state_of reg2 = (state_of (co_registry c))(sid \<mapsto> Starting)"
    using state_set_detail state1 by metis
  have "start_spawn sid c = await_ready sid (spawn_task sid (c\<lparr>co_registry := reg2\<rparr>))"
    using assms(2) reg1 reg2 by (simp add: start_spawn_def Let_def)
  also have "\<dots> = (Suspended (AwaitingReady sid), spawn_task sid (c\<lparr>co_registry := reg2\<rparr>))"
    using state2 by (simp add: await_ready_def co_state_of spawn_task_def)
  finally show ?thesis using that state2 by blast
qed

abbreviation states :: "Runtime \<Rightarrow> ServiceId \<Rightarrow> ServiceState option" where
  "states rt \<equiv> state_of (co_registry (rt_coordinator rt))"


section \<open>Where a service and its status part\<close>

text \<open>The runtime with one supervised service, and what its first start leads to.\<close>

definition sharing_only :: Runtime where
  "sharing_only = rt_new [\<lparr>service_id = ServerSharing, service_autostart = True\<rparr>]"

definition sharing_started :: "Event list" where
  "sharing_started =
     [CallStart (Inr ()) ServerSharing, Resume 0 (Prepared (Inr ()) (Inr ())), TaskReady 0, Resume 0 Changed]"

definition reaches :: "Event list \<Rightarrow> (Runtime \<Rightarrow> bool) \<Rightarrow> bool" where
  "reaches events P = (case rt_run events sharing_only of None \<Rightarrow> False | Some rt \<Rightarrow> P rt)"

lemma reaches_reachable:
  "reaches events P \<Longrightarrow> \<exists>rt. rt_reachable [\<lparr>service_id = ServerSharing, service_autostart = True\<rparr>] rt \<and> P rt"
  using rt_run_reachable [OF rt_initial] by (auto simp: reaches_def sharing_only_def split: option.splits)

text \<open>What evaluates a run by rewriting.\<close>

lemmas run_defs = reaches_def sharing_started_def sharing_only_def rt_new_def coordinator_new_def
  coordinator_ids_def ServiceId_ALL_def settle_def start_begin_def co_service_def set_gate_def
  co_state_def registry_status_def registry_new_def ServiceStatus_stopped_def start_prepared_def
  start_spawn_def registry_transition_def status_entry_def transition_def publish_def
  registry_set_detail_def await_ready_def spawn_task_def on_task_def has_ended_def task_ready_def
  reporter_ready_def start_finished_def release_gate_def call_hook_def set_detail_def Let_def
  stop_begin_def take_running_def to_stopping_def cancel_task_def co_record_def record_state_def
  task_end_def supervise_end_def stop_end_def settle_stopped_def await_expired_def discard_begin_def
  discard_end_def

fun refused :: "Outcome \<Rightarrow> bool" where
  "refused (Returned (Inl e)) = (err_code e = InvalidState)"
| "refused _ = False"

text \<open>
  The stop of a service whose first stop still waits finds no task to cancel and settles the service
  to stopped, although its task goes on; a start then spawns a second task beside it.
\<close>

definition two_tasks :: "Runtime \<Rightarrow> bool" where
  "two_tasks rt \<longleftrightarrow> \<not> has_ended 0 (rt_coordinator rt) \<and> \<not> has_ended 1 (rt_coordinator rt)
     \<and> co_running (rt_coordinator rt) ServerSharing = Some 1"

definition second_stop :: "Event list" where
  "second_stop = sharing_started @
     [CallStop ServerSharing, CallStop ServerSharing,
      CallStart (Inr ()) ServerSharing, Resume 0 (Prepared (Inr ()) (Inr ())), TaskReady 1, Resume 0 Changed]"

lemma second_stop_two_tasks: "reaches second_stop two_tasks"
  by (simp add: run_defs second_stop_def two_tasks_def)

text \<open>
  If that second task fails while the first stop still waits, the end of the first task settles the
  failed service to stopped, with the second task still registered.
\<close>

definition locked_out :: "Runtime \<Rightarrow> bool" where
  "locked_out rt \<longleftrightarrow> (let c = rt_coordinator rt in
     rt_pending rt = [] \<and> list_all (\<lambda>t. has_ended t c) [0..<co_next c]
     \<and> refused (fst (stop_begin ServerSharing c))
     \<and> (case start_begin (Inr ()) ServerSharing c of
          (Suspended (Preparing sid), c) \<Rightarrow> refused (fst (start_prepared (Inr ()) (Inr ()) sid c))
        | _ \<Rightarrow> False))"

text \<open>
  C40: Two overlapping stops can lock a service out: there is an order of calls and events after
  which no operation is under way and no task is left, and yet the service can neither be started
  (it is said to be already active) nor stopped (it is said to be not running).
\<close>

theorem service_can_be_locked_out:
  "\<exists>rt. rt_reachable [\<lparr>service_id = ServerSharing, service_autostart = True\<rparr>] rt \<and> locked_out rt"
proof (rule reaches_reachable)
  show "reaches (second_stop @ [TaskEnd 1 (Inl (internal_error [])), TaskEnd 0 (Inr ()), Resume 0 TaskDone])
      locked_out"
    by (simp add: run_defs second_stop_def locked_out_def)
qed

text \<open>
  A start that timed out is published as a crash when its task obeys the cancellation: \<open>supervise\<close>
  records an unexpected end before \<open>discard\<close> can record the timeout.
\<close>

definition published_crash :: "Runtime \<Rightarrow> bool" where
  "published_crash rt \<longleftrightarrow> rt_pending rt = [] \<and>
     map_option status_detail (registry_status ServerSharing (co_registry (rt_coordinator rt)))
       = Some (sanitize_text (lit ''stopped unexpectedly [internal]'') DETAIL_LIMIT)"

lemma timeout_published_as_crash:
  "reaches [CallStart (Inr ()) ServerSharing, Resume 0 (Prepared (Inr ()) (Inr ())), Resume 0 Deadline,
      TaskEnd 0 (Inr ()), Resume 0 TaskDone] published_crash"
  by (simp add: run_defs published_crash_def)

text \<open>
  A stop of a service that is starting leaves the start waiting, with its gate closed, until its
  deadline: it looks only for readiness or failure.
\<close>

definition start_lingers :: "Runtime \<Rightarrow> bool" where
  "start_lingers rt \<longleftrightarrow> rt_pending rt = [AwaitingReady ServerSharing] \<and> states rt ServerSharing = Some Stopped
     \<and> refused (fst (start_begin (Inr ()) ServerSharing (rt_coordinator rt)))"

lemma stopped_start_lingers:
  "reaches [CallStart (Inr ()) ServerSharing, Resume 0 (Prepared (Inr ()) (Inr ())), CallStop ServerSharing,
      TaskEnd 0 (Inr ()), Resume 0 TaskDone, Resume 0 Changed] start_lingers"
  by (simp add: run_defs start_lingers_def state_of_def)

section \<open>Concrete runs\<close>

definition example_runtime :: Runtime where
  "example_runtime = the (rt_run sharing_started sharing_only)"

lemma example_runtime_run: "rt_run sharing_started sharing_only = Some example_runtime"
proof -
  have "rt_run sharing_started sharing_only \<noteq> None" by (simp add: run_defs)
  then show ?thesis by (simp add: example_runtime_def)
qed

lemma example_runtime_reachable:
  "rt_reachable [\<lparr>service_id = ServerSharing, service_autostart = True\<rparr>] example_runtime"
  using rt_run_reachable [OF rt_initial example_runtime_run [unfolded sharing_only_def]] .

definition example_waiting :: Runtime where
  "example_waiting = the (rt_event (CallStop ServerSharing) example_runtime)"

lemma example_waiting_reachable:
  "rt_reachable [\<lparr>service_id = ServerSharing, service_autostart = True\<rparr>] example_waiting"
proof -
  have "rt_event (CallStop ServerSharing) example_runtime = Some example_waiting"
    by (simp add: example_waiting_def)
  from rt_step [OF example_runtime_reachable this] show ?thesis .
qed


theorem published_status_well_formed_witness:
  "map status_id (runtime_services (co_status (rt_coordinator example_runtime))) = [ServerSharing]"
proof -
  have "coordinator_ids [\<lparr>service_id = ServerSharing, service_autostart = True\<rparr>] = [ServerSharing]"
    by (simp add: coordinator_ids_def ServiceId_ALL_def)
  with published_status_well_formed [OF example_runtime_reachable] show ?thesis by simp
qed

theorem task_never_orphaned_witness: "co_running (rt_coordinator example_runtime) ServerSharing = Some 0"
proof -
  have "co_tasks (rt_coordinator example_runtime) 0
      = Some \<lparr>task_service = ServerSharing, task_cancelled = False, task_ended = False\<rparr>"
    by (simp add: example_runtime_def run_defs)
  from task_never_orphaned [OF example_runtime_reachable this] show ?thesis by simp
qed

theorem one_start_per_service_witness: "co_gates (rt_coordinator example_runtime) ServerSharing \<noteq> Some True"
proof -
  have "rt_pending example_runtime = []" by (simp add: example_runtime_def run_defs)
  then have "starts_under_way ServerSharing (rt_pending example_runtime) = 0"
    by (simp add: starts_under_way_def)
  with one_start_per_service [OF example_runtime_reachable, of ServerSharing] show ?thesis by simp
qed

theorem shutdown_cancels_everything_witness:
  "\<forall>t k. co_tasks (snd (shutdown_begin (rt_coordinator example_runtime))) t = Some k \<longrightarrow> task_cancelled k"
  using shutdown_cancels_everything [OF example_runtime_reachable
      prod.collapse [of "shutdown_begin (rt_coordinator example_runtime)", symmetric]] by blast

theorem unmet_precondition_untouched_witness:
  "start_begin (Inl (invalid_input [])) ServerSharing (rt_coordinator sharing_only)
    = (Returned (Inl (invalid_input [])), rt_coordinator sharing_only)"
proof -
  have "co_services (rt_coordinator sharing_only) ServerSharing
      = Some \<lparr>service_id = ServerSharing, service_autostart = True\<rparr>"
    "co_gates (rt_coordinator sharing_only) ServerSharing = Some False"
    "co_state ServerSharing (rt_coordinator sharing_only) = Inr Stopped" "\<not> is_live Stopped"
    by (simp_all add: run_defs)
  from unmet_precondition_untouched [OF this] show ?thesis by blast
qed


end
