(* ===== verification/Settings_File.thy ===== *)
theory Settings_File
  imports Rust_Prelude
begin

text \<open>
  A settings file that holds one value as JSON, as the application layer keeps several (the shared
  printers, the login choice, the record of the import). The codec is the crate \<open>serde_json\<close>, which
  reads back what it wrote: a file is its decoded content, or what reading it gives instead. Writing
  has the outcomes of \<open>create_dir_all\<close> and \<open>write\<close>; a failed write may leave anything behind.
\<close>

datatype 'a SettingsFile = FileMissing | FileUnreadable | FileGarbled | FileHolds 'a

datatype 'a SaveOutcome = DirectoryFails | WriteFails "'a SettingsFile" | Saved

definition save_value :: "'a SaveOutcome \<Rightarrow> 'a \<Rightarrow> 'a SettingsFile \<Rightarrow> bool \<times> 'a SettingsFile" where
  "save_value outcome v file =
     (case outcome of
        DirectoryFails \<Rightarrow> (False, file)
      | WriteFails left \<Rightarrow> (False, left)
      | Saved \<Rightarrow> (True, FileHolds v))"

lemma save_value_ok: "save_value outcome v file = (True, file') \<longleftrightarrow> outcome = Saved \<and> file' = FileHolds v"
  by (auto simp: save_value_def split: SaveOutcome.splits)

end
