(* ===== verification/Sharing_Selection.thy ===== *)
theory Sharing_Selection
  imports Queue_Routing Settings_File "HOL-Library.Product_Lexorder"
begin

text \<open>
  \<open>application/sharing.rs\<close>, the printers a server user chose to share with the file that keeps the
  choice, and the catalogue of local queues in \<open>application/printers.rs\<close>. What the spooler reports
  is an argument of each operation that asks it, and so is the outcome of writing the file.
\<close>

section \<open>The catalogue of local queues\<close>

fun eligible_printers :: "(SpoolerRecord \<Rightarrow> SpoolerRecordClassification) \<Rightarrow> SpoolerRecord list \<Rightarrow> PrinterName list" where
  "eligible_printers cls [] = []"
| "eligible_printers cls (r # rs) =
     (case cls r of
        EligibleLocal name \<Rightarrow> name # eligible_printers cls rs
      | _ \<Rightarrow> eligible_printers cls rs)"

definition catalog_local_printers ::
  "(bytes \<Rightarrow> bytes) \<Rightarrow> ustr \<Rightarrow> (AppError + SpoolerRecord list) \<Rightarrow> AppError + PrinterName list" where
  "catalog_local_printers sha256 proxy_authority spooler =
     and_then spooler (\<lambda>records.
     Inr (remdups_adj (sort (eligible_printers (\<lambda>r. classify sha256 r proxy_authority) records))))"

fun recognised_queues ::
  "(SpoolerRecord \<Rightarrow> SpoolerRecordClassification) \<Rightarrow> SpoolerRecord list \<Rightarrow> RecognisedClientQueue list" where
  "recognised_queues cls [] = []"
| "recognised_queues cls (r # rs) =
     (case cls r of
        RecognisedQueue queue \<Rightarrow> queue # recognised_queues cls rs
      | _ \<Rightarrow> recognised_queues cls rs)"

text \<open>The derived order compares the fields in the order of their declaration.\<close>

definition queue_order :: "RecognisedClientQueue \<Rightarrow> ustr \<times> ustr \<times> ustr" where
  "queue_order q =
     (ClientQueueName_as_str (recognised_queue_name q), recognised_server_address q,
      PrinterName_as_str (recognised_printer_name q))"

definition catalog_client_queues ::
  "(bytes \<Rightarrow> bytes) \<Rightarrow> ustr \<Rightarrow> (AppError + SpoolerRecord list) \<Rightarrow> AppError + RecognisedClientQueue list" where
  "catalog_client_queues sha256 proxy_authority spooler =
     and_then spooler (\<lambda>records.
     Inr (remdups_adj (sort_key queue_order
       (recognised_queues (\<lambda>r. classify sha256 r proxy_authority) records))))"

section \<open>The selection\<close>

record SavedSharing =
  saved_enabled :: bool
  saved_printers :: "ustr list"

record LocalPrinter =
  local_name :: PrinterName
  local_shared :: bool

record Sharing =
  sharing_selection :: SharedPrinters
  sharing_published :: SharedPrinters
  sharing_has_file :: bool
  sharing_enabled :: bool
  sharing_file :: "SavedSharing SettingsFile"

definition saved_names :: "ustr list \<Rightarrow> PrinterName list" where
  "saved_names ss = List.map_filter (\<lambda>s. ok (PrinterName_parse s)) ss"

definition with_persistence :: "bool \<Rightarrow> SavedSharing SettingsFile \<Rightarrow> Sharing" where
  "with_persistence has_file file =
     (let (enabled, initial_printers) =
        (case (if has_file then file else FileMissing) of
           FileHolds settings \<Rightarrow>
             (saved_enabled settings, SharedPrinters_new (saved_names (saved_printers settings)))
         | _ \<Rightarrow> (False, SharedPrinters []))
      in \<lparr>sharing_selection = initial_printers, sharing_published = initial_printers,
          sharing_has_file = has_file, sharing_enabled = enabled, sharing_file = file\<rparr>)"

definition list_local_printers ::
  "(AppError + PrinterName list) \<Rightarrow> Sharing \<Rightarrow> AppError + LocalPrinter list" where
  "list_local_printers catalog sh =
     and_then catalog (\<lambda>queues.
     Inr (map (\<lambda>name. \<lparr>local_name = name,
                      local_shared = SharedPrinters_contains (sharing_selection sh) name\<rparr>) queues))"

definition persist_sharing :: "SavedSharing SaveOutcome \<Rightarrow> Sharing \<Rightarrow> (AppError + unit) \<times> Sharing" where
  "persist_sharing outcome sh =
     (if \<not> sharing_has_file sh then (Inr (), sh)
      else
        let saved = \<lparr>saved_enabled = sharing_enabled sh,
                     saved_printers = map PrinterName_as_str (SharedPrinters_as_slice (sharing_selection sh))\<rparr>;
            (written, file) = save_value outcome saved (sharing_file sh)
        in (if written then Inr ()
            else Inl (internal_error
                   (if outcome = DirectoryFails then lit ''cannot create settings directory''
                    else lit ''cannot write server sharing settings'')),
            sh\<lparr>sharing_file := file\<rparr>))"

definition publish_selection :: "SharedPrinters \<Rightarrow> Sharing \<Rightarrow> Sharing" where
  "publish_selection selection sh =
     (if sharing_published sh \<noteq> selection then sh\<lparr>sharing_published := selection\<rparr> else sh)"

definition not_a_local_queue :: "PrinterName \<Rightarrow> AppError" where
  "not_a_local_queue name =
     invalid_input ([39] @ PrinterName_as_str name @ [39] @ lit '' is not a local printer queue'')"

text \<open>\<open>catalog\<close> and \<open>catalog2\<close> are the answers to the two questions the operation asks the spooler.\<close>

definition set_shared ::
  "(AppError + PrinterName list) \<Rightarrow> SavedSharing SaveOutcome \<Rightarrow> (AppError + PrinterName list) \<Rightarrow>
   PrinterName list \<Rightarrow> Sharing \<Rightarrow> (AppError + LocalPrinter list) \<times> Sharing" where
  "set_shared catalog outcome catalog2 names sh =
     (case catalog of
        Inl e \<Rightarrow> (Inl e, sh)
      | Inr queues \<Rightarrow>
          (case List.find (\<lambda>name. name \<notin> set queues) names of
             Some name \<Rightarrow> (Inl (not_a_local_queue name), sh)
           | None \<Rightarrow>
               let selection = SharedPrinters_new names;
                   sh = publish_selection selection (sh\<lparr>sharing_selection := selection\<rparr>)
               in (case persist_sharing outcome sh of
                     (Inl e, sh) \<Rightarrow> (Inl e, sh)
                   | (Inr _, sh) \<Rightarrow> (list_local_printers catalog2 sh, sh))))"

definition set_sharing_enabled ::
  "SavedSharing SaveOutcome \<Rightarrow> bool \<Rightarrow> Sharing \<Rightarrow> (AppError + unit) \<times> Sharing" where
  "set_sharing_enabled outcome enabled sh = persist_sharing outcome (sh\<lparr>sharing_enabled := enabled\<rparr>)"

definition is_autostart_enabled :: "Sharing \<Rightarrow> bool" where
  "is_autostart_enabled sh \<longleftrightarrow>
     sharing_enabled sh \<and> SharedPrinters_as_slice (sharing_selection sh) \<noteq> []"

definition restore_sharing ::
  "(AppError + PrinterName list) \<Rightarrow> SavedSharing SaveOutcome \<Rightarrow> Sharing \<Rightarrow> (AppError + unit) \<times> Sharing" where
  "restore_sharing catalog outcome sh =
     (case catalog of
        Inl e \<Rightarrow> (Inl e, sh)
      | Inr queues \<Rightarrow>
          if queues = [] then (Inr (), sh)
          else
            let current = SharedPrinters_as_slice (sharing_selection sh);
                updated = filter (\<lambda>p. p \<in> set queues) current;
                changed = list_ex (\<lambda>p. p \<notin> set queues) current
            in if \<not> changed then (Inr (), sh)
               else
                 let selection = SharedPrinters_new updated;
                     sh = (if SharedPrinters_is_empty selection
                           then sh\<lparr>sharing_enabled := False\<rparr> else sh);
                     sh = publish_selection selection (sh\<lparr>sharing_selection := selection\<rparr>)
                 in persist_sharing outcome sh)"

section \<open>What is shared\<close>

lemma set_eligible: "set (eligible_printers cls rs) = {name. \<exists>r \<in> set rs. cls r = EligibleLocal name}"
  by (induction rs) (auto split: SpoolerRecordClassification.split)

lemma set_recognised: "set (recognised_queues cls rs) = {q. \<exists>r \<in> set rs. cls r = RecognisedQueue q}"
  by (induction rs) (auto split: SpoolerRecordClassification.split)

lemma sorted_remdups_adj_distinct: "sorted (xs :: 'a::linorder list) \<Longrightarrow> distinct (remdups_adj xs)"
  by (induction xs rule: remdups_adj.induct) (auto simp: dest: order.antisym)

text \<open>The catalogue: every eligible queue once, in order, and nothing else.\<close>

lemma catalog_local_printers_Inr:
  assumes "catalog_local_printers sha256 auth (Inr records) = Inr queues"
  shows "sorted queues \<and> distinct queues
    \<and> set queues = {name. \<exists>r \<in> set records. classify sha256 r auth = EligibleLocal name}"
  using assms
  by (auto simp: catalog_local_printers_def set_eligible sorted_remdups_adj sorted_remdups_adj_distinct)

lemma publish_selection_simps [simp]:
  "sharing_selection (publish_selection s sh) = sharing_selection sh"
  "sharing_published (publish_selection s sh) = s"
  "sharing_enabled (publish_selection s sh) = sharing_enabled sh"
  "sharing_has_file (publish_selection s sh) = sharing_has_file sh"
  "sharing_file (publish_selection s sh) = sharing_file sh"
  by (simp_all add: publish_selection_def)

lemma persist_sharing_simps [simp]:
  "sharing_selection (snd (persist_sharing outcome sh)) = sharing_selection sh"
  "sharing_published (snd (persist_sharing outcome sh)) = sharing_published sh"
  "sharing_enabled (snd (persist_sharing outcome sh)) = sharing_enabled sh"
  "sharing_has_file (snd (persist_sharing outcome sh)) = sharing_has_file sh"
  by (simp_all add: persist_sharing_def Let_def split: prod.split)

text \<open>
  In every state of a run the selection is free of repetitions, what is published is the selection,
  and names are valid.
\<close>

definition sharing_inv :: "Sharing \<Rightarrow> bool" where
  "sharing_inv sh \<longleftrightarrow> distinct (SharedPrinters_as_slice (sharing_selection sh))
     \<and> sharing_published sh = sharing_selection sh
     \<and> (\<forall>p \<in> set (SharedPrinters_as_slice (sharing_selection sh)). wf_name (PrinterName_as_str p))"

lemma as_slice_new [simp]: "SharedPrinters_as_slice (SharedPrinters_new names) = select_loop [] names"
  by (simp add: SharedPrinters_new_def)

lemma select_loop_id: "distinct (acc @ names) \<Longrightarrow> select_loop acc names = acc @ names"
  by (induction acc names rule: select_loop.induct) auto

lemma set_map_filter_eq: "set (List.map_filter f xs) = {y. \<exists>x \<in> set xs. f x = Some y}"
  by (force simp: List.map_filter_def)

lemma with_persistence_inv: "sharing_inv (with_persistence has_file file)"
proof -
  have "wf_name (PrinterName_as_str p)" if "p \<in> set (saved_names ss)" for p ss
    using that by (auto simp: saved_names_def set_map_filter_eq PrinterName_parse_Inr_iff ok_Some_iff)
  then show ?thesis
    by (auto simp: sharing_inv_def with_persistence_def Let_def select_loop_distinct select_loop_set
        split: SettingsFile.split)
qed

lemma set_shared_inv:
  assumes "sharing_inv sh" "\<forall>p \<in> set names. wf_name (PrinterName_as_str p)"
  shows "sharing_inv (snd (set_shared catalog outcome catalog2 names sh))"
proof -
  let ?new = "publish_selection (SharedPrinters_new names) (sh\<lparr>sharing_selection := SharedPrinters_new names\<rparr>)"
  have "sharing_inv (snd (persist_sharing outcome ?new))"
    using assms(2) by (auto simp: sharing_inv_def select_loop_distinct select_loop_set)
  then show ?thesis
    using assms(1) by (auto simp: set_shared_def Let_def split: sum.split option.split prod.split)
qed

lemma restore_inv:
  assumes "sharing_inv sh"
  shows "sharing_inv (snd (restore_sharing catalog outcome sh))"
  using assms
  by (auto simp: restore_sharing_def Let_def sharing_inv_def select_loop_distinct select_loop_set
      split: sum.split)

lemma set_enabled_inv: "sharing_inv sh \<Longrightarrow> sharing_inv (snd (set_sharing_enabled outcome enabled sh))"
  by (simp add: sharing_inv_def set_sharing_enabled_def)

text \<open>What was written is what the next start of the program finds.\<close>

lemma saved_names_as_str:
  "\<forall>p \<in> set ps. wf_name (PrinterName_as_str p) \<Longrightarrow> saved_names (map PrinterName_as_str ps) = ps"
proof (induction ps)
  case (Cons p ps)
  then have "PrinterName_parse (PrinterName_as_str p) = Inr p"
    by (simp add: PrinterName_parse_Inr_iff wf_name_def)
  with Cons show ?case by (simp add: saved_names_def List.map_filter_simps)
qed (simp add: saved_names_def List.map_filter_simps)

lemma persisted_is_restored:
  assumes "persist_sharing outcome sh = (Inr (), sh')" "sharing_has_file sh" "sharing_inv sh"
  shows "with_persistence True (sharing_file sh') = sh'"
proof -
  from assms(1,2) have sh': "sh' = sh\<lparr>sharing_file := FileHolds
      \<lparr>saved_enabled = sharing_enabled sh,
       saved_printers = map PrinterName_as_str (SharedPrinters_as_slice (sharing_selection sh))\<rparr>\<rparr>"
    by (auto simp: persist_sharing_def Let_def save_value_def split: prod.splits if_splits SaveOutcome.splits)
  have "SharedPrinters_new (SharedPrinters_as_slice (sharing_selection sh)) = sharing_selection sh"
    using assms(3) select_loop_id [of "[]"] by (cases "sharing_selection sh") (simp add: sharing_inv_def SharedPrinters_new_def)
  with assms(2,3) show ?thesis
    by (simp add: sh' with_persistence_def saved_names_as_str sharing_inv_def)
qed

lemma set_shared_Inr:
  assumes "set_shared catalog outcome catalog2 names sh = (Inr listed, sh')"
  obtains queues where "catalog = Inr queues" "set names \<subseteq> set queues"
    "persist_sharing outcome (publish_selection (SharedPrinters_new names)
       (sh\<lparr>sharing_selection := SharedPrinters_new names\<rparr>)) = (Inr (), sh')"
    "list_local_printers catalog2 sh' = Inr listed"
  using assms
  by (auto simp: set_shared_def Let_def find_None_iff subset_iff
      split: sum.splits option.splits prod.splits)

text \<open>
  C24: The choice of shared printers survives a restart: once the user's selection and the decision to
  share were stored successfully, a program that starts on the same data directory has exactly the
  state the running one has, with the selected names in order without repetitions, what is published
  to the endpoint and the advertisement equal to it, and the decision.
\<close>

theorem sharing_survives_restart:
  assumes "sharing_inv sh" "\<forall>p \<in> set names. wf_name (PrinterName_as_str p)" "sharing_has_file sh"
    and "set_shared catalog outcome catalog2 names sh = (Inr listed, sh1)"
    and "set_sharing_enabled outcome2 enabled sh1 = (Inr (), sh2)"
  shows "with_persistence True (sharing_file sh1) = sh1 \<and> with_persistence True (sharing_file sh2) = sh2
    \<and> SharedPrinters_as_slice (sharing_selection sh2) = rev (remdups (rev names))
    \<and> sharing_published sh2 = sharing_selection sh2 \<and> sharing_enabled sh2 = enabled"
proof -
  let ?new = "publish_selection (SharedPrinters_new names) (sh\<lparr>sharing_selection := SharedPrinters_new names\<rparr>)"
  from assms(4) have p: "persist_sharing outcome ?new = (Inr (), sh1)" by (rule set_shared_Inr)
  have new: "sharing_inv ?new"
    using assms(2) by (auto simp: sharing_inv_def select_loop_distinct select_loop_set)
  have one: "with_persistence True (sharing_file sh1) = sh1"
    using persisted_is_restored [OF p _ new] assms(3) by simp
  from p have sh1: "sharing_inv sh1" "sharing_has_file sh1"
    "sharing_selection sh1 = SharedPrinters_new names"
    using set_shared_inv [OF assms(1,2), of catalog outcome catalog2] assms(3,4)
      persist_sharing_simps [of outcome ?new] by simp_all
  then have two: "with_persistence True (sharing_file sh2) = sh2"
    using persisted_is_restored [of outcome2 "sh1\<lparr>sharing_enabled := enabled\<rparr>"] assms(5)
    by (simp add: set_sharing_enabled_def sharing_inv_def)
  have sh2: "sharing_selection sh2 = sharing_selection sh1" "sharing_published sh2 = sharing_published sh1"
    "sharing_enabled sh2 = enabled"
    using assms(5) persist_sharing_simps [of outcome2 "sh1\<lparr>sharing_enabled := enabled\<rparr>"]
    by (simp_all add: set_sharing_enabled_def)
  with one two sh1 show ?thesis
    by (simp add: sharing_inv_def select_loop_eq)
qed


text \<open>A queue the spooler lost is no longer shared; when none is left, sharing does not start again.\<close>

lemma restore_selection:
  assumes "restore_sharing (Inr queues) outcome sh = (res, sh')" "queues \<noteq> []" "sharing_inv sh"
  shows "SharedPrinters_as_slice (sharing_selection sh')
      = filter (\<lambda>p. p \<in> set queues) (SharedPrinters_as_slice (sharing_selection sh))"
proof (cases "list_ex (\<lambda>p. p \<notin> set queues) (SharedPrinters_as_slice (sharing_selection sh))")
  case True
  let ?kept = "filter (\<lambda>p. p \<in> set queues) (SharedPrinters_as_slice (sharing_selection sh))"
  have "select_loop [] ?kept = ?kept" using assms(3) select_loop_id [of "[]" ?kept] by (simp add: sharing_inv_def)
  moreover have "sharing_selection sh' = SharedPrinters_new ?kept"
    using True assms persist_sharing_simps(1)
    by (auto simp: restore_sharing_def Let_def dest!: arg_cong [of "persist_sharing _ _" _ "\<lambda>x. sharing_selection (snd x)"])
  ultimately show ?thesis by simp
next
  case False
  then have "filter (\<lambda>p. p \<in> set queues) (SharedPrinters_as_slice (sharing_selection sh))
      = SharedPrinters_as_slice (sharing_selection sh)"
    by (auto simp: list_ex_iff intro: filter_True)
  with False assms show ?thesis by (simp add: restore_sharing_def Let_def)
qed

end
