(* ===== verification/Troubleshooting.thy ===== *)
theory Troubleshooting
  imports Trust_Store Domain_Service
begin

text \<open>
  \<open>application/troubleshooting.rs\<close>: the passive inspection of one installed client queue. What it
  asks (the spooler, the number of pending jobs, the server, the local channel, the last refusal) is
  an argument; an answer that does not come before the deadline is \<open>None\<close>.
\<close>

section \<open>Native evidence\<close>

datatype LocalQueueInspection = Matching "u32 option" | Missing | Mismatched

definition from_record ::
  "(bytes \<Rightarrow> bytes) \<Rightarrow> SpoolerRecord \<Rightarrow> RecognisedClientQueue \<Rightarrow> ustr \<Rightarrow> u32 option
    \<Rightarrow> LocalQueueInspection" where
  "from_record sha256 record target proxy_authority pending_jobs =
     (case classify sha256 record proxy_authority of
        RecognisedQueue queue \<Rightarrow>
          if queue = target then LocalQueueInspection.Matching pending_jobs else Mismatched
      | _ \<Rightarrow> Mismatched)"

section \<open>Findings\<close>

datatype LocalFinding =
    SpoolerReady | SpoolerUnavailable | SpoolerUnknown | InspectionTimeout
  | QueueMatching | QueueMissing | QueueMismatched | QueueUnknown
  | QueueEmpty | PendingJobs | PendingUnknown | PendingNotApplicable
  | ProxyRunning | ProxyStopped | ProxyUnknown | ServerReachable
  | ServerUnreachable | ServerReachabilityTimeout | ServerReachabilityUnknown | ServerIdentityMatching
  | ServerNotTrusted | ServerIdentityChanged | ServerIdentityUnknown | ServerIdentityNotApplicable
  | PrinterShared | PrinterNotShared | PrinterAvailabilityUnknown | PrinterAvailabilityNotApplicable
  | ChannelAuthorizationRejected | ChannelConfiguredUnobserved | ChannelUnconfigured | ChannelNotApplicable
  | FirewallInspectionUnavailable

text \<open>Check id, outcome, explanation and code of each finding.\<close>

primrec description :: "LocalFinding \<Rightarrow> ustr \<times> ustr \<times> ustr \<times> ErrorCode option" where
  "description SpoolerReady = (lit ''spooler'', lit ''passed'', lit ''The native print spooler responded.'', None)"
| "description SpoolerUnavailable = (lit ''spooler'', lit ''failed'', lit ''The native print spooler is unavailable. Check the Windows Print Spooler service or the Linux CUPS service.'', Some ErrorCode.QueueUnavailable)"
| "description SpoolerUnknown = (lit ''spooler'', lit ''inconclusive'', lit ''The native print spooler could not be inspected.'', None)"
| "description InspectionTimeout = (lit ''spooler'', lit ''inconclusive'', lit ''Native queue inspection did not finish within 15 seconds.'', Some ErrorCode.Timeout)"
| "description QueueMatching = (lit ''client-queue'', lit ''passed'', lit ''The installed Client queue matches the selected Server and shared printer.'', None)"
| "description QueueMissing = (lit ''client-queue'', lit ''failed'', lit ''The selected Client queue is no longer installed.'', Some ErrorCode.QueueUnavailable)"
| "description QueueMismatched = (lit ''client-queue'', lit ''failed'', lit ''The queue name exists but its destination does not match the selected Server and shared printer.'', Some ErrorCode.QueueUnavailable)"
| "description QueueUnknown = (lit ''client-queue'', lit ''inconclusive'', lit ''The selected Client queue could not be inspected.'', None)"
| "description QueueEmpty = (lit ''pending-jobs'', lit ''passed'', lit ''No pending print jobs were observed in this Client queue.'', None)"
| "description PendingJobs = (lit ''pending-jobs'', lit ''failed'', lit ''Print jobs are pending. Wait for them to finish or inspect the native queue before testing or repairing.'', Some ErrorCode.InvalidState)"
| "description PendingUnknown = (lit ''pending-jobs'', lit ''inconclusive'', lit ''Pending print jobs could not be read. Testing and repair remain blocked until the queue is known to be empty.'', None)"
| "description PendingNotApplicable = (lit ''pending-jobs'', lit ''not-applicable'', lit ''Pending jobs cannot be checked for an absent or mismatched Client queue.'', None)"
| "description ProxyRunning = (lit ''client-proxy'', lit ''passed'', lit ''The client proxy reports running.'', None)"
| "description ProxyStopped = (lit ''client-proxy'', lit ''failed'', lit ''The client proxy is not running. Check Print service status to start it.'', Some ErrorCode.InvalidState)"
| "description ProxyUnknown = (lit ''client-proxy'', lit ''inconclusive'', lit ''The client proxy state could not be established.'', None)"
| "description ServerReachable = (lit ''server-reachability'', lit ''passed'', lit ''The ShaPrint server responded over TLS.'', None)"
| "description ServerUnreachable = (lit ''server-reachability'', lit ''failed'', lit ''Could not reach the ShaPrint server. Check network connection and confirm the server is running.'', Some ErrorCode.ServerUnavailable)"
| "description ServerReachabilityTimeout = (lit ''server-reachability'', lit ''inconclusive'', lit ''Connecting to the server timed out. Check network connectivity.'', Some ErrorCode.Timeout)"
| "description ServerReachabilityUnknown = (lit ''server-reachability'', lit ''inconclusive'', lit ''Server reachability could not be established.'', None)"
| "description ServerIdentityMatching = (lit ''server-identity'', lit ''passed'', lit ''The server certificate fingerprint matches the saved approval.'', None)"
| "description ServerNotTrusted = (lit ''server-identity'', lit ''failed'', lit ''This server has not been approved yet. Inspect its certificate fingerprint in Server connections before using it.'', Some ErrorCode.ServerNotTrusted)"
| "description ServerIdentityChanged = (lit ''server-identity'', lit ''failed'', lit ''The server certificate has changed since it was approved. Review the fingerprint in Server connections to reapprove or reject.'', Some ErrorCode.ServerIdentityChanged)"
| "description ServerIdentityUnknown = (lit ''server-identity'', lit ''inconclusive'', lit ''Server certificate identity could not be verified.'', None)"
| "description ServerIdentityNotApplicable = (lit ''server-identity'', lit ''not-applicable'', lit ''Server identity cannot be checked while the server is unreachable.'', None)"
| "description PrinterShared = (lit ''shared-printer'', lit ''passed'', lit ''The server shares the selected printer queue.'', None)"
| "description PrinterNotShared = (lit ''shared-printer'', lit ''failed'', lit ''The server is no longer sharing this printer queue. Confirm the printer is shared in ShaPrint on the server.'', Some ErrorCode.PrinterNotShared)"
| "description PrinterAvailabilityUnknown = (lit ''shared-printer'', lit ''inconclusive'', lit ''Shared printer availability could not be established.'', None)"
| "description PrinterAvailabilityNotApplicable = (lit ''shared-printer'', lit ''not-applicable'', lit ''Shared printer availability cannot be checked while the server is unreachable or untrusted.'', None)"
| "description ChannelAuthorizationRejected = (lit ''network-channel'', lit ''failed'', lit ''The server rejected the print request because the Network Channel was missing or incorrect.'', Some ErrorCode.NotAuthorized)"
| "description ChannelConfiguredUnobserved = (lit ''network-channel'', lit ''inconclusive'', lit ''A Network Channel is configured locally, but authorization has not been confirmed in an accepted server response.'', None)"
| "description ChannelUnconfigured = (lit ''network-channel'', lit ''inconclusive'', lit ''No Network Channel is configured locally. If this network uses one, set it in Network Channel settings.'', None)"
| "description ChannelNotApplicable = (lit ''network-channel'', lit ''not-applicable'', lit ''Network Channel authorization cannot be checked while the server is unreachable or untrusted.'', None)"
| "description FirewallInspectionUnavailable = (lit ''firewall'', lit ''not-applicable'', lit ''Optional firewall inspection is not available without administrator privileges. An unreachable server is not automatically a firewall diagnosis.'', None)"

section \<open>Inspection\<close>

record TroubleshootingSnapshot =
  snapshot_target :: RecognisedClientQueue
  snapshot_checks :: "LocalFinding list"

definition is_repair_eligible :: "TroubleshootingSnapshot \<Rightarrow> bool" where
  "is_repair_eligible s \<longleftrightarrow> (let checks = set (snapshot_checks s) in
     SpoolerReady \<in> checks \<and> QueueMatching \<in> checks \<and> QueueEmpty \<in> checks \<and> ProxyRunning \<in> checks
     \<and> ServerReachable \<in> checks \<and> ServerIdentityMatching \<in> checks \<and> PrinterShared \<in> checks
     \<and> ChannelAuthorizationRejected \<notin> checks \<and> ChannelUnconfigured \<notin> checks
     \<and> ChannelNotApplicable \<notin> checks)"

text \<open>
  \<open>seen_servers\<close>, \<open>seen_channel\<close> and \<open>seen_rejected\<close> are \<open>None\<close> in an instance without server
  inspection; an answer inside the first is \<open>None\<close> when the deadline passed.
\<close>

record Observations =
  seen_queue :: "(AppError + LocalQueueInspection) option"
  seen_pending :: "(AppError + u32) option"
  seen_servers :: "(AppError + ServerInspection) option option"
  seen_channel :: "bool option"
  seen_rejected :: "(ustr \<Rightarrow> bool) option"

definition proxy_finding :: "RuntimeStatus \<Rightarrow> LocalFinding" where
  "proxy_finding runtime =
     (case runtime_service runtime ClientProxy of
        Some service \<Rightarrow> if status_state service = Running then ProxyRunning else ProxyStopped
      | None \<Rightarrow> ProxyUnknown)"

definition channel_finding :: "Observations \<Rightarrow> RecognisedClientQueue \<Rightarrow> LocalFinding" where
  "channel_finding seen target =
     (if (case seen_rejected seen of
            None \<Rightarrow> False
          | Some rejected \<Rightarrow> rejected (PrinterName_as_str (recognised_printer_name target)))
      then ChannelAuthorizationRejected
      else if seen_channel seen = Some True then ChannelConfiguredUnobserved
      else ChannelUnconfigured)"

definition is_proxy_finding :: "LocalFinding \<Rightarrow> bool" where
  "is_proxy_finding check \<longleftrightarrow> check \<in> {ProxyRunning, ProxyStopped, ProxyUnknown}"

definition is_channel_finding :: "LocalFinding \<Rightarrow> bool" where
  "is_channel_finding check \<longleftrightarrow>
     check \<in> {ChannelConfiguredUnobserved, ChannelUnconfigured, ChannelAuthorizationRejected}"

definition refresh_live_prerequisites ::
  "RuntimeStatus \<Rightarrow> Observations \<Rightarrow> TroubleshootingSnapshot \<Rightarrow> TroubleshootingSnapshot" where
  "refresh_live_prerequisites runtime seen s =
     (let checks = filter (\<lambda>c. \<not> is_proxy_finding c) (snapshot_checks s) @ [proxy_finding runtime];
          checks = (if list_ex is_channel_finding checks
                    then filter (\<lambda>c. \<not> is_channel_finding c) checks
                         @ [channel_finding seen (snapshot_target s)]
                    else checks)
      in s\<lparr>snapshot_checks := checks\<rparr>)"

definition pending_finding :: "(AppError + u32) option \<Rightarrow> LocalFinding" where
  "pending_finding answer =
     (case answer of
        Some (Inr n) \<Rightarrow> if n = 0 then QueueEmpty else PendingJobs
      | _ \<Rightarrow> PendingUnknown)"

definition queue_findings :: "Observations \<Rightarrow> LocalFinding list" where
  "queue_findings seen =
     (case seen_queue seen of
        Some (Inr inspection) \<Rightarrow>
          SpoolerReady #
          (case inspection of
             LocalQueueInspection.Matching (Some n) \<Rightarrow>
               [QueueMatching, if n = 0 then QueueEmpty else PendingJobs]
           | LocalQueueInspection.Matching None \<Rightarrow> [QueueMatching, pending_finding (seen_pending seen)]
           | Missing \<Rightarrow> [QueueMissing, PendingNotApplicable]
           | Mismatched \<Rightarrow> [QueueMismatched, PendingNotApplicable])
      | Some (Inl error) \<Rightarrow>
          [if err_code error = ErrorCode.QueueUnavailable then LocalFinding.SpoolerUnavailable
           else SpoolerUnknown, QueueUnknown, PendingUnknown]
      | None \<Rightarrow> [InspectionTimeout, QueueUnknown, PendingUnknown])"

definition shared_finding :: "bool option \<Rightarrow> LocalFinding" where
  "shared_finding printer_shared =
     (case printer_shared of
        Some True \<Rightarrow> PrinterShared
      | Some False \<Rightarrow> LocalFinding.PrinterNotShared
      | None \<Rightarrow> PrinterAvailabilityUnknown)"

definition server_findings :: "Observations \<Rightarrow> RecognisedClientQueue \<Rightarrow> LocalFinding list" where
  "server_findings seen target =
     (case seen_servers seen of
        None \<Rightarrow> []
      | Some answer \<Rightarrow>
          (case answer of
             Some (Inr (Reachable identity printer_shared)) \<Rightarrow>
               ServerReachable #
               (case identity of
                  ServerIdentityInspection.Matching \<Rightarrow>
                    [ServerIdentityMatching, shared_finding printer_shared, channel_finding seen target]
                | NotTrusted \<Rightarrow>
                    [LocalFinding.ServerNotTrusted, PrinterAvailabilityNotApplicable, ChannelNotApplicable]
                | Changed \<Rightarrow>
                    [LocalFinding.ServerIdentityChanged, PrinterAvailabilityNotApplicable,
                     ChannelNotApplicable])
           | Some (Inr Unreachable) \<Rightarrow>
               [ServerUnreachable, ServerIdentityNotApplicable, PrinterAvailabilityNotApplicable,
                ChannelNotApplicable]
           | Some (Inr TimedOut) \<Rightarrow>
               [ServerReachabilityTimeout, ServerIdentityUnknown, PrinterAvailabilityUnknown,
                ChannelNotApplicable]
           | None \<Rightarrow>
               [ServerReachabilityTimeout, ServerIdentityUnknown, PrinterAvailabilityUnknown,
                ChannelNotApplicable]
           | Some (Inl _) \<Rightarrow>
               [ServerReachabilityUnknown, ServerIdentityUnknown, PrinterAvailabilityUnknown,
                ChannelNotApplicable])
          @ [FirewallInspectionUnavailable])"

definition inspect_queue ::
  "RuntimeStatus \<Rightarrow> Observations \<Rightarrow> RecognisedClientQueue \<Rightarrow> TroubleshootingSnapshot" where
  "inspect_queue runtime seen target =
     \<lparr>snapshot_target = target,
      snapshot_checks =
        queue_findings seen @ [proxy_finding runtime] @ server_findings seen target\<rparr>"

section \<open>When a queue counts as healthy\<close>

text \<open>What the observations must say, in terms of what was observed.\<close>

definition queue_healthy :: "Observations \<Rightarrow> bool" where
  "queue_healthy seen \<longleftrightarrow>
     seen_queue seen = Some (Inr (LocalQueueInspection.Matching (Some 0)))
     \<or> seen_queue seen = Some (Inr (LocalQueueInspection.Matching None)) \<and> seen_pending seen = Some (Inr 0)"

definition server_healthy :: "Observations \<Rightarrow> bool" where
  "server_healthy seen \<longleftrightarrow>
     seen_servers seen = Some (Some (Inr (Reachable ServerIdentityInspection.Matching (Some True))))"

definition channel_healthy :: "Observations \<Rightarrow> RecognisedClientQueue \<Rightarrow> bool" where
  "channel_healthy seen target \<longleftrightarrow> seen_channel seen = Some True
     \<and> (\<forall>rejected. seen_rejected seen = Some rejected
          \<longrightarrow> \<not> rejected (PrinterName_as_str (recognised_printer_name target)))"

definition proxy_running :: "RuntimeStatus \<Rightarrow> bool" where
  "proxy_running runtime \<longleftrightarrow>
     (\<exists>service. runtime_service runtime ClientProxy = Some service \<and> status_state service = Running)"

lemmas finding_defs = queue_findings_def pending_finding_def server_findings_def shared_finding_def
  proxy_finding_def channel_finding_def

lemma proxy_finding_running: "proxy_finding runtime = ProxyRunning \<longleftrightarrow> proxy_running runtime"
  by (auto simp: proxy_finding_def proxy_running_def split: option.split)

lemma queue_findings_healthy:
  "SpoolerReady \<in> set (queue_findings seen) \<and> QueueMatching \<in> set (queue_findings seen)
    \<and> QueueEmpty \<in> set (queue_findings seen) \<longleftrightarrow> queue_healthy seen"
  by (auto simp: queue_findings_def pending_finding_def queue_healthy_def
      split: option.split sum.split LocalQueueInspection.split)

text \<open>The part of the inspection a finding belongs to, by its check id.\<close>

datatype CheckPart = NativePart | ProxyPart | ServerPart | ChannelPart | OtherPart

primrec check_part :: "LocalFinding \<Rightarrow> CheckPart" where
  "check_part SpoolerReady = NativePart"
| "check_part SpoolerUnavailable = NativePart"
| "check_part SpoolerUnknown = NativePart"
| "check_part InspectionTimeout = NativePart"
| "check_part QueueMatching = NativePart"
| "check_part QueueMissing = NativePart"
| "check_part QueueMismatched = NativePart"
| "check_part QueueUnknown = NativePart"
| "check_part QueueEmpty = NativePart"
| "check_part PendingJobs = NativePart"
| "check_part PendingUnknown = NativePart"
| "check_part PendingNotApplicable = NativePart"
| "check_part ProxyRunning = ProxyPart"
| "check_part ProxyStopped = ProxyPart"
| "check_part ProxyUnknown = ProxyPart"
| "check_part ServerReachable = ServerPart"
| "check_part ServerUnreachable = ServerPart"
| "check_part ServerReachabilityTimeout = ServerPart"
| "check_part ServerReachabilityUnknown = ServerPart"
| "check_part ServerIdentityMatching = ServerPart"
| "check_part ServerNotTrusted = ServerPart"
| "check_part ServerIdentityChanged = ServerPart"
| "check_part ServerIdentityUnknown = ServerPart"
| "check_part ServerIdentityNotApplicable = ServerPart"
| "check_part PrinterShared = ServerPart"
| "check_part PrinterNotShared = ServerPart"
| "check_part PrinterAvailabilityUnknown = ServerPart"
| "check_part PrinterAvailabilityNotApplicable = ServerPart"
| "check_part ChannelAuthorizationRejected = ChannelPart"
| "check_part ChannelConfiguredUnobserved = ChannelPart"
| "check_part ChannelUnconfigured = ChannelPart"
| "check_part ChannelNotApplicable = ChannelPart"
| "check_part FirewallInspectionUnavailable = OtherPart"

lemma queue_findings_part: "f \<in> set (queue_findings seen) \<Longrightarrow> check_part f = NativePart"
proof -
  have "list_all (\<lambda>f. check_part f = NativePart) (queue_findings seen)"
    by (simp add: queue_findings_def pending_finding_def split: option.split sum.split LocalQueueInspection.split)
  then show "f \<in> set (queue_findings seen) \<Longrightarrow> check_part f = NativePart" by (simp add: list_all_iff)
qed

lemma proxy_finding_part: "check_part (proxy_finding runtime) = ProxyPart"
  by (simp add: proxy_finding_def split: option.split)

lemma channel_finding_part: "check_part (channel_finding seen target) = ChannelPart"
  by (simp add: channel_finding_def split: option.split)

text \<open>The findings about the server without the firewall note, in the order they are made.\<close>

lemma server_findings_part:
  "f \<in> set (server_findings seen target) \<Longrightarrow> check_part f \<in> {ServerPart, ChannelPart, OtherPart}"
proof -
  have "list_all (\<lambda>f. check_part f \<in> {ServerPart, ChannelPart, OtherPart}) (server_findings seen target)"
    by (simp add: server_findings_def shared_finding_def channel_finding_part
        split: option.split sum.split ServerInspection.split ServerIdentityInspection.split bool.split)
  then show "f \<in> set (server_findings seen target) \<Longrightarrow> check_part f \<in> {ServerPart, ChannelPart, OtherPart}"
    by (simp add: list_all_iff)
qed

text \<open>The three findings about the channel that a refresh replaces.\<close>

lemma channel_finding_cases:
  obtains "channel_finding seen target = ChannelConfiguredUnobserved" "channel_healthy seen target"
  | "channel_finding seen target = ChannelUnconfigured" "\<not> channel_healthy seen target"
  | "channel_finding seen target = ChannelAuthorizationRejected" "\<not> channel_healthy seen target"
proof -
  let ?name = "PrinterName_as_str (recognised_printer_name target)"
  consider "\<exists>rejected. seen_rejected seen = Some rejected \<and> rejected ?name"
    | "\<forall>rejected. seen_rejected seen = Some rejected \<longrightarrow> \<not> rejected ?name" "seen_channel seen = Some True"
    | "\<forall>rejected. seen_rejected seen = Some rejected \<longrightarrow> \<not> rejected ?name" "seen_channel seen \<noteq> Some True"
    by blast
  then show ?thesis
    using that by cases (auto simp: channel_finding_def channel_healthy_def split: option.splits)
qed

lemma server_findings_cases:
  obtains "server_healthy seen"
    "server_findings seen target = [ServerReachable, ServerIdentityMatching, PrinterShared,
       channel_finding seen target, FirewallInspectionUnavailable]"
  | "\<not> server_healthy seen"
    "ServerReachable \<notin> set (server_findings seen target) \<or> ServerIdentityMatching \<notin> set (server_findings seen target)
     \<or> PrinterShared \<notin> set (server_findings seen target)"
proof (cases "server_healthy seen")
  case True
  then have "server_findings seen target = [ServerReachable, ServerIdentityMatching, PrinterShared,
       channel_finding seen target, FirewallInspectionUnavailable]"
    by (simp add: server_findings_def server_healthy_def shared_finding_def)
  with True that(1) show ?thesis by blast
next
  case False
  have other: "channel_finding seen target \<noteq> ServerReachable" "channel_finding seen target \<noteq> ServerIdentityMatching"
    "channel_finding seen target \<noteq> PrinterShared"
    using channel_finding_part [of seen target] by (metis CheckPart.distinct check_part.simps)+
  from False have "ServerReachable \<notin> set (server_findings seen target)
     \<or> ServerIdentityMatching \<notin> set (server_findings seen target) \<or> PrinterShared \<notin> set (server_findings seen target)"
    using other
    by (simp add: server_findings_def server_healthy_def shared_finding_def eq_commute
        split: option.split sum.split ServerInspection.split ServerIdentityInspection.split bool.split)
  with False that(2) show ?thesis by blast
qed

lemma eligible_split:
  assumes "set checks = set (queue_findings seen) \<union> {proxy} \<union> extra" "check_part proxy = ProxyPart"
    and "\<And>f. f \<in> extra \<Longrightarrow> check_part f \<in> {ServerPart, ChannelPart, OtherPart}"
  shows "is_repair_eligible \<lparr>snapshot_target = target, snapshot_checks = checks\<rparr> \<longleftrightarrow>
    queue_healthy seen \<and> proxy = ProxyRunning
    \<and> ServerReachable \<in> extra \<and> ServerIdentityMatching \<in> extra \<and> PrinterShared \<in> extra
    \<and> ChannelNotApplicable \<notin> extra \<and> ChannelAuthorizationRejected \<notin> extra \<and> ChannelUnconfigured \<notin> extra"
proof -
  have native: "f \<in> set checks \<longleftrightarrow> f \<in> set (queue_findings seen)" if "check_part f = NativePart" for f
    using assms that by fastforce
  have other: "f \<in> set checks \<longleftrightarrow> f \<in> extra" if "check_part f = ServerPart \<or> check_part f = ChannelPart" for f
    using assms(1,2) queue_findings_part [of f seen] that by fastforce
  have p: "ProxyRunning \<in> set checks \<longleftrightarrow> proxy = ProxyRunning"
    using assms queue_findings_part [of ProxyRunning seen] by fastforce
  show ?thesis
    unfolding is_repair_eligible_def Let_def queue_findings_healthy [symmetric]
    by (simp add: native other p conj_ac)
qed

text \<open>
  A client queue counts as healthy, so that repairing it and printing a test page on it are
  allowed, exactly when everything was positively observed: the spooler answered with a queue
  that matches the target and has no pending jobs (at once or when asked again), the
  client proxy runs, the server was reached with the approved certificate and shares the printer, and
  a network channel is configured that the server has not refused for this printer. A timeout or
  an unknown anywhere is not enough.
\<close>

theorem healthy_queue_observed:
  "is_repair_eligible (inspect_queue runtime seen target) \<longleftrightarrow>
    queue_healthy seen \<and> proxy_running runtime \<and> server_healthy seen \<and> channel_healthy seen target"
proof -
  let ?extra = "set (server_findings seen target)"
  have "is_repair_eligible (inspect_queue runtime seen target) \<longleftrightarrow>
    queue_healthy seen \<and> proxy_finding runtime = ProxyRunning
    \<and> ServerReachable \<in> ?extra \<and> ServerIdentityMatching \<in> ?extra \<and> PrinterShared \<in> ?extra
    \<and> ChannelNotApplicable \<notin> ?extra \<and> ChannelAuthorizationRejected \<notin> ?extra \<and> ChannelUnconfigured \<notin> ?extra"
    unfolding inspect_queue_def
    by (rule eligible_split [OF _ proxy_finding_part server_findings_part]) (simp, blast)
  moreover have "ServerReachable \<in> ?extra \<and> ServerIdentityMatching \<in> ?extra \<and> PrinterShared \<in> ?extra
    \<and> ChannelNotApplicable \<notin> ?extra \<and> ChannelAuthorizationRejected \<notin> ?extra \<and> ChannelUnconfigured \<notin> ?extra
    \<longleftrightarrow> server_healthy seen \<and> channel_healthy seen target"
  proof (cases rule: server_findings_cases [of seen target])
    case 1
    then show ?thesis by (cases rule: channel_finding_cases [of seen target]) simp_all
  next
    case 2
    then show ?thesis by blast
  qed
  ultimately show ?thesis by (simp add: proxy_finding_running)
qed

lemma is_channel_finding_part:
  "is_channel_finding f \<longleftrightarrow> check_part f = ChannelPart \<and> f \<noteq> ChannelNotApplicable"
  by (cases f) (simp_all add: is_channel_finding_def)

lemma is_proxy_finding_part: "is_proxy_finding f \<longleftrightarrow> check_part f = ProxyPart"
  by (cases f) (simp_all add: is_proxy_finding_def)

text \<open>
  Refreshing replaces what the runtime and the local channel said by what they say now, and nothing
  that was observed remotely.
\<close>

definition refreshed_extra :: "Observations \<Rightarrow> RecognisedClientQueue \<Rightarrow> LocalFinding set \<Rightarrow> LocalFinding set" where
  "refreshed_extra seen target extra =
     (if \<exists>f \<in> extra. is_channel_finding f
      then {f \<in> extra. \<not> is_channel_finding f} \<union> {channel_finding seen target} else extra)"

lemma set_replaced:
  "set (if list_ex P xs then filter (\<lambda>c. \<not> P c) xs @ [x] else xs) =
    (if \<exists>f \<in> set xs. P f then {f \<in> set xs. \<not> P f} \<union> {x} else set xs)"
  by (simp add: list_ex_iff)

lemma refreshed_checks:
  "set (snapshot_checks (refresh_live_prerequisites runtime' seen' (inspect_queue runtime seen target)))
    = set (queue_findings seen) \<union> {proxy_finding runtime'}
      \<union> refreshed_extra seen' target (set (server_findings seen target))"
proof -
  let ?extra = "set (server_findings seen target)"
  let ?checks = "filter (\<lambda>c. \<not> is_proxy_finding c) (queue_findings seen @ [proxy_finding runtime] @ server_findings seen target)
      @ [proxy_finding runtime']"
  have set: "set ?checks = set (queue_findings seen) \<union> {proxy_finding runtime'} \<union> ?extra"
    using queue_findings_part [of _ seen] server_findings_part [of _ seen target] proxy_finding_part [of runtime]
    by (fastforce simp: is_proxy_finding_part)
  have local: "\<not> is_channel_finding f" if "f \<in> set (queue_findings seen) \<union> {proxy_finding runtime'}" for f
    using that queue_findings_part [of f seen] proxy_finding_part [of runtime'] by (auto simp: is_channel_finding_part)
  have "snapshot_checks (refresh_live_prerequisites runtime' seen' (inspect_queue runtime seen target)) =
      (if list_ex is_channel_finding ?checks
       then filter (\<lambda>c. \<not> is_channel_finding c) ?checks @ [channel_finding seen' target] else ?checks)"
    by (simp add: refresh_live_prerequisites_def inspect_queue_def Let_def del: filter_append list_ex_append)
  also have "set \<dots> = (if \<exists>f \<in> set ?checks. is_channel_finding f
      then {f \<in> set ?checks. \<not> is_channel_finding f} \<union> {channel_finding seen' target} else set ?checks)"
    by (rule set_replaced)
  also have "\<dots> = set (queue_findings seen) \<union> {proxy_finding runtime'} \<union> refreshed_extra seen' target ?extra"
    unfolding set refreshed_extra_def using local by auto
  finally show ?thesis .
qed

lemma healthy_queue_refreshed:
  "is_repair_eligible (refresh_live_prerequisites runtime' seen' (inspect_queue runtime seen target)) \<longleftrightarrow>
    queue_healthy seen \<and> proxy_running runtime' \<and> server_healthy seen \<and> channel_healthy seen' target"
proof -
  let ?extra = "refreshed_extra seen' target (set (server_findings seen target))"
  let ?snap = "refresh_live_prerequisites runtime' seen' (inspect_queue runtime seen target)"
  have parts: "check_part f \<in> {ServerPart, ChannelPart, OtherPart}" if "f \<in> ?extra" for f
    using that server_findings_part [of f seen target] channel_finding_part [of seen' target]
    by (auto simp: refreshed_extra_def split: if_splits)
  have "is_repair_eligible \<lparr>snapshot_target = snapshot_target ?snap, snapshot_checks = snapshot_checks ?snap\<rparr> \<longleftrightarrow>
    queue_healthy seen \<and> proxy_finding runtime' = ProxyRunning
    \<and> ServerReachable \<in> ?extra \<and> ServerIdentityMatching \<in> ?extra \<and> PrinterShared \<in> ?extra
    \<and> ChannelNotApplicable \<notin> ?extra \<and> ChannelAuthorizationRejected \<notin> ?extra \<and> ChannelUnconfigured \<notin> ?extra"
    by (rule eligible_split [OF refreshed_checks proxy_finding_part parts])
  moreover have "ServerReachable \<in> ?extra \<and> ServerIdentityMatching \<in> ?extra \<and> PrinterShared \<in> ?extra
    \<and> ChannelNotApplicable \<notin> ?extra \<and> ChannelAuthorizationRejected \<notin> ?extra \<and> ChannelUnconfigured \<notin> ?extra
    \<longleftrightarrow> server_healthy seen \<and> channel_healthy seen' target"
  proof (cases rule: server_findings_cases [of seen target])
    case 1
    have "?extra = {ServerReachable, ServerIdentityMatching, PrinterShared, FirewallInspectionUnavailable,
        channel_finding seen' target}"
      unfolding refreshed_extra_def 1(2)
      by (cases rule: channel_finding_cases [of seen target]) (auto simp: is_channel_finding_part)
    with 1(1) show ?thesis by (cases rule: channel_finding_cases [of seen' target]) simp_all
  next
    case 2
    have "f \<in> ?extra \<longleftrightarrow> f \<in> set (server_findings seen target)" if "check_part f = ServerPart" for f
      using that channel_finding_part [of seen' target]
      by (auto simp: refreshed_extra_def is_channel_finding_part)
    with 2 show ?thesis by (metis check_part.simps)
  qed
  moreover have "is_repair_eligible \<lparr>snapshot_target = snapshot_target ?snap, snapshot_checks = snapshot_checks ?snap\<rparr>
      = is_repair_eligible ?snap" by (simp add: is_repair_eligible_def)
  ultimately show ?thesis by (simp add: proxy_finding_running)
qed

end
