(* ===== verification/Setup_Actions.thy ===== *)
theory Setup_Actions
  imports Client_Queue
begin

text \<open>
  \<open>domain/setup.rs\<close> and \<open>application/setup.rs\<close>: the configuration actions, which of them need
  administrator rights, how a failure of the elevated helper is reported, and the use case that asks
  for permission. The broker, which raises the prompt of the operating system, is a parameter: the
  effect of each of its calls on a state of its own.
\<close>

section \<open>Actions\<close>

datatype SetupAction = AllowInboundSharing | SelectPrinters | StartSharing | StopSharing
  | ShowCertificateFingerprint | InstallPrinter | RepairPrinter

definition SetupAction_ALL :: "SetupAction list" where
  "SetupAction_ALL =
     [AllowInboundSharing, SelectPrinters, StartSharing, StopSharing, ShowCertificateFingerprint,
      InstallPrinter, RepairPrinter]"

fun SetupAction_as_str :: "SetupAction \<Rightarrow> ustr" where
  "SetupAction_as_str AllowInboundSharing = lit ''allow-inbound-sharing''"
| "SetupAction_as_str SelectPrinters = lit ''select-printers''"
| "SetupAction_as_str StartSharing = lit ''start-sharing''"
| "SetupAction_as_str StopSharing = lit ''stop-sharing''"
| "SetupAction_as_str ShowCertificateFingerprint = lit ''show-certificate-fingerprint''"
| "SetupAction_as_str InstallPrinter = lit ''install-printer''"
| "SetupAction_as_str RepairPrinter = lit ''repair-printer''"

definition SetupAction_parse :: "ustr \<Rightarrow> SetupAction option" where
  "SetupAction_parse value = List.find (\<lambda>a. SetupAction_as_str a = value) SetupAction_ALL"

fun requires_elevation :: "SetupAction \<Rightarrow> bool" where
  "requires_elevation AllowInboundSharing = True"
| "requires_elevation InstallPrinter = True"
| "requires_elevation RepairPrinter = True"
| "requires_elevation _ = False"

section \<open>Failures of the elevated helper\<close>

datatype SetupFailureKind = SetupUnsupported | PermissionDenied | InvalidRequest
  | SpoolerUnavailable | QueueRejected | ExistingQueueConflict | TimedOut | OtherFailure | QueueBusy
  | QueueNotFound

definition FIRST_FAILURE_EXIT_CODE :: int where
  "FIRST_FAILURE_EXIT_CODE = 10"

definition SetupFailureKind_ALL :: "SetupFailureKind list" where
  "SetupFailureKind_ALL =
     [SetupUnsupported, PermissionDenied, InvalidRequest, SpoolerUnavailable, QueueRejected,
      ExistingQueueConflict, TimedOut, OtherFailure, QueueBusy, QueueNotFound]"

fun SetupFailureKind_id :: "SetupFailureKind \<Rightarrow> ustr" where
  "SetupFailureKind_id SetupUnsupported = lit ''unsupported''"
| "SetupFailureKind_id PermissionDenied = lit ''permission-denied''"
| "SetupFailureKind_id InvalidRequest = lit ''invalid-request''"
| "SetupFailureKind_id SpoolerUnavailable = lit ''spooler-unavailable''"
| "SetupFailureKind_id QueueRejected = lit ''queue-rejected''"
| "SetupFailureKind_id ExistingQueueConflict = lit ''existing-queue-conflict''"
| "SetupFailureKind_id TimedOut = lit ''timed-out''"
| "SetupFailureKind_id OtherFailure = lit ''other''"
| "SetupFailureKind_id QueueBusy = lit ''queue-busy''"
| "SetupFailureKind_id QueueNotFound = lit ''queue-not-found''"

definition SetupFailureKind_from_id :: "ustr \<Rightarrow> SetupFailureKind option" where
  "SetupFailureKind_from_id value =
     List.find (\<lambda>k. SetupFailureKind_id k = value) SetupFailureKind_ALL"

fun failure_offset :: "SetupFailureKind \<Rightarrow> int" where
  "failure_offset SetupUnsupported = 0"
| "failure_offset PermissionDenied = 1"
| "failure_offset InvalidRequest = 2"
| "failure_offset SpoolerUnavailable = 3"
| "failure_offset QueueRejected = 4"
| "failure_offset ExistingQueueConflict = 5"
| "failure_offset TimedOut = 6"
| "failure_offset OtherFailure = 7"
| "failure_offset QueueBusy = 8"
| "failure_offset QueueNotFound = 9"

definition exit_code :: "SetupFailureKind \<Rightarrow> int" where
  "exit_code kind = FIRST_FAILURE_EXIT_CODE + failure_offset kind"

definition from_exit_code :: "int \<Rightarrow> SetupFailureKind option" where
  "from_exit_code code =
     (if code = 0 then None else List.find (\<lambda>k. exit_code k = code) SetupFailureKind_ALL)"

fun failure_error_code :: "SetupFailureKind \<Rightarrow> ErrorCode" where
  "failure_error_code SetupUnsupported = Unsupported"
| "failure_error_code PermissionDenied = Unsupported"
| "failure_error_code InvalidRequest = InvalidInput"
| "failure_error_code SpoolerUnavailable = InvalidState"
| "failure_error_code QueueRejected = InvalidState"
| "failure_error_code ExistingQueueConflict = InvalidState"
| "failure_error_code QueueBusy = InvalidState"
| "failure_error_code QueueNotFound = InvalidState"
| "failure_error_code TimedOut = Timeout"
| "failure_error_code OtherFailure = Internal"

fun failure_advice :: "SetupFailureKind \<Rightarrow> ustr" where
  "failure_advice SetupUnsupported = lit ''this build cannot perform that setup action; run ShaPrint on Windows 10 or later, or a supported Linux distribution.''"
| "failure_advice PermissionDenied = lit ''administrator permission was not granted. Approve the elevation prompt (Windows prompt or Linux CUPS sys/lp/lpadmin permissions), then try again.''"
| "failure_advice InvalidRequest = lit ''the request was not valid. Review the server connection and the selected printer, then try again.''"
| "failure_advice SpoolerUnavailable = lit ''the Print Spooler service (services.msc on Windows, CUPS on Linux) is not running. Start it, then try again.''"
| "failure_advice QueueRejected = lit ''the print spooler refused the printer queue. Confirm the client proxy is running and that the server still shares this printer, then try again.''"
| "failure_advice ExistingQueueConflict = lit ''a printer with that name already exists in the Print Spooler and does not point at this remote printer. Remove it in printer settings, then try again.''"
| "failure_advice TimedOut = lit ''the Print Spooler did not answer in time. Check the Print Spooler service, then try again.''"
| "failure_advice OtherFailure = lit ''the setup helper failed. Restart ShaPrint and try again; if it keeps failing, check the printer driver or print spooler logs.''"
| "failure_advice QueueBusy = lit ''the printer still has pending jobs. Wait for them to finish or cancel them, then try again.''"
| "failure_advice QueueNotFound = lit ''the printer queue no longer exists. Refresh My printers and install it again.''"

record SetupFailure =
  failure_kind :: SetupFailureKind
  failure_detail :: ustr

definition SetupFailure_new :: "SetupFailureKind \<Rightarrow> ustr \<Rightarrow> SetupFailure" where
  "SetupFailure_new kind detail = \<lparr>failure_kind = kind, failure_detail = detail\<rparr>"

definition firewall_advice :: "SetupFailureKind \<Rightarrow> ustr" where
  "firewall_advice kind =
     (if kind = OtherFailure \<or> kind = TimedOut
      then lit ''the firewall rules could not be checked or applied. Check Windows Firewall or host firewall settings.''
      else failure_advice kind)"

definition for_action :: "SetupFailure \<Rightarrow> SetupAction \<Rightarrow> AppError" where
  "for_action failure action =
     app_error (failure_error_code (failure_kind failure))
       (case action of
          AllowInboundSharing \<Rightarrow>
            lit ''Clients cannot connect through the Windows firewall: ''
            @ firewall_advice (failure_kind failure)
            @ lit '' Try starting Server Sharing again after resolving this.''
        | InstallPrinter \<Rightarrow>
            lit ''Could not install the printer queue: '' @ failure_advice (failure_kind failure)
        | RepairPrinter \<Rightarrow>
            lit ''Could not repair the printer queue: '' @ failure_advice (failure_kind failure)
        | _ \<Rightarrow>
            lit ''Could not complete '' @ SetupAction_as_str action @ lit '': ''
            @ failure_advice (failure_kind failure))"

definition about_queue :: "ClientQueueRequest \<Rightarrow> ustr" where
  "about_queue request =
     [34] @ ClientQueueName_as_str (request_queue_name request) @ [34] @ lit '' for printer '' @ [34]
     @ PrinterName_as_str (request_printer request) @ [34] @ lit '': ''"

definition for_queue_install :: "SetupFailure \<Rightarrow> ClientQueueRequest \<Rightarrow> AppError" where
  "for_queue_install failure request =
     app_error (failure_error_code (failure_kind failure))
       (lit ''Could not install the printer queue '' @ about_queue request
        @ failure_advice (failure_kind failure))"

definition for_queue_repair :: "SetupFailure \<Rightarrow> ClientQueueRequest \<Rightarrow> AppError" where
  "for_queue_repair failure request =
     app_error (failure_error_code (failure_kind failure))
       (lit ''Could not repair the printer queue '' @ about_queue request
        @ failure_advice (failure_kind failure))"

definition show_failure :: "SetupFailure \<Rightarrow> ustr" where
  "show_failure failure =
     SetupFailureKind_id (failure_kind failure) @ lit '': '' @ failure_detail failure"

section \<open>Asking for permission\<close>

record 'b ElevationBroker =
  broker_inbound :: "'b \<Rightarrow> (SetupFailure + bool) \<times> 'b"
  broker_elevate :: "SetupAction \<Rightarrow> 'b \<Rightarrow> (SetupFailure + unit) \<times> 'b"
  broker_install :: "ClientQueueRequest \<Rightarrow> 'b \<Rightarrow> (SetupFailure + unit) \<times> 'b"
  broker_repair :: "ClientQueueRequest \<Rightarrow> 'b \<Rightarrow> (SetupFailure + unit) \<times> 'b"

datatype SetupOutcome = Routine | Elevated

definition setup_request ::
  "'b ElevationBroker \<Rightarrow> SetupAction \<Rightarrow> 'b \<Rightarrow> (AppError + SetupOutcome) \<times> 'b" where
  "setup_request broker action b =
     (if \<not> requires_elevation action then (Inr Routine, b)
      else (case broker_elevate broker action b of
              (Inl failure, b) \<Rightarrow> (Inl (for_action failure action), b)
            | (Inr _, b) \<Rightarrow> (Inr Elevated, b)))"

definition firewall_unavailable :: AppError where
  "firewall_unavailable =
     invalid_state (lit ''Clients cannot connect: Windows firewall access is still unavailable. Check the firewall rules, then try starting Server Sharing again.'')"

definition ensure_inbound_sharing :: "'b ElevationBroker \<Rightarrow> 'b \<Rightarrow> (AppError + unit) \<times> 'b" where
  "ensure_inbound_sharing broker b =
     (case broker_inbound broker b of
        (Inl failure, b) \<Rightarrow> (Inl (for_action failure AllowInboundSharing), b)
      | (Inr True, b) \<Rightarrow> (Inr (), b)
      | (Inr False, b) \<Rightarrow>
          (case setup_request broker AllowInboundSharing b of
             (Inl e, b) \<Rightarrow> (Inl e, b)
           | (Inr _, b) \<Rightarrow>
               (case broker_inbound broker b of
                  (Inl failure, b) \<Rightarrow> (Inl (for_action failure AllowInboundSharing), b)
                | (Inr True, b) \<Rightarrow> (Inr (), b)
                | (Inr False, b) \<Rightarrow> (Inl firewall_unavailable, b))))"

definition setup_install_queue ::
  "'b ElevationBroker \<Rightarrow> ClientQueueRequest \<Rightarrow> 'b \<Rightarrow> (AppError + unit) \<times> 'b" where
  "setup_install_queue broker request b =
     (case broker_install broker request b of
        (Inl failure, b) \<Rightarrow> (Inl (for_queue_install failure request), b)
      | (Inr _, b) \<Rightarrow> (Inr (), b))"

definition setup_repair_queue ::
  "'b ElevationBroker \<Rightarrow> ClientQueueRequest \<Rightarrow> 'b \<Rightarrow> (AppError + unit) \<times> 'b" where
  "setup_repair_queue broker request b =
     (case broker_repair broker request b of
        (Inl failure, b) \<Rightarrow> (Inl (for_queue_repair failure request), b)
      | (Inr _, b) \<Rightarrow> (Inr (), b))"

section \<open>Codes and permission\<close>

lemma find_code:
  assumes "\<And>b. f b = f a \<Longrightarrow> b = a" "a \<in> set xs"
  shows "List.find (\<lambda>k. f k = v) xs = Some a \<longleftrightarrow> v = f a"
proof
  assume "List.find (\<lambda>k. f k = v) xs = Some a"
  then show "v = f a" by (auto simp: find_Some_iff)
next
  assume v: "v = f a"
  with assms(2) have "List.find (\<lambda>k. f k = v) xs \<noteq> None" by (auto simp: find_None_iff)
  then obtain b where b: "List.find (\<lambda>k. f k = v) xs = Some b" by blast
  then have "f b = v" by (auto simp: find_Some_iff)
  with assms(1) v b show "List.find (\<lambda>k. f k = v) xs = Some a" by simp
qed

lemma SetupAction_ALL_complete: "a \<in> set SetupAction_ALL"
  by (cases a) (simp_all add: SetupAction_ALL_def)

lemma SetupAction_as_str_inject [simp]: "SetupAction_as_str a = SetupAction_as_str b \<longleftrightarrow> a = b"
  by (cases a; cases b) simp_all

lemma SetupAction_parse_Some_iff: "SetupAction_parse v = Some a \<longleftrightarrow> v = SetupAction_as_str a"
  unfolding SetupAction_parse_def by (rule find_code) (simp_all add: SetupAction_ALL_complete)

lemma SetupFailureKind_ALL_complete: "k \<in> set SetupFailureKind_ALL"
  by (cases k) (simp_all add: SetupFailureKind_ALL_def)

text \<open>
  An elevated helper reports only an exit code: it gives back exactly the kind of failure, never
  success, and no other code is taken for a failure kind.
\<close>

lemma failure_offset_inject [simp]: "failure_offset a = failure_offset b \<longleftrightarrow> a = b"
  by (cases a; cases b) simp_all

lemma failure_offset_range: "0 \<le> failure_offset k \<and> failure_offset k < 10"
  by (cases k) simp_all

theorem exit_codes_classified: "from_exit_code code = Some kind \<longleftrightarrow> code = exit_code kind"
proof -
  have "List.find (\<lambda>k. exit_code k = code) SetupFailureKind_ALL = Some kind \<longleftrightarrow> code = exit_code kind"
    by (rule find_code) (simp_all add: exit_code_def SetupFailureKind_ALL_complete)
  moreover have "exit_code kind \<noteq> 0"
    using failure_offset_range [of kind] by (simp add: exit_code_def FIRST_FAILURE_EXIT_CODE_def)
  ultimately show ?thesis by (auto simp: from_exit_code_def)
qed

lemma SetupFailureKind_id_inject [simp]: "SetupFailureKind_id a = SetupFailureKind_id b \<longleftrightarrow> a = b"
  by (cases a; cases b) simp_all

lemma failure_ids_roundtrip: "SetupFailureKind_from_id v = Some kind \<longleftrightarrow> v = SetupFailureKind_id kind"
  unfolding SetupFailureKind_from_id_def by (rule find_code) (simp_all add: SetupFailureKind_ALL_complete)

text \<open>Permission is asked for exactly when the action changes the machine for every user.\<close>

lemma setup_request_prompts:
  "setup_request broker action b = (Inr Routine, b') \<Longrightarrow> b' = b \<and> \<not> requires_elevation action"
  by (auto simp: setup_request_def split: if_splits prod.splits sum.splits)

text \<open>Sharing starts only after the last check said that clients can connect.\<close>

lemma ensure_inbound_sharing_checked:
  assumes "ensure_inbound_sharing broker b = (Inr (), b')"
  shows "\<exists>before. broker_inbound broker before = (Inr True, b')"
  using assms
  by (auto simp: ensure_inbound_sharing_def split: prod.splits sum.splits bool.splits)

lemma ensure_inbound_sharing_silent:
  assumes "broker_inbound broker b = (Inr True, b')"
  shows "ensure_inbound_sharing broker b = (Inr (), b')"
  using assms by (simp add: ensure_inbound_sharing_def)

end
