(* ===== verification/Queue_Installation.thy ===== *)
theory Queue_Installation
  imports Setup_Actions Troubleshooting Queue_Routing Trust_Policy Runtime_Coordinator
begin

text \<open>
  \<open>application/queue_installation.rs\<close>, and what \<open>adapters/queue_installation/mod.rs\<close> supplies to it:
  installing and repairing the client queue of a printer that an approved server shares. The listing
  server is asked through the trust store; the elevated helper is the broker of \<open>Setup_Actions\<close>.
\<close>

section \<open>What the use case asks\<close>

record TrustedPrinters =
  trusted_address :: ustr
  trusted_printers :: "PrinterName list"

fun parse_names :: "ustr list \<Rightarrow> AppError + PrinterName list" where
  "parse_names [] = Inr []"
| "parse_names (s # ss) =
     and_then (PrinterName_parse s) (\<lambda>n. and_then (parse_names ss) (\<lambda>ns. Inr (n # ns)))"

definition trusted_server_printers ::
  "(bytes \<Rightarrow> bytes) \<Rightarrow> network \<Rightarrow> ustr \<Rightarrow> ClientConnections
    \<Rightarrow> (AppError + TrustedPrinters) \<times> ClientConnections \<times> Written list" where
  "trusted_server_printers sha256 net address st =
     (case printers sha256 net address st of
        (Inl e, st, w) \<Rightarrow> (Inl e, st, w)
      | (Inr listed, st, w) \<Rightarrow>
          (and_then (parse_names (printer_names listed)) (\<lambda>names.
             Inr \<lparr>trusted_address = printers_address listed, trusted_printers = names\<rparr>), st, w))"

definition proxy_is_running :: "RuntimeStatus \<Rightarrow> bool" where
  "proxy_is_running runtime \<longleftrightarrow>
     list_ex (\<lambda>s. status_id s = ClientProxy \<and> status_state s = Running) (runtime_services runtime)"

record InstallContext =
  installer_available :: bool
  installer_authority :: ustr
  install_runtime :: RuntimeStatus
  install_channel :: bool

record ClientQueue =
  queue_request :: ClientQueueRequest
  queue_destination :: ustr

section \<open>Settling the request\<close>

definition proxy_not_running :: AppError where
  "proxy_not_running =
     invalid_state (lit ''the local print proxy is not running. Start it, then manage the queue again.'')"

definition channel_not_configured :: AppError where
  "channel_not_configured =
     invalid_state (lit ''a Network Channel is not configured. Set the shared Network Channel before managing the queue.'')"

definition request_for ::
  "(bytes \<Rightarrow> bytes) \<Rightarrow> network \<Rightarrow> InstallContext \<Rightarrow> ustr \<Rightarrow> ustr \<Rightarrow> ClientConnections
    \<Rightarrow> (AppError + ClientQueueRequest \<times> ustr) \<times> ClientConnections \<times> Written list" where
  "request_for sha256 net ctx server_address printer st =
     (if \<not> installer_available ctx
      then (Inl (unsupported_error (lit ''installing a native Windows printer queue is only supported on Windows'')), st, [])
      else
        (case PrinterName_parse printer of
           Inl e \<Rightarrow> (Inl e, st, [])
         | Inr printer \<Rightarrow>
             if \<not> proxy_is_running (install_runtime ctx) then (Inl proxy_not_running, st, [])
             else if \<not> install_channel ctx then (Inl channel_not_configured, st, [])
             else
               (case trusted_server_printers sha256 net server_address st of
                  (Inl e, st, w) \<Rightarrow> (Inl e, st, w)
                | (Inr listing, st, w) \<Rightarrow>
                    if printer \<notin> set (trusted_printers listing)
                    then (Inl (invalid_input
                           (lit ''the trusted server '' @ trusted_address listing
                            @ lit '' is not sharing a printer named '' @ [34] @ PrinterName_as_str printer @ [34]
                            @ lit ''. Show its shared printers again and choose one of them.'')), st, w)
                    else
                      (and_then (ClientQueueRequest_new (trusted_address listing) printer) (\<lambda>request.
                       and_then (queue_uri (installer_authority ctx) request) (\<lambda>uri.
                       Inr (request, uri))), st, w))))"

section \<open>Installing and repairing\<close>

definition install_queue ::
  "(bytes \<Rightarrow> bytes) \<Rightarrow> network \<Rightarrow> InstallContext \<Rightarrow> 'b ElevationBroker \<Rightarrow> ustr \<Rightarrow> ustr
    \<Rightarrow> ClientConnections \<Rightarrow> 'b \<Rightarrow> (AppError + ClientQueue) \<times> ClientConnections \<times> 'b" where
  "install_queue sha256 net ctx broker server_address printer st b =
     (case request_for sha256 net ctx server_address printer st of
        (Inl e, st, _) \<Rightarrow> (Inl e, st, b)
      | (Inr (request, uri), st, _) \<Rightarrow>
          (case setup_install_queue broker request b of
             (Inl e, b) \<Rightarrow> (Inl e, st, b)
           | (Inr _, b) \<Rightarrow> (Inr \<lparr>queue_request = request, queue_destination = uri\<rparr>, st, b)))"

definition recognised_target :: "ClientQueueRequest \<Rightarrow> RecognisedClientQueue" where
  "recognised_target request =
     \<lparr>recognised_queue_name = request_queue_name request,
      recognised_server_address = request_server_address request,
      recognised_printer_name = request_printer request\<rparr>"

definition jobs_pending :: "u32 \<Rightarrow> AppError" where
  "jobs_pending n =
     invalid_state (lit ''print jobs are pending in the Client queue ('' @ show_nat (unat n)
       @ lit '' jobs). Wait for them to finish before repairing.'')"

text \<open>
  \<open>catalog\<close> is what inspecting a queue and counting its jobs give, when the instance has a catalogue.
\<close>

type_synonym queue_catalog =
  "(RecognisedClientQueue \<Rightarrow> AppError + LocalQueueInspection) \<times> (RecognisedClientQueue \<Rightarrow> AppError + u32)"

definition recheck_repair_prerequisites ::
  "queue_catalog option \<Rightarrow> ClientQueueRequest \<Rightarrow> AppError + unit" where
  "recheck_repair_prerequisites catalog request =
     (case catalog of
        None \<Rightarrow> Inr ()
      | Some (look, count) \<Rightarrow>
          let target = recognised_target request in
          (case look target of
             Inr (LocalQueueInspection.Matching (Some n)) \<Rightarrow>
               if n = 0 then Inr () else Inl (jobs_pending n)
           | Inr (LocalQueueInspection.Matching None) \<Rightarrow>
               (case count target of
                  Inr n \<Rightarrow> if n = 0 then Inr () else Inl (jobs_pending n)
                | Inl e \<Rightarrow>
                    Inl (invalid_state (lit ''pending print jobs could not be read: '' @ err_message e
                      @ lit ''. Repair remains blocked until the queue is known to be empty.'')))
           | Inr Missing \<Rightarrow> Inl (queue_unavailable (lit ''the Client queue is not installed.''))
           | Inr Mismatched \<Rightarrow>
               Inl (invalid_state (lit ''the Client queue destination does not match the selected server and printer.''))
           | Inl e \<Rightarrow>
               Inl (invalid_state (lit ''the Client queue state could not be inspected: '' @ err_message e
                 @ lit ''. Repair remains blocked until the queue is known to be empty.''))))"

definition repair_queue ::
  "(bytes \<Rightarrow> bytes) \<Rightarrow> network \<Rightarrow> InstallContext \<Rightarrow> queue_catalog option \<Rightarrow> 'b ElevationBroker
    \<Rightarrow> ustr \<Rightarrow> ustr \<Rightarrow> ClientConnections \<Rightarrow> 'b
    \<Rightarrow> (AppError + ClientQueue) \<times> ClientConnections \<times> 'b" where
  "repair_queue sha256 net ctx catalog broker server_address printer st b =
     (case request_for sha256 net ctx server_address printer st of
        (Inl e, st, _) \<Rightarrow> (Inl e, st, b)
      | (Inr (request, uri), st, _) \<Rightarrow>
          (case recheck_repair_prerequisites catalog request of
             Inl e \<Rightarrow> (Inl e, st, b)
           | Inr _ \<Rightarrow>
               (case setup_repair_queue broker request b of
                  (Inl e, b) \<Rightarrow> (Inl e, st, b)
                | (Inr _, b) \<Rightarrow> (Inr \<lparr>queue_request = request, queue_destination = uri\<rparr>, st, b))))"

section \<open>What a settled request guarantees\<close>

lemma parse_names_Inr:
  "parse_names ss = Inr ns \<Longrightarrow> n \<in> set ns \<Longrightarrow> \<exists>s \<in> set ss. PrinterName_parse s = Inr n"
  by (induction ss arbitrary: ns) (auto simp: and_then_Inr_iff)

lemma trusted_server_printers_Inr:
  assumes "trusted_server_printers sha256 net address st = (Inr listing, st', w)"
  obtains a cert stream names where "ServerAddress_parse address = Inr a"
    "net a = Connected cert stream" "map_of (saved st) (addr_normalized a) = Some (fingerprint sha256 cert)"
    "query_printers a stream = (Inr names, w)" "parse_names names = Inr (trusted_printers listing)"
    "trusted_address listing = addr_normalized a"
proof -
  from assms obtain listed where listed: "printers sha256 net address st = (Inr listed, st', w)"
    "parse_names (printer_names listed) = Inr (trusted_printers listing)"
    "trusted_address listing = printers_address listed"
    by (auto simp: trusted_server_printers_def and_then_Inr_iff split: sum.splits prod.splits)
  then obtain a cert stream names where "ServerAddress_parse address = Inr a"
    "net a = Connected cert stream" "map_of (saved st) (addr_normalized a) = Some (fingerprint sha256 cert)"
    "query_printers a stream = (Inr names, w)"
    "listed = \<lparr>printers_address = addr_normalized a, printer_names = names\<rparr>"
    by (auto simp: printers_def refresh_store_Inr connect_Inr
        split: sum.splits prod.splits option.splits if_splits)
  with listed that show ?thesis by simp
qed

lemma request_for_Inr:
  assumes "request_for sha256 net ctx server_address printer st = (Inr (request, uri), st', w)"
  obtains p listing where "PrinterName_parse printer = Inr p"
    "proxy_is_running (install_runtime ctx)" "install_channel ctx" "installer_available ctx"
    "trusted_server_printers sha256 net server_address st = (Inr listing, st', w)"
    "p \<in> set (trusted_printers listing)"
    "ClientQueueRequest_new (trusted_address listing) p = Inr request"
    "queue_uri (installer_authority ctx) request = Inr uri"
  using assms
  by (auto simp: request_for_def and_then_Inr_iff split: if_splits sum.splits prod.splits)

lemma install_queue_Inr:
  assumes "install_queue sha256 net ctx broker server_address printer st b = (Inr queue, st', b')"
  obtains w where "request_for sha256 net ctx server_address printer st
      = (Inr (queue_request queue, queue_destination queue), st', w)"
    "broker_install broker (queue_request queue) b = (Inr (), b')"
  using assms
  by (auto simp: install_queue_def setup_install_queue_def split: if_splits sum.splits prod.splits)

lemma repair_queue_Inr:
  assumes "repair_queue sha256 net ctx catalog broker server_address printer st b = (Inr queue, st', b')"
  obtains w where "request_for sha256 net ctx server_address printer st
      = (Inr (queue_request queue, queue_destination queue), st', w)"
    "recheck_repair_prerequisites catalog (queue_request queue) = Inr ()"
    "broker_repair broker (queue_request queue) b = (Inr (), b')"
  using assms
  by (auto simp: repair_queue_def setup_repair_queue_def split: if_splits sum.splits prod.splits)

lemma recheck_empty:
  assumes "recheck_repair_prerequisites (Some (look, count)) request = Inr ()"
  shows "look (recognised_target request) = Inr (LocalQueueInspection.Matching (Some 0))
    \<or> look (recognised_target request) = Inr (LocalQueueInspection.Matching None)
      \<and> count (recognised_target request) = Inr 0"
  using assms
  by (auto simp: recheck_repair_prerequisites_def Let_def
      split: sum.splits LocalQueueInspection.splits option.splits if_splits)

text \<open>
  C15: A client queue is installed only where it can print: when the install succeeds, the local proxy
  was running and a channel configured, the server presented the approved certificate and
  listed the printer in that exchange, the elevated helper was asked to install exactly this queue, and
  the destination of the queue leads the proxy back to that server and printer.
\<close>

theorem installed_queue_reaches_trusted:
  assumes "install_queue sha256 net ctx broker server_address printer st b = (Inr queue, st', b')"
    and "installer_authority ctx = lit ''127.0.0.1:'' @ show_nat port" "port \<le> 65535"
    and "wf_ustr printer" "wf_ustr (request_server_address (queue_request queue))"
    and "normalize_address (request_server_address (queue_request queue))
      = Inr (request_server_address (queue_request queue))"
  shows "proxy_is_running (install_runtime ctx) \<and> install_channel ctx
    \<and> broker_install broker (queue_request queue) b = (Inr (), b')
    \<and> (\<exists>a p cert stream names w. ServerAddress_parse server_address = Inr a
         \<and> PrinterName_parse printer = Inr p \<and> net a = Connected cert stream
         \<and> map_of (saved st) (addr_normalized a) = Some (fingerprint sha256 cert)
         \<and> query_printers a stream = (Inr names, w) \<and> (\<exists>s \<in> set names. PrinterName_parse s = Inr p)
         \<and> route_uri (queue_destination queue) (installer_authority ctx)
             = Inr (trim (addr_normalized a), p))"
proof -
  from install_queue_Inr [OF assms(1)] obtain w where
    r: "request_for sha256 net ctx server_address printer st
      = (Inr (queue_request queue, queue_destination queue), st', w)"
    and b: "broker_install broker (queue_request queue) b = (Inr (), b')" .
  from request_for_Inr [OF r] obtain p listing where
    p: "PrinterName_parse printer = Inr p" and run: "proxy_is_running (install_runtime ctx)" "install_channel ctx"
    and t: "trusted_server_printers sha256 net server_address st = (Inr listing, st', w)"
      "p \<in> set (trusted_printers listing)"
    and req: "ClientQueueRequest_new (trusted_address listing) p = Inr (queue_request queue)"
    and uri: "queue_uri (installer_authority ctx) (queue_request queue) = Inr (queue_destination queue)" .
  from trusted_server_printers_Inr [OF t(1)] obtain a cert stream names where
    a: "ServerAddress_parse server_address = Inr a" "net a = Connected cert stream"
      "map_of (saved st) (addr_normalized a) = Some (fingerprint sha256 cert)"
      "query_printers a stream = (Inr names, w)" "parse_names names = Inr (trusted_printers listing)"
      "trusted_address listing = addr_normalized a" .
  have wf: "wf_name (PrinterName_as_str p)" using p by (auto simp: PrinterName_parse_Inr_iff)
  have addr: "request_server_address (queue_request queue) = trim (addr_normalized a)"
    using ClientQueueRequest_new_Inr(2) [OF req wf] a(6) by simp
  have "ClientQueueRequest_new (trim (addr_normalized a)) p = Inr (queue_request queue)"
    using req a(6) by (simp add: ClientQueueRequest_new_def Let_def)
  then have "route_uri (queue_destination queue) (installer_authority ctx)
      = Inr (request_server_address (queue_request queue), p)"
    using installed_queue_routed [OF p assms(4) _ _ assms(6,2,3) uri] assms(5) addr by metis
  with addr run b p a(1-4) parse_names_Inr [OF a(5) t(2)] show ?thesis by metis
qed

end
