(* ===== verification/Test_Print.thy ===== *)
theory Test_Print
  imports Troubleshooting Media_Catalog
begin

text \<open>
  \<open>application/test_print.rs\<close>: the guided test page. One session at a time looks at a client queue,
  and the user may then print a test page on it. An operation runs from one \<open>await\<close> to the next as
  one step; what it awaits is pending, and a submission to the spooler runs as a worker of its own.
  The answers of the inspection and of the spooler are arguments of the steps.
\<close>

section \<open>Data\<close>

datatype SubmissionOutcome = NotSent | Checking | Accepted | Rejected | Uncertain | Blocked

fun SubmissionOutcome_as_str :: "SubmissionOutcome \<Rightarrow> ustr" where
  "SubmissionOutcome_as_str NotSent = lit ''not-sent''"
| "SubmissionOutcome_as_str Checking = lit ''checking''"
| "SubmissionOutcome_as_str Accepted = lit ''accepted''"
| "SubmissionOutcome_as_str Rejected = lit ''rejected''"
| "SubmissionOutcome_as_str Uncertain = lit ''uncertain''"
| "SubmissionOutcome_as_str Blocked = lit ''blocked''"

datatype PhysicalResult = Unconfirmed | Correct | NoOutput | Incorrect

definition PhysicalResult_parse :: "ustr \<Rightarrow> AppError + PhysicalResult" where
  "PhysicalResult_parse s =
     (if s = lit ''correct'' then Inr Correct
      else if s = lit ''no-output'' then Inr NoOutput
      else if s = lit ''incorrect'' then Inr Incorrect
      else Inl (invalid_input (lit ''Choose the observed physical result.'')))"

fun PhysicalResult_as_str :: "PhysicalResult \<Rightarrow> ustr" where
  "PhysicalResult_as_str Unconfirmed = lit ''unconfirmed''"
| "PhysicalResult_as_str Correct = lit ''correct''"
| "PhysicalResult_as_str NoOutput = lit ''no-output''"
| "PhysicalResult_as_str Incorrect = lit ''incorrect''"

datatype UserSymptom = Clipping | Shifted | IncorrectSize | Blank

definition UserSymptom_parse :: "ustr \<Rightarrow> AppError + UserSymptom" where
  "UserSymptom_parse s =
     (if s = lit ''clipping'' then Inr Clipping
      else if s = lit ''shifted'' \<or> s = lit ''shifted-position'' then Inr Shifted
      else if s = lit ''size'' \<or> s = lit ''incorrect-size'' then Inr IncorrectSize
      else if s = lit ''blank'' \<or> s = lit ''blank-output'' then Inr Blank
      else Inl (invalid_input (lit ''Choose an observed symptom.'')))"

fun UserSymptom_as_str :: "UserSymptom \<Rightarrow> ustr" where
  "UserSymptom_as_str Clipping = lit ''clipping''"
| "UserSymptom_as_str Shifted = lit ''shifted''"
| "UserSymptom_as_str IncorrectSize = lit ''incorrect-size''"
| "UserSymptom_as_str Blank = lit ''blank''"

definition test_media_from_keyword :: "ustr \<Rightarrow> MediaSpec option" where
  "test_media_from_keyword k = List.find (\<lambda>m. keyword m = k) MEDIA_CATALOG"

record TestPrintSnapshot =
  session_id :: nat
  session_diagnostics :: TroubleshootingSnapshot
  requested_media :: "MediaSpec option"
  session_submission :: SubmissionOutcome
  physical_result :: PhysicalResult
  user_symptom :: "UserSymptom option"
  session_attempts :: "SubmissionOutcome list"
  session_supported :: bool
  session_ready :: bool
  session_run :: nat

definition can_send :: "TestPrintSnapshot \<Rightarrow> bool" where
  "can_send s \<longleftrightarrow> session_supported s \<and> session_ready s \<and> requested_media s \<noteq> None
     \<and> is_repair_eligible (session_diagnostics s)"

section \<open>State\<close>

record NativeSubmission =
  submitted_target :: RecognisedClientQueue
  submitted_media :: MediaSpec
  submission_running :: bool

record GuidedTestPrint =
  has_native :: bool
  current_session :: "TestPrintSnapshot option"
  next_session :: nat
  submitting :: bool
  native_submissions :: "NativeSubmission list"

definition GuidedTestPrint_new :: "bool \<Rightarrow> GuidedTestPrint" where
  "GuidedTestPrint_new native =
     \<lparr>has_native = native, current_session = None, next_session = 1, submitting = False,
      native_submissions = []\<rparr>"

datatype TestPending =
    RefreshInspecting nat nat RecognisedClientQueue
  | SendInspecting nat nat RecognisedClientQueue "MediaSpec option"
  | SendWaiting nat nat nat

datatype TestOutcome = TestReturned "AppError + TestPrintSnapshot" | TestSuspended TestPending

definition stale :: AppError where
  "stale = invalid_state (lit ''This test print session is closed, busy, or superseded. Check again.'')"

text \<open>
  What an inspection is told: the runtime and the observations while it inspects, those when it
  refreshes the live prerequisites, and the default media of the queue, \<open>None\<close> when it is not known.
\<close>

record TestAnswers =
  runtime_then :: RuntimeStatus
  seen_then :: Observations
  runtime_now :: RuntimeStatus
  seen_now :: Observations
  answered_media :: "MediaSpec option"

definition inspect_session ::
  "GuidedTestPrint \<Rightarrow> TestAnswers \<Rightarrow> RecognisedClientQueue \<Rightarrow> TroubleshootingSnapshot \<times> MediaSpec option" where
  "inspect_session g ans target =
     (let diagnostics = inspect_queue (runtime_then ans) (seen_then ans) target;
          media = (if has_native g then answered_media ans else None)
      in (refresh_live_prerequisites (runtime_now ans) (seen_now ans) diagnostics, media))"

section \<open>Operations\<close>

definition refresh_begin :: "nat \<Rightarrow> GuidedTestPrint \<Rightarrow> TestOutcome \<times> GuidedTestPrint" where
  "refresh_begin sid g =
     (case current_session g of
        None \<Rightarrow> (TestReturned (Inl stale), g)
      | Some s \<Rightarrow>
          if session_id s = sid \<and> session_submission s \<noteq> Checking
          then (TestSuspended (RefreshInspecting sid (session_run s + 1)
                  (snapshot_target (session_diagnostics s))),
                g\<lparr>current_session := Some (s\<lparr>session_ready := False, session_run := session_run s + 1\<rparr>)\<rparr>)
          else (TestReturned (Inl stale), g))"

definition refresh_end ::
  "TestAnswers \<Rightarrow> nat \<Rightarrow> nat \<Rightarrow> RecognisedClientQueue \<Rightarrow> GuidedTestPrint \<Rightarrow> TestOutcome \<times> GuidedTestPrint" where
  "refresh_end ans sid run_no target g =
     (let (diagnostics, media) = inspect_session g ans target in
      case current_session g of
        None \<Rightarrow> (TestReturned (Inl stale), g)
      | Some s \<Rightarrow>
          if session_id s = sid \<and> session_run s = run_no
          then
            let s = s\<lparr>session_diagnostics := diagnostics, requested_media := media,
                      session_ready := \<not> submitting g\<rparr>
            in (TestReturned (Inr s), g\<lparr>current_session := Some s\<rparr>)
          else (TestReturned (Inl stale), g))"

definition new_session :: "nat \<Rightarrow> RecognisedClientQueue \<Rightarrow> bool \<Rightarrow> TestPrintSnapshot" where
  "new_session sid target native =
     \<lparr>session_id = sid,
      session_diagnostics = \<lparr>snapshot_target = target, snapshot_checks = []\<rparr>,
      requested_media = None, session_submission = NotSent, physical_result = Unconfirmed,
      user_symptom = None, session_attempts = [], session_supported = native,
      session_ready = False, session_run = 0\<rparr>"

definition open_session :: "RecognisedClientQueue \<Rightarrow> GuidedTestPrint \<Rightarrow> TestOutcome \<times> GuidedTestPrint" where
  "open_session target g =
     (let sid = next_session g
      in refresh_begin sid
           (g\<lparr>next_session := sid + 1, current_session := Some (new_session sid target (has_native g))\<rparr>))"

definition close_session :: "nat \<Rightarrow> GuidedTestPrint \<Rightarrow> GuidedTestPrint" where
  "close_session sid g =
     (case current_session g of
        Some s \<Rightarrow> if session_id s = sid then g\<lparr>current_session := None\<rparr> else g
      | None \<Rightarrow> g)"

definition send_begin :: "nat \<Rightarrow> GuidedTestPrint \<Rightarrow> TestOutcome \<times> GuidedTestPrint" where
  "send_begin sid g =
     (if \<not> has_native g
      then (TestReturned (Inl (unsupported_error (lit ''Native test print is not available on this platform.''))), g)
      else
        (case current_session g of
           None \<Rightarrow> (TestReturned (Inl stale), g)
         | Some s \<Rightarrow>
             if \<not> (session_id s = sid \<and> can_send s) then (TestReturned (Inl stale), g)
             else if submitting g then (TestReturned (Inl stale), g)
             else
               (TestSuspended (SendInspecting sid (session_run s + 1)
                  (snapshot_target (session_diagnostics s)) (requested_media s)),
                g\<lparr>submitting := True,
                  current_session := Some (s\<lparr>session_ready := False, session_run := session_run s + 1,
                    session_submission := Checking, physical_result := Unconfirmed,
                    user_symptom := None\<rparr>)\<rparr>)))"

text \<open>Dropping the guard of a submission ends its claim; a worker takes the guard over.\<close>

definition drop_guard :: "GuidedTestPrint \<Rightarrow> GuidedTestPrint" where
  "drop_guard g = g\<lparr>submitting := False\<rparr>"

definition send_inspected ::
  "TestAnswers \<Rightarrow> nat \<Rightarrow> nat \<Rightarrow> RecognisedClientQueue \<Rightarrow> MediaSpec option \<Rightarrow> GuidedTestPrint
    \<Rightarrow> TestOutcome \<times> GuidedTestPrint" where
  "send_inspected ans sid run_no target preview_media g =
     (let (diagnostics, media) = inspect_session g ans target in
      case current_session g of
        None \<Rightarrow> (TestReturned (Inl stale), drop_guard g)
      | Some s \<Rightarrow>
          if \<not> (session_id s = sid \<and> session_run s = run_no)
          then (TestReturned (Inl stale), drop_guard g)
          else
            let s = s\<lparr>session_diagnostics := diagnostics, requested_media := media\<rparr> in
            (case media of
               Some m \<Rightarrow>
                 if \<not> is_repair_eligible diagnostics \<or> media \<noteq> preview_media
                 then
                   let s = s\<lparr>session_submission := Blocked,
                             session_attempts := session_attempts s @ [Blocked]\<rparr>
                   in (TestReturned (Inr s), drop_guard (g\<lparr>current_session := Some s\<rparr>))
                 else
                   (TestSuspended (SendWaiting sid run_no (length (native_submissions g))),
                    g\<lparr>current_session := Some s,
                      native_submissions := native_submissions g
                        @ [\<lparr>submitted_target = target, submitted_media = m, submission_running = True\<rparr>]\<rparr>)
             | None \<Rightarrow>
                 let s = s\<lparr>session_submission := Blocked,
                           session_attempts := session_attempts s @ [Blocked]\<rparr>
                 in (TestReturned (Inr s), drop_guard (g\<lparr>current_session := Some s\<rparr>))))"

text \<open>
  \<open>answer\<close> is what the worker gave before the timeout; \<open>None\<close> is a timeout, or a worker that
  panicked.
\<close>

definition submission_result :: "SubmissionOutcome option \<Rightarrow> SubmissionOutcome" where
  "submission_result answer =
     (case answer of
        Some Accepted \<Rightarrow> Accepted
      | Some Rejected \<Rightarrow> Rejected
      | _ \<Rightarrow> Uncertain)"

definition send_end ::
  "SubmissionOutcome option \<Rightarrow> nat \<Rightarrow> nat \<Rightarrow> GuidedTestPrint \<Rightarrow> TestOutcome \<times> GuidedTestPrint" where
  "send_end answer sid run_no g =
     (case current_session g of
        None \<Rightarrow> (TestReturned (Inl stale), g)
      | Some s \<Rightarrow>
          if session_id s = sid \<and> session_run s = run_no
          then
            let outcome = submission_result answer;
                s = s\<lparr>session_submission := outcome, physical_result := Unconfirmed,
                      user_symptom := None, session_attempts := session_attempts s @ [outcome]\<rparr>
            in (TestReturned (Inr s), g\<lparr>current_session := Some s\<rparr>)
          else (TestReturned (Inl stale), g))"

definition confirm_session ::
  "nat \<Rightarrow> PhysicalResult \<Rightarrow> UserSymptom option \<Rightarrow> GuidedTestPrint
    \<Rightarrow> (AppError + TestPrintSnapshot) \<times> GuidedTestPrint" where
  "confirm_session sid res symptom g =
     (case current_session g of
        None \<Rightarrow> (Inl stale, g)
      | Some s \<Rightarrow>
          if \<not> (session_id s = sid \<and> session_submission s \<in> {Accepted, Uncertain}) then (Inl stale, g)
          else if res \<noteq> Incorrect \<and> symptom \<noteq> None
          then (Inl (invalid_input (lit ''Symptoms apply only to incorrect output.'')), g)
          else
            let s = s\<lparr>physical_result := res, user_symptom := symptom\<rparr>
            in (Inr s, g\<lparr>current_session := Some s\<rparr>))"

section \<open>Runs\<close>

text \<open>The worker of a submission ends, which drops the guard.\<close>

definition worker_end :: "nat \<Rightarrow> GuidedTestPrint \<Rightarrow> GuidedTestPrint option" where
  "worker_end n g =
     (if n < length (native_submissions g) \<and> submission_running (native_submissions g ! n)
      then Some (drop_guard (g\<lparr>native_submissions :=
             (native_submissions g)[n := (native_submissions g ! n)\<lparr>submission_running := False\<rparr>]\<rparr>))
      else None)"

datatype TestEvent =
    Open RecognisedClientQueue
  | CloseId nat
  | Refresh nat
  | Send nat
  | Confirm nat PhysicalResult "UserSymptom option"
  | Inspected nat TestAnswers
  | Waited nat "SubmissionOutcome option"
  | WorkerEnds nat

record TestRun =
  run_state :: GuidedTestPrint
  run_pending :: "TestPending list"

definition test_settle :: "TestPending list \<Rightarrow> TestOutcome \<times> GuidedTestPrint \<Rightarrow> TestRun" where
  "test_settle ps r =
     (case r of
        (TestReturned _, g) \<Rightarrow> \<lparr>run_state = g, run_pending = ps\<rparr>
      | (TestSuspended p, g) \<Rightarrow> \<lparr>run_state = g, run_pending = p # ps\<rparr>)"

fun test_resume :: "TestPending \<Rightarrow> TestAnswers \<Rightarrow> GuidedTestPrint \<Rightarrow> (TestOutcome \<times> GuidedTestPrint) option" where
  "test_resume (RefreshInspecting sid run_no target) ans g = Some (refresh_end ans sid run_no target g)"
| "test_resume (SendInspecting sid run_no target preview) ans g =
     Some (send_inspected ans sid run_no target preview g)"
| "test_resume (SendWaiting _ _ _) ans g = None"

fun test_waited :: "TestPending \<Rightarrow> SubmissionOutcome option \<Rightarrow> GuidedTestPrint \<Rightarrow> (TestOutcome \<times> GuidedTestPrint) option" where
  "test_waited (SendWaiting sid run_no n) answer g =
     (if answer \<noteq> None \<and> submission_running (native_submissions g ! n) then None
      else Some (send_end answer sid run_no g))"
| "test_waited _ answer g = None"

definition others :: "nat \<Rightarrow> 'a list \<Rightarrow> 'a list" where
  "others n xs = take n xs @ drop (Suc n) xs"

fun test_event :: "TestEvent \<Rightarrow> TestRun \<Rightarrow> TestRun option" where
  "test_event (Open target) r = Some (test_settle (run_pending r) (open_session target (run_state r)))"
| "test_event (CloseId sid) r = Some (r\<lparr>run_state := close_session sid (run_state r)\<rparr>)"
| "test_event (Refresh sid) r = Some (test_settle (run_pending r) (refresh_begin sid (run_state r)))"
| "test_event (Send sid) r = Some (test_settle (run_pending r) (send_begin sid (run_state r)))"
| "test_event (Confirm sid res symptom) r =
     Some (r\<lparr>run_state := snd (confirm_session sid res symptom (run_state r))\<rparr>)"
| "test_event (Inspected n ans) r =
     (if n < length (run_pending r)
      then map_option (test_settle (others n (run_pending r)))
             (test_resume (run_pending r ! n) ans (run_state r))
      else None)"
| "test_event (Waited n answer) r =
     (if n < length (run_pending r)
      then map_option (test_settle (others n (run_pending r)))
             (test_waited (run_pending r ! n) answer (run_state r))
      else None)"
| "test_event (WorkerEnds n) r =
     map_option (\<lambda>g. r\<lparr>run_state := g\<rparr>) (worker_end n (run_state r))"

inductive test_reachable :: "bool \<Rightarrow> TestRun \<Rightarrow> bool" for native where
  test_initial: "test_reachable native \<lparr>run_state = GuidedTestPrint_new native, run_pending = []\<rparr>"
| test_step: "test_reachable native r \<Longrightarrow> test_event e r = Some r' \<Longrightarrow> test_reachable native r'"

section \<open>One claim at a time\<close>

text \<open>Who holds the guard of a submission: a send that still inspects, or a worker that still runs.\<close>

fun holds_guard :: "TestPending \<Rightarrow> bool" where
  "holds_guard (SendInspecting _ _ _ _) = True"
| "holds_guard _ = False"

definition inspecting_sends :: "TestPending list \<Rightarrow> nat" where
  "inspecting_sends ps = length (filter holds_guard ps)"

definition running_workers :: "GuidedTestPrint \<Rightarrow> nat" where
  "running_workers g = length (filter submission_running (native_submissions g))"

definition guard_inv :: "TestRun \<Rightarrow> bool" where
  "guard_inv r \<longleftrightarrow> inspecting_sends (run_pending r) + running_workers (run_state r)
     = (if submitting (run_state r) then 1 else 0)"

lemma inspecting_sends_Cons [simp]:
  "inspecting_sends (p # ps) = (if holds_guard p then 1 else 0) + inspecting_sends ps"
  by (simp add: inspecting_sends_def)

lemma inspecting_sends_others:
  assumes "n < length ps"
  shows "inspecting_sends ps = (if holds_guard (ps ! n) then 1 else 0) + inspecting_sends (others n ps)"
proof -
  have "inspecting_sends ps = inspecting_sends (take n ps @ ps ! n # drop (Suc n) ps)"
    by (rule arg_cong [OF id_take_nth_drop [OF assms]])
  then show ?thesis by (simp add: inspecting_sends_def others_def)
qed

lemma running_workers_simps [simp]:
  "running_workers (g\<lparr>current_session := x\<rparr>) = running_workers g"
  "running_workers (g\<lparr>next_session := y\<rparr>) = running_workers g"
  "running_workers (g\<lparr>submitting := b\<rparr>) = running_workers g"
  "running_workers (drop_guard g) = running_workers g"
  by (simp_all add: running_workers_def drop_guard_def)

lemma kept_by_close [simp]:
  "submitting (close_session sid g) = submitting g"
  "native_submissions (close_session sid g) = native_submissions g"
  by (simp_all add: close_session_def split: option.split)

lemma kept_by_confirm [simp]:
  "submitting (snd (confirm_session sid res symptom g)) = submitting g"
  "native_submissions (snd (confirm_session sid res symptom g)) = native_submissions g"
  by (simp_all add: confirm_session_def Let_def split: option.split)

lemma guard_settle:
  assumes "inspecting_sends ps + (case fst out of TestSuspended p \<Rightarrow> if holds_guard p then 1 else 0 | _ \<Rightarrow> 0)
      + running_workers (snd out) = (if submitting (snd out) then 1 else 0)"
  shows "guard_inv (test_settle ps out)"
  using assms
  by (cases out; cases "fst out") (auto simp: guard_inv_def test_settle_def split: if_splits)

lemma refresh_begin_guard:
  "guard_inv r \<Longrightarrow> guard_inv (test_settle (run_pending r) (refresh_begin sid (run_state r)))"
  by (rule guard_settle) (auto simp: refresh_begin_def guard_inv_def split: option.splits)

lemma open_guard: "guard_inv r \<Longrightarrow> guard_inv (test_settle (run_pending r) (open_session target (run_state r)))"
  by (rule guard_settle)
    (auto simp: open_session_def refresh_begin_def guard_inv_def new_session_def Let_def)

lemma send_begin_guard: "guard_inv r \<Longrightarrow> guard_inv (test_settle (run_pending r) (send_begin sid (run_state r)))"
  by (rule guard_settle) (auto simp: send_begin_def guard_inv_def split: option.splits)

lemma refresh_end_guard:
  assumes "guard_inv r" "n < length (run_pending r)" "\<not> holds_guard (run_pending r ! n)"
  shows "guard_inv (test_settle (others n (run_pending r)) (refresh_end ans sid run_no target (run_state r)))"
  using assms inspecting_sends_others [OF assms(2)]
  by (intro guard_settle) (auto simp: refresh_end_def guard_inv_def Let_def split: option.splits prod.splits)

lemma send_end_guard:
  assumes "guard_inv r" "n < length (run_pending r)" "\<not> holds_guard (run_pending r ! n)"
  shows "guard_inv (test_settle (others n (run_pending r)) (send_end answer sid run_no (run_state r)))"
  using assms inspecting_sends_others [OF assms(2)]
  by (intro guard_settle) (auto simp: send_end_def guard_inv_def Let_def split: option.splits)

text \<open>The send that inspected gives its guard to a worker, or drops it.\<close>

lemma send_inspected_cases:
  obtains (refused) res g' where "send_inspected ans sid run_no target preview g = (TestReturned res, drop_guard g')"
      "native_submissions g' = native_submissions g"
  | (sent) s m where "send_inspected ans sid run_no target preview g =
      (TestSuspended (SendWaiting sid run_no (length (native_submissions g))),
       g\<lparr>current_session := Some (s\<lparr>session_diagnostics := fst (inspect_session g ans target),
           requested_media := Some m\<rparr>),
         native_submissions := native_submissions g
           @ [\<lparr>submitted_target = target, submitted_media = m, submission_running = True\<rparr>]\<rparr>)"
      "current_session g = Some s" "session_id s = sid" "session_run s = run_no"
      "is_repair_eligible (fst (inspect_session g ans target))"
      "snd (inspect_session g ans target) = Some m" "preview = Some m"
proof -
  obtain d media where i: "inspect_session g ans target = (d, media)" by fastforce
  consider "current_session g = None"
    | s where "current_session g = Some s" "\<not> (session_id s = sid \<and> session_run s = run_no)"
    | s where "current_session g = Some s" "session_id s = sid" "session_run s = run_no" "media = None"
    | s m where "current_session g = Some s" "session_id s = sid" "session_run s = run_no" "media = Some m"
        "\<not> is_repair_eligible d \<or> preview \<noteq> Some m"
    | s m where "current_session g = Some s" "session_id s = sid" "session_run s = run_no" "media = Some m"
        "is_repair_eligible d" "preview = Some m"
    by (cases "current_session g"; cases media) auto
  then show ?thesis
  proof cases
    case 1
    with i show ?thesis by (intro refused [of _ g]) (simp_all add: send_inspected_def)
  next
    case (2 s)
    with i show ?thesis by (intro refused [of _ g]) (auto simp: send_inspected_def)
  next
    case (3 s)
    with i show ?thesis
      by (intro refused [of _ "g\<lparr>current_session := Some (s\<lparr>session_diagnostics := d, requested_media := None,
          session_submission := Blocked, session_attempts := session_attempts s @ [Blocked]\<rparr>)\<rparr>"])
        (simp_all add: send_inspected_def Let_def)
  next
    case (4 s m)
    with i show ?thesis
      by (intro refused [of _ "g\<lparr>current_session := Some (s\<lparr>session_diagnostics := d, requested_media := Some m,
          session_submission := Blocked, session_attempts := session_attempts s @ [Blocked]\<rparr>)\<rparr>"])
        (auto simp: send_inspected_def Let_def)
  next
    case (5 s m)
    with i show ?thesis by (intro sent) (simp_all add: send_inspected_def)
  qed
qed

lemma send_inspected_guard:
  assumes "guard_inv r" "n < length (run_pending r)" "holds_guard (run_pending r ! n)"
  shows "guard_inv (test_settle (others n (run_pending r))
    (send_inspected ans sid run_no target preview (run_state r)))"
proof -
  from assms inspecting_sends_others [OF assms(2)]
  have held: "inspecting_sends (others n (run_pending r)) = 0" "running_workers (run_state r) = 0"
    "submitting (run_state r)"
    by (auto simp: guard_inv_def split: if_splits)
  show ?thesis
  proof (cases rule: send_inspected_cases [of ans sid run_no target preview "run_state r"])
    case (refused res g')
    then have "running_workers g' = 0" using held by (simp add: running_workers_def)
    with refused held show ?thesis by (intro guard_settle) (simp add: drop_guard_def)
  next
    case (sent s m)
    with held show ?thesis by (intro guard_settle) (simp add: running_workers_def)
  qed
qed

lemma worker_end_guard:
  assumes "guard_inv r" "worker_end n (run_state r) = Some g"
  shows "guard_inv (r\<lparr>run_state := g\<rparr>)"
proof -
  let ?subs = "native_submissions (run_state r)"
  from assms(2) have n: "n < length ?subs" "submission_running (?subs ! n)"
    and g: "g = drop_guard (run_state r\<lparr>native_submissions := ?subs[n := (?subs ! n)\<lparr>submission_running := False\<rparr>]\<rparr>)"
    by (auto simp: worker_end_def split: if_splits)
  let ?a = "take n ?subs" and ?b = "drop (Suc n) ?subs"
  have "filter submission_running ?subs = filter submission_running (?a @ ?subs ! n # ?b)"
    by (rule arg_cong [OF id_take_nth_drop [OF n(1)]])
  then have "running_workers (run_state r) = Suc (length (filter submission_running (?a @ ?b)))"
    using n(2) by (simp add: running_workers_def)
  moreover have "running_workers g = length (filter submission_running (?a @ ?b))"
    using n(1) by (simp add: g running_workers_def drop_guard_def upd_conv_take_nth_drop)
  ultimately show ?thesis using assms(1) by (auto simp: guard_inv_def g drop_guard_def split: if_splits)
qed

lemma guard_reachable: "test_reachable native r \<Longrightarrow> guard_inv r"
proof (induction rule: test_reachable.induct)
  case test_initial
  then show ?case by (simp add: guard_inv_def GuidedTestPrint_new_def running_workers_def inspecting_sends_def)
next
  case (test_step r e r')
  note IH = test_step.IH
  show ?case
  proof (cases e)
    case (Inspected n ans)
    with test_step.hyps(2) obtain out where n: "n < length (run_pending r)"
      "test_resume (run_pending r ! n) ans (run_state r) = Some out" "r' = test_settle (others n (run_pending r)) out"
      by (auto split: if_splits)
    then show ?thesis
      using refresh_end_guard [OF IH n(1)] send_inspected_guard [OF IH n(1)]
      by (cases "run_pending r ! n") auto
  next
    case (Waited n answer)
    with test_step.hyps(2) obtain out where n: "n < length (run_pending r)"
      "test_waited (run_pending r ! n) answer (run_state r) = Some out" "r' = test_settle (others n (run_pending r)) out"
      by (auto split: if_splits)
    then show ?thesis
      using send_end_guard [OF IH n(1)] by (cases "run_pending r ! n") (auto split: if_splits)
  next
    case (WorkerEnds n)
    with test_step.hyps(2) IH show ?thesis by (auto intro: worker_end_guard)
  next
    case (CloseId sid)
    with test_step.hyps(2) IH show ?thesis
      by (auto simp: guard_inv_def running_workers_def)
  next
    case (Confirm sid res symptom)
    with test_step.hyps(2) IH show ?thesis
      by (auto simp: guard_inv_def running_workers_def)
  qed (use test_step.hyps(2) IH refresh_begin_guard open_guard send_begin_guard in auto)
qed

text \<open>Only a send that finished its inspection hands a document over.\<close>

lemma refresh_begin_subs [simp]:
  "native_submissions (snd (refresh_begin sid g)) = native_submissions g"
  by (simp add: refresh_begin_def split: option.split)

lemma begin_subs [simp]:
  "native_submissions (snd (open_session target g)) = native_submissions g"
  "native_submissions (snd (send_begin sid g)) = native_submissions g"
  "native_submissions (snd (refresh_end ans sid run_no target g)) = native_submissions g"
  "native_submissions (snd (send_end answer sid run_no g)) = native_submissions g"
  by (simp_all add: open_session_def send_begin_def refresh_end_def send_end_def Let_def
      split: option.split prod.split)

lemma test_settle_state [simp]: "run_state (test_settle ps out) = snd out"
  by (simp add: test_settle_def split: prod.split TestOutcome.split)

lemma submitting_events:
  assumes "test_event e r = Some r'"
    and "length (native_submissions (run_state r')) > length (native_submissions (run_state r))"
  obtains n ans sid run_no target preview where
    "e = Inspected n ans" "n < length (run_pending r)" "run_pending r ! n = SendInspecting sid run_no target preview"
    "r' = test_settle (others n (run_pending r)) (send_inspected ans sid run_no target preview (run_state r))"
proof (cases e)
  case (Inspected n ans)
  with assms show ?thesis
    by (cases "run_pending r ! n") (auto split: if_splits intro: that)
next
  case (Waited n answer)
  have "native_submissions b = native_submissions g" if "send_end answer sid run_no g = (a, b)" for sid run_no g a b
    using begin_subs(4) [of answer sid run_no g] that by simp
  with Waited assms show ?thesis by (cases "run_pending r ! n") (fastforce split: if_splits)+
next
  case (WorkerEnds n)
  with assms show ?thesis by (auto simp: worker_end_def drop_guard_def split: if_splits)
qed (use assms in auto)

text \<open>
  C8: A test page is only ever printed on a queue that was healthy a moment ago: whatever is called,
  resumed or timed out, a document is handed to the spooler only by a send whose session is still the
  open one and was not refreshed or sent since, whose own inspection found the queue matching and empty,
  the server reachable with the approved certificate and sharing the printer, whose last look
  found the proxy running and the channel configured and not refused, and on the very media size
  that was shown before. While it runs, no other one does.
\<close>

theorem test_page_only_on_healthy_queue:
  assumes "test_reachable native r" "test_event e r = Some r'"
    and "length (native_submissions (run_state r')) > length (native_submissions (run_state r))"
  shows "\<exists>n ans sid run_no target m s.
    e = Inspected n ans \<and> run_pending r ! n = SendInspecting sid run_no target (Some m)
    \<and> current_session (run_state r) = Some s \<and> session_id s = sid \<and> session_run s = run_no
    \<and> queue_healthy (seen_then ans) \<and> server_healthy (seen_then ans) \<and> proxy_running (runtime_now ans)
    \<and> channel_healthy (seen_now ans) target \<and> answered_media ans = Some m
    \<and> native_submissions (run_state r') = native_submissions (run_state r)
        @ [\<lparr>submitted_target = target, submitted_media = m, submission_running = True\<rparr>]
    \<and> running_workers (run_state r) = 0 \<and> running_workers (run_state r') = 1"
proof -
  let ?subs = "\<lambda>r. native_submissions (run_state r)"
  from submitting_events [OF assms(2,3)] obtain n ans sid run_no target preview where
    e: "e = Inspected n ans" "n < length (run_pending r)" "run_pending r ! n = SendInspecting sid run_no target preview"
    and r': "r' = test_settle (others n (run_pending r)) (send_inspected ans sid run_no target preview (run_state r))" .
  from guard_reachable [OF assms(1)] e inspecting_sends_others [OF e(2)]
  have idle: "running_workers (run_state r) = 0" by (auto simp: guard_inv_def split: if_splits)
  show ?thesis
  proof (cases rule: send_inspected_cases [of ans sid run_no target preview "run_state r"])
    case (refused res g')
    with r' have "?subs r' = ?subs r" by (simp add: test_settle_def drop_guard_def)
    with assms(3) show ?thesis by simp
  next
    case (sent s m)
    let ?new = "\<lparr>submitted_target = target, submitted_media = m, submission_running = True\<rparr>"
    have subs: "?subs r' = ?subs r @ [?new]" using sent(1) r' by (simp add: test_settle_def)
    then have "running_workers (run_state r') = 1" using idle by (simp add: running_workers_def)
    moreover have "is_repair_eligible (refresh_live_prerequisites (runtime_now ans) (seen_now ans)
        (inspect_queue (runtime_then ans) (seen_then ans) target))" "answered_media ans = Some m"
      using sent(5,6) by (auto simp: inspect_session_def Let_def split: if_splits)
    ultimately show ?thesis
      using e sent(2-4,7) subs idle healthy_queue_refreshed by blast
  qed
qed

end
