(* ===== verification/Discovery_Cache.thy ===== *)
theory Discovery_Cache
  imports Domain_Printer Map_Contents "HOL-Library.Product_Lexorder"
begin

text \<open>
  \<open>application/discovery.rs\<close>: the servers visible on the local network. The cache is an ordered map
  by address with the moment each advertisement stops being valid; the clock is an argument of the
  operations that read it. A refinement shows that it is, at any moment, exactly what was advertised last
  and neither withdrawn nor expired.
\<close>

section \<open>The cache\<close>

text \<open>Times and lifetimes are in nanoseconds.\<close>

definition DEFAULT_MAX_LIFETIME :: nat where
  "DEFAULT_MAX_LIFETIME = 60 * 60 * 1000000000"

record CacheEntry =
  entry_server :: NearbyServer
  entry_expires :: nat

record Discovery =
  cache_entries :: "(ustr \<times> CacheEntry) list"
  cache_published :: "NearbyServer list"
  cache_max_lifetime :: nat

definition Discovery_new :: Discovery where
  "Discovery_new =
     \<lparr>cache_entries = [], cache_published = [], cache_max_lifetime = DEFAULT_MAX_LIFETIME\<rparr>"

definition with_max_lifetime :: "nat \<Rightarrow> Discovery \<Rightarrow> Discovery" where
  "with_max_lifetime lifetime d = d\<lparr>cache_max_lifetime := lifetime\<rparr>"

definition expire_entries :: "(ustr \<times> CacheEntry) list \<Rightarrow> nat \<Rightarrow> (ustr \<times> CacheEntry) list" where
  "expire_entries entries now = filter (\<lambda>(_, entry). entry_expires entry > now) entries"

definition nearby_order :: "NearbyServer \<Rightarrow> ustr \<times> ustr" where
  "nearby_order s = (nearby_name s, nearby_address s)"

definition nearby_snapshot :: "(ustr \<times> CacheEntry) list \<Rightarrow> NearbyServer list" where
  "nearby_snapshot entries = sort_key nearby_order (map (\<lambda>(_, entry). entry_server entry) entries)"

definition publish_nearby :: "NearbyServer list \<Rightarrow> Discovery \<Rightarrow> Discovery" where
  "publish_nearby servers d =
     (if cache_published d = servers then d else d\<lparr>cache_published := servers\<rparr>)"

definition nearby_servers :: "nat \<Rightarrow> Discovery \<Rightarrow> NearbyServer list \<times> Discovery" where
  "nearby_servers now d =
     (let entries = expire_entries (cache_entries d) now
      in (nearby_snapshot entries, d\<lparr>cache_entries := entries\<rparr>))"

definition prune_nearby :: "nat \<Rightarrow> Discovery \<Rightarrow> Discovery" where
  "prune_nearby now d =
     (let entries = expire_entries (cache_entries d) now
      in publish_nearby (nearby_snapshot entries) (d\<lparr>cache_entries := entries\<rparr>))"

definition server_withdrawn :: "ustr \<Rightarrow> Discovery \<Rightarrow> Discovery" where
  "server_withdrawn address d =
     (let entries = bt_remove address (cache_entries d)
      in publish_nearby (nearby_snapshot entries) (d\<lparr>cache_entries := entries\<rparr>))"

definition server_advertised :: "nat \<Rightarrow> NearbyServer \<Rightarrow> nat \<Rightarrow> Discovery \<Rightarrow> Discovery" where
  "server_advertised now server lifetime d =
     (if lifetime = 0 then server_withdrawn (nearby_address server) d
      else
        let entries = bt_insert (nearby_address server)
              \<lparr>entry_server = server, entry_expires = now + min lifetime (cache_max_lifetime d)\<rparr>
              (cache_entries d)
        in publish_nearby (nearby_snapshot entries) (d\<lparr>cache_entries := entries\<rparr>))"

section \<open>What was heard\<close>

datatype Heard =
    HeardAdvertised nat NearbyServer nat
  | HeardWithdrawn nat ustr
  | ReadList nat
  | Swept nat

fun heard_at :: "Heard \<Rightarrow> nat" where
  "heard_at (HeardAdvertised now _ _) = now"
| "heard_at (HeardWithdrawn now _) = now"
| "heard_at (ReadList now) = now"
| "heard_at (Swept now) = now"

fun cache_step :: "Heard \<Rightarrow> Discovery \<Rightarrow> Discovery" where
  "cache_step (HeardAdvertised now server lifetime) d = server_advertised now server lifetime d"
| "cache_step (HeardWithdrawn now address) d = server_withdrawn address d"
| "cache_step (ReadList now) d = snd (nearby_servers now d)"
| "cache_step (Swept now) d = prune_nearby now d"

definition cache_run :: "Heard list \<Rightarrow> Discovery \<Rightarrow> Discovery" where
  "cache_run hs d = fold cache_step hs d"

text \<open>
  The abstract view remembers the last advertisement of every address and when it ends, and never
  forgets: reading and sweeping do nothing.
\<close>

type_synonym heard_view = "ustr \<Rightarrow> (NearbyServer \<times> nat) option"

fun view_step :: "nat \<Rightarrow> Heard \<Rightarrow> heard_view \<Rightarrow> heard_view" where
  "view_step limit (HeardAdvertised now server lifetime) v =
     v(nearby_address server := (if lifetime = 0 then None else Some (server, now + min lifetime limit)))"
| "view_step limit (HeardWithdrawn now address) v = v(address := None)"
| "view_step limit (ReadList now) v = v"
| "view_step limit (Swept now) v = v"

definition view_run :: "nat \<Rightarrow> Heard list \<Rightarrow> heard_view \<Rightarrow> heard_view" where
  "view_run limit hs v = fold (view_step limit) hs v"

definition visible :: "heard_view \<Rightarrow> nat \<Rightarrow> NearbyServer set" where
  "visible v now = {s. \<exists>address ends. v address = Some (s, ends) \<and> now < ends}"

section \<open>Refinement\<close>

definition entry_view :: "CacheEntry \<Rightarrow> NearbyServer \<times> nat" where
  "entry_view e = (entry_server e, entry_expires e)"

definition simulates :: "nat \<Rightarrow> Discovery \<Rightarrow> heard_view \<Rightarrow> bool" where
  "simulates now d v \<longleftrightarrow> bt_wf (cache_entries d)
     \<and> (\<forall>(address, e) \<in> set (cache_entries d). nearby_address (entry_server e) = address)
     \<and> (\<forall>address e. map_of (cache_entries d) address = Some e \<longrightarrow> v address = Some (entry_view e))
     \<and> (\<forall>address s ends. v address = Some (s, ends) \<longrightarrow> now < ends
          \<longrightarrow> map_option entry_view (map_of (cache_entries d) address) = Some (s, ends))"

lemma bt_wf_distinct: "bt_wf m \<Longrightarrow> distinct (map fst m)"
  by (auto simp: bt_wf_def strict_sorted_iff)

lemma map_of_expire:
  "bt_wf m \<Longrightarrow> map_of (expire_entries m now) address =
    (case map_of m address of Some e \<Rightarrow> if entry_expires e > now then Some e else None | None \<Rightarrow> None)"
proof (induction m)
  case (Cons p m)
  obtain a e where p: "p = (a, e)" by (cases p)
  from Cons.prems have "bt_wf m" "a \<notin> fst ` set m" by (auto simp: bt_wf_def p)
  moreover from this(2) have "map_of m a = None" by (simp add: map_of_eq_None_iff)
  ultimately show ?case using Cons.IH by (auto simp: expire_entries_def p split: option.splits)
qed (simp add: expire_entries_def)

lemma simulates_later: "simulates now d v \<Longrightarrow> now \<le> now' \<Longrightarrow> simulates now' d v"
  by (auto simp: simulates_def)

lemma simulates_expire:
  assumes "simulates now d v" "now \<le> now'"
  shows "simulates now' (d\<lparr>cache_entries := expire_entries (cache_entries d) now'\<rparr>) v"
proof -
  have wf: "bt_wf (cache_entries d)" using assms(1) by (simp add: simulates_def)
  have "bt_wf (expire_entries (cache_entries d) now')" using wf by (simp add: expire_entries_def bt_wf_filter)
  moreover have "set (expire_entries (cache_entries d) now') \<subseteq> set (cache_entries d)"
    by (auto simp: expire_entries_def)
  moreover have "map_option entry_view (map_of (expire_entries (cache_entries d) now') a) = Some (s, ends)"
    if "v a = Some (s, ends)" "now' < ends" for a s ends
  proof -
    from that assms have "map_option entry_view (map_of (cache_entries d) a) = Some (s, ends)"
      by (auto simp: simulates_def)
    then obtain e where "map_of (cache_entries d) a = Some e" "entry_view e = (s, ends)" by blast
    with that(2) show ?thesis by (simp add: map_of_expire [OF wf] entry_view_def)
  qed
  moreover have "v a = Some (entry_view e)" if "map_of (expire_entries (cache_entries d) now') a = Some e" for a e
    using that assms(1) by (auto simp: simulates_def map_of_expire [OF wf] split: option.splits if_splits)
  ultimately show ?thesis using assms(1) by (auto simp: simulates_def)
qed

lemma publish_nearby_entries [simp]:
  "cache_entries (publish_nearby servers d) = cache_entries d"
  "cache_max_lifetime (publish_nearby servers d) = cache_max_lifetime d"
  "cache_published (publish_nearby servers d) = servers"
  by (auto simp: publish_nearby_def)

lemma simulates_entries: "cache_entries d' = cache_entries d \<Longrightarrow> simulates now d' v = simulates now d v"
  by (simp add: simulates_def)

lemma bt_remove_set: "set (bt_remove k m) \<subseteq> set m"
  by (auto simp: bt_remove_def)

lemma simulates_withdrawn:
  assumes "simulates now d v"
  shows "simulates now (server_withdrawn address d) (v(address := None))"
proof -
  have "simulates now (d\<lparr>cache_entries := bt_remove address (cache_entries d)\<rparr>) (v(address := None))"
    using assms bt_remove_set [of address "cache_entries d"]
    by (auto simp: simulates_def bt_get_remove bt_wf_remove)
  then show ?thesis by (simp add: server_withdrawn_def simulates_def Let_def)
qed

lemma bt_insert_set: "set (bt_insert k v m) \<subseteq> insert (k, v) (set m)"
  by (induction k v m rule: bt_insert.induct) auto

lemma simulates_advertised:
  assumes "simulates now d v"
  shows "simulates now (server_advertised now server lifetime d)
    (view_step (cache_max_lifetime d) (HeardAdvertised now server lifetime) v)"
proof (cases "lifetime = 0")
  case True
  with simulates_withdrawn [OF assms] show ?thesis by (simp add: server_advertised_def)
next
  case False
  let ?a = "nearby_address server"
  let ?e = "\<lparr>entry_server = server, entry_expires = now + min lifetime (cache_max_lifetime d)\<rparr>"
  have wf: "bt_wf (cache_entries d)" using assms by (simp add: simulates_def)
  have "simulates now (d\<lparr>cache_entries := bt_insert ?a ?e (cache_entries d)\<rparr>) (v(?a \<mapsto> entry_view ?e))"
    using assms bt_insert_set [of ?a ?e "cache_entries d"] wf
    by (auto simp: simulates_def bt_get_insert bt_wf_insert)
  with False show ?thesis by (simp add: server_advertised_def simulates_def entry_view_def Let_def)
qed

lemma cache_max_lifetime_step [simp]: "cache_max_lifetime (cache_step h d) = cache_max_lifetime d"
  by (cases h) (simp_all add: server_advertised_def server_withdrawn_def nearby_servers_def prune_nearby_def Let_def)

lemma simulates_step:
  assumes "simulates now d v" "now \<le> heard_at h"
  shows "simulates (heard_at h) (cache_step h d) (view_step (cache_max_lifetime d) h v)"
proof (cases h)
  case (HeardAdvertised t server lifetime)
  with simulates_advertised [OF simulates_later [OF assms(1)], of t server lifetime] assms(2)
  show ?thesis by simp
next
  case (HeardWithdrawn t address)
  with simulates_withdrawn [OF simulates_later [OF assms(1)], of t address] assms(2)
  show ?thesis by simp
next
  case (ReadList t)
  with simulates_expire [OF assms(1), of t] assms(2) show ?thesis by (simp add: nearby_servers_def Let_def)
next
  case (Swept t)
  with simulates_expire [OF assms(1), of t] assms(2) show ?thesis
    by (simp add: prune_nearby_def Let_def simulates_def)
qed

lemma simulates_run:
  "simulates now d v \<Longrightarrow> sorted (now # map heard_at hs @ [later]) \<Longrightarrow>
    simulates later (cache_run hs d) (view_run (cache_max_lifetime d) hs v)"
proof (induction hs arbitrary: now d v)
  case Nil
  then show ?case using simulates_later by (simp add: cache_run_def view_run_def)
next
  case (Cons h hs)
  from Cons.prems(2) have "now \<le> heard_at h" by simp
  from simulates_step [OF Cons.prems(1) this]
  have "simulates (heard_at h) (cache_step h d) (view_step (cache_max_lifetime d) h v)" .
  from Cons.IH [OF this] Cons.prems(2) show ?case by (simp add: cache_run_def view_run_def)
qed

lemma set_nearby_snapshot: "set (nearby_snapshot entries) = (\<lambda>(_, e). entry_server e) ` set entries"
  by (simp add: nearby_snapshot_def)

lemma simulates_kept:
  "simulates now d v \<Longrightarrow> map_of (cache_entries d) a = Some e \<Longrightarrow> v a = Some (entry_view e)"
  by (simp add: simulates_def)

lemma simulates_heard:
  assumes "simulates now d v" "v a = Some (s, ends)" "now < ends"
  obtains e where "map_of (cache_entries d) a = Some e" "entry_view e = (s, ends)"
proof -
  from assms have "map_option entry_view (map_of (cache_entries d) a) = Some (s, ends)"
    unfolding simulates_def by blast
  with that show ?thesis by blast
qed

lemma expired_Some:
  assumes "bt_wf m"
  shows "map_of (expire_entries m now) a = Some e \<longleftrightarrow> map_of m a = Some e \<and> now < entry_expires e"
  by (auto simp: map_of_expire [OF assms] split: option.split)

lemma simulates_visible:
  assumes "simulates now d v"
  shows "set (fst (nearby_servers now d)) = visible v now"
proof -
  let ?m = "expire_entries (cache_entries d) now"
  have wf: "bt_wf (cache_entries d)" "bt_wf ?m"
    using assms by (simp_all add: simulates_def expire_entries_def bt_wf_filter)
  have "s \<in> (\<lambda>(_, e). entry_server e) ` set ?m \<longleftrightarrow> (\<exists>a e. map_of ?m a = Some e \<and> s = entry_server e)" for s
    using map_of_eq_Some_iff [OF bt_wf_distinct [OF wf(2)]] by (simp add: image_iff split_beta Bex_def)
  note mapped = this
  have "(\<exists>a e. map_of ?m a = Some e \<and> s = entry_server e) \<longleftrightarrow> s \<in> visible v now" for s
  proof
    assume "\<exists>a e. map_of ?m a = Some e \<and> s = entry_server e"
    then obtain a e where e: "map_of (cache_entries d) a = Some e" "now < entry_expires e" "s = entry_server e"
      unfolding expired_Some [OF wf(1)] by (elim exE conjE)
    from simulates_kept [OF assms e(1)] e(3) have "v a = Some (s, entry_expires e)"
      by (simp add: entry_view_def)
    with e(2) show "s \<in> visible v now" unfolding visible_def mem_Collect_eq by (intro exI conjI)
  next
    assume "s \<in> visible v now"
    then obtain a ends where v: "v a = Some (s, ends)" "now < ends" unfolding visible_def by blast
    from simulates_heard [OF assms v] obtain e where
      e: "map_of (cache_entries d) a = Some e" "entry_view e = (s, ends)" .
    from e(2) v(2) have "now < entry_expires e" "s = entry_server e" by (simp_all add: entry_view_def)
    with e(1) have "map_of ?m a = Some e" "s = entry_server e" by (simp_all add: expired_Some [OF wf(1)])
    then show "\<exists>a e. map_of ?m a = Some e \<and> s = entry_server e" by (intro exI conjI)
  qed
  then have "(\<lambda>(_, e). entry_server e) ` set ?m = visible v now"
    using mapped by (intro set_eqI) (simp only:)
  then show ?thesis by (simp add: nearby_servers_def Let_def set_nearby_snapshot)
qed

lemma snapshot_listed:
  assumes "bt_wf entries" "\<forall>(address, e) \<in> set entries. nearby_address (entry_server e) = address"
  shows "sorted (map nearby_order (nearby_snapshot entries))
    \<and> distinct (map nearby_address (nearby_snapshot entries))"
proof
  show "sorted (map nearby_order (nearby_snapshot entries))" by (simp add: nearby_snapshot_def)
  have "map nearby_address (map (\<lambda>(_, e). entry_server e) entries) = map fst entries"
    unfolding map_map by (rule map_cong [OF refl]) (use assms(2) in \<open>auto simp: comp_def split: prod.split\<close>)
  then have "distinct (map nearby_address (map (\<lambda>(_, e). entry_server e) entries))"
    using bt_wf_distinct [OF assms(1)] by (simp only:)
  moreover have "mset (map nearby_address (nearby_snapshot entries))
      = mset (map nearby_address (map (\<lambda>(_, e). entry_server e) entries))"
    unfolding nearby_snapshot_def mset_map mset_sort ..
  ultimately show "distinct (map nearby_address (nearby_snapshot entries))"
    by (metis mset_eq_imp_distinct_iff)
qed


end
