(* ===== verification/Login_Startup.thy ===== *)
theory Login_Startup
  imports Domain_Error Settings_File
begin

text \<open>
  \<open>application/startup.rs\<close> and \<open>adapters/startup.rs\<close>: whether ShaPrint starts at login. The use case
  works on a registration, the interface \<open>login_registration\<close>, and the Windows registration (a
  scheduled task, with the value of the \<open>Run\<close> key that an older version wrote) provides it. The tasks
  and the registry belong to Windows: a record holds what they contain and which calls of them fail.
\<close>

section \<open>The use case\<close>

record StartupStatus =
  status_supported :: bool
  status_enabled :: bool
  status_command :: ustr

text \<open>A registration, as the operations the trait names, on a state \<open>'s\<close> of its own.\<close>

record 's StartupRegistration =
  reg_supported :: bool
  reg_command :: ustr
  reg_registered :: "'s \<Rightarrow> (AppError + ustr option) \<times> 's"
  reg_set_enabled :: "bool \<Rightarrow> 's \<Rightarrow> (AppError + unit) \<times> 's"

record 's LoginState =
  login_reg :: 's
  login_has_file :: bool
  login_file :: "bool SettingsFile"

definition startup_status :: "'s StartupRegistration \<Rightarrow> 's LoginState \<Rightarrow> StartupStatus \<times> 's LoginState" where
  "startup_status reg st =
     (let command = reg_command reg
      in if \<not> reg_supported reg
         then (\<lparr>status_supported = False, status_enabled = False, status_command = command\<rparr>, st)
         else
           let (registered, s) = reg_registered reg (login_reg st);
               on = (case registered of
                       Inr found \<Rightarrow> found = Some command \<and> command \<noteq> []
                     | Inl _ \<Rightarrow> False)
           in (\<lparr>status_supported = True, status_enabled = on, status_command = command\<rparr>,
               st\<lparr>login_reg := s\<rparr>))"

definition login_preference :: "'s LoginState \<Rightarrow> bool option" where
  "login_preference st =
     (if \<not> login_has_file st then None
      else (case login_file st of
              FileHolds on \<Rightarrow> Some on
            | FileGarbled \<Rightarrow> Some False
            | FileMissing \<Rightarrow> None
            | FileUnreadable \<Rightarrow> Some False))"

definition login_remember :: "bool SaveOutcome \<Rightarrow> bool \<Rightarrow> 's LoginState \<Rightarrow> (AppError + unit) \<times> 's LoginState" where
  "login_remember outcome on st =
     (if \<not> login_has_file st then (Inr (), st)
      else
        let (written, file) = save_value outcome on (login_file st)
        in (if written then Inr () else Inl (internal_error (lit ''cannot record the login startup choice'')),
            st\<lparr>login_file := file\<rparr>))"

definition require_supported :: "'s StartupRegistration \<Rightarrow> AppError + unit" where
  "require_supported reg =
     (if reg_supported reg then Inr ()
      else Inl (unsupported_error (lit ''Starting ShaPrint at login is available on Windows only.'')))"

definition no_program :: AppError where
  "no_program = unsupported_error (lit ''Cannot locate the ShaPrint program to start it at login.'')"

definition require_command :: "'s StartupRegistration \<Rightarrow> AppError + ustr" where
  "require_command reg = (if reg_command reg = [] then Inl no_program else Inr (reg_command reg))"

text \<open>The registration is written unless it already names the command.\<close>

definition refresh_login :: "'s StartupRegistration \<Rightarrow> 's \<Rightarrow> (AppError + unit) \<times> 's" where
  "refresh_login reg s =
     (case require_command reg of
        Inl e \<Rightarrow> (Inl e, s)
      | Inr command \<Rightarrow>
          (case reg_registered reg s of
             (Inl e, s) \<Rightarrow> (Inl e, s)
           | (Inr found, s) \<Rightarrow>
               if found \<noteq> Some command then reg_set_enabled reg True s else (Inr (), s)))"

definition apply_default ::
  "'s StartupRegistration \<Rightarrow> bool SaveOutcome \<Rightarrow> 's LoginState \<Rightarrow> (AppError + unit) \<times> 's LoginState" where
  "apply_default reg outcome st =
     (case require_supported reg of
        Inl e \<Rightarrow> (Inl e, st)
      | Inr _ \<Rightarrow>
          (case login_preference st of
             Some on \<Rightarrow>
               if on then
                 (case refresh_login reg (login_reg st) of (res, s) \<Rightarrow> (res, st\<lparr>login_reg := s\<rparr>))
               else
                 (case reg_registered reg (login_reg st) of
                    (Inl e, s) \<Rightarrow> (Inl e, st\<lparr>login_reg := s\<rparr>)
                  | (Inr found, s) \<Rightarrow>
                      if found \<noteq> None
                      then (case reg_set_enabled reg False s of (res, s) \<Rightarrow> (res, st\<lparr>login_reg := s\<rparr>))
                      else (Inr (), st\<lparr>login_reg := s\<rparr>))
           | None \<Rightarrow>
               (case refresh_login reg (login_reg st) of
                  (Inl e, s) \<Rightarrow> (Inl e, st\<lparr>login_reg := s\<rparr>)
                | (Inr _, s) \<Rightarrow> login_remember outcome True (st\<lparr>login_reg := s\<rparr>))))"

definition set_login_enabled ::
  "'s StartupRegistration \<Rightarrow> bool SaveOutcome \<Rightarrow> bool \<Rightarrow> 's LoginState
    \<Rightarrow> (AppError + StartupStatus) \<times> 's LoginState" where
  "set_login_enabled reg outcome on st =
     (case and_then (require_supported reg)
             (\<lambda>_. if on then and_then (require_command reg) (\<lambda>_. Inr ()) else Inr ()) of
        Inl e \<Rightarrow> (Inl e, st)
      | Inr _ \<Rightarrow>
          (case reg_set_enabled reg on (login_reg st) of
             (Inl e, s) \<Rightarrow> (Inl e, st\<lparr>login_reg := s\<rparr>)
           | (Inr _, s) \<Rightarrow>
               (case login_remember outcome on (st\<lparr>login_reg := s\<rparr>) of
                  (Inl e, st) \<Rightarrow> (Inl e, st)
                | (Inr _, st) \<Rightarrow>
                    (case startup_status reg st of (status, st) \<Rightarrow> (Inr status, st)))))"

fun launches :: "'s StartupRegistration \<Rightarrow> bool SaveOutcome list \<Rightarrow> 's LoginState \<Rightarrow> 's LoginState" where
  "launches reg [] st = st"
| "launches reg (outcome # outcomes) st = launches reg outcomes (snd (apply_default reg outcome st))"

section \<open>The interface\<close>

text \<open>
  What the use case needs of a registration that works: it stays working, what was set is what is read
  next, and reading again gives the same.
\<close>

locale login_registration =
  fixes reg :: "'s StartupRegistration"
    and working :: "'s \<Rightarrow> bool"
  assumes supported: "reg_supported reg"
    and command: "reg_command reg \<noteq> []"
    and read_working: "working s \<Longrightarrow> working (snd (reg_registered reg s))"
    and set_working: "working s \<Longrightarrow> working (snd (reg_set_enabled reg on s))"
    and set_succeeds: "working s \<Longrightarrow> fst (reg_set_enabled reg on s) = Inr ()"
    and read_succeeds: "working s \<Longrightarrow> fst (reg_registered reg s) \<in> {Inr None, Inr (Some (reg_command reg))}"
    and set_read: "working s \<Longrightarrow> fst (reg_registered reg (snd (reg_set_enabled reg on s)))
      = Inr (if on then Some (reg_command reg) else None)"
    and read_read: "working s \<Longrightarrow>
      fst (reg_registered reg (snd (reg_registered reg s))) = fst (reg_registered reg s)"
begin

definition starts :: "'s \<Rightarrow> bool" where
  "starts s \<longleftrightarrow> fst (reg_registered reg s) = Inr (Some (reg_command reg))"

lemma starts_set: "working s \<Longrightarrow> starts (snd (reg_set_enabled reg on s)) = on"
  using command by (simp add: starts_def set_read)

lemma starts_read: "working s \<Longrightarrow> starts (snd (reg_registered reg s)) = starts s"
  by (simp add: starts_def read_read)

lemma refresh_starts:
  assumes "working s"
  shows "fst (refresh_login reg s) = Inr () \<and> working (snd (refresh_login reg s))
    \<and> starts (snd (refresh_login reg s))"
  using read_succeeds [OF assms] read_working [OF assms] set_working [OF read_working [OF assms], of True]
    set_succeeds [OF read_working [OF assms], of True] starts_set [OF read_working [OF assms], of True]
    starts_read [OF assms] command
  by (cases "reg_registered reg s")
    (auto simp: refresh_login_def require_command_def starts_def split: sum.split)

lemma withdraw_stops:
  assumes "working (login_reg st)" "login_preference st = Some False"
  shows "fst (apply_default reg outcome st) = Inr () \<and> working (login_reg (snd (apply_default reg outcome st)))
    \<and> \<not> starts (login_reg (snd (apply_default reg outcome st)))
    \<and> login_file (snd (apply_default reg outcome st)) = login_file st
    \<and> login_has_file (snd (apply_default reg outcome st)) = login_has_file st"
  using read_succeeds [OF assms(1)] read_working [OF assms(1)] supported assms(2) command
    set_working [OF read_working [OF assms(1)], of False]
    set_succeeds [OF read_working [OF assms(1)], of False]
    starts_set [OF read_working [OF assms(1)], of False] starts_read [OF assms(1)]
  by (cases "reg_registered reg (login_reg st)")
    (auto simp: apply_default_def require_supported_def starts_def split: sum.split prod.split)

lemma launch_keeps_choice:
  assumes "working (login_reg st)" "login_has_file st" "login_file st = FileHolds on"
  shows "fst (apply_default reg outcome st) = Inr () \<and> working (login_reg (snd (apply_default reg outcome st)))
    \<and> starts (login_reg (snd (apply_default reg outcome st))) = on
    \<and> login_file (snd (apply_default reg outcome st)) = FileHolds on
    \<and> login_has_file (snd (apply_default reg outcome st))"
proof (cases on)
  case True
  with assms refresh_starts [OF assms(1)] supported show ?thesis
    by (auto simp: apply_default_def require_supported_def login_preference_def split: prod.split)
next
  case False
  with assms withdraw_stops [OF assms(1)] show ?thesis by (simp add: login_preference_def)
qed

lemma launches_keep_choice:
  assumes "working (login_reg st)" "login_has_file st" "login_file st = FileHolds on"
    and "starts (login_reg st) = on"
  shows "working (login_reg (launches reg outcomes st)) \<and> starts (login_reg (launches reg outcomes st)) = on
    \<and> login_file (launches reg outcomes st) = FileHolds on \<and> login_has_file (launches reg outcomes st)"
  using assms
proof (induction outcomes arbitrary: st)
  case (Cons outcome outcomes)
  from launch_keeps_choice [OF Cons.prems(1-3), of outcome]
  show ?case unfolding launches.simps by (intro Cons.IH) (elim conjE, assumption)+
qed (simp only: launches.simps)

lemma status_reports:
  assumes "working (login_reg st)"
  shows "status_enabled (fst (startup_status reg st)) = starts (login_reg st)
    \<and> working (login_reg (snd (startup_status reg st)))
    \<and> starts (login_reg (snd (startup_status reg st))) = starts (login_reg st)
    \<and> login_file (snd (startup_status reg st)) = login_file st
    \<and> login_has_file (snd (startup_status reg st)) = login_has_file st"
  using read_succeeds [OF assms] read_working [OF assms] starts_read [OF assms] supported command
  by (cases "reg_registered reg (login_reg st)") (auto simp: startup_status_def starts_def Let_def)

lemma choice_is_kept:
  assumes "working (login_reg st)" "login_has_file st"
    and "set_login_enabled reg Saved on st = (res, st1)"
  shows "working (login_reg st1) \<and> starts (login_reg st1) = on \<and> login_file st1 = FileHolds on
    \<and> login_has_file st1 \<and> (\<exists>status. res = Inr status \<and> status_enabled status = on)"
proof -
  obtain s where set: "reg_set_enabled reg on (login_reg st) = (Inr (), s)"
    using set_succeeds [OF assms(1), of on] by (cases "reg_set_enabled reg on (login_reg st)") simp
  let ?st = "st\<lparr>login_reg := s, login_file := FileHolds on\<rparr>"
  have eq: "set_login_enabled reg Saved on st = (Inr (fst (startup_status reg ?st)), snd (startup_status reg ?st))"
    using assms(2) supported command set
    by (cases on; cases "startup_status reg ?st")
      (simp_all add: set_login_enabled_def login_remember_def save_value_def require_supported_def
        require_command_def)
  have "working s" "starts s = on" using set_working [OF assms(1), of on] starts_set [OF assms(1), of on] set by simp_all
  then have st: "status_enabled (fst (startup_status reg ?st)) = on"
    "working (login_reg (snd (startup_status reg ?st)))" "starts (login_reg (snd (startup_status reg ?st))) = on"
    "login_file (snd (startup_status reg ?st)) = FileHolds on" "login_has_file (snd (startup_status reg ?st))"
    using status_reports [of ?st] assms(2) by simp_all
  have res: "res = Inr (fst (startup_status reg ?st))" "st1 = snd (startup_status reg ?st)"
    using eq assms(3) by simp_all
  show ?thesis unfolding res using st by blast
qed

end

section \<open>The registration on Windows\<close>

definition BACKGROUND_ARG :: ustr where
  "BACKGROUND_ARG = lit ''--background''"

definition launches_in_background :: "ustr list \<Rightarrow> bool" where
  "launches_in_background arguments = list_ex (\<lambda>a. a = BACKGROUND_ARG) (drop 1 arguments)"

text \<open>\<open>current_exe\<close> is the path of the running program, when Windows tells it.\<close>

definition login_command :: "ustr option \<Rightarrow> ustr" where
  "login_command current_exe =
     (case current_exe of
        Some executable \<Rightarrow> [34] @ executable @ [34] @ lit '' '' @ BACKGROUND_ARG
      | None \<Rightarrow> [])"

record LoginTask =
  task_program :: ustr
  task_argument :: ustr

datatype RunValue = RunAbsent | RunRefused | RunCommand ustr

record Windows =
  win_task :: "LoginTask option"
  win_run :: RunValue
  win_query_fails :: "AppError option"
  win_create_fails :: "AppError option"
  win_delete_fails :: bool
  win_run_locked :: bool

record WindowsStartup =
  startup_command :: ustr
  startup_executable :: ustr

definition is_task_enabled :: "Windows \<Rightarrow> AppError + bool" where
  "is_task_enabled w =
     (case win_query_fails w of Some e \<Rightarrow> Inl e | None \<Rightarrow> Inr (win_task w \<noteq> None))"

definition create_task :: "ustr \<Rightarrow> ustr \<Rightarrow> Windows \<Rightarrow> (AppError + unit) \<times> Windows" where
  "create_task exe_path arg w =
     (case win_create_fails w of
        Some e \<Rightarrow> (Inl e, w)
      | None \<Rightarrow> (Inr (), w\<lparr>win_task := Some \<lparr>task_program = exe_path, task_argument = arg\<rparr>\<rparr>))"

definition delete_task :: "Windows \<Rightarrow> (AppError + unit) \<times> Windows" where
  "delete_task w = (Inr (), if win_delete_fails w then w else w\<lparr>win_task := None\<rparr>)"

definition read_run_value :: "Windows \<Rightarrow> AppError + ustr option" where
  "read_run_value w =
     (case win_run w of
        RunAbsent \<Rightarrow> Inr None
      | RunRefused \<Rightarrow> Inl (internal_error (lit ''Windows could not read the ShaPrint login registration.''))
      | RunCommand command \<Rightarrow> Inr (Some command))"

text \<open>Every caller ignores whether the value could be removed.\<close>

definition delete_run_value :: "Windows \<Rightarrow> Windows" where
  "delete_run_value w = (if win_run_locked w then w else w\<lparr>win_run := RunAbsent\<rparr>)"

definition migrate_legacy_run_key :: "WindowsStartup \<Rightarrow> Windows \<Rightarrow> Windows" where
  "migrate_legacy_run_key ws w =
     (if is_task_enabled w = Inr True then delete_run_value w
      else
        (case read_run_value w of
           Inr (Some _) \<Rightarrow>
             let w = delete_run_value w
             in if startup_executable ws \<noteq> [] then snd (create_task (startup_executable ws) BACKGROUND_ARG w)
                else w
         | _ \<Rightarrow> w))"

definition WindowsStartup_new :: "ustr option \<Rightarrow> Windows \<Rightarrow> WindowsStartup \<times> Windows" where
  "WindowsStartup_new current_exe w =
     (let ws = \<lparr>startup_command = login_command current_exe,
               startup_executable = (case current_exe of Some exe \<Rightarrow> exe | None \<Rightarrow> [])\<rparr>
      in (ws, migrate_legacy_run_key ws w))"

definition windows_registered_command :: "WindowsStartup \<Rightarrow> Windows \<Rightarrow> (AppError + ustr option) \<times> Windows" where
  "windows_registered_command ws w =
     (case is_task_enabled w of
        Inl e \<Rightarrow> (Inl e, w)
      | Inr enabled \<Rightarrow>
          if enabled then (Inr (Some (startup_command ws)), delete_run_value w)
          else
            (case read_run_value w of
               Inl e \<Rightarrow> (Inl e, w)
             | Inr None \<Rightarrow> (Inr None, w)
             | Inr (Some _) \<Rightarrow>
                 let w = delete_run_value w
                 in if startup_executable ws \<noteq> [] then
                      (case create_task (startup_executable ws) BACKGROUND_ARG w of
                         (Inl e, w) \<Rightarrow> (Inl e, w)
                       | (Inr _, w) \<Rightarrow> (Inr (Some (startup_command ws)), w))
                    else (Inr None, w)))"

definition windows_set_enabled :: "WindowsStartup \<Rightarrow> bool \<Rightarrow> Windows \<Rightarrow> (AppError + unit) \<times> Windows" where
  "windows_set_enabled ws on w =
     (let w = delete_run_value w
      in if on then
           if startup_executable ws = [] then (Inl no_program, w)
           else create_task (startup_executable ws) BACKGROUND_ARG w
         else delete_task w)"

definition windows_registration :: "WindowsStartup \<Rightarrow> Windows StartupRegistration" where
  "windows_registration ws =
     \<lparr>reg_supported = True, reg_command = startup_command ws,
      reg_registered = windows_registered_command ws, reg_set_enabled = windows_set_enabled ws\<rparr>"

definition unsupported_startup :: "unit StartupRegistration" where
  "unsupported_startup =
     (let refused = unsupported_error (lit ''Starting ShaPrint at login is available on Windows only.'')
      in \<lparr>reg_supported = False, reg_command = [],
          reg_registered = (\<lambda>s. (Inl refused, s)), reg_set_enabled = (\<lambda>_ s. (Inl refused, s))\<rparr>)"

text \<open>Windows answers every call, and the value of the \<open>Run\<close> key can be read and removed.\<close>

definition windows_working :: "Windows \<Rightarrow> bool" where
  "windows_working w \<longleftrightarrow> win_query_fails w = None \<and> win_create_fails w = None
     \<and> \<not> win_delete_fails w \<and> \<not> win_run_locked w \<and> win_run w \<noteq> RunRefused"

lemmas windows_defs = windows_registration_def windows_registered_command_def windows_set_enabled_def
  is_task_enabled_def create_task_def delete_task_def read_run_value_def delete_run_value_def

definition installed_startup :: "ustr \<Rightarrow> WindowsStartup" where
  "installed_startup exe = \<lparr>startup_command = login_command (Some exe), startup_executable = exe\<rparr>"

lemma WindowsStartup_new_installed: "fst (WindowsStartup_new (Some exe) w) = installed_startup exe"
  by (simp add: WindowsStartup_new_def installed_startup_def Let_def)

lemma installed_startup_simps [simp]:
  "startup_executable (installed_startup exe) = exe"
  "startup_command (installed_startup exe) = login_command (Some exe)"
  "reg_command (windows_registration ws) = startup_command ws"
  "reg_supported (windows_registration ws)"
  "reg_registered (windows_registration ws) = windows_registered_command ws"
  by (simp_all add: installed_startup_def windows_registration_def)

lemma login_command_nonempty [simp]: "login_command (Some exe) \<noteq> []"
  by (simp add: login_command_def)

interpretation windows: login_registration "windows_registration (installed_startup exe)"
  "\<lambda>w. exe \<noteq> [] \<and> windows_working w" for exe
  by unfold_locales (auto simp: windows_defs windows_working_def Let_def split: option.split RunValue.split)


text \<open>
  A launch on a computer without a recorded choice turns the start on and records it; the next
  launches keep it.
\<close>

lemma first_launch_registers:
  assumes "exe \<noteq> []" "windows_working (login_reg st)" "login_has_file st" "login_file st = FileMissing"
  shows "fst (apply_default (windows_registration (installed_startup exe)) Saved st) = Inr ()
    \<and> login_file (snd (apply_default (windows_registration (installed_startup exe)) Saved st)) = FileHolds True
    \<and> windows.starts exe (login_reg (snd (apply_default (windows_registration (installed_startup exe)) Saved st)))"
  using windows.refresh_starts [of exe "login_reg st"] assms
  by (cases "refresh_login (windows_registration (installed_startup exe)) (login_reg st)")
    (auto simp: apply_default_def require_supported_def login_preference_def login_remember_def save_value_def)

text \<open>
  A choice that can not be read counts as off, and such a launch removes the registration of a user
  who had turned it on.
\<close>

lemma unreadable_choice_unregisters:
  assumes "exe \<noteq> []" "windows_working (login_reg st)" "login_has_file st"
    and "login_file st \<in> {FileGarbled, FileUnreadable}"
  shows "\<not> windows.starts exe (login_reg (snd (apply_default (windows_registration (installed_startup exe)) outcome st)))"
  using windows.withdraw_stops [of exe st outcome] assms by (auto simp: login_preference_def)

text \<open>
  The task is looked up by its name only. When it names a program that is no longer there, because
  ShaPrint moved, the status still says that this installation starts at login, and no launch repairs
  the task.
\<close>

lemma moved_program_not_refreshed:
  assumes "win_query_fails (login_reg st) = None" "win_task (login_reg st) = Some task"
    and "login_file st \<in> {FileHolds True, FileMissing}"
  shows "win_task (login_reg (snd (apply_default (windows_registration (installed_startup exe)) outcome st)))
      = Some task
    \<and> status_enabled (fst (startup_status (windows_registration (installed_startup exe)) st))"
  using assms
  by (auto simp: apply_default_def require_supported_def login_preference_def refresh_login_def
      require_command_def windows_defs startup_status_def Let_def login_remember_def save_value_def
      split: option.split SaveOutcome.split)

text \<open>
  Asking for the status is not free of effects: where an older version left a value in the \<open>Run\<close> key,
  it creates the task, also when the user's recorded choice is off.
\<close>

lemma status_registers_legacy:
  assumes "exe \<noteq> []" "windows_working (login_reg st)" "win_task (login_reg st) = None"
    and "win_run (login_reg st) = RunCommand command"
  shows "win_task (login_reg (snd (startup_status (windows_registration (installed_startup exe)) st)))
      = Some \<lparr>task_program = exe, task_argument = BACKGROUND_ARG\<rparr>
    \<and> status_enabled (fst (startup_status (windows_registration (installed_startup exe)) st))"
  using assms by (simp add: startup_status_def windows_defs windows_working_def Let_def)

text \<open>A login launch is told from one by the user: the command that is registered passes the flag.\<close>

lemma login_launch_recognised: "launches_in_background [exe, BACKGROUND_ARG] \<and> \<not> launches_in_background [exe]"
  by (simp add: launches_in_background_def)

end
