(* ===== verification/Task_Definition.thy ===== *)
theory Task_Definition
  imports Login_Startup
begin

text \<open>
  The text of \<open>adapters/startup.rs\<close>: the definition of the scheduled task as XML, where the path of the
  program is data, and the value of the \<open>Run\<close> key as the registry stores it, in UTF-16.
\<close>

section \<open>The definition of the task\<close>

text \<open>\<open>str::replace\<close> with a character as the pattern.\<close>

definition replace_char :: "uchar \<Rightarrow> ustr \<Rightarrow> ustr \<Rightarrow> ustr" where
  "replace_char c to s = concat (map (\<lambda>d. if d = c then to else [d]) s)"

definition escape_xml :: "ustr \<Rightarrow> ustr" where
  "escape_xml input =
     replace_char 39 (lit ''&apos;'')
       (replace_char 34 (lit ''&quot;'')
         (replace_char 62 (lit ''&gt;'')
           (replace_char 60 (lit ''&lt;'')
             (replace_char 38 (lit ''&amp;'') input))))"

definition lines_of :: "ustr list \<Rightarrow> ustr" where
  "lines_of ls = concat (map (\<lambda>l. l @ [10]) ls)"

definition quoted :: "string \<Rightarrow> string \<Rightarrow> string \<Rightarrow> ustr" where
  "quoted before_quote inside after_quote = lit before_quote @ [34] @ lit inside @ [34] @ lit after_quote"

text \<open>\<open>parent\<close> is the path without its last component, which the library of the platform splits off.\<close>

definition generate_task_xml :: "(ustr \<Rightarrow> ustr option) \<Rightarrow> ustr \<Rightarrow> ustr \<Rightarrow> ustr" where
  "generate_task_xml parent exe_path argument =
     (let escaped_exe = escape_xml exe_path;
          escaped_arg = escape_xml argument;
          exe_dir = (case parent exe_path of Some dir \<Rightarrow> dir | None \<Rightarrow> []);
          escaped_dir = escape_xml exe_dir
      in lines_of
          [quoted ''<?xml version='' ''1.0'' '' encoding='' @ quoted '''' ''UTF-16'' ''?>'',
           quoted ''<Task version='' ''1.2'' '' xmlns=''
             @ quoted '''' ''http://schemas.microsoft.com/windows/2004/02/mit/task'' ''>'',
           lit ''  <Triggers>'',
           lit ''    <LogonTrigger>'',
           lit ''      <Enabled>true</Enabled>'',
           lit ''    </LogonTrigger>'',
           lit ''  </Triggers>'',
           lit ''  <Principals>'',
           quoted ''    <Principal id='' ''Author'' ''>'',
           lit ''      <GroupId>S-1-5-32-545</GroupId>'',
           lit ''      <RunLevel>HighestAvailable</RunLevel>'',
           lit ''    </Principal>'',
           lit ''  </Principals>'',
           lit ''  <Settings>'',
           lit ''    <MultipleInstancesPolicy>IgnoreNew</MultipleInstancesPolicy>'',
           lit ''    <DisallowStartIfOnBatteries>false</DisallowStartIfOnBatteries>'',
           lit ''    <StopIfGoingOnBatteries>false</StopIfGoingOnBatteries>'',
           lit ''    <AllowStartOnDemand>true</AllowStartOnDemand>'',
           lit ''    <Enabled>true</Enabled>'',
           lit ''    <Hidden>false</Hidden>'',
           lit ''    <RunOnlyIfIdle>false</RunOnlyIfIdle>'',
           lit ''    <WakeToRun>false</WakeToRun>'',
           lit ''    <ExecutionTimeLimit>PT0S</ExecutionTimeLimit>'',
           lit ''    <Priority>7</Priority>'',
           lit ''  </Settings>'',
           quoted ''  <Actions Context='' ''Author'' ''>'',
           lit ''    <Exec>'',
           lit ''      <Command>'' @ escaped_exe @ lit ''</Command>'',
           lit ''      <Arguments>'' @ escaped_arg @ lit ''</Arguments>'',
           lit ''      <WorkingDirectory>'' @ escaped_dir @ lit ''</WorkingDirectory>'',
           lit ''    </Exec>'',
           lit ''  </Actions>'']
         @ lit ''</Task>'')"

text \<open>One pass does the same as the five replacements, and reading the entities back gives the text.\<close>

definition xml_entity :: "uchar \<Rightarrow> ustr" where
  "xml_entity c =
     (if c = 38 then lit ''&amp;'' else if c = 60 then lit ''&lt;'' else if c = 62 then lit ''&gt;''
      else if c = 34 then lit ''&quot;'' else if c = 39 then lit ''&apos;'' else [c])"

lemma replace_char_simps [simp]:
  "replace_char c to [] = []"
  "replace_char c to (d # s) = (if d = c then to else [d]) @ replace_char c to s"
  "replace_char c to (s @ t) = replace_char c to s @ replace_char c to t"
  by (simp_all add: replace_char_def)

lemma escape_xml_pass: "escape_xml s = concat (map xml_entity s)"
proof (induction s)
  case (Cons c s)
  have "escape_xml (c # s) = escape_xml [c] @ escape_xml s" by (simp add: escape_xml_def)
  moreover have "escape_xml [c] = xml_entity c" by (simp add: escape_xml_def xml_entity_def)
  ultimately show ?case using Cons.IH by simp
qed (simp add: escape_xml_def)

text \<open>A reader of XML text: the five predefined entities, and no markup.\<close>

fun read_xml_text :: "nat \<Rightarrow> ustr \<Rightarrow> ustr option" where
  "read_xml_text 0 s = None"
| "read_xml_text (Suc n) [] = Some []"
| "read_xml_text (Suc n) (c # s) =
     (if c = 60 then None
      else if c \<noteq> 38 then map_option ((#) c) (read_xml_text n s)
      else if take 4 s = lit ''amp;'' then map_option ((#) 38) (read_xml_text n (drop 4 s))
      else if take 3 s = lit ''lt;'' then map_option ((#) 60) (read_xml_text n (drop 3 s))
      else if take 3 s = lit ''gt;'' then map_option ((#) 62) (read_xml_text n (drop 3 s))
      else if take 5 s = lit ''quot;'' then map_option ((#) 34) (read_xml_text n (drop 5 s))
      else if take 5 s = lit ''apos;'' then map_option ((#) 39) (read_xml_text n (drop 5 s))
      else None)"

lemma read_xml_entity:
  "read_xml_text (Suc n) (xml_entity c @ s) = map_option ((#) c) (read_xml_text n s)"
  by (simp add: xml_entity_def)

lemma escaped_text_read: "length s < n \<Longrightarrow> read_xml_text n (escape_xml s) = Some s"
proof (induction s arbitrary: n)
  case Nil
  then obtain m where "n = Suc m" by (cases n) auto
  then show ?case by (simp add: escape_xml_pass)
next
  case (Cons c s)
  then obtain m where n: "n = Suc m" "length s < m" by (cases n) auto
  then show ?case using Cons.IH by (simp add: escape_xml_pass read_xml_entity)
qed

lemma escaped_no_markup: "set (escape_xml s) \<inter> {60, 62, 34, 39} = {}"
  by (auto simp: escape_xml_pass xml_entity_def split: if_splits)

section \<open>The value of the registry\<close>

definition utf16_char :: "uchar \<Rightarrow> nat list" where
  "utf16_char c =
     (if c < 0x10000 then [c]
      else [0xD800 + (c - 0x10000) div 1024, 0xDC00 + (c - 0x10000) mod 1024])"

definition encode_utf16 :: "ustr \<Rightarrow> nat list" where
  "encode_utf16 s = concat (map utf16_char s)"

fun from_utf16_lossy :: "nat list \<Rightarrow> ustr" where
  "from_utf16_lossy [] = []"
| "from_utf16_lossy [u] = [if 0xD800 \<le> u \<and> u < 0xE000 then 0xFFFD else u]"
| "from_utf16_lossy (u # l # us) =
     (if 0xD800 \<le> u \<and> u < 0xDC00 \<and> 0xDC00 \<le> l \<and> l < 0xE000
      then (0x10000 + (u - 0xD800) * 1024 + (l - 0xDC00)) # from_utf16_lossy us
      else (if 0xD800 \<le> u \<and> u < 0xE000 then 0xFFFD else u) # from_utf16_lossy (l # us))"

fun le_units :: "bytes \<Rightarrow> nat list" where
  "le_units (lo # hi # bs) = (unat lo + 256 * unat hi) # le_units bs"
| "le_units _ = []"

definition decode_registry_string :: "bytes \<Rightarrow> ustr" where
  "decode_registry_string bs = from_utf16_lossy (takeWhile (\<lambda>unit. unit \<noteq> 0) (le_units bs))"

definition to_le_bytes :: "nat list \<Rightarrow> bytes" where
  "to_le_bytes us = concat (map (\<lambda>u. [of_nat (u mod 256), of_nat (u div 256)]) us)"

lemma le_units_to_le_bytes: "\<forall>u \<in> set us. u < 0x10000 \<Longrightarrow> le_units (to_le_bytes us @ bs) = us @ le_units bs"
proof (induction us)
  case (Cons u us)
  then have "u < 256 * 256" by simp
  then have "u div 256 mod 256 = u div 256" by (intro mod_less) (rule less_mult_imp_div_less)
  with Cons show ?case by (simp add: to_le_bytes_def unat_of_nat)
qed (simp add: to_le_bytes_def)

lemma from_utf16_char:
  assumes "is_scalar c"
  shows "from_utf16_lossy (utf16_char c @ us) = c # from_utf16_lossy us"
proof (cases "c < 0x10000")
  case True
  with assms show ?thesis by (cases us) (auto simp: utf16_char_def is_scalar_def)
next
  case False
  let ?r = "c - 0x10000"
  from False assms have r: "?r < 0x100000" "c = 0x10000 + ?r" by (auto simp: is_scalar_def)
  then have "?r div 1024 < 1024" "?r mod 1024 < 1024" by simp_all
  with False r(2) div_mult_mod_eq [of ?r 1024] show ?thesis by (simp add: utf16_char_def)
qed

lemma utf16_units: "wf_ustr s \<Longrightarrow> 0 \<notin> set s \<Longrightarrow> u \<in> set (encode_utf16 s) \<Longrightarrow> 0 < u \<and> u < 0x10000"
  by (induction s) (auto simp: encode_utf16_def utf16_char_def is_scalar_def split: if_splits)

lemma from_encode_utf16: "wf_ustr s \<Longrightarrow> from_utf16_lossy (encode_utf16 s) = s"
  by (induction s) (simp_all add: encode_utf16_def from_utf16_char)

text \<open>What was stored with its terminator is read back, whatever follows it in the buffer.\<close>

lemma registry_value_read_back:
  assumes "wf_ustr s" "0 \<notin> set s"
  shows "decode_registry_string (to_le_bytes (encode_utf16 s @ [0]) @ rest) = s"
proof -
  have units: "\<forall>u \<in> set (encode_utf16 s). u \<noteq> 0 \<and> u < 0x10000" using utf16_units [OF assms] by blast
  then have "le_units (to_le_bytes (encode_utf16 s @ [0]) @ rest) = (encode_utf16 s @ [0]) @ le_units rest"
    by (intro le_units_to_le_bytes) auto
  moreover have "takeWhile (\<lambda>u. u \<noteq> 0) ((encode_utf16 s @ [0]) @ le_units rest) = encode_utf16 s"
    using units by (simp add: takeWhile_append2)
  ultimately show ?thesis using from_encode_utf16 [OF assms(1)] by (simp add: decode_registry_string_def)
qed

end
