(* ===== verification/Legacy_Import.thy ===== *)
theory Legacy_Import
  imports Network_Channel Settings_File
begin

text \<open>
  \<open>application/legacy.rs\<close> and \<open>adapters/legacy.rs\<close>: moving the Network Channel of the previous .NET
  application into this one. Base64 and the protection of Windows (DPAPI) are parameters; the files are
  their decoded content. The import relies on the interface \<open>channel_store\<close>, which the Network Channel
  of this program provides.
\<close>

section \<open>What the previous application left\<close>

datatype LegacyChannel = LegacyAbsent | LegacyReadable ustr | LegacyUnreadable

record LegacySnapshot =
  has_settings :: bool
  legacy_channel :: LegacyChannel
  has_client_queues :: bool
  has_shared_queues :: bool

definition legacy_found :: "LegacySnapshot \<Rightarrow> bool" where
  "legacy_found s \<longleftrightarrow> has_settings s \<or> has_client_queues s \<or> has_shared_queues s"

definition NoLegacySettings_load :: "AppError + LegacySnapshot" where
  "NoLegacySettings_load =
     Inr \<lparr>has_settings = False, legacy_channel = LegacyAbsent, has_client_queues = False,
          has_shared_queues = False\<rparr>"

text \<open>
  The folder: the settings with the one field that is read, and the two queue files with the number of
  their entries. A file that is not there counts as missing.
\<close>

record LegacyFolder =
  legacy_settings :: "ustr SettingsFile"
  legacy_client_queues :: "nat SettingsFile"
  legacy_server_queues :: "nat SettingsFile"

definition LEGACY_PLACEHOLDER_CHANNEL :: ustr where
  "LEGACY_PLACEHOLDER_CHANNEL = lit ''DefaultChannel''"

definition classify_legacy_channel :: "ustr \<Rightarrow> LegacyChannel" where
  "classify_legacy_channel plaintext =
     (let channel = trim plaintext
      in if channel = [] \<or> channel = LEGACY_PLACEHOLDER_CHANNEL then LegacyAbsent
         else LegacyReadable channel)"

definition open_legacy_secret ::
  "(ustr \<Rightarrow> bytes option) \<Rightarrow> (bytes \<Rightarrow> bytes option) \<Rightarrow> ustr \<Rightarrow> ustr option" where
  "open_legacy_secret base64_decode unprotect encoded =
     Option.bind (base64_decode (trim encoded)) (\<lambda>protected.
     Option.bind (unprotect protected) from_utf8)"

definition read_channel ::
  "(ustr \<Rightarrow> bytes option) \<Rightarrow> (bytes \<Rightarrow> bytes option) \<Rightarrow> ustr SettingsFile \<Rightarrow> LegacyChannel" where
  "read_channel base64_decode unprotect file =
     (case file of
        FileHolds encrypted \<Rightarrow>
          if trim encrypted = [] then LegacyAbsent
          else
            (case open_legacy_secret base64_decode unprotect encrypted of
               Some channel \<Rightarrow> classify_legacy_channel channel
             | None \<Rightarrow> LegacyUnreadable)
      | _ \<Rightarrow> LegacyAbsent)"

fun has_entries :: "nat SettingsFile \<Rightarrow> bool" where
  "has_entries (FileHolds n) = (n \<noteq> 0)"
| "has_entries FileGarbled = True"
| "has_entries FileMissing = False"
| "has_entries FileUnreadable = False"

definition legacy_load ::
  "(ustr \<Rightarrow> bytes option) \<Rightarrow> (bytes \<Rightarrow> bytes option) \<Rightarrow> LegacyFolder \<Rightarrow> AppError + LegacySnapshot" where
  "legacy_load base64_decode unprotect folder =
     Inr \<lparr>has_settings = (legacy_settings folder \<noteq> FileMissing),
          legacy_channel =
            (if legacy_settings folder \<noteq> FileMissing
             then read_channel base64_decode unprotect (legacy_settings folder) else LegacyAbsent),
          has_client_queues = has_entries (legacy_client_queues folder),
          has_shared_queues = has_entries (legacy_server_queues folder)\<rparr>"

section \<open>The report\<close>

datatype ChannelOutcome = Importable | Imported | KeptExisting | OutcomeAbsent | OutcomeUnreadable

primrec ChannelOutcome_as_str :: "ChannelOutcome \<Rightarrow> ustr" where
  "ChannelOutcome_as_str Importable = lit ''importable''"
| "ChannelOutcome_as_str Imported = lit ''imported''"
| "ChannelOutcome_as_str KeptExisting = lit ''kept-existing''"
| "ChannelOutcome_as_str OutcomeAbsent = lit ''absent''"
| "ChannelOutcome_as_str OutcomeUnreadable = lit ''unreadable''"

primrec outcome_note :: "ChannelOutcome \<Rightarrow> ustr" where
  "outcome_note Importable = lit ''The previous ShaPrint app'' @ [39] @ lit ''s Network Channel is ready to be imported.''"
| "outcome_note Imported = lit ''Your Network Channel was imported from the previous ShaPrint app.''"
| "outcome_note KeptExisting = lit ''This app already has its own Network Channel, so the previous app'' @ [39] @ lit ''s value was left alone.''"
| "outcome_note OutcomeAbsent = lit ''The previous ShaPrint app had no Network Channel of its own. Set one here before clients can print.''"
| "outcome_note OutcomeUnreadable = lit ''The previous app had a Network Channel that Windows would not open for this user. Set it again here.''"

record SkippedSetting =
  skipped_key :: ustr
  skipped_label :: ustr
  skipped_reason :: ustr

record ImportReport =
  report_found :: bool
  report_channel :: ChannelOutcome
  report_settings :: "SkippedSetting list"
  queues_need_reselection :: bool

definition skipped :: "ustr \<Rightarrow> ustr \<Rightarrow> ustr \<Rightarrow> SkippedSetting" where
  "skipped key label reason = \<lparr>skipped_key = key, skipped_label = label, skipped_reason = reason\<rparr>"

definition SETTINGS_WITHOUT_EQUIVALENT :: "(ustr \<times> ustr \<times> ustr) list" where
  "SETTINGS_WITHOUT_EQUIVALENT =
     [(lit ''auto-update'', lit ''Automatic updates'', lit ''This app does not update itself yet.''),
      (lit ''update-channel'', lit ''Update channel'', lit ''This app does not update itself yet.''),
      (lit ''auto-purge'', lit ''Automatic print job cleanup'', lit ''This app does not keep print job history.''),
      (lit ''scan-settings'', lit ''Scan folder and auto-save'', lit ''Scanning is not part of this app.'')]"

definition describe_import :: "LegacySnapshot \<Rightarrow> ChannelOutcome \<Rightarrow> ImportReport" where
  "describe_import snapshot channel =
     \<lparr>report_found = legacy_found snapshot,
      report_channel = channel,
      report_settings =
        (if has_settings snapshot
         then map (\<lambda>(key, label, reason). skipped key label reason) SETTINGS_WITHOUT_EQUIVALENT else [])
        @ (if has_client_queues snapshot
           then [skipped (lit ''client-queues'') (lit ''Installed client printers'')
             (lit ''Printer queues are installed again from this app; the previous app'' @ [39] @ lit ''s queues are not activated.'')]
           else [])
        @ (if has_shared_queues snapshot
           then [skipped (lit ''shared-queues'') (lit ''Shared server printers'')
             (lit ''Printer queues are selected again in this app; the previous selection is not activated.'')]
           else []),
      queues_need_reselection = (has_client_queues snapshot \<or> has_shared_queues snapshot)\<rparr>"

section \<open>The import\<close>

text \<open>
  The channel storage, as the operations the trait names: whether there is a channel, and storing one
  under a circumstance \<open>'io\<close> of the files and the random numbers.
\<close>

record ('s, 'io) ChannelStore =
  store_configured :: "'s \<Rightarrow> bool"
  store_channel :: "'io \<Rightarrow> ustr \<Rightarrow> 's \<Rightarrow> (AppError + unit) \<times> 's"

record 's ImportState =
  import_store :: 's
  import_has_marker :: bool
  import_marker :: "bool SettingsFile"
  import_last :: "ImportReport option"

text \<open>How one run of the import meets its surroundings: which blocking worker stopped, and the writes.\<close>

record 'io ImportIo =
  load_stops :: bool
  read_stops :: bool
  write_stops :: bool
  marker_save :: "bool SaveOutcome"
  store_io :: 'io

definition read_marker :: "'s ImportState \<Rightarrow> bool" where
  "read_marker st \<longleftrightarrow> import_has_marker st \<and> import_marker st = FileHolds True"

definition write_marker :: "bool SaveOutcome \<Rightarrow> bool \<Rightarrow> 's ImportState \<Rightarrow> 's ImportState" where
  "write_marker outcome imported st =
     (if import_has_marker st
      then st\<lparr>import_marker := snd (save_value outcome imported (import_marker st))\<rparr> else st)"

definition off_thread :: "bool \<Rightarrow> (AppError + 'a) \<Rightarrow> AppError + 'a" where
  "off_thread stops work =
     (if stops then Inl (internal_error (lit ''the previous app'' @ [39] @ lit ''s settings worker stopped''))
      else work)"

definition import_outcome :: "('s, 'io) ChannelStore \<Rightarrow> LegacySnapshot \<Rightarrow> bool \<Rightarrow> 's \<Rightarrow> ChannelOutcome" where
  "import_outcome ops snapshot already_imported store =
     (case legacy_channel snapshot of
        LegacyUnreadable \<Rightarrow> OutcomeUnreadable
      | LegacyAbsent \<Rightarrow> OutcomeAbsent
      | LegacyReadable _ \<Rightarrow>
          if already_imported then Imported
          else if store_configured ops store then KeptExisting
          else Importable)"

definition inspect_import ::
  "('s, 'io) ChannelStore \<Rightarrow> (AppError + LegacySnapshot) \<Rightarrow> 's ImportState \<Rightarrow> AppError + ImportReport" where
  "inspect_import ops source st =
     and_then source (\<lambda>snapshot.
     Inr (describe_import snapshot (import_outcome ops snapshot (read_marker st) (import_store st))))"

text \<open>The branch that takes the channel: it is stored, and then the record is written if that works.\<close>

definition take_channel ::
  "('s, 'io) ChannelStore \<Rightarrow> 'io ImportIo \<Rightarrow> ustr \<Rightarrow> 's ImportState \<Rightarrow> (AppError + unit) \<times> 's ImportState" where
  "take_channel ops io channel st =
     (case store_channel ops (store_io io) channel (import_store st) of
        (Inl e, store) \<Rightarrow> (Inl e, st\<lparr>import_store := store\<rparr>)
      | (Inr _, store) \<Rightarrow>
          (Inr (),
           if write_stops io then st\<lparr>import_store := store\<rparr>
           else write_marker (marker_save io) True (st\<lparr>import_store := store\<rparr>)))"

definition publish_report ::
  "LegacySnapshot \<Rightarrow> ChannelOutcome \<Rightarrow> 's ImportState \<Rightarrow> (AppError + ImportReport) \<times> 's ImportState" where
  "publish_report snapshot outcome st =
     (let report = describe_import snapshot outcome in (Inr report, st\<lparr>import_last := Some report\<rparr>))"

definition apply_import ::
  "('s, 'io) ChannelStore \<Rightarrow> 'io ImportIo \<Rightarrow> (AppError + LegacySnapshot) \<Rightarrow> 's ImportState
    \<Rightarrow> (AppError + ImportReport) \<times> 's ImportState" where
  "apply_import ops io source st =
     (case off_thread (load_stops io) source of
        Inl e \<Rightarrow> (Inl e, st)
      | Inr snapshot \<Rightarrow>
          (case off_thread (read_stops io) (Inr (read_marker st)) of
             Inl e \<Rightarrow> (Inl e, st)
           | Inr marker \<Rightarrow>
               let outcome = import_outcome ops snapshot marker (import_store st)
               in if outcome = Importable then
                    (case legacy_channel snapshot of
                       LegacyReadable channel \<Rightarrow>
                         (case take_channel ops io channel st of
                            (Inl e, st) \<Rightarrow> (Inl e, st)
                          | (Inr _, st) \<Rightarrow> publish_report snapshot Imported st)
                     | _ \<Rightarrow> publish_report snapshot outcome st)
                  else publish_report snapshot outcome st))"

text \<open>Repeated runs, each on what the previous application has left then.\<close>

fun import_runs ::
  "('s, 'io) ChannelStore \<Rightarrow> ('io ImportIo \<times> (AppError + LegacySnapshot)) list \<Rightarrow> 's ImportState \<Rightarrow> 's ImportState" where
  "import_runs ops [] st = st"
| "import_runs ops ((io, source) # runs) st = import_runs ops runs (snd (apply_import ops io source st))"

section \<open>The interface of the channel storage\<close>

text \<open>\<open>sends\<close> is the channel that the program sends: a stored channel is sent, and a failed store changes nothing.\<close>

locale channel_store =
  fixes ops :: "('s, 'io) ChannelStore"
    and sends :: "'s \<Rightarrow> ustr option"
  assumes store_ok: "store_channel ops io c s = (Inr u, s') \<Longrightarrow> store_configured ops s' \<and> sends s' = Some c"
    and store_failed: "store_channel ops io c s = (Inl e, s') \<Longrightarrow>
      store_configured ops s' = store_configured ops s \<and> sends s' = sends s"
begin

lemma importable_iff:
  "import_outcome ops snapshot marker s = Importable \<longleftrightarrow>
    (\<exists>c. legacy_channel snapshot = LegacyReadable c) \<and> \<not> marker \<and> \<not> store_configured ops s"
  by (simp add: import_outcome_def split: LegacyChannel.split)

lemma take_channel_ok:
  assumes "take_channel ops io c st = (Inr u, st')"
  shows "store_configured ops (import_store st') \<and> sends (import_store st') = Some c"
  using assms store_ok [of "store_io io" c "import_store st"]
  by (cases "store_channel ops (store_io io) c (import_store st)")
    (auto simp: take_channel_def write_marker_def split: sum.splits if_splits)

lemma take_channel_failed:
  assumes "take_channel ops io c st = (Inl e, st')"
  shows "store_configured ops (import_store st') = store_configured ops (import_store st)
    \<and> sends (import_store st') = sends (import_store st)"
  using assms store_failed [of "store_io io" c "import_store st"]
  by (cases "store_channel ops (store_io io) c (import_store st)")
    (auto simp: take_channel_def split: sum.splits if_splits)

lemma apply_import_Inr:
  assumes "apply_import ops io source st = (Inr report, st')"
  obtains snapshot where "source = Inr snapshot"
    "import_outcome ops snapshot (read_marker st) (import_store st) \<noteq> Importable"
    "report = describe_import snapshot (import_outcome ops snapshot (read_marker st) (import_store st))"
    "st' = st\<lparr>import_last := Some report\<rparr>"
  | snapshot c st1 where "source = Inr snapshot"
    "import_outcome ops snapshot (read_marker st) (import_store st) = Importable"
    "legacy_channel snapshot = LegacyReadable c" "take_channel ops io c st = (Inr (), st1)"
    "report = describe_import snapshot Imported" "st' = st1\<lparr>import_last := Some report\<rparr>"
proof -
  from assms obtain snapshot where src: "source = Inr snapshot" "\<not> read_stops io" "\<not> load_stops io"
    by (cases source; cases "load_stops io"; cases "read_stops io") (simp_all add: apply_import_def off_thread_def)
  show thesis
  proof (cases "import_outcome ops snapshot (read_marker st) (import_store st) = Importable")
    case True
    then obtain c where c: "legacy_channel snapshot = LegacyReadable c" by (auto simp: importable_iff)
    from assms True c src obtain st1 where tk: "take_channel ops io c st = (Inr (), st1)"
      by (cases "take_channel ops io c st"; cases "fst (take_channel ops io c st)")
        (simp_all add: apply_import_def off_thread_def)
    from assms True c src tk have "report = describe_import snapshot Imported" "st' = st1\<lparr>import_last := Some report\<rparr>"
      by (auto simp: apply_import_def off_thread_def publish_report_def Let_def)
    from that(2) [OF src(1) True c tk this] show thesis .
  next
    case False
    with assms src have
      "report = describe_import snapshot (import_outcome ops snapshot (read_marker st) (import_store st))"
      "st' = st\<lparr>import_last := Some report\<rparr>"
      by (auto simp: apply_import_def off_thread_def publish_report_def Let_def)
    from that(1) [OF src(1) False this] show thesis .
  qed
qed

lemma configured_untouched:
  assumes "store_configured ops (import_store st)"
  shows "import_store (snd (apply_import ops io source st)) = import_store st"
proof -
  have "import_outcome ops snapshot m (import_store st) \<noteq> Importable" for snapshot m
    using assms by (simp add: importable_iff)
  then show ?thesis by (simp add: apply_import_def publish_report_def Let_def split: sum.split)
qed

lemma runs_untouched:
  "store_configured ops (import_store st) \<Longrightarrow> import_store (import_runs ops runs st) = import_store st"
proof (induction runs arbitrary: st)
  case (Cons run runs)
  obtain io source where run: "run = (io, source)" by (cases run)
  show ?case using Cons.IH [of "snd (apply_import ops io source st)"] configured_untouched [OF Cons.prems]
      Cons.prems by (simp add: run)
qed simp

lemma unconfigured_import:
  assumes "\<not> store_configured ops (import_store st)" "apply_import ops io source st = (Inr report, st')"
  shows "if report_channel report = Imported \<and> \<not> read_marker st
    then store_configured ops (import_store st')
      \<and> (\<exists>snapshot c. source = Inr snapshot \<and> legacy_channel snapshot = LegacyReadable c
           \<and> sends (import_store st') = Some c)
    else import_store st' = import_store st"
  using assms(2)
proof (rule apply_import_Inr)
  fix snapshot
  assume o: "import_outcome ops snapshot (read_marker st) (import_store st) \<noteq> Importable"
    "report = describe_import snapshot (import_outcome ops snapshot (read_marker st) (import_store st))"
    "st' = st\<lparr>import_last := Some report\<rparr>"
  have "import_outcome ops snapshot False (import_store st) \<noteq> Imported"
    by (simp add: import_outcome_def split: LegacyChannel.split)
  with o show ?thesis by (cases "read_marker st") (simp_all add: describe_import_def)
next
  fix snapshot c st1
  assume t: "source = Inr snapshot" "legacy_channel snapshot = LegacyReadable c"
    "take_channel ops io c st = (Inr (), st1)"
    "report = describe_import snapshot Imported" "st' = st1\<lparr>import_last := Some report\<rparr>"
    "import_outcome ops snapshot (read_marker st) (import_store st) = Importable"
  from t(6) have "\<not> read_marker st" by (simp add: importable_iff)
  with take_channel_ok [OF t(3)] t show ?thesis by (simp add: describe_import_def)
qed

lemma inspect_agrees:
  assumes "inspect_import ops source st = Inr expected" "apply_import ops io source st = (Inr report, st')"
  shows "report = expected\<lparr>report_channel :=
      (if report_channel expected = Importable then Imported else report_channel expected)\<rparr>
    \<and> import_last st' = Some report
    \<and> (if report_channel expected = Importable then store_configured ops (import_store st')
       else import_store st' = import_store st \<and> import_marker st' = import_marker st)"
  using assms(2)
proof (rule apply_import_Inr)
  fix snapshot
  assume "source = Inr snapshot" "import_outcome ops snapshot (read_marker st) (import_store st) \<noteq> Importable"
    "report = describe_import snapshot (import_outcome ops snapshot (read_marker st) (import_store st))"
    "st' = st\<lparr>import_last := Some report\<rparr>"
  with assms(1) show ?thesis by (auto simp: inspect_import_def describe_import_def)
next
  fix snapshot c st1
  assume t: "source = Inr snapshot" "import_outcome ops snapshot (read_marker st) (import_store st) = Importable"
    "take_channel ops io c st = (Inr (), st1)"
    "report = describe_import snapshot Imported" "st' = st1\<lparr>import_last := Some report\<rparr>"
  from assms(1) t(1,2) have "expected = describe_import snapshot Importable" by (simp add: inspect_import_def)
  with take_channel_ok [OF t(3)] t(4,5) show ?thesis by (simp add: describe_import_def)
qed

end

section \<open>The Network Channel as the storage\<close>

text \<open>The circumstances of one \<open>configure\<close>: the writes and the random salt.\<close>

definition network_channel_store ::
  "(bytes \<Rightarrow> bytes) \<Rightarrow> (bytes \<Rightarrow> ustr) \<Rightarrow> (NetworkChannel \<times> ChannelDisk, ChannelIo \<times> bytes option) ChannelStore" where
  "network_channel_store sha256 hex_encode =
     \<lparr>store_configured = (\<lambda>(nc, _). channel_is_configured nc),
      store_channel = (\<lambda>(io, salt) channel st.
        case configure sha256 hex_encode io salt channel st of (res, st) \<Rightarrow> (map_sum id (\<lambda>_. ()) res, st))\<rparr>"

lemma network_configured [simp]:
  "store_configured (network_channel_store sha256 hex_encode) st = channel_is_configured (fst st)"
  by (simp add: network_channel_store_def split_beta)

lemma configure_result:
  "configure sha256 hex_encode io salt channel (nc, disk) = (res, nc', disk') \<Longrightarrow>
    (case res of Inl _ \<Rightarrow> nc' = nc
     | Inr _ \<Rightarrow> channel_verifier nc' \<noteq> None \<and> client_secret nc' = Some channel)"
  by (auto simp: configure_def protect_secret_def Let_def split: if_splits option.splits prod.splits sum.splits)

interpretation network: channel_store "network_channel_store sha256 hex_encode"
  "\<lambda>(nc, _). client_credential nc" for sha256 hex_encode
proof unfold_locales
  fix io c s u s'
  assume "store_channel (network_channel_store sha256 hex_encode) io c s = (Inr u, s')"
  then show "store_configured (network_channel_store sha256 hex_encode) s'
      \<and> (case s' of (nc, _) \<Rightarrow> client_credential nc) = Some c"
    using configure_result [of sha256 hex_encode "fst io" "snd io" c "fst s" "snd s"]
    by (cases "fst (configure sha256 hex_encode (fst io) (snd io) c s)"; cases s')
      (auto simp: network_channel_store_def channel_is_configured_def client_credential_def split_beta prod_eq_iff)
next
  fix io c s e s'
  assume "store_channel (network_channel_store sha256 hex_encode) io c s = (Inl e, s')"
  then show "store_configured (network_channel_store sha256 hex_encode) s'
        = store_configured (network_channel_store sha256 hex_encode) s
      \<and> (case s' of (nc, _) \<Rightarrow> client_credential nc) = (case s of (nc, _) \<Rightarrow> client_credential nc)"
    using configure_result [of sha256 hex_encode "fst io" "snd io" c "fst s" "snd s"]
    by (cases "fst (configure sha256 hex_encode (fst io) (snd io) c s)"; cases s')
      (auto simp: network_channel_store_def channel_is_configured_def client_credential_def split_beta prod_eq_iff)
qed

text \<open>What the placeholder of the previous application, or only white space, protects is not a channel.\<close>

lemma trim_nonempty_channel: "classify_legacy_channel p = LegacyReadable c \<longleftrightarrow>
    c = trim p \<and> c \<noteq> [] \<and> c \<noteq> LEGACY_PLACEHOLDER_CHANNEL"
  by (auto simp: classify_legacy_channel_def Let_def)

lemma legacy_load_readable:
  assumes "legacy_load base64_decode unprotect folder = Inr snapshot" "legacy_channel snapshot = LegacyReadable c"
  obtains encrypted protected plain secret where
    "legacy_settings folder = FileHolds encrypted" "base64_decode (trim encrypted) = Some protected"
    "unprotect protected = Some plain" "from_utf8 plain = Some secret" "c = trim secret" "c \<noteq> []"
    "c \<noteq> LEGACY_PLACEHOLDER_CHANNEL"
  using assms
  by (auto simp: legacy_load_def read_channel_def open_legacy_secret_def trim_nonempty_channel bind_eq_Some_conv
      split: if_splits SettingsFile.splits option.splits)

text \<open>
  C16: The import never replaces a channel and takes only a real one. While this program has a Network
  Channel, no sequence of imports, whatever the previous application left, whatever the record says,
  changes the channel or its files. Without one, a run of the import that ends well reports that
  it imported, unless the record already said so, exactly when the program now sends the text that the
  previous application had protected, trimmed, which is neither empty nor the placeholder, and the
  verifier of the server is set; otherwise nothing is changed.
\<close>

theorem import_never_replaces:
  fixes st :: "(NetworkChannel \<times> ChannelDisk) ImportState"
  assumes "apply_import (network_channel_store sha256 hex_encode) io
      (legacy_load base64_decode unprotect folder) st = (Inr report, st')"
  shows "if channel_is_configured (fst (import_store st))
    then import_store (import_runs (network_channel_store sha256 hex_encode) runs st) = import_store st
      \<and> import_store st' = import_store st
    else if report_channel report = Imported \<and> \<not> read_marker st
    then channel_is_configured (fst (import_store st'))
      \<and> (\<exists>encrypted protected plain secret. legacy_settings folder = FileHolds encrypted
          \<and> base64_decode (trim encrypted) = Some protected \<and> unprotect protected = Some plain
          \<and> from_utf8 plain = Some secret \<and> trim secret \<notin> {[], LEGACY_PLACEHOLDER_CHANNEL}
          \<and> client_credential (fst (import_store st')) = Some (trim secret))
    else import_store st' = import_store st"
proof -
  let ?ops = "network_channel_store sha256 hex_encode"
  show ?thesis
  proof (cases "channel_is_configured (fst (import_store st))")
    case True
    then show ?thesis
      using network.runs_untouched [of sha256 hex_encode st runs]
        network.configured_untouched [of sha256 hex_encode st io "legacy_load base64_decode unprotect folder"] assms
      by simp
  next
    case False
    then have taken: "if report_channel report = Imported \<and> \<not> read_marker st
        then channel_is_configured (fst (import_store st'))
          \<and> (\<exists>snapshot c. legacy_load base64_decode unprotect folder = Inr snapshot
               \<and> legacy_channel snapshot = LegacyReadable c
               \<and> client_credential (fst (import_store st')) = Some c)
        else import_store st' = import_store st"
      using network.unconfigured_import [of sha256 hex_encode, OF _ assms] by (auto simp: split_beta split: if_splits)
    show ?thesis
    proof (cases "report_channel report = Imported \<and> \<not> read_marker st")
      case True
      with taken obtain snapshot c where "legacy_load base64_decode unprotect folder = Inr snapshot"
        "legacy_channel snapshot = LegacyReadable c"
        and c: "client_credential (fst (import_store st')) = Some c"
        "channel_is_configured (fst (import_store st'))" by auto
      from legacy_load_readable [OF this(1,2)] obtain encrypted protected plain secret where
        opened: "legacy_settings folder = FileHolds encrypted" "base64_decode (trim encrypted) = Some protected"
        "unprotect protected = Some plain" "from_utf8 plain = Some secret"
        and chosen: "c = trim secret" "c \<noteq> []" "c \<noteq> LEGACY_PLACEHOLDER_CHANNEL" .
      from chosen c(1) have "trim secret \<notin> {[], LEGACY_PLACEHOLDER_CHANNEL}"
        "client_credential (fst (import_store st')) = Some (trim secret)" by simp_all
      note opened this
      then have "\<exists>encrypted protected plain secret. legacy_settings folder = FileHolds encrypted
          \<and> base64_decode (trim encrypted) = Some protected \<and> unprotect protected = Some plain
          \<and> from_utf8 plain = Some secret \<and> trim secret \<notin> {[], LEGACY_PLACEHOLDER_CHANNEL}
          \<and> client_credential (fst (import_store st')) = Some (trim secret)" by (intro exI conjI)
      with c(2) True False show ?thesis by (simp only: if_False if_True simp_thms)
    next
      case not: False
      with taken False show ?thesis by simp
    qed
  qed
qed

text \<open>
  What the window announces is what the import does: the report of a run equals the report of
  an inspection before it, with \<open>importable\<close> become \<open>imported\<close>; when nothing was importable neither
  the channel nor the record changes.
\<close>

theorem import_as_announced:
  fixes st :: "(NetworkChannel \<times> ChannelDisk) ImportState"
  assumes "inspect_import (network_channel_store sha256 hex_encode) source st = Inr expected"
    and "apply_import (network_channel_store sha256 hex_encode) io source st = (Inr report, st')"
  shows "report = expected\<lparr>report_channel :=
      (if report_channel expected = Importable then Imported else report_channel expected)\<rparr>
    \<and> import_last st' = Some report
    \<and> (if report_channel expected = Importable then channel_is_configured (fst (import_store st'))
       else import_store st' = import_store st \<and> import_marker st' = import_marker st)"
  using network.inspect_agrees [OF assms] by (simp split: if_splits)

text \<open>
  A record that says a channel was taken is believed also when this program has no channel any more:
  the run reports an import, and changes nothing.
\<close>

lemma believed_record:
  assumes "legacy_load base64_decode unprotect folder = Inr snapshot" "legacy_channel snapshot = LegacyReadable c"
    and "read_marker st" "\<not> load_stops io" "\<not> read_stops io"
  shows "apply_import ops io (legacy_load base64_decode unprotect folder) st
      = (Inr (describe_import snapshot Imported), st\<lparr>import_last := Some (describe_import snapshot Imported)\<rparr>)"
  using assms by (simp add: apply_import_def off_thread_def import_outcome_def publish_report_def Let_def)

text \<open>
  Without a data directory nothing is recorded, not even in memory: the run after an import says that
  this program already had its own channel.
\<close>

lemma unrecorded_import:
  assumes "take_channel ops io c st = (Inr (), st1)" "\<not> import_has_marker st"
  shows "\<not> read_marker st1"
  using assms
  by (cases "store_channel ops (store_io io) c (import_store st)")
    (auto simp: take_channel_def write_marker_def read_marker_def split: sum.splits if_splits)

end
