(* ===== verification/Application_Witnesses.thy ===== *)
theory Application_Witnesses
  imports Server_Witnesses Sharing_Selection Troubleshooting Queue_Installation Test_Print Discovery_Cache
    Task_Definition Legacy_Import
begin

text \<open>
  Concrete runs of the properties of the use cases that have hypotheses. The installation is that of
  the other witnesses: the printer \<open>Office\<close> of the server \<open>srv:631\<close>.
\<close>

section \<open>Discovery\<close>

definition example_nearby :: NearbyServer where
  "example_nearby = \<lparr>nearby_name = lit ''Hall'', nearby_address = example_address, nearby_printers = [], nearby_version = None\<rparr>"


section \<open>Sharing\<close>

definition example_selection :: Sharing where
  "example_selection = with_persistence True FileMissing"

definition example_office :: PrinterName where "example_office = PrinterName example_printer"

lemma example_office_name: "wf_name (PrinterName_as_str example_office)"
  using example_name
  by (simp add: example_office_def PrinterName_parse_Inr_iff) (simp add: example_printer_def eval_str)

lemma persist_saved: "\<exists>sh'. persist_sharing Saved sh = (Inr (), sh')"
  by (simp add: persist_sharing_def save_value_def Let_def)

lemma set_shared_saved:
  assumes "set names \<subseteq> set queues"
  shows "\<exists>listed sh'. set_shared (Inr queues) Saved (Inr queues2) names sh = (Inr listed, sh')"
proof -
  have "List.find (\<lambda>name. name \<notin> set queues) names = None" using assms by (auto simp: find_None_iff)
  moreover obtain sh' where "persist_sharing Saved (publish_selection (SharedPrinters_new names)
      (sh\<lparr>sharing_selection := SharedPrinters_new names\<rparr>)) = (Inr (), sh')" using persist_saved by blast
  ultimately show ?thesis by (simp add: set_shared_def list_local_printers_def Let_def)
qed

theorem sharing_survives_restart_witness:
  "\<exists>sh1 sh2 listed. set_shared (Inr [example_office]) Saved (Inr [example_office]) [example_office, example_office]
        example_selection = (Inr listed, sh1)
     \<and> set_sharing_enabled Saved True sh1 = (Inr (), sh2)
     \<and> with_persistence True (sharing_file sh2) = sh2
     \<and> SharedPrinters_as_slice (sharing_selection sh2) = [example_office]"
proof -
  have inv: "sharing_inv example_selection" and has_file: "sharing_has_file example_selection"
    by (simp_all add: example_selection_def with_persistence_inv) (simp add: with_persistence_def)
  obtain listed sh1 where one: "set_shared (Inr [example_office]) Saved (Inr [example_office])
      [example_office, example_office] example_selection = (Inr listed, sh1)"
    using set_shared_saved [of "[example_office, example_office]" "[example_office]" "[example_office]" example_selection]
    by auto
  obtain sh2 where two: "set_sharing_enabled Saved True sh1 = (Inr (), sh2)"
    using persist_saved by (auto simp: set_sharing_enabled_def)
  have "\<forall>p \<in> set [example_office, example_office]. wf_name (PrinterName_as_str p)"
    using example_office_name by simp
  from sharing_survives_restart [OF inv this has_file one two] one two show ?thesis by auto
qed

definition example_usb :: SpoolerRecord where
  "example_usb = \<lparr>record_name = example_printer, record_port = lit ''USB001''\<rparr>"

lemma example_usb_local: "classify (\<lambda>_. []) example_usb example_authority = EligibleLocal example_office"
proof -
  have "trim example_printer = example_printer" "trim (lit ''USB001'') = lit ''USB001''"
    by (simp_all add: example_printer_def eval_str)
  moreover have "scheme_rest (lit ''USB001'') = None" by (simp add: scheme_rest_def eval_str)
  moreover have "classify_wsd example_printer (lit ''USB001'') = None" by (simp add: classify_wsd_def eval_str)
  moreover have "\<not> str_contains (to_ascii_lowercase (lit ''USB001'')) (to_ascii_lowercase example_authority)"
    "\<not> str_contains (to_ascii_lowercase (lit ''USB001'')) (lit ''/ipp/print/'')"
    by (simp_all add: example_authority_def str_contains_def eval_str)
  ultimately show ?thesis
    by (simp add: classify_def example_usb_def classify_endpoint_def classify_other_def is_loopback_port_def
        example_name example_office_def Let_def)
qed


section \<open>The login choice\<close>

definition example_windows :: Windows where
  "example_windows =
     \<lparr>win_task = None, win_run = RunAbsent, win_query_fails = None, win_create_fails = None,
      win_delete_fails = False, win_run_locked = False\<rparr>"

definition example_login :: "Windows LoginState" where
  "example_login = \<lparr>login_reg = example_windows, login_has_file = True, login_file = FileMissing\<rparr>"


section \<open>The import\<close>

definition example_import :: "(NetworkChannel \<times> ChannelDisk) ImportState" where
  "example_import =
     \<lparr>import_store = (example_network_channel, example_channel_disk), import_has_marker = True,
      import_marker = FileMissing, import_last = None\<rparr>"

definition example_import_io :: "(ChannelIo \<times> bytes option) ImportIo" where
  "example_import_io =
     \<lparr>load_stops = False, read_stops = False, write_stops = False, marker_save = Saved,
      store_io = (example_channel_io, Some example_salt)\<rparr>"

definition example_folder :: LegacyFolder where
  "example_folder =
     \<lparr>legacy_settings = FileHolds (lit ''AAAA''), legacy_client_queues = FileHolds 1,
      legacy_server_queues = FileMissing\<rparr>"

abbreviation example_source :: "AppError + LegacySnapshot" where
  "example_source \<equiv> legacy_load (\<lambda>_. Some [1]) (\<lambda>_. Some (as_bytes example_channel)) example_folder"

lemma example_channel_utf8: "from_utf8 (as_bytes example_channel) = Some example_channel"
  by (rule from_utf8_as_bytes) (simp add: example_channel_def is_scalar_def)

lemma example_channel_trim: "trim example_channel = example_channel"
  by (simp add: example_channel_def eval_str)

lemma example_source_eq: "example_source = Inr
    \<lparr>has_settings = True, legacy_channel = LegacyReadable example_channel, has_client_queues = True,
     has_shared_queues = False\<rparr>"
  by (simp add: legacy_load_def example_folder_def read_channel_def open_legacy_secret_def
      classify_legacy_channel_def example_channel_utf8 example_channel_trim LEGACY_PLACEHOLDER_CHANNEL_def
      eval_str)
    (simp add: example_channel_def eval_str)

lemma example_imported: "\<exists>report st. apply_import (network_channel_store example_sha example_hex) example_import_io
    example_source example_import = (Inr report, st) \<and> report_channel report = Imported"
  unfolding example_source_eq
  by (simp add: apply_import_def off_thread_def example_import_io_def read_marker_def example_import_def
      import_outcome_def channel_is_configured_def example_network_channel_def take_channel_def
      network_channel_store_def configure_def protect_secret_def example_channel_def example_channel_io_def
      persist_credential_def persist_verifier_def publish_report_def describe_import_def Let_def)

theorem import_never_replaces_witness:
  "\<exists>report st. apply_import (network_channel_store example_sha example_hex) example_import_io
      example_source example_import = (Inr report, st)
    \<and> client_credential (fst (import_store st)) = Some example_channel"
proof -
  obtain report st where r: "apply_import (network_channel_store example_sha example_hex) example_import_io
    example_source example_import = (Inr report, st)" "report_channel report = Imported"
    using example_imported by blast
  have "\<not> channel_is_configured (fst (import_store example_import))" "\<not> read_marker example_import"
    by (simp_all add: example_import_def channel_is_configured_def example_network_channel_def read_marker_def)
  with import_never_replaces [OF r(1)] r(2) have "\<exists>secret. from_utf8 (as_bytes example_channel) = Some secret
      \<and> client_credential (fst (import_store st)) = Some (trim secret)" by auto
  then show ?thesis using r(1) by (simp add: example_channel_utf8 example_channel_trim)
qed

theorem import_as_announced_witness:
  "\<exists>report st. apply_import (network_channel_store example_sha example_hex) example_import_io
      example_source example_import = (Inr report, st)
    \<and> import_last st = Some report \<and> channel_is_configured (fst (import_store st))"
proof -
  obtain report st where r: "apply_import (network_channel_store example_sha example_hex) example_import_io
    example_source example_import = (Inr report, st)" "report_channel report = Imported"
    using example_imported by blast
  obtain expected where i: "inspect_import (network_channel_store example_sha example_hex) example_source
      example_import = Inr expected" "report_channel expected = Importable"
    unfolding example_source_eq
    by (simp add: inspect_import_def import_outcome_def read_marker_def example_import_def
        channel_is_configured_def example_network_channel_def describe_import_def)
  from import_as_announced [OF i(1) r(1)] i(2) r(1) show ?thesis by auto
qed

section \<open>Installing the queue\<close>

definition example_listing :: bytes where
  "example_listing = [2, 0, 0, 0, 0, 0, 0, 1] @ 0x04
     # write_text TAG_NAME (lit ''printer-name'') example_printer @ [0x03]"

lemma example_listing_parsed: "parse_printers example_listing = Inr [example_printer]"
proof -
  have "printer_loop (0x04 # write_text TAG_NAME (lit ''printer-name'') example_printer @ [0x03]) False []
      = Inr [example_printer]"
    using printer_loop_name [OF example_wf(2), of "[0x03]" "[]"]
    by (simp add: printer_loop.simps(2) is_delimiter_def example_printer_def as_bytes_def utf8_char_def)
  then show ?thesis by (simp add: parse_printers_def example_listing_def from_be16_def)
qed

lemma example_listing_short: "length example_listing \<le> MAX_RESPONSE"
  by (simp add: example_listing_def write_text_def write_name_and_value_raw put_raw_def MAX_RESPONSE_def
      example_printer_def as_bytes_def utf8_char_def to_be16_def)

definition example_reply :: bytes where
  "example_reply = write_response (lit ''200 OK'') IPP_CONTENT_TYPE example_listing"

definition example_sharing_net :: network where
  "example_sharing_net a = (if a = example_host then Connected [1] (\<lambda>_. Reply example_reply) else TcpRefused)"

definition example_broker :: "unit ElevationBroker" where
  "example_broker =
     \<lparr>broker_inbound = (\<lambda>b. (Inr True, b)), broker_elevate = (\<lambda>_ b. (Inr (), b)),
      broker_install = (\<lambda>_ b. (Inr (), b)), broker_repair = (\<lambda>_ b. (Inr (), b))\<rparr>"

definition example_status :: RuntimeStatus where
  "example_status = RuntimeStatus
     [\<lparr>status_id = ClientProxy, status_state = Running, status_detail = []\<rparr>]"

definition example_context :: InstallContext where
  "example_context =
     \<lparr>installer_available = True, installer_authority = example_authority,
      install_runtime = example_status, install_channel = True\<rparr>"

lemma example_status_proxy: "runtime_service example_status ClientProxy
    = Some \<lparr>status_id = ClientProxy, status_state = Running, status_detail = []\<rparr>"
  by (simp add: runtime_service_def example_status_def)

lemma example_query: "\<exists>w. query_printers example_host (\<lambda>_. Reply example_reply) = (Inr [example_printer], w)"
proof -
  obtain n where "head_end (take (MAX_RESPONSE + 8192) example_reply) = Some n"
    "bytes_start_with (take n (take (MAX_RESPONSE + 8192) example_reply)) (ascii ''HTTP/1.1 200'')"
    "drop n (take (MAX_RESPONSE + 8192) example_reply) = example_listing"
    using answer_read [OF example_listing_short] unfolding example_reply_def by blast
  then show ?thesis by (simp only: query_printers_def Let_def Exchange.case and_then.simps ok_or_simps
        example_listing_parsed if_False not_not simp_thms) blast
qed

lemma example_install: "\<exists>st'. install_queue example_sha example_sharing_net example_context example_broker
    example_address example_printer (example_store [(example_address, example_pin)]) ()
  = (Inr \<lparr>queue_request = example_request, queue_destination = example_uri\<rparr>, st', ())"
proof -
  obtain w where w: "query_printers example_host (\<lambda>_. Reply example_reply) = (Inr [example_printer], w)"
    using example_query by blast
  have "fingerprint example_sha [1] = example_pin" by (simp add: example_pin_def)
  then have "printers example_sha example_sharing_net example_address (example_store [(example_address, example_pin)])
      = (Inr \<lparr>printers_address = example_address, printer_names = [example_printer]\<rparr>,
         example_store [(example_address, example_pin)], w)"
    by (simp add: printers_def example_parse example_normalized refresh_store_readable example_saved
        connect_def example_sharing_net_def w)
      (simp add: example_store_def)
  then have "trusted_server_printers example_sha example_sharing_net example_address
        (example_store [(example_address, example_pin)])
      = (Inr \<lparr>trusted_address = example_address, trusted_printers = [PrinterName example_printer]\<rparr>,
         example_store [(example_address, example_pin)], w)"
    by (simp add: trusted_server_printers_def example_name)
  then show ?thesis
    by (simp add: install_queue_def request_for_def example_context_def example_status_def proxy_is_running_def
        example_name example_queue example_queue_uri setup_install_queue_def example_broker_def)
qed

theorem installed_queue_reaches_trusted_witness:
  "\<exists>st'. install_queue example_sha example_sharing_net example_context example_broker example_address
      example_printer (example_store [(example_address, example_pin)]) ()
    = (Inr \<lparr>queue_request = example_request, queue_destination = example_uri\<rparr>, st', ())
    \<and> route_uri example_uri example_authority = Inr (example_address, PrinterName example_printer)"
proof -
  obtain st' where i: "install_queue example_sha example_sharing_net example_context example_broker
      example_address example_printer (example_store [(example_address, example_pin)]) ()
    = (Inr \<lparr>queue_request = example_request, queue_destination = example_uri\<rparr>, st', ())"
    using example_install by blast
  have c: "installer_authority example_context = lit ''127.0.0.1:'' @ show_nat 48632"
    by (simp add: example_context_def example_authority_def)
  have "trim example_address = example_address" by (simp add: example_address_def eval_str)
  moreover have "(48632 :: nat) \<le> 65535" by simp
  moreover note example_wf(2)
  moreover have "wf_ustr (request_server_address example_request)"
    "normalize_address (request_server_address example_request) = Inr (request_server_address example_request)"
    using example_wf example_canonical by simp_all
  ultimately show ?thesis
    using installed_queue_reaches_trusted [OF i c] i example_parse example_name example_normalized
    by (fastforce simp: example_context_def)
qed

section \<open>The test page\<close>

definition example_client_queue :: RecognisedClientQueue where
  "example_client_queue = recognised_target example_request"

definition example_observed :: Observations where
  "example_observed =
     \<lparr>seen_queue = Some (Inr (LocalQueueInspection.Matching (Some 0))), seen_pending = None,
      seen_servers = Some (Some (Inr (Reachable ServerIdentityInspection.Matching (Some True)))),
      seen_channel = Some True, seen_rejected = None\<rparr>"

definition example_answers :: TestAnswers where
  "example_answers =
     \<lparr>runtime_then = example_status, seen_then = example_observed, runtime_now = example_status,
      seen_now = example_observed, answered_media = Some (hd MEDIA_CATALOG)\<rparr>"

lemma example_answers_eligible:
  "is_repair_eligible (refresh_live_prerequisites example_status example_observed
     (inspect_queue example_status example_observed example_client_queue))"
  by (simp add: healthy_queue_refreshed queue_healthy_def server_healthy_def channel_healthy_def
      proxy_running_def example_observed_def example_status_proxy)

definition example_page :: MediaSpec where "example_page = hd MEDIA_CATALOG"

definition example_diagnostics :: TroubleshootingSnapshot where
  "example_diagnostics = refresh_live_prerequisites example_status example_observed
     (inspect_queue example_status example_observed example_client_queue)"

definition example_session :: "bool \<Rightarrow> nat \<Rightarrow> SubmissionOutcome \<Rightarrow> TestPrintSnapshot" where
  "example_session ready run_no submission = (new_session 1 example_client_queue True)
     \<lparr>session_diagnostics := example_diagnostics, requested_media := Some example_page,
      session_ready := ready, session_run := run_no, session_submission := submission\<rparr>"

definition example_sending :: TestRun where
  "example_sending =
     \<lparr>run_state = \<lparr>has_native = True, current_session = Some (example_session False 2 Checking), next_session = 2,
        submitting = True, native_submissions = []\<rparr>,
      run_pending = [SendInspecting 1 2 example_client_queue (Some example_page)]\<rparr>"

lemma example_inspected: "inspect_session g example_answers example_client_queue
    = (example_diagnostics, if has_native g then Some example_page else None)"
  by (simp add: inspect_session_def example_answers_def example_diagnostics_def example_page_def)

lemma example_diagnostics_target: "snapshot_target example_diagnostics = example_client_queue"
  by (simp add: example_diagnostics_def refresh_live_prerequisites_def inspect_queue_def Let_def)

lemma example_sending_reachable: "test_reachable True example_sending"
proof -
  let ?r1 = "\<lparr>run_state = \<lparr>has_native = True,
      current_session = Some (new_session 1 example_client_queue True \<lparr>session_run := 1\<rparr>), next_session = 2,
      submitting = False, native_submissions = []\<rparr>,
      run_pending = [RefreshInspecting 1 1 example_client_queue]\<rparr>"
  let ?r2 = "\<lparr>run_state = \<lparr>has_native = True, current_session = Some (example_session True 1 NotSent), next_session = 2,
        submitting = False, native_submissions = []\<rparr>, run_pending = []\<rparr>"
  have "test_event (Open example_client_queue) \<lparr>run_state = GuidedTestPrint_new True, run_pending = []\<rparr> = Some ?r1"
    by (simp add: open_session_def refresh_begin_def GuidedTestPrint_new_def new_session_def test_settle_def Let_def)
  with test_initial have "test_reachable True ?r1" by (rule test_step)
  moreover have "test_event (Inspected 0 example_answers) ?r1 = Some ?r2"
    by (simp add: refresh_end_def example_inspected others_def test_settle_def example_session_def
        new_session_def Let_def)
  ultimately have "test_reachable True ?r2" by (rule test_step)
  moreover have "test_event (Send 1) ?r2 = Some example_sending"
    using example_answers_eligible
    by (simp add: send_begin_def example_session_def new_session_def can_send_def example_diagnostics_target
        test_settle_def example_sending_def flip: example_diagnostics_def)
  ultimately show ?thesis by (rule test_step)
qed

theorem test_page_only_on_healthy_queue_witness:
  "\<exists>r. test_event (Inspected 0 example_answers) example_sending = Some r
    \<and> native_submissions (run_state r)
        = [\<lparr>submitted_target = example_client_queue, submitted_media = example_page, submission_running = True\<rparr>]
    \<and> running_workers (run_state r) = 1"
proof -
  obtain r where r: "test_event (Inspected 0 example_answers) example_sending = Some r"
    "length (native_submissions (run_state r)) > length (native_submissions (run_state example_sending))"
    using example_answers_eligible
    by (simp add: example_sending_def send_inspected_def example_inspected example_session_def new_session_def
        test_settle_def Let_def flip: example_diagnostics_def)
  from test_page_only_on_healthy_queue [OF example_sending_reachable r] r(1) show ?thesis
    by (auto simp: example_sending_def)
qed

end
