(* ===== verification/Mdns_Discovery.thy ===== *)
theory Mdns_Discovery
  imports Mdns_Roundtrip Discovery_Cache Rust_Net
begin

text \<open>
  \<open>adapters/discovery/mod.rs\<close>, \<open>advertise.rs\<close> and \<open>browse.rs\<close>: what a server tells the network, to
  whom, and what a browser makes of it. A socket is what it does with the datagrams handed to it: a
  function says which of them it takes. The tasks that wait for datagrams and ticks call the operations
  here; the binding of the port is not modelled.
\<close>

section \<open>Datagrams\<close>

record SocketAddr =
  sock_ip :: "nat list"
  sock_port :: u16

record Datagram =
  gram_via :: "nat list option"
  gram_to :: SocketAddr
  gram_packet :: bytes

type_synonym socket = "nat list option \<Rightarrow> SocketAddr \<Rightarrow> bool"

definition MDNS_GROUP :: "nat list" where "MDNS_GROUP = [224, 0, 0, 251]"
definition DISCOVERY_PORT :: u16 where "DISCOVERY_PORT = 48633"
definition PATH_PROPERTY :: ustr where "PATH_PROPERTY = lit ''rp''"
definition NAME_PROPERTY :: ustr where "NAME_PROPERTY = lit ''name''"
definition QUEUE_PROPERTY :: ustr where "QUEUE_PROPERTY = lit ''queue''"
definition VERSION_PROPERTY :: ustr where "VERSION_PROPERTY = lit ''v''"
definition RESOURCE_PATH :: ustr where "RESOURCE_PATH = lit ''ipp/print''"

definition is_multicast :: "nat list \<Rightarrow> bool" where
  "is_multicast ip \<longleftrightarrow> (case ip of a # _ \<Rightarrow> 224 \<le> a \<and> a \<le> 239 | [] \<Rightarrow> False)"

definition active_ipv4_interfaces :: "nat list list \<Rightarrow> nat list list" where
  "active_ipv4_interfaces addresses =
     remdups_adj (sort (filter (\<lambda>a. \<not> (case a of b # _ \<Rightarrow> b = 127 | [] \<Rightarrow> False) \<and> a \<noteq> [0, 0, 0, 0]) addresses))"

definition send_each :: "socket \<Rightarrow> Datagram list \<Rightarrow> Datagram list" where
  "send_each sock ds = filter (\<lambda>d. sock (gram_via d) (gram_to d)) ds"

definition send_multicast_on_interfaces ::
  "socket \<Rightarrow> nat list list \<Rightarrow> bytes \<Rightarrow> SocketAddr list \<Rightarrow> ustr \<Rightarrow> (AppError + unit) \<times> Datagram list" where
  "send_multicast_on_interfaces sock interfaces packet destinations what =
     (let attempts = concat (map (\<lambda>interface. map (\<lambda>destination.
            \<lparr>gram_via = Some interface, gram_to = destination, gram_packet = packet\<rparr>) destinations)
            (active_ipv4_interfaces interfaces));
          sent = send_each sock attempts;
          failures = length attempts - length sent
      in (if failures = 0 then Inr ()
          else Inl (internal_error (lit ''the discovery '' @ what @ lit '' failed on '' @ show_nat failures
                 @ lit '' interface send(s)'')), sent))"

definition send_to_all ::
  "socket \<Rightarrow> bytes \<Rightarrow> SocketAddr list \<Rightarrow> ustr \<Rightarrow> (AppError + unit) \<times> Datagram list" where
  "send_to_all sock packet destinations what =
     (let attempts = map (\<lambda>d. \<lparr>gram_via = None, gram_to = d, gram_packet = packet\<rparr>) destinations;
          sent = send_each sock attempts
      in (if length sent = length attempts then Inr ()
          else Inl (internal_error (lit ''the discovery '' @ what @ lit '' could not be sent on this network'')),
          sent))"

section \<open>The advertisement\<close>

definition ADVERTISED_TTL :: Duration where
  "ADVERTISED_TTL = \<lparr>as_secs = 120, subsec_nanos = 0\<rparr>"

definition ZERO_TTL :: Duration where
  "ZERO_TTL = \<lparr>as_secs = 0, subsec_nanos = 0\<rparr>"

definition MAX_ADVERTISED_PRINTERS :: nat where "MAX_ADVERTISED_PRINTERS = 48"
definition MAX_PACKET :: nat where "MAX_PACKET = 1400"
definition MAX_REMEMBERED_QUERIERS :: nat where "MAX_REMEMBERED_QUERIERS = 32"

text \<open>The version of the package, from its manifest.\<close>

definition PKG_VERSION :: ustr where "PKG_VERSION = lit ''3.4.5''"

record Advertised =
  adv_label :: ustr
  adv_target :: ustr
  adv_port :: u16
  adv_printers :: "PrinterName list"

definition Advertised_new :: "ustr \<Rightarrow> u16 \<Rightarrow> PrinterName list \<Rightarrow> Advertised" where
  "Advertised_new label port printers =
     \<lparr>adv_label = label, adv_target = label @ lit ''.local.'', adv_port = port, adv_printers = printers\<rparr>"

definition adv_properties :: "ustr \<Rightarrow> PrinterName list \<Rightarrow> (ustr \<times> ustr) list" where
  "adv_properties label printers =
     [(PATH_PROPERTY, RESOURCE_PATH), (NAME_PROPERTY, label), (VERSION_PROPERTY, PKG_VERSION)]
     @ map (\<lambda>p. (QUEUE_PROPERTY, PrinterName_as_str p)) printers"

text \<open>The loop drops the last printer until the packet fits.\<close>

function adv_trim :: "Advertised \<Rightarrow> Duration \<Rightarrow> PrinterName list \<Rightarrow> AppError + bytes" where
  "adv_trim adv ttl printers =
     and_then (encode_announcement (adv_label adv) (adv_target adv) (adv_port adv)
        (adv_properties (adv_label adv) printers) ttl) (\<lambda>packet.
     if length packet \<le> MAX_PACKET \<or> printers = [] then Inr packet
     else adv_trim adv ttl (butlast printers))"
  by pat_completeness auto
termination
  by (relation "measure (\<lambda>(adv, ttl, printers). length printers)") auto

declare adv_trim.simps [simp del]

definition adv_encode :: "Advertised \<Rightarrow> Duration \<Rightarrow> AppError + bytes" where
  "adv_encode adv ttl = adv_trim adv ttl (take MAX_ADVERTISED_PRINTERS (adv_printers adv))"

definition usable_label :: "ustr \<Rightarrow> ustr" where
  "usable_label name =
     (let cleaned = map (\<lambda>c. if is_ascii_alphanumeric c \<or> c = 45 \<or> c = 95 \<or> c = 32 then c else 45) name;
          cleaned = trim cleaned
      in if cleaned = [] then lit ''ShaPrint server'' else take 63 cleaned)"

text \<open>\<open>env\<close> is what the two variables hold, in the order in which they are asked.\<close>

definition server_label :: "ustr option \<Rightarrow> ustr option \<Rightarrow> ustr" where
  "server_label computername hostname =
     usable_label (case computername of Some n \<Rightarrow> n
       | None \<Rightarrow> (case hostname of Some n \<Rightarrow> n | None \<Rightarrow> []))"

section \<open>A live advertisement\<close>

record Advertisement =
  advertised :: Advertised
  queriers :: "SocketAddr list"
  adv_ttl :: Duration
  adv_stopped :: bool
  adv_interfaces :: "nat list list"
  adv_bound :: u16

definition announce ::
  "socket \<Rightarrow> Duration \<Rightarrow> ustr \<Rightarrow> Advertisement \<Rightarrow> (AppError + unit) \<times> Datagram list" where
  "announce sock ttl what st =
     (case adv_encode (advertised st) ttl of
        Inl e \<Rightarrow> (Inl e, [])
      | Inr packet \<Rightarrow>
          let (multicast, sent1) = send_multicast_on_interfaces sock (adv_interfaces st) packet
                [\<lparr>sock_ip = MDNS_GROUP, sock_port = adv_bound st\<rparr>] what;
              (direct, sent2) = send_to_all sock packet (queriers st) what;
              failures = (if is_ok multicast then 0 else 1) + (if is_ok direct then 0 else 1)
          in (if failures = 0 then Inr ()
              else Inl (internal_error (lit ''the discovery '' @ what @ lit '' had '' @ show_nat failures
                     @ lit '' independent send failure(s)'')), sent1 @ sent2))"

definition advertise ::
  "socket \<Rightarrow> ustr \<Rightarrow> Duration \<Rightarrow> nat list list \<Rightarrow> u16 \<Rightarrow> u16 \<Rightarrow> PrinterName list \<Rightarrow> Advertisement \<times> Datagram list" where
  "advertise sock label ttl interfaces bound port printers =
     (let st = \<lparr>advertised = Advertised_new label port printers, queriers = [], adv_ttl = ttl, adv_stopped = False, adv_interfaces = interfaces,
               adv_bound = bound\<rparr>
      in (st, snd (announce sock ttl (lit ''announcement'') st)))"

definition replace_printers ::
  "socket \<Rightarrow> PrinterName list \<Rightarrow> Advertisement \<Rightarrow> (AppError + unit) \<times> Advertisement \<times> Datagram list" where
  "replace_printers sock printers st =
     (let st = st\<lparr>advertised := (advertised st)\<lparr>adv_printers := printers\<rparr>\<rparr>;
          (res, sent) = (if printers = [] then announce sock ZERO_TTL (lit ''withdrawal'') st
                         else announce sock (adv_ttl st) (lit ''announcement'') st)
      in (res, st, sent))"

definition withdraw ::
  "socket \<Rightarrow> Advertisement \<Rightarrow> (AppError + unit) \<times> Advertisement \<times> Datagram list" where
  "withdraw sock st =
     (let st = st\<lparr>advertised := (advertised st)\<lparr>adv_printers := []\<rparr>\<rparr>;
          (res, sent) = announce sock ZERO_TTL (lit ''withdrawal'') st
      in (res, st\<lparr>adv_stopped := True\<rparr>, sent))"

definition remember :: "SocketAddr \<Rightarrow> Advertisement \<Rightarrow> Advertisement" where
  "remember from_addr st =
     st\<lparr>queriers := take MAX_REMEMBERED_QUERIERS (from_addr # filter (\<lambda>q. q \<noteq> from_addr) (queriers st))\<rparr>"

definition adv_answer ::
  "socket \<Rightarrow> bytes \<Rightarrow> SocketAddr \<Rightarrow> Advertisement \<Rightarrow> Advertisement \<times> Datagram list" where
  "adv_answer sock packet from_addr st =
     (case Message_parse packet of
        Inl _ \<Rightarrow> (st, [])
      | Inr message \<Rightarrow>
          let asked = filter (\<lambda>q. queries_service q SERVICE_TYPE) (queries message) in
          if asked = [] then (st, [])
          else
            let st = remember from_addr st in
            if adv_printers (advertised st) = [] then (st, [])
            else
              (case adv_encode (advertised st) (adv_ttl st) of
                 Inl _ \<Rightarrow> (st, [])
               | Inr reply \<Rightarrow>
                   if list_ex unicast_response asked
                   then (st, send_each sock [\<lparr>gram_via = None, gram_to = from_addr, gram_packet = reply\<rparr>])
                   else (st, snd (send_multicast_on_interfaces sock (adv_interfaces st) reply
                           [\<lparr>sock_ip = MDNS_GROUP, sock_port = adv_bound st\<rparr>] (lit ''answer'')))))"

section \<open>Browsing\<close>

definition browse_query ::
  "socket \<Rightarrow> nat list list \<Rightarrow> SocketAddr list \<Rightarrow> (AppError + unit) \<times> Datagram list" where
  "browse_query sock interfaces targets =
     (case encode_query SERVICE_TYPE of
        Inl e \<Rightarrow> (Inl e, [])
      | Inr packet \<Rightarrow>
          let multicast_targets = filter (\<lambda>t. is_multicast (sock_ip t)) targets;
              direct_targets = filter (\<lambda>t. \<not> is_multicast (sock_ip t)) targets;
              (multicast, sent1) = (if multicast_targets = [] then (Inr (), [])
                 else send_multicast_on_interfaces sock interfaces packet multicast_targets (lit ''query''));
              (direct, sent2) = (if direct_targets = [] then (Inr (), [])
                 else send_to_all sock packet direct_targets (lit ''query''));
              failures = (if is_ok multicast then 0 else 1) + (if is_ok direct then 0 else 1)
          in (if failures = 0 then Inr ()
              else Inl (internal_error (lit ''the discovery query had '' @ show_nat failures
                     @ lit '' independent send failure(s)'')), sent1 @ sent2))"

definition endpoint_address :: "ServiceInstance \<Rightarrow> SocketAddr \<Rightarrow> ustr option" where
  "endpoint_address service from_addr =
     (if svc_port service = 0 then None
      else Some (show_ipv4 (sock_ip from_addr) @ [58] @ show_nat (unat (svc_port service))))"

definition instance_label :: "ustr \<Rightarrow> ustr" where
  "instance_label inst = hd (split_char 46 inst)"

fun browse_properties ::
  "(ustr \<times> ustr) list \<Rightarrow> ustr option \<Rightarrow> ustr option \<Rightarrow> PrinterName list
    \<Rightarrow> ustr option \<times> ustr option \<times> PrinterName list" where
  "browse_properties [] label version printers = (label, version, printers)"
| "browse_properties ((key, value) # ps) label version printers =
     (if key = NAME_PROPERTY \<and> label = None then browse_properties ps (Some value) version printers
      else if key = VERSION_PROPERTY \<and> version = None then browse_properties ps label (Some value) printers
      else if key = QUEUE_PROPERTY then
        (case PrinterName_parse value of
           Inr name \<Rightarrow> browse_properties ps label version
              (if name \<in> set printers then printers else printers @ [name])
         | Inl _ \<Rightarrow> browse_properties ps label version printers)
      else browse_properties ps label version printers)"

definition browsed_server :: "ServiceInstance \<Rightarrow> ustr \<Rightarrow> NearbyServer option" where
  "browsed_server service address =
     (case browse_properties (svc_properties service) None None [] of
        (label, version, printers) \<Rightarrow>
          ok (NearbyServer_with_version
            (case label of Some l \<Rightarrow> l | None \<Rightarrow> instance_label (svc_instance service)) address printers version))"

definition duration_nanos :: "Duration \<Rightarrow> nat" where
  "duration_nanos d = as_secs d * 1000000000 + subsec_nanos d"

definition report_service :: "nat \<Rightarrow> SocketAddr \<Rightarrow> ServiceInstance \<Rightarrow> Heard option" where
  "report_service now from_addr service =
     (case endpoint_address service from_addr of
        None \<Rightarrow> None
      | Some address \<Rightarrow>
          if duration_nanos (svc_ttl service) = 0 then Some (HeardWithdrawn now address)
          else map_option (\<lambda>server. HeardAdvertised now server (duration_nanos (svc_ttl service)))
                 (browsed_server service address))"

definition report_packet :: "nat \<Rightarrow> bytes \<Rightarrow> SocketAddr \<Rightarrow> Heard list" where
  "report_packet now packet from_addr =
     (case Message_parse packet of
        Inl _ \<Rightarrow> []
      | Inr message \<Rightarrow> List.map_filter (report_service now from_addr) (services message))"

end
