(* ===== verification/Discovery_Flow.thy ===== *)
theory Discovery_Flow
  imports Mdns_Discovery Http_Exchange
begin

text \<open>
  What the discovery adapters promise together: an advertisement fits in a datagram whatever is shared, a
  browser that asks lists the server that answers, and a server that stops is forgotten by the browsers
  it answered.
\<close>

section \<open>Labels\<close>

definition discovery_char :: "uchar \<Rightarrow> bool" where
  "discovery_char c \<longleftrightarrow> is_ascii_alphanumeric c \<or> c = 45 \<or> c = 95 \<or> c = 32"

lemma discovery_char_range: "discovery_char c \<Longrightarrow> 32 \<le> c \<and> c < 123 \<and> c \<noteq> 46 \<and> c \<noteq> 61 \<and> \<not> is_control c"
  by (auto simp: discovery_char_def is_ascii_alphanumeric_def is_ascii_digit_def is_control_def)

lemma discovery_char_space: "discovery_char c \<Longrightarrow> is_whitespace c \<longleftrightarrow> c = 32"
  by (auto simp: discovery_char_def is_ascii_alphanumeric_def is_ascii_digit_def is_whitespace_def)

text \<open>What every label the server gives itself satisfies.\<close>

definition wf_label :: "ustr \<Rightarrow> bool" where
  "wf_label l \<longleftrightarrow> l \<noteq> [] \<and> length l \<le> 63 \<and> list_all discovery_char l \<and> hd l \<noteq> 32"

lemma usable_label_wf: "wf_label (usable_label name)"
proof -
  let ?clean = "map (\<lambda>c. if is_ascii_alphanumeric c \<or> c = 45 \<or> c = 95 \<or> c = 32 then c else 45) name"
  have "list_all discovery_char ?clean" by (auto simp: list_all_iff discovery_char_def)
  then have chars: "list_all discovery_char (trim ?clean)"
    using set_trim_by [of is_whitespace ?clean] by (auto simp: list_all_iff)
  show ?thesis
  proof (cases "trim ?clean = []")
    case True
    then show ?thesis
      by (simp add: usable_label_def wf_label_def discovery_char_def is_ascii_alphanumeric_def is_ascii_digit_def)
  next
    case False
    then have "\<not> is_whitespace (hd (trim ?clean))" using trim_ends [of is_whitespace ?clean] by blast
    then have "hd (trim ?clean) \<noteq> 32" by (auto simp: is_whitespace_def)
    with False chars show ?thesis
      by (auto simp: usable_label_def wf_label_def Let_def list_all_iff hd_take dest: in_set_takeD)
  qed
qed

lemma wf_label_trim:
  assumes "wf_label l"
  shows "trim l \<noteq> [] \<and> length (trim l) \<le> 63 \<and> list_all discovery_char (trim l)"
proof -
  from assms have l: "l \<noteq> []" "length l \<le> 63" "list_all discovery_char l" "\<not> is_whitespace (hd l)"
    by (cases l; simp add: wf_label_def discovery_char_space)+
  then have d: "dropWhile is_whitespace l = l" by (cases l) auto
  have "trim_end_by is_whitespace l \<noteq> []" using l(1,4) by (cases l) (auto simp: trim_end_by_def)
  with l d show ?thesis
    using set_trim_by [of is_whitespace l] length_trim_by [of is_whitespace l]
    by (auto simp: trim_by_def list_all_iff)
qed


section \<open>What the encoder accepts\<close>

lemma push_labels_OK:
  "\<forall>l \<in> set ls. str_len l \<le> MAX_LABEL \<Longrightarrow> push_labels name out w ls
    = Inr (out @ concat (map label_bytes (filter (\<lambda>l. l \<noteq> []) ls)), w \<or> filter (\<lambda>l. l \<noteq> []) ls \<noteq> [])"
  by (induction name out w ls rule: push_labels.induct) (auto simp: label_bytes_def)

lemma push_name_OK:
  assumes "dns_labels name \<noteq> []" "\<forall>l \<in> set (dns_labels name). str_len l \<le> MAX_LABEL"
  shows "push_name out name = Inr (out @ name_bytes name)"
proof -
  have "\<forall>l \<in> set (split_char 46 name). str_len l \<le> MAX_LABEL"
    using assms(2) by (auto simp: dns_labels_def MAX_LABEL_def)
  from push_labels_OK [OF this] assms(1) show ?thesis
    by (simp add: push_name_def name_bytes_def dns_labels_def)
qed

definition entry_fits :: "ustr \<times> ustr \<Rightarrow> bool" where
  "entry_fits p \<longleftrightarrow> str_len (fst p @ [61] @ snd p) \<le> MAX_TXT_STRING"

lemma push_properties_eq:
  "\<exists>e. push_properties out ps
    = (if list_all entry_fits ps then Inr (out @ concat (map txt_entry_bytes ps)) else Inl e)"
  by (induction out ps rule: push_properties.induct)
    (auto simp: entry_fits_def txt_entry_bytes_def Let_def)

lemma push_record_data_OK:
  "length data \<le> 65535 \<Longrightarrow> push_record_data packet data = Inr (packet @ to_be16 (of_nat (length data)) @ data)"
  by (simp add: push_record_data_def)

lemma labels_of_name:
  assumes "46 \<notin> set l" "l \<noteq> []" "dns_labels rest = ls"
  shows "dns_labels (l @ 46 # rest) = l # ls"
  using assms split_char_append [OF assms(1)] by (simp add: dns_labels_def)

lemma discovery_chars:
  assumes "list_all discovery_char l"
  shows "46 \<notin> set l" "61 \<notin> set l" "wf_ustr l" "str_len l = length l" "\<not> list_ex is_control l"
proof -
  have "\<forall>c \<in> set l. 32 \<le> c \<and> c < 123 \<and> c \<noteq> 46 \<and> c \<noteq> 61 \<and> \<not> is_control c"
    using assms discovery_char_range by (auto simp: list_all_iff)
  then show "46 \<notin> set l" "61 \<notin> set l" "wf_ustr l" "str_len l = length l" "\<not> list_ex is_control l"
    by (force simp: list_all_iff list_ex_iff is_scalar_def intro!: str_len_ascii)+
qed

lemma local_labels: "dns_labels (lit ''local.'') = [lit ''local'']"
  by (simp add: dns_labels_def)

definition target_of :: "ustr \<Rightarrow> ustr" where
  "target_of l = l @ lit ''.local.''"

lemma local_target:
  assumes "wf_label l"
  shows "dns_labels (target_of l) = [l, lit ''local'']" "valid_name (target_of l)"
proof -
  from assms have l: "l \<noteq> []" "length l \<le> 63" "list_all discovery_char l" by (auto simp: wf_label_def)
  note c = discovery_chars [OF l(3)]
  show d: "dns_labels (target_of l) = [l, lit ''local'']"
    using labels_of_name [OF c(1) l(1) local_labels] by (simp add: target_of_def)
  show "valid_name (target_of l)"
    using c l unfolding valid_name_def d by (simp add: MAX_LABEL_def is_scalar_def str_len_ascii target_of_def)
qed

lemma service_labels: "dns_labels SERVICE_TYPE = [lit ''_shaprint-ipps'', lit ''_tcp'', lit ''local'']"
  by (simp add: dns_labels_def SERVICE_TYPE_def)

lemma visible_bytes:
  "\<forall>c \<in> set s. 32 \<le> c \<and> c < 123 \<Longrightarrow> list_all (\<lambda>b. (0x20 :: u8) \<le> b \<and> b < 0x7F) (as_bytes s)"
  by (induction s) (auto simp: as_bytes_ascii_Cons word_le_nat_alt word_less_nat_alt unat_of_nat)

lemma instance_named:
  assumes "wf_label l"
  shows "dns_instance_name l = Inr (trim l @ [46] @ SERVICE_TYPE)"
    "dns_labels (trim l @ [46] @ SERVICE_TYPE)
       = [trim l, lit ''_shaprint-ipps'', lit ''_tcp'', lit ''local'']"
proof -
  from wf_label_trim [OF assms]
  have l: "trim l \<noteq> []" "length (trim l) \<le> 63" "list_all discovery_char (trim l)" by simp_all
  note c = discovery_chars [OF l(3)]
  have ascii: "\<forall>c \<in> set (trim l). 32 \<le> c \<and> c < 123"
    using l(3) discovery_char_range by (auto simp: list_all_iff)
  then have "list_all (\<lambda>b. 0x20 \<le> b \<and> b < 0x7F) (as_bytes (trim l))"
    by (rule visible_bytes)
  then show "dns_instance_name l = Inr (trim l @ [46] @ SERVICE_TYPE)"
    using c l by (simp add: dns_instance_name_def Let_def MAX_LABEL_def)
  show "dns_labels (trim l @ [46] @ SERVICE_TYPE)
       = [trim l, lit ''_shaprint-ipps'', lit ''_tcp'', lit ''local'']"
    using labels_of_name [OF c(1) l(1) service_labels] by simp
qed


section \<open>The packet\<close>

definition instance_of :: "ustr \<Rightarrow> ustr" where
  "instance_of l = trim l @ [46] @ SERVICE_TYPE"

definition adv_packet :: "ustr \<Rightarrow> u16 \<Rightarrow> u32 \<Rightarrow> PrinterName list \<Rightarrow> bytes" where
  "adv_packet l port lifetime ps = dns_header MESSAGE_FLAGS_RESPONSE 0 3
     @ announcement_records (instance_of l) (target_of l) port (adv_properties l ps) lifetime"

lemma length_name_bytes:
  "length (name_bytes n) = sum_list (map (\<lambda>l. Suc (str_len l)) (dns_labels n)) + 1"
  by (simp add: name_bytes_def label_bytes_def length_concat comp_def)

lemma length_entries:
  "length (concat (map txt_entry_bytes ps))
    = sum_list (map (\<lambda>p. str_len (fst p) + str_len (snd p) + 2) ps)"
  by (induction ps) (simp_all add: txt_entry_bytes_def)

definition text_size :: "PrinterName list \<Rightarrow> nat" where
  "text_size ps = sum_list (map (\<lambda>p. str_len (PrinterName_as_str p) + 7) ps)"

lemma length_properties:
  "length (concat (map txt_entry_bytes (adv_properties l ps))) = 27 + str_len l + text_size ps"
  unfolding length_entries
  by (simp add: adv_properties_def text_size_def comp_def PATH_PROPERTY_def NAME_PROPERTY_def
      QUEUE_PROPERTY_def VERSION_PROPERTY_def RESOURCE_PATH_def PKG_VERSION_def eval_nat_numeral)

lemma length_instance:
  "wf_label l \<Longrightarrow> length (name_bytes (instance_of l)) = length (trim l) + 28"
  using instance_named(2) [of l] wf_label_trim [of l] discovery_chars(4) [of "trim l"]
  by (simp add: length_name_bytes instance_of_def)

lemma length_target:
  "wf_label l \<Longrightarrow> length (service_bytes port (target_of l)) = length l + 14"
  using local_target(1) [of l] discovery_chars(4) [of l]
  by (simp add: service_bytes_def length_name_bytes wf_label_def)

lemma length_service_type: "length (name_bytes SERVICE_TYPE) = 27"
  by (simp add: length_name_bytes service_labels)

lemma length_packet:
  assumes "wf_label l"
  shows "length (adv_packet l port lifetime ps) = 194 + 3 * length (trim l) + 2 * length l + text_size ps"
proof -
  have "str_len l = length l" using assms discovery_chars(4) by (auto simp: wf_label_def)
  with assms show ?thesis
    by (simp add: adv_packet_def announcement_records_def resource_record_def dns_header_def
        length_instance length_target length_properties length_service_type)
qed

lemma packet_base:
  assumes "wf_label l"
  shows "length (adv_packet l port lifetime ps) \<le> 509 + text_size ps"
  using wf_label_trim [OF assms] assms by (simp add: length_packet wf_label_def)

definition name_fits :: "PrinterName \<Rightarrow> bool" where
  "name_fits p \<longleftrightarrow> str_len (PrinterName_as_str p) \<le> 249"

lemma properties_fit:
  assumes "wf_label l"
  shows "list_all entry_fits (adv_properties l ps) \<longleftrightarrow> list_all name_fits ps"
proof -
  have "str_len l = length l" "length l \<le> 63" using assms discovery_chars(4) by (auto simp: wf_label_def)
  then show ?thesis
    by (auto simp: adv_properties_def entry_fits_def name_fits_def list_all_iff MAX_TXT_STRING_def
        PATH_PROPERTY_def NAME_PROPERTY_def QUEUE_PROPERTY_def VERSION_PROPERTY_def RESOURCE_PATH_def
        PKG_VERSION_def)
qed

lemma text_size_bound: "list_all name_fits ps \<Longrightarrow> text_size ps \<le> 256 * length ps"
  by (induction ps) (auto simp: text_size_def name_fits_def)

lemma encode_announcement_eq:
  assumes "wf_label l" "record_lifetime ttl = Inr lifetime" "length ps \<le> MAX_ADVERTISED_PRINTERS"
  shows "\<exists>e. encode_announcement l (target_of l) port (adv_properties l ps) ttl
    = (if list_all name_fits ps then Inr (adv_packet l port lifetime ps) else Inl e)"
proof -
  note inst = instance_named [OF assms(1), folded instance_of_def]
  have trimmed: "str_len (trim l) \<le> 63" "length (trim l) \<le> 63" "length l \<le> 63" "str_len l \<le> 63"
    using wf_label_trim [OF assms(1)] discovery_chars(4) assms(1) by (auto simp: wf_label_def)
  have service: "push_name out SERVICE_TYPE = Inr (out @ name_bytes SERVICE_TYPE)" for out
    by (rule push_name_OK) (simp_all add: service_labels MAX_LABEL_def)
  have inst_name: "push_name out (instance_of l) = Inr (out @ name_bytes (instance_of l))" for out
    by (rule push_name_OK) (use trimmed in \<open>simp_all add: inst MAX_LABEL_def\<close>)
  have target: "push_name out (target_of l) = Inr (out @ name_bytes (target_of l))" for out
    by (rule push_name_OK) (use trimmed in \<open>simp_all add: local_target(1) [OF assms(1)] MAX_LABEL_def\<close>)
  have pointer: "length (name_bytes (instance_of l)) \<le> 65535"
    using length_instance [OF assms(1)] trimmed by simp
  have transport: "length (service_bytes port (target_of l)) \<le> 65535"
    using length_target [OF assms(1), of port] trimmed by simp
  obtain e where props: "push_properties [] (adv_properties l ps)
      = (if list_all name_fits ps then Inr (concat (map txt_entry_bytes (adv_properties l ps))) else Inl e)"
    using push_properties_eq [of "[]" "adv_properties l ps"] unfolding properties_fit [OF assms(1)] append.simps
    by blast
  have size: "length (concat (map txt_entry_bytes (adv_properties l ps))) \<le> 65535" if "list_all name_fits ps"
    using text_size_bound [OF that] assms(3) trimmed
    by (simp add: length_properties MAX_ADVERTISED_PRINTERS_def)
  show ?thesis
    using size
    by (simp add: encode_announcement_def inst assms(2) service inst_name target Let_def
        push_record_data_OK [OF pointer] push_record_data_OK [OF transport] props
        push_record_data_OK adv_packet_def announcement_records_def resource_record_def
        service_bytes_def [symmetric])
qed

section \<open>The printers that are advertised\<close>

lemma list_all_take: "list_all P xs \<Longrightarrow> list_all P (take k xs)"
  by (auto simp: list_all_iff dest: in_set_takeD)

lemma adv_trim_keeps:
  assumes "\<And>k. k \<le> length ps \<Longrightarrow> encode_announcement (adv_label adv) (adv_target adv) (adv_port adv)
      (adv_properties (adv_label adv) (take k ps)) ttl = Inr (packet (take k ps))"
  shows "\<exists>k \<le> length ps. adv_trim adv ttl ps = Inr (packet (take k ps))
    \<and> (length (packet (take k ps)) \<le> MAX_PACKET \<or> k = 0)
    \<and> (\<forall>j \<le> length ps. k < j \<longrightarrow> MAX_PACKET < length (packet (take j ps)))"
  using assms
proof (induction ps rule: rev_induct)
  case Nil
  from Nil [of 0] show ?case by (simp add: adv_trim.simps)
next
  case (snoc p ps)
  let ?all = "ps @ [p]"
  have whole: "encode_announcement (adv_label adv) (adv_target adv) (adv_port adv)
      (adv_properties (adv_label adv) ?all) ttl = Inr (packet ?all)"
    using snoc.prems [of "length ?all"] by simp
  show ?case
  proof (cases "length (packet ?all) \<le> MAX_PACKET")
    case True
    with whole show ?thesis by (intro exI [of _ "length ?all"]) (simp add: adv_trim.simps)
  next
    case False
    have "encode_announcement (adv_label adv) (adv_target adv) (adv_port adv)
      (adv_properties (adv_label adv) (take k ps)) ttl = Inr (packet (take k ps))" if "k \<le> length ps" for k
      using snoc.prems [of k] that by simp
    from snoc.IH [OF this] obtain k where k: "k \<le> length ps" "adv_trim adv ttl ps = Inr (packet (take k ps))"
      "length (packet (take k ps)) \<le> MAX_PACKET \<or> k = 0"
      "\<forall>j \<le> length ps. k < j \<longrightarrow> MAX_PACKET < length (packet (take j ps))" by blast
    have "adv_trim adv ttl ?all = adv_trim adv ttl ps"
      using whole False by (subst adv_trim.simps) simp
    moreover have "MAX_PACKET < length (packet (take j ?all))" if "j \<le> length ?all" "k < j" for j
      using that k(4) False by (cases "j = length ?all") auto
    ultimately show ?thesis using k by (intro exI [of _ k]) auto
  qed
qed

lemma adv_trim_Inl:
  assumes "encode_announcement (adv_label adv) (adv_target adv) (adv_port adv)
      (adv_properties (adv_label adv) ps) ttl = Inl e"
  shows "adv_trim adv ttl ps = Inl e"
  using assms by (simp add: adv_trim.simps)

lemma adv_encode_packet:
  assumes "wf_label l" "record_lifetime ttl = Inr lifetime"
    "list_all name_fits (take MAX_ADVERTISED_PRINTERS ps)"
  obtains k where "adv_encode (Advertised_new l port ps) ttl = Inr (adv_packet l port lifetime (take k ps))"
    "length (adv_packet l port lifetime (take k ps)) \<le> MAX_PACKET"
    "k \<le> min MAX_ADVERTISED_PRINTERS (length ps)" "min 3 (length ps) \<le> k"
    "\<forall>j \<le> min MAX_ADVERTISED_PRINTERS (length ps). k < j \<longrightarrow>
      MAX_PACKET < length (adv_packet l port lifetime (take j ps))"
proof -
  let ?adv = "Advertised_new l port ps"
  let ?first = "take MAX_ADVERTISED_PRINTERS ps"
  have OK: "encode_announcement (adv_label ?adv) (adv_target ?adv) (adv_port ?adv)
      (adv_properties (adv_label ?adv) (take k ?first)) ttl = Inr (adv_packet l port lifetime (take k ?first))" for k
  proof -
    have "list_all name_fits (take k ?first)" "length (take k ?first) \<le> MAX_ADVERTISED_PRINTERS"
      using list_all_take [OF assms(3)] by simp_all
    with encode_announcement_eq [OF assms(1,2) this(2), of port] show ?thesis
      by (simp add: Advertised_new_def target_of_def)
  qed
  from adv_trim_keeps [OF OK] obtain k where k: "k \<le> length ?first"
    "adv_trim ?adv ttl ?first = Inr (adv_packet l port lifetime (take k ?first))"
    "length (adv_packet l port lifetime (take k ?first)) \<le> MAX_PACKET \<or> k = 0"
    "\<forall>j \<le> length ?first. k < j \<longrightarrow> MAX_PACKET < length (adv_packet l port lifetime (take j ?first))" by blast
  have small: "length (adv_packet l port lifetime (take j ?first)) \<le> MAX_PACKET" if "j \<le> 3" for j
  proof -
    have "list_all name_fits (take j ?first)" using assms(3) by (rule list_all_take)
    from text_size_bound [OF this] have "text_size (take j ?first) \<le> 768" using that by simp
    with packet_base [OF assms(1), of port lifetime "take j ?first"] show ?thesis by (simp add: MAX_PACKET_def)
  qed
  have upto: "take j ?first = take j ps" if "j \<le> length ?first" for j using that by simp
  have "min 3 (length ps) \<le> k"
  proof (rule ccontr)
    assume "\<not> min 3 (length ps) \<le> k"
    then have "k < min 3 (length ps)" "min 3 (length ps) \<le> length ?first"
      by (auto simp: MAX_ADVERTISED_PRINTERS_def)
    with k(4) have "MAX_PACKET < length (adv_packet l port lifetime (take (min 3 (length ps)) ?first))" by blast
    with small [of "min 3 (length ps)"] show False by simp
  qed
  moreover have "length (adv_packet l port lifetime (take k ?first)) \<le> MAX_PACKET"
    using k(3) small [of 0] by auto
  ultimately show thesis
    using that [of k] k(1,2,4) upto by (simp add: adv_encode_def Advertised_new_def min.commute)
qed

lemma adv_encode_too_long:
  assumes "wf_label l" "record_lifetime ttl = Inr lifetime"
    "\<not> list_all name_fits (take MAX_ADVERTISED_PRINTERS ps)"
  shows "\<exists>e. adv_encode (Advertised_new l port ps) ttl = Inl e"
proof -
  have "length (take MAX_ADVERTISED_PRINTERS ps) \<le> MAX_ADVERTISED_PRINTERS" by simp
  from encode_announcement_eq [OF assms(1,2) this, of port] assms(3)
  show ?thesis
    using adv_trim_Inl [of "Advertised_new l port ps" "take MAX_ADVERTISED_PRINTERS ps" ttl]
    by (auto simp: adv_encode_def Advertised_new_def target_of_def)
qed

lemma record_lifetime_OK: "lifetime_secs ttl \<le> 4294967295 \<Longrightarrow> \<exists>w. record_lifetime ttl = Inr w"
  by (auto simp: record_lifetime_def lifetime_secs_def Let_def)

text \<open>
  C22: An advertisement fits in a datagram. When each of the first 48 shared printers has a name of at
  most 249 bytes, encoding succeeds whatever the computer is called: the packet is the announcement of
  the first \<open>k\<close> printers, at most 1,400 bytes long, with \<open>k\<close> at most 48 and at least three (or all of
  them), and the largest such number. A longer name among them makes the whole encoding fail, even where
  the name is a valid printer name.
\<close>

theorem advertisement_fits:
  assumes "lifetime_secs ttl \<le> 4294967295"
  shows "if \<forall>p \<in> set (take MAX_ADVERTISED_PRINTERS ps). str_len (PrinterName_as_str p) \<le> 249
    then \<exists>k packet. adv_encode (Advertised_new (usable_label name) port ps) ttl = Inr packet
      \<and> encode_announcement (usable_label name) (usable_label name @ lit ''.local.'') port
          (adv_properties (usable_label name) (take k ps)) ttl = Inr packet
      \<and> length packet \<le> MAX_PACKET
      \<and> min 3 (length ps) \<le> k \<and> k \<le> min MAX_ADVERTISED_PRINTERS (length ps)
      \<and> (k < min MAX_ADVERTISED_PRINTERS (length ps) \<longrightarrow>
          (\<exists>larger. encode_announcement (usable_label name) (usable_label name @ lit ''.local.'') port
            (adv_properties (usable_label name) (take (Suc k) ps)) ttl = Inr larger
            \<and> MAX_PACKET < length larger))
    else \<exists>e. adv_encode (Advertised_new (usable_label name) port ps) ttl = Inl e"
proof -
  let ?l = "usable_label name"
  note l = usable_label_wf [of name]
  obtain lifetime where lt: "record_lifetime ttl = Inr lifetime" using record_lifetime_OK [OF assms] by blast
  have fits: "(\<forall>p \<in> set (take MAX_ADVERTISED_PRINTERS ps). str_len (PrinterName_as_str p) \<le> 249)
    \<longleftrightarrow> list_all name_fits (take MAX_ADVERTISED_PRINTERS ps)" by (simp add: list_all_iff name_fits_def)
  have sent: "encode_announcement ?l (target_of ?l) port (adv_properties ?l (take j ps)) ttl
      = Inr (adv_packet ?l port lifetime (take j ps))"
    if all: "list_all name_fits (take MAX_ADVERTISED_PRINTERS ps)" and "j \<le> MAX_ADVERTISED_PRINTERS" for j
  proof -
    have "list_all name_fits (take j ps)" "length (take j ps) \<le> MAX_ADVERTISED_PRINTERS"
      using list_all_take [OF all, of j] that(2) by (simp_all add: min_absorb1)
    with encode_announcement_eq [OF l lt this(2), of port] show ?thesis by simp
  qed
  show ?thesis
    unfolding fits
  proof (simp only: split: if_split, intro conjI impI)
    assume all: "list_all name_fits (take MAX_ADVERTISED_PRINTERS ps)"
    from adv_encode_packet [OF l lt this, of port] obtain k where
      k: "adv_encode (Advertised_new ?l port ps) ttl = Inr (adv_packet ?l port lifetime (take k ps))"
      "length (adv_packet ?l port lifetime (take k ps)) \<le> MAX_PACKET"
      "k \<le> min MAX_ADVERTISED_PRINTERS (length ps)" "min 3 (length ps) \<le> k"
      "\<forall>j \<le> min MAX_ADVERTISED_PRINTERS (length ps). k < j \<longrightarrow>
        MAX_PACKET < length (adv_packet ?l port lifetime (take j ps))" .
    have larger: "k < min MAX_ADVERTISED_PRINTERS (length ps) \<longrightarrow> (\<exists>larger.
        encode_announcement ?l (target_of ?l) port (adv_properties ?l (take (Suc k) ps)) ttl = Inr larger
        \<and> MAX_PACKET < length larger)"
    proof
      assume "k < min MAX_ADVERTISED_PRINTERS (length ps)"
      then have "Suc k \<le> min MAX_ADVERTISED_PRINTERS (length ps)" by (rule Suc_leI)
      with sent [OF all, of "Suc k"] k(5) show "\<exists>larger. encode_announcement ?l (target_of ?l) port
          (adv_properties ?l (take (Suc k) ps)) ttl = Inr larger \<and> MAX_PACKET < length larger" by simp
    qed
    from k(3) have "k \<le> MAX_ADVERTISED_PRINTERS" by simp
    note packet = sent [OF all this]
    show "\<exists>k packet. adv_encode (Advertised_new ?l port ps) ttl = Inr packet
      \<and> encode_announcement ?l (?l @ lit ''.local.'') port (adv_properties ?l (take k ps)) ttl = Inr packet
      \<and> length packet \<le> MAX_PACKET
      \<and> min 3 (length ps) \<le> k \<and> k \<le> min MAX_ADVERTISED_PRINTERS (length ps)
      \<and> (k < min MAX_ADVERTISED_PRINTERS (length ps) \<longrightarrow>
          (\<exists>larger. encode_announcement ?l (?l @ lit ''.local.'') port
            (adv_properties ?l (take (Suc k) ps)) ttl = Inr larger \<and> MAX_PACKET < length larger))"
      using k(1-4) packet larger unfolding target_of_def 
      by (intro exI [of _ k] exI [of _ "adv_packet ?l port lifetime (take k ps)"] conjI)
  qed (use adv_encode_too_long [OF l lt] in blast)
qed

section \<open>What a browser hears\<close>

definition wf_ip :: "nat list \<Rightarrow> bool" where
  "wf_ip ip \<longleftrightarrow> length ip = 4 \<and> list_all (\<lambda>n. n \<le> 255) ip"

definition shareable :: "PrinterName \<Rightarrow> bool" where
  "shareable p \<longleftrightarrow> wf_name (PrinterName_as_str p) \<and> wf_ustr (PrinterName_as_str p) \<and> name_fits p"

definition server_address_of :: "SocketAddr \<Rightarrow> u16 \<Rightarrow> ustr" where
  "server_address_of source port = show_ipv4 (sock_ip source) @ [58] @ show_nat (unat port)"

definition advertised_server :: "ustr \<Rightarrow> SocketAddr \<Rightarrow> u16 \<Rightarrow> PrinterName list \<Rightarrow> NearbyServer" where
  "advertised_server l source port ps =
     \<lparr>nearby_name = trim l, nearby_address = server_address_of source port, nearby_printers = ps,
      nearby_version = Some PKG_VERSION\<rparr>"

lemma server_address_usable:
  assumes "wf_ip (sock_ip source)"
  shows "server_address_of source port \<noteq> []" "trim (server_address_of source port) = server_address_of source port"
    "str_len (server_address_of source port) \<le> 255" "\<not> has_control (server_address_of source port)"
proof -
  let ?a = "server_address_of source port"
  have graphic: "list_all graphic ?a"
    using show_ipv4_graphic show_nat_graphic by (simp add: server_address_of_def) (simp add: graphic_def)
  have ip: "length (show_ipv4 (sock_ip source)) \<le> 100"
    using length_show_ipv4 [OF parse_show_ipv4] assms by (simp add: wf_ip_def list_all_iff)
  have "unat port < 10 ^ 5" using unat_u16_less [of port] by simp
  from length_show_nat [OF this] have port: "length (show_nat (unat port)) \<le> 5" by simp
  show nonempty: "?a \<noteq> []" by (simp add: server_address_of_def)
  have "\<forall>c \<in> set ?a. \<not> is_whitespace c \<and> c < 128 \<and> \<not> is_control c"
    using graphic graphic_not_space by (auto simp: list_all_iff graphic_def is_control_def)
  note chars = this
  show "trim ?a = ?a" using trim_by_id [of ?a is_whitespace] chars nonempty by auto
  have "str_len ?a = length ?a" using chars by (intro str_len_ascii) (simp add: list_all_iff)
  with ip port show "str_len ?a \<le> 255" by (simp add: server_address_of_def)
  show "\<not> has_control ?a" using chars by (auto simp: has_control_def list_ex_iff)
qed

lemma browse_queues:
  "\<forall>p \<in> set ps. wf_name (PrinterName_as_str p) \<Longrightarrow> distinct (acc @ ps) \<Longrightarrow>
    browse_properties (map (\<lambda>p. (QUEUE_PROPERTY, PrinterName_as_str p)) ps) label ver acc = (label, ver, acc @ ps)"
proof (induction ps arbitrary: acc)
  case (Cons p ps)
  then have "PrinterName_parse (PrinterName_as_str p) = Inr p"
    by (simp add: PrinterName_parse_Inr_iff wf_name_def)
  with Cons show ?case by (simp add: NAME_PROPERTY_def QUEUE_PROPERTY_def VERSION_PROPERTY_def)
qed simp

lemma browse_announced:
  assumes "\<forall>p \<in> set ps. wf_name (PrinterName_as_str p)" "distinct ps"
  shows "browse_properties (adv_properties l ps) None None [] = (Some l, Some PKG_VERSION, ps)"
proof -
  have "PATH_PROPERTY \<noteq> NAME_PROPERTY" "PATH_PROPERTY \<noteq> VERSION_PROPERTY" "PATH_PROPERTY \<noteq> QUEUE_PROPERTY"
    "VERSION_PROPERTY \<noteq> NAME_PROPERTY"
    by (simp_all add: PATH_PROPERTY_def NAME_PROPERTY_def QUEUE_PROPERTY_def VERSION_PROPERTY_def)
  with browse_queues [OF assms(1), of "[]"] assms(2) show ?thesis by (simp add: adv_properties_def)
qed

lemma package_version_clean: "clean_version (Some PKG_VERSION) = Some PKG_VERSION"
  by (simp add: clean_version_def PKG_VERSION_def VERSION_LIMIT_def has_control_def is_control_def
      trim_by_def trim_end_by_def is_whitespace_def)

lemma browsed_announced:
  assumes "wf_label l" "\<forall>p \<in> set ps. wf_name (PrinterName_as_str p)" "distinct ps" "wf_ip (sock_ip source)"
    "svc_properties service = adv_properties l ps"
  shows "browsed_server service (server_address_of source port) = Some (advertised_server l source port ps)"
proof -
  from wf_label_trim [OF assms(1)] discovery_chars(5) [of "trim l"]
  have "trim l \<noteq> []" "length (trim l) \<le> 63" "\<not> has_control (trim l)" by (auto simp: has_control_def)
  with server_address_usable [OF assms(4), of port] show ?thesis
    by (simp add: browsed_server_def assms(5) browse_announced [OF assms(2,3)] NearbyServer_with_version_def
        advertised_server_def package_version_clean SERVER_NAME_LIMIT_def SERVER_ADDRESS_LIMIT_def)
qed

lemma report_announced:
  assumes "wf_label l" "list_all shareable ps" "distinct ps" "length ps \<le> MAX_ADVERTISED_PRINTERS"
    "wf_ip (sock_ip source)" "port \<noteq> 0"
  shows "report_packet now (adv_packet l port lifetime ps) source
    = [if lifetime = 0 then HeardWithdrawn now (server_address_of source port)
       else HeardAdvertised now (advertised_server l source port ps) (unat lifetime * 1000000000)]"
proof -
  have fits: "list_all name_fits ps" and names: "\<forall>p \<in> set ps. wf_name (PrinterName_as_str p)"
    using assms(2) by (auto simp: list_all_iff shareable_def)
  have l: "length l \<le> 63" "wf_ustr l" "str_len l = length l" "length (trim l) \<le> 63"
    using assms(1) discovery_chars(3,4) wf_label_trim [OF assms(1)] by (auto simp: wf_label_def)
  have inst: "instance_of l = trim l @ [46] @ SERVICE_TYPE \<and> valid_name (instance_of l)"
    using dns_instance_name_Inr [OF instance_named(1) [OF assms(1)] l(2)] by (simp add: instance_of_def)
  have props: "\<forall>p \<in> set (adv_properties l ps). txt_property p"
    using assms(2) l(2) by (auto simp: adv_properties_def txt_property_def list_all_iff shareable_def is_scalar_def
        PATH_PROPERTY_def NAME_PROPERTY_def QUEUE_PROPERTY_def VERSION_PROPERTY_def RESOURCE_PATH_def PKG_VERSION_def)
  have entries: "\<forall>p \<in> set (adv_properties l ps). str_len (fst p @ [61] @ snd p) \<le> 255"
    using properties_fit [OF assms(1), of ps] fits by (simp add: list_all_iff entry_fits_def MAX_TXT_STRING_def)
  have entry_bytes: "length (concat (map txt_entry_bytes (adv_properties l ps))) \<le> 65535"
    using text_size_bound [OF fits] assms(4) l(1,3) by (simp add: length_properties MAX_ADVERTISED_PRINTERS_def)
  have pointer: "length (name_bytes (instance_of l)) \<le> 65535" using length_instance [OF assms(1)] l(4) by simp
  have transport: "length (service_bytes port (target_of l)) \<le> 65535" using length_target [OF assms(1)] l(1) by simp
  let ?service = "\<lparr>svc_instance = instance_of l, svc_target = target_of l, svc_port = port,
    svc_properties = adv_properties l ps, svc_ttl = \<lparr>as_secs = unat lifetime, subsec_nanos = 0\<rparr>\<rparr>"
  have "Message_parse (adv_packet l port lifetime ps) = Inr \<lparr>queries = [],
      records = announced_records (instance_of l) (target_of l) port (adv_properties l ps) lifetime\<rparr>"
    by (rule announcement_parsed [OF conjunct2 [OF inst] local_target(2) [OF assms(1)] props pointer transport entry_bytes entries])
       (simp add: adv_packet_def)
  then have "report_packet now (adv_packet l port lifetime ps) source
      = List.map_filter (report_service now source) [?service]"
    by (simp add: report_packet_def services_announced)
  moreover have "report_service now source ?service
    = Some (if lifetime = 0 then HeardWithdrawn now (server_address_of source port)
       else HeardAdvertised now (advertised_server l source port ps) (unat lifetime * 1000000000))"
    using browsed_announced [OF assms(1) names assms(3,5), of ?service port] assms(6)
    by (simp add: report_service_def endpoint_address_def server_address_of_def duration_nanos_def unat_eq_zero)
  ultimately show ?thesis by (simp add: List.map_filter_def)
qed

section \<open>Asking and answering\<close>

lemma gram_packet_send_each:
  "\<forall>g \<in> set ds. gram_packet g = packet \<Longrightarrow> g \<in> set (send_each sock ds) \<Longrightarrow> gram_packet g = packet"
  by (simp add: send_each_def)

lemma browse_query_packet:
  assumes "g \<in> set (snd (browse_query sock interfaces targets))"
  shows "encode_query SERVICE_TYPE = Inr (gram_packet g)"
  using assms
  by (auto simp: browse_query_def send_multicast_on_interfaces_def send_to_all_def send_each_def Let_def
      split: sum.splits if_splits)

lemma question_recognised:
  assumes "g \<in> set (snd (browse_query sock interfaces targets))"
  obtains q where "Message_parse (gram_packet g) = Inr \<lparr>queries = [q], records = []\<rparr>"
    "queries_service q SERVICE_TYPE" "unicast_response q"
  using query_recognised [OF valid_service_type browse_query_packet [OF assms]] by blast

lemma advertised_lifetime: "record_lifetime ADVERTISED_TTL = Inr 120" "record_lifetime ZERO_TTL = Inr 0"
  by (simp_all add: record_lifetime_def ADVERTISED_TTL_def ZERO_TTL_def)

lemma shareable_fits: "list_all shareable ps \<Longrightarrow> list_all name_fits ps"
  by (simp add: list_all_iff shareable_def)

lemma cache_simulates:
  assumes "sorted (map heard_at hs @ [later])"
  shows "simulates later (cache_run hs Discovery_new) (view_run DEFAULT_MAX_LIFETIME hs Map.empty)"
proof -
  have "simulates 0 Discovery_new Map.empty" by (simp add: simulates_def Discovery_new_def)
  from simulates_run [OF this, of hs later] assms show ?thesis by (simp add: Discovery_new_def)
qed

lemma view_run_snoc: "view_run limit (hs @ [h]) v = view_step limit h (view_run limit hs v)"
  by (simp add: view_run_def)

lemma listed_after_advertised:
  assumes "sorted (map heard_at hs @ [now, later])" "0 < lifetime" "later < now + min lifetime DEFAULT_MAX_LIFETIME"
  shows "server \<in> set (fst (nearby_servers later
    (cache_run (hs @ [HeardAdvertised now server lifetime]) Discovery_new)))"
proof -
  have "sorted (map heard_at (hs @ [HeardAdvertised now server lifetime]) @ [later])" using assms(1) by simp
  from simulates_visible [OF cache_simulates [OF this]] assms(2,3) show ?thesis
    by (auto simp: visible_def view_run_snoc)
qed

lemma view_run_keyed:
  "\<forall>a s ends. v a = Some (s, ends) \<longrightarrow> nearby_address s = a \<Longrightarrow>
    view_run limit hs v a = Some (s, ends) \<Longrightarrow> nearby_address s = a"
proof (induction hs arbitrary: v)
  case (Cons h hs)
  have "\<forall>a s ends. view_step limit h v a = Some (s, ends) \<longrightarrow> nearby_address s = a"
    using Cons.prems(1) by (cases h) auto
  from Cons.IH [OF this] Cons.prems(2) show ?case by (simp add: view_run_def)
qed (simp add: view_run_def)

lemma forgotten_after_withdrawn:
  assumes "sorted (map heard_at hs @ [now, later])"
    "server \<in> set (fst (nearby_servers later (cache_run (hs @ [HeardWithdrawn now address]) Discovery_new)))"
  shows "nearby_address server \<noteq> address"
proof -
  have "sorted (map heard_at (hs @ [HeardWithdrawn now address]) @ [later])" using assms(1) by simp
  from simulates_visible [OF cache_simulates [OF this]] assms(2) obtain a ends where
    a: "view_run DEFAULT_MAX_LIFETIME (hs @ [HeardWithdrawn now address]) Map.empty a = Some (server, ends)"
    by (auto simp: visible_def)
  then have "a \<noteq> address" by (auto simp: view_run_snoc)
  with view_run_keyed [OF _ a] show ?thesis by simp
qed


text \<open>
  C17: A server that stops is forgotten. Withdrawing sends every browser the server
  answered and still remembers a goodbye of its own; whatever the browser had heard before, its list then
  holds no server at that address; and the withdrawn server answers no question any more.
\<close>

theorem stopped_server_forgotten:
  assumes "advertised st = Advertised_new (usable_label name) port ps" "port \<noteq> 0"
    and "asker \<in> set (queriers st)" "sock None asker" "wf_ip (sock_ip source)"
    and "sorted (map heard_at hs @ [now, later])"
  shows "\<exists>bye. \<lparr>gram_via = None, gram_to = asker, gram_packet = bye\<rparr> \<in> set (snd (snd (withdraw sock st)))
    \<and> server_address_of source port \<notin> nearby_address ` set (fst (nearby_servers later
        (cache_run (hs @ report_packet now bye source) Discovery_new)))
    \<and> (\<forall>question other. snd (adv_answer sock question other (fst (snd (withdraw sock st)))) = [])"
proof -
  let ?l = "usable_label name"
  note l = usable_label_wf [of name]
  let ?st = "st\<lparr>advertised := (advertised st)\<lparr>adv_printers := []\<rparr>\<rparr>"
  have adv: "advertised ?st = Advertised_new ?l port []" by (simp add: assms(1) Advertised_new_def)
  let ?bye = "adv_packet ?l port 0 []"
  from adv_encode_packet [OF l advertised_lifetime(2), of "[]" port]
  have bye: "adv_encode (Advertised_new ?l port []) ZERO_TTL = Inr ?bye" by auto
  have "\<lparr>gram_via = None, gram_to = asker, gram_packet = ?bye\<rparr> \<in> set (snd (announce sock ZERO_TTL w ?st))" for w
    using assms(3,4) by (simp add: announce_def adv bye send_to_all_def send_each_def Let_def split: prod.split)
  then have sent: "\<lparr>gram_via = None, gram_to = asker, gram_packet = ?bye\<rparr> \<in> set (snd (snd (withdraw sock st)))"
    by (simp add: withdraw_def Let_def split_beta)
  have heard: "report_packet now ?bye source = [HeardWithdrawn now (server_address_of source port)]"
    using report_announced [OF l _ _ _ assms(5,2), of "[]"] by simp
  have "server_address_of source port \<notin> nearby_address ` set (fst (nearby_servers later
        (cache_run (hs @ report_packet now ?bye source) Discovery_new)))"
    unfolding heard
  proof
    assume "server_address_of source port \<in> nearby_address ` set (fst (nearby_servers later
      (cache_run (hs @ [HeardWithdrawn now (server_address_of source port)]) Discovery_new)))"
    then obtain s where s: "server_address_of source port = nearby_address s" "s \<in> set (fst (nearby_servers later
      (cache_run (hs @ [HeardWithdrawn now (server_address_of source port)]) Discovery_new)))" by (rule imageE)
    from forgotten_after_withdrawn [OF assms(6) s(2)] s(1) show False by simp
  qed
  moreover have "\<forall>question other. snd (adv_answer sock question other (fst (snd (withdraw sock st)))) = []"
    by (simp add: withdraw_def adv_answer_def remember_def Let_def split: prod.split sum.split)
  ultimately show ?thesis using sent by blast
qed

section \<open>Concrete networks\<close>

definition example_group :: SocketAddr where
  "example_group = \<lparr>sock_ip = MDNS_GROUP, sock_port = DISCOVERY_PORT\<rparr>"

definition example_asker :: SocketAddr where
  "example_asker = \<lparr>sock_ip = [192, 168, 1, 20], sock_port = 50123\<rparr>"

definition example_reply_from :: SocketAddr where
  "example_reply_from = \<lparr>sock_ip = [192, 168, 1, 10], sock_port = DISCOVERY_PORT\<rparr>"

definition example_zebra :: PrinterName where
  "example_zebra = PrinterName (lit ''Zebra'')"

definition example_advertisement :: Advertisement where
  "example_advertisement = fst (advertise (\<lambda>_ _. True) (usable_label (lit ''DESKTOP-ABC'')) ADVERTISED_TTL
     [[192, 168, 1, 10]] DISCOVERY_PORT 8631 [example_zebra])"

lemma example_zebra_shareable: "list_all shareable [example_zebra]"
  by (simp add: shareable_def example_zebra_def wf_name_def NAME_LIMIT_def is_control_def trim_by_def
      trim_end_by_def is_whitespace_def is_scalar_def name_fits_def)

lemma example_advertised:
  "advertised example_advertisement = Advertised_new (usable_label (lit ''DESKTOP-ABC'')) 8631 [example_zebra]"
  "adv_ttl example_advertisement = ADVERTISED_TTL"
  by (simp_all add: example_advertisement_def advertise_def Let_def)

lemma query_encoded: "\<exists>packet. encode_query SERVICE_TYPE = Inr packet"
  using push_name_OK [of SERVICE_TYPE] by (simp add: encode_query_def service_labels MAX_LABEL_def)

lemma example_question:
  "\<exists>g. g \<in> set (snd (browse_query (\<lambda>_ _. True) [[192, 168, 1, 20]] [example_group]))"
proof -
  obtain packet where "encode_query SERVICE_TYPE = Inr packet" using query_encoded by blast
  then have "\<lparr>gram_via = Some [192, 168, 1, 20], gram_to = example_group, gram_packet = packet\<rparr>
      \<in> set (snd (browse_query (\<lambda>_ _. True) [[192, 168, 1, 20]] [example_group]))"
    by (simp add: browse_query_def example_group_def is_multicast_def MDNS_GROUP_def
        send_multicast_on_interfaces_def active_ipv4_interfaces_def send_each_def Let_def)
  then show ?thesis by blast
qed

lemma str_len_euros: "str_len (replicate n 0x20AC) = 3 * n"
  by (induction n) (simp_all add: as_bytes_Cons utf8_char_def)

theorem advertisement_fits_witness:
  "(\<exists>packet. adv_encode (Advertised_new (usable_label (lit ''DESKTOP-ABC'')) 8631 [example_zebra]) ADVERTISED_TTL
      = Inr packet \<and> length packet \<le> MAX_PACKET)
   \<and> (\<exists>p e. PrinterName_parse (replicate 100 0x20AC) = Inr p
      \<and> adv_encode (Advertised_new (usable_label (lit ''DESKTOP-ABC'')) 8631 [example_zebra, p]) ADVERTISED_TTL = Inl e)"
proof
  have lt: "lifetime_secs ADVERTISED_TTL \<le> 4294967295" by (simp add: lifetime_secs_def ADVERTISED_TTL_def)
  note fits = advertisement_fits [OF lt, of _ "lit ''DESKTOP-ABC''" 8631]
  have zebra: "str_len (PrinterName_as_str example_zebra) \<le> 249" by (simp add: example_zebra_def)
  have "\<forall>p \<in> set (take MAX_ADVERTISED_PRINTERS [example_zebra]). str_len (PrinterName_as_str p) \<le> 249"
    using zebra by (auto dest: in_set_takeD)
  with fits [of "[example_zebra]"] show "\<exists>packet. adv_encode (Advertised_new (usable_label (lit ''DESKTOP-ABC''))
      8631 [example_zebra]) ADVERTISED_TTL = Inr packet \<and> length packet \<le> MAX_PACKET"
    by (metis (no_types, lifting))
  let ?e = "replicate 100 (0x20AC :: uchar)"
  have "trim ?e = ?e" by (intro trim_by_id) (simp add: is_whitespace_def)
  then have "PrinterName_parse ?e = Inr (PrinterName ?e)"
    by (simp add: PrinterName_parse_Inr_iff wf_name_def NAME_LIMIT_def is_control_def list_all_iff)
  moreover have "\<not> (\<forall>p \<in> set (take MAX_ADVERTISED_PRINTERS [example_zebra, PrinterName ?e]).
      str_len (PrinterName_as_str p) \<le> 249)"
    by (simp add: MAX_ADVERTISED_PRINTERS_def str_len_euros)
  with fits [of "[example_zebra, PrinterName ?e]"]
  have "\<exists>e. adv_encode (Advertised_new (usable_label (lit ''DESKTOP-ABC'')) 8631 [example_zebra, PrinterName ?e])
      ADVERTISED_TTL = Inl e" by (simp only: if_False)
  ultimately show "\<exists>p e. PrinterName_parse ?e = Inr p
      \<and> adv_encode (Advertised_new (usable_label (lit ''DESKTOP-ABC'')) 8631 [example_zebra, p]) ADVERTISED_TTL = Inl e"
    by blast
qed


theorem stopped_server_forgotten_witness:
  "\<exists>bye. \<lparr>gram_via = None, gram_to = example_asker, gram_packet = bye\<rparr>
      \<in> set (snd (snd (withdraw (\<lambda>_ _. True) (remember example_asker example_advertisement))))
    \<and> server_address_of example_reply_from 8631 \<notin> nearby_address ` set (fst (nearby_servers 9
        (cache_run ([Swept 2] @ report_packet 3 bye example_reply_from) Discovery_new)))"
proof -
  have "advertised (remember example_asker example_advertisement)
      = Advertised_new (usable_label (lit ''DESKTOP-ABC'')) 8631 [example_zebra]"
    using example_advertised by (simp add: remember_def)
  moreover have "example_asker \<in> set (queriers (remember example_asker example_advertisement))"
    by (simp add: remember_def MAX_REMEMBERED_QUERIERS_def)
  moreover have "wf_ip (sock_ip example_reply_from)" "sorted (map heard_at [Swept 2] @ [3, 9])"
    by (simp_all add: wf_ip_def example_reply_from_def)
  ultimately show ?thesis
    using stopped_server_forgotten [of "remember example_asker example_advertisement" "lit ''DESKTOP-ABC''" 8631
        "[example_zebra]" example_asker "\<lambda>_ _. True" example_reply_from "[Swept 2]" 3 9] by (simp; blast)
qed

end
