(* ===== verification/Ipc_Payloads.thy ===== *)
theory Ipc_Payloads
  imports Test_Print Queue_Installation Sharing_Selection Login_Startup Legacy_Import Print_Failure
begin

text \<open>
  \<open>ipc/dto.rs\<close>: the shapes that leave the program, to the window and over the control socket of the
  daemon, and how they are made from the domain. The text form of a shape is \<open>serde\<close>'s and is a
  parameter where it matters.
\<close>

section \<open>Services and errors\<close>

record ServiceStatusDto =
  dto_service_id :: ustr
  dto_service_state :: ustr
  dto_service_detail :: ustr

definition service_status_dto :: "ServiceStatus \<Rightarrow> ServiceStatusDto" where
  "service_status_dto s =
     \<lparr>dto_service_id = ServiceId_as_str (status_id s), dto_service_state = ServiceState_as_str (status_state s),
      dto_service_detail = status_detail s\<rparr>"

record PrintFailureDto =
  dto_failure_path :: ustr
  dto_failure_code :: ustr
  dto_failure_printer :: "ustr option"
  dto_failure_message :: ustr
  dto_failure_recovery :: ustr
  dto_observed_at_ms :: nat

definition print_failure_dto :: "PrintFailure \<Rightarrow> PrintFailureDto" where
  "print_failure_dto f =
     \<lparr>dto_failure_path = JobPath_as_str (failure_path f), dto_failure_code = ErrorCode_as_str (failure_code f),
      dto_failure_printer = map_option PrinterName_as_str (failure_printer f),
      dto_failure_message = failure_message f, dto_failure_recovery = failure_recovery f,
      dto_observed_at_ms = observed_at_ms f\<rparr>"

record RuntimeStatusDto =
  dto_services :: "ServiceStatusDto list"
  dto_channel_configured :: "bool option"
  dto_readiness :: "ustr option"
  dto_shared_printers :: "ustr list option"
  dto_client_queues :: "ustr list option"
  dto_status_failure :: "ustr option"
  dto_recent_failure :: "PrintFailureDto option"

definition runtime_dto :: "RuntimeStatus \<Rightarrow> RuntimeStatusDto" where
  "runtime_dto status =
     \<lparr>dto_services = map service_status_dto (runtime_services status), dto_channel_configured = None,
      dto_readiness = None, dto_shared_printers = None, dto_client_queues = None,
      dto_status_failure = None, dto_recent_failure = None\<rparr>"

record AppErrorDto =
  dto_error_code :: ustr
  dto_error_message :: ustr

definition app_error_dto :: "AppError \<Rightarrow> AppErrorDto" where
  "app_error_dto e = \<lparr>dto_error_code = code_str e, dto_error_message = err_message e\<rparr>"

section \<open>Printers and queues\<close>

record LocalPrinterDto =
  dto_printer_name :: ustr
  dto_printer_shared :: bool

definition local_printer_dto :: "LocalPrinter \<Rightarrow> LocalPrinterDto" where
  "local_printer_dto p =
     \<lparr>dto_printer_name = PrinterName_as_str (local_name p), dto_printer_shared = local_shared p\<rparr>"

definition local_printers_dto :: "LocalPrinter list \<Rightarrow> LocalPrinterDto list" where
  "local_printers_dto ps = map local_printer_dto ps"

record RecognisedClientQueueDto =
  dto_queue_name :: ustr
  dto_server_address :: ustr
  dto_queue_printer :: ustr

definition parse_target :: "RecognisedClientQueueDto \<Rightarrow> AppError + RecognisedClientQueue" where
  "parse_target d =
     and_then (ServerAddress_parse (dto_server_address d)) (\<lambda>address.
     and_then (PrinterName_parse (dto_queue_printer d)) (\<lambda>printer.
     and_then (ClientQueueName_parse (dto_queue_name d)) (\<lambda>name.
     Inr \<lparr>recognised_queue_name = name, recognised_server_address = addr_normalized address,
          recognised_printer_name = printer\<rparr>)))"

definition recognised_queue_dto :: "RecognisedClientQueue \<Rightarrow> RecognisedClientQueueDto" where
  "recognised_queue_dto q =
     \<lparr>dto_queue_name = ClientQueueName_as_str (recognised_queue_name q),
      dto_server_address = recognised_server_address q,
      dto_queue_printer = PrinterName_as_str (recognised_printer_name q)\<rparr>"

record ServerIdentityDto =
  dto_fingerprint :: ustr
  dto_port :: u16

record ClientQueueDto =
  dto_installed_name :: ustr
  dto_installed_server :: ustr
  dto_installed_printer :: ustr
  dto_installed_uri :: ustr

definition client_queue_dto :: "ClientQueue \<Rightarrow> ClientQueueDto" where
  "client_queue_dto q =
     \<lparr>dto_installed_name = ClientQueueName_as_str (request_queue_name (queue_request q)),
      dto_installed_server = request_server_address (queue_request q),
      dto_installed_printer = PrinterName_as_str (request_printer (queue_request q)),
      dto_installed_uri = queue_destination q\<rparr>"

section \<open>Troubleshooting\<close>

record DiagnosticCheckDto =
  dto_check :: ustr
  dto_check_status :: ustr
  dto_check_code :: "ustr option"
  dto_check_detail :: ustr
  dto_check_recovery :: "ustr option"

record DiagnosticsReportDto =
  dto_checks :: "DiagnosticCheckDto list"
  dto_healthy :: bool
  dto_report_failure :: "PrintFailureDto option"

record TroubleshootingActionDto =
  dto_action :: ustr
  dto_outcome :: ustr

record LocalTroubleshootingDto =
  dto_target :: RecognisedClientQueueDto
  dto_version :: ustr
  dto_local_checks :: "DiagnosticCheckDto list"
  dto_queue_empty :: bool
  dto_test_print_enabled :: bool
  dto_repair_enabled :: bool
  dto_attempted_actions :: "TroubleshootingActionDto list"
  dto_session_id :: "nat option"
  dto_requested_media :: "ustr option"
  dto_submission :: "ustr option"
  dto_physical_result :: "ustr option"
  dto_user_symptom :: "ustr option"

definition finding_dto :: "LocalFinding \<Rightarrow> DiagnosticCheckDto" where
  "finding_dto finding =
     (case description finding of (check, status, detail, code) \<Rightarrow>
        \<lparr>dto_check = check, dto_check_status = status, dto_check_code = map_option ErrorCode_as_str code,
         dto_check_detail = detail, dto_check_recovery = None\<rparr>)"

text \<open>\<open>version\<close> is the version of the package.\<close>

definition troubleshooting_dto :: "ustr \<Rightarrow> TroubleshootingSnapshot \<Rightarrow> LocalTroubleshootingDto" where
  "troubleshooting_dto pkg s =
     \<lparr>dto_target = recognised_queue_dto (snapshot_target s), dto_version = pkg,
      dto_local_checks = map finding_dto (snapshot_checks s),
      dto_queue_empty = (QueueEmpty \<in> set (snapshot_checks s)), dto_test_print_enabled = False,
      dto_repair_enabled = is_repair_eligible s, dto_attempted_actions = [], dto_session_id = None,
      dto_requested_media = None, dto_submission = None, dto_physical_result = None,
      dto_user_symptom = None\<rparr>"

text \<open>Only an accepted or uncertain attempt may have printed a page, and makes the next one a retry.\<close>

fun attempted_actions :: "bool \<Rightarrow> SubmissionOutcome list \<Rightarrow> TroubleshootingActionDto list" where
  "attempted_actions page_may_exist [] = []"
| "attempted_actions page_may_exist (outcome # outcomes) =
     \<lparr>dto_action = (if page_may_exist then lit ''retry-test-print'' else lit ''send-test-print''),
      dto_outcome = SubmissionOutcome_as_str outcome\<rparr>
     # attempted_actions (page_may_exist \<or> outcome \<in> {Accepted, Uncertain}) outcomes"

definition media_check :: "bool \<Rightarrow> DiagnosticCheckDto" where
  "media_check known =
     \<lparr>dto_check = lit ''requested-media'',
      dto_check_status = (if known then lit ''passed'' else lit ''inconclusive''),
      dto_check_code = (if known then None else Some (lit ''unsupported'')),
      dto_check_detail =
        (if known then lit ''The Client queue default Requested media is supported.''
         else lit ''The default Requested media is missing, unsupported, or could not be read. Inspect the native queue printing preferences, choose a supported default size, then check again. No substitute size will be used.''),
      dto_check_recovery = None\<rparr>"

definition test_print_dto :: "ustr \<Rightarrow> TestPrintSnapshot \<Rightarrow> LocalTroubleshootingDto" where
  "test_print_dto pkg s =
     (let dto = troubleshooting_dto pkg (session_diagnostics s);
          media = map_option keyword (requested_media s)
      in dto\<lparr>dto_session_id := Some (session_id s), dto_requested_media := media,
             dto_submission := Some (SubmissionOutcome_as_str (session_submission s)),
             dto_physical_result := Some (PhysicalResult_as_str (physical_result s)),
             dto_user_symptom := map_option UserSymptom_as_str (user_symptom s),
             dto_test_print_enabled := can_send s,
             dto_attempted_actions := attempted_actions False (session_attempts s),
             dto_local_checks := dto_local_checks dto
               @ (if session_supported s then [media_check (media \<noteq> None)] else [])\<rparr>)"

section \<open>Startup and import\<close>

record StartupStatusDto =
  dto_supported :: bool
  dto_enabled :: bool
  dto_command :: ustr

definition startup_status_dto :: "StartupStatus \<Rightarrow> StartupStatusDto" where
  "startup_status_dto s =
     \<lparr>dto_supported = status_supported s, dto_enabled = status_enabled s, dto_command = status_command s\<rparr>"

record LegacySettingDto =
  dto_setting_key :: ustr
  dto_setting_label :: ustr
  dto_setting_reason :: ustr

definition legacy_setting_dto :: "SkippedSetting \<Rightarrow> LegacySettingDto" where
  "legacy_setting_dto s =
     \<lparr>dto_setting_key = skipped_key s, dto_setting_label = skipped_label s, dto_setting_reason = skipped_reason s\<rparr>"

record LegacyImportReportDto =
  dto_found :: bool
  dto_channel :: ustr
  dto_channel_note :: ustr
  dto_settings :: "LegacySettingDto list"
  dto_queues_need_reselection :: bool

definition import_report_dto :: "ImportReport \<Rightarrow> LegacyImportReportDto" where
  "import_report_dto r =
     \<lparr>dto_found = report_found r, dto_channel = ChannelOutcome_as_str (report_channel r),
      dto_channel_note = outcome_note (report_channel r),
      dto_settings = map legacy_setting_dto (report_settings r),
      dto_queues_need_reselection = queues_need_reselection r\<rparr>"

section \<open>What a payload keeps\<close>

text \<open>The queue a list of client queues names is the one a request that quotes it is about.\<close>

lemma parse_recognised_queue:
  assumes "ServerAddress_parse (recognised_server_address q) = Inr address"
    "addr_normalized address = recognised_server_address q"
    "wf_name (PrinterName_as_str (recognised_printer_name q))"
    "ClientQueueName_parse (ClientQueueName_as_str (recognised_queue_name q)) = Inr (recognised_queue_name q)"
  shows "parse_target (recognised_queue_dto q) = Inr q"
proof -
  have "PrinterName_parse (PrinterName_as_str (recognised_printer_name q)) = Inr (recognised_printer_name q)"
    using assms(3) by (simp add: PrinterName_parse_Inr_iff wf_name_def)
  with assms show ?thesis by (simp add: parse_target_def recognised_queue_dto_def)
qed

end
