(* ===== verification/Port_Binding.thy ===== *)
theory Port_Binding
  imports Proxy_Http
begin

text \<open>
  \<open>adapters/port_binding.rs\<close>: binding the fixed ports. A busy port is taken from its owners when all of
  them are ShaPrint. The interface to the operating system is the record \<open>Inspector\<close>; its Linux
  implementation reads the socket tables and the process directory, which are the state here.
\<close>

section \<open>Owners\<close>

datatype PortTransport = Tcp | Udp

definition PortTransport_as_str :: "PortTransport \<Rightarrow> ustr" where
  "PortTransport_as_str t = (case t of Tcp \<Rightarrow> lit ''TCP'' | Udp \<Rightarrow> lit ''UDP'')"

record LinuxProcessIdentity =
  identity_executable :: ustr
  identity_start_time :: nat

record PortOwner =
  owner_pid :: nat
  owner_name :: ustr
  owner_identity :: "LinuxProcessIdentity option"

definition PortOwner_new :: "nat \<Rightarrow> ustr \<Rightarrow> PortOwner" where
  "PortOwner_new pid name = \<lparr>owner_pid = pid, owner_name = name, owner_identity = None\<rparr>"

definition UNKNOWN_PROCESS_NAME :: ustr where "UNKNOWN_PROCESS_NAME = lit ''<unknown>''"

text \<open>\<open>trim_end_matches\<close> for a string takes every copy of it from the end.\<close>

function trim_end_str :: "ustr \<Rightarrow> ustr \<Rightarrow> ustr" where
  "trim_end_str p s =
     (case strip_suffix s p of Some t \<Rightarrow> if p = [] then s else trim_end_str p t | None \<Rightarrow> s)"
  by pat_completeness auto
termination
  by (relation "measure (length \<circ> snd)") (auto simp: strip_suffix_Some_iff)

declare trim_end_str.simps [simp del]

definition last_piece :: "ustr \<Rightarrow> ustr" where
  "last_piece name = rev (takeWhile (\<lambda>c. c \<noteq> 92 \<and> c \<noteq> 47) (rev name))"

definition shaprint_names :: "ustr list" where
  "shaprint_names = [lit ''shaprint'', lit ''shaprint-desktop'', lit ''shaprintd'']"

definition is_shaprint_name :: "ustr \<Rightarrow> bool" where
  "is_shaprint_name process_name =
     (let name = trim_end_str (lit ''.exe'') (last_piece process_name)
      in list_ex (eq_ignore_ascii_case name) shaprint_names)"

definition is_shaprint :: "PortOwner \<Rightarrow> bool" where
  "is_shaprint owner = is_shaprint_name (owner_name owner)"

definition is_unknown :: "PortOwner \<Rightarrow> bool" where
  "is_unknown owner \<longleftrightarrow> owner_name owner = UNKNOWN_PROCESS_NAME"

section \<open>Binding\<close>

datatype BindOutcome = Bound | AddrInUse | BindFails ustr

text \<open>
  The operating system as the binder sees it: the trait \<open>PortOwnerInspector\<close>, the bind call, and the time.
  \<open>'w\<close> is its state.
\<close>

record 'w Inspector =
  inspect_owners :: "PortTransport \<Rightarrow> nat \<Rightarrow> 'w \<Rightarrow> ustr + PortOwner list"
  inspect_terminate :: "PortOwner \<Rightarrow> 'w \<Rightarrow> (ustr + unit) \<times> 'w"
  current_process :: nat
  bind_port :: "PortTransport \<Rightarrow> nat \<Rightarrow> 'w \<Rightarrow> BindOutcome \<times> 'w"
  sleep_poll :: "'w \<Rightarrow> 'w"
  clock_ms :: "'w \<Rightarrow> nat"

definition DEFAULT_RECLAIM_TIMEOUT :: nat where "DEFAULT_RECLAIM_TIMEOUT = 3000"
definition DEFAULT_POLL_INTERVAL :: nat where "DEFAULT_POLL_INTERVAL = 50"

definition port_text :: "PortTransport \<Rightarrow> nat \<Rightarrow> ustr" where
  "port_text t port = PortTransport_as_str t @ lit '' port '' @ show_nat port"

definition owner_text :: "PortOwner \<Rightarrow> ustr" where
  "owner_text owner = [39] @ owner_name owner @ [39] @ lit '' (PID '' @ show_nat (owner_pid owner) @ lit '')''"

definition conflict_error :: "PortTransport \<Rightarrow> nat \<Rightarrow> PortOwner \<Rightarrow> AppError" where
  "conflict_error t port owner =
     internal_error (port_text t port @ lit '' is in use by process '' @ owner_text owner
       @ lit ''; ShaPrint did not terminate it. Close that program or choose another port.'')"

definition bind_failure :: "PortTransport \<Rightarrow> nat \<Rightarrow> BindOutcome \<Rightarrow> AppError" where
  "bind_failure t port outcome =
     (case outcome of
        BindFails reason \<Rightarrow> internal_error (lit ''cannot bind '' @ port_text t port @ lit '': '' @ reason)
      | _ \<Rightarrow> internal_error (port_text t port
          @ lit '' remains in use after stale-process reclamation; no unrelated process was terminated''))"

definition inspect_port :: "'w Inspector \<Rightarrow> PortTransport \<Rightarrow> nat \<Rightarrow> 'w \<Rightarrow> AppError + PortOwner list" where
  "inspect_port os t port w =
     map_err (\<lambda>reason. internal_error (lit ''cannot inspect the process using '' @ port_text t port
         @ lit ''; no process was terminated: '' @ reason))
       (inspect_owners os t port w)"

definition terminate_owner ::
  "'w Inspector \<Rightarrow> PortTransport \<Rightarrow> nat \<Rightarrow> PortOwner \<Rightarrow> 'w \<Rightarrow> (AppError + unit) \<times> 'w" where
  "terminate_owner os t port owner w =
     (case inspect_terminate os owner w of
        (Inl reason, w) \<Rightarrow>
          (Inl (internal_error (lit ''could not terminate stale ShaPrint process '' @ owner_text owner
             @ lit '' holding '' @ port_text t port @ lit '': '' @ reason)), w)
      | (Inr _, w) \<Rightarrow> (Inr (), w))"

fun terminate_all ::
  "'w Inspector \<Rightarrow> PortTransport \<Rightarrow> nat \<Rightarrow> PortOwner list \<Rightarrow> 'w \<Rightarrow> (AppError + unit) \<times> 'w" where
  "terminate_all os t port [] w = (Inr (), w)"
| "terminate_all os t port (owner # owners) w =
     (case terminate_owner os t port owner w of
        (Inl e, w) \<Rightarrow> (Inl e, w)
      | (Inr _, w) \<Rightarrow> terminate_all os t port owners w)"

definition foreign_owner :: "'w Inspector \<Rightarrow> PortOwner \<Rightarrow> bool" where
  "foreign_owner os owner \<longleftrightarrow> owner_pid owner = current_process os \<or> \<not> is_shaprint owner"

definition foreign_remaining :: "'w Inspector \<Rightarrow> nat list \<Rightarrow> PortOwner \<Rightarrow> bool" where
  "foreign_remaining os terminated owner \<longleftrightarrow>
     owner_pid owner = current_process os
     \<or> \<not> is_shaprint owner \<and> \<not> (is_unknown owner \<and> owner_pid owner \<in> set terminated)"

text \<open>One look at the port after the signals: it is released, taken by another, kept too long, or still kept.\<close>

definition look_again ::
  "'w Inspector \<Rightarrow> PortTransport \<Rightarrow> nat \<Rightarrow> nat list \<Rightarrow> nat \<Rightarrow> 'w \<Rightarrow> (AppError + unit) option" where
  "look_again os t port terminated deadline w =
     (case inspect_port os t port w of
        Inl e \<Rightarrow> Some (Inl e)
      | Inr remaining \<Rightarrow>
          if remaining = [] then Some (Inr ())
          else (case List.find (foreign_remaining os terminated) remaining of
                  Some owner \<Rightarrow> Some (Inl (conflict_error t port owner))
                | None \<Rightarrow>
                    if clock_ms os w \<ge> deadline
                    then Some (Inl (internal_error (lit ''stale ShaPrint process '' @ owner_text (hd remaining)
                           @ lit '' did not release '' @ port_text t port @ lit '' within 3 seconds'')))
                    else None))"

text \<open>\<open>None\<close> is a wait that is still going on when the fuel is used up.\<close>

fun wait_release ::
  "'w Inspector \<Rightarrow> nat \<Rightarrow> PortTransport \<Rightarrow> nat \<Rightarrow> nat list \<Rightarrow> nat \<Rightarrow> 'w \<Rightarrow> ((AppError + unit) \<times> 'w) option" where
  "wait_release os 0 t port terminated deadline w = None"
| "wait_release os (Suc fuel) t port terminated deadline w =
     (case look_again os t port terminated deadline w of
        Some r \<Rightarrow> Some (r, w)
      | None \<Rightarrow> wait_release os fuel t port terminated deadline (sleep_poll os w))"

definition reclaim :: "'w Inspector \<Rightarrow> nat \<Rightarrow> PortTransport \<Rightarrow> nat \<Rightarrow> 'w \<Rightarrow> ((AppError + unit) \<times> 'w) option" where
  "reclaim os fuel t port w =
     (case inspect_port os t port w of
        Inl e \<Rightarrow> Some (Inl e, w)
      | Inr owners \<Rightarrow>
          if owners = []
          then Some (Inl (internal_error (port_text t port
                 @ lit '' is in use, but its process owner could not be identified; no process was terminated'')), w)
          else (case List.find (foreign_owner os) owners of
                  Some owner \<Rightarrow> Some (Inl (conflict_error t port owner), w)
                | None \<Rightarrow>
                    (case terminate_all os t port owners w of
                       (Inl e, w) \<Rightarrow> Some (Inl e, w)
                     | (Inr _, w) \<Rightarrow>
                         wait_release os fuel t port (map owner_pid owners)
                           (clock_ms os w + DEFAULT_RECLAIM_TIMEOUT) w)))"

text \<open>\<open>bind_tcp\<close> and \<open>bind_udp\<close>.\<close>

definition bind_safely ::
  "'w Inspector \<Rightarrow> nat \<Rightarrow> PortTransport \<Rightarrow> nat \<Rightarrow> 'w \<Rightarrow> ((AppError + unit) \<times> 'w) option" where
  "bind_safely os fuel t port w =
     (case bind_port os t port w of
        (Bound, w) \<Rightarrow> Some (Inr (), w)
      | (BindFails reason, w) \<Rightarrow> Some (Inl (bind_failure t port (BindFails reason)), w)
      | (AddrInUse, w) \<Rightarrow>
          (case reclaim os fuel t port w of
             None \<Rightarrow> None
           | Some (Inl e, w) \<Rightarrow> Some (Inl e, w)
           | Some (Inr _, w) \<Rightarrow>
               (case bind_port os t port w of
                  (Bound, w) \<Rightarrow> Some (Inr (), w)
                | (outcome, w) \<Rightarrow> Some (Inl (bind_failure t port outcome), w))))"

section \<open>The processes of Linux\<close>

text \<open>
  What can be read of a process: \<open>comm\<close>, \<open>stat\<close>, the link of its executable, and where its descriptors
  point. \<open>None\<close> is what cannot be read.
\<close>

record LinuxProcess =
  proc_comm :: "ustr option"
  proc_stat :: "ustr option"
  proc_exe :: "ustr option"
  proc_fds :: "ustr list option"

datatype NetTable = NoTable | TableFails ustr | TableText ustr

text \<open>
  The entries of \<open>/proc\<close> in the order of the directory, unless it cannot be read, and the processes that a
  signal was sent to, the last one first.
\<close>

record Linux =
  net_table :: "ustr \<Rightarrow> NetTable"
  proc_error :: "ustr option"
  proc_entries :: "(ustr \<times> LinuxProcess) list"
  signalled :: "nat list"
  linux_time_ms :: nat

definition proc_of :: "nat \<Rightarrow> Linux \<Rightarrow> LinuxProcess option" where
  "proc_of pid w = map_of (proc_entries w) (show_nat pid)"

definition linux_process_name :: "nat \<Rightarrow> Linux \<Rightarrow> ustr" where
  "linux_process_name pid w =
     (case Option.bind (proc_of pid w) proc_comm of
        Some comm \<Rightarrow> if trim comm = [] then UNKNOWN_PROCESS_NAME else trim comm
      | None \<Rightarrow> UNKNOWN_PROCESS_NAME)"

definition linux_process_identity :: "nat \<Rightarrow> Linux \<Rightarrow> LinuxProcessIdentity option" where
  "linux_process_identity pid w =
     Option.bind (Option.bind (proc_of pid w) proc_stat) (\<lambda>stat.
     Option.bind (rsplit_once stat [41]) (\<lambda>(_, rest).
     let fields = split_whitespace rest in
     Option.bind (slice_at fields 19) (\<lambda>field.
     Option.bind (parse_unsigned (2 ^ 64 - 1) field) (\<lambda>start.
     Option.bind (Option.bind (proc_of pid w) proc_exe) (\<lambda>exe.
     Some \<lparr>identity_executable = exe, identity_start_time = start\<rparr>)))))"

text \<open>\<open>Path::file_name\<close> of the link, which is absolute.\<close>

definition linux_executable_is_shaprint :: "ustr \<Rightarrow> bool" where
  "linux_executable_is_shaprint exe = is_shaprint_name (rev (takeWhile (\<lambda>c. c \<noteq> 47) (rev exe)))"

definition socket_inode :: "ustr \<Rightarrow> nat option" where
  "socket_inode target =
     Option.bind (strip_prefix target (lit ''socket:['')) (\<lambda>v.
     Option.bind (strip_suffix v (lit '']'')) (parse_unsigned (2 ^ 64 - 1)))"

definition table_lines :: "ustr \<Rightarrow> ustr list" where
  "table_lines contents =
     (let pieces = split_char 10 contents;
          pieces = (if last pieces = [] then butlast pieces else pieces)
      in map (\<lambda>l. case strip_suffix l [13] of Some t \<Rightarrow> t | None \<Rightarrow> l) pieces)"

definition table_inode :: "PortTransport \<Rightarrow> nat \<Rightarrow> ustr \<Rightarrow> nat option" where
  "table_inode t port l =
     (let fields = split_whitespace l in
      Option.bind (slice_at fields 1) (\<lambda>local_address.
      Option.bind (rsplit_once local_address [58]) (\<lambda>(_, port_hex).
      if parse_hex 65535 port_hex \<noteq> Some port then None
      else if t = Tcp \<and> slice_at fields 3 \<noteq> Some (lit ''0A'') then None
      else Option.bind (slice_at fields 9) (parse_unsigned (2 ^ 64 - 1)))))"

definition table_paths :: "PortTransport \<Rightarrow> ustr list" where
  "table_paths t =
     (case t of Tcp \<Rightarrow> [lit ''/proc/net/tcp'', lit ''/proc/net/tcp6'']
              | Udp \<Rightarrow> [lit ''/proc/net/udp'', lit ''/proc/net/udp6''])"

fun socket_inodes_of :: "PortTransport \<Rightarrow> nat \<Rightarrow> Linux \<Rightarrow> ustr list \<Rightarrow> ustr + nat list" where
  "socket_inodes_of t port w [] = Inr []"
| "socket_inodes_of t port w (p # ps) =
     (case net_table w p of
        NoTable \<Rightarrow> socket_inodes_of t port w ps
      | TableFails reason \<Rightarrow> Inl reason
      | TableText contents \<Rightarrow>
          (case socket_inodes_of t port w ps of
             Inl e \<Rightarrow> Inl e
           | Inr inodes \<Rightarrow> Inr (List.map_filter (table_inode t port) (drop 1 (table_lines contents)) @ inodes)))"

definition linux_socket_inodes :: "PortTransport \<Rightarrow> nat \<Rightarrow> Linux \<Rightarrow> ustr + nat list" where
  "linux_socket_inodes t port w = socket_inodes_of t port w (table_paths t)"

text \<open>Taking the inodes of a process from those that are still without an owner.\<close>

fun take_inodes :: "ustr list \<Rightarrow> nat list \<Rightarrow> bool \<times> nat list" where
  "take_inodes [] remaining = (False, remaining)"
| "take_inodes (target # targets) remaining =
     (case socket_inode target of
        Some inode \<Rightarrow>
          (case take_inodes targets (removeAll inode remaining) of
             (owns, remaining') \<Rightarrow> (owns \<or> inode \<in> set remaining, remaining'))
      | None \<Rightarrow> take_inodes targets remaining)"

definition owner_of :: "nat \<Rightarrow> Linux \<Rightarrow> PortOwner" where
  "owner_of pid w =
     (PortOwner_new pid (linux_process_name pid w))\<lparr>owner_identity := linux_process_identity pid w\<rparr>"

fun scan_processes :: "(ustr \<times> LinuxProcess) list \<Rightarrow> nat list \<Rightarrow> nat list \<Rightarrow> Linux \<Rightarrow> PortOwner list" where
  "scan_processes [] seen remaining w = []"
| "scan_processes ((name, p) # entries) seen remaining w =
     (case parse_unsigned (2 ^ 32 - 1) name of
        None \<Rightarrow> scan_processes entries seen remaining w
      | Some pid \<Rightarrow>
          if pid \<in> set seen then scan_processes entries seen remaining w
          else
            (case proc_fds p of
               None \<Rightarrow> scan_processes entries (pid # seen) remaining w
             | Some fds \<Rightarrow>
                 (case take_inodes fds remaining of
                    (owns, remaining) \<Rightarrow>
                      if owns
                      then owner_of pid w #
                        (if remaining = [] then [] else scan_processes entries (pid # seen) remaining w)
                      else scan_processes entries (pid # seen) remaining w)))"

definition linux_owners :: "nat \<Rightarrow> PortTransport \<Rightarrow> nat \<Rightarrow> Linux \<Rightarrow> ustr + PortOwner list" where
  "linux_owners self t port w =
     (case linux_socket_inodes t port w of
        Inl reason \<Rightarrow> Inl reason
      | Inr inodes \<Rightarrow>
          if inodes = [] then Inr []
          else
            (case take_inodes (case Option.bind (proc_of self w) proc_fds of Some fds \<Rightarrow> fds | None \<Rightarrow> []) inodes of
               (owns_self, remaining) \<Rightarrow>
                 if owns_self \<and> remaining = [] then Inr [owner_of self w]
                 else
                   (case proc_error w of
                      Some reason \<Rightarrow> Inl reason
                    | None \<Rightarrow>
                        Inr (sort_key owner_pid
                          ((if owns_self then [owner_of self w] else [])
                           @ scan_processes (proc_entries w) [self] remaining w)))))"

definition linux_terminate :: "nat \<Rightarrow> (nat \<Rightarrow> ustr option) \<Rightarrow> PortOwner \<Rightarrow> Linux \<Rightarrow> (ustr + unit) \<times> Linux" where
  "linux_terminate self kill_error owner w =
     (if owner_pid owner = self \<or> \<not> is_shaprint owner
      then (Inl (lit ''refusing to terminate the current or an unrelated process''), w)
      else
        (case owner_identity owner of
           None \<Rightarrow> (Inl (lit ''stale port owner identity is unavailable; refusing to terminate it''), w)
         | Some expected \<Rightarrow>
             (case linux_process_identity (owner_pid owner) w of
                None \<Rightarrow> (Inl (lit ''stale port owner identity disappeared; refusing to terminate it''), w)
              | Some current \<Rightarrow>
                  let current_name = linux_process_name (owner_pid owner) w in
                  if current \<noteq> expected \<or> \<not> linux_executable_is_shaprint (identity_executable current)
                    \<or> current_name = UNKNOWN_PROCESS_NAME
                    \<or> \<not> eq_ignore_ascii_case current_name (owner_name owner)
                    \<or> \<not> is_shaprint (PortOwner_new (owner_pid owner) current_name)
                  then (Inl (lit ''stale port owner identity changed; refusing to terminate it''), w)
                  else
                    (case kill_error (owner_pid owner) of
                       Some reason \<Rightarrow> (Inl reason, w\<lparr>signalled := owner_pid owner # signalled w\<rparr>)
                     | None \<Rightarrow> (Inr (), w\<lparr>signalled := owner_pid owner # signalled w\<rparr>)))))"

text \<open>
  The inspector on Linux. How a bind ends, and what the processes do during a poll, is up to the system;
  \<open>signalled\<close> only records what this program sent.
\<close>

definition linux_inspector ::
  "nat \<Rightarrow> (nat \<Rightarrow> ustr option) \<Rightarrow> (PortTransport \<Rightarrow> nat \<Rightarrow> Linux \<Rightarrow> BindOutcome) \<Rightarrow> (Linux \<Rightarrow> Linux)
    \<Rightarrow> Linux Inspector" where
  "linux_inspector self kill_error bind_outcome passes =
     \<lparr>inspect_owners = linux_owners self, inspect_terminate = linux_terminate self kill_error,
      current_process = self, bind_port = (\<lambda>t port w. (bind_outcome t port w, w)),
      sleep_poll = (\<lambda>w. (passes w)\<lparr>signalled := signalled w\<rparr>), clock_ms = linux_time_ms\<rparr>"

end
