(* ===== verification/Diagnostics.thy ===== *)
theory Diagnostics
  imports Ipc_Payloads Port_Binding Trust_Store Network_Channel
begin

text \<open>
  \<open>adapters/diagnostics.rs\<close>: the checks of the daemon, the ports, CUPS, the approvals, the credential and
  the firewall, and the report made of them. What the checks ask of the machine is the record \<open>Probe\<close>.
\<close>

section \<open>Ports\<close>

text \<open>\<open>RuntimePorts\<close> of \<open>lib.rs\<close>.\<close>

record RuntimePorts =
  ports_proxy :: u16
  ports_server :: u16
  ports_discovery :: "u16 list"

definition default_ports :: RuntimePorts where
  "default_ports = \<lparr>ports_proxy = 48632, ports_server = of_nat DEFAULT_PORT, ports_discovery = [48633]\<rparr>"

datatype FirewallAnswer = FirewallAllows bool | FirewallFails ustr | FirewallTimesOut

text \<open>
  \<open>probe_cups\<close> is the argument for \<open>lpadmin\<close>, a path or a host; a control socket or a CUPS socket is there
  or not; the credential file is as in the channel.
\<close>

record Probe =
  probe_owners :: "PortTransport \<Rightarrow> nat \<Rightarrow> ustr + PortOwner list"
  probe_pid :: nat
  probe_cups :: ustr
  probe_cups_exists :: bool
  probe_lpstat_ok :: bool
  probe_socket :: ustr
  probe_socket_answers :: bool
  probe_credential_path :: ustr
  probe_credential :: "bytes FileState"
  probe_root :: bool
  probe_firewall :: FirewallAnswer

section \<open>Checks\<close>

definition check_ok :: "ustr \<Rightarrow> ustr \<Rightarrow> DiagnosticCheckDto" where
  "check_ok name detail =
     \<lparr>dto_check = name, dto_check_status = lit ''ok'', dto_check_code = None, dto_check_detail = detail,
      dto_check_recovery = None\<rparr>"

definition check_failed :: "ustr \<Rightarrow> ErrorCode \<Rightarrow> ustr \<Rightarrow> ustr \<Rightarrow> DiagnosticCheckDto" where
  "check_failed name code detail recovery =
     \<lparr>dto_check = name, dto_check_status = lit ''failed'', dto_check_code = Some (ErrorCode_as_str code),
      dto_check_detail = detail, dto_check_recovery = Some recovery\<rparr>"

definition discovery_port :: "RuntimePorts \<Rightarrow> nat" where
  "discovery_port ports = (case ports_discovery ports of p # _ \<Rightarrow> unat p | [] \<Rightarrow> 48633)"

definition required_ports :: "RuntimePorts \<Rightarrow> (PortTransport \<times> nat \<times> ustr) list" where
  "required_ports ports =
     [(Tcp, unat (ports_server ports), lit ''IPPS Server''),
      (Tcp, unat (ports_proxy ports), lit ''Client Proxy''),
      (Udp, discovery_port ports, lit ''Server Discovery'')]"

fun first_conflict ::
  "Probe \<Rightarrow> (PortTransport \<times> nat \<times> ustr) list \<Rightarrow> (PortTransport \<times> nat \<times> ustr \<times> PortOwner) option" where
  "first_conflict probe [] = None"
| "first_conflict probe ((t, port, role) # rest) =
     (case probe_owners probe t port of
        Inl _ \<Rightarrow> first_conflict probe rest
      | Inr owners \<Rightarrow>
          (case List.find (\<lambda>owner. \<not> is_shaprint owner \<and> owner_pid owner \<noteq> probe_pid probe) owners of
             Some owner \<Rightarrow> Some (t, port, role, owner)
           | None \<Rightarrow> first_conflict probe rest))"

definition check_ports :: "Probe \<Rightarrow> RuntimePorts \<Rightarrow> DiagnosticCheckDto" where
  "check_ports probe ports =
     (case first_conflict probe (required_ports ports) of
        Some (t, port, role, owner) \<Rightarrow>
          check_failed (lit ''ports'') InvalidState
            (lit ''port '' @ show_nat port @ lit '' ('' @ PortTransport_as_str t @ [32] @ role
               @ lit '') is occupied by conflicting process '' @ owner_text owner)
            (lit ''Stop the conflicting process (PID '' @ show_nat (owner_pid owner) @ lit '', '' @ [39]
               @ owner_name owner @ [39] @ lit '') or configure ShaPrint to use alternative ports'')
      | None \<Rightarrow>
          check_ok (lit ''ports'')
            (lit ''TCP '' @ show_nat (unat (ports_server ports)) @ lit '', TCP '' @ show_nat (unat (ports_proxy ports))
             @ lit '', UDP '' @ show_nat (discovery_port ports) @ lit '' are available or owned by ShaPrint''))"

definition start_cups :: ustr where "start_cups = lit ''Start the CUPS service: sudo systemctl start cups''"

definition check_cups :: "Probe \<Rightarrow> DiagnosticCheckDto" where
  "check_cups probe =
     (let target = probe_cups probe;
          quoted_target = [39] @ target @ [39];
          is_path = starts_with target [47] in
      if is_path \<and> \<not> probe_cups_exists probe
      then check_failed (lit ''cups'') QueueUnavailable
             (lit ''CUPS socket '' @ quoted_target @ lit '' does not exist'') start_cups
      else if probe_lpstat_ok probe
      then check_ok (lit ''cups'') (lit ''CUPS service is responsive ('' @ target @ lit '')'')
      else if is_path \<and> probe_cups_exists probe
      then check_ok (lit ''cups'') (lit ''CUPS socket exists at '' @ quoted_target)
      else check_failed (lit ''cups'') QueueUnavailable
             (lit ''cannot connect to the local CUPS service at '' @ quoted_target) start_cups)"

text \<open>\<open>None\<close> is a daemon without machine storage.\<close>

definition check_trust :: "ClientConnections option \<Rightarrow> DiagnosticCheckDto \<times> ClientConnections option" where
  "check_trust trust =
     (case trust of
        None \<Rightarrow> (check_ok (lit ''trust'') (lit ''machine trust store is operational''), None)
      | Some st \<Rightarrow>
          (case list_trusted_servers st of
             (Inr servers, st') \<Rightarrow>
               (check_ok (lit ''trust'') (show_nat (length servers) @ lit '' trusted server(s) configured''), Some st')
           | (Inl e, st') \<Rightarrow>
               (\<lparr>dto_check = lit ''trust'', dto_check_status = lit ''failed'', dto_check_code = Some (code_str e),
                 dto_check_detail = lit ''cannot read machine trust store: '' @ err_message e,
                 dto_check_recovery = Some (lit ''Inspect and repair permissions on /var/lib/shaprint/trust'')\<rparr>,
                Some st')))"

definition set_channel_advice :: ustr where
  "set_channel_advice = lit ''Configure the Network Channel: sudo shaprintctl network-channel set''"

definition check_credential_file :: "Probe \<Rightarrow> DiagnosticCheckDto" where
  "check_credential_file probe =
     (case probe_credential probe of
        Missing \<Rightarrow>
          check_failed (lit ''credential'') NotAuthorized
            (lit ''machine Network Channel credential file '' @ [39] @ probe_credential_path probe @ [39]
             @ lit '' does not exist'') set_channel_advice
      | Holds (b # bs) \<Rightarrow>
          check_ok (lit ''credential'') (lit ''machine Network Channel credential file exists'')
      | _ \<Rightarrow>
          check_failed (lit ''credential'') NotAuthorized
            (lit ''machine Network Channel credential file is empty'') set_channel_advice)"

definition check_credential :: "Probe \<Rightarrow> NetworkChannel option \<Rightarrow> DiagnosticCheckDto" where
  "check_credential probe channel =
     (case channel of
        None \<Rightarrow> check_credential_file probe
      | Some nc \<Rightarrow>
          if channel_is_configured nc
          then check_ok (lit ''credential'') (lit ''machine Network Channel is configured'')
          else check_failed (lit ''credential'') NotAuthorized
                 (lit ''machine Network Channel is not configured'') set_channel_advice)"

definition open_ports_advice :: ustr where
  "open_ports_advice = lit ''pen required ports: sudo ufw allow 48631/tcp && sudo ufw allow 48633/udp (or sudo firewall-cmd --permanent --add-port=48631/tcp --add-port=48633/udp && sudo firewall-cmd --reload)''"

definition check_firewall :: "Probe \<Rightarrow> DiagnosticCheckDto" where
  "check_firewall probe =
     (if \<not> probe_root probe
      then \<lparr>dto_check = lit ''firewall'', dto_check_status = lit ''warning'',
            dto_check_code = Some (ErrorCode_as_str NotAuthorized),
            dto_check_detail = lit ''firewall rules were not inspected; administrator access is required'',
            dto_check_recovery = Some (lit ''To inspect explicitly, run sudo firewall-cmd --list-ports for firewalld or sudo ufw status for UFW.'')\<rparr>
      else
        (case probe_firewall probe of
           FirewallAllows True \<Rightarrow>
             check_ok (lit ''firewall'') (lit ''inbound ports 48631/tcp and 48633/udp are allowed'')
         | FirewallAllows False \<Rightarrow>
             check_failed (lit ''firewall'') NotAuthorized
               (lit ''inbound ports 48631/tcp and 48633/udp are blocked by the firewall'') (lit ''O'' @ open_ports_advice)
         | FirewallFails reason \<Rightarrow>
             check_failed (lit ''firewall'') NotAuthorized (lit ''firewall inspection failed: '' @ reason)
               (lit ''Authorize firewall inspection or o'' @ open_ports_advice)
         | FirewallTimesOut \<Rightarrow>
             check_failed (lit ''firewall'') ServerUnavailable (lit ''firewall inspection timed out'')
               (lit ''Ensure the firewall daemon is responsive: sudo systemctl restart ufw (or sudo systemctl restart firewalld)'')))"

section \<open>Reports\<close>

definition running_check :: "Probe \<Rightarrow> DiagnosticCheckDto" where
  "running_check probe =
     check_ok (lit ''daemon'') (lit ''shaprintd is running (socket: '' @ probe_socket probe @ lit '')'')"

definition has_failed :: "DiagnosticCheckDto list \<Rightarrow> bool" where
  "has_failed checks = list_ex (\<lambda>c. dto_check_status c = lit ''failed'') checks"

definition diagnose_daemon_environment ::
  "Probe \<Rightarrow> RuntimePorts \<Rightarrow> NetworkChannel option \<Rightarrow> ClientConnections option \<Rightarrow> PrintFailure option
    \<Rightarrow> DiagnosticsReportDto \<times> ClientConnections option" where
  "diagnose_daemon_environment probe ports channel trust failure =
     (case check_trust trust of
        (trust_check, trust') \<Rightarrow>
          let checks = [running_check probe, check_ports probe ports, check_cups probe, trust_check,
                        check_credential probe channel, check_firewall probe]
          in (\<lparr>dto_checks = checks, dto_healthy = (\<not> has_failed checks \<and> failure = None),
               dto_report_failure = map_option print_failure_dto failure\<rparr>, trust'))"

definition diagnose_host :: "Probe \<Rightarrow> DiagnosticsReportDto" where
  "diagnose_host probe =
     (let checks =
        [if probe_socket_answers probe then running_check probe
         else check_failed (lit ''daemon'') ServerUnavailable
                (lit ''shaprintd is not running or control socket is unreachable at '' @ [39] @ probe_socket probe @ [39])
                (lit ''Start the system service: sudo systemctl start shaprintd''),
         check_ports probe default_ports, check_cups probe,
         check_ok (lit ''trust'') (lit ''machine trust store is readable''),
         check_credential_file probe, check_firewall probe]
      in \<lparr>dto_checks = checks, dto_healthy = (\<not> has_failed checks), dto_report_failure = None\<rparr>)"

section \<open>What healthy means\<close>

lemma check_status_simps [simp]:
  "dto_check_status (check_ok name detail) = lit ''ok''"
  "dto_check_status (check_failed name code detail recovery) = lit ''failed''"
  by (simp_all add: check_ok_def check_failed_def)

abbreviation failed_check :: "DiagnosticCheckDto \<Rightarrow> bool" where
  "failed_check c \<equiv> dto_check_status c = lit ''failed''"

lemma find_hit: "List.find P xs = Some x \<Longrightarrow> x \<in> set xs \<and> P x"
  by (induction xs) (auto split: if_splits)

lemma first_conflict_None:
  "first_conflict probe required = None \<longleftrightarrow>
    (\<forall>(t, port, role) \<in> set required. \<forall>owners. probe_owners probe t port = Inr owners \<longrightarrow>
      (\<forall>owner \<in> set owners. is_shaprint owner \<or> owner_pid owner = probe_pid probe))"
  by (induction probe required rule: first_conflict.induct)
    (auto simp: find_None_iff split: sum.split option.split dest!: find_hit)

lemma ports_failed: "failed_check (check_ports probe ports) \<longleftrightarrow> first_conflict probe (required_ports ports) \<noteq> None"
  by (cases "first_conflict probe (required_ports ports)") (simp_all add: check_ports_def split: prod.split)

lemma cups_failed: "failed_check (check_cups probe) \<longleftrightarrow>
    \<not> (if starts_with (probe_cups probe) [47] then probe_cups_exists probe else probe_lpstat_ok probe)"
  by (simp add: check_cups_def Let_def)

lemma trust_failed: "failed_check (fst (check_trust (Some st))) \<longleftrightarrow> \<not> is_ok (fst (list_trusted_servers st))"
  by (simp add: check_trust_def split: prod.split sum.split)

lemma credential_failed: "failed_check (check_credential probe (Some nc)) \<longleftrightarrow> \<not> channel_is_configured nc"
  by (simp add: check_credential_def)

lemma firewall_failed:
  "failed_check (check_firewall probe) \<longleftrightarrow> probe_root probe \<and> probe_firewall probe \<noteq> FirewallAllows True"
  by (simp add: check_firewall_def split: FirewallAnswer.split bool.split)

text \<open>
  C99: What a healthy daemon is. The report of a running daemon says healthy exactly when no
  print failure is recorded, nobody but ShaPrint was seen on one of its ports, the CUPS socket exists (or, for
  a CUPS on another host, its scheduler answers), the approvals can be read, a channel is configured, and, as
  far as a daemon that is not root looks at it at all, the firewall lets its ports through.
\<close>

theorem healthy_exactly_when:
  "dto_healthy (fst (diagnose_daemon_environment probe ports (Some nc) (Some st) failure)) =
    (failure = None
     \<and> (\<forall>(t, port, role) \<in> set (required_ports ports). \<forall>owners. probe_owners probe t port = Inr owners \<longrightarrow>
         (\<forall>owner \<in> set owners. is_shaprint owner \<or> owner_pid owner = probe_pid probe))
     \<and> (if starts_with (probe_cups probe) [47] then probe_cups_exists probe else probe_lpstat_ok probe)
     \<and> is_ok (fst (list_trusted_servers st)) \<and> channel_is_configured nc
     \<and> (probe_root probe \<longrightarrow> probe_firewall probe = FirewallAllows True))"
proof -
  obtain c st' where t: "check_trust (Some st) = (c, st')" by fastforce
  then have c: "failed_check c \<longleftrightarrow> \<not> is_ok (fst (list_trusted_servers st))" using trust_failed [of st] by simp
  have any: "has_failed [c1, c2, c3, c4, c5, c6] \<longleftrightarrow>
    failed_check c1 \<or> failed_check c2 \<or> failed_check c3 \<or> failed_check c4 \<or> failed_check c5 \<or> failed_check c6"
    for c1 c2 c3 c4 c5 c6 by (simp add: has_failed_def)
  have "dto_healthy (fst (diagnose_daemon_environment probe ports (Some nc) (Some st) failure)) =
      (\<not> (failed_check (running_check probe) \<or> failed_check (check_ports probe ports) \<or> failed_check (check_cups probe)
        \<or> failed_check c \<or> failed_check (check_credential probe (Some nc)) \<or> failed_check (check_firewall probe))
      \<and> failure = None)"
    by (simp only: diagnose_daemon_environment_def t prod.case Let_def fst_conv any DiagnosticsReportDto.simps)
  then show ?thesis
    unfolding ports_failed cups_failed c credential_failed firewall_failed first_conflict_None
    by (simp add: running_check_def) blast
qed

end
