(* ===== verification/Daemon_Control.thy ===== *)
theory Daemon_Control
  imports Diagnostics Runtime_Coordinator
begin

text \<open>
  \<open>adapters/daemon.rs\<close>: the control socket of the Linux daemon. A connection carries one request and
  its answer. Handling a request is a sequence of steps, each up to the next \<open>await\<close> on a component:
  the components are the models of the other theories, what they ask of the outside is an argument of
  the step, and the rest of the daemon may run between two steps. After \<open>IO_TIMEOUT\<close> the handler is
  dropped where it stands.
\<close>

section \<open>Who may change what\<close>

definition MAX_MESSAGE_BYTES :: nat where "MAX_MESSAGE_BYTES = 8 * 1024"
definition IO_TIMEOUT :: nat where "IO_TIMEOUT = 15"

datatype PeerAccessPolicy = RootOrDaemonOwner | RootOnly | AllowUid u32

definition authorize_mutation :: "PeerAccessPolicy \<Rightarrow> u32 \<Rightarrow> u32 option \<Rightarrow> AppError + unit" where
  "authorize_mutation policy peer_uid daemon_uid =
     (let allowed = (case policy of
            RootOrDaemonOwner \<Rightarrow> peer_uid = 0 \<or> daemon_uid = Some peer_uid
          | RootOnly \<Rightarrow> peer_uid = 0
          | AllowUid expected \<Rightarrow> peer_uid = expected)
      in if allowed then Inr ()
         else Inl (not_authorized (lit ''administrative changes require root privileges (run with sudo)'')))"

section \<open>Requests and answers\<close>

datatype ControlRequest =
    InspectLocalClientQueue RecognisedClientQueueDto
  | RefreshTestPrintSession nat
  | SendTestPrint nat
  | ConfirmTestPrint nat ustr "ustr option"
  | CloseTestPrintSession nat
  | Status
  | ServerIdentity
  | StartService ustr
  | StopService ustr
  | Shutdown
  | Drain "nat option"
  | NetworkChannelStatus
  | SetNetworkChannel ustr
  | InspectServer ustr
  | ApproveServer ustr ustr
  | ForgetServer ustr
  | ListTrustedServers
  | ListServerPrinters ustr
  | InstallClientQueue ustr ustr
  | RepairClientQueue ustr ustr
  | ListClientQueues
  | ListLocalPrinters
  | SetSharedPrinters "ustr list"
  | Diagnostics

record ServerTrustReviewDto =
  dto_review_address :: ustr
  dto_current_fingerprint :: ustr
  dto_previous_fingerprint :: "ustr option"
  dto_review_trusted :: bool

definition server_review_dto :: "ConnectionReview \<Rightarrow> ServerTrustReviewDto" where
  "server_review_dto r =
     \<lparr>dto_review_address = review_address r, dto_current_fingerprint = current_fingerprint r,
      dto_previous_fingerprint = previous_fingerprint r, dto_review_trusted = trusted r\<rparr>"

record TrustedServerEntryDto =
  dto_entry_address :: ustr
  dto_entry_fingerprint :: ustr

definition trusted_entry_dto :: "ustr \<times> ustr \<Rightarrow> TrustedServerEntryDto" where
  "trusted_entry_dto s = \<lparr>dto_entry_address = fst s, dto_entry_fingerprint = snd s\<rparr>"

record TrustedServerPrintersDto =
  dto_listing_address :: ustr
  dto_listing_printers :: "ustr list"

definition server_printers_dto :: "ConnectionPrinters \<Rightarrow> TrustedServerPrintersDto" where
  "server_printers_dto p =
     \<lparr>dto_listing_address = printers_address p, dto_listing_printers = printer_names p\<rparr>"

datatype (discs_sels) ControlResponse =
    LocalTroubleshootingAnswer LocalTroubleshootingDto
  | OkAnswer RuntimeStatusDto
  | DrainAnswer bool nat
  | DiagnosticsAnswer DiagnosticsReportDto
  | ServerIdentityAnswer ServerIdentityDto
  | NetworkChannelAnswer bool
  | ServerReviewAnswer ServerTrustReviewDto
  | TrustedServersAnswer "TrustedServerEntryDto list"
  | ServerPrintersAnswer TrustedServerPrintersDto
  | ForgottenAnswer ustr
  | ClientQueueAnswer ClientQueueDto
  | ClientQueuesAnswer "RecognisedClientQueueDto list"
  | LocalPrintersAnswer "LocalPrinterDto list"
  | ErrAnswer AppErrorDto

section \<open>The daemon\<close>

record 'b DaemonShell =
  shell_channel :: NetworkChannel
  shell_channel_disk :: ChannelDisk
  shell_trust :: ClientConnections
  shell_sharing :: Sharing
  shell_tests :: GuidedTestPrint
  shell_tracker :: Tracker
  shell_failure :: "PrintFailure option"
  shell_identity :: ServerIdentityDto
  shell_broker :: 'b

record 'b Daemon =
  daemon_runtime :: Coordinator
  daemon_shell :: "'b DaemonShell option"
  daemon_stopping :: bool

text \<open>What the outside answers while one step runs.\<close>

record 'b ControlEnv =
  env_sha256 :: "bytes \<Rightarrow> bytes"
  env_hex :: "bytes \<Rightarrow> ustr"
  env_net :: network
  env_disk :: DiskOutcome
  env_channel_io :: ChannelIo
  env_salt :: "bytes option"
  env_printers :: "AppError + PrinterName list"
  env_printers_after :: "AppError + PrinterName list"
  env_saved :: "SavedSharing SaveOutcome"
  env_queues :: "AppError + RecognisedClientQueue list"
  env_queue_catalog :: "queue_catalog option"
  env_installer :: bool
  env_authority :: ustr
  env_broker :: "'b ElevationBroker"
  env_preflight :: "AppError + unit"
  env_probe :: Probe
  env_ports :: RuntimePorts
  env_package :: ustr

definition require_shell :: "'b Daemon \<Rightarrow> AppError + 'b DaemonShell" where
  "require_shell d =
     ok_or (daemon_shell d)
       (invalid_state (lit ''shaprintd is running without machine credential and trust storage attached''))"

definition set_shell :: "'b DaemonShell \<Rightarrow> 'b Daemon \<Rightarrow> 'b Daemon" where
  "set_shell sh d = d\<lparr>daemon_shell := Some sh\<rparr>"

definition any_failed :: "Coordinator \<Rightarrow> bool" where
  "any_failed c \<longleftrightarrow> list_ex (\<lambda>s. status_state s = Failed) (runtime_services (co_status c))"

definition runtime_status_dto :: "'b ControlEnv \<Rightarrow> 'b Daemon \<Rightarrow> RuntimeStatusDto" where
  "runtime_status_dto env d =
     (let dto = runtime_dto (co_status (daemon_runtime d)) in
      case daemon_shell d of
        None \<Rightarrow> dto
      | Some sh \<Rightarrow>
          let configured = channel_is_configured (shell_channel sh);
              failed = any_failed (daemon_runtime d)
          in dto\<lparr>dto_channel_configured := Some configured,
                 dto_shared_printers :=
                   Some (map PrinterName_as_str (SharedPrinters_as_slice (sharing_selection (shell_sharing sh)))),
                 dto_client_queues :=
                   Some (map (\<lambda>q. ClientQueueName_as_str (recognised_queue_name q))
                     (case env_queues env of Inr qs \<Rightarrow> qs | Inl _ \<Rightarrow> [])),
                 dto_status_failure :=
                   (case shell_failure sh of
                      Some f \<Rightarrow> Some (ErrorCode_as_str (failure_code f))
                    | None \<Rightarrow> if failed then Some (ErrorCode_as_str InvalidState) else None),
                 dto_recent_failure := map_option print_failure_dto (shell_failure sh),
                 dto_readiness :=
                   Some (if failed \<or> \<not> configured then lit ''not-ready'' else lit ''ready'')\<rparr>)"

definition install_context :: "'b ControlEnv \<Rightarrow> 'b DaemonShell \<Rightarrow> 'b Daemon \<Rightarrow> InstallContext" where
  "install_context env sh d =
     \<lparr>installer_available = env_installer env, installer_authority = env_authority env,
      install_runtime = co_status (daemon_runtime d), install_channel = channel_is_configured (shell_channel sh)\<rparr>"

section \<open>One request\<close>

text \<open>
  \<open>Answered\<close> is the outcome of a request, and whether the daemon stops after it; the others are the
  waits. A wait for the coordinator remembers whether it is that of \<open>Shutdown\<close>.
\<close>

datatype ControlStep =
    Answered "AppError + ControlResponse" bool
  | AwaitRuntime Pending bool
  | AwaitTest TestPending
  | AwaitDrain nat

definition answer_status :: "'b ControlEnv \<Rightarrow> bool \<Rightarrow> AppError + unit \<Rightarrow> 'b Daemon \<Rightarrow> ControlStep" where
  "answer_status env stop result d =
     (case result of
        Inl e \<Rightarrow> Answered (Inl e) False
      | Inr _ \<Rightarrow> Answered (Inr (OkAnswer (runtime_status_dto env d))) stop)"

definition runtime_step ::
  "'b ControlEnv \<Rightarrow> bool \<Rightarrow> 'b Daemon \<Rightarrow> Outcome \<times> Coordinator \<Rightarrow> ControlStep \<times> 'b Daemon" where
  "runtime_step env stop d r =
     (case r of (outcome, c) \<Rightarrow>
        let d = d\<lparr>daemon_runtime := c\<rparr> in
        (case outcome of
           Returned result \<Rightarrow> (answer_status env stop result d, d)
         | Suspended p \<Rightarrow> (AwaitRuntime p stop, d)))"

definition answer_test :: "'b ControlEnv \<Rightarrow> AppError + TestPrintSnapshot \<Rightarrow> ControlStep" where
  "answer_test env result =
     (case result of
        Inl e \<Rightarrow> Answered (Inl e) False
      | Inr s \<Rightarrow> Answered (Inr (LocalTroubleshootingAnswer (test_print_dto (env_package env) s))) False)"

definition test_step ::
  "'b ControlEnv \<Rightarrow> 'b DaemonShell \<Rightarrow> 'b Daemon \<Rightarrow> TestOutcome \<times> GuidedTestPrint \<Rightarrow> ControlStep \<times> 'b Daemon" where
  "test_step env sh d r =
     (case r of (outcome, g) \<Rightarrow>
        (case outcome of TestReturned result \<Rightarrow> answer_test env result | TestSuspended p \<Rightarrow> AwaitTest p,
         set_shell (sh\<lparr>shell_tests := g\<rparr>) d))"

definition drain_answer :: "Tracker \<Rightarrow> ControlStep" where
  "drain_answer t = Answered (Inr (DrainAnswer True (active_jobs t))) False"

definition drain_idle :: "Tracker \<Rightarrow> bool" where
  "drain_idle t \<longleftrightarrow> active_jobs t = 0 \<and> active_requests t = 0"

definition refuse_control :: "AppError \<Rightarrow> 'b Daemon \<Rightarrow> ControlStep \<times> 'b Daemon" where
  "refuse_control e d = (Answered (Inl e) False, d)"

definition with_shell ::
  "'b Daemon \<Rightarrow> ('b DaemonShell \<Rightarrow> ControlStep \<times> 'b Daemon) \<Rightarrow> ControlStep \<times> 'b Daemon" where
  "with_shell d f = (case require_shell d of Inl e \<Rightarrow> refuse_control e d | Inr sh \<Rightarrow> f sh)"

definition mutating ::
  "(AppError + unit) \<Rightarrow> 'b Daemon \<Rightarrow> ControlStep \<times> 'b Daemon \<Rightarrow> ControlStep \<times> 'b Daemon" where
  "mutating allowed d step = (case allowed of Inl e \<Rightarrow> refuse_control e d | Inr _ \<Rightarrow> step)"

definition answer_with ::
  "('a \<Rightarrow> ControlResponse) \<Rightarrow> AppError + 'a \<Rightarrow> ControlStep" where
  "answer_with f result = (case result of Inl e \<Rightarrow> Answered (Inl e) False | Inr x \<Rightarrow> Answered (Inr (f x)) False)"

definition diagnose_step :: "'b ControlEnv \<Rightarrow> 'b Daemon \<Rightarrow> ControlStep \<times> 'b Daemon" where
  "diagnose_step env d =
     (case daemon_shell d of
        None \<Rightarrow>
          (Answered (Inr (DiagnosticsAnswer
             (fst (diagnose_daemon_environment (env_probe env) (env_ports env) None None None)))) False, d)
      | Some sh \<Rightarrow>
          (case diagnose_daemon_environment (env_probe env) (env_ports env) (Some (shell_channel sh))
                  (Some (shell_trust sh)) (shell_failure sh) of
             (report_made, trust') \<Rightarrow>
               (Answered (Inr (DiagnosticsAnswer report_made)) False,
                case trust' of Some st \<Rightarrow> set_shell (sh\<lparr>shell_trust := st\<rparr>) d | None \<Rightarrow> d)))"

text \<open>
  From the request to the first wait, or to the outcome; \<open>allowed\<close> is the answer of the policy for the
  peer of this connection.
\<close>

definition parse_confirmation :: "ustr \<Rightarrow> ustr option \<Rightarrow> AppError + PhysicalResult \<times> UserSymptom option" where
  "parse_confirmation result symptom =
     and_then (PhysicalResult_parse result) (\<lambda>physical.
     case symptom of
       None \<Rightarrow> Inr (physical, None)
     | Some s \<Rightarrow> and_then (UserSymptom_parse s) (\<lambda>u. Inr (physical, Some u)))"

fun process_request ::
  "'b ControlEnv \<Rightarrow> AppError + unit \<Rightarrow> ControlRequest \<Rightarrow> 'b Daemon \<Rightarrow> ControlStep \<times> 'b Daemon" where
  "process_request env allowed (InspectLocalClientQueue target) d =
     (case parse_target target of
        Inl e \<Rightarrow> refuse_control e d
      | Inr target \<Rightarrow> with_shell d (\<lambda>sh. test_step env sh d (open_session target (shell_tests sh))))"
| "process_request env allowed (RefreshTestPrintSession sid) d =
     with_shell d (\<lambda>sh. test_step env sh d (refresh_begin sid (shell_tests sh)))"
| "process_request env allowed (SendTestPrint sid) d =
     with_shell d (\<lambda>sh. test_step env sh d (send_begin sid (shell_tests sh)))"
| "process_request env allowed (ConfirmTestPrint sid result symptom) d =
     (case parse_confirmation result symptom of
        Inl e \<Rightarrow> refuse_control e d
      | Inr (physical, symptom) \<Rightarrow> with_shell d (\<lambda>sh.
          case confirm_session sid physical symptom (shell_tests sh) of
            (result, g) \<Rightarrow> (answer_test env result, set_shell (sh\<lparr>shell_tests := g\<rparr>) d)))"
| "process_request env allowed (CloseTestPrintSession sid) d =
     with_shell d (\<lambda>sh.
     let d = set_shell (sh\<lparr>shell_tests := close_session sid (shell_tests sh)\<rparr>) d
     in (answer_status env False (Inr ()) d, d))"
| "process_request env allowed Status d =
     (answer_status env False (Inr ()) d, d)"
| "process_request env allowed Diagnostics d =
     diagnose_step env d"
| "process_request env allowed ServerIdentity d =
     with_shell d (\<lambda>sh. (Answered (Inr (ServerIdentityAnswer (shell_identity sh))) False, d))"
| "process_request env allowed NetworkChannelStatus d =
     with_shell d (\<lambda>sh. (Answered (Inr (NetworkChannelAnswer (channel_is_configured (shell_channel sh)))) False, d))"
| "process_request env allowed (InspectServer address) d =
     with_shell d (\<lambda>sh.
     case inspect (env_sha256 env) (env_net env) address (shell_trust sh) of
       (review, st) \<Rightarrow> (answer_with (ServerReviewAnswer \<circ> server_review_dto) review,
                        set_shell (sh\<lparr>shell_trust := st\<rparr>) d))"
| "process_request env allowed ListTrustedServers d =
     with_shell d (\<lambda>sh.
     case list_trusted_servers (shell_trust sh) of
       (servers, st) \<Rightarrow> (answer_with (TrustedServersAnswer \<circ> map trusted_entry_dto) servers,
                         set_shell (sh\<lparr>shell_trust := st\<rparr>) d))"
| "process_request env allowed (ListServerPrinters address) d =
     with_shell d (\<lambda>sh.
     case printers (env_sha256 env) (env_net env) address (shell_trust sh) of
       (listing, st, _) \<Rightarrow> (answer_with (ServerPrintersAnswer \<circ> server_printers_dto) listing,
                            set_shell (sh\<lparr>shell_trust := st\<rparr>) d))"
| "process_request env allowed ListClientQueues d =
     with_shell d (\<lambda>sh.
     (answer_with (ClientQueuesAnswer \<circ> map recognised_queue_dto) (env_queues env), d))"
| "process_request env allowed ListLocalPrinters d =
     with_shell d (\<lambda>sh.
     (answer_with (LocalPrintersAnswer \<circ> local_printers_dto)
        (list_local_printers (env_printers env) (shell_sharing sh)), d))"
| "process_request env allowed (StartService name) d = mutating allowed d (
     (case ServiceId_parse name of
        Inl e \<Rightarrow> refuse_control e d
      | Inr service \<Rightarrow> runtime_step env False d (start_begin (env_preflight env) service (daemon_runtime d))))"
| "process_request env allowed (StopService name) d = mutating allowed d (
     (case ServiceId_parse name of
        Inl e \<Rightarrow> refuse_control e d
      | Inr service \<Rightarrow> runtime_step env False d (stop_begin service (daemon_runtime d))))"
| "process_request env allowed Shutdown d = mutating allowed d (
     runtime_step env True d (shutdown_begin (daemon_runtime d)))"
| "process_request env allowed (Drain timeout_secs) d = mutating allowed d (
     with_shell d (\<lambda>sh.
     let t = begin_drain (shell_tracker sh)
     in (if drain_idle t then drain_answer t
         else AwaitDrain (case timeout_secs of Some s \<Rightarrow> s | None \<Rightarrow> 30),
         set_shell (sh\<lparr>shell_tracker := t\<rparr>) d)))"
| "process_request env allowed (SetNetworkChannel channel) d = mutating allowed d (
     with_shell d (\<lambda>sh.
     case configure (env_sha256 env) (env_hex env) (env_channel_io env) (env_salt env) channel
            (shell_channel sh, shell_channel_disk sh) of
       (configured, nc, disk) \<Rightarrow>
         (answer_with NetworkChannelAnswer configured,
          set_shell (sh\<lparr>shell_channel := nc, shell_channel_disk := disk\<rparr>) d)))"
| "process_request env allowed (ApproveServer address observed) d = mutating allowed d (
     with_shell d (\<lambda>sh.
     case approve (env_sha256 env) (env_net env) (env_disk env) address observed (shell_trust sh) of
       (review, st) \<Rightarrow> (answer_with (ServerReviewAnswer \<circ> server_review_dto) review,
                        set_shell (sh\<lparr>shell_trust := st\<rparr>) d)))"
| "process_request env allowed (ForgetServer address) d = mutating allowed d (
     with_shell d (\<lambda>sh.
     case ServerAddress_parse address of
       Inl e \<Rightarrow> refuse_control e d
     | Inr parsed \<Rightarrow>
         (case forget_trusted_server (env_disk env) address (shell_trust sh) of
            (result, st) \<Rightarrow> (answer_with (\<lambda>_. ForgottenAnswer (addr_normalized parsed)) result,
                             set_shell (sh\<lparr>shell_trust := st\<rparr>) d))))"
| "process_request env allowed (InstallClientQueue address printer) d = mutating allowed d (
     with_shell d (\<lambda>sh.
     case install_queue (env_sha256 env) (env_net env) (install_context env sh d) (env_broker env) address printer
            (shell_trust sh) (shell_broker sh) of
       (queue, st, b) \<Rightarrow> (answer_with (ClientQueueAnswer \<circ> client_queue_dto) queue,
                          set_shell (sh\<lparr>shell_trust := st, shell_broker := b\<rparr>) d)))"
| "process_request env allowed (RepairClientQueue address printer) d = mutating allowed d (
     with_shell d (\<lambda>sh.
     case repair_queue (env_sha256 env) (env_net env) (install_context env sh d) (env_queue_catalog env)
            (env_broker env) address printer (shell_trust sh) (shell_broker sh) of
       (queue, st, b) \<Rightarrow> (answer_with (ClientQueueAnswer \<circ> client_queue_dto) queue,
                          set_shell (sh\<lparr>shell_trust := st, shell_broker := b\<rparr>) d)))"
| "process_request env allowed (SetSharedPrinters names) d = mutating allowed d (
     with_shell d (\<lambda>sh.
     case parse_names names of
       Inl e \<Rightarrow> refuse_control e d
     | Inr parsed \<Rightarrow>
         (case set_shared (env_printers env) (env_saved env) (env_printers_after env) parsed (shell_sharing sh) of
            (updated, sharing) \<Rightarrow> (answer_with (LocalPrintersAnswer \<circ> local_printers_dto) updated,
                                   set_shell (sh\<lparr>shell_sharing := sharing\<rparr>) d))))"


section \<open>The waits of a request\<close>

datatype ControlWake =
    RuntimeWake Wakeup
  | TestInspected TestAnswers
  | TestWaited "SubmissionOutcome option"
  | DrainNotified
  | DrainExpired

definition drain_wake ::
  "bool \<Rightarrow> nat \<Rightarrow> 'b DaemonShell \<Rightarrow> 'b Daemon \<Rightarrow> ControlStep \<times> 'b Daemon" where
  "drain_wake expired secs sh d =
     (if expired
      then (Answered (Inl (timeout_error (lit ''active print jobs did not complete within the drain window''))) False,
            set_shell (sh\<lparr>shell_tracker := cancel_drain (shell_tracker sh)\<rparr>) d)
      else (if drain_idle (shell_tracker sh) then drain_answer (shell_tracker sh) else AwaitDrain secs, d))"

fun process_wake ::
  "'b ControlEnv \<Rightarrow> ControlWake \<Rightarrow> ControlStep \<Rightarrow> 'b Daemon \<Rightarrow> (ControlStep \<times> 'b Daemon) option" where
  "process_wake env (RuntimeWake w) (AwaitRuntime p stop) d =
     map_option (runtime_step env stop d) (resume w p (daemon_runtime d))"
| "process_wake env (TestInspected ans) (AwaitTest p) d =
     Option.bind (daemon_shell d) (\<lambda>sh. map_option (test_step env sh d) (test_resume p ans (shell_tests sh)))"
| "process_wake env (TestWaited answer) (AwaitTest p) d =
     Option.bind (daemon_shell d) (\<lambda>sh. map_option (test_step env sh d) (test_waited p answer (shell_tests sh)))"
| "process_wake env DrainNotified (AwaitDrain secs) d =
     map_option (\<lambda>sh. drain_wake False secs sh d) (daemon_shell d)"
| "process_wake env DrainExpired (AwaitDrain secs) d =
     map_option (\<lambda>sh. drain_wake True secs sh d) (daemon_shell d)"
| "process_wake env _ _ d = None"

text \<open>
  When the time of the connection is over, the future of the handler is dropped: what it holds is
  released, the gate of a start and the claim of a submission that is still inspecting, and nothing
  else happens.
\<close>

fun held_gate :: "Pending \<Rightarrow> ServiceId option" where
  "held_gate (Preparing sid) = Some sid"
| "held_gate (Resetting sid _) = Some sid"
| "held_gate (AwaitingReady sid) = Some sid"
| "held_gate (Discarding sid _ _) = Some sid"
| "held_gate _ = None"

fun connection_dropped :: "ControlStep \<Rightarrow> 'b Daemon \<Rightarrow> 'b Daemon" where
  "connection_dropped (AwaitRuntime p _) d =
     (case held_gate p of
        Some sid \<Rightarrow> d\<lparr>daemon_runtime := set_gate sid False (daemon_runtime d)\<rparr>
      | None \<Rightarrow> d)"
| "connection_dropped (AwaitTest (SendInspecting _ _ _ _)) d =
     (case daemon_shell d of
        Some sh \<Rightarrow> set_shell (sh\<lparr>shell_tests := drop_guard (shell_tests sh)\<rparr>) d
      | None \<Rightarrow> d)"
| "connection_dropped _ d = d"

section \<open>Lines on the socket\<close>

text \<open>
  The codec is \<open>serde_json\<close>: the text of a value, and the value of a text or the reason why there is none.
\<close>

record ControlCodec =
  request_text :: "ControlRequest \<Rightarrow> bytes"
  request_of :: "ustr \<Rightarrow> ustr + ControlRequest"
  response_text :: "ControlResponse \<Rightarrow> bytes"
  response_of :: "ustr \<Rightarrow> ustr + ControlResponse"

fun first_line :: "bytes \<Rightarrow> bytes" where
  "first_line [] = []"
| "first_line (b # bs) = (if b = 10 then [b] else b # first_line bs)"

definition read_json_line :: "(ustr \<Rightarrow> ustr + 'a) \<Rightarrow> ustr \<Rightarrow> bytes \<Rightarrow> AppError + 'a" where
  "read_json_line of_text label input =
     (let line = first_line (take (MAX_MESSAGE_BYTES + 1) input) in
      if line = [] then Inl (invalid_input (lit ''empty '' @ label))
      else
        (case from_utf8 line of
           None \<Rightarrow> Inl (internal_error (lit ''cannot read '' @ label @ lit '': stream did not contain valid UTF-8''))
         | Some text \<Rightarrow>
             if length line > MAX_MESSAGE_BYTES then Inl (invalid_input (label @ lit '' is too large''))
             else (case of_text (trim text) of
                     Inl reason \<Rightarrow> Inl (invalid_input (lit ''invalid '' @ label @ lit '': '' @ reason))
                   | Inr v \<Rightarrow> Inr v)))"

definition write_json_line :: "bytes \<Rightarrow> bytes" where
  "write_json_line encoded = encoded @ [10]"

text \<open>\<open>peer\<close> is the user of the process at the other end, when the kernel says who it is.\<close>

definition process_stream ::
  "'b ControlEnv \<Rightarrow> ControlCodec \<Rightarrow> PeerAccessPolicy \<Rightarrow> u32 option \<Rightarrow> u32 option \<Rightarrow> bytes \<Rightarrow> 'b Daemon
    \<Rightarrow> ControlStep \<times> 'b Daemon" where
  "process_stream env codec policy daemon_uid peer input d =
     (case peer of
        None \<Rightarrow> refuse_control (not_authorized (lit ''cannot verify local peer credentials'')) d
      | Some uid \<Rightarrow>
          (case read_json_line (request_of codec) (lit ''control request'') input of
             Inl e \<Rightarrow> refuse_control e d
           | Inr req \<Rightarrow> process_request env (authorize_mutation policy uid daemon_uid) req d))"

definition control_response :: "AppError + ControlResponse \<Rightarrow> ControlResponse" where
  "control_response outcome =
     (case outcome of Inr answer \<Rightarrow> answer | Inl e \<Rightarrow> ErrAnswer (app_error_dto e))"

definition finish_stream ::
  "ControlCodec \<Rightarrow> AppError + ControlResponse \<Rightarrow> bool \<Rightarrow> 'b Daemon \<Rightarrow> bytes \<times> 'b Daemon" where
  "finish_stream codec outcome stop d =
     (write_json_line (response_text codec (control_response outcome)),
      if stop then d\<lparr>daemon_stopping := True\<rparr> else d)"

section \<open>The client of the socket\<close>

datatype SocketOutcome = ConnectTimesOut | ConnectFails ustr | SendTimesOut | SendFails AppError
  | ReplyTimesOut | Replied bytes

definition app_error_from_dto :: "AppErrorDto \<Rightarrow> AppError" where
  "app_error_from_dto dto =
     app_error (case List.find (\<lambda>c. ErrorCode_as_str c = dto_error_code dto) ErrorCode_ALL of
                  Some c \<Rightarrow> c | None \<Rightarrow> Internal) (dto_error_message dto)"

definition client_send :: "ControlCodec \<Rightarrow> SocketOutcome \<Rightarrow> AppError + ControlResponse" where
  "client_send codec outcome =
     (case outcome of
        ConnectTimesOut \<Rightarrow> Inl (timeout_error (lit ''connecting to shaprintd timed out''))
      | ConnectFails reason \<Rightarrow> Inl (server_unavailable (lit ''cannot connect to shaprintd at '' @ reason))
      | SendTimesOut \<Rightarrow> Inl (timeout_error (lit ''sending request to shaprintd timed out''))
      | SendFails e \<Rightarrow> Inl e
      | ReplyTimesOut \<Rightarrow> Inl (timeout_error (lit ''waiting for shaprintd response timed out''))
      | Replied line \<Rightarrow>
          and_then (read_json_line (response_of codec) (lit ''shaprintd response'') line) (\<lambda>answer.
          case answer of
            ErrAnswer e \<Rightarrow> Inl (app_error_from_dto e)
          | other \<Rightarrow> Inr other))"

text \<open>The variant each method of the client takes; \<open>debug\<close> is the text of an unexpected one.\<close>

definition expected_response :: "ControlRequest \<Rightarrow> ControlResponse \<Rightarrow> bool" where
  "expected_response req answer =
     (case req of
        InspectLocalClientQueue _ \<Rightarrow> is_LocalTroubleshootingAnswer answer
      | RefreshTestPrintSession _ \<Rightarrow> is_LocalTroubleshootingAnswer answer
      | SendTestPrint _ \<Rightarrow> is_LocalTroubleshootingAnswer answer
      | ConfirmTestPrint _ _ _ \<Rightarrow> is_LocalTroubleshootingAnswer answer
      | CloseTestPrintSession _ \<Rightarrow> is_OkAnswer answer
      | Status \<Rightarrow> is_OkAnswer answer
      | Diagnostics \<Rightarrow> is_DiagnosticsAnswer answer
      | ServerIdentity \<Rightarrow> is_ServerIdentityAnswer answer
      | StartService _ \<Rightarrow> is_OkAnswer answer
      | StopService _ \<Rightarrow> is_OkAnswer answer
      | Shutdown \<Rightarrow> is_OkAnswer answer
      | Drain _ \<Rightarrow> is_DrainAnswer answer
      | NetworkChannelStatus \<Rightarrow> is_NetworkChannelAnswer answer
      | SetNetworkChannel _ \<Rightarrow> is_NetworkChannelAnswer answer
      | InspectServer _ \<Rightarrow> is_ServerReviewAnswer answer
      | ApproveServer _ _ \<Rightarrow> is_ServerReviewAnswer answer
      | ForgetServer _ \<Rightarrow> is_ForgottenAnswer answer
      | ListTrustedServers \<Rightarrow> is_TrustedServersAnswer answer
      | ListServerPrinters _ \<Rightarrow> is_ServerPrintersAnswer answer
      | InstallClientQueue _ _ \<Rightarrow> is_ClientQueueAnswer answer
      | RepairClientQueue _ _ \<Rightarrow> is_ClientQueueAnswer answer
      | ListClientQueues \<Rightarrow> is_ClientQueuesAnswer answer
      | ListLocalPrinters \<Rightarrow> is_LocalPrintersAnswer answer
      | SetSharedPrinters _ \<Rightarrow> is_LocalPrintersAnswer answer)"

definition unexpected_response :: "(ControlResponse \<Rightarrow> ustr) \<Rightarrow> ControlResponse \<Rightarrow> AppError" where
  "unexpected_response debug answer =
     internal_error (lit ''unexpected shaprintd response: '' @ debug answer)"

definition client_call ::
  "ControlCodec \<Rightarrow> (ControlResponse \<Rightarrow> ustr) \<Rightarrow> ControlRequest \<Rightarrow> SocketOutcome \<Rightarrow> AppError + ControlResponse" where
  "client_call codec debug req outcome =
     and_then (client_send codec outcome) (\<lambda>answer.
     if expected_response req answer then Inr answer else Inl (unexpected_response debug answer))"

end
