(* ===== verification/Daemon_Policy.thy ===== *)
theory Daemon_Policy
  imports Daemon_Control Trust_Policy
begin

text \<open>
  What the control socket promises: only the administrator changes the daemon, the client hears what the
  daemon answered, and how a drain over the socket ends.
\<close>

section \<open>Connections\<close>

text \<open>
  A connection stands at a step while the daemon is in a state; between its own steps the rest of the
  daemon may do anything.
\<close>

inductive connection :: "AppError + unit \<Rightarrow> ControlRequest \<Rightarrow> ControlStep \<Rightarrow> 'b Daemon \<Rightarrow> bool"
  for allowed req where
  begun: "process_request env allowed req d = (step, d') \<Longrightarrow> connection allowed req step d'"
| others: "connection allowed req step d \<Longrightarrow> connection allowed req step d'"
| woken: "connection allowed req step d \<Longrightarrow> process_wake env w step d = Some (step', d') \<Longrightarrow>
    connection allowed req step' d'"

section \<open>Changes and reads\<close>

definition administrative :: "ControlRequest \<Rightarrow> bool" where
  "administrative req = (case req of
     StartService _ \<Rightarrow> True | StopService _ \<Rightarrow> True | Shutdown \<Rightarrow> True | Drain _ \<Rightarrow> True
   | SetNetworkChannel _ \<Rightarrow> True | ApproveServer _ _ \<Rightarrow> True | ForgetServer _ \<Rightarrow> True
   | InstallClientQueue _ _ \<Rightarrow> True | RepairClientQueue _ _ \<Rightarrow> True | SetSharedPrinters _ \<Rightarrow> True
   | _ \<Rightarrow> False)"

text \<open>What a change would change: all of the daemon except the test print session and the approvals
  read last from their file.\<close>

definition lasting where
  "lasting d = (daemon_runtime d, daemon_stopping d,
     map_option (\<lambda>sh. (shell_channel sh, shell_channel_disk sh, trust_file (shell_trust sh), shell_sharing sh,
       shell_tracker sh, shell_failure sh, shell_identity sh, shell_broker sh)) (daemon_shell d))"

lemmas control_defs = with_shell_def mutating_def refuse_control_def answer_with_def require_shell_def
  test_step_def answer_test_def answer_status_def runtime_step_def set_shell_def drain_answer_def Let_def

lemma with_shell_lasting:
  "(\<And>sh. daemon_shell d = Some sh \<Longrightarrow> lasting (snd (f sh)) = lasting d) \<Longrightarrow> lasting (snd (with_shell d f)) = lasting d"
  by (cases "daemon_shell d") (simp_all add: with_shell_def require_shell_def refuse_control_def)

lemma set_shell_lasting:
  "daemon_shell d = Some sh \<Longrightarrow>
    lasting (set_shell sh' d) = lasting d \<longleftrightarrow>
      shell_channel sh' = shell_channel sh \<and> shell_channel_disk sh' = shell_channel_disk sh
      \<and> trust_file (shell_trust sh') = trust_file (shell_trust sh) \<and> shell_sharing sh' = shell_sharing sh
      \<and> shell_tracker sh' = shell_tracker sh \<and> shell_failure sh' = shell_failure sh
      \<and> shell_identity sh' = shell_identity sh \<and> shell_broker sh' = shell_broker sh"
  by (auto simp: lasting_def set_shell_def)

lemma test_step_lasting:
  "daemon_shell d = Some sh \<Longrightarrow> lasting (snd (test_step env sh d r)) = lasting d"
  by (simp add: test_step_def set_shell_lasting split: prod.split)

lemma diagnose_answers: "\<exists>r. fst (diagnose_step env d) = Answered (Inr (DiagnosticsAnswer r)) False"
  by (simp add: diagnose_step_def split: option.split prod.split)

lemma diagnose_trust: "snd (diagnose_daemon_environment probe ports channel trust f) = snd (check_trust trust)"
  by (cases "check_trust trust") (simp add: diagnose_daemon_environment_def Let_def)

lemma check_trust_keeps: "\<exists>st'. snd (check_trust (Some st)) = Some st' \<and> trust_file st' = trust_file st"
  using reading_keeps(1) by (fastforce simp: check_trust_def split: prod.split sum.split)

lemma diagnose_lasting: "lasting (snd (diagnose_step env d)) = lasting d"
proof (cases "daemon_shell d")
  case None
  then show ?thesis by (simp add: diagnose_step_def)
next
  case (Some sh)
  let ?made = "diagnose_daemon_environment (env_probe env) (env_ports env) (Some (shell_channel sh))
    (Some (shell_trust sh)) (shell_failure sh)"
  obtain st' where "snd ?made = Some st'" "trust_file st' = trust_file (shell_trust sh)"
    using check_trust_keeps [of "shell_trust sh"] unfolding diagnose_trust by blast
  with Some show ?thesis
    by (cases ?made) (simp add: diagnose_step_def set_shell_lasting)
qed

lemma reading_lasting:
  assumes "\<not> administrative req"
  shows "lasting (snd (process_request env allowed req d)) = lasting d"
proof (cases req)
  case (InspectLocalClientQueue target)
  then show ?thesis
    by (simp add: refuse_control_def with_shell_lasting test_step_lasting split: sum.split)
next
  case (ConfirmTestPrint sid result symptom)
  then show ?thesis
    by (auto simp: refuse_control_def set_shell_lasting intro!: with_shell_lasting split: sum.split prod.split)
next
  case (InspectServer address)
  then show ?thesis
    by (auto simp: set_shell_lasting dest: reading_keeps intro!: with_shell_lasting split: prod.split)
next
  case ListTrustedServers
  then show ?thesis
    by (auto simp: set_shell_lasting dest: reading_keeps intro!: with_shell_lasting split: prod.split)
next
  case (ListServerPrinters address)
  then show ?thesis
    by (auto simp: set_shell_lasting dest: reading_keeps intro!: with_shell_lasting split: prod.split)
qed (use assms in \<open>auto simp: administrative_def set_shell_lasting test_step_lasting diagnose_lasting Let_def intro!: with_shell_lasting\<close>)

text \<open>The waits a peer without authority can reach.\<close>

fun only_testing :: "ControlStep \<Rightarrow> bool" where
  "only_testing (Answered _ stop) \<longleftrightarrow> \<not> stop"
| "only_testing (AwaitTest _) \<longleftrightarrow> True"
| "only_testing _ \<longleftrightarrow> False"

lemma test_step_only: "only_testing (fst (test_step env sh d r))"
  by (auto simp: test_step_def answer_test_def split: prod.split TestOutcome.split sum.split)

lemma with_shell_only: "(\<And>sh. only_testing (fst (f sh))) \<Longrightarrow> only_testing (fst (with_shell d f))"
  by (auto simp: with_shell_def refuse_control_def split: sum.split)

lemma answer_only: "only_testing (answer_with f r1)" "only_testing (answer_status env False r2 d)"
  "only_testing (answer_test env r3)"
  by (auto simp: answer_with_def answer_status_def answer_test_def split: sum.split)

lemma reading_only:
  assumes "\<not> administrative req"
  shows "only_testing (fst (process_request env allowed req d))"
  using assms diagnose_answers [of env d]
  by (cases req) (auto simp: administrative_def refuse_control_def test_step_only answer_only Let_def
      intro!: with_shell_only split: sum.split prod.split)

lemma denied_change:
  "administrative req \<Longrightarrow> process_request env (Inl e) req d = (Answered (Inl e) False, d)"
  by (cases req) (simp_all add: administrative_def mutating_def refuse_control_def)

lemma testing_wake:
  assumes "process_wake env w step d = Some (step', d')" "only_testing step"
  shows "only_testing step' \<and> lasting d' = lasting d"
  using assms
  by (cases "(env, w, step, d)" rule: process_wake.cases)
    (auto simp: bind_eq_Some_conv, (metis test_step_only test_step_lasting fst_conv snd_conv)+)

lemma denied_connection:
  assumes "connection allowed req step d" "allowed = Inl e"
  shows "only_testing step"
  using assms
proof (induction rule: connection.induct)
  case (begun env d step d')
  then show ?case
    using reading_only [of req env allowed d] denied_change [of req env e d] by (cases "administrative req") auto
next
  case (woken step d env w step' d')
  then show ?case using testing_wake by blast
qed

text \<open>
  C99: Only the administrator changes the daemon. A request of a peer whom the policy does
  not allow changes leaves the services, the channel and its files, the approvals on disk, the shared
  printers, the drain, the installed queues and the life of the daemon as they are, at every step of its
  connection and when it is cut off; an administrative one is answered with the refusal at once.
\<close>

theorem control_needs_authority:
  assumes "authorize_mutation policy uid daemon_uid = Inl e"
  shows "(administrative req \<longrightarrow> process_request env (authorize_mutation policy uid daemon_uid) req d
        = (Answered (Inl e) False, d))
    \<and> lasting (snd (process_request env (authorize_mutation policy uid daemon_uid) req d)) = lasting d
    \<and> (connection (authorize_mutation policy uid daemon_uid) req step d \<longrightarrow>
        lasting (connection_dropped step d) = lasting d
        \<and> (\<forall>w step' d'. process_wake env w step d = Some (step', d') \<longrightarrow> lasting d' = lasting d)
        \<and> (\<forall>outcome stop. step = Answered outcome stop \<longrightarrow>
            lasting (snd (finish_stream codec outcome stop d)) = lasting d))"
proof (intro conjI impI allI)
  show "process_request env (authorize_mutation policy uid daemon_uid) req d = (Answered (Inl e) False, d)"
    if "administrative req" using denied_change [OF that] assms by simp
  show "lasting (snd (process_request env (authorize_mutation policy uid daemon_uid) req d)) = lasting d"
    using denied_change [of req env e d] reading_lasting [of req env _ d] assms by (cases "administrative req") auto
  assume at: "connection (authorize_mutation policy uid daemon_uid) req step d"
  from denied_connection [OF at assms] have only: "only_testing step" .
  show "lasting (connection_dropped step d) = lasting d"
    using only by (cases "(step, d)" rule: connection_dropped.cases) (auto simp: set_shell_lasting split: option.split)
  show "lasting d' = lasting d" if "process_wake env w step d = Some (step', d')" for w step' d'
    using testing_wake [OF that only] by simp
  show "lasting (snd (finish_stream codec outcome stop d)) = lasting d" if "step = Answered outcome stop" for outcome stop
    using only that by (simp add: finish_stream_def)
qed


text \<open>The test page is not among the changes: whoever may connect may print one.\<close>

lemma test_page_needs_no_authority:
  "process_request env allowed (SendTestPrint sid) d = process_request env (Inr ()) (SendTestPrint sid) d"
  by simp

section \<open>What the client hears\<close>

definition answers_request :: "ControlRequest \<Rightarrow> AppError + ControlResponse \<Rightarrow> bool" where
  "answers_request req outcome \<longleftrightarrow> (\<forall>r. outcome = Inr r \<longrightarrow> expected_response req r \<and> \<not> is_ErrAnswer r)"

fun step_fits :: "ControlRequest \<Rightarrow> ControlStep \<Rightarrow> bool" where
  "step_fits req (Answered outcome _) \<longleftrightarrow> answers_request req outcome"
| "step_fits req (AwaitRuntime _ _) \<longleftrightarrow> answers_request req (Inr (OkAnswer undefined))"
| "step_fits req (AwaitTest _) \<longleftrightarrow> answers_request req (Inr (LocalTroubleshootingAnswer undefined))"
| "step_fits req (AwaitDrain _) \<longleftrightarrow> answers_request req (Inr (DrainAnswer undefined undefined))"

lemma answers_Inl [simp]: "answers_request req (Inl e)"
  by (simp add: answers_request_def)

lemma answers_Inr: "answers_request req (Inr r) \<longleftrightarrow> expected_response req r \<and> \<not> is_ErrAnswer r"
  by (simp add: answers_request_def)

lemma with_shell_fits: "(\<And>sh. step_fits req (fst (f sh))) \<Longrightarrow> step_fits req (fst (with_shell d f))"
  by (auto simp: with_shell_def refuse_control_def split: sum.split)

lemma mutating_fits: "step_fits req (fst s) \<Longrightarrow> step_fits req (fst (mutating allowed d s))"
  by (auto simp: mutating_def refuse_control_def split: sum.split)

lemma expected_any:
  "expected_response req (OkAnswer a) = expected_response req (OkAnswer undefined)"
  "expected_response req (LocalTroubleshootingAnswer b) = expected_response req (LocalTroubleshootingAnswer undefined)"
  "expected_response req (DrainAnswer x n) = expected_response req (DrainAnswer undefined undefined)"
  by (cases req; simp add: expected_response_def)+

lemma runtime_step_fits:
  assumes "expected_response req (OkAnswer undefined)"
  shows "step_fits req (fst (runtime_step env stop d r))"
proof (cases r)
  case (Pair outcome c)
  with assms expected_any(1) [of req] show ?thesis
    by (cases outcome) (auto simp: runtime_step_def answer_status_def answers_Inr Let_def split: sum.split)
qed

lemma test_step_fits:
  assumes "expected_response req (LocalTroubleshootingAnswer undefined)"
  shows "step_fits req (fst (test_step env sh d r))"
proof (cases r)
  case (Pair outcome g)
  with assms expected_any(2) [of req] show ?thesis
    by (cases outcome) (auto simp: test_step_def answer_test_def answers_Inr split: sum.split)
qed

lemma drain_wake_fits:
  assumes "expected_response req (DrainAnswer undefined undefined)"
  shows "step_fits req (fst (drain_wake expired secs sh d))"
  using assms expected_any(3) [of req] by (auto simp: drain_wake_def drain_answer_def answers_Inr)

lemma answer_with_fits:
  "(\<And>x. answers_request req (Inr (f x))) \<Longrightarrow> step_fits req (answer_with f r)"
  by (auto simp: answer_with_def split: sum.split)

lemma process_request_fits: "step_fits req (fst (process_request env allowed req d))"
  using diagnose_answers [of env d]
  by (cases req)
    (auto simp: refuse_control_def answers_Inr expected_response_def answer_status_def answer_test_def drain_answer_def
      Let_def intro!: with_shell_fits mutating_fits runtime_step_fits test_step_fits answer_with_fits
      split: sum.split prod.split)

lemma wake_fits:
  assumes "process_wake env w step d = Some (step', d')" "step_fits req step"
  shows "step_fits req step'"
proof (cases step)
  case (AwaitRuntime p stop)
  with assms have "expected_response req (OkAnswer undefined)" by (simp add: answers_Inr)
  note fits = runtime_step_fits [OF this, of env stop d]
  from assms(1) AwaitRuntime obtain r where "runtime_step env stop d r = (step', d')" by (cases w) auto
  with fits [of r] show ?thesis by (metis fst_conv)
next
  case (AwaitTest p)
  with assms have "expected_response req (LocalTroubleshootingAnswer undefined)" by (simp add: answers_Inr)
  note fits = test_step_fits [OF this, of env _ d]
  from assms(1) AwaitTest obtain sh r where "test_step env sh d r = (step', d')"
    by (cases w) (auto simp: bind_eq_Some_conv)
  with fits [of sh r] show ?thesis by (metis fst_conv)
next
  case (AwaitDrain secs)
  with assms have "expected_response req (DrainAnswer undefined undefined)" by (simp add: answers_Inr)
  note fits = drain_wake_fits [OF this, of _ secs _ d]
  from assms(1) AwaitDrain obtain expired sh where "drain_wake expired secs sh d = (step', d')" by (cases w) auto
  with fits [of expired sh] show ?thesis by (metis fst_conv)
next
  case (Answered outcome stop)
  with assms(1) show ?thesis by (cases w) auto
qed

lemma connection_fits: "connection allowed req step d \<Longrightarrow> step_fits req step"
proof (induction rule: connection.induct)
  case (begun env d step d')
  then show ?case using process_request_fits [of req env allowed d] by simp
next
  case (woken step d env w step' d')
  then show ?case using wake_fits by blast
qed

lemma first_line_stop: "10 \<notin> set bs \<Longrightarrow> first_line (bs @ 10 # rest) = bs @ [10]"
  by (induction bs) auto

lemma first_line_whole: "10 \<notin> set bs \<Longrightarrow> first_line bs = bs"
  by (induction bs) auto

lemma newline_bytes: "wf_ustr s \<Longrightarrow> 10 \<notin> set s \<Longrightarrow> (10 :: u8) \<notin> set (as_bytes s)"
proof (induction s)
  case (Cons c s)
  have "(10 :: u8) \<notin> set (map of_nat (utf8_char c) :: u8 list)"
  proof
    assume "(10 :: u8) \<in> set (map of_nat (utf8_char c) :: u8 list)"
    then obtain b where b: "b \<in> set (utf8_char c)" "(of_nat b :: u8) = 10" by auto
    from Cons.prems(1) have "\<forall>b \<in> set (utf8_char c). b < 256" using utf8_char_bytes [of c] by auto
    with b(1) have "b < 256" by blast
    then have "b = unat (of_nat b :: u8)" by (simp add: unat_of_nat)
    then have "b = 10" unfolding b(2) by simp
    with b(1) Cons.prems show False by (auto simp: utf8_char_def is_scalar_def split: if_splits)
  qed
  with Cons show ?case by (simp add: as_bytes_def)
qed simp

lemma trim_newline: "trim s = s \<Longrightarrow> trim (s @ [10]) = s"
proof (cases s)
  case (Cons c cs)
  assume t: "trim s = s"
  with Cons have "\<not> is_whitespace (hd s)" using trim_ends [of is_whitespace s] by simp
  with Cons have "dropWhile is_whitespace (s @ [10]) = s @ [10]" "dropWhile is_whitespace s = s" by simp_all
  with t show ?thesis by (simp add: trim_by_def trim_end_by_snoc is_whitespace_def)
qed (simp add: trim_by_def is_whitespace_def)

text \<open>
  What the code relies on in \<open>serde_json\<close>: the text of an answer is one line of UTF-8 without white
  space around it, and reading it gives the answer.
\<close>

definition codec_keeps :: "ControlCodec \<Rightarrow> ControlResponse \<Rightarrow> bool" where
  "codec_keeps codec r \<longleftrightarrow> (\<exists>s. response_text codec r = as_bytes s \<and> wf_ustr s \<and> 10 \<notin> set s \<and> trim s = s
     \<and> response_of codec s = Inr r)"

lemma read_written_line:
  assumes "codec_keeps codec r"
  shows "if length (write_json_line (response_text codec r)) \<le> MAX_MESSAGE_BYTES
    then read_json_line (response_of codec) label (write_json_line (response_text codec r)) = Inr r
    else \<exists>e. read_json_line (response_of codec) label (write_json_line (response_text codec r)) = Inl e"
proof -
  from assms obtain s where s: "response_text codec r = as_bytes s" "wf_ustr s" "10 \<notin> set s" "trim s = s"
    "response_of codec s = Inr r" by (auto simp: codec_keeps_def)
  let ?line = "as_bytes s @ [10]"
  have line: "write_json_line (response_text codec r) = ?line" by (simp add: write_json_line_def s(1))
  have nl: "(10 :: u8) \<notin> set (as_bytes s)" using newline_bytes [OF s(2,3)] .
  show ?thesis
  proof (cases "length ?line \<le> MAX_MESSAGE_BYTES")
    case True
    have "as_bytes (s @ [10]) = ?line" "wf_ustr (s @ [10])" using s(2) by (simp_all add: is_scalar_def)
    then have "from_utf8 ?line = Some (s @ [10])" using from_utf8_as_bytes [of "s @ [10]"] by simp
    moreover have "first_line (take (MAX_MESSAGE_BYTES + 1) ?line) = ?line"
      using True first_line_stop [OF nl, of "[]"] by simp
    ultimately show ?thesis using True s(5) trim_newline [OF s(4)] unfolding line by (simp add: read_json_line_def)
  next
    case False
    let ?cut = "take (MAX_MESSAGE_BYTES + 1) ?line"
    have "first_line ?cut = ?cut"
    proof (cases "length ?line = MAX_MESSAGE_BYTES + 1")
      case True
      then show ?thesis using first_line_stop [OF nl, of "[]"] by simp
    next
      case longer: False
      with False have "?cut = take (MAX_MESSAGE_BYTES + 1) (as_bytes s)" by simp
      moreover have "(10 :: u8) \<notin> set (take (MAX_MESSAGE_BYTES + 1) (as_bytes s))" using nl by (auto dest: in_set_takeD)
      ultimately show ?thesis using first_line_whole by simp
    qed
    moreover have "length ?cut = MAX_MESSAGE_BYTES + 1" using False by simp
    ultimately have "\<exists>e. read_json_line (response_of codec) label ?line = Inl e"
      by (auto simp: read_json_line_def Let_def split: option.split)
    with False show ?thesis unfolding line by simp
  qed
qed

lemma app_error_survives: "app_error_from_dto (app_error_dto e) = e"
proof -
  have "List.find (\<lambda>c. ErrorCode_as_str c = ErrorCode_as_str (err_code e)) ErrorCode_ALL = Some (err_code e)"
    by (cases "err_code e") (simp_all add: ErrorCode_ALL_def)
  then show ?thesis by (simp add: app_error_from_dto_def app_error_dto_def code_str_def app_error_def)
qed

lemma answer_heard:
  assumes "connection allowed req (Answered outcome stop) d"
    and "codec_keeps codec (control_response outcome)"
  shows "if length (fst (finish_stream codec outcome stop d)) \<le> MAX_MESSAGE_BYTES
    then client_call codec debug req (Replied (fst (finish_stream codec outcome stop d))) = outcome
    else \<exists>e. client_call codec debug req (Replied (fst (finish_stream codec outcome stop d))) = Inl e"
proof -
  have fits: "answers_request req outcome" using connection_fits [OF assms(1)] by simp
  let ?line = "write_json_line (response_text codec (control_response outcome))"
  have line: "fst (finish_stream codec outcome stop d) = ?line" by (simp add: finish_stream_def)
  note read = read_written_line [OF assms(2), of "lit ''shaprintd response''"]
  show ?thesis
  proof (cases "length ?line \<le> MAX_MESSAGE_BYTES")
    case True
    with read have got: "read_json_line (response_of codec) (lit ''shaprintd response'') ?line
      = Inr (control_response outcome)" by (simp only: if_True)
    have "client_call codec debug req (Replied ?line) = outcome"
    proof (cases outcome)
      case (Inl e)
      with got show ?thesis
        by (simp add: client_call_def client_send_def control_response_def app_error_survives)
    next
      case (Inr r)
      with got fits show ?thesis
        by (cases r) (simp_all add: client_call_def client_send_def control_response_def answers_Inr)
    qed
    with True show ?thesis unfolding line by simp
  next
    case False
    with read obtain e where "read_json_line (response_of codec) (lit ''shaprintd response'') ?line = Inl e"
      by (auto simp only: if_False)
    then have "client_call codec debug req (Replied ?line) = Inl e"
      by (simp add: client_call_def client_send_def)
    with False show ?thesis unfolding line by auto
  qed
qed

text \<open>
  C99: The client hears what the daemon answered. For every request and every way its
  connection can go, an answer whose line has at most 8,192 bytes reaches the caller of the client as
  it is: the value as that value, and an error with its code and message, never as an unexpected answer.
  Of a longer one the caller gets an error instead, whatever the daemon has done.
\<close>

theorem client_hears_daemon:
  assumes "connection allowed req (Answered outcome stop) d"
    and "codec_keeps codec (control_response outcome)"
  shows "if length (fst (finish_stream codec outcome stop d)) \<le> MAX_MESSAGE_BYTES
    then client_call codec debug req (Replied (fst (finish_stream codec outcome stop d))) = outcome
    else \<exists>e. client_call codec debug req (Replied (fst (finish_stream codec outcome stop d))) = Inl e"
  by (rule answer_heard [OF assms])

section \<open>Draining over the socket\<close>

lemma draining_kept:
  "draining (tracker w) \<Longrightarrow> a \<noteq> CancelDrain \<Longrightarrow> draining (tracker (perform a w))"
  by (cases a) (auto simp: try_acquire_request_def mark_print_job_def promote_request_def release_def begin_drain_def
      try_begin_restart_def try_begin_restart_with_cooldown_def drop_permit_def Let_def
      split: option.splits prod.splits if_splits)

lemma draining_run: "draining (tracker w) \<Longrightarrow> CancelDrain \<notin> set as \<Longrightarrow> draining (tracker (run as w))"
  by (induction as arbitrary: w) (auto simp: run_def draining_kept)

text \<open>
  C99: How a drain over the socket ends. While a job or a request is under way, an allowed
  drain waits. If it becomes idle, the answer says so; if the time of the drain is over first, the daemon
  takes jobs again; but if the connection is cut off first, which happens after fifteen seconds, the daemon
  goes on draining: whatever its tasks do, until somebody cancels a drain, every print job is refused.
\<close>

theorem cut_off_drain_refuses_jobs:
  assumes "daemon_shell d = Some sh" "\<not> drain_idle (shell_tracker sh)"
  shows "\<exists>secs d' sh'. process_request env (Inr ()) (Drain timeout_secs) d = (AwaitDrain secs, d')
    \<and> daemon_shell d' = Some sh'
    \<and> (\<forall>d1 sh1. daemon_shell d1 = Some sh1 \<longrightarrow> drain_idle (shell_tracker sh1) \<longrightarrow>
        process_wake env1 DrainNotified (AwaitDrain secs) d1 = Some (Answered (Inr (DrainAnswer True 0)) False, d1))
    \<and> (\<forall>d1 sh1. daemon_shell d1 = Some sh1 \<longrightarrow> (\<exists>e d2 sh2.
        process_wake env1 DrainExpired (AwaitDrain secs) d1 = Some (Answered (Inl e) False, d2)
        \<and> daemon_shell d2 = Some sh2 \<and> \<not> draining (shell_tracker sh2) \<and> accepting_jobs (shell_tracker sh2)))
    \<and> connection_dropped (AwaitDrain secs) d' = d'
    \<and> (\<forall>w as now. tracker w = shell_tracker sh' \<longrightarrow> CancelDrain \<notin> set as \<longrightarrow>
        \<not> fst (promote_request now (tracker (run as w))))"
proof -
  let ?secs = "case timeout_secs of Some s \<Rightarrow> s | None \<Rightarrow> 30"
  let ?sh = "sh\<lparr>shell_tracker := begin_drain (shell_tracker sh)\<rparr>"
  have begun: "process_request env (Inr ()) (Drain timeout_secs) d = (AwaitDrain ?secs, set_shell ?sh d)"
  proof -
    have "\<not> drain_idle (begin_drain (shell_tracker sh))"
      using assms(2) by (simp add: drain_idle_def begin_drain_def)
    then show ?thesis using assms(1) by (simp add: mutating_def with_shell_def require_shell_def Let_def)
  qed
  have refused: "\<not> fst (promote_request now (tracker (run as w)))"
    if "tracker w = begin_drain (shell_tracker sh)" "CancelDrain \<notin> set as" for w as now
    using draining_run [OF _ that(2), of w] that(1) by (simp add: begin_drain_def promote_request_def)
  show ?thesis
    using begun refused
    by (intro exI [of _ ?secs] exI [of _ "set_shell ?sh d"] exI [of _ ?sh])
      (auto simp: set_shell_def drain_wake_def drain_answer_def drain_idle_def cancel_drain_def)
qed

end
