(* ===== verification/Daemon_Witnesses.thy ===== *)
theory Daemon_Witnesses
  imports Daemon_Policy Application_Witnesses
begin

text \<open>
  Concrete runs of the properties of the daemon: a fresh daemon in which one job is being printed, and a
  codec that writes every answer as an empty object.
\<close>

definition example_shell :: "unit DaemonShell" where
  "example_shell =
     \<lparr>shell_channel = NetworkChannel_in_memory, shell_channel_disk = example_channel_disk,
      shell_trust = example_store [], shell_sharing = example_selection,
      shell_tests = GuidedTestPrint_new False, shell_tracker = (Tracker_new 0)\<lparr>active_jobs := 1\<rparr>,
      shell_failure = None, shell_identity = \<lparr>dto_fingerprint = example_pin, dto_port = 631\<rparr>,
      shell_broker = ()\<rparr>"

definition example_daemon :: "unit Daemon" where
  "example_daemon =
     \<lparr>daemon_runtime = coordinator_new [], daemon_shell = Some example_shell, daemon_stopping = False\<rparr>"

definition empty_object :: ustr where "empty_object = [123, 125]"

definition answering :: "ControlResponse \<Rightarrow> ControlCodec" where
  "answering r =
     \<lparr>request_text = (\<lambda>_. as_bytes empty_object), request_of = (\<lambda>_. Inr Status),
      response_text = (\<lambda>_. as_bytes empty_object), response_of = (\<lambda>_. Inr r)\<rparr>"

lemma answering_keeps: "codec_keeps (answering r) r"
proof -
  have "wf_ustr empty_object" "10 \<notin> set empty_object" "trim empty_object = empty_object"
    by (simp_all add: empty_object_def is_scalar_def trim_by_def trim_end_by_def is_whitespace_def)
  then show ?thesis unfolding codec_keeps_def by (intro exI [of _ empty_object]) (simp add: answering_def)
qed

theorem control_needs_authority_witness:
  "\<forall>env. \<exists>e. process_request env (authorize_mutation RootOnly 1000 (Some 1000)) (SetSharedPrinters []) example_daemon
     = (Answered (Inl e) False, example_daemon)"
proof -
  have "authorize_mutation RootOnly 1000 (Some 1000)
    = Inl (not_authorized (lit ''administrative changes require root privileges (run with sudo)''))"
    by (simp add: authorize_mutation_def)
  from control_needs_authority [OF this, of "SetSharedPrinters []" _ example_daemon]
  show ?thesis by (simp add: administrative_def)
qed

theorem client_hears_daemon_witness:
  "\<forall>debug. client_call (answering (NetworkChannelAnswer False)) debug NetworkChannelStatus
     (Replied (fst (finish_stream (answering (NetworkChannelAnswer False)) (Inr (NetworkChannelAnswer False)) False
        example_daemon))) = Inr (NetworkChannelAnswer False)"
proof -
  have "process_request env allowed NetworkChannelStatus example_daemon
    = (Answered (Inr (NetworkChannelAnswer False)) False, example_daemon)" for env allowed
    by (simp add: with_shell_def require_shell_def example_daemon_def example_shell_def channel_is_configured_def
        NetworkChannel_in_memory_def)
  from connection.begun [OF this]
  have at: "connection (Inr ()) NetworkChannelStatus (Answered (Inr (NetworkChannelAnswer False)) False) example_daemon" .
  have keeps: "codec_keeps (answering (NetworkChannelAnswer False)) (control_response (Inr (NetworkChannelAnswer False)))"
    by (simp add: control_response_def answering_keeps)
  have "length (fst (finish_stream (answering (NetworkChannelAnswer False)) (Inr (NetworkChannelAnswer False)) False
        example_daemon)) \<le> MAX_MESSAGE_BYTES"
    by (simp add: finish_stream_def answering_def write_json_line_def MAX_MESSAGE_BYTES_def empty_object_def
        as_bytes_def utf8_char_def)
  with client_hears_daemon [OF at keeps] show ?thesis by simp
qed

theorem cut_off_drain_refuses_jobs_witness:
  "\<forall>env. \<exists>secs d' sh'. process_request env (Inr ()) (Drain None) example_daemon = (AwaitDrain secs, d')
     \<and> daemon_shell d' = Some sh' \<and> connection_dropped (AwaitDrain secs) d' = d'
     \<and> \<not> fst (promote_request 0 (shell_tracker sh'))"
proof
  fix env :: "unit ControlEnv"
  have "daemon_shell example_daemon = Some example_shell" "\<not> drain_idle (shell_tracker example_shell)"
    by (simp_all add: example_daemon_def example_shell_def drain_idle_def)
  from cut_off_drain_refuses_jobs [OF this, of env None]
  obtain secs d' sh' where r: "process_request env (Inr ()) (Drain None) example_daemon = (AwaitDrain secs, d')"
    "daemon_shell d' = Some sh'" "connection_dropped (AwaitDrain secs) d' = d'"
    "\<And>w as now. tracker w = shell_tracker sh' \<Longrightarrow> CancelDrain \<notin> set as \<Longrightarrow>
       \<not> fst (promote_request now (tracker (run as w)))" by blast
  have "\<not> fst (promote_request 0 (shell_tracker sh'))"
    using r(4) [of "(world_new 0)\<lparr>tracker := shell_tracker sh'\<rparr>" "[]" 0] by (simp add: run_def)
  with r show "\<exists>secs d' sh'. process_request env (Inr ()) (Drain None) example_daemon = (AwaitDrain secs, d')
     \<and> daemon_shell d' = Some sh' \<and> connection_dropped (AwaitDrain secs) d' = d'
     \<and> \<not> fst (promote_request 0 (shell_tracker sh'))" by blast
qed

end
