(* ===== verification/Daemon_Cli.thy ===== *)
theory Daemon_Cli
  imports Daemon_Control
begin

text \<open>
  The command lines of \<open>adapters/daemon.rs\<close>: \<open>parse_daemon_args\<close> with the configuration file of
  \<open>shaprintd\<close>, \<open>parse_cli_args\<close> of \<open>shaprintctl\<close>, and the reader of the Network Channel. The file
  system and \<open>serde_json\<close> are arguments.
\<close>

section \<open>Paths\<close>

text \<open>
  What \<open>std::path\<close> compares and splits on Unix: whether a path is absolute, and its components, without
  repeated separators and without the dots that say nothing.
\<close>

type_synonym path = "bool \<times> ustr list"

definition path_components :: "ustr \<Rightarrow> path" where
  "path_components p =
     (let parts = split_char 47 p; rooted = starts_with p [47] in
      (rooted,
       (if \<not> rooted \<and> parts \<noteq> [] \<and> hd parts = [46] then [[46]] else [])
         @ filter (\<lambda>c. c \<noteq> [] \<and> c \<noteq> [46]) parts))"

definition path_parent :: "path \<Rightarrow> path option" where
  "path_parent p = (if snd p = [] then None else Some (fst p, butlast (snd p)))"

definition path_join :: "path \<Rightarrow> ustr \<Rightarrow> path" where
  "path_join p name = (fst p, snd p @ [name])"

text \<open>\<open>PathBuf::join\<close> as text, for a relative name.\<close>

definition path_push :: "ustr \<Rightarrow> ustr \<Rightarrow> ustr" where
  "path_push base name = (if base = [] \<or> last base = 47 then base @ name else base @ 47 # name)"

definition quoted :: "ustr \<Rightarrow> ustr" where
  "quoted s = [39] @ s @ [39]"

definition DEFAULT_CONFIG_DIR :: ustr where "DEFAULT_CONFIG_DIR = lit ''/etc/shaprint''"
definition DEFAULT_CONFIG_FILE :: ustr where "DEFAULT_CONFIG_FILE = lit ''config.json''"
definition DEFAULT_CREDENTIAL_DIR :: ustr where "DEFAULT_CREDENTIAL_DIR = lit ''/etc/shaprint-credentials''"
definition DEFAULT_STATE_DIR :: ustr where "DEFAULT_STATE_DIR = lit ''/var/lib/shaprint''"
definition DEFAULT_SOCKET_PATH :: ustr where "DEFAULT_SOCKET_PATH = lit ''/run/shaprint/shaprintd.sock''"

section \<open>The configuration of the daemon\<close>

text \<open>The CUPS endpoint and the firewall program are set by tests only; \<open>'e\<close> is the endpoint.\<close>

record 'e DaemonConfig =
  cfg_dir :: ustr
  cfg_credentials :: "ustr option"
  cfg_state :: ustr
  cfg_socket :: ustr
  cfg_policy :: PeerAccessPolicy
  cfg_forbid_root :: bool
  cfg_ports :: RuntimePorts
  cfg_cups :: "'e option"
  cfg_firewall :: "ustr option"

definition DaemonConfig_new :: "ustr \<Rightarrow> ustr \<Rightarrow> 'e DaemonConfig" where
  "DaemonConfig_new state_dir socket =
     \<lparr>cfg_dir = DEFAULT_CONFIG_DIR, cfg_credentials = None, cfg_state = state_dir, cfg_socket = socket,
      cfg_policy = RootOrDaemonOwner, cfg_forbid_root = True, cfg_ports = default_ports,
      cfg_cups = None, cfg_firewall = None\<rparr>"

definition default_config :: "'e DaemonConfig" where
  "default_config = DaemonConfig_new DEFAULT_STATE_DIR DEFAULT_SOCKET_PATH"

definition credential_dir :: "'e DaemonConfig \<Rightarrow> path" where
  "credential_dir config =
     (case cfg_credentials config of
        Some dir \<Rightarrow> path_components dir
      | None \<Rightarrow>
          if path_components (cfg_dir config) = path_components DEFAULT_CONFIG_DIR
          then path_components DEFAULT_CREDENTIAL_DIR
          else (case path_parent (path_components (cfg_dir config)) of
                  Some parent \<Rightarrow> path_join parent (lit ''shaprint-credentials'')
                | None \<Rightarrow> path_components DEFAULT_CREDENTIAL_DIR))"

section \<open>The command line of the daemon\<close>

text \<open>\<open>NonSecretDaemonConfigFile\<close>: what the configuration file or the command line may set.\<close>

record DaemonSettings =
  set_state_dir :: "ustr option"
  set_socket_path :: "ustr option"
  set_proxy_port :: "u16 option"
  set_server_port :: "u16 option"
  set_discovery_ports :: "u16 list option"
  set_require_root :: "bool option"
  set_forbid_root :: "bool option"

definition no_settings :: DaemonSettings where
  "no_settings =
     \<lparr>set_state_dir = None, set_socket_path = None, set_proxy_port = None, set_server_port = None,
      set_discovery_ports = None, set_require_root = None, set_forbid_root = None\<rparr>"

datatype ConfigRead = NoConfigFile | ConfigUnreadable ustr | ConfigBytes bytes

definition load_non_secret_config_file ::
  "(ustr \<Rightarrow> ConfigRead) \<Rightarrow> (bytes \<Rightarrow> ustr + DaemonSettings) \<Rightarrow> ustr \<Rightarrow> AppError + DaemonSettings" where
  "load_non_secret_config_file read_file of_json dir =
     (let file = path_push dir DEFAULT_CONFIG_FILE in
      case read_file file of
        NoConfigFile \<Rightarrow> Inr no_settings
      | ConfigUnreadable reason \<Rightarrow>
          Inl (internal_error (lit ''cannot read daemon configuration '' @ quoted file @ lit '': '' @ reason))
      | ConfigBytes bs \<Rightarrow>
          map_err (\<lambda>reason. invalid_input
            (lit ''invalid non-secret daemon configuration '' @ quoted file @ lit '': '' @ reason)) (of_json bs))"

definition parse_port :: "ustr \<Rightarrow> ustr \<Rightarrow> AppError + u16" where
  "parse_port v flag =
     (case parse_unsigned 65535 v of
        Some n \<Rightarrow> Inr (of_nat n)
      | None \<Rightarrow> Inl (invalid_input (lit ''invalid port '' @ quoted v @ lit '' for '' @ quoted flag)))"

record DaemonArgs =
  arg_config_dir :: "ustr option"
  arg_settings :: DaemonSettings

datatype DaemonFlag = ConfigDirFlag | StateDirFlag | SocketFlag | ProxyPortFlag | ServerPortFlag | DiscoveryPortFlag

definition flag_text :: "DaemonFlag \<Rightarrow> ustr" where
  "flag_text flag =
     (case flag of
        ConfigDirFlag \<Rightarrow> lit ''--config-dir''
      | StateDirFlag \<Rightarrow> lit ''--state-dir''
      | SocketFlag \<Rightarrow> lit ''--socket''
      | ProxyPortFlag \<Rightarrow> lit ''--proxy-port''
      | ServerPortFlag \<Rightarrow> lit ''--server-port''
      | DiscoveryPortFlag \<Rightarrow> lit ''--discovery-port'')"

definition daemon_flags :: "DaemonFlag list" where
  "daemon_flags = [ConfigDirFlag, StateDirFlag, SocketFlag, ProxyPortFlag, ServerPortFlag, DiscoveryPortFlag]"

definition daemon_flag :: "ustr \<Rightarrow> DaemonFlag option" where
  "daemon_flag arg = List.find (\<lambda>flag. flag_text flag = arg) daemon_flags"

definition require_root_flag :: ustr where "require_root_flag = lit ''--require-root''"
definition forbid_root_flag :: ustr where "forbid_root_flag = lit ''--forbid-root''"

definition update_settings :: "(DaemonSettings \<Rightarrow> DaemonSettings) \<Rightarrow> DaemonArgs \<Rightarrow> DaemonArgs" where
  "update_settings f st = st\<lparr>arg_settings := f (arg_settings st)\<rparr>"

definition set_daemon_flag :: "DaemonFlag \<Rightarrow> ustr \<Rightarrow> DaemonArgs \<Rightarrow> AppError + DaemonArgs" where
  "set_daemon_flag flag v st =
     (case flag of
        ConfigDirFlag \<Rightarrow> Inr (st\<lparr>arg_config_dir := Some v\<rparr>)
      | StateDirFlag \<Rightarrow> Inr (update_settings (\<lambda>c. c\<lparr>set_state_dir := Some v\<rparr>) st)
      | SocketFlag \<Rightarrow> Inr (update_settings (\<lambda>c. c\<lparr>set_socket_path := Some v\<rparr>) st)
      | ProxyPortFlag \<Rightarrow>
          and_then (parse_port v (flag_text flag)) (\<lambda>p. Inr (update_settings (\<lambda>c. c\<lparr>set_proxy_port := Some p\<rparr>) st))
      | ServerPortFlag \<Rightarrow>
          and_then (parse_port v (flag_text flag)) (\<lambda>p. Inr (update_settings (\<lambda>c. c\<lparr>set_server_port := Some p\<rparr>) st))
      | DiscoveryPortFlag \<Rightarrow>
          and_then (parse_port v (flag_text flag)) (\<lambda>p.
          Inr (update_settings (\<lambda>c. c\<lparr>set_discovery_ports := Some [p]\<rparr>) st)))"

definition missing_value :: "ustr \<Rightarrow> AppError" where
  "missing_value flag = invalid_input (lit ''missing value for '' @ quoted flag)"

fun scan_daemon_args :: "ustr list \<Rightarrow> DaemonArgs \<Rightarrow> AppError + DaemonArgs" where
  "scan_daemon_args [] st = Inr st"
| "scan_daemon_args (arg # rest) st =
     (case daemon_flag arg of
        Some flag \<Rightarrow>
          (case rest of
             [] \<Rightarrow> Inl (missing_value (flag_text flag))
           | v # rest' \<Rightarrow> and_then (set_daemon_flag flag v st) (scan_daemon_args rest'))
      | None \<Rightarrow>
          if arg = require_root_flag
          then scan_daemon_args rest (update_settings (\<lambda>c. c\<lparr>set_require_root := Some True\<rparr>) st)
          else if arg = forbid_root_flag
          then scan_daemon_args rest (update_settings (\<lambda>c. c\<lparr>set_forbid_root := Some True\<rparr>) st)
          else Inl (invalid_input (lit ''unrecognized shaprintd option '' @ quoted arg)))"

definition preferred :: "'a option \<Rightarrow> 'a option \<Rightarrow> 'a \<Rightarrow> 'a" where
  "preferred first second otherwise =
     (case first of Some x \<Rightarrow> x | None \<Rightarrow> (case second of Some x \<Rightarrow> x | None \<Rightarrow> otherwise))"

definition apply_settings :: "DaemonSettings \<Rightarrow> DaemonSettings \<Rightarrow> 'e DaemonConfig \<Rightarrow> 'e DaemonConfig" where
  "apply_settings cli file config =
     config
       \<lparr>cfg_state := preferred (set_state_dir cli) (set_state_dir file) (cfg_state config),
        cfg_socket := preferred (set_socket_path cli) (set_socket_path file) (cfg_socket config),
        cfg_policy :=
          (if preferred (set_require_root cli) (set_require_root file) False then RootOnly else cfg_policy config),
        cfg_forbid_root := preferred (set_forbid_root cli) (set_forbid_root file) (cfg_forbid_root config),
        cfg_ports :=
          \<lparr>ports_proxy = preferred (set_proxy_port cli) (set_proxy_port file) (ports_proxy default_ports),
           ports_server = preferred (set_server_port cli) (set_server_port file) (ports_server default_ports),
           ports_discovery =
             preferred (set_discovery_ports cli) (set_discovery_ports file) (ports_discovery default_ports)\<rparr>\<rparr>"

definition parse_daemon_args ::
  "(ustr \<Rightarrow> ConfigRead) \<Rightarrow> (bytes \<Rightarrow> ustr + DaemonSettings) \<Rightarrow> ustr list \<Rightarrow> AppError + 'e DaemonConfig" where
  "parse_daemon_args read_file of_json arguments =
     and_then (scan_daemon_args (drop 1 arguments) \<lparr>arg_config_dir = None, arg_settings = no_settings\<rparr>) (\<lambda>st.
     let config = (case arg_config_dir st of Some dir \<Rightarrow> default_config\<lparr>cfg_dir := dir\<rparr> | None \<Rightarrow> default_config) in
     and_then (case arg_config_dir st of
                 Some dir \<Rightarrow> load_non_secret_config_file read_file of_json dir
               | None \<Rightarrow> Inr no_settings) (\<lambda>file.
     Inr (apply_settings (arg_settings st) file config)))"

section \<open>The command line of shaprintctl\<close>

datatype SecretInputSource = PromptOrStdin | SecretStdin | FileDescriptor nat | CredentialFile ustr

datatype CliCommand =
    StatusCommand
  | DiagnosticsCommand
  | StartCommand ServiceId
  | StopCommand ServiceId
  | ShutdownCommand
  | DrainCommand "nat option"
  | ChannelStatusCommand
  | SetChannelCommand SecretInputSource
  | InspectCommand ustr
  | ApproveCommand ustr ustr
  | ForgetCommand ustr
  | ListTrustedCommand
  | ListServerPrintersCommand ustr
  | InstallQueueCommand ustr ustr
  | RepairQueueCommand ustr ustr
  | ListQueuesCommand
  | ListPrintersCommand
  | SetPrintersCommand "ustr list"
  | PurgeCommand bool

record CliOptions =
  cli_socket :: ustr
  cli_json :: bool
  cli_command :: CliCommand

record CliScan =
  scan_socket :: ustr
  scan_json :: bool
  scan_stdin :: bool
  scan_fd :: "nat option"
  scan_credential_file :: "ustr option"
  scan_fingerprint :: "ustr option"
  scan_timeout :: "nat option"
  scan_confirm :: bool
  scan_words :: "ustr list"

definition scan_start :: CliScan where
  "scan_start =
     \<lparr>scan_socket = DEFAULT_SOCKET_PATH, scan_json = False, scan_stdin = False, scan_fd = None,
      scan_credential_file = None, scan_fingerprint = None, scan_timeout = None, scan_confirm = False,
      scan_words = []\<rparr>"

datatype CliFlag = CliSocketFlag | TimeoutFlag | FdFlag | CredentialFileFlag | FingerprintFlag

definition cli_flag_text :: "CliFlag \<Rightarrow> ustr" where
  "cli_flag_text flag =
     (case flag of
        CliSocketFlag \<Rightarrow> lit ''--socket''
      | TimeoutFlag \<Rightarrow> lit ''--timeout''
      | FdFlag \<Rightarrow> lit ''--fd''
      | CredentialFileFlag \<Rightarrow> lit ''--credential-file''
      | FingerprintFlag \<Rightarrow> lit ''--fingerprint'')"

definition cli_flag :: "ustr \<Rightarrow> CliFlag option" where
  "cli_flag arg =
     List.find (\<lambda>flag. cli_flag_text flag = arg) [CliSocketFlag, TimeoutFlag, FdFlag, CredentialFileFlag, FingerprintFlag]"

text \<open>\<open>parse::<i32>\<close>, and not negative: minus zero is a descriptor too.\<close>

definition parse_descriptor :: "ustr \<Rightarrow> nat option" where
  "parse_descriptor v =
     (case v of
        c # t \<Rightarrow>
          if c = 45
          then (if t \<noteq> [] \<and> list_all is_ascii_digit t \<and> digits_value t = 0 then Some 0 else None)
          else parse_unsigned (2 ^ 31 - 1) v
      | [] \<Rightarrow> None)"

definition parse_timeout :: "ustr \<Rightarrow> AppError + nat" where
  "parse_timeout v =
     ok_or (parse_unsigned (2 ^ 64 - 1) v)
       (invalid_input (lit ''invalid timeout '' @ quoted v @ lit '' for '' @ quoted (cli_flag_text TimeoutFlag)))"

definition set_cli_flag :: "CliFlag \<Rightarrow> ustr \<Rightarrow> CliScan \<Rightarrow> AppError + CliScan" where
  "set_cli_flag flag v st =
     (case flag of
        CliSocketFlag \<Rightarrow> Inr (st\<lparr>scan_socket := v\<rparr>)
      | TimeoutFlag \<Rightarrow> and_then (parse_timeout v) (\<lambda>n. Inr (st\<lparr>scan_timeout := Some n\<rparr>))
      | FdFlag \<Rightarrow>
          and_then (ok_or (parse_descriptor v)
              (invalid_input (lit ''invalid file descriptor '' @ quoted v @ lit '' for '' @ quoted (cli_flag_text FdFlag))))
            (\<lambda>fd. Inr (st\<lparr>scan_fd := Some fd\<rparr>))
      | CredentialFileFlag \<Rightarrow> Inr (st\<lparr>scan_credential_file := Some v\<rparr>)
      | FingerprintFlag \<Rightarrow> Inr (st\<lparr>scan_fingerprint := Some v\<rparr>))"

definition secret_options :: "ustr list" where
  "secret_options = [lit ''--network-channel'', lit ''--channel'', lit ''--value'', lit ''--secret'']"

definition secret_option :: "ustr \<Rightarrow> bool" where
  "secret_option arg \<longleftrightarrow> list_ex (\<lambda>name. arg = name \<or> starts_with arg (name @ [61])) secret_options"

definition channel_argument :: AppError where
  "channel_argument = invalid_input (lit ''the Network Channel must not be passed as a command-line argument; use a hidden prompt, --stdin, --fd, or --credential-file'')"

definition confirm_flag :: ustr where "confirm_flag = lit ''--confirm''"

definition confirm_flags :: "ustr list" where
  "confirm_flags = [confirm_flag, lit ''--yes'', lit ''-y'']"

definition unrecognized_option :: "ustr \<Rightarrow> AppError" where
  "unrecognized_option name = invalid_input (lit ''unrecognized shaprintctl option '' @ quoted name)"

definition json_flag :: ustr where "json_flag = lit ''--json''"
definition stdin_flag :: ustr where "stdin_flag = lit ''--stdin''"
definition timeout_prefix :: ustr where "timeout_prefix = lit ''--timeout=''"

fun scan_cli_args :: "ustr list \<Rightarrow> CliScan \<Rightarrow> AppError + CliScan" where
  "scan_cli_args [] st = Inr st"
| "scan_cli_args (arg # rest) st =
     (if arg \<in> set confirm_flags then scan_cli_args rest (st\<lparr>scan_confirm := True\<rparr>)
      else if arg = json_flag then scan_cli_args rest (st\<lparr>scan_json := True\<rparr>)
      else if arg = stdin_flag then scan_cli_args rest (st\<lparr>scan_stdin := True\<rparr>)
      else
        (case cli_flag arg of
           Some flag \<Rightarrow>
             (case rest of
                [] \<Rightarrow> Inl (missing_value (cli_flag_text flag))
              | v # rest' \<Rightarrow> and_then (set_cli_flag flag v st) (scan_cli_args rest'))
         | None \<Rightarrow>
             (case strip_prefix arg timeout_prefix of
                Some v \<Rightarrow>
                  and_then (parse_timeout v) (\<lambda>n. scan_cli_args rest (st\<lparr>scan_timeout := Some n\<rparr>))
              | None \<Rightarrow>
                  if secret_option arg then Inl channel_argument
                  else if starts_with arg [45]
                  then Inl (unrecognized_option (hd (split_char 61 arg)))
                  else scan_cli_args rest (st\<lparr>scan_words := scan_words st @ [arg]\<rparr>))))"

definition words_start :: "CliScan \<Rightarrow> ustr list \<Rightarrow> bool" where
  "words_start st ws \<longleftrightarrow> take (length ws) (scan_words st) = ws"

definition set_channel_words :: "ustr list" where
  "set_channel_words = [lit ''network-channel'', lit ''set'']"

definition secret_sources :: "CliScan \<Rightarrow> nat" where
  "secret_sources st =
     of_bool (scan_stdin st) + of_bool (scan_fd st \<noteq> None) + of_bool (scan_credential_file st \<noteq> None)"

definition check_flags :: "CliScan \<Rightarrow> AppError + unit" where
  "check_flags st =
     (if secret_sources st > 1
      then Inl (invalid_input (lit ''specify at most one of '' @ quoted stdin_flag @ lit '', ''
              @ quoted (cli_flag_text FdFlag) @ lit '', or '' @ quoted (cli_flag_text CredentialFileFlag)))
      else if \<not> words_start st set_channel_words \<and> secret_sources st > 0
      then Inl (invalid_input (quoted stdin_flag @ lit '', '' @ quoted (cli_flag_text FdFlag) @ lit '', and ''
              @ quoted (cli_flag_text CredentialFileFlag) @ lit '' are only valid with '' @ quoted (lit ''network-channel set'')))
      else if scan_fingerprint st \<noteq> None \<and> \<not> words_start st [lit ''trust'', lit ''approve'']
      then Inl (invalid_input (quoted (cli_flag_text FingerprintFlag) @ lit '' is only valid with '' @ quoted (lit ''trust approve'')))
      else if scan_timeout st \<noteq> None \<and> \<not> words_start st [lit ''drain'']
      then Inl (invalid_input (quoted (cli_flag_text TimeoutFlag) @ lit '' is only valid with '' @ quoted (lit ''drain'')))
      else Inr ())"

definition secret_source :: "CliScan \<Rightarrow> SecretInputSource" where
  "secret_source st =
     (if scan_stdin st then SecretStdin
      else (case scan_fd st of
              Some fd \<Rightarrow> FileDescriptor fd
            | None \<Rightarrow> (case scan_credential_file st of Some f \<Rightarrow> CredentialFile f | None \<Rightarrow> PromptOrStdin)))"

definition parse_command :: "CliScan \<Rightarrow> AppError + CliCommand" where
  "parse_command st =
     (let ws = scan_words st in
      if ws = [lit ''status''] then Inr StatusCommand
      else if ws = [lit ''diagnostics''] \<or> ws = [lit ''diag''] then Inr DiagnosticsCommand
      else if length ws = 2 \<and> ws ! 0 = lit ''start''
      then and_then (ServiceId_parse (ws ! 1)) (\<lambda>sid. Inr (StartCommand sid))
      else if ws = [lit ''stop''] \<or> ws = [lit ''stop'', lit ''daemon''] \<or> ws = [lit ''shutdown''] then Inr ShutdownCommand
      else if length ws = 2 \<and> ws ! 0 = lit ''stop''
      then and_then (ServiceId_parse (ws ! 1)) (\<lambda>sid. Inr (StopCommand sid))
      else if ws = [lit ''drain''] then Inr (DrainCommand (scan_timeout st))
      else if ws = [lit ''network-channel''] \<or> ws = [lit ''network-channel'', lit ''status'']
      then Inr ChannelStatusCommand
      else if ws = set_channel_words then Inr (SetChannelCommand (secret_source st))
      else if words_start st set_channel_words then Inl channel_argument
      else if ws = [lit ''trust'', lit ''list''] \<or> ws = [lit ''trusted-servers''] then Inr ListTrustedCommand
      else if length ws = 3 \<and> words_start st [lit ''trust'', lit ''inspect''] then Inr (InspectCommand (ws ! 2))
      else if length ws = 2 \<and> words_start st [lit ''inspect''] then Inr (InspectCommand (ws ! 1))
      else if length ws = 3 \<and> words_start st [lit ''trust'', lit ''approve'']
      then (case scan_fingerprint st of
              Some given \<Rightarrow> Inr (ApproveCommand (ws ! 2) given)
            | None \<Rightarrow> Inl (invalid_input (lit ''missing certificate fingerprint for '' @ quoted (lit ''trust approve'')
                 @ lit '' (pass --fingerprint <SHA256>)'')))
      else if length ws = 4 \<and> words_start st [lit ''trust'', lit ''approve'']
      then (if scan_fingerprint st \<noteq> None
            then Inl (invalid_input (lit ''specify the fingerprint either positionally or with ''
                 @ quoted (cli_flag_text FingerprintFlag) @ lit '', not both''))
            else Inr (ApproveCommand (ws ! 2) (ws ! 3)))
      else if length ws = 3 \<and> words_start st [lit ''trust'', lit ''forget''] then Inr (ForgetCommand (ws ! 2))
      else if length ws = 2 \<and> words_start st [lit ''forget''] then Inr (ForgetCommand (ws ! 1))
      else if length ws = 3 \<and> words_start st [lit ''trust'', lit ''printers''] then Inr (ListServerPrintersCommand (ws ! 2))
      else if length ws = 2 \<and> words_start st [lit ''printers''] then Inr (ListServerPrintersCommand (ws ! 1))
      else if length ws = 4 \<and> words_start st [lit ''queue'', lit ''install'']
      then Inr (InstallQueueCommand (ws ! 2) (ws ! 3))
      else if length ws = 4 \<and> words_start st [lit ''queue'', lit ''repair'']
      then Inr (RepairQueueCommand (ws ! 2) (ws ! 3))
      else if ws = [lit ''queue'', lit ''list''] \<or> ws = [lit ''queues''] then Inr ListQueuesCommand
      else if ws = [lit ''sharing''] \<or> ws = [lit ''sharing'', lit ''printers''] \<or> ws = [lit ''sharing'', lit ''list'']
      then Inr ListPrintersCommand
      else if ws = [lit ''sharing'', lit ''clear''] then Inr (SetPrintersCommand [])
      else if words_start st [lit ''sharing'', lit ''set'']
      then (if drop 2 ws = []
            then Inl (invalid_input (lit ''specify at least one local printer name for '' @ quoted (lit ''sharing set'')
                 @ lit '' (or use '' @ quoted (lit ''sharing clear'') @ lit '')''))
            else Inr (SetPrintersCommand (drop 2 ws)))
      else if ws = [lit ''purge''] then Inr (PurgeCommand (scan_confirm st))
      else if ws = []
      then Inl (invalid_input (lit ''missing command (expected: status, start <service>, stop [service], shutdown, network-channel, trust, printers, queue, sharing, or purge)''))
      else Inl (invalid_input (lit ''invalid command '' @ quoted (join [32] ws))))"

definition parse_cli_args :: "ustr list \<Rightarrow> AppError + CliOptions" where
  "parse_cli_args arguments =
     and_then (scan_cli_args (drop 1 arguments) scan_start) (\<lambda>st.
     and_then (check_flags st) (\<lambda>_.
     and_then (parse_command st) (\<lambda>command.
     Inr \<lparr>cli_socket = scan_socket st, cli_json = scan_json st, cli_command = command\<rparr>)))"

section \<open>The secret\<close>

text \<open>
  One line from standard input, a descriptor, a file or the terminal: what the reader gives, or the reason
  why it fails. \<open>BufRead::read_line\<close> takes the bytes up to the first line break and wants UTF-8.
\<close>

definition channel_unreadable :: "ustr \<Rightarrow> AppError" where
  "channel_unreadable reason = internal_error (lit ''cannot read Network Channel input: '' @ reason)"

definition read_secret_from_reader :: "ustr + bytes \<Rightarrow> AppError + ustr" where
  "read_secret_from_reader input =
     (case input of
        Inl reason \<Rightarrow> Inl (channel_unreadable reason)
      | Inr bs \<Rightarrow>
          (let line = first_line (take (MAX_MESSAGE_BYTES + 1) bs) in
           case from_utf8 line of
             None \<Rightarrow> Inl (channel_unreadable (lit ''stream did not contain valid UTF-8''))
           | Some text_read \<Rightarrow>
               if length line > MAX_MESSAGE_BYTES then Inl (invalid_input (lit ''Network Channel input is too large''))
               else (let trimmed = trim_end_by line_end text_read in
                     if trimmed = [] then Inl (invalid_input (lit ''Network Channel cannot be empty''))
                     else Inr trimmed)))"

end
