(* ===== verification/Cli_Policy.thy ===== *)
theory Cli_Policy
  imports Daemon_Cli
begin

text \<open>
  What the command lines promise: \<open>shaprintctl\<close> takes every command as it was meant, never the Network
  Channel from its arguments, and the settings of the daemon have their order of precedence.
\<close>

section \<open>The words of a command\<close>

definition dash_word :: "ustr \<Rightarrow> bool" where
  "dash_word w \<longleftrightarrow> starts_with w [45]"

lemma cli_flag_dash: "\<exists>t. cli_flag_text flag = 45 # t"
  by (cases flag) (simp_all add: cli_flag_text_def)

lemma scan_word:
  assumes "\<not> dash_word w"
  shows "scan_cli_args (w # rest) st = scan_cli_args rest (st\<lparr>scan_words := scan_words st @ [w]\<rparr>)"
proof -
  have no: "w \<noteq> 45 # t" for t using assms by (auto simp: dash_word_def starts_with_def)
  have "cli_flag_text flag \<noteq> w" for flag using no cli_flag_dash [of flag] by auto
  then have "cli_flag w = None" by (simp add: cli_flag_def)
  moreover have "strip_prefix w timeout_prefix = None" using no
    by (cases w) (auto simp: strip_prefix_def starts_with_def timeout_prefix_def)
  moreover have "\<not> secret_option w" using no
    by (cases w) (auto simp: secret_option_def secret_options_def starts_with_def)
  moreover have "w \<notin> set confirm_flags" "w \<noteq> json_flag" "w \<noteq> stdin_flag" using no
    by (auto simp: confirm_flags_def confirm_flag_def json_flag_def stdin_flag_def)
  ultimately show ?thesis using assms by (simp add: dash_word_def)
qed

lemma scan_words_append:
  "list_all (\<lambda>w. \<not> dash_word w) ws \<Longrightarrow>
    scan_cli_args (ws @ rest) st = scan_cli_args rest (st\<lparr>scan_words := scan_words st @ ws\<rparr>)"
  by (induction ws arbitrary: st) (simp_all add: scan_word del: scan_cli_args.simps(2))

lemma set_cli_flag_words: "set_cli_flag flag v st = Inr st' \<Longrightarrow> scan_words st' = scan_words st"
  by (cases flag) (auto simp: set_cli_flag_def result_simps)

lemma scan_keeps_words:
  assumes "scan_cli_args args st = Inr st'" "list_all (\<lambda>w. \<not> dash_word w) (scan_words st)"
  shows "list_all (\<lambda>w. \<not> dash_word w) (scan_words st')"
  using assms
proof (induction args st rule: scan_cli_args.induct)
  case (2 arg rest st)
  show ?case
  proof (cases "arg \<in> set confirm_flags \<or> arg = json_flag \<or> arg = stdin_flag")
    case True
    with 2 show ?thesis by (auto split: if_splits)
  next
    case False
    then have plain: "arg \<notin> set confirm_flags" "arg \<noteq> json_flag" "arg \<noteq> stdin_flag" by simp_all
    show ?thesis
    proof (cases "cli_flag arg")
      case (Some flag)
      with 2 plain obtain v rest' st2 where "rest = v # rest'" "set_cli_flag flag v st = Inr st2"
        "scan_cli_args rest' st2 = Inr st'"
        by (cases rest) (auto simp: result_simps)
      with 2 plain Some set_cli_flag_words [of flag v st st2] show ?thesis by simp
    next
      case None
      show ?thesis
      proof (cases "strip_prefix arg timeout_prefix")
        case (Some v)
        with 2 plain None show ?thesis by (auto simp: result_simps)
      next
        case no_prefix: None
        with 2 plain None show ?thesis by (auto simp: dash_word_def split: if_splits)
      qed
    qed
  qed
qed simp

lemma cli_flag_found [simp]: "cli_flag (cli_flag_text flag) = Some flag"
  by (cases flag) (simp_all add: cli_flag_def cli_flag_text_def)

lemma flag_not_word [simp]:
  "cli_flag_text flag \<notin> set confirm_flags" "cli_flag_text flag \<noteq> json_flag" "cli_flag_text flag \<noteq> stdin_flag"
  by (cases flag; simp add: cli_flag_text_def confirm_flags_def confirm_flag_def json_flag_def stdin_flag_def)+

lemma scan_flag:
  "scan_cli_args (cli_flag_text flag # v # rest) st = and_then (set_cli_flag flag v st) (scan_cli_args rest)"
  by simp

lemma scan_switch:
  "scan_cli_args (json_flag # rest) st = scan_cli_args rest (st\<lparr>scan_json := True\<rparr>)"
  "scan_cli_args (stdin_flag # rest) st = scan_cli_args rest (st\<lparr>scan_stdin := True\<rparr>)"
  "scan_cli_args (confirm_flag # rest) st = scan_cli_args rest (st\<lparr>scan_confirm := True\<rparr>)"
  by (simp_all add: confirm_flags_def confirm_flag_def json_flag_def stdin_flag_def)

declare scan_cli_args.simps(2) [simp del]

section \<open>Every command can be given\<close>

fun free_words :: "CliCommand \<Rightarrow> ustr list" where
  "free_words (InspectCommand a) = [a]"
| "free_words (ApproveCommand a _) = [a]"
| "free_words (ForgetCommand a) = [a]"
| "free_words (ListServerPrintersCommand a) = [a]"
| "free_words (InstallQueueCommand a p) = [a, p]"
| "free_words (RepairQueueCommand a p) = [a, p]"
| "free_words (SetPrintersCommand names) = names"
| "free_words _ = []"

fun source_flags :: "SecretInputSource \<Rightarrow> ustr list" where
  "source_flags PromptOrStdin = []"
| "source_flags SecretStdin = [stdin_flag]"
| "source_flags (FileDescriptor fd) = [cli_flag_text FdFlag, show_nat fd]"
| "source_flags (CredentialFile f) = [cli_flag_text CredentialFileFlag, f]"

fun command_line :: "CliCommand \<Rightarrow> ustr list" where
  "command_line StatusCommand = [lit ''status'']"
| "command_line DiagnosticsCommand = [lit ''diagnostics'']"
| "command_line (StartCommand sid) = [lit ''start'', ServiceId_as_str sid]"
| "command_line (StopCommand sid) = [lit ''stop'', ServiceId_as_str sid]"
| "command_line ShutdownCommand = [lit ''shutdown'']"
| "command_line (DrainCommand t) =
     lit ''drain'' # (case t of None \<Rightarrow> [] | Some n \<Rightarrow> [cli_flag_text TimeoutFlag, show_nat n])"
| "command_line ChannelStatusCommand = [lit ''network-channel'', lit ''status'']"
| "command_line (SetChannelCommand src) = lit ''network-channel'' # lit ''set'' # source_flags src"
| "command_line (InspectCommand a) = [lit ''trust'', lit ''inspect'', a]"
| "command_line (ApproveCommand a f) = [lit ''trust'', lit ''approve'', a, cli_flag_text FingerprintFlag, f]"
| "command_line (ForgetCommand a) = [lit ''trust'', lit ''forget'', a]"
| "command_line ListTrustedCommand = [lit ''trust'', lit ''list'']"
| "command_line (ListServerPrintersCommand a) = [lit ''trust'', lit ''printers'', a]"
| "command_line (InstallQueueCommand a p) = [lit ''queue'', lit ''install'', a, p]"
| "command_line (RepairQueueCommand a p) = [lit ''queue'', lit ''repair'', a, p]"
| "command_line ListQueuesCommand = [lit ''queue'', lit ''list'']"
| "command_line ListPrintersCommand = [lit ''sharing'', lit ''list'']"
| "command_line (SetPrintersCommand names) =
     lit ''sharing'' # (if names = [] then [lit ''clear''] else lit ''set'' # names)"
| "command_line (PurgeCommand confirm) = lit ''purge'' # (if confirm then [confirm_flag] else [])"

definition full_line :: "ustr \<Rightarrow> CliOptions \<Rightarrow> ustr list" where
  "full_line prog opts =
     prog # cli_flag_text CliSocketFlag # cli_socket opts # (if cli_json opts then [json_flag] else [])
       @ command_line (cli_command opts)"

text \<open>The numbers the code keeps at their width.\<close>

fun numbers_fit :: "CliCommand \<Rightarrow> bool" where
  "numbers_fit (DrainCommand (Some n)) \<longleftrightarrow> n < 2 ^ 64"
| "numbers_fit (SetChannelCommand (FileDescriptor fd)) \<longleftrightarrow> fd < 2 ^ 31"
| "numbers_fit _ \<longleftrightarrow> True"

lemma dash_word_simps: "\<not> dash_word (ServiceId_as_str sid)" "dash_word (c # t) \<longleftrightarrow> c = 45" "\<not> dash_word []"
  by (cases sid; simp add: dash_word_def starts_with_def)+

text \<open>What the scan of a command line leaves: its words, and what its flags set.\<close>

fun scanned :: "CliCommand \<Rightarrow> CliScan \<Rightarrow> CliScan" where
  "scanned (DrainCommand t) st = st\<lparr>scan_words := [lit ''drain''], scan_timeout := t\<rparr>"
| "scanned (SetChannelCommand src) st =
     (let st = st\<lparr>scan_words := set_channel_words\<rparr> in
      case src of
        PromptOrStdin \<Rightarrow> st | SecretStdin \<Rightarrow> st\<lparr>scan_stdin := True\<rparr>
      | FileDescriptor fd \<Rightarrow> st\<lparr>scan_fd := Some fd\<rparr> | CredentialFile f \<Rightarrow> st\<lparr>scan_credential_file := Some f\<rparr>)"
| "scanned (ApproveCommand a f) st =
     st\<lparr>scan_words := [lit ''trust'', lit ''approve'', a], scan_fingerprint := Some f\<rparr>"
| "scanned (PurgeCommand confirm) st = st\<lparr>scan_words := [lit ''purge''], scan_confirm := confirm\<rparr>"
| "scanned c st = st\<lparr>scan_words := command_line c\<rparr>"

lemma parse_shown_timeout: "n < 2 ^ 64 \<Longrightarrow> parse_timeout (show_nat n) = Inr n"
  by (simp add: parse_timeout_def ok_or_def parse_show_nat)

lemma parse_shown_descriptor: "fd < 2 ^ 31 \<Longrightarrow> parse_descriptor (show_nat fd) = Some fd"
  using show_nat_digits [of fd] parse_show_nat [of fd "2 ^ 31 - 1"]
  by (cases "show_nat fd") (auto simp: parse_descriptor_def is_ascii_digit_def)

lemma scan_command_line:
  assumes "numbers_fit c" "list_all (\<lambda>w. \<not> dash_word w) (free_words c)" "scan_words st = []"
    "scan_timeout st = None" "\<not> scan_confirm st"
  shows "scan_cli_args (command_line c) st = Inr (scanned c st)"
proof -
  have words: "scan_cli_args ws st = Inr (st\<lparr>scan_words := ws\<rparr>)" if "list_all (\<lambda>w. \<not> dash_word w) ws" for ws
    using scan_words_append [OF that, of "[]" st] assms(3) by simp
  note line = dash_word_simps scan_word scan_flag scan_switch set_cli_flag_def
  show ?thesis
    using assms(1,2)
    by (cases c) (auto simp add: line words assms(3-5) parse_shown_timeout parse_shown_descriptor
      set_channel_words_def Let_def ok_or_def split: option.split SecretInputSource.split)
qed

lemma scanned_others:
  "scan_socket (scanned c st) = scan_socket st \<and> scan_json (scanned c st) = scan_json st"
  by (cases c) (simp_all add: Let_def split: SecretInputSource.split)

lemma scanned_flags:
  assumes "scan_stdin st = False" "scan_fd st = None" "scan_credential_file st = None"
    "scan_fingerprint st = None" "scan_timeout st = None"
  shows "check_flags (scanned c st) = Inr ()"
  using assms
  by (cases c) (auto simp: check_flags_def secret_sources_def words_start_def set_channel_words_def Let_def
      split: SecretInputSource.split)

lemma scanned_command:
  assumes "scan_stdin st = False" "scan_fd st = None" "scan_credential_file st = None"
    "scan_fingerprint st = None" "scan_timeout st = None" "\<not> scan_confirm st"
  shows "parse_command (scanned c st) = Inr c"
proof (cases c)
  case (StopCommand sid)
  then show ?thesis
    by (cases sid) (simp_all add: parse_command_def ServiceId_parse_Inr_iff words_start_def set_channel_words_def
        ServiceId_parse_def ServiceId_ALL_def ok_or_def)
next
  case (StartCommand sid)
  then show ?thesis
    by (cases sid) (simp_all add: parse_command_def ServiceId_parse_Inr_iff words_start_def set_channel_words_def
        ServiceId_parse_def ServiceId_ALL_def ok_or_def)
next
  case (SetChannelCommand src)
  with assms show ?thesis
    by (cases src) (simp_all add: parse_command_def words_start_def set_channel_words_def secret_source_def)
qed (use assms in \<open>simp_all add: parse_command_def words_start_def set_channel_words_def\<close>)

definition words_from :: "ustr list \<Rightarrow> AppError + CliCommand \<Rightarrow> bool" where
  "words_from ws r \<longleftrightarrow> (\<forall>c. r = Inr c \<longrightarrow> set (free_words c) \<subseteq> set ws)"

lemma words_from_if: "(b \<Longrightarrow> words_from ws r1) \<Longrightarrow> words_from ws r2 \<Longrightarrow> words_from ws (if b then r1 else r2)"
  by simp

lemma words_from_leaf:
  "words_from ws (Inl e)" "set (free_words c) \<subseteq> set ws \<Longrightarrow> words_from ws (Inr c)"
  "words_from ws (and_then (ServiceId_parse w) (\<lambda>sid. Inr (StartCommand sid)))"
  "words_from ws (and_then (ServiceId_parse w) (\<lambda>sid. Inr (StopCommand sid)))"
  by (auto simp: words_from_def result_simps)

lemma parse_command_words: "words_from (scan_words st) (parse_command st)"
  unfolding parse_command_def Let_def
  by (intro words_from_if) (auto intro!: words_from_leaf split: option.split dest: in_set_dropD)

lemma parsed_words:
  "parse_command st = Inr c \<Longrightarrow> list_all (\<lambda>w. \<not> dash_word w) (scan_words st) \<Longrightarrow>
    list_all (\<lambda>w. \<not> dash_word w) (free_words c)"
  using parse_command_words [of st] by (auto simp: words_from_def list_all_iff)

text \<open>
  C99: Every command of \<open>shaprintctl\<close> can be given on its command line, with any socket and
  either output, and is taken as it was meant, as long as none of its addresses and printer names
  begins with a dash. With one that does there is no command line at all that gives it: the word is taken
  for an option.
\<close>

theorem command_line_round_trip:
  assumes "numbers_fit (cli_command opts)"
  shows "if list_all (\<lambda>w. \<not> dash_word w) (free_words (cli_command opts))
    then parse_cli_args (full_line prog opts) = Inr opts
    else \<forall>arguments. parse_cli_args arguments \<noteq> Inr opts"
proof (cases "list_all (\<lambda>w. \<not> dash_word w) (free_words (cli_command opts))")
  case True
  define st where "st = scan_start\<lparr>scan_socket := cli_socket opts, scan_json := cli_json opts\<rparr>"
  have start: "scan_words st = []" "scan_timeout st = None" "\<not> scan_confirm st" "scan_stdin st = False"
    "scan_fd st = None" "scan_credential_file st = None" "scan_fingerprint st = None"
    by (simp_all add: st_def scan_start_def)
  have "scan_cli_args (drop 1 (full_line prog opts)) scan_start = scan_cli_args (command_line (cli_command opts)) st"
    by (simp add: full_line_def scan_flag scan_switch set_cli_flag_def st_def) (simp add: scan_start_def)
  also have "\<dots> = Inr (scanned (cli_command opts) st)" using scan_command_line [OF assms True start(1-3)] .
  finally show ?thesis
    using True start scanned_flags [of st "cli_command opts"] scanned_command [of st "cli_command opts"]
      scanned_others [of "cli_command opts" st]
    by (simp add: parse_cli_args_def) (simp add: st_def)
next
  case False
  have "parse_cli_args arguments \<noteq> Inr opts" for arguments
  proof
    assume "parse_cli_args arguments = Inr opts"
    then obtain st where "scan_cli_args (drop 1 arguments) scan_start = Inr st" "parse_command st = Inr (cli_command opts)"
      by (auto simp: parse_cli_args_def result_simps)
    then show False
      using scan_keeps_words [of "drop 1 arguments" scan_start st] parsed_words [of st] False by (simp add: scan_start_def)
  qed
  with False show ?thesis by simp
qed

section \<open>The secret stays out\<close>

lemma scan_append: "scan_cli_args pre st = Inr st' \<Longrightarrow> scan_cli_args (pre @ rest) st = scan_cli_args rest st'"
proof (induction pre st rule: scan_cli_args.induct)
  case (2 arg pre st)
  then show ?case
    by (auto simp: scan_cli_args.simps(2) result_simps split: if_splits option.splits list.splits)
qed simp

lemma starts_with_upto: "c \<notin> set a \<Longrightarrow> c \<notin> set b \<Longrightarrow> starts_with (a @ c # s) (b @ [c]) \<longleftrightarrow> a = b"
proof (induction a arbitrary: b)
  case Nil
  then show ?case by (cases b) (auto simp: starts_with_def)
next
  case (Cons x a)
  then show ?case by (cases b) (auto simp: starts_with_def)
qed

lemma scan_option_value:
  assumes "dash_word opt" "61 \<notin> set opt" "opt \<noteq> cli_flag_text TimeoutFlag"
  shows "scan_cli_args ((opt @ 61 # v) # rest) st
    = Inl (if opt \<in> set secret_options then channel_argument else unrecognized_option opt)"
proof -
  let ?arg = "opt @ 61 # v"
  have eq: "61 \<in> set ?arg" by simp
  have none: "61 \<notin> set (cli_flag_text flag)" for flag by (cases flag) (simp_all add: cli_flag_text_def)
  with eq have "cli_flag_text flag \<noteq> ?arg" for flag by metis
  then have flag: "cli_flag ?arg = None" by (simp add: cli_flag_def)
  have plain: "61 \<notin> set s" if "s \<in> set confirm_flags \<or> s = json_flag \<or> s = stdin_flag" for s
    using that by (auto simp: confirm_flags_def confirm_flag_def json_flag_def stdin_flag_def)
  with eq have switches: "?arg \<notin> set confirm_flags" "?arg \<noteq> json_flag" "?arg \<noteq> stdin_flag" by metis+
  have "timeout_prefix = cli_flag_text TimeoutFlag @ [61]" by (simp add: timeout_prefix_def cli_flag_text_def)
  with assms none have prefix: "strip_prefix ?arg timeout_prefix = None"
    using starts_with_upto [of 61 opt "cli_flag_text TimeoutFlag" v] by (simp add: strip_prefix_def)
  have secret: "secret_option ?arg \<longleftrightarrow> opt \<in> set secret_options"
  proof -
    have names: "61 \<notin> set name" if "name \<in> set secret_options" for name
      using that by (auto simp: secret_options_def)
    then have "?arg \<notin> set secret_options" using eq by blast
    with assms(2) names show ?thesis
      by (auto simp: secret_option_def list_ex_iff starts_with_upto)
  qed
  have first: "hd (split_char 61 ?arg) = opt" using split_char_append [OF assms(2), of v] by simp
  show ?thesis using flag switches prefix secret first assms(1)
    by (auto simp: scan_cli_args.simps(2) dash_word_def starts_with_def)
qed

lemma secret_names_plain:
  "list_all (\<lambda>name. name \<notin> set confirm_flags \<and> name \<noteq> json_flag \<and> name \<noteq> stdin_flag
     \<and> cli_flag name = None \<and> strip_prefix name timeout_prefix = None) secret_options"
  by code_simp

lemma scan_secret_name:
  assumes "name \<in> set secret_options"
  shows "scan_cli_args (name # rest) st = Inl channel_argument"
proof -
  have "secret_option name" using assms by (auto simp: secret_option_def list_ex_iff)
  with assms secret_names_plain show ?thesis by (simp add: list_all_iff scan_cli_args.simps(2))
qed

text \<open>
  C99: The Network Channel is not taken from the command line, and not repeated. After
  arguments that are in order, a value attached to an option, such as \<open>--secret=\<close>, is refused with a message
  that depends on the name of the option alone, and so is one that follows the options made for it; and a
  word after \<open>network-channel set\<close> is refused with a message that does not depend on the word.
\<close>

theorem channel_never_an_argument:
  assumes "scan_cli_args pre scan_start = Inr st"
  shows "(\<forall>opt v post. dash_word opt \<longrightarrow> 61 \<notin> set opt \<longrightarrow> opt \<noteq> cli_flag_text TimeoutFlag \<longrightarrow>
      parse_cli_args (prog # pre @ (opt @ 61 # v) # post)
        = Inl (if opt \<in> set secret_options then channel_argument else unrecognized_option opt))
    \<and> (\<forall>name \<in> set secret_options. \<forall>post. parse_cli_args (prog # pre @ name # post) = Inl channel_argument)
    \<and> (scan_words st = set_channel_words \<longrightarrow> (\<forall>secret. \<not> dash_word secret \<longrightarrow>
      parse_cli_args (prog # pre @ [secret])
        = (case check_flags st of Inl e \<Rightarrow> Inl e | Inr _ \<Rightarrow> Inl channel_argument)))"
proof (intro conjI allI impI ballI)
  fix opt v post
  assume "dash_word opt" "61 \<notin> set opt" "opt \<noteq> cli_flag_text TimeoutFlag"
  from scan_option_value [OF this]
  show "parse_cli_args (prog # pre @ (opt @ 61 # v) # post)
    = Inl (if opt \<in> set secret_options then channel_argument else unrecognized_option opt)"
    by (simp add: parse_cli_args_def scan_append [OF assms])
next
  fix name post
  assume "name \<in> set secret_options"
  from scan_secret_name [OF this] show "parse_cli_args (prog # pre @ name # post) = Inl channel_argument"
    by (simp add: parse_cli_args_def scan_append [OF assms])
next
  fix secret
  assume words: "scan_words st = set_channel_words" and "\<not> dash_word secret"
  let ?st = "st\<lparr>scan_words := set_channel_words @ [secret]\<rparr>"
  have scan: "scan_cli_args (drop 1 (prog # pre @ [secret])) scan_start = Inr ?st"
    using scan_word [OF \<open>\<not> dash_word secret\<close>, of "[]" st] words by (simp add: scan_append [OF assms])
  have flags: "check_flags ?st = check_flags st"
    using words by (simp add: check_flags_def words_start_def secret_sources_def set_channel_words_def)
  have "parse_command ?st = Inl channel_argument"
    by (simp add: parse_command_def words_start_def set_channel_words_def)
  with scan flags show "parse_cli_args (prog # pre @ [secret])
      = (case check_flags st of Inl e \<Rightarrow> Inl e | Inr _ \<Rightarrow> Inl channel_argument)"
    unfolding parse_cli_args_def by (simp split: sum.split)
qed

section \<open>The settings of the daemon\<close>

text \<open>An option of \<open>shaprintd\<close>, how it is written, and what it sets.\<close>

datatype DaemonOption =
    ConfigDirOption ustr | StateDirOption ustr | SocketOption ustr
  | ProxyPortOption u16 | ServerPortOption u16 | DiscoveryPortOption u16
  | RequireRootOption | ForbidRootOption

definition option_words :: "DaemonOption \<Rightarrow> ustr list" where
  "option_words opt =
     (case opt of
        ConfigDirOption v \<Rightarrow> [flag_text ConfigDirFlag, v]
      | StateDirOption v \<Rightarrow> [flag_text StateDirFlag, v]
      | SocketOption v \<Rightarrow> [flag_text SocketFlag, v]
      | ProxyPortOption p \<Rightarrow> [flag_text ProxyPortFlag, show_nat (unat p)]
      | ServerPortOption p \<Rightarrow> [flag_text ServerPortFlag, show_nat (unat p)]
      | DiscoveryPortOption p \<Rightarrow> [flag_text DiscoveryPortFlag, show_nat (unat p)]
      | RequireRootOption \<Rightarrow> [require_root_flag]
      | ForbidRootOption \<Rightarrow> [forbid_root_flag])"

text \<open>The last occurrence of what \<open>pick\<close> finds.\<close>

definition last_given :: "(DaemonOption \<Rightarrow> 'a option) \<Rightarrow> DaemonOption list \<Rightarrow> 'a option" where
  "last_given pick opts = foldl (\<lambda>found opt. case pick opt of Some x \<Rightarrow> Some x | None \<Rightarrow> found) None opts"

definition given_settings :: "DaemonOption list \<Rightarrow> DaemonSettings" where
  "given_settings opts =
     \<lparr>set_state_dir = last_given (\<lambda>opt. case opt of StateDirOption v \<Rightarrow> Some v | _ \<Rightarrow> None) opts,
      set_socket_path = last_given (\<lambda>opt. case opt of SocketOption v \<Rightarrow> Some v | _ \<Rightarrow> None) opts,
      set_proxy_port = last_given (\<lambda>opt. case opt of ProxyPortOption p \<Rightarrow> Some p | _ \<Rightarrow> None) opts,
      set_server_port = last_given (\<lambda>opt. case opt of ServerPortOption p \<Rightarrow> Some p | _ \<Rightarrow> None) opts,
      set_discovery_ports = last_given (\<lambda>opt. case opt of DiscoveryPortOption p \<Rightarrow> Some [p] | _ \<Rightarrow> None) opts,
      set_require_root = (if RequireRootOption \<in> set opts then Some True else None),
      set_forbid_root = (if ForbidRootOption \<in> set opts then Some True else None)\<rparr>"

definition given_dir :: "DaemonOption list \<Rightarrow> ustr option" where
  "given_dir opts = last_given (\<lambda>opt. case opt of ConfigDirOption v \<Rightarrow> Some v | _ \<Rightarrow> None) opts"

lemma last_given_simps [simp]:
  "last_given pick [] = None"
  "last_given pick (opts @ [opt]) = (case pick opt of Some x \<Rightarrow> Some x | None \<Rightarrow> last_given pick opts)"
  by (simp_all add: last_given_def split: option.split)

lemma daemon_flag_found [simp]: "daemon_flag (flag_text flag) = Some flag"
  by (cases flag) (simp_all add: daemon_flag_def daemon_flags_def flag_text_def)

lemma switch_no_flag [simp]:
  "daemon_flag require_root_flag = None" "daemon_flag forbid_root_flag = None" "forbid_root_flag \<noteq> require_root_flag"
  "require_root_flag \<noteq> forbid_root_flag"
  by (simp_all add: daemon_flag_def daemon_flags_def flag_text_def require_root_flag_def forbid_root_flag_def)

lemma parse_shown_port: "parse_port (show_nat (unat p)) flag = Inr p"
proof -
  have "unat p < 2 ^ 16" using unsigned_less [of p, where ?'a = nat] by simp
  with parse_show_nat [of "unat p" 65535] show ?thesis by (simp add: parse_port_def)
qed

lemma scan_daemon_append:
  "scan_daemon_args pre st = Inr st' \<Longrightarrow> scan_daemon_args (pre @ rest) st = scan_daemon_args rest st'"
proof (induction pre st rule: scan_daemon_args.induct)
  case (2 arg pre st)
  then show ?case
    by (auto simp: result_simps split: if_splits option.splits list.splits)
qed simp

lemma scan_option_words:
  "scan_daemon_args (concat (map option_words opts)) \<lparr>arg_config_dir = None, arg_settings = no_settings\<rparr>
    = Inr \<lparr>arg_config_dir = given_dir opts, arg_settings = given_settings opts\<rparr>"
proof (induction opts rule: rev_induct)
  case Nil
  then show ?case by (simp add: given_dir_def given_settings_def no_settings_def)
next
  case (snoc opt opts)
  have "scan_daemon_args (option_words opt) \<lparr>arg_config_dir = given_dir opts, arg_settings = given_settings opts\<rparr>
    = Inr \<lparr>arg_config_dir = given_dir (opts @ [opt]), arg_settings = given_settings (opts @ [opt])\<rparr>"
    by (cases opt) (auto simp: option_words_def set_daemon_flag_def update_settings_def given_dir_def
        given_settings_def parse_shown_port)
  with scan_daemon_append [OF snoc] show ?case by simp
qed

text \<open>
  C99: The settings of the daemon and where they come from. For every sequence of options, in
  any order, the last occurrence of an option counts; it comes before the configuration file, which comes
  before the default. The file is read only when a directory is given on the command line; one that is not
  there sets nothing, and one that cannot be read or understood stops the daemon.
\<close>

theorem daemon_settings_precedence:
  "parse_daemon_args read_file of_json (prog # concat (map option_words opts))
     = (case given_dir opts of
          None \<Rightarrow> Inr (apply_settings (given_settings opts) no_settings default_config)
        | Some dir \<Rightarrow>
            (case read_file (path_push dir DEFAULT_CONFIG_FILE) of
               NoConfigFile \<Rightarrow> Inr (apply_settings (given_settings opts) no_settings (default_config\<lparr>cfg_dir := dir\<rparr>))
             | ConfigUnreadable reason \<Rightarrow> Inl (internal_error (lit ''cannot read daemon configuration ''
                 @ quoted (path_push dir DEFAULT_CONFIG_FILE) @ lit '': '' @ reason))
             | ConfigBytes bs \<Rightarrow>
                 (case of_json bs of
                    Inr file \<Rightarrow> Inr (apply_settings (given_settings opts) file (default_config\<lparr>cfg_dir := dir\<rparr>))
                  | Inl reason \<Rightarrow> Inl (invalid_input (lit ''invalid non-secret daemon configuration ''
                      @ quoted (path_push dir DEFAULT_CONFIG_FILE) @ lit '': '' @ reason)))))"
  by (simp add: parse_daemon_args_def scan_option_words load_non_secret_config_file_def map_err_def Let_def
      split: option.split ConfigRead.split sum.split)

end
