(* ===== verification/Cli_Execution.thy ===== *)
theory Cli_Execution
  imports Daemon_Cli
begin

text \<open>
  \<open>execute_cli_command\<close> of \<open>adapters/daemon.rs\<close>: what \<open>shaprintctl\<close> does for a command, and what it
  prints. The socket, the files, the terminal and the text form of \<open>serde_json\<close> are arguments.
\<close>

section \<open>Reading the secret\<close>

text \<open>
  What the sources give: the reason why a file, a descriptor or the terminal cannot be opened, or what its
  reader gives. An error of the terminal is the one the code makes of it.
\<close>

record SecretInputs =
  stdin_is_terminal :: bool
  stdin_gives :: "ustr + bytes"
  terminal_gives :: "AppError + (ustr + bytes)"
  file_gives :: "ustr \<Rightarrow> ustr + (ustr + bytes)"
  descriptor_gives :: "nat \<Rightarrow> ustr + (ustr + bytes)"

definition read_secret_input :: "SecretInputs \<Rightarrow> SecretInputSource \<Rightarrow> AppError + ustr" where
  "read_secret_input io source =
     (case source of
        SecretStdin \<Rightarrow> read_secret_from_reader (stdin_gives io)
      | CredentialFile p \<Rightarrow>
          (case file_gives io p of
             Inl reason \<Rightarrow>
               Inl (invalid_input (lit ''cannot open credential file '' @ quoted p @ lit '': '' @ reason))
           | Inr reader \<Rightarrow> read_secret_from_reader reader)
      | FileDescriptor fd \<Rightarrow>
          (case descriptor_gives io fd of
             Inl reason \<Rightarrow>
               Inl (invalid_input (lit ''cannot read from file descriptor '' @ show_nat fd @ lit '': '' @ reason))
           | Inr reader \<Rightarrow> read_secret_from_reader reader)
      | PromptOrStdin \<Rightarrow>
          if stdin_is_terminal io then and_then (terminal_gives io) read_secret_from_reader
          else read_secret_from_reader (stdin_gives io))"

section \<open>What is printed\<close>

definition newline :: ustr where "newline = [10]"

definition none_or_list :: "ustr list \<Rightarrow> ustr" where
  "none_or_list names = (if names = [] then lit ''none'' else join (lit '', '') names)"

definition configured_word :: "bool \<Rightarrow> ustr" where
  "configured_word configured = (if configured then lit ''configured'' else lit ''unconfigured'')"

definition bool_text :: "bool \<Rightarrow> ustr" where
  "bool_text b = (if b then lit ''true'' else lit ''false'')"

definition status_line :: "ServiceStatusDto \<Rightarrow> ustr" where
  "status_line s =
     dto_service_id s @ lit '': '' @ dto_service_state s
       @ (if dto_service_detail s = [] \<or> dto_service_detail s = dto_service_state s then []
          else lit '' ('' @ dto_service_detail s @ lit '')'') @ newline"

definition field_line :: "ustr \<Rightarrow> ('a \<Rightarrow> ustr) \<Rightarrow> 'a option \<Rightarrow> ustr" where
  "field_line name show_value v = (case v of None \<Rightarrow> [] | Some x \<Rightarrow> name @ lit '': '' @ show_value x @ newline)"

text \<open>\<open>to_json\<close> is the text of the payload of an answer, or why there is none.\<close>

definition format_runtime_status ::
  "(ControlResponse \<Rightarrow> ustr + ustr) \<Rightarrow> bool \<Rightarrow> RuntimeStatusDto \<Rightarrow> AppError + ustr" where
  "format_runtime_status to_json json status =
     (if json
      then map_err (\<lambda>reason. internal_error (lit ''cannot format status JSON: '' @ reason)) (to_json (OkAnswer status))
      else Inr (concat (map status_line (dto_services status))
        @ field_line (lit ''network-channel'') configured_word (dto_channel_configured status)
        @ field_line (lit ''readiness'') id (dto_readiness status)
        @ field_line (lit ''shared-printers'') none_or_list (dto_shared_printers status)
        @ field_line (lit ''client-queues'') none_or_list (dto_client_queues status)
        @ field_line (lit ''failure-code'') id (dto_status_failure status)))"

definition check_text :: "DiagnosticCheckDto \<Rightarrow> ustr" where
  "check_text c =
     (if dto_check_status c = lit ''ok''
      then lit ''[OK] '' @ dto_check c @ lit '': '' @ dto_check_detail c @ newline
      else
        let code_str = (case dto_check_code c of Some k \<Rightarrow> lit '' (code: '' @ k @ lit '')'' | None \<Rightarrow> []);
            label = (if dto_check_status c = lit ''warning'' then lit ''WARN'' else lit ''FAILED'')
        in lit ''['' @ label @ lit ''] '' @ dto_check c @ lit '': '' @ dto_check_detail c @ code_str @ newline
           @ (case dto_check_recovery c of
                Some rec \<Rightarrow> lit ''  Recovery: '' @ rec @ newline | None \<Rightarrow> []))"

definition format_diagnostics_report ::
  "(ControlResponse \<Rightarrow> ustr + ustr) \<Rightarrow> bool \<Rightarrow> DiagnosticsReportDto \<Rightarrow> AppError + ustr" where
  "format_diagnostics_report to_json json rep =
     (if json
      then map_err (\<lambda>reason. internal_error (lit ''cannot format diagnostics JSON: '' @ reason))
             (to_json (DiagnosticsAnswer rep))
      else Inr (concat (map check_text (dto_checks rep))
        @ (case dto_report_failure rep of
             Some f \<Rightarrow> lit ''[RECENT FAILURE] '' @ dto_failure_path f @ lit '': '' @ dto_failure_message f
               @ lit '' (code: '' @ dto_failure_code f @ lit '')'' @ newline
               @ lit ''  Recovery: '' @ dto_failure_recovery f @ newline
           | None \<Rightarrow> [])
        @ newline @ lit ''System status: '' @ (if dto_healthy rep then lit ''healthy'' else lit ''issues detected'') @ newline))"

definition format_json_line :: "(ControlResponse \<Rightarrow> ustr + ustr) \<Rightarrow> ustr \<Rightarrow> ControlResponse \<Rightarrow> AppError + ustr" where
  "format_json_line to_json label answer =
     (case to_json answer of
        Inl reason \<Rightarrow> Inl (internal_error (lit ''cannot format '' @ label @ lit '' JSON: '' @ reason))
      | Inr payload \<Rightarrow> Inr (payload @ newline))"

definition cups_destination :: "(bytes \<Rightarrow> bytes) \<Rightarrow> ClientQueueDto \<Rightarrow> ustr" where
  "cups_destination sha256 q =
     (case and_then (PrinterName_parse (dto_installed_printer q)) (\<lambda>printer.
             and_then (ClientQueueRequest_new (dto_installed_server q) printer) (\<lambda>req.
             Inr (cups_destination_name sha256 req))) of
        Inr name \<Rightarrow> name
      | Inl _ \<Rightarrow> dto_installed_name q)"

definition client_queue_text :: "(bytes \<Rightarrow> bytes) \<Rightarrow> ClientQueueDto \<Rightarrow> ustr" where
  "client_queue_text sha256 q =
     lit ''cups_destination: '' @ cups_destination sha256 q @ newline
       @ lit ''queue_name: '' @ dto_installed_name q @ newline
       @ lit ''server_address: '' @ dto_installed_server q @ newline
       @ lit ''printer_name: '' @ dto_installed_printer q @ newline
       @ lit ''uri: '' @ dto_installed_uri q @ newline"

definition local_printer_text :: "LocalPrinterDto \<Rightarrow> ustr" where
  "local_printer_text p =
     dto_printer_name p @ lit '': ''
       @ (if dto_printer_shared p then lit ''shared'' else lit ''unshared'') @ newline"

definition server_review_text :: "ServerTrustReviewDto \<Rightarrow> ustr" where
  "server_review_text r =
     lit ''address: '' @ dto_review_address r @ newline
       @ lit ''current_fingerprint: '' @ dto_current_fingerprint r @ newline
       @ lit ''trusted: '' @ bool_text (dto_review_trusted r) @ newline
       @ field_line (lit ''previous_fingerprint'') id (dto_previous_fingerprint r)"

text \<open>
  The label of the text form of an answer, and the lines without it; \<open>debug\<close> is for an answer that none of
  the commands asks for.
\<close>

definition format_answer ::
  "(bytes \<Rightarrow> bytes) \<Rightarrow> (ControlResponse \<Rightarrow> ustr) \<Rightarrow> (ControlResponse \<Rightarrow> ustr + ustr) \<Rightarrow> bool
    \<Rightarrow> ControlResponse \<Rightarrow> AppError + ustr" where
  "format_answer sha256 debug to_json json answer =
     (let as_json = (\<lambda>label shown. if json then format_json_line to_json label answer else Inr shown) in
      case answer of
        OkAnswer status \<Rightarrow> format_runtime_status to_json json status
      | DiagnosticsAnswer rep \<Rightarrow> format_diagnostics_report to_json json rep
      | DrainAnswer drained active \<Rightarrow>
          as_json (lit ''drain'')
            (lit ''drained: '' @ bool_text drained @ newline @ lit ''active-jobs: '' @ show_nat active @ newline)
      | NetworkChannelAnswer configured \<Rightarrow>
          as_json (lit ''network-channel'') (lit ''network-channel: '' @ configured_word configured @ newline)
      | ServerReviewAnswer review \<Rightarrow> as_json (lit ''server review'') (server_review_text review)
      | ForgottenAnswer address \<Rightarrow> as_json (lit ''forget'') (lit ''forgotten: '' @ address @ newline)
      | TrustedServersAnswer servers \<Rightarrow>
          as_json (lit ''trusted servers'')
            (concat (map (\<lambda>s. dto_entry_address s @ [32] @ dto_entry_fingerprint s @ newline) servers))
      | ServerPrintersAnswer listing \<Rightarrow>
          as_json (lit ''server printers'') (concat (map (\<lambda>p. p @ newline) (dto_listing_printers listing)))
      | ClientQueueAnswer q \<Rightarrow> as_json (lit ''client queue'') (client_queue_text sha256 q)
      | ClientQueuesAnswer queues \<Rightarrow>
          as_json (lit ''client queues'')
            (concat (map (\<lambda>q. dto_queue_name q @ lit '' -> '' @ dto_queue_printer q @ lit '' (''
               @ dto_server_address q @ lit '')'' @ newline) queues))
      | LocalPrintersAnswer ps \<Rightarrow> as_json (lit ''local printers'') (concat (map local_printer_text ps))
      | other \<Rightarrow> Inl (unexpected_response debug other))"

section \<open>Commands\<close>

text \<open>
  What a run of \<open>shaprintctl\<close> can change itself: the credential file of the machine, and the firewall. The
  daemon that owns the machine reads the same credential file, \<open>credential_store\<close> of its channel.
\<close>

record CliMachine =
  machine_credential :: "bytes FileState"
  firewall_asked :: bool

record CliEnv =
  cli_codec :: ControlCodec
  cli_debug :: "ControlResponse \<Rightarrow> ustr"
  cli_to_json :: "ControlResponse \<Rightarrow> ustr + ustr"
  cli_sha256 :: "bytes \<Rightarrow> bytes"
  cli_is_root :: bool
  cli_socket_exists :: bool
  cli_secret_io :: SecretInputs
  cli_firewall_allows :: "ustr + bool"
  cli_write_error :: "AppError option"
  cli_restore_error :: "AppError option"
  cli_remove_ok :: bool
  cli_probe :: Probe

text \<open>On the default socket, as root, the command works on the machine itself too.\<close>

definition on_machine :: "CliEnv \<Rightarrow> CliOptions \<Rightarrow> bool" where
  "on_machine env opts \<longleftrightarrow>
     path_components (cli_socket opts) = path_components DEFAULT_SOCKET_PATH \<and> cli_is_root env"

definition open_firewall :: "CliEnv \<Rightarrow> CliMachine \<Rightarrow> CliMachine" where
  "open_firewall env m = (if cli_firewall_allows env = Inr False then m\<lparr>firewall_asked := True\<rparr> else m)"

definition persist_root_machine_credential ::
  "AppError option \<Rightarrow> ustr \<Rightarrow> bytes FileState \<Rightarrow> (AppError + unit) \<times> bytes FileState" where
  "persist_root_machine_credential write_error channel file =
     (if channel = [] then (Inl (invalid_input (lit ''Network Channel cannot be empty'')), file)
      else (case write_error of
              Some e \<Rightarrow> (Inl e, file)
            | None \<Rightarrow> (Inr (), Holds (as_bytes channel))))"

definition read_to_string :: "bytes FileState \<Rightarrow> ustr option" where
  "read_to_string file = (case file of Holds bs \<Rightarrow> from_utf8 bs | _ \<Rightarrow> None)"

text \<open>Putting the credential back: an error of this is not reported.\<close>

definition restore_credential :: "CliEnv \<Rightarrow> ustr option \<Rightarrow> bytes FileState \<Rightarrow> bytes FileState" where
  "restore_credential env previous file =
     (case previous of
        Some prev \<Rightarrow>
          snd (persist_root_machine_credential (cli_restore_error env) (trim_end_by line_end prev) file)
      | None \<Rightarrow> if cli_remove_ok env then Missing else file)"

definition format_reply :: "CliEnv \<Rightarrow> CliOptions \<Rightarrow> ControlResponse \<Rightarrow> AppError + ustr" where
  "format_reply env opts answer =
     format_answer (cli_sha256 env) (cli_debug env) (cli_to_json env) (cli_json opts) answer"

definition ask_daemon :: "CliEnv \<Rightarrow> ControlRequest \<Rightarrow> SocketOutcome \<Rightarrow> AppError + ControlResponse" where
  "ask_daemon env req outcome = client_call (cli_codec env) (cli_debug env) req outcome"

definition set_channel ::
  "CliEnv \<Rightarrow> CliOptions \<Rightarrow> ustr \<Rightarrow> SocketOutcome \<Rightarrow> CliMachine \<Rightarrow> (AppError + ustr) \<times> CliMachine" where
  "set_channel env opts secret outcome m =
     (if on_machine env opts
      then
        (let previous = read_to_string (machine_credential m) in
         case persist_root_machine_credential (cli_write_error env) secret (machine_credential m) of
           (Inl e, _) \<Rightarrow> (Inl e, m)
         | (Inr _, file) \<Rightarrow>
             (case ask_daemon env (SetNetworkChannel secret) outcome of
                Inr answer \<Rightarrow> (format_reply env opts answer, m\<lparr>machine_credential := file\<rparr>)
              | Inl e \<Rightarrow> (Inl e, m\<lparr>machine_credential := restore_credential env previous file\<rparr>)))
      else (and_then (ask_daemon env (SetNetworkChannel secret) outcome) (format_reply env opts), m))"

text \<open>A purge is done by another component; \<open>outcome\<close> is how the connection to the daemon goes.\<close>

datatype CliResult = Printed "AppError + ustr" | Purges bool ustr

definition execute_cli_command ::
  "CliEnv \<Rightarrow> CliOptions \<Rightarrow> SocketOutcome \<Rightarrow> CliMachine \<Rightarrow> CliResult \<times> CliMachine" where
  "execute_cli_command env opts outcome m =
     (let ask = (\<lambda>req m. (Printed (and_then (ask_daemon env req outcome) (format_reply env opts)), m)) in
      case cli_command opts of
        StatusCommand \<Rightarrow> ask Status m
      | DiagnosticsCommand \<Rightarrow>
          (case ask_daemon env Diagnostics outcome of
             Inr answer \<Rightarrow> (Printed (format_reply env opts answer), m)
           | Inl e \<Rightarrow>
               if err_code e = ServerUnavailable
               then (Printed (format_reply env opts (DiagnosticsAnswer (diagnose_host (cli_probe env)))), m)
               else (Printed (Inl e), m))
      | StartCommand sid \<Rightarrow>
          ask (StartService (ServiceId_as_str sid))
            (if sid = ServerSharing \<and> on_machine env opts then open_firewall env m else m)
      | StopCommand sid \<Rightarrow> ask (StopService (ServiceId_as_str sid)) m
      | ShutdownCommand \<Rightarrow> ask Shutdown m
      | DrainCommand t \<Rightarrow>
          if \<not> cli_socket_exists env then (Printed (format_reply env opts (DrainAnswer True 0)), m) else ask (Drain t) m
      | ChannelStatusCommand \<Rightarrow> ask NetworkChannelStatus m
      | SetChannelCommand source \<Rightarrow>
          (case read_secret_input (cli_secret_io env) source of
             Inl e \<Rightarrow> (Printed (Inl e), m)
           | Inr secret \<Rightarrow> (case set_channel env opts secret outcome m of (r, m') \<Rightarrow> (Printed r, m')))
      | InspectCommand a \<Rightarrow> ask (InspectServer a) m
      | ApproveCommand a f \<Rightarrow> ask (ApproveServer a f) m
      | ForgetCommand a \<Rightarrow> ask (ForgetServer a) m
      | ListTrustedCommand \<Rightarrow> ask ListTrustedServers m
      | ListServerPrintersCommand a \<Rightarrow> ask (ListServerPrinters a) m
      | InstallQueueCommand a p \<Rightarrow> ask (InstallClientQueue a p) m
      | RepairQueueCommand a p \<Rightarrow> ask (RepairClientQueue a p) m
      | ListQueuesCommand \<Rightarrow> ask ListClientQueues m
      | ListPrintersCommand \<Rightarrow> ask ListLocalPrinters m
      | SetPrintersCommand names \<Rightarrow> ask (SetSharedPrinters names) m
      | PurgeCommand confirm \<Rightarrow> (Purges confirm (cli_socket opts), m))"

end
