(* ===== verification/Cli_Effects.thy ===== *)
theory Cli_Effects
  imports Cli_Execution Daemon_Policy
begin

text \<open>
  What a run of \<open>shaprintctl\<close> leaves behind: it reports what the daemon refused, and when setting the
  Network Channel fails it puts the credential of the machine back.
\<close>

section \<open>The request of a command\<close>

fun requested :: "CliCommand \<Rightarrow> ustr \<Rightarrow> ControlRequest" where
  "requested StatusCommand _ = Status"
| "requested DiagnosticsCommand _ = Diagnostics"
| "requested (StartCommand sid) _ = StartService (ServiceId_as_str sid)"
| "requested (StopCommand sid) _ = StopService (ServiceId_as_str sid)"
| "requested ShutdownCommand _ = Shutdown"
| "requested (DrainCommand t) _ = Drain t"
| "requested ChannelStatusCommand _ = NetworkChannelStatus"
| "requested (SetChannelCommand _) secret = SetNetworkChannel secret"
| "requested (InspectCommand a) _ = InspectServer a"
| "requested (ApproveCommand a f) _ = ApproveServer a f"
| "requested (ForgetCommand a) _ = ForgetServer a"
| "requested ListTrustedCommand _ = ListTrustedServers"
| "requested (ListServerPrintersCommand a) _ = ListServerPrinters a"
| "requested (InstallQueueCommand a p) _ = InstallClientQueue a p"
| "requested (RepairQueueCommand a p) _ = RepairClientQueue a p"
| "requested ListQueuesCommand _ = ListClientQueues"
| "requested ListPrintersCommand _ = ListLocalPrinters"
| "requested (SetPrintersCommand names) _ = SetSharedPrinters names"
| "requested (PurgeCommand _) _ = Status"

section \<open>The credential of the machine\<close>

text \<open>What a failed change leaves in the credential file, when its writes succeed.\<close>

definition credential_after_failure :: "ustr \<Rightarrow> bytes FileState \<Rightarrow> bytes FileState" where
  "credential_after_failure secret file =
     (case read_to_string file of
        None \<Rightarrow> Missing
      | Some prev \<Rightarrow>
          if trim_end_by line_end prev = [] then Holds (as_bytes secret)
          else Holds (as_bytes (trim_end_by line_end prev)))"

lemma set_channel_fails:
  assumes "on_machine env opts" "cli_write_error env = None" "cli_restore_error env = None" "cli_remove_ok env"
    and "secret \<noteq> []" "ask_daemon env (SetNetworkChannel secret) outcome = Inl e"
  shows "set_channel env opts secret outcome m
    = (Inl e, m\<lparr>machine_credential := credential_after_failure secret (machine_credential m)\<rparr>)"
  using assms
  by (simp add: set_channel_def persist_root_machine_credential_def restore_credential_def
      credential_after_failure_def Let_def split: option.split)

lemma credential_put_back:
  assumes "wf_ustr old" "old \<noteq> []" "\<not> line_end (last old)"
  shows "credential_after_failure secret (Holds (as_bytes old)) = Holds (as_bytes old)"
  using assms from_utf8_as_bytes [of old]
  by (simp add: credential_after_failure_def read_to_string_def trim_end_by_id)

lemma configure_fails: "configure sha256 hex_encode io salt channel (nc, disk) = (Inl e, nc', disk') \<Longrightarrow>
    nc' = nc \<and> verifier_file disk' = verifier_file disk"
  by (auto simp: configure_def protect_secret_def Let_def persist_credential_def persist_verifier_def
      split: if_splits option.splits prod.splits sum.splits)

text \<open>
  C99: What a change of the Network Channel leaves when it fails for the client. The run as
  root writes the credential of the machine first, the daemon configures itself, and when no answer of
  success arrives the run puts the old credential back. If the daemon refused, everything is as it was. If
  it did not, its answer being late or lost, the two differ from the next start on: the server accepts the
  new channel, and the proxy sends the old one.
\<close>

theorem failed_channel_change:
  assumes "on_machine env opts" "cli_write_error env = None" "cli_restore_error env = None" "cli_remove_ok env"
    and "machine_credential m = Holds (as_bytes old)" "wf_ustr old" "old \<noteq> []" "\<not> line_end (last old)"
    and "ask_daemon env (SetNetworkChannel secret) outcome = Inl e" "secret \<noteq> []"
    and "configure sha256 hex_encode io (Some salt) secret (nc, disk\<lparr>credential_store := Holds (as_bytes secret)\<rparr>)
      = (r, nc', disk')"
    and "has_path nc" "has_credential_file nc" "systemd_credential disk = Missing" "length salt = 16"
    and "\<And>bs. hex_decode (hex_encode bs) = Some bs" "\<And>bs. length (sha256 bs) = 32"
  shows "\<exists>m'. set_channel env opts secret outcome m = (Inl e, m')
    \<and> machine_credential m' = machine_credential m \<and> firewall_asked m' = firewall_asked m
    \<and> (case r of
         Inl _ \<Rightarrow> nc' = nc \<and> verifier_file disk' = verifier_file disk
       | Inr _ \<Rightarrow> \<exists>nc2.
           open_with_credential_file hex_decode True (disk'\<lparr>credential_store := machine_credential m'\<rparr>) = Inr nc2
           \<and> authorizes sha256 nc2 secret \<and> client_credential nc2 = Some old)"
proof -
  let ?m' = "m\<lparr>machine_credential := Holds (as_bytes old)\<rparr>"
  have set: "set_channel env opts secret outcome m = (Inl e, ?m')"
    using set_channel_fails [OF assms(1-4,10,9)] credential_put_back [OF assms(6-8)] assms(5) by simp
  have "case r of
         Inl _ \<Rightarrow> nc' = nc \<and> verifier_file disk' = verifier_file disk
       | Inr _ \<Rightarrow> \<exists>nc2.
           open_with_credential_file hex_decode True (disk'\<lparr>credential_store := machine_credential ?m'\<rparr>) = Inr nc2
           \<and> authorizes sha256 nc2 secret \<and> client_credential nc2 = Some old"
  proof (cases r)
    case (Inl f)
    with assms(11) configure_fails show ?thesis by fastforce
  next
    case (Inr b)
    let ?v = "\<lparr>verifier_salt = salt, verifier_digest = channel_digest sha256 salt secret\<rparr>"
    let ?nc2 = "\<lparr>has_path = True, has_credential_file = True, channel_verifier = Some ?v, client_secret = Some old\<rparr>"
    have "configure sha256 hex_encode io (Some salt) secret (nc, disk\<lparr>credential_store := Holds (as_bytes secret)\<rparr>)
      = (Inr b, nc', disk')" using assms(11) Inr by simp
    note c = configure_Inr [OF this assms(12,13)]
    have "read_credential_file (Holds (as_bytes old)) = Inr old"
      using read_stored_credential [OF assms(6)] assms(7,8) by (simp add: trim_end_by_id)
    then have "open_with_credential_file hex_decode True (disk'\<lparr>credential_store := Holds (as_bytes old)\<rparr>) = Inr ?nc2"
      using c assms(14-17)
      by (simp add: open_with_credential_file_def decode_hex_def channel_digest_def load_machine_credential_def)
    moreover have "authorizes sha256 ?nc2 secret"
      using authorizes_iff [of ?nc2 ?v sha256 secret] assms(17) by (simp add: channel_digest_def)
    ultimately show ?thesis using Inr by (simp add: client_credential_def)
  qed
  with set assms(5) show ?thesis by (intro exI [of _ ?m']) simp
qed

section \<open>Refusals\<close>

lemma execute_asks:
  assumes "\<And>confirm. cli_command opts \<noteq> PurgeCommand confirm" "cli_socket_exists env" "\<not> cli_is_root env"
    and "\<forall>source. cli_command opts = SetChannelCommand source \<longrightarrow> read_secret_input (cli_secret_io env) source = Inr secret"
    and "ask_daemon env (requested (cli_command opts) secret) outcome = Inl e" "err_code e \<noteq> ServerUnavailable"
  shows "execute_cli_command env opts outcome m = (Printed (Inl e), m)"
proof (cases "cli_command opts")
  case (PurgeCommand confirm)
  with assms(1) show ?thesis by blast
qed (use assms(2-) in \<open>simp_all add: execute_cli_command_def set_channel_def on_machine_def Let_def\<close>)

text \<open>
  C99: A command that changes the daemon, run by a user whom the policy does not allow it,
  prints the refusal of the daemon and changes nothing, neither in the daemon nor on the machine, whatever
  the command is, from its words to the line that comes back over the socket.
\<close>

theorem unprivileged_command_refused:
  assumes "\<not> cli_is_root env" "cli_socket_exists env"
    and "authorize_mutation policy uid daemon_uid = Inl e"
    and "\<forall>source. cli_command opts = SetChannelCommand source \<longrightarrow> read_secret_input (cli_secret_io env) source = Inr secret"
    and "administrative (requested (cli_command opts) secret)"
    and "codec_keeps (cli_codec env) (control_response (Inl e))"
    and "length (fst (finish_stream (cli_codec env) (Inl e) False d)) \<le> MAX_MESSAGE_BYTES"
  shows "\<exists>step. process_request denv (authorize_mutation policy uid daemon_uid) (requested (cli_command opts) secret) d
      = (step, d)
    \<and> step = Answered (Inl e) False \<and> snd (finish_stream (cli_codec env) (Inl e) False d) = d
    \<and> execute_cli_command env opts (Replied (fst (finish_stream (cli_codec env) (Inl e) False d))) m = (Printed (Inl e), m)"
proof -
  let ?req = "requested (cli_command opts) secret"
  have step: "process_request denv (authorize_mutation policy uid daemon_uid) ?req d = (Answered (Inl e) False, d)"
    using denied_change [OF assms(5)] assms(3) by simp
  from connection.begun [OF this]
  have "connection (authorize_mutation policy uid daemon_uid) ?req (Answered (Inl e) False) d" .
  from answer_heard [OF this assms(6), of "cli_debug env"] assms(7)
  have heard: "ask_daemon env ?req (Replied (fst (finish_stream (cli_codec env) (Inl e) False d))) = Inl e"
    by (simp add: ask_daemon_def)
  have "cli_command opts \<noteq> PurgeCommand confirm" for confirm using assms(5) by (auto simp: administrative_def)
  moreover have "err_code e \<noteq> ServerUnavailable"
    using assms(3) by (auto simp: authorize_mutation_def not_authorized_def Let_def split: if_splits)
  ultimately have "execute_cli_command env opts (Replied (fst (finish_stream (cli_codec env) (Inl e) False d))) m
      = (Printed (Inl e), m)"
    using execute_asks [OF _ assms(2,1,4) heard] by blast
  with step show ?thesis by (simp add: finish_stream_def)
qed

end
