(* ===== verification/Port_Policy.thy ===== *)
theory Port_Policy
  imports Port_Binding
begin

text \<open>
  What the binder of ports promises, for every inspector that only signals what it may, and for the one of
  Linux: unrelated processes are left alone, the wait ends, and which owners are seen.
\<close>

section \<open>The binder\<close>

locale port_inspector =
  fixes os :: "'w Inspector"
    and may_signal :: "PortOwner \<Rightarrow> 'w \<Rightarrow> bool"
    and signals :: "'w \<Rightarrow> nat list"
  assumes terminate_signals: "inspect_terminate os owner w = (r, w') \<Longrightarrow>
      signals w' = signals w \<or> signals w' = owner_pid owner # signals w \<and> may_signal owner w"
    and bind_signals: "signals (snd (bind_port os t port w)) = signals w"
    and sleep_signals: "signals (sleep_poll os w) = signals w"
begin

definition signalled_from :: "PortOwner list \<Rightarrow> 'w \<Rightarrow> 'w \<Rightarrow> bool" where
  "signalled_from owners w w' \<longleftrightarrow>
     (\<exists>new. signals w' = new @ signals w
       \<and> (\<forall>pid \<in> set new. \<exists>owner \<in> set owners. \<exists>w1. owner_pid owner = pid \<and> may_signal owner w1))"

lemma signalled_none: "signals w' = signals w \<Longrightarrow> signalled_from owners w w'"
  by (simp add: signalled_from_def)

lemma signalled_trans:
  "signalled_from owners w w1 \<Longrightarrow> signalled_from owners w1 w2 \<Longrightarrow> signalled_from owners w w2"
proof -
  assume a: "signalled_from owners w w1" "signalled_from owners w1 w2"
  then obtain n1 n2 where n: "signals w1 = n1 @ signals w" "signals w2 = n2 @ signals w1"
    "\<forall>pid \<in> set n1. \<exists>owner \<in> set owners. \<exists>w1. owner_pid owner = pid \<and> may_signal owner w1"
    "\<forall>pid \<in> set n2. \<exists>owner \<in> set owners. \<exists>w1. owner_pid owner = pid \<and> may_signal owner w1"
    unfolding signalled_from_def by blast
  then have "signals w2 = (n2 @ n1) @ signals w" by simp
  with n(3,4) show ?thesis unfolding signalled_from_def by (metis Un_iff set_append)
qed

lemma terminate_owner_signals:
  assumes "terminate_owner os t port owner w = (r, w')" "owner \<in> set owners"
  shows "signalled_from owners w w'"
proof -
  obtain r1 where "inspect_terminate os owner w = (r1, w')"
    using assms(1) by (auto simp: terminate_owner_def split: prod.splits sum.splits)
  from terminate_signals [OF this] show ?thesis
  proof
    assume "signals w' = owner_pid owner # signals w \<and> may_signal owner w"
    with assms(2) show ?thesis unfolding signalled_from_def by (intro exI [of _ "[owner_pid owner]"]) auto
  qed (simp add: signalled_none)
qed

lemma terminate_all_signals:
  "terminate_all os t port os' w = (r, w') \<Longrightarrow> set os' \<subseteq> set owners \<Longrightarrow> signalled_from owners w w'"
proof (induction os' arbitrary: w)
  case (Cons owner rest)
  obtain r1 w1 where one: "terminate_owner os t port owner w = (r1, w1)" by fastforce
  with Cons.prems(2) have "signalled_from owners w w1" by (auto intro: terminate_owner_signals)
  with Cons one show ?case by (auto intro: signalled_trans split: sum.splits)
qed (simp add: signalled_none)

lemma wait_release_signals:
  "wait_release os fuel t port ids deadline w = Some (r, w') \<Longrightarrow> signals w' = signals w"
  by (induction fuel arbitrary: w) (auto simp: sleep_signals split: option.splits)

text \<open>A bind signals nobody, or owners it saw on the busy port, all of them ShaPrint and not itself.\<close>

lemma bind_signals_shaprint:
  assumes "bind_safely os fuel t port w = Some (r, w')"
  shows "signals w' = signals w \<or>
    (\<exists>w0 owners. bind_port os t port w = (AddrInUse, w0) \<and> inspect_owners os t port w0 = Inr owners
      \<and> (\<forall>owner \<in> set owners. is_shaprint owner \<and> owner_pid owner \<noteq> current_process os)
      \<and> signalled_from owners w w')"
proof -
  obtain outcome w0 where bind: "bind_port os t port w = (outcome, w0)" by fastforce
  have same: "signals w0 = signals w" using bind_signals [of t port w] bind by simp
  show ?thesis
  proof (cases outcome)
    case AddrInUse
    with assms bind obtain r1 w1 where r1: "reclaim os fuel t port w0 = Some (r1, w1)"
      and after: "signals w' = signals w1"
      using bind_signals [of t port] by (auto simp: bind_safely_def split: option.splits prod.splits sum.splits
          BindOutcome.splits) (metis snd_conv)+
    consider "w1 = w0" | owners where "inspect_port os t port w0 = Inr owners" "List.find (foreign_owner os) owners = None"
        "signalled_from owners w0 w1"
    proof -
      assume cases: "w1 = w0 \<Longrightarrow> thesis"
        "\<And>owners. inspect_port os t port w0 = Inr owners \<Longrightarrow> List.find (foreign_owner os) owners = None \<Longrightarrow>
          signalled_from owners w0 w1 \<Longrightarrow> thesis"
      show thesis
      proof (cases "inspect_port os t port w0")
        case (Inl e)
        with r1 cases(1) show thesis by (simp add: reclaim_def)
      next
        case (Inr owners)
        show thesis
        proof (cases "owners = [] \<or> List.find (foreign_owner os) owners \<noteq> None")
          case True
          with r1 Inr cases(1) show thesis by (auto simp: reclaim_def split: if_splits option.splits)
        next
          case False
          obtain r2 w2 where t2: "terminate_all os t port owners w0 = (r2, w2)" by fastforce
          then have "signalled_from owners w0 w2" using terminate_all_signals by blast
          moreover have "signals w1 = signals w2"
            using r1 Inr False t2 wait_release_signals by (auto simp: reclaim_def split: sum.splits)
          ultimately have "signalled_from owners w0 w1" by (simp add: signalled_from_def)
          with Inr False cases(2) show thesis by simp
        qed
      qed
    qed
    then show ?thesis
    proof cases
      case 1
      with same after show ?thesis by simp
    next
      case (2 owners)
      have "inspect_owners os t port w0 = Inr owners"
        using 2(1) by (auto simp: inspect_port_def map_err_def split: sum.splits)
      moreover have "\<forall>owner \<in> set owners. is_shaprint owner \<and> owner_pid owner \<noteq> current_process os"
        using 2(2) by (auto simp: find_None_iff foreign_owner_def)
      moreover have "signalled_from owners w w'" using 2(3) same after by (simp add: signalled_from_def)
      ultimately show ?thesis using bind AddrInUse by blast
    qed
  qed (use assms bind same in \<open>auto simp: bind_safely_def\<close>)
qed

end

text \<open>The wait ends when the time passes; a poll takes at least its interval, so sixty-one looks are enough.\<close>

lemma wait_release_ends:
  assumes "\<And>w. clock_ms os (sleep_poll os w) \<ge> clock_ms os w + DEFAULT_POLL_INTERVAL"
  shows "deadline \<le> clock_ms os w + DEFAULT_POLL_INTERVAL * fuel \<Longrightarrow>
    wait_release os (Suc fuel) t port ids deadline w \<noteq> None"
proof (induction fuel arbitrary: w)
  case 0
  then show ?case by (auto simp: look_again_def split: option.split sum.splits if_splits)
next
  case (Suc fuel)
  have "deadline \<le> clock_ms os (sleep_poll os w) + DEFAULT_POLL_INTERVAL * fuel"
    using Suc.prems assms [of w] by simp
  from Suc.IH [OF this] show ?case by (subst wait_release.simps) (simp split: option.split)
qed

lemma bind_ends:
  assumes "\<And>w. clock_ms os (sleep_poll os w) \<ge> clock_ms os w + DEFAULT_POLL_INTERVAL"
  shows "bind_safely os 61 t port w \<noteq> None"
proof -
  have looks: "(61 :: nat) = Suc 60" by simp
  have "wait_release os (Suc 60) t port ids (clock_ms os w + DEFAULT_RECLAIM_TIMEOUT) w \<noteq> None" for ids w
    by (rule wait_release_ends [OF assms]) (simp add: DEFAULT_RECLAIM_TIMEOUT_def DEFAULT_POLL_INTERVAL_def)
  then have "wait_release os 61 t port ids (clock_ms os w + DEFAULT_RECLAIM_TIMEOUT) w \<noteq> None" for ids w
    unfolding looks .
  then have "reclaim os 61 t port w \<noteq> None" for w
    by (simp add: reclaim_def split: sum.split option.split prod.split)
  then obtain r w1 where re: "reclaim os 61 t port (snd (bind_port os t port w)) = Some (r, w1)" by fastforce
  then show ?thesis
    by (cases "bind_port os t port w"; cases r)
      (auto simp: bind_safely_def split: option.split prod.split sum.split BindOutcome.split)
qed

section \<open>Linux\<close>

definition linux_may_signal :: "nat \<Rightarrow> PortOwner \<Rightarrow> Linux \<Rightarrow> bool" where
  "linux_may_signal self owner w \<longleftrightarrow>
     owner_pid owner \<noteq> self \<and> is_shaprint owner \<and> is_shaprint_name (linux_process_name (owner_pid owner) w)
     \<and> (\<exists>identity. owner_identity owner = Some identity
         \<and> linux_process_identity (owner_pid owner) w = Some identity
         \<and> linux_executable_is_shaprint (identity_executable identity))"

lemma linux_terminate_signals:
  assumes "linux_terminate self kill_error owner w = (r, w')"
  shows "signalled w' = signalled w \<or> signalled w' = owner_pid owner # signalled w \<and> linux_may_signal self owner w"
  using assms
  by (auto simp: linux_terminate_def linux_may_signal_def is_shaprint_def PortOwner_new_def Let_def
      split: if_splits option.splits)

interpretation linux: port_inspector "linux_inspector self kill_error bind_outcome passes"
    "linux_may_signal self" signalled
  for self kill_error bind_outcome passes
proof
  fix owner w r w'
  assume "inspect_terminate (linux_inspector self kill_error bind_outcome passes) owner w = (r, w')"
  then show "signalled w' = signalled w \<or> signalled w' = owner_pid owner # signalled w \<and> linux_may_signal self owner w"
    using linux_terminate_signals by (simp add: linux_inspector_def)
qed (simp_all add: linux_inspector_def)

text \<open>
  C99: Binding a port never harms an unrelated process. Whatever the socket tables and the
  processes say, and however they change meanwhile, a bind either sends no signal at all, or every process
  that was reported as an owner of the busy port has the name of ShaPrint and is not the program itself; and
  a process is signalled only if it was one of these and, at that moment, still has the name and the
  executable of ShaPrint and the start time seen before. And the bind ends.
\<close>

theorem unrelated_never_terminated:
  fixes passes :: "Linux \<Rightarrow> Linux"
  assumes "\<And>w. linux_time_ms (passes w) \<ge> linux_time_ms w + DEFAULT_POLL_INTERVAL"
  shows "\<exists>r w'. bind_safely (linux_inspector self kill_error bind_outcome passes) 61 t port w = Some (r, w')
    \<and> (signalled w' = signalled w \<or>
       (\<exists>owners new. bind_outcome t port w = AddrInUse \<and> linux_owners self t port w = Inr owners
         \<and> (\<forall>owner \<in> set owners. is_shaprint owner \<and> owner_pid owner \<noteq> self)
         \<and> signalled w' = new @ signalled w
         \<and> (\<forall>pid \<in> set new. \<exists>owner \<in> set owners. \<exists>w1. owner_pid owner = pid \<and> linux_may_signal self owner w1)))"
proof -
  let ?os = "linux_inspector self kill_error bind_outcome passes"
  have "bind_safely ?os 61 t port w \<noteq> None"
    by (rule bind_ends) (use assms in \<open>simp add: linux_inspector_def\<close>)
  then obtain r w' where r: "bind_safely ?os 61 t port w = Some (r, w')" by auto
  from linux.bind_signals_shaprint [OF r] show ?thesis
  proof
    assume "signalled w' = signalled w"
    with r show ?thesis by blast
  next
    assume "\<exists>w0 owners. bind_port ?os t port w = (AddrInUse, w0) \<and> inspect_owners ?os t port w0 = Inr owners
      \<and> (\<forall>owner \<in> set owners. is_shaprint owner \<and> owner_pid owner \<noteq> current_process ?os)
      \<and> linux.signalled_from self owners w w'"
    then obtain w0 owners where o: "bind_port ?os t port w = (AddrInUse, w0)" "inspect_owners ?os t port w0 = Inr owners"
      "\<forall>owner \<in> set owners. is_shaprint owner \<and> owner_pid owner \<noteq> current_process ?os"
      "linux.signalled_from self owners w w'" by blast
    then have "w0 = w" "bind_outcome t port w = AddrInUse" "linux_owners self t port w = Inr owners"
      "\<forall>owner \<in> set owners. is_shaprint owner \<and> owner_pid owner \<noteq> self"
      by (auto simp: linux_inspector_def)
    with r o(4) show ?thesis unfolding linux.signalled_from_def by blast
  qed
qed

section \<open>Which owners are seen\<close>

definition held_inodes :: "ustr list \<Rightarrow> nat set" where
  "held_inodes targets = {inode. \<exists>target \<in> set targets. socket_inode target = Some inode}"

lemma held_simps [simp]:
  "held_inodes [] = {}"
  "held_inodes (target # targets) =
    (case socket_inode target of Some i \<Rightarrow> insert i (held_inodes targets) | None \<Rightarrow> held_inodes targets)"
  by (auto simp: held_inodes_def split: option.split)

lemma take_inodes_eq:
  "take_inodes targets remaining = (owns, rem) \<Longrightarrow>
    set rem = set remaining - held_inodes targets \<and> owns = (held_inodes targets \<inter> set remaining \<noteq> {})"
proof (induction targets arbitrary: remaining owns rem)
  case (Cons target targets)
  show ?case
  proof (cases "socket_inode target")
    case (Some inode)
    obtain owns' rem' where t: "take_inodes targets (removeAll inode remaining) = (owns', rem')" by fastforce
    with Cons.prems Some have "rem = rem'" "owns = (owns' \<or> inode \<in> set remaining)" by auto
    with Cons.IH [OF t] Some show ?thesis by auto
  next
    case None
    with Cons show ?thesis by simp
  qed
qed simp

definition holds_inode :: "LinuxProcess \<Rightarrow> nat \<Rightarrow> bool" where
  "holds_inode p inode \<longleftrightarrow> (\<exists>fds. proc_fds p = Some fds \<and> inode \<in> held_inodes fds)"

text \<open>The names of the entries of processes, which the system writes in one way.\<close>

definition pid_entries :: "(ustr \<times> LinuxProcess) list \<Rightarrow> bool" where
  "pid_entries entries \<longleftrightarrow> distinct (map fst entries)
     \<and> (\<forall>(name, p) \<in> set entries. \<forall>pid. parse_unsigned (2 ^ 32 - 1) name = Some pid \<longrightarrow> name = show_nat pid)"

definition entry_holds :: "(ustr \<times> LinuxProcess) list \<Rightarrow> nat \<Rightarrow> nat \<Rightarrow> bool" where
  "entry_holds entries pid inode \<longleftrightarrow> (\<exists>p. map_of entries (show_nat pid) = Some p \<and> holds_inode p inode)"

lemma pid_entries_tail: "pid_entries (e # entries) \<Longrightarrow> pid_entries entries"
  by (simp add: pid_entries_def)

lemma entry_holds_tail:
  assumes "pid_entries ((name, p) # entries)" "entry_holds entries pid inode"
  shows "entry_holds ((name, p) # entries) pid inode"
proof -
  from assms(2) have "show_nat pid \<in> fst ` set entries"
    by (force simp: entry_holds_def dest: map_of_SomeD)
  with assms have "name \<noteq> show_nat pid" by (auto simp: pid_entries_def)
  with assms(2) show ?thesis by (simp add: entry_holds_def)
qed

lemma entry_holds_cases:
  "entry_holds ((name, p) # entries) pid inode \<Longrightarrow>
    name = show_nat pid \<and> holds_inode p inode \<or> entry_holds entries pid inode"
  by (auto simp: entry_holds_def split: if_splits)

lemma owner_of_pid [simp]: "owner_pid (owner_of pid w) = pid"
  by (simp add: owner_of_def PortOwner_new_def)

text \<open>What a list of owners says of the inodes: only holders, one for every inode that is held, and not more.\<close>

definition sees :: "(ustr \<times> LinuxProcess) list \<Rightarrow> nat list \<Rightarrow> nat list \<Rightarrow> Linux \<Rightarrow> PortOwner list \<Rightarrow> bool" where
  "sees entries seen remaining w owners \<longleftrightarrow>
     (\<forall>owner \<in> set owners. owner = owner_of (owner_pid owner) w
        \<and> (\<exists>inode \<in> set remaining. entry_holds entries (owner_pid owner) inode))
   \<and> (\<forall>inode \<in> set remaining. \<forall>pid. pid < 2 ^ 32 \<longrightarrow> pid \<notin> set seen \<longrightarrow> entry_holds entries pid inode \<longrightarrow>
        (\<exists>owner \<in> set owners. entry_holds entries (owner_pid owner) inode))
   \<and> length owners \<le> card (set remaining)"

lemma sees_skip:
  assumes "pid_entries ((name, p) # entries)" "sees entries seen' remaining' w owners" "set remaining' = set remaining"
    and "\<And>pid. pid \<in> set seen' \<Longrightarrow> pid \<in> set seen \<or> name = show_nat pid"
    and "\<And>pid inode. name = show_nat pid \<Longrightarrow> pid < 2 ^ 32 \<Longrightarrow> pid \<notin> set seen \<Longrightarrow> inode \<in> set remaining \<Longrightarrow>
      \<not> holds_inode p inode"
  shows "sees ((name, p) # entries) seen remaining w owners"
proof -
  have "\<exists>owner \<in> set owners. entry_holds ((name, p) # entries) (owner_pid owner) inode"
    if i: "inode \<in> set remaining" "pid < 2 ^ 32" "pid \<notin> set seen" "entry_holds ((name, p) # entries) pid inode" for pid inode
  proof -
    from entry_holds_cases [OF i(4)] assms(5) [OF _ i(2,3,1)] have tail: "entry_holds entries pid inode" by blast
    then have "name \<noteq> show_nat pid"
      using assms(1) by (force simp: pid_entries_def entry_holds_def dest: map_of_SomeD)
    with assms(4) i(3) have "pid \<notin> set seen'" by blast
    with assms(2,3) i tail show ?thesis
      using entry_holds_tail [OF assms(1)] unfolding sees_def by metis
  qed
  with assms(2,3) entry_holds_tail [OF assms(1)] show ?thesis unfolding sees_def by metis
qed

lemma sees_take:
  assumes "pid_entries ((name, p) # entries)" "name = show_nat pid0"
    and "proc_fds p = Some fds" "set remaining' = set remaining - held_inodes fds" "held_inodes fds \<inter> set remaining \<noteq> {}"
    and "sees entries (pid0 # seen) remaining' w owners \<or> remaining' = [] \<and> owners = []"
  shows "sees ((name, p) # entries) seen remaining w (owner_of pid0 w # owners)"
proof -
  let ?all = "(name, p) # entries"
  have held: "entry_holds ?all pid0 inode \<longleftrightarrow> inode \<in> held_inodes fds" for inode
    using assms(2,3) by (simp add: entry_holds_def holds_inode_def)
  have tail: "sees entries (pid0 # seen) remaining' w owners \<or> remaining' = []" using assms(6) by blast
  have one: "\<forall>owner \<in> set (owner_of pid0 w # owners). owner = owner_of (owner_pid owner) w
      \<and> (\<exists>inode \<in> set remaining. entry_holds ?all (owner_pid owner) inode)"
    using assms(4-6) held entry_holds_tail [OF assms(1)] unfolding sees_def by fastforce
  have two: "\<exists>owner \<in> set (owner_of pid0 w # owners). entry_holds ?all (owner_pid owner) inode"
    if i: "inode \<in> set remaining" "pid < 2 ^ 32" "pid \<notin> set seen" "entry_holds ?all pid inode" for pid inode
  proof (cases "inode \<in> held_inodes fds")
    case True
    with held show ?thesis by simp
  next
    case False
    with i(1) assms(4) have rem: "inode \<in> set remaining'" by simp
    then have s: "sees entries (pid0 # seen) remaining' w owners" using tail by auto
    have "pid \<noteq> pid0" using False held i(4) by metis
    moreover have "entry_holds entries pid inode"
      using entry_holds_cases [OF i(4)] False assms(3) by (auto simp: holds_inode_def)
    ultimately have "\<exists>owner \<in> set owners. entry_holds entries (owner_pid owner) inode"
      using s rem i(2,3) unfolding sees_def by auto
    with entry_holds_tail [OF assms(1)] show ?thesis by auto
  qed
  have "card (set remaining') < card (set remaining)"
    using assms(4,5) by (intro psubset_card_mono) auto
  then have "length (owner_of pid0 w # owners) \<le> card (set remaining)"
    using assms(6) unfolding sees_def by auto
  with one two show ?thesis unfolding sees_def by blast
qed

lemma scan_processes_sees:
  "pid_entries entries \<Longrightarrow> sees entries seen remaining w (scan_processes entries seen remaining w)"
proof (induction entries arbitrary: seen remaining)
  case Nil
  then show ?case by (simp add: sees_def entry_holds_def)
next
  case (Cons e entries)
  obtain name p where e: "e = (name, p)" by fastforce
  note entries = Cons.prems [unfolded e]
  note IH = Cons.IH [OF pid_entries_tail [OF Cons.prems]]
  have parsed: "parse_unsigned (2 ^ 32 - 1) (show_nat pid) = Some pid" if "pid < 2 ^ 32" for pid
    using that parse_show_nat [of pid "2 ^ 32 - 1"] by simp
  show ?case
  proof (cases "parse_unsigned (2 ^ 32 - 1) name")
    case None
    with parsed have "name \<noteq> show_nat pid" if "pid < 2 ^ 32" for pid using that by force
    with sees_skip [OF entries IH refl] None e show ?thesis by simp
  next
    case (Some pid0)
    then have name: "name = show_nat pid0" using entries by (auto simp: pid_entries_def)
    have only: "pid = pid0" if "name = show_nat pid" "pid < 2 ^ 32" for pid
      using parsed [OF that(2)] Some that(1) by simp
    show ?thesis
    proof (cases "pid0 \<in> set seen")
      case True
      with only sees_skip [OF entries IH refl, of seen seen] Some e show ?thesis by (simp, metis)
    next
      case False
      show ?thesis
      proof (cases "proc_fds p")
        case None
        have "sees ((name, p) # entries) seen remaining w (scan_processes entries (pid0 # seen) remaining w)"
          by (rule sees_skip [OF entries IH refl]) (use name None in \<open>auto simp: holds_inode_def\<close>)
        with None False Some e show ?thesis by simp
      next
        case fds: (Some fds)
        obtain owns rem' where t: "take_inodes fds remaining = (owns, rem')" by fastforce
        note t' = take_inodes_eq [OF t]
        show ?thesis
        proof (cases owns)
          case True
          with t' have h: "held_inodes fds \<inter> set remaining \<noteq> {}" "set rem' = set remaining - held_inodes fds" by auto
          have "sees entries (pid0 # seen) rem' w (if rem' = [] then [] else scan_processes entries (pid0 # seen) rem' w)
              \<or> rem' = [] \<and> (if rem' = [] then [] else scan_processes entries (pid0 # seen) rem' w) = []"
            using IH by simp
          from sees_take [OF entries name fds h(2,1) this] True False Some fds t e show ?thesis by simp
        next
          case not_owns: False
          with t' have h: "held_inodes fds \<inter> set remaining = {}" "set rem' = set remaining" by auto
          have "sees ((name, p) # entries) seen remaining w (scan_processes entries (pid0 # seen) rem' w)"
            by (rule sees_skip [OF entries IH h(2)]) (use name h(1) fds in \<open>auto simp: holds_inode_def\<close>)
          with not_owns False Some fds t e show ?thesis by simp
        qed
      qed
    qed
  qed
qed

text \<open>
  C99: Which owners of a port are seen on Linux. Every owner that is reported holds a socket
  of the port, and is described as its process is; and every socket of the port that a readable process
  holds has an owner that is reported. But there is at most one owner for a socket, so that of several
  processes which share it one is seen; and a socket whose holders cannot be read has none.
\<close>

theorem port_owners_seen:
  assumes "pid_entries (proc_entries w)" "linux_socket_inodes t port w = Inr inodes"
    "linux_owners self t port w = Inr owners"
  shows "(\<forall>owner \<in> set owners. owner = owner_of (owner_pid owner) w
        \<and> (\<exists>inode \<in> set inodes. entry_holds (proc_entries w) (owner_pid owner) inode))
    \<and> (\<forall>inode \<in> set inodes. \<forall>pid. pid < 2 ^ 32 \<longrightarrow> entry_holds (proc_entries w) pid inode \<longrightarrow>
        (\<exists>owner \<in> set owners. entry_holds (proc_entries w) (owner_pid owner) inode))
    \<and> length owners \<le> card (set inodes) \<and> sorted (map owner_pid owners)"
proof (cases "inodes = []")
  case True
  with assms show ?thesis by (simp add: linux_owners_def)
next
  case False
  define fds where "fds = (case Option.bind (proc_of self w) proc_fds of Some fds \<Rightarrow> fds | None \<Rightarrow> [])"
  obtain owns rem where t: "take_inodes fds inodes = (owns, rem)" by fastforce
  note rem = take_inodes_eq [OF t]
  have self_holds: "entry_holds (proc_entries w) self inode \<longleftrightarrow> inode \<in> held_inodes fds" for inode
    by (auto simp: entry_holds_def holds_inode_def fds_def proc_of_def bind_eq_Some_conv split: option.splits)
  define rest where "rest = scan_processes (proc_entries w) [self] rem w"
  define all where "all = (if owns then [owner_of self w] else []) @ rest"
  have s: "sees (proc_entries w) [self] rem w rest" unfolding rest_def using scan_processes_sees [OF assms(1)] .
  have "rem = [] \<Longrightarrow> rest = []" using s by (simp add: sees_def)
  then have owners: "owners = sort_key owner_pid all"
    using assms(2,3) False t by (auto simp: linux_owners_def fds_def [symmetric] all_def rest_def split: if_splits option.splits)
  have card: "length all \<le> card (set inodes)"
  proof (cases owns)
    case True
    with rem have "card (set rem) < card (set inodes)" by (intro psubset_card_mono) auto
    with s True show ?thesis by (simp add: all_def sees_def)
  next
    case False
    with rem have "set rem = set inodes" by auto
    with s False show ?thesis by (simp add: all_def sees_def)
  qed
  have sound: "owner = owner_of (owner_pid owner) w
      \<and> (\<exists>inode \<in> set inodes. entry_holds (proc_entries w) (owner_pid owner) inode)" if "owner \<in> set all" for owner
    using that s rem self_holds unfolding all_def sees_def by (auto split: if_splits)
  have complete: "\<exists>owner \<in> set all. entry_holds (proc_entries w) (owner_pid owner) inode"
    if i: "inode \<in> set inodes" "pid < 2 ^ 32" "entry_holds (proc_entries w) pid inode" for inode pid
  proof (cases "inode \<in> held_inodes fds")
    case True
    with i(1) rem have "owner_of self w \<in> set all" by (auto simp: all_def)
    moreover have "entry_holds (proc_entries w) (owner_pid (owner_of self w)) inode" using True self_holds by simp
    ultimately show ?thesis by blast
  next
    case False
    with self_holds i(3) have "pid \<noteq> self" by auto
    moreover have "inode \<in> set rem" using False i(1) rem by simp
    ultimately have "\<exists>owner \<in> set rest. entry_holds (proc_entries w) (owner_pid owner) inode"
      using s i(2,3) unfolding sees_def by auto
    then show ?thesis by (auto simp: all_def)
  qed
  show ?thesis using sound complete card unfolding owners by auto
qed

text \<open>
  C99: A ShaPrint window on Linux is never recognised as ShaPrint. The kernel keeps the first
  fifteen bytes of the name of a program, and \<open>shaprint-desktop\<close>, as which the window is installed, has sixteen:
  a port that a stale window holds is not taken from it, and the error calls it another program.
\<close>

theorem desktop_never_reclaimed:
  assumes "proc_of pid w = Some p" "proc_comm p = Some (take 15 (lit ''shaprint-desktop'') @ [10])"
    and "linux_owners self t port w = Inr [owner_of pid w]" "bind_outcome t port w = AddrInUse"
  shows "\<not> is_shaprint (owner_of pid w)
    \<and> bind_safely (linux_inspector self kill_error bind_outcome passes) fuel t port w
      = Some (Inl (conflict_error t port (owner_of pid w)), w)"
proof -
  have "linux_process_name pid w = take 15 (lit ''shaprint-desktop'')"
    using assms(1,2) by (simp add: linux_process_name_def trim_by_def trim_end_by_def is_whitespace_def)
  then have "owner_name (owner_of pid w) = take 15 (lit ''shaprint-desktop'')"
    by (simp add: owner_of_def PortOwner_new_def)
  moreover have "\<not> is_shaprint_name (take 15 (lit ''shaprint-desktop''))" by code_simp
  ultimately have no: "\<not> is_shaprint (owner_of pid w)" by (simp only: is_shaprint_def not_False_eq_True)
  with assms(3,4) show ?thesis
    by (simp add: bind_safely_def reclaim_def inspect_port_def map_err_def linux_inspector_def foreign_owner_def)
qed

end
