(* ===== verification/Machine_Witnesses.thy ===== *)
theory Machine_Witnesses
  imports Daemon_Witnesses Cli_Policy Cli_Effects Port_Policy
begin

text \<open>
  Concrete runs of the properties of the command lines, the diagnostics and the ports: the daemon of the
  other witnesses, and a Linux on which an old daemon holds a port.
\<close>

section \<open>Command lines\<close>

theorem command_line_round_trip_witness:
  "parse_cli_args (full_line [] \<lparr>cli_socket = DEFAULT_SOCKET_PATH, cli_json = True, cli_command = DrainCommand (Some 30)\<rparr>)
    = Inr \<lparr>cli_socket = DEFAULT_SOCKET_PATH, cli_json = True, cli_command = DrainCommand (Some 30)\<rparr>"
  using command_line_round_trip
    [of "\<lparr>cli_socket = DEFAULT_SOCKET_PATH, cli_json = True, cli_command = DrainCommand (Some 30)\<rparr>" "[]"]
  by simp

theorem channel_never_an_argument_witness:
  "parse_cli_args [[], lit ''--secret'' @ 61 # example_channel] = Inl channel_argument"
proof -
  have "scan_cli_args [] scan_start = Inr scan_start" by simp
  from channel_never_an_argument [OF this, of "[]"]
  have all: "\<forall>opt v post. dash_word opt \<longrightarrow> 61 \<notin> set opt \<longrightarrow> opt \<noteq> cli_flag_text TimeoutFlag \<longrightarrow>
      parse_cli_args ([] # [] @ (opt @ 61 # v) # post)
        = Inl (if opt \<in> set secret_options then channel_argument else unrecognized_option opt)" by blast
  have "dash_word (lit ''--secret'')" "61 \<notin> set (lit ''--secret'')" "lit ''--secret'' \<noteq> cli_flag_text TimeoutFlag"
    "lit ''--secret'' \<in> set secret_options"
    by (simp_all add: dash_word_def starts_with_def cli_flag_text_def secret_options_def)
  with all have "parse_cli_args ([] # [] @ (lit ''--secret'' @ 61 # example_channel) # []) = Inl channel_argument" by presburger
  then show ?thesis by simp
qed

section \<open>What a command leaves\<close>

definition example_secrets :: SecretInputs where
  "example_secrets =
     \<lparr>stdin_is_terminal = False, stdin_gives = Inr (as_bytes example_channel), terminal_gives = Inr (Inr []),
      file_gives = (\<lambda>_. Inl []), descriptor_gives = (\<lambda>_. Inl [])\<rparr>"

definition example_probe :: Probe where
  "example_probe =
     \<lparr>probe_owners = (\<lambda>_ _. Inr []), probe_pid = 1, probe_cups = lit ''/run/cups/cups.sock'', probe_cups_exists = True,
      probe_lpstat_ok = False, probe_socket = DEFAULT_SOCKET_PATH, probe_socket_answers = True,
      probe_credential_path = [], probe_credential = Missing, probe_root = False,
      probe_firewall = FirewallTimesOut\<rparr>"

definition example_cli :: "bool \<Rightarrow> ControlCodec \<Rightarrow> CliEnv" where
  "example_cli root codec =
     \<lparr>cli_codec = codec, cli_debug = (\<lambda>_. []), cli_to_json = (\<lambda>_. Inr []), cli_sha256 = example_sha,
      cli_is_root = root, cli_socket_exists = True, cli_secret_io = example_secrets,
      cli_firewall_allows = Inr True, cli_write_error = None, cli_restore_error = None, cli_remove_ok = True,
      cli_probe = example_probe\<rparr>"

definition example_options :: "CliCommand \<Rightarrow> CliOptions" where
  "example_options c = \<lparr>cli_socket = DEFAULT_SOCKET_PATH, cli_json = False, cli_command = c\<rparr>"

definition example_old :: ustr where "example_old = lit ''before''"

definition example_machine :: CliMachine where
  "example_machine = \<lparr>machine_credential = Holds (as_bytes example_old), firewall_asked = False\<rparr>"

theorem failed_channel_change_witness:
  "\<exists>m' disk' nc2. snd (set_channel (example_cli True (answering (NetworkChannelAnswer True)))
        (example_options ChannelStatusCommand) example_channel ReplyTimesOut example_machine) = m'
     \<and> open_with_credential_file example_unhex True (disk'\<lparr>credential_store := machine_credential m'\<rparr>) = Inr nc2
     \<and> authorizes example_sha nc2 example_channel \<and> client_credential nc2 = Some example_old"
proof -
  let ?env = "example_cli True (answering (NetworkChannelAnswer True))" and ?opts = "example_options ChannelStatusCommand"
  let ?disk = "example_channel_disk\<lparr>credential_store := Holds (as_bytes example_channel)\<rparr>"
  obtain nc' disk' where c: "configure example_sha example_hex example_channel_io (Some example_salt)
      example_channel (example_network_channel, ?disk) = (Inr True, nc', disk')"
    by (simp add: configure_def protect_secret_def example_channel_def example_network_channel_def
        example_channel_io_def persist_credential_def persist_verifier_def)
  have env: "on_machine ?env ?opts" "cli_write_error ?env = None" "cli_restore_error ?env = None" "cli_remove_ok ?env"
    by (simp_all add: on_machine_def example_cli_def example_options_def)
  have old: "machine_credential example_machine = Holds (as_bytes example_old)" "wf_ustr example_old"
    "example_old \<noteq> []" "\<not> line_end (last example_old)"
    by (simp_all add: example_machine_def example_old_def is_scalar_def)
  have ask: "ask_daemon ?env (SetNetworkChannel example_channel) ReplyTimesOut
      = Inl (timeout_error (lit ''waiting for shaprintd response timed out''))"
    by (simp add: ask_daemon_def client_call_def client_send_def)
  have channel: "example_channel \<noteq> []" by (simp add: example_channel_def)
  have sides: "has_path example_network_channel" "has_credential_file example_network_channel"
    "systemd_credential example_channel_disk = Missing" "length example_salt = 16"
    by (simp_all add: example_network_channel_def example_channel_disk_def example_salt_def)
  have sha: "length (example_sha bs) = 32" for bs by (simp add: example_sha_def)
  from failed_channel_change [OF env old ask channel c sides example_unhex_hex sha]
  obtain m' nc2 where "set_channel ?env ?opts example_channel ReplyTimesOut example_machine
      = (Inl (timeout_error (lit ''waiting for shaprintd response timed out'')), m')"
    "open_with_credential_file example_unhex True (disk'\<lparr>credential_store := machine_credential m'\<rparr>) = Inr nc2"
    "authorizes example_sha nc2 example_channel" "client_credential nc2 = Some example_old"
    unfolding sum.case by blast
  then show ?thesis by (metis snd_conv)
qed

theorem unprivileged_command_refused_witness:
  "\<exists>e. execute_cli_command (example_cli False (answering (ErrAnswer (app_error_dto e))))
      (example_options (SetPrintersCommand []))
      (Replied (fst (finish_stream (answering (ErrAnswer (app_error_dto e))) (Inl e) False example_daemon))) example_machine
    = (Printed (Inl e), example_machine)"
proof -
  let ?e = "not_authorized (lit ''administrative changes require root privileges (run with sudo)'')"
  let ?codec = "answering (ErrAnswer (app_error_dto ?e))"
  let ?env = "example_cli False ?codec" and ?opts = "example_options (SetPrintersCommand [])"
  have refused: "authorize_mutation RootOnly 1000 (Some 1000) = Inl ?e" by (simp add: authorize_mutation_def)
  have env: "\<not> cli_is_root ?env" "cli_socket_exists ?env" "cli_codec ?env = ?codec" by (simp_all add: example_cli_def)
  have source: "\<forall>source. cli_command ?opts = SetChannelCommand source \<longrightarrow>
      read_secret_input (cli_secret_io ?env) source = Inr example_channel"
    and change: "administrative (requested (cli_command ?opts) example_channel)"
    by (simp_all add: example_options_def administrative_def)
  have keeps: "codec_keeps (cli_codec ?env) (control_response (Inl ?e))"
    unfolding env(3) by (simp only: control_response_def sum.case answering_keeps)
  have short: "length (fst (finish_stream (cli_codec ?env) (Inl ?e) False example_daemon)) \<le> MAX_MESSAGE_BYTES"
    unfolding env(3)
    by (simp add: finish_stream_def answering_def write_json_line_def MAX_MESSAGE_BYTES_def empty_object_def
        as_bytes_def utf8_char_def)
  from unprivileged_command_refused [OF env(1,2) refused source change keeps short, of _ example_machine]
  show ?thesis unfolding env(3) by blast
qed

section \<open>Diagnostics\<close>

theorem healthy_exactly_when_witness:
  "dto_healthy (fst (diagnose_daemon_environment example_probe default_ports
      (Some (example_network_channel\<lparr>channel_verifier := Some \<lparr>verifier_salt = [], verifier_digest = []\<rparr>\<rparr>))
      (Some (example_store [])) None))"
  by (subst healthy_exactly_when)
    (simp add: example_probe_def starts_with_def channel_is_configured_def list_trusted_servers_def refresh_store_def
      read_trust_store_def example_store_def)

section \<open>Ports\<close>

definition example_stat :: ustr where
  "example_stat = lit ''7 (shaprintd) S 1 7 7 0 -1 4194560 1 0 0 0 1 1 0 0 20 0 4 0 900 1''"

definition example_process :: "ustr \<Rightarrow> LinuxProcess" where
  "example_process comm =
     \<lparr>proc_comm = Some (comm @ [10]), proc_stat = Some example_stat, proc_exe = Some (lit ''/usr/bin/shaprintd''),
      proc_fds = Some [lit ''/dev/null'', lit ''socket:[4242]'']\<rparr>"

definition example_row :: ustr where
  "example_row = lit ''0: 00000000:BDF7 00000000:0000 0A 00000000:00000000 00:00000000 00000000 0 0 4242 1''"

definition example_table :: ustr where
  "example_table = lit ''sl'' @ 10 # example_row @ [10]"

definition example_linux :: "ustr \<Rightarrow> Linux" where
  "example_linux comm =
     \<lparr>net_table = (\<lambda>p. if p = lit ''/proc/net/tcp'' then TableText example_table else NoTable),
      proc_error = None, proc_entries = [(show_nat 7, example_process comm)], signalled = [], linux_time_ms = 0\<rparr>"

definition example_passes :: "Linux \<Rightarrow> Linux" where
  "example_passes w = w\<lparr>linux_time_ms := linux_time_ms w + 50\<rparr>"

lemma example_lines: "table_lines example_table = [lit ''sl'', example_row]"
proof -
  have h: "10 \<notin> set (lit ''sl'')" "10 \<notin> set example_row" by (simp_all add: example_row_def)
  have "split_char 10 example_table = [lit ''sl'', example_row, []]"
    unfolding example_table_def split_char_append [OF h(1)] split_char_append [OF h(2)] by simp
  moreover have "strip_suffix (lit ''sl'') [13] = None" "strip_suffix example_row [13] = None"
    by (simp_all add: example_row_def strip_suffix_def strip_prefix_def starts_with_def)
  ultimately show ?thesis by (simp add: table_lines_def Let_def)
qed

lemma example_fields: "split_whitespace example_row
    = [lit ''0:'', lit ''00000000:BDF7'', lit ''00000000:0000'', lit ''0A'', lit ''00000000:00000000'',
       lit ''00:00000000'', lit ''00000000'', lit ''0'', lit ''0'', lit ''4242'', lit ''1'']"
  by (simp add: example_row_def split_whitespace_def is_whitespace_def)

lemma example_row_inode: "table_inode Tcp 48631 example_row = Some 4242"
proof -
  have "rsplit_once (lit ''00000000:BDF7'') [58] = Some (lit ''00000000'', lit ''BDF7'')"
    by (simp add: rsplit_once_def strip_prefix_def starts_with_def)
  moreover have "parse_hex 65535 (lit ''BDF7'') = Some 48631"
    by (simp add: parse_hex_def hex_value_def hex_char_value_def is_ascii_hexdigit_def is_ascii_digit_def)
  moreover have "parse_unsigned (2 ^ 64 - 1) (lit ''4242'') = Some 4242"
    by (simp add: parse_unsigned_def digits_value_def is_ascii_digit_def)
  ultimately show ?thesis by (simp add: table_inode_def example_fields slice_at_def)
qed

lemma example_inodes: "linux_socket_inodes Tcp 48631 (example_linux comm) = Inr [4242]"
  by (simp add: linux_socket_inodes_def table_paths_def example_linux_def example_lines map_filter_simps
      example_row_inode)

lemma example_owners: "linux_owners 2 Tcp 48631 (example_linux comm) = Inr [owner_of 7 (example_linux comm)]"
proof -
  have "show_nat 2 \<noteq> show_nat 7" using digits_value_show_nat [of 2] digits_value_show_nat [of 7] by auto
  then have none: "proc_of 2 (example_linux comm) = None" by (simp add: proc_of_def example_linux_def)
  have pid: "parse_unsigned (2 ^ 32 - 1) (show_nat 7) = Some 7" by (rule parse_show_nat) simp
  have "socket_inode (lit ''/dev/null'') = None" "socket_inode (lit ''socket:[4242]'') = Some 4242"
    by (simp_all add: socket_inode_def strip_prefix_def strip_suffix_def starts_with_def parse_unsigned_def
        digits_value_def is_ascii_digit_def)
  then have take: "take_inodes [lit ''/dev/null'', lit ''socket:[4242]''] [4242] = (True, [])" by simp
  have entries: "proc_entries (example_linux comm) = [(show_nat 7, example_process comm)]"
    "proc_error (example_linux comm) = None" by (simp_all add: example_linux_def)
  have fds: "proc_fds (example_process comm) = Some [lit ''/dev/null'', lit ''socket:[4242]'']"
    by (simp only: example_process_def LinuxProcess.simps)
  have "scan_processes [(show_nat 7, example_process comm)] [2] [4242] (example_linux comm)
      = [owner_of 7 (example_linux comm)]"
    by (simp only: scan_processes.simps pid fds take option.case prod.case) simp
  then show ?thesis by (simp add: linux_owners_def example_inodes none entries)
qed

lemma example_entries: "pid_entries (proc_entries (example_linux comm))"
  using digits_value_show_nat by (auto simp: pid_entries_def example_linux_def parse_show_nat)

theorem unrelated_never_terminated_witness:
  "\<exists>r w'. bind_safely (linux_inspector 2 (\<lambda>_. None) (\<lambda>_ _ _. AddrInUse) example_passes) 61 Tcp 48631
      (example_linux (lit ''shaprintd'')) = Some (r, w') \<and> set (signalled w') \<subseteq> {7}"
proof -
  have "linux_time_ms w + DEFAULT_POLL_INTERVAL \<le> linux_time_ms (example_passes w)" for w
    by (simp add: example_passes_def DEFAULT_POLL_INTERVAL_def)
  from unrelated_never_terminated [OF this, of 2 "\<lambda>_. None" "\<lambda>_ _ _. AddrInUse" Tcp 48631
      "example_linux (lit ''shaprintd'')"]
  obtain r w' where r: "bind_safely (linux_inspector 2 (\<lambda>_. None) (\<lambda>_ _ _. AddrInUse) example_passes) 61 Tcp 48631
      (example_linux (lit ''shaprintd'')) = Some (r, w')"
    and s: "signalled w' = signalled (example_linux (lit ''shaprintd'')) \<or>
       (\<exists>owners new. linux_owners 2 Tcp 48631 (example_linux (lit ''shaprintd'')) = Inr owners
         \<and> signalled w' = new @ signalled (example_linux (lit ''shaprintd''))
         \<and> (\<forall>pid \<in> set new. \<exists>owner \<in> set owners. owner_pid owner = pid))" by blast
  have "signalled (example_linux (lit ''shaprintd'')) = []" by (simp add: example_linux_def)
  with s have "set (signalled w') \<subseteq> {7}" unfolding example_owners by auto
  with r show ?thesis by blast
qed

theorem port_owners_seen_witness:
  "\<exists>owners. linux_owners 2 Tcp 48631 (example_linux (lit ''shaprintd'')) = Inr owners \<and> length owners \<le> 1"
  using port_owners_seen [OF example_entries example_inodes example_owners] example_owners by auto

theorem desktop_never_reclaimed_witness:
  "\<exists>e w. bind_safely (linux_inspector 2 (\<lambda>_. None) (\<lambda>_ _ _. AddrInUse) example_passes) 61 Tcp 48631
      (example_linux (take 15 (lit ''shaprint-desktop''))) = Some (Inl e, w) \<and> signalled w = []"
proof -
  let ?comm = "take 15 (lit ''shaprint-desktop'')"
  have "proc_of 7 (example_linux ?comm) = Some (example_process ?comm)" "signalled (example_linux ?comm) = []"
    by (simp_all add: proc_of_def example_linux_def)
  moreover have "proc_comm (example_process ?comm) = Some (?comm @ [10])" by (simp add: example_process_def)
  ultimately show ?thesis
    using desktop_never_reclaimed [OF _ _ example_owners, of ?comm "example_process ?comm" "\<lambda>_ _ _. AddrInUse"]
    by blast
qed

end
