(* ===== verification/Spec2Isabelle.thy ===== *)
theory Spec2Isabelle
  imports Witnesses Trust_Witnesses Domain_Service Updater Proxy_Witnesses Server_Witnesses
    Service_Lifecycle Application_Witnesses Discovery_Flow Machine_Witnesses
begin

text \<open>
  ShaPrint shares the printers of one machine with others over IPPS. The desktop program
  (\<open>src/apps/desktop/src-tauri/src\<close>, Rust) is server and client in one: the server announces itself
  by multicast DNS, answers IPP requests over TLS and prints what it is sent; the client discovers a
  server, lets the user review and approve its certificate (trust on first use), installs local
  print queues that point at a loopback proxy, and forwards what the spooler sends there to the
  approved server. This development models the logic of that program that does not depend on the
  operating system, and proves what makes it correct.

  The paths below are relative to \<open>src/apps/desktop/src-tauri/src\<close>.

  \<^bold>\<open>The library.\<close> \<open>Rust_Prelude\<close> (results, options, slices, big-endian words), \<open>Rust_Text\<close> (UTF-8,
  strict and lossy), \<open>Rust_Str\<close> (the string operations of the standard library), \<open>Rust_Net\<close> (IP
  addresses) and \<open>Key_Map\<close> (the ordered map, behind the locale \<open>key_map\<close>) model what the code uses of
  the language and its standard library. A string is a list of Unicode scalar values, so that lengths
  in characters and in bytes (\<open>str_len\<close>) stay apart; bytes and wire integers are words, so that
  their wrap-around is the machine's.

  \<^bold>\<open>The domain\<close> (\<open>domain/\<close>). \<open>Domain_Error\<close> (\<open>error.rs\<close>, \<open>text.rs\<close>), \<open>Domain_Printer\<close>
  (\<open>printer.rs\<close>, \<open>discovery.rs\<close>, \<open>identity.rs\<close>), \<open>Domain_Service\<close> (\<open>service.rs\<close>, with the
  reachable states of a service) and \<open>Client_Queue\<close> (\<open>queue.rs\<close>: names, requests, and the
  classification of what a spooler reports).

  \<^bold>\<open>Addresses and queues.\<close> \<open>Percent_Codec\<close> models the two percent decoders of the program and shows,
  through the locale \<open>percent_decoder\<close> interpreted on both, that each inverts the encoder.
  \<open>Server_Address\<close> (\<open>adapters/client_connections.rs\<close>, \<open>adapters/client_proxy.rs\<close>,
  \<open>adapters/queue_installation/mod.rs\<close>) parses server addresses, builds the URI of an installed queue
  and routes it back. \<open>Queue_Routing\<close> holds their composition: what is installed is recognised and
  routed back.

  \<^bold>\<open>Discovery.\<close> \<open>Mdns_Wire\<close> (\<open>adapters/discovery/wire.rs\<close>) is the packet reader, with name
  compression, and the encoder; \<open>Mdns_Roundtrip\<close> composes them. The reader follows at most
  \<open>MAX_NAME_JUMPS\<close> compression pointers and otherwise advances, which is its termination measure.

  \<^bold>\<open>IPP\<close> (\<open>adapters/ipps/protocol.rs\<close>). \<open>Media_Catalog\<close>, \<open>Ipp_Message\<close> (the request parser and its
  accessors), \<open>Ipp_Response\<close> (printer and job responses), \<open>Ipp_Proxy\<close> (rewriting by the loopback
  proxy, and the client's reading of a printer list). \<open>Ipp_Codec\<close> states, in the locale
  \<open>field_codec\<close>, what it takes for a writer and a reader of a field to fit, and derives from it that
  written attributes are read back; \<open>Ipp_Listing\<close> composes server and client;
  \<open>Ipp_Forwarding\<close> and \<open>Ipp_Answer\<close> describe a message as a list of items and show what the proxy
  keeps and what it changes.

  \<^bold>\<open>Trust.\<close> \<open>Trust_Store\<close> (\<open>adapters/client_connections.rs\<close>) is the store of approved certificates
  and every operation that contacts a server. The state is the approvals in memory and the file on
  disk; an operation returns its result, the new state and the bytes it wrote to the network.
  \<open>Trust_Policy\<close> shows that nothing is written to a server whose certificate is not the saved one,
  and that the store stays well formed.

  \<^bold>\<open>The application layer.\<close> \<open>Job_Tracker\<close> (\<open>application/job_tracker.rs\<close>) counts the leases of requests
  and jobs and hands out restart permits; its runs are sequences of actions with a clock, and the
  locale \<open>restart_guard\<close> states what a permit promises. \<open>Updater\<close>
  (\<open>application/updater.rs\<close> and the restart worker of \<open>lib.rs\<close>) splits a check at its await
  points, so that the invariant of the offered update speaks about interleaved tasks.
  \<open>Print_Failure\<close> (\<open>domain/failure.rs\<close>, \<open>application/failures.rs\<close>) is what the user is told.

  \<^bold>\<open>The runtime.\<close> \<open>Service_Registry\<close> is the published status of the background services,
  \<open>Runtime_Coordinator\<close> (\<open>application/coordinator.rs\<close>, \<open>application/runtime.rs\<close>) starts,
  supervises and stops them. An operation is split at its awaits; what it waits for is a pending
  operation, and a run is a sequence of calls, resumptions and events of the tasks. What happens
  between two awaits is one step, which is coarser than the threads of the program.
  \<open>Coordinator_Safety\<close> has the invariants of every run, \<open>Service_Lifecycle\<close> what the coordinator
  promises and two orders of events in which it does not keep it.

  \<^bold>\<open>The local proxy\<close> (\<open>adapters/client_proxy.rs\<close>). \<open>Proxy_Http\<close> is its HTTP framing over a connection
  of given bytes; \<open>Client_Proxy\<close> is \<open>serve_client\<close>, with the leases, the pending multi-step jobs,
  the failure record and the trust store it works on; \<open>Proxy_Policy\<close> shows that no lease is lost, that
  only routed and prepared requests reach a server, and that no failed job is silent.

  \<^bold>\<open>The sharing endpoint\<close> (\<open>adapters/ipps/\<close>). \<open>Server_Http\<close> (\<open>http.rs\<close>) reads a request head from a
  sequence of buffers; \<open>Http_Exchange\<close> shows that it reads what the client posts, and the client what
  it answers. \<open>Network_Channel\<close> (\<open>channel.rs\<close>, the Linux build) is the verifier and the credential of
  the shared channel with their files. \<open>Print_Settings\<close> (\<open>application/printers.rs\<close>, \<open>job_settings\<close>)
  reads a job's settings; \<open>Job_Store\<close> (\<open>endpoint.rs\<close>) keeps the multi-step jobs with their leases
  and its invariant; \<open>Sharing_Endpoint\<close> (\<open>endpoint.rs\<close>, \<open>mod.rs\<close>) is the answer to one request.
  \<open>Endpoint_Policy\<close> shows that no lease is lost and that only authorized documents reach the spooler;
  \<open>Print_Path\<close> follows one job from the spooler of the client to the queue of the server and its
  answer back. \<open>Map_Contents\<close> counts what an ordered map holds, for the leases in both stores.

  \<open>Witnesses\<close>, \<open>Trust_Witnesses\<close>, \<open>Proxy_Witnesses\<close> and \<open>Server_Witnesses\<close> run the properties that have
  hypotheses on one concrete installation.

  \<^bold>\<open>Parameters.\<close> Code outside the repository is an argument of the model: SHA-256 (crate \<open>sha2\<close>), the
  clock, the network (what dialling an address yields, and what a server answers), the \<open>hex\<close> crate and
  the spooler a job is submitted to. No property
  assumes more of them than its statement says.

  \<^bold>\<open>Loops.\<close> Every loop of the code that is modelled is a total function: each reads at least one
  byte per round, or counts down (\<open>next_id\<close> tries one identifier more than the store can hold, which is
  shown to be enough). No fuel is used.

  \<^bold>\<open>Not modelled.\<close> Process supervision (\<open>adapters/daemon.rs\<close>), privilege elevation, the Windows and
  CUPS spoolers and the queue installers consist of operating system calls; the Tauri shell, its
  data transfer objects, the React frontend and the Android client (a Kotlin program of its own) are
  outside the core logic. Reading a media size written as a decimal number uses 64-bit floats
  (\<open>adapters/printers/media.rs\<close>, \<open>parse_media_dimensions\<close>), which the model leaves out.
\<close>

end
